(* ===== verification/Prelude.thy ===== *)
theory Prelude
  imports Main "HOL-Library.Finite_Map" "HOL-Library.State_Monad" "HOL-Library.Sublist"
    "HOL-Library.Multiset"
begin

text \<open>
  Shared vocabulary of the development. It holds
  \<^item> Go's string helpers that the operator calls (\<open>strings.HasPrefix\<close>, \<open>strings.Contains\<close>,
    \<open>strings.TrimSpace\<close>, \<open>strings.Trim\<close>, \<open>strings.Split\<close>);
  \<^item> Go's error values: an API-server status error with a reason, or a formatted error that
    wraps others, with \<open>errors.As\<close>-style search through the wrapping;
  \<^item> the effect type: a computation over an abstract world \<open>'w\<close> is a \<open>('w, 'a) state\<close> of
    HOL-Library, and a Go result \<open>(T, error)\<close> is a sum, a bare \<open>error\<close> an option;
  \<^item> the collections of facts used by the component theories and generic lemmas on
    association lists, finite maps and sequences of effectful tasks.
\<close>

named_theorems go_const \<open>definitions of the operator's string and number constants\<close>
named_theorems go_run \<open>how the effectful operations run\<close>

type_synonym gmap = "(string, string) fmap"
type_synonym ('w, 'a) io = "('w, 'a) state"

abbreviation ret :: "'a \<Rightarrow> ('w, 'a) io" where
  "ret \<equiv> State_Monad.return"

section \<open>Go strings\<close>

definition HasPrefix :: "string \<Rightarrow> string \<Rightarrow> bool" where
  "HasPrefix s p = prefix p s"

fun str_contains :: "string \<Rightarrow> string \<Rightarrow> bool" where
  "str_contains [] p = (p = [])"
| "str_contains (c # s) p = (prefix p (c # s) \<or> str_contains s p)"

text \<open>White space of \<open>strings.TrimSpace\<close>, for ASCII text.\<close>

definition is_space :: "char \<Rightarrow> bool" where
  "is_space c = (of_char c \<in> {9, 10, 11, 12, 13, 32 :: nat})"

definition trim_by :: "(char \<Rightarrow> bool) \<Rightarrow> string \<Rightarrow> string" where
  "trim_by p s = rev (dropWhile p (rev (dropWhile p s)))"

definition TrimSpace :: "string \<Rightarrow> string" where
  "TrimSpace = trim_by is_space"

text \<open>\<open>strings.Split\<close> by one character; the result is never empty.\<close>

fun split_on :: "char \<Rightarrow> string \<Rightarrow> string list" where
  "split_on d [] = [[]]"
| "split_on d (c # s) =
     (if c = d then [] # split_on d s
      else (case split_on d s of [] \<Rightarrow> [[c]] | w # ws \<Rightarrow> (c # w) # ws))"

fun join_with :: "string \<Rightarrow> string list \<Rightarrow> string" where
  "join_with sep [] = []"
| "join_with sep [s] = s"
| "join_with sep (s # ss) = s @ sep @ join_with sep ss"

text \<open>
  \<open>path.Join\<close>: the non-empty elements with a slash between them, cleaned. Cleaning drops empty and
  \<open>.\<close> elements and resolves \<open>..\<close>, which goes above the start of a relative path only.
\<close>

fun clean_elems :: "bool \<Rightarrow> string list \<Rightarrow> string list \<Rightarrow> string list" where
  "clean_elems rooted [] acc = rev acc"
| "clean_elems rooted (p # ps) acc =
     (if p = [] \<or> p = ''.'' then clean_elems rooted ps acc
      else if p \<noteq> ''..'' then clean_elems rooted ps (p # acc)
      else case acc of
        [] \<Rightarrow> clean_elems rooted ps (if rooted then [] else [''..''])
      | q # qs \<Rightarrow> (if q = ''..'' then clean_elems rooted ps (''..'' # acc) else clean_elems rooted ps qs))"

definition path_clean :: "string \<Rightarrow> string" where
  "path_clean p = (let rooted = (p \<noteq> [] \<and> hd p = CHR ''/'');
       c = (if rooted then ''/'' else []) @ join_with ''/'' (clean_elems rooted (split_on CHR ''/'' p) []) in
     if c = [] then ''.'' else c)"

definition path_join :: "string list \<Rightarrow> string" where
  "path_join es = (case filter (\<lambda>e. e \<noteq> []) es of [] \<Rightarrow> [] | xs \<Rightarrow> path_clean (join_with ''/'' xs))"

text \<open>Decimal notation, \<open>%d\<close> and \<open>strconv.Itoa\<close>.\<close>

fun nat_to_string :: "nat \<Rightarrow> string" where
  "nat_to_string n = (if n < 10 then [char_of (48 + n)]
     else nat_to_string (n div 10) @ [char_of (48 + n mod 10)])"

declare nat_to_string.simps [simp del]

definition int_to_string :: "int \<Rightarrow> string" where
  "int_to_string i = (if i < 0 then CHR ''-'' # nat_to_string (nat (- i)) else nat_to_string (nat i))"

lemma str_contains_iff: "str_contains s p \<longleftrightarrow> (\<exists>a b. s = a @ p @ b)"
proof (induction s)
  case Nil
  then show ?case by auto
next
  case (Cons c s)
  have "(\<exists>a b. c # s = a @ p @ b) \<longleftrightarrow> prefix p (c # s) \<or> (\<exists>a b. s = a @ p @ b)"
    by (auto simp: prefix_def Cons_eq_append_conv intro: exI [of _ "[]"])
  then show ?case using Cons by simp
qed

lemma split_on_ne [simp]: "split_on d s \<noteq> []"
  by (induction s) (auto split: list.splits)

lemma length_trim_by: "length (trim_by p s) \<le> length s"
  unfolding trim_by_def by (metis length_dropWhile_le length_rev le_trans)

lemma set_dropWhile: "set (dropWhile p s) \<subseteq> set s"
  by (induction s) auto

lemma set_trim_by: "set (trim_by p s) \<subseteq> set s"
  unfolding trim_by_def using set_dropWhile by (metis (no_types, lifting) set_rev subset_trans)

lemma hd_trim_by: "trim_by p s \<noteq> [] \<Longrightarrow> \<not> p (hd (trim_by p s))"
proof -
  let ?t = "dropWhile p s"
  assume ne: "trim_by p s \<noteq> []"
  obtain z where z: "rev ?t = takeWhile p (rev ?t) @ dropWhile p (rev ?t)" by simp
  then have "?t = trim_by p s @ rev (takeWhile p (rev ?t))"
    unfolding trim_by_def by (metis rev_append rev_rev_ident)
  then have "hd ?t = hd (trim_by p s)" and "?t \<noteq> []"
    using ne by (metis hd_append2) (metis \<open>?t = _\<close> append_is_Nil_conv ne)
  then show ?thesis using hd_dropWhile by metis
qed

lemma last_trim_by: "trim_by p s \<noteq> [] \<Longrightarrow> \<not> p (last (trim_by p s))"
  unfolding trim_by_def by (simp add: last_rev hd_dropWhile)

section \<open>Go errors\<close>

datatype api_reason = NotFound | Conflict | Forbidden | AlreadyExists | Timeout | OtherReason

datatype goerr = ApiError api_reason string | Errorf string "goerr list"

fun err_msg :: "goerr \<Rightarrow> string" where
  "err_msg (ApiError r m) = m"
| "err_msg (Errorf m es) = m"

text \<open>\<open>apierrors.IsNotFound\<close> and its kin look for a status error along the wrapping.\<close>

fun has_reason :: "api_reason \<Rightarrow> goerr \<Rightarrow> bool" where
  "has_reason r (ApiError r' m) = (r = r')"
| "has_reason r (Errorf m es) = (\<exists>e \<in> set es. has_reason r e)"

abbreviation IsNotFound :: "goerr \<Rightarrow> bool" where
  "IsNotFound \<equiv> has_reason NotFound"

abbreviation IsConflict :: "goerr \<Rightarrow> bool" where
  "IsConflict \<equiv> has_reason Conflict"

abbreviation IsForbidden :: "goerr \<Rightarrow> bool" where
  "IsForbidden \<equiv> has_reason Forbidden"

text \<open>\<open>fmt.Errorf("msg: %w", err)\<close> and \<open>errors.New\<close>.\<close>

definition wrapf :: "string \<Rightarrow> goerr \<Rightarrow> goerr" where
  "wrapf msg e = Errorf (msg @ '': '' @ err_msg e) [e]"

definition newerr :: "string \<Rightarrow> goerr" where
  "newerr msg = Errorf msg []"

text \<open>\<open>errors.Join\<close>: the messages on lines of their own, every error still reachable.\<close>

fun join_lines :: "string list \<Rightarrow> string" where
  "join_lines [] = []"
| "join_lines [s] = s"
| "join_lines (s # ss) = s @ [CHR 0x0A] @ join_lines ss"

definition errors_join :: "goerr list \<Rightarrow> goerr" where
  "errors_join es = Errorf (join_lines (map err_msg es)) es"

lemma has_reason_wrapf [simp]: "has_reason r (wrapf m e) = has_reason r e"
  by (simp add: wrapf_def)

lemma has_reason_newerr [simp]: "\<not> has_reason r (newerr m)"
  by (simp add: newerr_def)

lemma has_reason_errors_join [simp]:
  "has_reason r (errors_join es) \<longleftrightarrow> (\<exists>e \<in> set es. has_reason r e)"
  by (simp add: errors_join_def)

section \<open>Running effects\<close>

lemma run_bind_pair: "run_state m w = (a, w') \<Longrightarrow>
    run_state (State_Monad.bind m f) w = run_state (f a) w'"
  by simp

text \<open>Run \<open>f\<close> on every element in order, collecting the results.\<close>

fun mapM_io :: "('a \<Rightarrow> ('w, 'b) io) \<Rightarrow> 'a list \<Rightarrow> ('w, 'b list) io" where
  "mapM_io f [] = ret []"
| "mapM_io f (x # xs) = do { y \<leftarrow> f x; ys \<leftarrow> mapM_io f xs; ret (y # ys) }"

lemma length_mapM_io: "length (fst (run_state (mapM_io f xs) w)) = length xs"
  by (induction xs arbitrary: w) (auto split: prod.splits simp: prod.case_eq_if)

text \<open>A Go loop over calls that return an error and stop at the first one.\<close>

fun for_each :: "('a \<Rightarrow> ('w, goerr option) io) \<Rightarrow> 'a list \<Rightarrow> ('w, goerr option) io" where
  "for_each f [] = ret None"
| "for_each f (x # xs) = do {
     e \<leftarrow> f x;
     case e of Some err \<Rightarrow> ret (Some err) | None \<Rightarrow> for_each f xs }"

text \<open>\<open>if err := m(); err != nil { return err }; return k()\<close>\<close>

definition and_then :: "('w, goerr option) io \<Rightarrow> ('w, goerr option) io \<Rightarrow> ('w, goerr option) io" where
  "and_then m k = do { e \<leftarrow> m; case e of Some err \<Rightarrow> ret (Some err) | None \<Rightarrow> k }"

text \<open>\<open>x, err := m(); if err != nil { return wrap(err) }; return k(x)\<close>\<close>

definition try_or :: "('w, goerr + 'a) io \<Rightarrow> (goerr \<Rightarrow> goerr) \<Rightarrow>
    ('a \<Rightarrow> ('w, goerr option) io) \<Rightarrow> ('w, goerr option) io" where
  "try_or m wrap k = do { x \<leftarrow> m; case x of Inl e \<Rightarrow> ret (Some (wrap e)) | Inr a \<Rightarrow> k a }"

lemma and_then_ret [simp]: "and_then (ret None) k = k"
  by (simp add: and_then_def)

lemma for_each_Cons: "for_each f (x # xs) = and_then (f x) (for_each f xs)"
  by (simp add: and_then_def)

lemma for_each_append: "for_each f (xs @ ys) = and_then (for_each f xs) (for_each f ys)"
  by (induction xs) (simp_all add: and_then_def option.case_distrib [of "\<lambda>m. State_Monad.bind m h" for h]
      cong: option.case_cong)

text \<open>A computation whose every run keeps \<open>P\<close> of the world.\<close>

definition keeps :: "('w \<Rightarrow> 'w \<Rightarrow> bool) \<Rightarrow> ('w, 'a) io \<Rightarrow> bool" where
  "keeps R m = (\<forall>w. R w (snd (run_state m w)))"

lemma keeps_ret [simp, intro]: "reflp R \<Longrightarrow> keeps R (ret x)"
  by (simp add: keeps_def reflpD)

lemma keeps_bind [intro]:
  assumes "transp R" "keeps R m" "\<And>a. keeps R (f a)"
  shows "keeps R (State_Monad.bind m f)"
  using assms unfolding keeps_def
  by (auto split: prod.splits) (metis snd_conv transpE)

lemma keeps_mapM_io:
  assumes "reflp R" "transp R" "\<And>x. keeps R (f x)"
  shows "keeps R (mapM_io f xs)"
  by (induction xs) (auto intro!: keeps_bind assms keeps_ret)

section \<open>Association lists as Go maps built in a loop\<close>

text \<open>\<open>m := make(map[string]T); for _, v := range l { m[key v] = v }\<close>\<close>

definition build_map :: "('a \<Rightarrow> 'k) \<Rightarrow> 'a list \<Rightarrow> ('k, 'a) fmap" where
  "build_map k l = fold (\<lambda>v m. fmupd (k v) v m) l fmempty"

lemma fold_fmupd_lookup:
  "fmlookup (fold (\<lambda>v m. fmupd (k v) v m) l m0) x =
     (case map_of (rev (map (\<lambda>v. (k v, v)) l)) x of None \<Rightarrow> fmlookup m0 x | Some v \<Rightarrow> Some v)"
  by (induction l arbitrary: m0) (auto simp: map_add_def split: option.splits)

lemma build_map_lookup: "fmlookup (build_map k l) x = map_of (rev (map (\<lambda>v. (k v, v)) l)) x"
  by (auto simp: build_map_def fold_fmupd_lookup split: option.splits)

lemma build_map_SomeD: "fmlookup (build_map k l) x = Some v \<Longrightarrow> v \<in> set l \<and> k v = x"
  unfolding build_map_lookup by (auto dest!: map_of_SomeD)

lemma build_map_None: "fmlookup (build_map k l) x = None \<longleftrightarrow> x \<notin> k ` set l"
  unfolding build_map_lookup map_of_eq_None_iff by (auto simp: image_image)

lemma build_map_distinct:
  assumes "distinct (map k l)" "v \<in> set l"
  shows "fmlookup (build_map k l) (k v) = Some v"
proof -
  have "distinct (map fst (rev (map (\<lambda>v. (k v, v)) l)))"
    using assms(1) by (simp add: rev_map [symmetric] comp_def)
  then show ?thesis
    unfolding build_map_lookup using assms(2)
    by (intro map_of_is_SomeI) auto
qed

lemma fmdom_build_map: "fset (fmdom (build_map k l)) = k ` set l"
proof (rule set_eqI)
  fix x
  show "x \<in> fset (fmdom (build_map k l)) \<longleftrightarrow> x \<in> k ` set l"
    using build_map_None [of k l x] by (cases "fmlookup (build_map k l) x") (auto simp: fmlookup_dom_iff)
qed

end
