(* ===== verification/Kube.thy ===== *)
theory Kube
  imports Prelude Complex_Main
begin

text \<open>
  The Kubernetes data the operator reads and writes, and the operations it calls on the
  cluster. The API server is not part of the repository: its operations are the fields of
  the record \<open>client\<close>, functions on an abstract world \<open>'w\<close>, and every definition that talks to
  the cluster takes such a record. What the code relies on is the predicate \<open>api_ok\<close> (reads
  return what is stored, successful writes store the object under its key and nothing else).
  \<open>mem_client\<close>, a finite map with those operations, shows that the predicate can hold.

  Objects keep the fields the operator's code looks at. \<open>nil\<close> and empty maps or slices are
  distinguished (by \<open>option\<close>) exactly where some code of the operator distinguishes them.
  Quantities are numbers of milli-units, so that equal quantities are equal values, as
  \<open>apiequality.Semantic.DeepEqual\<close> has it.
\<close>

section \<open>Pods, containers, deployments\<close>

record container_port =
  cp_name :: string
  cp_port :: int
  cp_protocol :: string

datatype env_source = SecretKeyRef string string "bool option" | FieldRef string

record env_var =
  ev_name :: string
  ev_value :: string
  ev_from :: "env_source option"

record volume_mount =
  vm_name :: string
  vm_path :: string
  vm_subpath :: string
  vm_readonly :: bool

datatype probe_handler = HTTPGet string string string | ExecProbe "string list" | NoHandler

record probe =
  pr_handler :: probe_handler
  pr_initial :: int
  pr_timeout :: int
  pr_period :: int
  pr_success :: int
  pr_failure :: int
  pr_grace :: "int option"

record sec_ctx =
  sc_escalation :: "bool option"
  sc_readonly_fs :: "bool option"
  sc_non_root :: "bool option"
  sc_seccomp :: "string option"
  sc_drop :: "string list"

record resources =
  rs_limits :: "(string, int) fmap"
  rs_requests :: "(string, int) fmap"
  rs_claims :: "string list"

record toleration =
  to_key :: string
  to_operator :: string
  to_value :: string
  to_effect :: string

record container =
  c_name :: string
  c_image :: string
  c_ports :: "container_port list"
  c_env :: "env_var list"
  c_command :: "string list"
  c_args :: "string list"
  c_mounts :: "volume_mount list"
  c_resources :: resources
  c_secctx :: "sec_ctx option"
  c_pull :: string
  c_liveness :: "probe option"
  c_readiness :: "probe option"
  c_startup :: "probe option"
  c_lifecycle :: "string list option"

record vol_file_source =
  vs_name :: string
  vs_mode :: "int option"
  vs_items :: "(string \<times> string) list"

record volume =
  v_name :: string
  v_secret :: "vol_file_source option"
  v_configmap :: "vol_file_source option"
  v_emptydir :: "string option"
  v_pvc :: "string option"
  v_sizelimit :: "int option"

record pod_spec =
  po_containers :: "container list"
  po_init :: "container list"
  po_volumes :: "volume list"
  po_service_account :: string
  po_node_selector :: "gmap option"
  po_tolerations :: "toleration list option"
  po_grace :: "int option"
  po_secctx :: "sec_ctx option"
  po_automount :: "bool option"
  po_pull_secrets :: "string list"

record strategy =
  st_type :: string
  st_rolling :: "(string option \<times> string option) option"

record deployment_spec =
  d_replicas :: "int option"
  d_selector :: "gmap option"
  d_tmpl_labels :: gmap
  d_tmpl_annotations :: "gmap option"
  d_pod :: pod_spec
  d_strategy :: strategy
  d_history :: "int option"
  d_deadline :: "int option"

definition zero_pod :: pod_spec where
  "zero_pod = \<lparr>po_containers = [], po_init = [], po_volumes = [], po_service_account = [],
     po_node_selector = None, po_tolerations = None, po_grace = None, po_secctx = None,
     po_automount = None, po_pull_secrets = []\<rparr>"

definition zero_deployment :: deployment_spec where
  "zero_deployment = \<lparr>d_replicas = None, d_selector = None, d_tmpl_labels = fmempty,
     d_tmpl_annotations = None, d_pod = zero_pod, d_strategy = \<lparr>st_type = [], st_rolling = None\<rparr>,
     d_history = None, d_deadline = None\<rparr>"

section \<open>Other workload objects\<close>

record service_port =
  sp_name :: string
  sp_protocol :: string
  sp_port :: int
  sp_target :: string

record service_spec =
  ss_selector :: gmap
  ss_ports :: "service_port list"
  ss_cluster_ip :: string

record label_selector =
  ls_labels :: gmap
  ls_exprs :: "(string \<times> string \<times> string list) list"

record np_peer =
  pe_pods :: "label_selector option"
  pe_namespaces :: "label_selector option"

record np_rule =
  ru_from :: "np_peer list"
  ru_ports :: "(string \<times> int) list"

record np_spec =
  np_pods :: label_selector
  np_ingress :: "np_rule list"
  np_egress :: "np_rule list"
  np_types :: "string list"

record sm_endpoint =
  se_port :: string
  se_path :: string
  se_interval :: string
  se_scheme :: string
  se_ca :: string
  se_cert :: string
  se_key :: string
  se_insecure :: bool
  se_server_name :: string
  se_auth :: "(string \<times> string \<times> string) option"

record sm_spec =
  sm_endpoints :: "sm_endpoint list"
  sm_job_label :: string
  sm_selector :: gmap

record rbac_rule =
  rr_groups :: "string list"
  rr_resources :: "string list"
  rr_names :: "string list"
  rr_verbs :: "string list"

record rbac_subject =
  su_kind :: string
  su_name :: string
  su_namespace :: string

record plugin_proxy =
  px_alias :: string
  px_auth :: string
  px_service :: "string \<times> string \<times> int"
  px_ca :: string

record plugin_spec =
  pl_display :: string
  pl_backend :: "string \<times> string \<times> int \<times> string"
  pl_i18n :: string
  pl_proxies :: "plugin_proxy list"

record rule_group =
  gr_name :: string
  gr_rules :: "(string \<times> string \<times> gmap) list"

record image_tag =
  tg_name :: string
  tg_from :: "string \<times> string"
  tg_scheduled :: bool
  tg_policy :: string

record TLSProfileSpec =
  tp_Ciphers :: "string list"
  tp_MinTLSVersion :: string

record TLSSecurityProfile =
  sp_Type :: string
  sp_Custom :: "TLSProfileSpec option"

section \<open>Pod status\<close>

record term_state =
  te_reason :: string
  te_message :: string
  te_exit :: int

record container_status =
  cs_name :: string
  cs_ready :: bool
  cs_running :: bool
  cs_waiting :: "(string \<times> string) option"
  cs_terminated :: "term_state option"
  cs_last_terminated :: "term_state option"

record pod_condition =
  pc_type :: string
  pc_status :: string
  pc_reason :: string
  pc_message :: string

record pod_status =
  st_containers :: "container_status list"
  st_init :: "container_status list"
  st_conditions :: "pod_condition list"
  st_phase :: string
  st_message :: string

section \<open>Structured documents\<close>

text \<open>
  What the code gives to \<open>yaml.Marshal\<close> and \<open>json.Marshal\<close> or gets from \<open>json.Unmarshal\<close>. The
  entries of a struct or map are listed without the ones left out as empty; numbers are rationals.
\<close>

datatype doc = DStr string | DNum rat | DBool bool | DNull | DList "doc list" | DMap "(string \<times> doc) list"

fun doc_get :: "doc \<Rightarrow> string \<Rightarrow> doc option" where
  "doc_get (DMap m) k = map_of m k"
| "doc_get _ k = None"

record tls_library =
  tl_default :: TLSProfileSpec
  tl_profiles :: "string \<Rightarrow> TLSProfileSpec option"

section \<open>Object metadata\<close>

record owner_ref =
  ow_kind :: string
  ow_apiversion :: string
  ow_uid :: string
  ow_controller :: bool

record objmeta =
  m_name :: string
  m_namespace :: string
  m_labels :: gmap
  m_annotations :: "gmap option"
  m_owners :: "owner_ref list"
  m_uid :: string
  m_version :: string
  m_generation :: int
  m_finalizers :: "string list"
  m_deleting :: bool

definition new_meta :: "string \<Rightarrow> string \<Rightarrow> gmap \<Rightarrow> objmeta" where
  "new_meta ns name labels =
     \<lparr>m_name = name, m_namespace = ns, m_labels = labels, m_annotations = None, m_owners = [],
      m_uid = [], m_version = [], m_generation = 0, m_finalizers = [], m_deleting = False\<rparr>"

text \<open>Reading a possibly nil annotation map, and writing one (nil is replaced first).\<close>

definition nil_map :: "gmap option \<Rightarrow> gmap" where
  "nil_map m = (case m of None \<Rightarrow> fmempty | Some f \<Rightarrow> f)"

definition nil_list :: "'a list option \<Rightarrow> 'a list" where
  "nil_list l = (case l of None \<Rightarrow> [] | Some xs \<Rightarrow> xs)"

definition annotation :: "objmeta \<Rightarrow> string \<Rightarrow> string option" where
  "annotation m k = fmlookup (nil_map (m_annotations m)) k"

definition set_annotation :: "string \<Rightarrow> string \<Rightarrow> objmeta \<Rightarrow> objmeta" where
  "set_annotation k v m = m\<lparr>m_annotations := Some (fmupd k v (nil_map (m_annotations m)))\<rparr>"

lemma annotation_set [simp]:
  "annotation (set_annotation k v m) k' = (if k' = k then Some v else annotation m k')"
  by (simp add: annotation_def set_annotation_def nil_map_def)

lemma set_annotation_other [simp]:
  "m_name (set_annotation k v m) = m_name m" "m_namespace (set_annotation k v m) = m_namespace m"
  "m_labels (set_annotation k v m) = m_labels m" "m_owners (set_annotation k v m) = m_owners m"
  by (simp_all add: set_annotation_def)

text \<open>A Go map read of a missing key gives the zero value.\<close>

definition zlookup :: "(string, string) fmap \<Rightarrow> string \<Rightarrow> string" where
  "zlookup m k = (case fmlookup m k of None \<Rightarrow> [] | Some v \<Rightarrow> v)"

end
