(* ===== verification/Api_Types.thy ===== *)
theory Api_Types
  imports Kube
begin

text \<open>
  The OLSConfig custom resource (\<open>api/v1alpha1/olsconfig_types.go\<close>): one record per Go struct,
  with a field per Go field. Pointers are options, enumerated strings stay strings, \<open>float64\<close>
  fields are rationals. References that only hold a name (\<open>corev1.LocalObjectReference\<close>) are
  that name.
\<close>

section \<open>Spec\<close>

record VertexConfig =
  vx_ProjectID :: string
  vx_Location :: string

record ModelParametersSpec =
  mp_MaxTokensForResponse :: int
  mp_ToolBudgetRatio :: rat

record ModelSpec =
  mo_Name :: string
  mo_URL :: string
  mo_ContextWindowSize :: nat
  mo_Parameters :: ModelParametersSpec

record ProviderSpec =
  p_Name :: string
  p_URL :: string
  p_CredentialsSecretRef :: string
  p_Models :: "ModelSpec list"
  p_Type :: string
  p_AzureDeploymentName :: string
  p_APIVersion :: string
  p_WatsonProjectID :: string
  p_GoogleVertexConfig :: "VertexConfig option"
  p_GoogleVertexAnthropicConfig :: "VertexConfig option"
  p_FakeProviderMCPToolCall :: bool
  p_TLSSecurityProfile :: "TLSSecurityProfile option"
  p_CredentialKey :: string

record LLMSpec =
  llm_Providers :: "ProviderSpec list"

record Config =
  cf_Replicas :: "int option"
  cf_Resources :: "resources option"
  cf_Tolerations :: "toleration list option"
  cf_NodeSelector :: "gmap option"

record ContainerConfig =
  cc_Resources :: "resources option"

record AlertsAdapterSpec =
  aa_Config :: Config
  aa_ConfigMapRef :: "string option"

record DeploymentConfig =
  dc_APIContainer :: Config
  dc_DataCollectorContainer :: ContainerConfig
  dc_MCPServerContainer :: Config
  dc_RHOKPContainer :: Config
  dc_ConsoleContainer :: Config
  dc_AgenticConsoleContainer :: Config
  dc_DatabaseContainer :: Config
  dc_AlertsAdapter :: AlertsAdapterSpec
  dc_OtelCollector :: Config

record PostgresSpec =
  pg_SharedBuffers :: string
  pg_MaxConnections :: int

record ConversationCacheSpec =
  ca_Type :: string
  ca_Postgres :: PostgresSpec

record QueryFiltersSpec =
  qf_Name :: string
  qf_Pattern :: string
  qf_ReplaceWith :: string

record UserDataCollectionSpec =
  ud_FeedbackDisabled :: bool
  ud_TranscriptsDisabled :: bool

record OLSDataCollectorSpec =
  ds_LogLevel :: string

record ProxyCACertConfigMapRef =
  pca_Name :: string
  pca_Key :: string

record ProxyConfig =
  px_ProxyURL :: string
  px_ProxyCACertificateRef :: "ProxyCACertConfigMapRef option"

record RAGSpec =
  rag_IndexPath :: string
  rag_IndexID :: string
  rag_Image :: string

record LimiterConfig =
  lc_Name :: string
  lc_Type :: string
  lc_InitialQuota :: int
  lc_QuotaIncrease :: int
  lc_Period :: string

record QuotaHandlersConfig =
  qh_LimitersConfig :: "LimiterConfig list"
  qh_EnableTokenHistory :: bool

record Storage =
  sto_Size :: int
  sto_Class :: string

record ToolFilteringConfig =
  tf_Alpha :: rat
  tf_TopK :: int
  tf_Threshold :: rat

record ToolsApprovalConfig =
  ta_ApprovalType :: string
  ta_ApprovalTimeout :: int

record OLSSpec =
  o_ConversationCache :: ConversationCacheSpec
  o_DeploymentConfig :: DeploymentConfig
  o_LogLevel :: string
  o_DefaultModel :: string
  o_DefaultProvider :: string
  o_QueryFilters :: "QueryFiltersSpec list option"
  o_UserDataCollection :: UserDataCollectionSpec
  o_TLSConfig :: "string option"
  o_AdditionalCAConfigMapRef :: "string option"
  o_TLSSecurityProfile :: "TLSSecurityProfile option"
  o_IntrospectionEnabled :: "bool option"
  o_AuditEventsEnabled :: "bool option"
  o_MCPKubeServerTimeout :: "int option"
  o_ProxyConfig :: "ProxyConfig option"
  o_RAG :: "RAGSpec list"
  o_QuotaHandlersConfig :: "QuotaHandlersConfig option"
  o_Storage :: "Storage option"
  o_ByokRAGOnly :: bool
  o_QuerySystemPrompt :: string
  o_MaxIterations :: int
  o_ImagePullSecrets :: "string list option"
  o_ToolFilteringConfig :: "ToolFilteringConfig option"
  o_ToolsApprovalConfig :: "ToolsApprovalConfig option"

record MCPHeaderValueSource =
  hv_Type :: string
  hv_SecretRef :: "string option"

record MCPHeader =
  h_Name :: string
  h_ValueFrom :: MCPHeaderValueSource

record MCPServerConfig =
  ms_Name :: string
  ms_URL :: string
  ms_Timeout :: int
  ms_Headers :: "MCPHeader list"

record AuditConfig =
  au_Logging :: "bool option"
  au_TracingEndpoint :: string

record AgenticOLSSpec =
  ag_SandboxMode :: string
  ag_AgenticSandboxConfig :: Config

record OLSConfigSpec =
  s_LLMConfig :: LLMSpec
  s_OLSConfig :: OLSSpec
  s_OLSDataCollectorConfig :: OLSDataCollectorSpec
  s_MCPServers :: "MCPServerConfig list"
  s_FeatureGates :: "string list"
  s_Audit :: AuditConfig
  s_AgenticOLS :: "AgenticOLSSpec option"

section \<open>Status\<close>

record condition =
  cn_Type :: string
  cn_Status :: string
  cn_Generation :: int
  cn_Reason :: string
  cn_Message :: string
  cn_Transition :: string

record PodDiagnostic =
  di_FailedComponent :: string
  di_PodName :: string
  di_ContainerName :: string
  di_Reason :: string
  di_Message :: string
  di_ExitCode :: "int option"
  di_Type :: string
  di_LastUpdated :: string

record OLSConfigStatus =
  os_Conditions :: "condition list"
  os_OverallStatus :: string
  os_DiagnosticInfo :: "PodDiagnostic list"

record OLSConfig =
  cr_Meta :: objmeta
  cr_Spec :: OLSConfigSpec
  cr_Status :: OLSConfigStatus

definition OverallStatusReady :: string where [go_const]: "OverallStatusReady = ''Ready''"
definition OverallStatusNotReady :: string where [go_const]: "OverallStatusNotReady = ''NotReady''"
definition DeploymentStatusReady :: string where [go_const]: "DeploymentStatusReady = ''Ready''"
definition DeploymentStatusProgressing :: string where
  [go_const]: "DeploymentStatusProgressing = ''Progressing''"
definition DeploymentStatusFailed :: string where [go_const]: "DeploymentStatusFailed = ''Failed''"
definition DiagnosticTypeContainerWaiting :: string where
  [go_const]: "DiagnosticTypeContainerWaiting = ''ContainerWaiting''"
definition DiagnosticTypeContainerTerminated :: string where
  [go_const]: "DiagnosticTypeContainerTerminated = ''ContainerTerminated''"
definition DiagnosticTypePodScheduling :: string where
  [go_const]: "DiagnosticTypePodScheduling = ''PodScheduling''"
definition DiagnosticTypePodCondition :: string where
  [go_const]: "DiagnosticTypePodCondition = ''PodCondition''"
definition MCPHeaderSourceTypeSecret :: string where
  [go_const]: "MCPHeaderSourceTypeSecret = ''secret''"
definition MCPHeaderSourceTypeKubernetes :: string where
  [go_const]: "MCPHeaderSourceTypeKubernetes = ''kubernetes''"
definition MCPHeaderSourceTypeClient :: string where
  [go_const]: "MCPHeaderSourceTypeClient = ''client''"
definition SandboxModeBarePod :: string where [go_const]: "SandboxModeBarePod = ''bare-pod''"
definition SandboxModeSandboxClaim :: string where
  [go_const]: "SandboxModeSandboxClaim = ''sandbox-claim''"

end
