(* ===== verification/Cluster.thy ===== *)
theory Cluster
  imports Api_Types "HOL-Library.Word" "HOL-Library.Char_ord" "HOL-Library.List_Lexorder" "HOL-Library.Product_Lexorder"
begin

text \<open>
  Objects of the cluster, the operations of the controller-runtime client the operator calls,
  and the operator's own interface to them (\<open>internal/controller/reconciler/interface.go\<close>, the
  options of \<open>utils.OLSConfigReconcilerOptions\<close>). The laws \<open>api_ok\<close> are what the code relies on
  of the API server; \<open>mem_client\<close> is a store that satisfies them.
\<close>

section \<open>Objects\<close>

datatype kind =
    Deployment | Service | ConfigMap | Secret | ServiceAccount | NetworkPolicy | Role
  | RoleBinding | ClusterRole | ClusterRoleBinding | ServiceMonitor | PrometheusRule
  | PersistentVolumeClaim | ConsolePlugin | Console | ImageStream | OLSConfigKind' | Pod
  | APIServer | ClusterVersion | Infrastructure | StorageClass

text \<open>Kinds are ordered as declared, so that keys are and a listing has an order.\<close>

fun kind_rank :: "kind \<Rightarrow> nat" where
  "kind_rank Deployment = 0" | "kind_rank Service = 1" | "kind_rank ConfigMap = 2"
| "kind_rank Secret = 3" | "kind_rank ServiceAccount = 4" | "kind_rank NetworkPolicy = 5"
| "kind_rank Role = 6" | "kind_rank RoleBinding = 7" | "kind_rank ClusterRole = 8"
| "kind_rank ClusterRoleBinding = 9" | "kind_rank ServiceMonitor = 10"
| "kind_rank PrometheusRule = 11" | "kind_rank PersistentVolumeClaim = 12"
| "kind_rank ConsolePlugin = 13" | "kind_rank Console = 14" | "kind_rank ImageStream = 15"
| "kind_rank OLSConfigKind' = 16" | "kind_rank Pod = 17" | "kind_rank APIServer = 18"
| "kind_rank ClusterVersion = 19" | "kind_rank Infrastructure = 20"
| "kind_rank StorageClass = 21"

lemma kind_rank_inj: "kind_rank a = kind_rank b \<Longrightarrow> a = b"
  by (cases a; cases b) simp_all

instantiation kind :: linorder
begin

definition less_eq_kind :: "kind \<Rightarrow> kind \<Rightarrow> bool" where
  "less_eq_kind a b = (kind_rank a \<le> kind_rank b)"

definition less_kind :: "kind \<Rightarrow> kind \<Rightarrow> bool" where
  "less_kind a b = (kind_rank a < kind_rank b)"

instance
  by standard (auto simp: less_eq_kind_def less_kind_def intro: kind_rank_inj)

end

record dep_payload =
  dp_spec :: deployment_spec
  dp_conditions :: "(string \<times> string) list"

datatype payload =
    PDeployment dep_payload
  | PService service_spec
  | PConfigMap gmap gmap
  | PSecret gmap string
  | PServiceAccount
  | PNetworkPolicy np_spec
  | PRole "rbac_rule list"
  | PRoleBinding "rbac_subject list" "string \<times> string"
  | PClusterRole "rbac_rule list"
  | PClusterRoleBinding "rbac_subject list" "string \<times> string"
  | PServiceMonitor sm_spec
  | PPrometheusRule "rule_group list"
  | PPvc "string list" int string
  | PConsolePlugin plugin_spec
  | PConsole "string list option" string
  | PImageStream "image_tag list"
  | POLSConfig OLSConfigSpec OLSConfigStatus
  | PPod pod_status
  | PAPIServer "TLSSecurityProfile option"
  | PClusterVersion string
  | PInfrastructure string
  | PStorageClass

record kobject =
  k_meta :: objmeta
  k_payload :: payload

type_synonym okey = "kind \<times> string \<times> string"

fun kind_of :: "payload \<Rightarrow> kind" where
  "kind_of (PDeployment _) = Deployment"
| "kind_of (PService _) = Service"
| "kind_of (PConfigMap _ _) = ConfigMap"
| "kind_of (PSecret _ _) = Secret"
| "kind_of PServiceAccount = ServiceAccount"
| "kind_of (PNetworkPolicy _) = NetworkPolicy"
| "kind_of (PRole _) = Role"
| "kind_of (PRoleBinding _ _) = RoleBinding"
| "kind_of (PClusterRole _) = ClusterRole"
| "kind_of (PClusterRoleBinding _ _) = ClusterRoleBinding"
| "kind_of (PServiceMonitor _) = ServiceMonitor"
| "kind_of (PPrometheusRule _) = PrometheusRule"
| "kind_of (PPvc _ _ _) = PersistentVolumeClaim"
| "kind_of (PConsolePlugin _) = ConsolePlugin"
| "kind_of (PConsole _ _) = Console"
| "kind_of (PImageStream _) = ImageStream"
| "kind_of (POLSConfig _ _) = OLSConfigKind'"
| "kind_of (PPod _) = Pod"
| "kind_of (PAPIServer _) = APIServer"
| "kind_of (PClusterVersion _) = ClusterVersion"
| "kind_of (PInfrastructure _) = Infrastructure"
| "kind_of PStorageClass = StorageClass"

definition key_of :: "kobject \<Rightarrow> okey" where
  "key_of ob = (kind_of (k_payload ob), m_namespace (k_meta ob), m_name (k_meta ob))"

text \<open>Typed views of a payload; an object of another kind reads as the zero value.\<close>

fun secret_data :: "payload \<Rightarrow> gmap" where
  "secret_data (PSecret d t) = d"
| "secret_data _ = fmempty"

fun secret_type :: "payload \<Rightarrow> string" where
  "secret_type (PSecret d t) = t"
| "secret_type _ = []"

fun cm_data :: "payload \<Rightarrow> gmap" where
  "cm_data (PConfigMap d b) = d"
| "cm_data _ = fmempty"

fun cm_binary :: "payload \<Rightarrow> gmap" where
  "cm_binary (PConfigMap d b) = b"
| "cm_binary _ = fmempty"

fun console_plugins :: "payload \<Rightarrow> string list option" where
  "console_plugins (PConsole p b) = p"
| "console_plugins _ = None"

fun set_console_plugins :: "string list option \<Rightarrow> payload \<Rightarrow> payload" where
  "set_console_plugins p (PConsole _ b) = PConsole p b"
| "set_console_plugins p q = q"

fun payload_pod :: "payload \<Rightarrow> pod_status option" where
  "payload_pod (PPod s) = Some s"
| "payload_pod _ = None"

definition cr_of :: "kobject \<Rightarrow> OLSConfig option" where
  "cr_of ob = (case k_payload ob of
      POLSConfig s t \<Rightarrow> Some \<lparr>cr_Meta = k_meta ob, cr_Spec = s, cr_Status = t\<rparr>
    | _ \<Rightarrow> None)"

definition obj_of_cr :: "OLSConfig \<Rightarrow> kobject" where
  "obj_of_cr cr = \<lparr>k_meta = cr_Meta cr, k_payload = POLSConfig (cr_Spec cr) (cr_Status cr)\<rparr>"

lemma cr_of_obj_of_cr [simp]: "cr_of (obj_of_cr cr) = Some cr"
  by (simp add: cr_of_def obj_of_cr_def)

section \<open>The client and the operator's environment\<close>

record 'w client =
  cl_get :: "okey \<Rightarrow> ('w, goerr + kobject) io"
  cl_list :: "kind \<Rightarrow> string \<Rightarrow> gmap \<Rightarrow> ('w, goerr + kobject list) io"
  cl_create :: "kobject \<Rightarrow> ('w, goerr option) io"
  cl_update :: "kobject \<Rightarrow> ('w, goerr option) io"
  cl_update_status :: "kobject \<Rightarrow> ('w, goerr option) io"
  cl_delete :: "okey \<Rightarrow> ('w, goerr option) io"
  cl_delete_all :: "kind \<Rightarrow> string \<Rightarrow> gmap \<Rightarrow> ('w, goerr option) io"
  cl_now :: "('w, string) io"

record options =
  OpenShiftMajor :: string
  OpenshiftMinor :: string
  LightspeedServiceImage :: string
  LightspeedServicePostgresImage :: string
  ConsoleUIImage :: string
  AgenticConsoleUIImage :: string
  AlertsAdapterImage :: string
  AgenticSandboxImage :: string
  OtelCollectorImage :: string
  DataverseExporterImage :: string
  OpenShiftMCPServerImage :: string
  RHOOKPImage :: string
  RosaOKPProductEnv' :: "env_var option"
  Namespace :: string
  PrometheusAvailable :: bool

text \<open>
  What a reconciler runs in: the client, its options, and the library calls that are not modelled
  by a definition: the process environment (\<open>os.Getenv\<close>), the two hash functions as hexadecimal
  digests, random bytes, \<open>retry.RetryOnConflict\<close> with the default policy,
  \<open>wait.PollUntilContextTimeout\<close> with an immediate first try, where the condition threads what
  its closure captures, the last error and the object it read, YAML and JSON (of a document and of a pod spec), \<open>pem.Decode\<close> and \<open>x509.ParseCertificate\<close>, the
  TLS profiles of the OpenShift API package, and the order in which Go walks the keys of a map,
  which may differ from one walk to the next.
\<close>

type_synonym captured = "goerr option \<times> kobject option"

type_synonym 'w poll_cond = "captured \<Rightarrow> ('w, (goerr + bool) \<times> captured) io"

record 'w reconciler = "'w client" +
  Options :: options
  Getenv :: "string \<Rightarrow> string"
  sha1_hex :: "string \<Rightarrow> string"
  sha256_hex :: "string \<Rightarrow> string"
  rand_read :: "nat \<Rightarrow> ('w, goerr + 8 word list) io"
  RetryOnConflict :: "('w, goerr option) io \<Rightarrow> ('w, goerr option) io"
  PollUntilTimeout :: "int \<Rightarrow> int \<Rightarrow> 'w poll_cond \<Rightarrow> ('w, goerr option \<times> captured) io"
  yaml_marshal :: "doc \<Rightarrow> goerr + string"
  json_marshal :: "doc \<Rightarrow> goerr + string"
  json_pod :: "pod_spec \<Rightarrow> goerr + string"
  json_unmarshal :: "string \<Rightarrow> goerr + doc"
  pem_decode :: "string \<Rightarrow> (string \<times> string) option"
  x509_parse :: "string \<Rightarrow> goerr option"
  tls_lib :: tls_library
  walk_map :: "string list \<Rightarrow> ('w, string list) io"

definition localDev :: "'w reconciler \<Rightarrow> bool" where
  "localDev r = (Getenv r ''LOCAL_DEV_MODE'' = ''true'')"

definition GetNamespace :: "'w reconciler \<Rightarrow> string" where
  "GetNamespace r = Namespace (Options r)"

definition IsPrometheusAvailable :: "'w reconciler \<Rightarrow> bool" where
  "IsPrometheusAvailable r = PrometheusAvailable (Options r)"

text \<open>
  \<open>controllerutil.SetControllerReference(cr, obj, scheme)\<close> for an object the operator has just
  built: it has no owner yet, so the call adds one and does not fail.
\<close>

definition set_controller :: "OLSConfig \<Rightarrow> kobject \<Rightarrow> kobject" where
  "set_controller cr ob = ob\<lparr>k_meta := (k_meta ob)\<lparr>m_owners :=
     [\<lparr>ow_kind = ''OLSConfig'', ow_apiversion = ''ols.openshift.io/v1alpha1'',
       ow_uid = m_uid (cr_Meta cr), ow_controller = True\<rparr>]\<rparr>\<rparr>"

lemma set_controller_simps [simp]:
  "k_payload (set_controller cr ob) = k_payload ob" "key_of (set_controller cr ob) = key_of ob"
  "m_labels (k_meta (set_controller cr ob)) = m_labels (k_meta ob)"
  "m_annotations (k_meta (set_controller cr ob)) = m_annotations (k_meta ob)"
  by (simp_all add: set_controller_def key_of_def)

section \<open>What the operator relies on of the API server\<close>

text \<open>
  The server fills what a written object leaves open. For a Deployment these are the documented
  defaults of the \<open>apps/v1\<close> and \<open>core/v1\<close> types (replicas, strategy, grace period, probe timings,
  pull policies, protocols, volume modes); a Service gets a cluster address; the status of a
  Deployment or of the custom resource is not taken from a plain create or update. Every other
  payload is stored as written.
\<close>

definition filled :: "'a option \<Rightarrow> 'a \<Rightarrow> 'a option \<Rightarrow> bool" where
  "filled x d y = (y = (case x of None \<Rightarrow> Some d | Some a \<Rightarrow> Some a))"

definition kept :: "'a \<Rightarrow> 'a \<Rightarrow> 'a \<Rightarrow> bool" where
  "kept unset x y = (x = unset \<or> y = x)"

definition probe_stored :: "probe \<Rightarrow> probe \<Rightarrow> bool" where
  "probe_stored p q = (pr_handler q = pr_handler p \<and> kept 0 (pr_initial p) (pr_initial q) \<and>
     kept 0 (pr_timeout p) (pr_timeout q) \<and> kept 0 (pr_period p) (pr_period q) \<and>
     kept 0 (pr_success p) (pr_success q) \<and> kept 0 (pr_failure p) (pr_failure q) \<and>
     pr_grace q = pr_grace p)"

definition port_stored :: "container_port \<Rightarrow> container_port \<Rightarrow> bool" where
  "port_stored p q = (cp_name q = cp_name p \<and> cp_port q = cp_port p \<and>
     kept [] (cp_protocol p) (cp_protocol q))"

definition container_stored :: "container \<Rightarrow> container \<Rightarrow> bool" where
  "container_stored c d =
     (list_all2 port_stored (c_ports c) (c_ports d) \<and> kept [] (c_pull c) (c_pull d) \<and>
      rel_option probe_stored (c_liveness c) (c_liveness d) \<and>
      rel_option probe_stored (c_readiness c) (c_readiness d) \<and>
      rel_option probe_stored (c_startup c) (c_startup d) \<and>
      d = c\<lparr>c_ports := c_ports d, c_pull := c_pull d, c_liveness := c_liveness d,
            c_readiness := c_readiness d, c_startup := c_startup d\<rparr>)"

definition file_source_stored :: "vol_file_source \<Rightarrow> vol_file_source \<Rightarrow> bool" where
  "file_source_stored a b = (vs_name b = vs_name a \<and> vs_items b = vs_items a \<and>
     filled (vs_mode a) 420 (vs_mode b))"

definition volume_stored :: "volume \<Rightarrow> volume \<Rightarrow> bool" where
  "volume_stored a b = (v_name b = v_name a \<and>
     rel_option file_source_stored (v_secret a) (v_secret b) \<and>
     rel_option file_source_stored (v_configmap a) (v_configmap b) \<and>
     v_emptydir b = v_emptydir a \<and> v_pvc b = v_pvc a \<and> v_sizelimit b = v_sizelimit a)"

definition strategy_stored :: "strategy \<Rightarrow> strategy \<Rightarrow> bool" where
  "strategy_stored s t =
     (st_type t = (if st_type s = [] then ''RollingUpdate'' else st_type s) \<and>
      (if st_type t = ''RollingUpdate''
       then \<exists>x y. st_rolling t = Some (x, y) \<and>
          filled (case st_rolling s of None \<Rightarrow> None | Some (a, b) \<Rightarrow> a) ''25%'' x \<and>
          filled (case st_rolling s of None \<Rightarrow> None | Some (a, b) \<Rightarrow> b) ''25%'' y
       else st_rolling t = st_rolling s))"

definition pod_stored :: "pod_spec \<Rightarrow> pod_spec \<Rightarrow> bool" where
  "pod_stored a b =
     (list_all2 container_stored (po_containers a) (po_containers b) \<and>
      list_all2 container_stored (po_init a) (po_init b) \<and>
      list_all2 volume_stored (po_volumes a) (po_volumes b) \<and>
      filled (po_grace a) 30 (po_grace b) \<and>
      b = a\<lparr>po_containers := po_containers b, po_init := po_init b,
            po_volumes := po_volumes b, po_grace := po_grace b\<rparr>)"

definition deployment_stored :: "deployment_spec \<Rightarrow> deployment_spec \<Rightarrow> bool" where
  "deployment_stored a b =
     (filled (d_replicas a) 1 (d_replicas b) \<and> pod_stored (d_pod a) (d_pod b) \<and>
      strategy_stored (d_strategy a) (d_strategy b) \<and> filled (d_history a) 10 (d_history b) \<and>
      filled (d_deadline a) 600 (d_deadline b) \<and> d_selector b = d_selector a \<and>
      d_tmpl_labels b = d_tmpl_labels a \<and> d_tmpl_annotations b = d_tmpl_annotations a)"

definition service_port_stored :: "service_port \<Rightarrow> service_port \<Rightarrow> bool" where
  "service_port_stored p q = (sp_name q = sp_name p \<and> sp_port q = sp_port p \<and>
     kept [] (sp_protocol p) (sp_protocol q) \<and> kept [] (sp_target p) (sp_target q))"

definition service_stored :: "service_spec \<Rightarrow> service_spec \<Rightarrow> bool" where
  "service_stored a b = (ss_selector b = ss_selector a \<and>
     list_all2 service_port_stored (ss_ports a) (ss_ports b) \<and>
     kept [] (ss_cluster_ip a) (ss_cluster_ip b))"

definition payload_stored :: "payload \<Rightarrow> payload \<Rightarrow> bool" where
  "payload_stored p q = (case p of
      PDeployment a \<Rightarrow> (\<exists>b. q = PDeployment b \<and> deployment_stored (dp_spec a) (dp_spec b))
    | PService a \<Rightarrow> (\<exists>b. q = PService b \<and> service_stored a b)
    | POLSConfig s t \<Rightarrow> (\<exists>t'. q = POLSConfig s t')
    | _ \<Rightarrow> q = p)"

lemma payload_stored_simps [simp]:
  "payload_stored (PDeployment a) q \<longleftrightarrow>
     (\<exists>b. q = PDeployment b \<and> deployment_stored (dp_spec a) (dp_spec b))"
  "payload_stored (PService x) q \<longleftrightarrow> (\<exists>b. q = PService b \<and> service_stored x b)"
  "payload_stored (POLSConfig s t) q \<longleftrightarrow> (\<exists>t'. q = POLSConfig s t')"
  by (simp_all add: payload_stored_def)

lemma payload_stored_other:
  "kind_of p \<notin> {Deployment, Service, OLSConfigKind'} \<Longrightarrow> payload_stored p q \<longleftrightarrow> q = p"
  by (cases p) (simp_all add: payload_stored_def)

text \<open>
  What is stored for a written object: the same metadata but for the fields the server owns
  (uid, version, generation, deletion mark), and the filled payload.
\<close>

definition stored_as :: "kobject \<Rightarrow> kobject \<Rightarrow> bool" where
  "stored_as ob s = (payload_stored (k_payload ob) (k_payload s) \<and> key_of s = key_of ob \<and>
     m_labels (k_meta s) = m_labels (k_meta ob) \<and>
     nil_map (m_annotations (k_meta s)) = nil_map (m_annotations (k_meta ob)) \<and>
     m_owners (k_meta s) = m_owners (k_meta ob) \<and>
     m_finalizers (k_meta s) = m_finalizers (k_meta ob))"

text \<open>
  \<open>v w\<close> is what the cluster stores in world \<open>w\<close>. A read changes nothing; it returns the stored
  object or an error, and says NotFound only when there is none; an object that is marked for
  deletion is still there only because of its finalizers. A successful create finds its key
  free; a successful write stores the object and touches no other key, where the update that
  removes the last finalizer of an object marked for deletion removes the object. A failed write
  changes nothing, and an update says NotFound only when there is no such object.
\<close>

definition get_ok :: "('w, 'x) client_scheme \<Rightarrow> ('w \<Rightarrow> okey \<Rightarrow> kobject option) \<Rightarrow> bool" where
  "get_ok c v = (\<forall>k w r w'. run_state (cl_get c k) w = (r, w') \<longrightarrow>
      v w' = v w \<and>
      (\<forall>ob. r = Inr ob \<longrightarrow> v w k = Some ob \<and> key_of ob = k \<and>
         (m_deleting (k_meta ob) \<longrightarrow> m_finalizers (k_meta ob) \<noteq> [])) \<and>
      (\<forall>e. r = Inl e \<and> IsNotFound e \<longrightarrow> v w k = None))"

definition create_ok :: "('w, 'x) client_scheme \<Rightarrow> ('w \<Rightarrow> okey \<Rightarrow> kobject option) \<Rightarrow> bool" where
  "create_ok c v = (\<forall>ob w r w'. run_state (cl_create c ob) w = (r, w') \<longrightarrow>
      (r = None \<longrightarrow> v w (key_of ob) = None \<and>
         (\<exists>s. stored_as ob s \<and> v w' = (v w)(key_of ob \<mapsto> s))) \<and>
      (r \<noteq> None \<longrightarrow> v w' = v w))"

definition update_ok :: "('w, 'x) client_scheme \<Rightarrow> ('w \<Rightarrow> okey \<Rightarrow> kobject option) \<Rightarrow> bool" where
  "update_ok c v = (\<forall>ob w r w'. run_state (cl_update c ob) w = (r, w') \<longrightarrow>
      (r = None \<longrightarrow> v w (key_of ob) \<noteq> None \<and>
         (if m_deleting (k_meta ob) \<and> m_finalizers (k_meta ob) = []
          then v w' = (v w)(key_of ob := None)
          else \<exists>s. stored_as ob s \<and> v w' = (v w)(key_of ob \<mapsto> s))) \<and>
      (\<forall>e. r = Some e \<longrightarrow> v w' = v w \<and> (IsNotFound e \<longrightarrow> v w (key_of ob) = None)))"

text \<open>
  A successful delete removes an object that has no finalizers and marks one that has; a second
  delete of a marked object changes nothing.
\<close>

definition deleted_as :: "kobject \<Rightarrow> kobject option \<Rightarrow> bool" where
  "deleted_as ob x =
     (if m_finalizers (k_meta ob) = [] then x = None
      else if m_deleting (k_meta ob) then x = Some ob
      else \<exists>s. x = Some s \<and> m_deleting (k_meta s) \<and> m_finalizers (k_meta s) = m_finalizers (k_meta ob) \<and>
        k_payload s = k_payload ob \<and> key_of s = key_of ob)"

definition delete_ok :: "('w, 'x) client_scheme \<Rightarrow> ('w \<Rightarrow> okey \<Rightarrow> kobject option) \<Rightarrow> bool" where
  "delete_ok c v = (\<forall>k w r w'. run_state (cl_delete c k) w = (r, w') \<longrightarrow>
      (r = None \<longrightarrow> (\<exists>ob x. v w k = Some ob \<and> deleted_as ob x \<and> v w' = (v w)(k := x))) \<and>
      (\<forall>e. r = Some e \<longrightarrow> v w' = v w \<and> (IsNotFound e \<longrightarrow> v w k = None)))"

definition clock_ok :: "('w, 'x) client_scheme \<Rightarrow> ('w \<Rightarrow> okey \<Rightarrow> kobject option) \<Rightarrow> bool" where
  "clock_ok c v = (\<forall>w t w'. run_state (cl_now c) w = (t, w') \<longrightarrow> v w' = v w)"

text \<open>
  A list call returns the stored objects of a kind, in a namespace (\<open>[]\<close> for all of them), that
  carry the given labels, or fails.
\<close>

definition selected :: "kind \<Rightarrow> string \<Rightarrow> gmap \<Rightarrow> kobject \<Rightarrow> bool" where
  "selected K ns sel ob = (fst (key_of ob) = K \<and> (ns = [] \<or> m_namespace (k_meta ob) = ns) \<and>
     fmpred (\<lambda>k x. fmlookup (m_labels (k_meta ob)) k = Some x) sel)"

definition list_ok :: "('w, 'x) client_scheme \<Rightarrow> ('w \<Rightarrow> okey \<Rightarrow> kobject option) \<Rightarrow> bool" where
  "list_ok c v = (\<forall>K ns sel w r w'. run_state (cl_list c K ns sel) w = (r, w') \<longrightarrow> v w' = v w \<and>
      (\<forall>obs. r = Inr obs \<longrightarrow>
         (\<forall>ob. ob \<in> set obs \<longleftrightarrow> selected K ns sel ob \<and> v w (key_of ob) = Some ob)))"

text \<open>
  A write of the status subresource keeps everything else of the stored object but its version.
\<close>

definition set_status :: "kobject \<Rightarrow> kobject \<Rightarrow> kobject" where
  "set_status ob old = (case (k_payload ob, k_payload old) of
      (POLSConfig s t, POLSConfig s' t') \<Rightarrow> old\<lparr>k_payload := POLSConfig s' t\<rparr>
    | _ \<Rightarrow> old)"

definition status_ok :: "('w, 'x) client_scheme \<Rightarrow> ('w \<Rightarrow> okey \<Rightarrow> kobject option) \<Rightarrow> bool" where
  "status_ok c v = (\<forall>ob w r w'. run_state (cl_update_status c ob) w = (r, w') \<longrightarrow>
      (r = None \<longrightarrow> (\<exists>old n. v w (key_of ob) = Some old \<and>
         v w' = (v w)(key_of ob \<mapsto> set_status ob old\<lparr>k_meta := (k_meta old)\<lparr>m_version := n\<rparr>\<rparr>))) \<and>
      (r \<noteq> None \<longrightarrow> v w' = v w))"

text \<open>
  A collection delete removes the selected objects as single deletes do; when it fails it may have
  got some way.
\<close>

definition delete_all_ok :: "('w, 'x) client_scheme \<Rightarrow> ('w \<Rightarrow> okey \<Rightarrow> kobject option) \<Rightarrow> bool" where
  "delete_all_ok c v = (\<forall>K ns sel w r w' k. run_state (cl_delete_all c K ns sel) w = (r, w') \<longrightarrow>
      (if \<exists>ob. v w k = Some ob \<and> key_of ob = k \<and> selected K ns sel ob
       then (v w' k = v w k \<and> r \<noteq> None) \<or> deleted_as (the (v w k)) (v w' k)
       else v w' k = v w k))"

definition api_ok :: "('w, 'x) client_scheme \<Rightarrow> ('w \<Rightarrow> okey \<Rightarrow> kobject option) \<Rightarrow> bool" where
  "api_ok c v = (get_ok c v \<and> create_ok c v \<and> update_ok c v \<and> delete_ok c v \<and> clock_ok c v \<and>
     list_ok c v \<and> status_ok c v \<and> delete_all_ok c v)"

lemma api_get:
  assumes "api_ok c v" "run_state (cl_get c k) w = (r, w')"
  shows "v w' = v w" "r = Inr ob \<Longrightarrow> v w k = Some ob" "r = Inr ob \<Longrightarrow> key_of ob = k"
    "r = Inr ob \<Longrightarrow> m_deleting (k_meta ob) \<Longrightarrow> m_finalizers (k_meta ob) \<noteq> []"
    "r = Inl e \<Longrightarrow> IsNotFound e \<Longrightarrow> v w k = None"
  using assms unfolding api_ok_def get_ok_def by blast+

lemma api_create:
  assumes "api_ok c v" "run_state (cl_create c ob) w = (r, w')"
  shows "r = None \<Longrightarrow> v w (key_of ob) = None"
    "r = None \<Longrightarrow> \<exists>s. stored_as ob s \<and> v w' = (v w)(key_of ob \<mapsto> s)"
    "r \<noteq> None \<Longrightarrow> v w' = v w"
  using assms unfolding api_ok_def create_ok_def by blast+

lemma api_update:
  assumes "api_ok c v" "run_state (cl_update c ob) w = (r, w')"
  shows "r = None \<Longrightarrow> \<not> (m_deleting (k_meta ob) \<and> m_finalizers (k_meta ob) = []) \<Longrightarrow>
      \<exists>s. stored_as ob s \<and> v w' = (v w)(key_of ob \<mapsto> s)"
    "r = None \<Longrightarrow> m_deleting (k_meta ob) \<Longrightarrow> m_finalizers (k_meta ob) = [] \<Longrightarrow>
      v w' = (v w)(key_of ob := None)"
    "r \<noteq> None \<Longrightarrow> v w' = v w" "k \<noteq> key_of ob \<Longrightarrow> v w' k = v w k"
    "r = Some e \<Longrightarrow> IsNotFound e \<Longrightarrow> v w (key_of ob) = None"
proof -
  have u: "update_ok c v" using assms(1) by (simp add: api_ok_def)
  show "r = None \<Longrightarrow> \<not> (m_deleting (k_meta ob) \<and> m_finalizers (k_meta ob) = []) \<Longrightarrow>
      \<exists>s. stored_as ob s \<and> v w' = (v w)(key_of ob \<mapsto> s)"
    "r = None \<Longrightarrow> m_deleting (k_meta ob) \<Longrightarrow> m_finalizers (k_meta ob) = [] \<Longrightarrow>
      v w' = (v w)(key_of ob := None)" "r \<noteq> None \<Longrightarrow> v w' = v w"
    "r = Some e \<Longrightarrow> IsNotFound e \<Longrightarrow> v w (key_of ob) = None"
    using u assms(2) unfolding update_ok_def by (metis (no_types, lifting) not_None_eq)+
  then show "k \<noteq> key_of ob \<Longrightarrow> v w' k = v w k"
    by (cases "r = None"; cases "m_deleting (k_meta ob) \<and> m_finalizers (k_meta ob) = []") auto
qed

lemma api_delete:
  assumes "api_ok c v" "run_state (cl_delete c k) w = (r, w')"
  shows "r = None \<Longrightarrow> \<exists>ob x. v w k = Some ob \<and> deleted_as ob x \<and> v w' = (v w)(k := x)"
    "r = Some e \<Longrightarrow> v w' = v w" "r = Some e \<Longrightarrow> IsNotFound e \<Longrightarrow> v w k = None"
    "k' \<noteq> k \<Longrightarrow> v w' k' = v w k'"
proof -
  have d: "delete_ok c v" using assms(1) by (simp add: api_ok_def)
  show 1: "r = None \<Longrightarrow> \<exists>ob x. v w k = Some ob \<and> deleted_as ob x \<and> v w' = (v w)(k := x)"
    and 2: "r = Some e \<Longrightarrow> v w' = v w" and "r = Some e \<Longrightarrow> IsNotFound e \<Longrightarrow> v w k = None" for e
    using d assms(2) unfolding delete_ok_def by blast+
  show "k' \<noteq> k \<Longrightarrow> v w' k' = v w k'" using 1 2 by (cases r) auto
qed

lemma api_now:
  assumes "api_ok c v" "run_state (cl_now c) w = (t, w')"
  shows "v w' = v w"
  using assms unfolding api_ok_def clock_ok_def by blast

lemma api_list:
  assumes "api_ok c v" "run_state (cl_list c K ns sel) w = (r, w')"
  shows "v w' = v w"
    "r = Inr obs \<Longrightarrow> ob \<in> set obs \<longleftrightarrow> selected K ns sel ob \<and> v w (key_of ob) = Some ob"
  using assms unfolding api_ok_def list_ok_def by blast+

lemma api_status:
  assumes "api_ok c v" "run_state (cl_update_status c ob) w = (r, w')"
  shows "r = None \<Longrightarrow> \<exists>old n. v w (key_of ob) = Some old \<and>
      v w' = (v w)(key_of ob \<mapsto> set_status ob old\<lparr>k_meta := (k_meta old)\<lparr>m_version := n\<rparr>\<rparr>)"
    "r \<noteq> None \<Longrightarrow> v w' = v w"
  using assms unfolding api_ok_def status_ok_def by blast+

lemma api_delete_all:
  assumes "api_ok c v" "run_state (cl_delete_all c K ns sel) w = (r, w')"
  shows "v w k = Some ob \<Longrightarrow> key_of ob = k \<Longrightarrow> selected K ns sel ob \<Longrightarrow> r = None \<Longrightarrow> deleted_as ob (v w' k)"
    "(\<And>ob. v w k = Some ob \<Longrightarrow> key_of ob = k \<Longrightarrow> \<not> selected K ns sel ob) \<Longrightarrow> v w' k = v w k"
    "v w' k = v w k \<or> (\<exists>ob. v w k = Some ob \<and> key_of ob = k \<and> selected K ns sel ob \<and> deleted_as ob (v w' k))"
proof -
  have d: "if \<exists>ob. v w k = Some ob \<and> key_of ob = k \<and> selected K ns sel ob
       then (v w' k = v w k \<and> r \<noteq> None) \<or> deleted_as (the (v w k)) (v w' k) else v w' k = v w k"
    using assms unfolding api_ok_def delete_all_ok_def by blast
  then show "v w k = Some ob \<Longrightarrow> key_of ob = k \<Longrightarrow> selected K ns sel ob \<Longrightarrow> r = None \<Longrightarrow> deleted_as ob (v w' k)"
    by auto
  show "(\<And>ob. v w k = Some ob \<Longrightarrow> key_of ob = k \<Longrightarrow> \<not> selected K ns sel ob) \<Longrightarrow> v w' k = v w k"
    using d by (auto split: if_splits)
  show "v w' k = v w k \<or> (\<exists>ob. v w k = Some ob \<and> key_of ob = k \<and> selected K ns sel ob \<and> deleted_as ob (v w' k))"
    using d by (auto split: if_splits)
qed

text \<open>
  \<open>RetryOnConflict\<close> runs its argument at least once, again only after a conflict, and returns
  the last result. \<open>PollUntilContextTimeout\<close> runs the condition, at least once, until it is done
  or fails or the time is over. Neither does anything else to the cluster.
\<close>

fun attempts :: "nat \<Rightarrow> ('w, goerr option) io \<Rightarrow> ('w, goerr option) io" where
  "attempts 0 m = m"
| "attempts (Suc n) m = do {
     e \<leftarrow> m;
     case e of None \<Rightarrow> ret None
     | Some err \<Rightarrow> (if IsConflict err then attempts n m else ret (Some err)) }"

definition retry_ok :: "(('w, goerr option) io \<Rightarrow> ('w, goerr option) io) \<Rightarrow> bool" where
  "retry_ok retry = (\<forall>m w. \<exists>n. run_state (retry m) w = run_state (attempts n m) w)"

fun poll_steps :: "nat \<Rightarrow> 'w poll_cond \<Rightarrow> captured \<Rightarrow> ('w, goerr option \<times> captured) io" where
  "poll_steps 0 c vars = ret (Some (ApiError Timeout ''context deadline exceeded''), vars)"
| "poll_steps (Suc n) c vars = do {
     (x, vars') \<leftarrow> c vars;
     case x of
       Inl e \<Rightarrow> ret (Some e, vars')
     | Inr fin \<Rightarrow> (if fin then ret (None, vars') else poll_steps n c vars') }"

definition poll_ok :: "(int \<Rightarrow> int \<Rightarrow> 'w poll_cond \<Rightarrow> ('w, goerr option \<times> captured) io) \<Rightarrow> bool" where
  "poll_ok poll = (\<forall>i t c w. \<exists>n. run_state (poll i t c) w = run_state (poll_steps (Suc n) c (None, None)) w)"

definition runtime_ok :: "'w reconciler \<Rightarrow> bool" where
  "runtime_ok r = (retry_ok (RetryOnConflict r) \<and> poll_ok (PollUntilTimeout r))"

section \<open>A store that satisfies the laws\<close>

type_synonym mem = "(okey, kobject) fmap"

text \<open>What a read sees: an object that lies under its own key and is not gone.\<close>

definition mem_view :: "mem \<Rightarrow> okey \<Rightarrow> kobject option" where
  "mem_view m k = (case fmlookup m k of
      None \<Rightarrow> None
    | Some ob \<Rightarrow> (if key_of ob = k \<and> (m_deleting (k_meta ob) \<longrightarrow> m_finalizers (k_meta ob) \<noteq> [])
        then Some ob else None))"

definition fill :: "'a option \<Rightarrow> 'a \<Rightarrow> 'a option" where
  "fill x d = (case x of None \<Rightarrow> Some d | Some a \<Rightarrow> Some a)"

definition fill_strategy :: "strategy \<Rightarrow> strategy" where
  "fill_strategy s = (if st_type s = [] \<or> st_type s = ''RollingUpdate''
     then \<lparr>st_type = ''RollingUpdate'', st_rolling = Some (case st_rolling s of
             None \<Rightarrow> (Some ''25%'', Some ''25%'') | Some (a, b) \<Rightarrow> (fill a ''25%'', fill b ''25%''))\<rparr>
     else s)"

definition fill_source :: "vol_file_source \<Rightarrow> vol_file_source" where
  "fill_source x = x\<lparr>vs_mode := fill (vs_mode x) 420\<rparr>"

definition fill_volume :: "volume \<Rightarrow> volume" where
  "fill_volume x = x\<lparr>v_secret := map_option fill_source (v_secret x),
     v_configmap := map_option fill_source (v_configmap x)\<rparr>"

definition fill_pod :: "pod_spec \<Rightarrow> pod_spec" where
  "fill_pod p = p\<lparr>po_volumes := map fill_volume (po_volumes p), po_grace := fill (po_grace p) 30\<rparr>"

definition fill_deployment :: "deployment_spec \<Rightarrow> deployment_spec" where
  "fill_deployment d = d\<lparr>d_replicas := fill (d_replicas d) 1, d_pod := fill_pod (d_pod d),
     d_strategy := fill_strategy (d_strategy d), d_history := fill (d_history d) 10,
     d_deadline := fill (d_deadline d) 600\<rparr>"

fun fill_payload :: "payload \<Rightarrow> payload" where
  "fill_payload (PDeployment d) = PDeployment (d\<lparr>dp_spec := fill_deployment (dp_spec d)\<rparr>)"
| "fill_payload p = p"

definition fill_object :: "kobject \<Rightarrow> kobject" where
  "fill_object ob = ob\<lparr>k_payload := fill_payload (k_payload ob)\<rparr>"

text \<open>Writes store the filled object; a delete removes it.\<close>

definition mem_get :: "okey \<Rightarrow> (mem, goerr + kobject) io" where
  "mem_get k = State (\<lambda>m. (case mem_view m k of
      None \<Rightarrow> Inl (ApiError NotFound ''not found'') | Some ob \<Rightarrow> Inr ob, m))"

definition mem_create :: "kobject \<Rightarrow> (mem, goerr option) io" where
  "mem_create ob = State (\<lambda>m. if mem_view m (key_of ob) = None
      then (None, fmupd (key_of ob) (fill_object (ob\<lparr>k_meta := (k_meta ob)\<lparr>m_deleting := False\<rparr>\<rparr>)) m)
      else (Some (ApiError AlreadyExists ''already exists''), m))"

definition mem_update :: "kobject \<Rightarrow> (mem, goerr option) io" where
  "mem_update ob = State (\<lambda>m. if mem_view m (key_of ob) = None
      then (Some (ApiError NotFound ''not found''), m)
      else if m_deleting (k_meta ob) \<and> m_finalizers (k_meta ob) = []
      then (None, fmdrop (key_of ob) m)
      else (None, fmupd (key_of ob) (fill_object ob) m))"

definition mem_delete :: "okey \<Rightarrow> (mem, goerr option) io" where
  "mem_delete k = State (\<lambda>m. case mem_view m k of
      None \<Rightarrow> (Some (ApiError NotFound ''not found''), m)
    | Some ob \<Rightarrow> (None, if m_finalizers (k_meta ob) = [] then fmdrop k m
        else fmupd k (ob\<lparr>k_meta := (k_meta ob)\<lparr>m_deleting := True\<rparr>\<rparr>) m))"

definition mem_list :: "kind \<Rightarrow> string \<Rightarrow> gmap \<Rightarrow> (mem, goerr + kobject list) io" where
  "mem_list K ns sel = State (\<lambda>m. (Inr (filter (\<lambda>ob. selected K ns sel ob \<and>
      mem_view m (key_of ob) = Some ob) (map snd (sorted_list_of_fmap m))), m))"

definition mem_status :: "kobject \<Rightarrow> (mem, goerr option) io" where
  "mem_status ob = State (\<lambda>m. case mem_view m (key_of ob) of
      None \<Rightarrow> (Some (ApiError NotFound ''not found''), m)
    | Some old \<Rightarrow> (None, fmupd (key_of ob) (set_status ob old) m))"

definition mem_delete_all :: "kind \<Rightarrow> string \<Rightarrow> gmap \<Rightarrow> (mem, goerr option) io" where
  "mem_delete_all K ns sel = State (\<lambda>m. (None, fmmap_keys (\<lambda>k ob.
      if mem_view m k = Some ob \<and> selected K ns sel ob then ob\<lparr>k_meta := (k_meta ob)\<lparr>m_deleting := True\<rparr>\<rparr> else ob) m))"

definition mem_client :: "mem client" where
  "mem_client = \<lparr>cl_get = mem_get, cl_list = mem_list, cl_create = mem_create,
     cl_update = mem_update, cl_update_status = mem_status, cl_delete = mem_delete,
     cl_delete_all = mem_delete_all, cl_now = ret ''2024-01-01T00:00:00Z''\<rparr>"

lemma filled_fill [simp]: "filled x d (fill x d)"
  by (simp add: filled_def fill_def)

lemma kept_same [simp]: "kept u x x"
  by (simp add: kept_def)

lemma stored_refls [simp]: "probe_stored p p" "port_stored q q" "service_port_stored y y"
  by (simp_all add: probe_stored_def port_stored_def service_port_stored_def)

lemma container_stored_refl [simp]: "container_stored c c"
  by (simp add: container_stored_def list.rel_refl option.rel_refl)

lemma file_source_stored_fill: "file_source_stored x (fill_source x)"
  by (simp add: file_source_stored_def fill_source_def)

lemma volume_stored_fill: "volume_stored x (fill_volume x)"
  by (cases "v_secret x"; cases "v_configmap x")
    (simp_all add: volume_stored_def fill_volume_def file_source_stored_fill)

lemma strategy_stored_fill: "strategy_stored s (fill_strategy s)"
  by (auto simp: strategy_stored_def fill_strategy_def fill_def filled_def split: option.splits)

lemma deployment_stored_fill: "deployment_stored d (fill_deployment d)"
  by (simp add: deployment_stored_def fill_deployment_def pod_stored_def fill_pod_def
      strategy_stored_fill list.rel_refl list_all2_conv_all_nth volume_stored_fill)

lemma payload_stored_fill: "payload_stored p (fill_payload p)"
  by (cases p) (simp_all add: deployment_stored_fill service_stored_def list.rel_refl
      payload_stored_other)

lemma key_of_fill [simp]: "key_of (fill_object ob) = key_of ob"
  by (cases "k_payload ob") (simp_all add: key_of_def fill_object_def)

lemma stored_as_fill [simp]: "stored_as ob (fill_object ob)"
  by (simp add: stored_as_def payload_stored_fill) (simp add: fill_object_def payload_stored_fill)

lemma fill_object_meta [simp]: "k_meta (fill_object ob) = k_meta ob"
  by (simp add: fill_object_def)

lemma mem_view_upd:
  assumes "key_of ob = k" "m_deleting (k_meta ob) \<longrightarrow> m_finalizers (k_meta ob) \<noteq> []"
  shows "mem_view (fmupd k ob m) = (mem_view m)(k \<mapsto> ob)"
  using assms by (auto simp: mem_view_def fun_eq_iff)

lemma mem_view_drop [simp]: "mem_view (fmdrop k m) = (mem_view m)(k := None)"
  by (auto simp: mem_view_def fun_eq_iff)

lemma stored_as_alive: "stored_as ob (fill_object (ob\<lparr>k_meta := (k_meta ob)\<lparr>m_deleting := b\<rparr>\<rparr>))"
  using stored_as_fill [of "ob\<lparr>k_meta := (k_meta ob)\<lparr>m_deleting := b\<rparr>\<rparr>"]
  by (simp add: stored_as_def key_of_def)

lemma mem_create_ok: "create_ok mem_client mem_view"
proof -
  have "mem_view (fmupd (key_of ob) (fill_object (ob\<lparr>k_meta := (k_meta ob)\<lparr>m_deleting := False\<rparr>\<rparr>)) m)
      = (mem_view m)(key_of ob \<mapsto> fill_object (ob\<lparr>k_meta := (k_meta ob)\<lparr>m_deleting := False\<rparr>\<rparr>))" for ob m
    by (rule mem_view_upd) (simp_all, simp add: key_of_def)
  then show ?thesis
    unfolding create_ok_def mem_client_def mem_create_def
    by (auto intro!: exI [where x = "fill_object x" for x] stored_as_alive split: if_splits)
qed

lemma mem_update_ok: "update_ok mem_client mem_view"
proof -
  have "mem_view (fmupd (key_of ob) (fill_object ob) m) = (mem_view m)(key_of ob \<mapsto> fill_object ob)"
    if "\<not> (m_deleting (k_meta ob) \<and> m_finalizers (k_meta ob) = [])" for ob m
    using that by (intro mem_view_upd) simp_all
  then show ?thesis
    unfolding update_ok_def mem_client_def mem_update_def
    by (auto intro!: exI [where x = "fill_object x" for x] split: if_splits)
qed

lemma mem_delete_ok: "delete_ok mem_client mem_view"
  unfolding delete_ok_def
proof (intro allI impI)
  fix k w r w' assume run: "run_state (cl_delete mem_client k) w = (r, w')"
  show "(r = None \<longrightarrow> (\<exists>ob x. mem_view w k = Some ob \<and> deleted_as ob x \<and> mem_view w' = (mem_view w)(k := x))) \<and>
      (\<forall>e. r = Some e \<longrightarrow> mem_view w' = mem_view w \<and> (IsNotFound e \<longrightarrow> mem_view w k = None))"
  proof (cases "mem_view w k")
    case None
    then show ?thesis using run by (auto simp: mem_client_def mem_delete_def)
  next
    case (Some ob)
    then have key: "key_of ob = k" by (auto simp: mem_view_def split: option.splits if_splits)
    let ?s = "ob\<lparr>k_meta := (k_meta ob)\<lparr>m_deleting := True\<rparr>\<rparr>"
    have w': "r = None" "w' = (if m_finalizers (k_meta ob) = [] then fmdrop k w else fmupd k ?s w)"
      using run Some by (auto simp: mem_client_def mem_delete_def)
    have ks: "key_of ?s = k" using key by (simp add: key_of_def)
    have same: "?s = ob" if "m_deleting (k_meta ob)" using that by (cases ob) simp
    show ?thesis
    proof (cases "m_finalizers (k_meta ob) = []")
      case True
      then show ?thesis using Some w' by (auto simp: deleted_as_def)
    next
      case False
      then have "mem_view w' = (mem_view w)(k \<mapsto> ?s)" using w' mem_view_upd [OF ks] by simp
      moreover have "deleted_as ob (Some ?s)" using False same ks key by (auto simp: deleted_as_def)
      ultimately show ?thesis using Some w' by auto
    qed
  qed
qed

lemma mem_view_stored: "mem_view m k = Some ob \<Longrightarrow> ob \<in> snd ` set (sorted_list_of_fmap m)"
  by (auto simp: mem_view_def sorted_list_of_fmap_def image_image fmlookup_dom_iff
      split: option.splits if_splits intro!: rev_image_eqI [of k])

lemma mem_list_ok: "list_ok mem_client mem_view"
  unfolding list_ok_def by (auto simp: mem_client_def mem_list_def dest: mem_view_stored)

lemma set_status_key [simp]:
  "key_of (set_status ob old) = key_of old" "k_meta (set_status ob old) = k_meta old"
  by (simp_all add: set_status_def key_of_def split: payload.splits)

lemma mem_status_ok: "status_ok mem_client mem_view"
  unfolding status_ok_def
proof (intro allI impI)
  fix ob w r w' assume run: "run_state (cl_update_status mem_client ob) w = (r, w')"
  let ?k = "key_of ob"
  show "(r = None \<longrightarrow> (\<exists>old n. mem_view w ?k = Some old \<and>
      mem_view w' = (mem_view w)(?k \<mapsto> set_status ob old\<lparr>k_meta := (k_meta old)\<lparr>m_version := n\<rparr>\<rparr>))) \<and>
      (r \<noteq> None \<longrightarrow> mem_view w' = mem_view w)"
  proof (cases "mem_view w ?k")
    case None
    then show ?thesis using run by (auto simp: mem_client_def mem_status_def)
  next
    case (Some old)
    then have old: "key_of old = ?k" "m_deleting (k_meta old) \<longrightarrow> m_finalizers (k_meta old) \<noteq> []"
      by (auto simp: mem_view_def split: option.splits if_splits)
    have s: "set_status ob old\<lparr>k_meta := (k_meta old)\<lparr>m_version := m_version (k_meta old)\<rparr>\<rparr> = set_status ob old"
      by (cases "set_status ob old") (use set_status_key(2) [of ob old] in simp)
    have "r = None" "w' = fmupd ?k (set_status ob old) w"
      using run Some by (auto simp: mem_client_def mem_status_def)
    moreover have "mem_view (fmupd ?k (set_status ob old) w) = (mem_view w)(?k \<mapsto> set_status ob old)"
      using old by (intro mem_view_upd) simp_all
    ultimately show ?thesis using Some s by metis
  qed
qed

lemma key_of_deleting [simp]: "key_of (ob\<lparr>k_meta := (k_meta ob)\<lparr>m_deleting := b\<rparr>\<rparr>) = key_of ob"
  by (simp add: key_of_def)

lemma mem_view_key: "mem_view m k = Some ob \<Longrightarrow> key_of ob = k \<and> fmlookup m k = Some ob \<and>
    (m_deleting (k_meta ob) \<longrightarrow> m_finalizers (k_meta ob) \<noteq> [])"
  by (auto simp: mem_view_def split: option.splits if_splits)

lemma mem_delete_all_ok: "delete_all_ok mem_client mem_view"
  unfolding delete_all_ok_def
proof (intro allI impI)
  fix K ns sel m r m' k assume run: "run_state (cl_delete_all mem_client K ns sel) m = (r, m')"
  let ?f = "\<lambda>k ob. if mem_view m k = Some ob \<and> selected K ns sel ob
     then ob\<lparr>k_meta := (k_meta ob)\<lparr>m_deleting := True\<rparr>\<rparr> else ob"
  have m': "m' = fmmap_keys ?f m" using run by (simp add: mem_client_def mem_delete_all_def)
  have eq: "ob\<lparr>k_meta := (k_meta ob)\<lparr>m_deleting := True\<rparr>\<rparr> = ob" if "m_deleting (k_meta ob)" for ob :: kobject
    using that by (cases ob) simp
  show "if \<exists>ob. mem_view m k = Some ob \<and> key_of ob = k \<and> selected K ns sel ob
       then (mem_view m' k = mem_view m k \<and> r \<noteq> None) \<or> deleted_as (the (mem_view m k)) (mem_view m' k)
       else mem_view m' k = mem_view m k"
  proof (cases "\<exists>ob. mem_view m k = Some ob \<and> selected K ns sel ob")
    case True
    then obtain ob where ob: "mem_view m k = Some ob" "selected K ns sel ob" by blast
    note k = mem_view_key [OF ob(1)]
    have "mem_view m' k = (if m_finalizers (k_meta ob) = [] then None
        else Some (ob\<lparr>k_meta := (k_meta ob)\<lparr>m_deleting := True\<rparr>\<rparr>))"
      using k ob unfolding m' by (simp add: mem_view_def)
    then show ?thesis using ob k eq [of ob] by (auto simp: deleted_as_def)
  next
    case False
    then have "mem_view m' k = mem_view m k"
      unfolding m' by (cases "fmlookup m k") (auto simp: mem_view_def split: if_splits)
    then show ?thesis using False by auto
  qed
qed

lemma mem_client_ok: "api_ok mem_client mem_view"
proof -
  have "get_ok mem_client mem_view" "clock_ok mem_client mem_view"
    unfolding get_ok_def clock_ok_def
    by (auto simp: mem_client_def mem_get_def mem_view_def fun_eq_iff
        split: option.splits if_splits)
  then show ?thesis
    using mem_create_ok mem_update_ok mem_delete_ok mem_list_ok mem_status_ok mem_delete_all_ok by (simp add: api_ok_def)
qed

text \<open>The same store as a reconciler's environment.\<close>

definition sample_tls :: tls_library where
  "sample_tls = (let d = \<lparr>tp_Ciphers = [''TLS_AES_128_GCM_SHA256''], tp_MinTLSVersion = ''VersionTLS12''\<rparr> in
     \<lparr>tl_default = d, tl_profiles = (\<lambda>t. if t = ''Intermediate'' then Some d else None)\<rparr>)"

definition mem_reconciler :: "options \<Rightarrow> mem reconciler" where
  "mem_reconciler op = client.extend mem_client
     (reconciler.fields op (\<lambda>_. []) (\<lambda>_. replicate 40 CHR ''a'') (\<lambda>_. replicate 64 CHR ''b'')
       (\<lambda>n. ret (Inr (replicate n 7))) (attempts 4) (\<lambda>i t c. poll_steps 3 c (None, None))
       (\<lambda>y. Inr ''yaml'') (\<lambda>y. Inr ''json'') (\<lambda>p. Inr ''pod'') (\<lambda>s. Inr (DMap [(''auths'', DMap [])]))
       (\<lambda>s. Some (''CERTIFICATE'', s)) (\<lambda>s. None) sample_tls ret)"

definition no_options :: "string \<Rightarrow> options" where
  "no_options ns = \<lparr>OpenShiftMajor = ''4'', OpenshiftMinor = ''18'',
     LightspeedServiceImage = ''svc'', LightspeedServicePostgresImage = ''pg'',
     ConsoleUIImage = ''ui'', AgenticConsoleUIImage = [], AlertsAdapterImage = [],
     AgenticSandboxImage = [], OtelCollectorImage = [], DataverseExporterImage = ''exp'',
     OpenShiftMCPServerImage = ''mcp'', RHOOKPImage = ''okp'', RosaOKPProductEnv' = None,
     Namespace = ns, PrometheusAvailable = False\<rparr>"

lemma mem_reconciler_ops [simp]:
  "cl_get (mem_reconciler op) = mem_get" "cl_create (mem_reconciler op) = mem_create"
  "cl_update (mem_reconciler op) = mem_update" "cl_delete (mem_reconciler op) = mem_delete"
  "cl_update_status (mem_reconciler op) = mem_status"
  "cl_now (mem_reconciler op) = ret ''2024-01-01T00:00:00Z''"
  "cl_list (mem_reconciler op) = mem_list"
  "cl_delete_all (mem_reconciler op) = mem_delete_all"
  "Options (mem_reconciler op) = op" "Getenv (mem_reconciler op) = (\<lambda>_. [])"
  "sha1_hex (mem_reconciler op) = (\<lambda>_. replicate 40 CHR ''a'')"
  "sha256_hex (mem_reconciler op) = (\<lambda>_. replicate 64 CHR ''b'')"
  "rand_read (mem_reconciler op) = (\<lambda>n. ret (Inr (replicate n 7)))"
  "RetryOnConflict (mem_reconciler op) = attempts 4"
  "PollUntilTimeout (mem_reconciler op) = (\<lambda>i t c. poll_steps 3 c (None, None))"
  "yaml_marshal (mem_reconciler op) = (\<lambda>y. Inr ''yaml'')" "json_marshal (mem_reconciler op) = (\<lambda>y. Inr ''json'')"
  "json_pod (mem_reconciler op) = (\<lambda>p. Inr ''pod'')"
  "json_unmarshal (mem_reconciler op) = (\<lambda>s. Inr (DMap [(''auths'', DMap [])]))"
  "pem_decode (mem_reconciler op) = (\<lambda>s. Some (''CERTIFICATE'', s))" "x509_parse (mem_reconciler op) = (\<lambda>s. None)"
  "tls_lib (mem_reconciler op) = sample_tls" "walk_map (mem_reconciler op) = ret"
  "\<not> localDev (mem_reconciler op)"
  by (simp_all add: mem_reconciler_def client.defs reconciler.defs mem_client_def localDev_def)

lemma mem_reconciler_ok: "api_ok (mem_reconciler op) mem_view"
proof -
  have "cl_get (mem_reconciler op) = cl_get mem_client" "cl_create (mem_reconciler op) = cl_create mem_client"
    "cl_update (mem_reconciler op) = cl_update mem_client" "cl_delete (mem_reconciler op) = cl_delete mem_client"
    "cl_now (mem_reconciler op) = cl_now mem_client" "cl_list (mem_reconciler op) = cl_list mem_client"
    "cl_update_status (mem_reconciler op) = cl_update_status mem_client"
    "cl_delete_all (mem_reconciler op) = cl_delete_all mem_client"
    by (simp_all add: mem_client_def)
  then show ?thesis
    using mem_client_ok unfolding api_ok_def get_ok_def create_ok_def update_ok_def delete_ok_def clock_ok_def
      list_ok_def status_ok_def delete_all_ok_def by (simp only:)
qed

lemma mem_runtime_ok: "runtime_ok (mem_reconciler op)"
  unfolding runtime_ok_def retry_ok_def poll_ok_def mem_reconciler_ops
  by (metis numeral_3_eq_3)

text \<open>A custom resource with nothing set.\<close>

definition no_config :: Config where
  "no_config = \<lparr>cf_Replicas = None, cf_Resources = None, cf_Tolerations = None,
     cf_NodeSelector = None\<rparr>"

definition blank_ols :: OLSSpec where
  "blank_ols = \<lparr>
     o_ConversationCache = \<lparr>ca_Type = [], ca_Postgres = \<lparr>pg_SharedBuffers = [], pg_MaxConnections = 0\<rparr>\<rparr>,
     o_DeploymentConfig = \<lparr>dc_APIContainer = no_config,
        dc_DataCollectorContainer = \<lparr>cc_Resources = None\<rparr>, dc_MCPServerContainer = no_config,
        dc_RHOKPContainer = no_config, dc_ConsoleContainer = no_config,
        dc_AgenticConsoleContainer = no_config, dc_DatabaseContainer = no_config,
        dc_AlertsAdapter = \<lparr>aa_Config = no_config, aa_ConfigMapRef = None\<rparr>, dc_OtelCollector = no_config\<rparr>,
     o_LogLevel = ''INFO'', o_DefaultModel = [], o_DefaultProvider = [], o_QueryFilters = None,
     o_UserDataCollection = \<lparr>ud_FeedbackDisabled = False, ud_TranscriptsDisabled = False\<rparr>,
     o_TLSConfig = None, o_AdditionalCAConfigMapRef = None, o_TLSSecurityProfile = None,
     o_IntrospectionEnabled = None, o_AuditEventsEnabled = None, o_MCPKubeServerTimeout = None,
     o_ProxyConfig = None, o_RAG = [], o_QuotaHandlersConfig = None, o_Storage = None,
     o_ByokRAGOnly = False, o_QuerySystemPrompt = [], o_MaxIterations = 0,
     o_ImagePullSecrets = None, o_ToolFilteringConfig = None, o_ToolsApprovalConfig = None\<rparr>"

definition blank_cr :: "ProviderSpec list \<Rightarrow> OLSConfig" where
  "blank_cr ps = \<lparr>cr_Meta = (new_meta [] ''cluster'' fmempty)\<lparr>m_uid := ''uid-1''\<rparr>,
     cr_Spec = \<lparr>s_LLMConfig = \<lparr>llm_Providers = ps\<rparr>, s_OLSConfig = blank_ols,
        s_OLSDataCollectorConfig = \<lparr>ds_LogLevel = []\<rparr>, s_MCPServers = [], s_FeatureGates = [],
        s_Audit = \<lparr>au_Logging = None, au_TracingEndpoint = []\<rparr>, s_AgenticOLS = None\<rparr>,
     cr_Status = \<lparr>os_Conditions = [], os_OverallStatus = [], os_DiagnosticInfo = []\<rparr>\<rparr>"

end
