(* ===== verification/Reconcile_Core.thy ===== *)
theory Reconcile_Core
  imports Cluster
begin

text \<open>
  The shape every object reconciler of the operator has: read the object; create it when it is
  missing; otherwise compare it with the desired one and, when it differs, write back the found
  object with the managed fields replaced. \<open>fetch\<close>, \<open>create_as\<close> and \<open>update_as\<close> are the pieces of
  that shape as the Go functions spell them, \<open>create_or_update\<close> is the whole of it.

  \<open>settles v K G m\<close> is the contract such a step has: it only touches the keys \<open>K\<close>, a successful
  run ends with \<open>G\<close>, and when \<open>G\<close> already holds the run writes nothing. It composes along
  sequences of steps with disjoint keys, which is how whole phases are shown to converge.
\<close>

section \<open>The pieces\<close>

definition fetch :: "'w reconciler \<Rightarrow> okey \<Rightarrow> ('w, goerr option) io \<Rightarrow>
    (goerr \<Rightarrow> ('w, goerr option) io) \<Rightarrow> (kobject \<Rightarrow> ('w, goerr option) io) \<Rightarrow>
    ('w, goerr option) io" where
  "fetch r k missing failed found = do {
     x \<leftarrow> cl_get r k;
     case x of
       Inr ob \<Rightarrow> found ob
     | Inl e \<Rightarrow> (if IsNotFound e then missing else failed e) }"

definition create_as :: "'w reconciler \<Rightarrow> string \<Rightarrow> kobject \<Rightarrow> ('w, goerr option) io" where
  "create_as r msg ob = do { e \<leftarrow> cl_create r ob; ret (map_option (wrapf msg) e) }"

definition update_as :: "'w reconciler \<Rightarrow> string \<Rightarrow> kobject \<Rightarrow> ('w, goerr option) io" where
  "update_as r msg ob = do { e \<leftarrow> cl_update r ob; ret (map_option (wrapf msg) e) }"

definition create_or_update ::
  "'w reconciler \<Rightarrow> string \<Rightarrow> string \<Rightarrow> string \<Rightarrow> okey \<Rightarrow> kobject \<Rightarrow> (kobject \<Rightarrow> bool) \<Rightarrow>
   (kobject \<Rightarrow> kobject) \<Rightarrow> ('w, goerr option) io" where
  "create_or_update r errGet errCreate errUpdate k desired same merge =
     fetch r k (create_as r errCreate desired) (\<lambda>e. ret (Some (wrapf errGet e)))
       (\<lambda>found. if same found then ret None else update_as r errUpdate (merge found))"

section \<open>The contract\<close>

definition on_keys :: "okey set \<Rightarrow> ((okey \<Rightarrow> kobject option) \<Rightarrow> bool) \<Rightarrow> bool" where
  "on_keys K G = (\<forall>f g. (\<forall>k \<in> K. f k = g k) \<longrightarrow> G f = G g)"

definition settles :: "('w \<Rightarrow> okey \<Rightarrow> kobject option) \<Rightarrow> okey set \<Rightarrow>
    ((okey \<Rightarrow> kobject option) \<Rightarrow> bool) \<Rightarrow> ('w, goerr option) io \<Rightarrow> bool" where
  "settles v K G m = (on_keys K G \<and> (\<forall>w e w'. run_state m w = (e, w') \<longrightarrow>
      (e = None \<longrightarrow> G (v w')) \<and> (\<forall>k. k \<notin> K \<longrightarrow> v w' k = v w k) \<and> (G (v w) \<longrightarrow> v w' = v w)))"

lemma settlesD:
  assumes "settles v K G m" "run_state m w = (e, w')"
  shows "e = None \<Longrightarrow> G (v w')" "k \<notin> K \<Longrightarrow> v w' k = v w k" "G (v w) \<Longrightarrow> v w' = v w"
    "on_keys K G"
  using assms unfolding settles_def by blast+

lemma settlesI:
  assumes "on_keys K G"
    "\<And>w w'. run_state m w = (None, w') \<Longrightarrow> G (v w')"
    "\<And>w e w' k. run_state m w = (e, w') \<Longrightarrow> k \<notin> K \<Longrightarrow> v w' k = v w k"
    "\<And>w e w'. run_state m w = (e, w') \<Longrightarrow> G (v w) \<Longrightarrow> v w' = v w"
  shows "settles v K G m"
  using assms by (auto simp: settles_def)

text \<open>The same without the promise to write nothing when \<open>G\<close> already holds.\<close>

definition ensures :: "('w \<Rightarrow> okey \<Rightarrow> kobject option) \<Rightarrow> okey set \<Rightarrow>
    ((okey \<Rightarrow> kobject option) \<Rightarrow> bool) \<Rightarrow> ('w, goerr option) io \<Rightarrow> bool" where
  "ensures v K G m = (on_keys K G \<and> (\<forall>w e w'. run_state m w = (e, w') \<longrightarrow>
      (e = None \<longrightarrow> G (v w')) \<and> (\<forall>k. k \<notin> K \<longrightarrow> v w' k = v w k)))"

lemma settles_ensures: "settles v K G m \<Longrightarrow> ensures v K G m"
  unfolding settles_def ensures_def by blast

lemma ensuresD:
  assumes "ensures v K G m" "run_state m w = (e, w')"
  shows "e = None \<Longrightarrow> G (v w')" "k \<notin> K \<Longrightarrow> v w' k = v w k" "on_keys K G"
  using assms unfolding ensures_def by blast+

lemma settles_quiet:
  assumes "ensures v K G m" "\<And>w e w'. run_state m w = (e, w') \<Longrightarrow> G (v w) \<Longrightarrow> v w' = v w"
  shows "settles v K G m"
  using assms unfolding ensures_def settles_def by blast

text \<open>A settled step, run again, writes nothing.\<close>

lemma settles_twice:
  assumes "settles v K G m" "run_state m w = (None, w1)" "run_state m w1 = (e, w2)"
  shows "v w2 = v w1"
  using settlesD [OF assms(1)] assms(2,3) by blast

lemma settles_ret: "settles v {} (\<lambda>f. True) (ret x)"
  by (auto simp: settles_def on_keys_def)

lemma settles_fail: "on_keys K G \<Longrightarrow> settles v K G (ret (Some e))"
  by (auto simp: settles_def)

lemma on_keys_object: "on_keys {k} (\<lambda>f. \<exists>s. f k = Some s \<and> P s)"
  by (simp add: on_keys_def)

lemma on_keys_conj:
  assumes "on_keys K G" "on_keys L H"
  shows "on_keys (K \<union> L) (\<lambda>f. G f \<and> H f)"
  unfolding on_keys_def
proof (intro allI impI)
  fix f g :: "okey \<Rightarrow> kobject option" assume "\<forall>k \<in> K \<union> L. f k = g k"
  then have "G f = G g" "H f = H g" using assms unfolding on_keys_def by blast+
  then show "(G f \<and> H f) = (G g \<and> H g)" by simp
qed

lemma settles_and_then:
  assumes a: "settles v K G m" and b: "settles v L H n" and disj: "K \<inter> L = {}"
  shows "settles v (K \<union> L) (\<lambda>f. G f \<and> H f) (and_then m n)"
proof (rule settlesI)
  show "on_keys (K \<union> L) (\<lambda>f. G f \<and> H f)"
    using a b on_keys_conj by (simp add: settles_def)
next
  fix w w' assume "run_state (and_then m n) w = (None, w')"
  then obtain w1 where m: "run_state m w = (None, w1)" and n: "run_state n w1 = (None, w')"
    by (auto simp: and_then_def split: prod.splits option.splits)
  have "G (v w1)" using settlesD(1) [OF a m] by simp
  moreover have "\<forall>k \<in> K. v w1 k = v w' k" using settlesD(2) [OF b n] disj by force
  ultimately have "G (v w')" using settlesD(4) [OF a m] unfolding on_keys_def by metis
  then show "G (v w') \<and> H (v w')" using settlesD(1) [OF b n] by simp
next
  fix w e w' k assume r: "run_state (and_then m n) w = (e, w')" and k: "k \<notin> K \<union> L"
  obtain e1 w1 where m: "run_state m w = (e1, w1)" by force
  show "v w' k = v w k"
    using r m k settlesD(2) [OF a m] settlesD(2) [OF b, of w1 e w']
    by (cases e1) (auto simp: and_then_def)
next
  fix w e w' assume r: "run_state (and_then m n) w = (e, w')" and gh: "G (v w) \<and> H (v w)"
  obtain e1 w1 where m: "run_state m w = (e1, w1)" by force
  show "v w' = v w"
    using r m gh settlesD(3) [OF a m] settlesD(3) [OF b, of w1 e w']
    by (cases e1) (auto simp: and_then_def)
qed

lemma ensures_and_then:
  assumes a: "ensures v K G m" and b: "ensures v L H n" and disj: "K \<inter> L = {}"
  shows "ensures v (K \<union> L) (\<lambda>f. G f \<and> H f) (and_then m n)"
proof -
  have "(e = None \<longrightarrow> G (v w') \<and> H (v w')) \<and> (\<forall>k. k \<notin> K \<union> L \<longrightarrow> v w' k = v w k)"
    if run: "run_state (and_then m n) w = (e, w')" for w e w'
  proof -
    obtain e1 w1 where m: "run_state m w = (e1, w1)" by force
    note am = ensuresD [OF a m]
    show ?thesis
    proof (cases e1)
      case None
      then have n: "run_state n w1 = (e, w')" using run m by (simp add: and_then_def)
      note bn = ensuresD [OF b n]
      have "\<forall>k \<in> K. v w1 k = v w' k" using bn(2) disj by fastforce
      then have "G (v w')" using am(1) [OF None] am(3) unfolding on_keys_def by blast
      then show ?thesis using am(2) bn(1,2) by auto
    next
      case (Some err)
      then show ?thesis using run m am(2) by (auto simp: and_then_def)
    qed
  qed
  moreover have "on_keys (K \<union> L) (\<lambda>f. G f \<and> H f)"
    using a b on_keys_conj by (simp add: ensures_def)
  ultimately show ?thesis unfolding ensures_def by simp
qed

text \<open>Wrapping the error of a step leaves its contract.\<close>

lemma ensures_wrap:
  "ensures v K G m \<Longrightarrow> ensures v K G (do { e \<leftarrow> m; ret (map_option f e) })"
  by (auto simp: ensures_def split: prod.splits)

lemma settles_wrap:
  "settles v K G m \<Longrightarrow> settles v K G (do { e \<leftarrow> m; ret (map_option f e) })"
  by (auto simp: settles_def split: prod.splits)

lemma settles_only: "on_keys K G \<Longrightarrow> settles v K' G m \<Longrightarrow> K' \<subseteq> K \<Longrightarrow> settles v K G m"
  unfolding settles_def by blast

section \<open>Every reconciler of this shape settles\<close>

lemma run_create_as [go_run]:
  "run_state (create_as r msg ob) w =
     (case run_state (cl_create r ob) w of (e, w') \<Rightarrow> (map_option (wrapf msg) e, w'))"
  by (simp add: create_as_def split: prod.splits)

lemma run_update_as [go_run]:
  "run_state (update_as r msg ob) w =
     (case run_state (cl_update r ob) w of (e, w') \<Rightarrow> (map_option (wrapf msg) e, w'))"
  by (simp add: update_as_def split: prod.splits)

lemma run_fetch [go_run]:
  "run_state (fetch r k missing failed found) w =
     (case run_state (cl_get r k) w of
        (Inr ob, w') \<Rightarrow> run_state (found ob) w'
      | (Inl e, w') \<Rightarrow> run_state (if IsNotFound e then missing else failed e) w')"
  by (simp add: fetch_def split: prod.splits sum.splits)

text \<open>
  \<open>cur\<close> says that a stored object is up to date. A reconciler that, on finding an object, does
  nothing when it is up to date and otherwise writes a version of it, settles on \<open>cur\<close>.
\<close>

lemma settles_fetch:
  assumes api: "api_ok r v" and key: "key_of desired = k"
    and created: "\<And>s. stored_as desired s \<Longrightarrow> cur s"
    and found: "\<And>ob w e w'. key_of ob = k \<Longrightarrow> run_state (upd ob) w = (e, w') \<Longrightarrow>
        (m_deleting (k_meta ob) \<Longrightarrow> m_finalizers (k_meta ob) \<noteq> []) \<Longrightarrow>
        (v w k = Some ob \<longrightarrow> e = None \<longrightarrow> (\<exists>s. v w' k = Some s \<and> cur s)) \<and>
        (\<forall>k'. k' \<noteq> k \<longrightarrow> v w' k' = v w k') \<and> (cur ob \<longrightarrow> v w' = v w)"
  shows "settles v {k} (\<lambda>f. \<exists>s. f k = Some s \<and> cur s)
     (fetch r k (create_as r ec desired) (\<lambda>e. ret (Some (wrapf eg e))) upd)"
proof -
  let ?m = "fetch r k (create_as r ec desired) (\<lambda>e. ret (Some (wrapf eg e))) upd"
  have "(e = None \<longrightarrow> (\<exists>s. v w' k = Some s \<and> cur s)) \<and> (\<forall>k'. k' \<notin> {k} \<longrightarrow> v w' k' = v w k') \<and>
      ((\<exists>s. v w k = Some s \<and> cur s) \<longrightarrow> v w' = v w)" if run: "run_state ?m w = (e, w')" for w e w'
  proof -
    obtain x w1 where g: "run_state (cl_get r k) w = (x, w1)" by force
    note get = api_get [OF api g]
    consider (ob) ob where "x = Inr ob" | (err) err where "x = Inl err" "\<not> IsNotFound err"
      | (none) err where "x = Inl err" "IsNotFound err" by (cases x) auto
    then show ?thesis
    proof cases
      case ob
      then have "run_state (upd ob) w1 = (e, w')" using run g by (simp add: run_fetch)
      then show ?thesis using found [of ob w1 e w'] get ob by (metis option.inject singletonI)
    next
      case err
      then show ?thesis using run g get(1) by (auto simp: run_fetch)
    next
      case none
      then obtain ce where c: "run_state (cl_create r desired) w1 = (ce, w')"
        and e: "e = map_option (wrapf ec) ce"
        using run g by (auto simp: run_fetch run_create_as split: prod.splits)
      show ?thesis using api_create [OF api c] get none created key e by (cases ce) auto
    qed
  qed
  then show ?thesis unfolding settles_def using on_keys_object by blast
qed

text \<open>The managed fields of the found object are replaced, the server's own are kept.\<close>

definition keeps_life :: "(kobject \<Rightarrow> kobject) \<Rightarrow> bool" where
  "keeps_life merge = (\<forall>ob. m_deleting (k_meta (merge ob)) = m_deleting (k_meta ob) \<and>
     m_finalizers (k_meta (merge ob)) = m_finalizers (k_meta ob))"

lemma update_as_found:
  assumes api: "api_ok r v" and key: "key_of ob' = key_of ob"
    and life: "m_deleting (k_meta ob') = m_deleting (k_meta ob)"
      "m_finalizers (k_meta ob') = m_finalizers (k_meta ob)"
      "m_deleting (k_meta ob) \<Longrightarrow> m_finalizers (k_meta ob) \<noteq> []"
    and run: "run_state (update_as r msg ob') w = (e, w')"
  shows "e = None \<Longrightarrow> \<exists>s. v w' (key_of ob) = Some s \<and> stored_as ob' s"
    "k \<noteq> key_of ob \<Longrightarrow> v w' k = v w k" "e \<noteq> None \<Longrightarrow> v w' = v w"
proof -
  obtain ue where u: "run_state (cl_update r ob') w = (ue, w')" and e: "e = map_option (wrapf msg) ue"
    using run by (auto simp: run_update_as split: prod.splits)
  show "e = None \<Longrightarrow> \<exists>s. v w' (key_of ob) = Some s \<and> stored_as ob' s"
    using api_update(1) [OF api u] life e key by auto
  show "k \<noteq> key_of ob \<Longrightarrow> v w' k = v w k" using api_update(4) [OF api u] key by simp
  show "e \<noteq> None \<Longrightarrow> v w' = v w" using api_update(3) [OF api u] e by auto
qed

lemma settles_create_or_update:
  assumes "api_ok r v" "key_of desired = k" "keeps_life merge"
    "\<And>ob. key_of ob = k \<Longrightarrow> key_of (merge ob) = k"
    "\<And>s. stored_as desired s \<Longrightarrow> cur s"
    "\<And>ob s. key_of ob = k \<Longrightarrow> stored_as (merge ob) s \<Longrightarrow> cur s"
    "\<And>s. key_of s = k \<Longrightarrow> same s \<longleftrightarrow> cur s"
  shows "settles v {k} (\<lambda>f. \<exists>s. f k = Some s \<and> cur s)
     (create_or_update r eg ec eu k desired same merge)"
  unfolding create_or_update_def
proof (rule settles_fetch [OF assms(1,2,5)])
  fix ob w e w'
  assume key: "key_of ob = k" and life: "m_deleting (k_meta ob) \<Longrightarrow> m_finalizers (k_meta ob) \<noteq> []"
    and run: "run_state (if same ob then ret None else update_as r eu (merge ob)) w = (e, w')"
  show "(v w k = Some ob \<longrightarrow> e = None \<longrightarrow> (\<exists>s. v w' k = Some s \<and> cur s)) \<and>
      (\<forall>k'. k' \<noteq> k \<longrightarrow> v w' k' = v w k') \<and> (cur ob \<longrightarrow> v w' = v w)"
  proof (cases "same ob")
    case True
    then show ?thesis using run assms(7) [OF key] by auto
  next
    case False
    then have u: "run_state (update_as r eu (merge ob)) w = (e, w')" using run by simp
    have life': "m_deleting (k_meta (merge ob)) = m_deleting (k_meta ob)"
      "m_finalizers (k_meta (merge ob)) = m_finalizers (k_meta ob)"
      using assms(3) by (simp_all add: keeps_life_def)
    have "key_of (merge ob) = key_of ob" using assms(4) key by simp
    note * = update_as_found [OF assms(1) this life' life u]
    have "e = None \<longrightarrow> (\<exists>s. v w' k = Some s \<and> cur s)" using *(1) assms(6) key by blast
    moreover have "\<forall>k'. k' \<noteq> k \<longrightarrow> v w' k' = v w k'" using *(2) key by blast
    moreover have "\<not> cur ob" using False assms(7) key by blast
    ultimately show ?thesis by blast
  qed
qed auto

section \<open>Desired objects computed from the cluster\<close>

text \<open>
  \<open>gen\<close> computes the desired state from the objects \<open>R\<close> without writing; \<open>D f\<close> is what it computes
  when the cluster stores \<open>f\<close>. The whole step settles when each follow-up does.
\<close>

lemma settles_generated:
  assumes gen: "\<And>w x w'. run_state gen w = (x, w') \<Longrightarrow>
      v w' = v w \<and> (\<forall>d. x = Inr d \<longrightarrow> D (v w) = Some d)"
    and deps: "\<And>f g. (\<forall>k \<in> R. f k = g k) \<Longrightarrow> D f = D g"
    and body: "\<And>f d. D f = Some d \<Longrightarrow> settles v K (G d) (recon d)" and disj: "K \<inter> R = {}"
  shows "settles v (K \<union> R) (\<lambda>f. \<exists>d. D f = Some d \<and> G d f) (try_or gen wrap recon)"
proof -
  have keys: "on_keys (K \<union> R) (\<lambda>f. \<exists>d. D f = Some d \<and> G d f)"
    unfolding on_keys_def
  proof (intro allI impI)
    fix f g :: "okey \<Rightarrow> kobject option" assume eq: "\<forall>k \<in> K \<union> R. f k = g k"
    have "D f = D g" using eq deps by blast
    moreover have "G d f = G d g" if "D f = Some d" for d
      using body [OF that] eq unfolding settles_def on_keys_def by blast
    ultimately show "(\<exists>d. D f = Some d \<and> G d f) = (\<exists>d. D g = Some d \<and> G d g)" by auto
  qed
  have "(e = None \<longrightarrow> (\<exists>d. D (v w') = Some d \<and> G d (v w'))) \<and> (\<forall>k. k \<notin> K \<union> R \<longrightarrow> v w' k = v w k) \<and>
      ((\<exists>d. D (v w) = Some d \<and> G d (v w)) \<longrightarrow> v w' = v w)"
    if run: "run_state (try_or gen wrap recon) w = (e, w')" for w e w'
  proof -
    obtain x w1 where x: "run_state gen w = (x, w1)" by force
    note g = gen [OF x]
    show ?thesis
    proof (cases x)
      case (Inl err)
      then show ?thesis using run x g by (auto simp: try_or_def)
    next
      case (Inr d)
      then have rd: "run_state (recon d) w1 = (e, w')" using run x by (simp add: try_or_def)
      have "D (v w) = Some d" using g Inr by simp
      note st = settlesD [OF body [OF this] rd]
      have "\<forall>k \<in> R. v w' k = v w k" using st(2) g disj by (metis IntI empty_iff)
      then have "D (v w') = Some d" using deps [of "v w'" "v w"] g Inr by simp
      then show ?thesis using st g Inr by auto
    qed
  qed
  then show ?thesis unfolding settles_def using keys by blast
qed

section \<open>Deletions\<close>

text \<open>Read, delete what is there, and take a missing object for deleted.\<close>

definition delete_object ::
  "'w reconciler \<Rightarrow> string \<Rightarrow> string \<Rightarrow> okey \<Rightarrow> ('w, goerr option) io" where
  "delete_object r errGet errDelete k =
     fetch r k (ret None) (\<lambda>e. ret (Some (wrapf errGet e))) (\<lambda>ob. do {
       e \<leftarrow> cl_delete r (key_of ob);
       ret (case e of None \<Rightarrow> None
          | Some err \<Rightarrow> (if IsNotFound err then None else Some (wrapf errDelete err))) })"

text \<open>An object is gone when it is not stored or only waits for its finalizers.\<close>

definition gone :: "kobject option \<Rightarrow> bool" where
  "gone x = (case x of None \<Rightarrow> True | Some ob \<Rightarrow> m_deleting (k_meta ob))"

lemma gone_deleted_as: "deleted_as ob x \<Longrightarrow> gone x"
  by (auto simp: deleted_as_def gone_def split: if_splits)

lemma settles_delete_object:
  assumes api: "api_ok r v"
  shows "settles v {k} (\<lambda>f. gone (f k)) (delete_object r eg ed k)"
proof (rule settlesI)
  show "on_keys {k} (\<lambda>f. gone (f k))" by (simp add: on_keys_def)
next
  have "(e = None \<longrightarrow> gone (v w' k)) \<and> (\<forall>k'. k' \<noteq> k \<longrightarrow> v w' k' = v w k') \<and> (gone (v w k) \<longrightarrow> v w' = v w)"
    if run: "run_state (delete_object r eg ed k) w = (e, w')" for w e w'
  proof -
    obtain x w1 where g: "run_state (cl_get r k) w = (x, w1)" by force
    note get = api_get [OF api g]
    show ?thesis
    proof (cases x)
      case (Inl err)
      then show ?thesis using run g get(1,5)
        by (auto simp: delete_object_def run_fetch gone_def split: if_splits)
    next
      case (Inr ob)
      obtain d where d: "run_state (cl_delete r k) w1 = (d, w')"
        and e: "e = (case d of None \<Rightarrow> None
             | Some err \<Rightarrow> (if IsNotFound err then None else Some (wrapf ed err)))"
        using run g Inr get(3) [OF Inr] by (auto simp: delete_object_def run_fetch split: prod.splits)
      have vk: "v w1 k = Some ob" using get(1,2) Inr by simp
      note del = api_delete [OF api d]
      show ?thesis
      proof (cases d)
        case None
        then obtain y where y: "deleted_as ob y" "v w' = (v w1)(k := y)" using del(1) vk by auto
        have "v w' = v w" if "gone (v w k)"
        proof -
          have "m_deleting (k_meta ob)" using that vk get(1) by (simp add: gone_def)
          then have "y = Some ob" using y(1) get(4) [OF Inr] by (simp add: deleted_as_def)
          then show ?thesis using y(2) vk get(1) by auto
        qed
        then show ?thesis using y gone_deleted_as get(1) e None by auto
      next
        case (Some err)
        then show ?thesis using del(2,3) vk get(1) e by (auto split: if_splits)
      qed
    qed
  qed
  then show "\<And>w w'. run_state (delete_object r eg ed k) w = (None, w') \<Longrightarrow> gone (v w' k)"
    "\<And>w e w' k'. run_state (delete_object r eg ed k) w = (e, w') \<Longrightarrow> k' \<notin> {k} \<Longrightarrow> v w' k' = v w k'"
    "\<And>w e w'. run_state (delete_object r eg ed k) w = (e, w') \<Longrightarrow> gone (v w k) \<Longrightarrow> v w' = v w"
    by blast+
qed

section \<open>The contract as an interface\<close>

text \<open>
  A reconciler of one object: what it is given (\<open>'d\<close>), the key it manages, when a stored object
  is up to date, and which inputs it is meant for. Phases use such a reconciler only through
  this interface.
\<close>

locale object_reconciler =
  fixes recon :: "'w reconciler \<Rightarrow> 'd \<Rightarrow> ('w, goerr option) io"
    and key :: "'d \<Rightarrow> okey" and cur :: "'d \<Rightarrow> kobject \<Rightarrow> bool"
    and wf :: "'w reconciler \<Rightarrow> 'd \<Rightarrow> bool"
  assumes settles_recon: "api_ok r v \<Longrightarrow> wf r d \<Longrightarrow>
      settles v {key d} (\<lambda>f. \<exists>s. f (key d) = Some s \<and> cur d s) (recon r d)"
begin

lemma recon_establishes:
  assumes "api_ok r v" "wf r d" "run_state (recon r d) w = (None, w')"
  shows "\<exists>s. v w' (key d) = Some s \<and> cur d s"
  using settlesD(1) [OF settles_recon [OF assms(1,2)] assms(3)] by simp

lemma recon_frame:
  assumes "api_ok r v" "wf r d" "run_state (recon r d) w = (e, w')" "k \<noteq> key d"
  shows "v w' k = v w k"
  using settlesD(2) [OF settles_recon [OF assms(1,2)] assms(3), of k] assms(4) by blast

lemma recon_idempotent:
  assumes "api_ok r v" "wf r d" "run_state (recon r d) w = (None, w1)"
    "run_state (recon r d) w1 = (e, w2)"
  shows "v w2 = v w1"
  using settles_twice [OF settles_recon [OF assms(1,2)] assms(3,4)] .

lemma recon_quiet:
  assumes "api_ok r v" "wf r d" "v w (key d) = Some s" "cur d s"
    "run_state (recon r d) w = (e, w')"
  shows "v w' = v w"
  using settlesD(3) [OF settles_recon [OF assms(1,2)] assms(5)] assms(3,4) by blast

end

end
