(* ===== verification/Constants.thy ===== *)
theory Constants
  imports Prelude
begin

text \<open>
  The operator's constants that the model uses: resource names, annotation keys, provider
  types, ports, condition types and error prefixes, from
  \<open>internal/controller/utils/constants.go\<close>, \<open>errors.go\<close> and \<open>types.go\<close>, under their Go names.
  They stay folded in terms; the collection \<open>go_const\<close> unfolds them where a proof needs the
  spelling.
\<close>

definition VolumeDefaultMode :: int where [go_const]: "VolumeDefaultMode = 420"
definition VolumeRestrictedMode :: int where [go_const]: "VolumeRestrictedMode = 384"
definition OLSConfigName :: string where [go_const]: "OLSConfigName = ''cluster''"
definition OLSConfigKind :: string where [go_const]: "OLSConfigKind = ''OLSConfig''"
definition OLSConfigAPIVersion :: string where
  [go_const]: "OLSConfigAPIVersion = ''ols.openshift.io/v1alpha1''"
definition OLSConfigFinalizer :: string where
  [go_const]: "OLSConfigFinalizer = ''ols.openshift.io/finalizer''"
definition ClientCACmName :: string where [go_const]: "ClientCACmName = ''metrics-client-ca''"
definition ClientCACmNamespace :: string where
  [go_const]: "ClientCACmNamespace = ''openshift-monitoring''"
definition ClientCACertKey :: string where [go_const]: "ClientCACertKey = ''client-ca.crt''"
definition OLSConfigCmName :: string where [go_const]: "OLSConfigCmName = ''olsconfig''"
definition OLSCAConfigMap :: string where
  [go_const]: "OLSCAConfigMap = ''openshift-service-ca.crt''"
definition OLSNamespaceDefault :: string where
  [go_const]: "OLSNamespaceDefault = ''openshift-lightspeed''"
definition OLSAppServerServiceAccountName :: string where
  [go_const]: "OLSAppServerServiceAccountName = ''lightspeed-app-server''"
definition OLSAppServerSARRoleName :: string where
  [go_const]: "OLSAppServerSARRoleName = OLSAppServerServiceAccountName @ ''-sar-role''"
definition OLSAppServerSARRoleBindingName :: string where
  [go_const]: "OLSAppServerSARRoleBindingName = OLSAppServerSARRoleName @ ''-binding''"
definition OLSAppServerDeploymentName :: string where
  [go_const]: "OLSAppServerDeploymentName = ''lightspeed-app-server''"
definition APIKeyMountRoot :: string where [go_const]: "APIKeyMountRoot = ''/etc/apikeys''"
definition CredentialsMountRoot :: string where
  [go_const]: "CredentialsMountRoot = ''/etc/credentials''"
definition OLSAppCertsMountRoot :: string where
  [go_const]: "OLSAppCertsMountRoot = ''/etc/certs''"
definition OLSConfigMountRoot :: string where [go_const]: "OLSConfigMountRoot = ''/etc/ols''"
definition OLSComponentPasswordFileName :: string where
  [go_const]: "OLSComponentPasswordFileName = ''password''"
definition OLSConfigFilename :: string where [go_const]: "OLSConfigFilename = ''olsconfig.yaml''"
definition AppServerServiceMonitorName :: string where
  [go_const]: "AppServerServiceMonitorName = ''lightspeed-app-server-monitor''"
definition AppServerPrometheusRuleName :: string where
  [go_const]: "AppServerPrometheusRuleName = ''lightspeed-app-server-prometheus-rule''"
definition AppServerMetricsPath :: string where [go_const]: "AppServerMetricsPath = ''/metrics''"
definition AppAdditionalCACertDir :: string where
  [go_const]: "AppAdditionalCACertDir = ''ols-additional-ca''"
definition UserCACertDir :: string where [go_const]: "UserCACertDir = ''ols-user-ca''"
definition OpenShiftCAVolumeName :: string where
  [go_const]: "OpenShiftCAVolumeName = ''openshift-ca''"
definition AdditionalCAVolumeName :: string where
  [go_const]: "AdditionalCAVolumeName = ''additional-ca''"
definition CertBundleVolumeName :: string where
  [go_const]: "CertBundleVolumeName = ''cert-bundle''"
definition ProxyCACertFileName :: string where
  [go_const]: "ProxyCACertFileName = ''proxy-ca.crt''"
definition ProxyCACertVolumeName :: string where
  [go_const]: "ProxyCACertVolumeName = ''proxy-ca''"
definition RAGVolumeName :: string where [go_const]: "RAGVolumeName = ''rag''"
definition RAGVolumeMountPath :: string where [go_const]: "RAGVolumeMountPath = ''/rag-data''"
definition OLSAppServerNetworkPolicyName :: string where
  [go_const]: "OLSAppServerNetworkPolicyName = ''lightspeed-app-server''"
definition FeatureGateMCPServer :: string where [go_const]: "FeatureGateMCPServer = ''MCPServer''"
definition FeatureGateToolFiltering :: string where
  [go_const]: "FeatureGateToolFiltering = ''ToolFiltering''"
definition ProxyCACertHashAnnotation :: string where
  [go_const]: "ProxyCACertHashAnnotation = ''ols.openshift.io/proxy-ca-configmap-hash''"
definition OLSAppServerContainerPort :: int where [go_const]: "OLSAppServerContainerPort = 8443"
definition OLSAppServerServicePort :: int where [go_const]: "OLSAppServerServicePort = 8443"
definition OLSAppServerServiceName :: string where
  [go_const]: "OLSAppServerServiceName = ''lightspeed-app-server''"
definition OLSCertsSecretName :: string where
  [go_const]: "OLSCertsSecretName = ''lightspeed-tls''"
definition ServingCertSecretAnnotationKey :: string where
  [go_const]: "ServingCertSecretAnnotationKey = ''service.beta.openshift.io/serving-cert-secret-name''"
definition DefaultCredentialKey :: string where [go_const]: "DefaultCredentialKey = ''apitoken''"
definition BedrockAccessKeyIDKey :: string where
  [go_const]: "BedrockAccessKeyIDKey = ''aws_access_key_id''"
definition BedrockSecretAccessKeyKey :: string where
  [go_const]: "BedrockSecretAccessKeyKey = ''aws_secret_access_key''"
definition AzureOpenAIType :: string where [go_const]: "AzureOpenAIType = ''azure_openai''"
definition FakeProviderType :: string where [go_const]: "FakeProviderType = ''fake_provider''"
definition GoogleVertexType :: string where [go_const]: "GoogleVertexType = ''google_vertex''"
definition GoogleVertexAnthropicType :: string where
  [go_const]: "GoogleVertexAnthropicType = ''google_vertex_anthropic''"
definition BedrockType :: string where [go_const]: "BedrockType = ''bedrock''"
definition OLSSystemPromptFileName :: string where
  [go_const]: "OLSSystemPromptFileName = ''system_prompt''"
definition OLSAppServerImageStreamTriggerAnnotation :: string where
  [go_const]: "OLSAppServerImageStreamTriggerAnnotation = ''image.openshift.io/triggers''"
definition ConsoleUIConfigMapName :: string where
  [go_const]: "ConsoleUIConfigMapName = ''lightspeed-console-plugin''"
definition ConsoleUIServiceCertSecretName :: string where
  [go_const]: "ConsoleUIServiceCertSecretName = ''lightspeed-console-plugin-cert''"
definition ConsoleUIServiceName :: string where
  [go_const]: "ConsoleUIServiceName = ''lightspeed-console-plugin''"
definition ConsoleUIDeploymentName :: string where
  [go_const]: "ConsoleUIDeploymentName = ''lightspeed-console-plugin''"
definition ConsoleUIHTTPSPort :: int where [go_const]: "ConsoleUIHTTPSPort = 9443"
definition ConsoleUIPluginName :: string where
  [go_const]: "ConsoleUIPluginName = ''lightspeed-console-plugin''"
definition ConsoleUIServiceAccountName :: string where
  [go_const]: "ConsoleUIServiceAccountName = ''lightspeed-console-plugin''"
definition ConsoleCRName :: string where [go_const]: "ConsoleCRName = ''cluster''"
definition ConsoleProxyAlias :: string where [go_const]: "ConsoleProxyAlias = ''ols''"
definition ConsoleUINetworkPolicyName :: string where
  [go_const]: "ConsoleUINetworkPolicyName = ''lightspeed-console-plugin''"
definition AgenticConsoleUIConfigMapName :: string where
  [go_const]: "AgenticConsoleUIConfigMapName = ''lightspeed-agentic-console-plugin''"
definition AgenticConsoleUIServiceCertSecretName :: string where
  [go_const]: "AgenticConsoleUIServiceCertSecretName = ''lightspeed-agentic-console-plugin-cert''"
definition AgenticConsoleUIServiceName :: string where
  [go_const]: "AgenticConsoleUIServiceName = ''lightspeed-agentic-console-plugin''"
definition AgenticConsoleUIDeploymentName :: string where
  [go_const]: "AgenticConsoleUIDeploymentName = ''lightspeed-agentic-console-plugin''"
definition AgenticConsoleUIHTTPSPort :: int where [go_const]: "AgenticConsoleUIHTTPSPort = 9443"
definition AgenticConsoleUIPluginName :: string where
  [go_const]: "AgenticConsoleUIPluginName = ''lightspeed-agentic-console-plugin''"
definition AgenticConsoleUIPluginDisplayName :: string where
  [go_const]: "AgenticConsoleUIPluginDisplayName = ''OpenShift Lightspeed Agentic Console Plugin''"
definition AgenticConsoleUIServiceAccountName :: string where
  [go_const]: "AgenticConsoleUIServiceAccountName = ''lightspeed-agentic-console-plugin''"
definition AgenticConsoleUINetworkPolicyName :: string where
  [go_const]: "AgenticConsoleUINetworkPolicyName = ''lightspeed-agentic-console-plugin''"
definition AgenticConsoleUIContainerName :: string where
  [go_const]: "AgenticConsoleUIContainerName = ''console''"
definition WatcherAnnotationKey :: string where
  [go_const]: "WatcherAnnotationKey = ''ols.openshift.io/watcher''"
definition DefaultOpenShiftCerts :: string where
  [go_const]: "DefaultOpenShiftCerts = ''kube-root-ca.crt''"
definition ForceReloadAnnotationKey :: string where
  [go_const]: "ForceReloadAnnotationKey = ''ols.openshift.io/force-reload''"
definition PostgresCAVolume :: string where [go_const]: "PostgresCAVolume = ''cm-olspostgresca''"
definition PostgresDeploymentName :: string where
  [go_const]: "PostgresDeploymentName = ''lightspeed-postgres-server''"
definition PostgresWaitInitContainerName :: string where
  [go_const]: "PostgresWaitInitContainerName = ''wait-for-postgres''"
definition PostgresSecretKeyName :: string where
  [go_const]: "PostgresSecretKeyName = ''password''"
definition PostgresDefaultUser :: string where [go_const]: "PostgresDefaultUser = ''postgres''"
definition PostgresDefaultDbName :: string where
  [go_const]: "PostgresDefaultDbName = ''postgres''"
definition PostgresConfigMapResourceVersionAnnotation :: string where
  [go_const]: "PostgresConfigMapResourceVersionAnnotation = ''ols.openshift.io/postgres-configmap-version''"
definition PostgresServiceName :: string where
  [go_const]: "PostgresServiceName = ''lightspeed-postgres-server''"
definition OtelCollectorServiceName :: string where
  [go_const]: "OtelCollectorServiceName = ''lightspeed-otel-collector''"
definition OtelCollectorGRPCPort :: int where [go_const]: "OtelCollectorGRPCPort = 4317"
definition OtelCollectorHTTPPort :: int where [go_const]: "OtelCollectorHTTPPort = 4318"
definition OtelCollectorHealthCheckPort :: int where
  [go_const]: "OtelCollectorHealthCheckPort = 13133"
definition OtelCollectorAdminPort :: int where [go_const]: "OtelCollectorAdminPort = 8080"
definition OtelCollectorMetricsPort :: int where [go_const]: "OtelCollectorMetricsPort = 8888"
definition OtelCollectorMetricsInternalPort :: int where
  [go_const]: "OtelCollectorMetricsInternalPort = 18888"
definition OtelCollectorMetricsPath :: string where
  [go_const]: "OtelCollectorMetricsPath = ''/metrics''"
definition OtelCollectorMetricsUpstreamURL :: string where
  [go_const]: "OtelCollectorMetricsUpstreamURL = ''http://127.0.0.1:18888/metrics''"
definition OtelCollectorHTTPSMetricsExtension :: string where
  [go_const]: "OtelCollectorHTTPSMetricsExtension = ''https_metrics''"
definition OtelCollectorServiceMonitorName :: string where
  [go_const]: "OtelCollectorServiceMonitorName = ''lightspeed-otel-collector-monitor''"
definition OtelCollectorDeploymentName :: string where
  [go_const]: "OtelCollectorDeploymentName = ''lightspeed-otel-collector''"
definition OtelCollectorConfigMapName :: string where
  [go_const]: "OtelCollectorConfigMapName = ''lightspeed-otel-collector-config''"
definition OtelCollectorConfigMapDataKey :: string where
  [go_const]: "OtelCollectorConfigMapDataKey = ''config.yaml''"
definition LegacyOtelCollectorClientConfigMapName :: string where
  [go_const]: "LegacyOtelCollectorClientConfigMapName = ''lightspeed-otel-collector-client''"
definition AgenticConfigurationConfigMapName :: string where
  [go_const]: "AgenticConfigurationConfigMapName = ''lightspeed-agentic-configuration''"
definition AgenticConfigurationSandboxModeKey :: string where
  [go_const]: "AgenticConfigurationSandboxModeKey = ''sandbox-mode''"
definition AgenticConfigurationSandboxPodSpecKey :: string where
  [go_const]: "AgenticConfigurationSandboxPodSpecKey = ''sandbox-pod-spec''"
definition AgenticConfigurationMCPEndpointKey :: string where
  [go_const]: "AgenticConfigurationMCPEndpointKey = ''mcp-endpoint''"
definition AgenticConfigurationMCPCASecretKey :: string where
  [go_const]: "AgenticConfigurationMCPCASecretKey = ''mcp-ca-secret''"
definition AgenticConfigurationRHOKPEndpointKey :: string where
  [go_const]: "AgenticConfigurationRHOKPEndpointKey = ''rhokp-endpoint''"
definition AgenticConfigurationRHOKPCASecretKey :: string where
  [go_const]: "AgenticConfigurationRHOKPCASecretKey = ''rhokp-ca-secret''"
definition AgenticConfigurationCertReloadAnnotation :: string where
  [go_const]: "AgenticConfigurationCertReloadAnnotation = ''ols.openshift.io/client-ca-reload''"
definition AgenticOtelCASecretName :: string where
  [go_const]: "AgenticOtelCASecretName = ''lightspeed-agentic-otel-ca''"
definition AgenticOtelCASecretDataKey :: string where
  [go_const]: "AgenticOtelCASecretDataKey = ''otel-ca.crt''"
definition AgenticMCPCASecretName :: string where
  [go_const]: "AgenticMCPCASecretName = ''lightspeed-agentic-mcp-ca''"
definition AgenticMCPCASecretDataKey :: string where
  [go_const]: "AgenticMCPCASecretDataKey = ''mcp-ca.crt''"
definition AgenticRHOKPCASecretName :: string where
  [go_const]: "AgenticRHOKPCASecretName = ''lightspeed-agentic-rhokp-ca''"
definition AgenticRHOKPCASecretDataKey :: string where
  [go_const]: "AgenticRHOKPCASecretDataKey = ''rhokp-ca.crt''"
definition AgenticSandboxContainerName :: string where
  [go_const]: "AgenticSandboxContainerName = ''lightspeed-agentic-sandbox''"
definition AgenticIntegrationComponentLabel :: string where
  [go_const]: "AgenticIntegrationComponentLabel = ''agentic-integration''"
definition OtelCollectorConfigMapResourceVersionAnnotation :: string where
  [go_const]: "OtelCollectorConfigMapResourceVersionAnnotation = ''ols.openshift.io/otel-collector-configmap-version''"
definition OtelCollectorConfigVolumeName :: string where
  [go_const]: "OtelCollectorConfigVolumeName = ''config''"
definition OtelCollectorConfigVolumeMountPath :: string where
  [go_const]: "OtelCollectorConfigVolumeMountPath = ''/etc/otelcol''"
definition OtelCollectorCertsSecretName :: string where
  [go_const]: "OtelCollectorCertsSecretName = ''lightspeed-otel-collector-cert''"
definition OtelCollectorServingCertVolumeName :: string where
  [go_const]: "OtelCollectorServingCertVolumeName = ''serving-cert''"
definition OtelCollectorServingCertMountPath :: string where
  [go_const]: "OtelCollectorServingCertMountPath = ''/var/run/secrets/serving-cert''"
definition OtelCollectorPostgresConnectionStringEnvVar :: string where
  [go_const]: "OtelCollectorPostgresConnectionStringEnvVar = ''POSTGRES_CONNECTION_STRING''"
definition OtelCollectorPostgresDSNSecretName :: string where
  [go_const]: "OtelCollectorPostgresDSNSecretName = ''lightspeed-otel-collector-postgres''"
definition OtelCollectorPostgresConnectionStringSecretKey :: string where
  [go_const]: "OtelCollectorPostgresConnectionStringSecretKey = ''connection-string''"
definition OtelCollectorTracesBackendEndpointEnvVar :: string where
  [go_const]: "OtelCollectorTracesBackendEndpointEnvVar = ''TRACES_BACKEND_ENDPOINT''"
definition OtelCollectorNetworkPolicyName :: string where
  [go_const]: "OtelCollectorNetworkPolicyName = ''lightspeed-otel-collector''"
definition OtelCollectorServiceAccountName :: string where
  [go_const]: "OtelCollectorServiceAccountName = ''lightspeed-otel-collector''"
definition OtelCollectorContainerName :: string where
  [go_const]: "OtelCollectorContainerName = ''collector''"
definition OtelCollectorComponentLabel :: string where
  [go_const]: "OtelCollectorComponentLabel = ''otel-collector''"
definition OtelCollectorFileStorageMountPath :: string where
  [go_const]: "OtelCollectorFileStorageMountPath = ''/var/lib/otelcol/file_storage''"
definition OtelSandboxServiceName :: string where
  [go_const]: "OtelSandboxServiceName = ''lightspeed-agentic-sandbox''"
definition OtelCollectorServingCertTLSFile :: string where
  [go_const]: "OtelCollectorServingCertTLSFile = ''/var/run/secrets/serving-cert/tls.crt''"
definition OtelCollectorServingCertTLSKeyFile :: string where
  [go_const]: "OtelCollectorServingCertTLSKeyFile = ''/var/run/secrets/serving-cert/tls.key''"
definition AppOtelCollectorCACertDir :: string where
  [go_const]: "AppOtelCollectorCACertDir = ''otel-collector-ca''"
definition AppOtelCollectorCACertVolumeName :: string where
  [go_const]: "AppOtelCollectorCACertVolumeName = ''otel-collector-ca''"
definition AppOtelCollectorCACertFile :: string where
  [go_const]: "AppOtelCollectorCACertFile = ''service-ca.crt''"
definition OTELExporterOTLPCertificateEnvVar :: string where
  [go_const]: "OTELExporterOTLPCertificateEnvVar = ''OTEL_EXPORTER_OTLP_CERTIFICATE''"
definition PostgresSecretName :: string where
  [go_const]: "PostgresSecretName = ''lightspeed-postgres-secret''"
definition PostgresCertsSecretName :: string where
  [go_const]: "PostgresCertsSecretName = ''lightspeed-postgres-certs''"
definition PostgresBootstrapSecretName :: string where
  [go_const]: "PostgresBootstrapSecretName = ''lightspeed-postgres-bootstrap''"
definition PostgresBootstrapVolumeMountPath :: string where
  [go_const]: "PostgresBootstrapVolumeMountPath = ''/usr/share/container-scripts/postgresql/start/create-extensions.sh''"
definition PostgresExtensionScript :: string where
  [go_const]: "PostgresExtensionScript = ''create-extensions.sh''"
definition PostgresConfigMap :: string where
  [go_const]: "PostgresConfigMap = ''lightspeed-postgres-conf''"
definition PostgresConfigVolumeMountPath :: string where
  [go_const]: "PostgresConfigVolumeMountPath = ''/usr/share/pgsql/postgresql.conf.sample''"
definition PostgresConfig :: string where
  [go_const]: "PostgresConfig = ''postgresql.conf.sample''"
definition PostgresDataVolume :: string where [go_const]: "PostgresDataVolume = ''postgres-data''"
definition PostgresDataVolumeMountPath :: string where
  [go_const]: "PostgresDataVolumeMountPath = ''/var/lib/pgsql''"
definition PostgresVarRunVolumeName :: string where
  [go_const]: "PostgresVarRunVolumeName = ''lightspeed-postgres-var-run''"
definition PostgresVarRunVolumeMountPath :: string where
  [go_const]: "PostgresVarRunVolumeMountPath = ''/var/run/postgresql''"
definition PostgresServicePort :: int where [go_const]: "PostgresServicePort = 5432"
definition PostgresSharedBuffers :: string where [go_const]: "PostgresSharedBuffers = ''256MB''"
definition PostgresMaxConnections :: int where [go_const]: "PostgresMaxConnections = 2000"
definition PostgresDefaultSSLMode :: string where
  [go_const]: "PostgresDefaultSSLMode = ''require''"
definition PostgresNetworkPolicyName :: string where
  [go_const]: "PostgresNetworkPolicyName = ''lightspeed-postgres-server''"
definition AlertsAdapterDeploymentName :: string where
  [go_const]: "AlertsAdapterDeploymentName = ''lightspeed-agentic-alerts-adapter''"
definition AlertsAdapterServiceAccountName :: string where
  [go_const]: "AlertsAdapterServiceAccountName = ''lightspeed-agentic-alerts-adapter''"
definition AlertsAdapterContainerName :: string where
  [go_const]: "AlertsAdapterContainerName = ''adapter''"
definition AlertsAdapterNetworkPolicyName :: string where
  [go_const]: "AlertsAdapterNetworkPolicyName = ''lightspeed-agentic-alerts-adapter''"
definition AlertsAdapterAgenticRunsClusterRoleName :: string where
  [go_const]: "AlertsAdapterAgenticRunsClusterRoleName = ''lightspeed-agentic-alerts-adapter-agenticruns''"
definition AlertsAdapterAgenticRunsClusterRoleBindingName :: string where
  [go_const]: "AlertsAdapterAgenticRunsClusterRoleBindingName = ''lightspeed-agentic-alerts-adapter-agenticruns''"
definition AlertsAdapterAlertmanagerRoleBindingName :: string where
  [go_const]: "AlertsAdapterAlertmanagerRoleBindingName = ''lightspeed-agentic-alerts-adapter-alertmanager''"
definition AlertsAdapterConfigVolumeName :: string where
  [go_const]: "AlertsAdapterConfigVolumeName = ''config''"
definition AlertsAdapterConfigVolumeMountPath :: string where
  [go_const]: "AlertsAdapterConfigVolumeMountPath = ''/etc/alerts-adapter''"
definition AlertsAdapterConfigRoleName :: string where
  [go_const]: "AlertsAdapterConfigRoleName = ''lightspeed-agentic-alerts-adapter-config''"
definition AlertsAdapterConfigRoleBindingName :: string where
  [go_const]: "AlertsAdapterConfigRoleBindingName = ''lightspeed-agentic-alerts-adapter-config''"
definition MonitoringAlertmanagerViewRoleName :: string where
  [go_const]: "MonitoringAlertmanagerViewRoleName = ''monitoring-alertmanager-view''"
definition OpenShiftMonitoringNamespace :: string where
  [go_const]: "OpenShiftMonitoringNamespace = ''openshift-monitoring''"
definition AlertsAdapterAlertmanagerURL :: string where
  [go_const]: "AlertsAdapterAlertmanagerURL = ''https://alertmanager-main.openshift-monitoring.svc:9094''"
definition AlertsAdapterAlertmanagerURLEnvVar :: string where
  [go_const]: "AlertsAdapterAlertmanagerURLEnvVar = ''ALERTMANAGER_URL''"
definition AlertsAdapterComponentLabel :: string where
  [go_const]: "AlertsAdapterComponentLabel = ''alerts-adapter''"
definition PostgresTerminationGracePeriodSeconds :: int where
  [go_const]: "PostgresTerminationGracePeriodSeconds = 60"
definition PostgresShutdownTimeoutSeconds :: int where
  [go_const]: "PostgresShutdownTimeoutSeconds = 55"
definition PostgresUserDataDir :: string where
  [go_const]: "PostgresUserDataDir = PostgresDataVolumeMountPath @ ''/data/userdata''"
definition PostgresPVCName :: string where
  [go_const]: "PostgresPVCName = ''lightspeed-postgres-pvc''"
definition PostgreServiceAccountName :: string where
  [go_const]: "PostgreServiceAccountName = ''lightspeed-postgres-server''"
definition TmpVolumeName :: string where [go_const]: "TmpVolumeName = ''tmp-writable-volume''"
definition TmpVolumeMountPath :: string where [go_const]: "TmpVolumeMountPath = ''/tmp''"
definition TelemetryPullSecretNamespace :: string where
  [go_const]: "TelemetryPullSecretNamespace = ''openshift-config''"
definition TelemetryPullSecretName :: string where
  [go_const]: "TelemetryPullSecretName = ''pull-secret''"
definition OperatorServiceMonitorName :: string where
  [go_const]: "OperatorServiceMonitorName = ''controller-manager-metrics-monitor''"
definition OperatorDeploymentName :: string where
  [go_const]: "OperatorDeploymentName = ''lightspeed-operator-controller-manager''"
definition OLSDefaultCacheType :: string where [go_const]: "OLSDefaultCacheType = ''postgres''"
definition OperatorNetworkPolicyName :: string where
  [go_const]: "OperatorNetworkPolicyName = ''lightspeed-operator''"
definition OperatorMetricsPort :: int where [go_const]: "OperatorMetricsPort = 8443"
definition MetricsReaderServiceAccountTokenSecretName :: string where
  [go_const]: "MetricsReaderServiceAccountTokenSecretName = ''metrics-reader-token''"
definition MetricsReaderServiceAccountName :: string where
  [go_const]: "MetricsReaderServiceAccountName = ''lightspeed-operator-metrics-reader''"
definition OpenShiftMCPServerHTTPSPort :: int where
  [go_const]: "OpenShiftMCPServerHTTPSPort = 8443"
definition OpenShiftMCPServerDeploymentName :: string where
  [go_const]: "OpenShiftMCPServerDeploymentName = ''openshift-mcp-server''"
definition OpenShiftMCPServerServiceName :: string where
  [go_const]: "OpenShiftMCPServerServiceName = ''openshift-mcp-server''"
definition OpenShiftMCPServerServiceAccountName :: string where
  [go_const]: "OpenShiftMCPServerServiceAccountName = ''openshift-mcp-server''"
definition OpenShiftMCPServerNetworkPolicyName :: string where
  [go_const]: "OpenShiftMCPServerNetworkPolicyName = ''openshift-mcp-server''"
definition OpenShiftMCPServerCertsSecretName :: string where
  [go_const]: "OpenShiftMCPServerCertsSecretName = ''openshift-mcp-server-tls''"
definition AppOpenShiftMCPServerCACertDir :: string where
  [go_const]: "AppOpenShiftMCPServerCACertDir = ''openshift-mcp-server-ca''"
definition AppOpenShiftMCPServerCACertVolumeName :: string where
  [go_const]: "AppOpenShiftMCPServerCACertVolumeName = ''openshift-mcp-server-ca''"
definition AppOpenShiftMCPServerCACertFile :: string where
  [go_const]: "AppOpenShiftMCPServerCACertFile = ''service-ca.crt''"
definition AppRHOKPCACertDir :: string where [go_const]: "AppRHOKPCACertDir = ''rhokp-ca''"
definition AppRHOKPCACertVolumeName :: string where
  [go_const]: "AppRHOKPCACertVolumeName = ''rhokp-ca''"
definition AppRHOKPCACertFile :: string where
  [go_const]: "AppRHOKPCACertFile = ''service-ca.crt''"
definition OpenShiftMCPServerTLSVolumeName :: string where
  [go_const]: "OpenShiftMCPServerTLSVolumeName = ''tls''"
definition OpenShiftMCPServerTLSMountPath :: string where
  [go_const]: "OpenShiftMCPServerTLSMountPath = ''/etc/tls''"
definition OpenShiftMCPServerComponentLabel :: string where
  [go_const]: "OpenShiftMCPServerComponentLabel = ''openshift-mcp-server''"
definition OpenShiftMCPServerServiceMonitorName :: string where
  [go_const]: "OpenShiftMCPServerServiceMonitorName = ''openshift-mcp-server-monitor''"
definition OpenShiftMCPServerMetricsPath :: string where
  [go_const]: "OpenShiftMCPServerMetricsPath = ''/metrics''"
definition OCPClusterVersionEnvVar :: string where
  [go_const]: "OCPClusterVersionEnvVar = ''OCP_CLUSTER_VERSION''"
definition OLSRosaProductEnvVar :: string where
  [go_const]: "OLSRosaProductEnvVar = ''OLS_ROSA_PRODUCT''"
definition RosaOKPProductHCP :: string where
  [go_const]: "RosaOKPProductHCP = ''red_hat_openshift_service_on_aws''"
definition RosaOKPProductClassic :: string where
  [go_const]: "RosaOKPProductClassic = ''red_hat_openshift_service_on_aws_classic_architecture''"
definition RHOOKPSolrCollection :: string where
  [go_const]: "RHOOKPSolrCollection = ''portal-rag''"
definition RHOOKPReadinessHTTPPath :: string where
  [go_const]: "RHOOKPReadinessHTTPPath = ''/solr/'' @ RHOOKPSolrCollection @ ''/admin/ping''"
definition RHOOKPStartupProbeInitialDelaySeconds :: int where
  [go_const]: "RHOOKPStartupProbeInitialDelaySeconds = 20"
definition RHOOKPStartupProbePeriodSeconds :: int where
  [go_const]: "RHOOKPStartupProbePeriodSeconds = 10"
definition RHOOKPStartupProbeFailureThreshold :: int where
  [go_const]: "RHOOKPStartupProbeFailureThreshold = 34"
definition RHOOKPProbePeriodSeconds :: int where [go_const]: "RHOOKPProbePeriodSeconds = 10"
definition RHOOKPProbeTimeoutSeconds :: int where [go_const]: "RHOOKPProbeTimeoutSeconds = 5"
definition RHOOKPAccessKeySecretName :: string where
  [go_const]: "RHOOKPAccessKeySecretName = ''rhokp-access-key''"
definition RHOOKPAccessKeySecretKey :: string where
  [go_const]: "RHOOKPAccessKeySecretKey = ''ACCESS_KEY''"
definition RHOOKPImageHTTPSPort :: int where [go_const]: "RHOOKPImageHTTPSPort = 8443"
definition SolrHybridMaxResultsDefault :: int where [go_const]: "SolrHybridMaxResultsDefault = 5"
definition SolrHybridPoolDocsDefault :: int where [go_const]: "SolrHybridPoolDocsDefault = 100"
definition OpenShiftMCPServerTimeout :: int where [go_const]: "OpenShiftMCPServerTimeout = 60"
definition ToolsApprovalDefaultTimeout :: int where
  [go_const]: "ToolsApprovalDefaultTimeout = 600"
definition K8S_AUTH_HEADER :: string where [go_const]: "K8S_AUTH_HEADER = ''Authorization''"
definition KUBERNETES_PLACEHOLDER :: string where
  [go_const]: "KUBERNETES_PLACEHOLDER = ''kubernetes''"
definition CLIENT_PLACEHOLDER :: string where [go_const]: "CLIENT_PLACEHOLDER = ''client''"
definition MCPHeadersMountRoot :: string where
  [go_const]: "MCPHeadersMountRoot = ''/etc/mcp/headers''"
definition LegacyOpenShiftMCPServerCAConfigMapName :: string where
  [go_const]: "LegacyOpenShiftMCPServerCAConfigMapName = ''openshift-mcp-server-ca''"
definition OpenShiftMCPServerConfigCmName :: string where
  [go_const]: "OpenShiftMCPServerConfigCmName = ''openshift-mcp-server-config''"
definition OpenShiftMCPServerConfigFilename :: string where
  [go_const]: "OpenShiftMCPServerConfigFilename = ''config.toml''"
definition OpenShiftMCPServerConfigMountPath :: string where
  [go_const]: "OpenShiftMCPServerConfigMountPath = ''/etc/mcp-server''"
definition OpenShiftMCPServerConfigVolumeName :: string where
  [go_const]: "OpenShiftMCPServerConfigVolumeName = ''mcp-server-config''"
definition MCPSECRETDATAPATH :: string where [go_const]: "MCPSECRETDATAPATH = ''header''"
definition ExporterConfigCmName :: string where
  [go_const]: "ExporterConfigCmName = ''lightspeed-exporter-config''"
definition ExporterConfigVolumeName :: string where
  [go_const]: "ExporterConfigVolumeName = ''exporter-config''"
definition ExporterConfigMountPath :: string where
  [go_const]: "ExporterConfigMountPath = ''/etc/config''"
definition ExporterConfigFilename :: string where
  [go_const]: "ExporterConfigFilename = ''config.yaml''"
definition OLSUserDataMountPath :: string where
  [go_const]: "OLSUserDataMountPath = ''/app-root/ols-user-data''"
definition ServiceIDOLS :: string where [go_const]: "ServiceIDOLS = ''ols''"
definition RHOSOLightspeedOwnerIDLabel :: string where
  [go_const]: "RHOSOLightspeedOwnerIDLabel = ''openstack.org/lightspeed-owner-id''"
definition ServiceIDRHOSO :: string where [go_const]: "ServiceIDRHOSO = ''rhos-lightspeed''"
definition OLSAppServerContainerName :: string where
  [go_const]: "OLSAppServerContainerName = ''lightspeed-service-api''"
definition ConsoleUIContainerName :: string where
  [go_const]: "ConsoleUIContainerName = ''lightspeed-console-plugin''"
definition OpenShiftMCPServerContainerName :: string where
  [go_const]: "OpenShiftMCPServerContainerName = ''openshift-mcp-server''"
definition RHOOKPContainerName :: string where [go_const]: "RHOOKPContainerName = ''rhokp''"
definition OLSConfigMapResourceVersionAnnotation :: string where
  [go_const]: "OLSConfigMapResourceVersionAnnotation = ''ols.openshift.io/olsconfig-configmap-version''"
definition OpenShiftMCPServerConfigMapResourceVersionAnnotation :: string where
  [go_const]: "OpenShiftMCPServerConfigMapResourceVersionAnnotation = ''ols.openshift.io/mcp-server-configmap-version''"
definition OpenShiftMCPServerTLSSecretResourceVersionAnnotation :: string where
  [go_const]: "OpenShiftMCPServerTLSSecretResourceVersionAnnotation = ''ols.openshift.io/mcp-server-tls-secret-version''"
definition RAGSpecHashAnnotation :: string where
  [go_const]: "RAGSpecHashAnnotation = ''ols.openshift.io/rag-spec-hash''"
definition RHOKPDeploymentName :: string where
  [go_const]: "RHOKPDeploymentName = ''lightspeed-rhokp''"
definition RHOKPServiceName :: string where [go_const]: "RHOKPServiceName = ''lightspeed-rhokp''"
definition RHOKPNetworkPolicyName :: string where
  [go_const]: "RHOKPNetworkPolicyName = ''lightspeed-rhokp''"
definition RHOKPCertsSecretName :: string where
  [go_const]: "RHOKPCertsSecretName = ''lightspeed-rhokp-tls''"
definition RHOKPTLSVolumeName :: string where [go_const]: "RHOKPTLSVolumeName = ''rhokp-tls''"
definition RHOKPTLSMountPath :: string where [go_const]: "RHOKPTLSMountPath = ''/etc/httpd/tls''"
definition RHOKPSolrDataVolumeName :: string where
  [go_const]: "RHOKPSolrDataVolumeName = ''rhokp-solr-data''"
definition RHOKPSolrDataMountPath :: string where
  [go_const]: "RHOKPSolrDataMountPath = ''/var/solr/data''"
definition RHOKPSolrDataSizeLimitDefault :: string where
  [go_const]: "RHOKPSolrDataSizeLimitDefault = ''75Gi''"
definition RHOKPComponentLabel :: string where [go_const]: "RHOKPComponentLabel = ''rhokp''"
definition RHOKPTLSSecretResourceVersionAnnotation :: string where
  [go_const]: "RHOKPTLSSecretResourceVersionAnnotation = ''ols.openshift.io/rhokp-tls-secret-version''"
definition RHOKPProbeFailureThreshold :: int where [go_const]: "RHOKPProbeFailureThreshold = 6"
definition RHOKPReadinessProbeFailureThreshold :: int where
  [go_const]: "RHOKPReadinessProbeFailureThreshold = 3"
definition RHOKPServiceMonitorName :: string where
  [go_const]: "RHOKPServiceMonitorName = ''lightspeed-rhokp-monitor''"
definition RHOKPMetricsPath :: string where
  [go_const]: "RHOKPMetricsPath = ''/solr/admin/metrics''"
definition rhokpImageFallback :: string where
  [go_const]: "rhokpImageFallback = ''registry.redhat.io/offline-knowledge-portal/rhokp-rhel9@sha256:f46082f2dc2972582f3b85ed2a563b554d0aba3255ba2f00835e65f4929ae9a9''"
definition ErrCreateAPIConfigmap :: string where
  [go_const]: "ErrCreateAPIConfigmap = ''failed to create OLS configmap''"
definition ErrCreateAPIDeployment :: string where
  [go_const]: "ErrCreateAPIDeployment = ''failed to create OLS deployment''"
definition ErrCreateAPIService :: string where
  [go_const]: "ErrCreateAPIService = ''failed to create OLS service''"
definition ErrCreateAPIServiceAccount :: string where
  [go_const]: "ErrCreateAPIServiceAccount = ''failed to create OLS service account''"
definition ErrCreateAppServerNetworkPolicy :: string where
  [go_const]: "ErrCreateAppServerNetworkPolicy = ''failed to create AppServer network policy''"
definition ErrCreateConsolePlugin :: string where
  [go_const]: "ErrCreateConsolePlugin = ''failed to create Console Plugin''"
definition ErrCreateConsolePluginConfigMap :: string where
  [go_const]: "ErrCreateConsolePluginConfigMap = ''failed to create Console Plugin configmap''"
definition ErrCreateConsolePluginDeployment :: string where
  [go_const]: "ErrCreateConsolePluginDeployment = ''failed to create Console Plugin deployment''"
definition ErrCreateConsolePluginService :: string where
  [go_const]: "ErrCreateConsolePluginService = ''failed to create Console Plugin service''"
definition ErrCreateConsolePluginServiceAccount :: string where
  [go_const]: "ErrCreateConsolePluginServiceAccount = ''failed to create Console Plugin service account''"
definition ErrCreateConsolePluginNetworkPolicy :: string where
  [go_const]: "ErrCreateConsolePluginNetworkPolicy = ''failed to create Console Plugin network policy''"
definition ErrCreateSARClusterRole :: string where
  [go_const]: "ErrCreateSARClusterRole = ''failed to create SAR cluster role''"
definition ErrCreateSARClusterRoleBinding :: string where
  [go_const]: "ErrCreateSARClusterRoleBinding = ''failed to create SAR cluster role binding''"
definition ErrCreateServiceMonitor :: string where
  [go_const]: "ErrCreateServiceMonitor = ''failed to create ServiceMonitor''"
definition ErrCreateMetricsReaderSecret :: string where
  [go_const]: "ErrCreateMetricsReaderSecret = ''failed to create metrics reader secret''"
definition ErrCreateOperatorNetworkPolicy :: string where
  [go_const]: "ErrCreateOperatorNetworkPolicy = ''failed to create operator network policy''"
definition ErrCreatePrometheusRule :: string where
  [go_const]: "ErrCreatePrometheusRule = ''failed to create PrometheusRule''"
definition ErrCreatePostgresSecret :: string where
  [go_const]: "ErrCreatePostgresSecret = ''failed to create OLS Postgres secret''"
definition ErrCreatePostgresBootstrapSecret :: string where
  [go_const]: "ErrCreatePostgresBootstrapSecret = ''failed to create OLS Postgres bootstrap secret''"
definition ErrCreatePostgresConfigMap :: string where
  [go_const]: "ErrCreatePostgresConfigMap = ''failed to create OLS Postgres configmap''"
definition ErrCreatePostgresService :: string where
  [go_const]: "ErrCreatePostgresService = ''failed to create OLS Postgres service''"
definition ErrCreatePostgresPVC :: string where
  [go_const]: "ErrCreatePostgresPVC = ''failed to create OLS Postgres PVC''"
definition ErrCreatePostgresDeployment :: string where
  [go_const]: "ErrCreatePostgresDeployment = ''failed to create OLS Postgres deployment''"
definition ErrCreatePostgresNetworkPolicy :: string where
  [go_const]: "ErrCreatePostgresNetworkPolicy = ''failed to create OLS Postgres network policy''"
definition ErrCreatePostgresServiceAccount :: string where
  [go_const]: "ErrCreatePostgresServiceAccount = ''failed to create OLS Postgres service account''"
definition ErrDeleteConsolePlugin :: string where
  [go_const]: "ErrDeleteConsolePlugin = ''failed to delete Console Plugin''"
definition ErrGenerateAPIConfigmap :: string where
  [go_const]: "ErrGenerateAPIConfigmap = ''failed to generate OLS configmap''"
definition ErrGenerateAPIDeployment :: string where
  [go_const]: "ErrGenerateAPIDeployment = ''failed to generate OLS deployment''"
definition ErrGenerateConsolePlugin :: string where
  [go_const]: "ErrGenerateConsolePlugin = ''failed to generate Console Plugin''"
definition ErrGetAdditionalCACM :: string where
  [go_const]: "ErrGetAdditionalCACM = ''failed to get additional CA configmap''"
definition ErrGetProxyCACM :: string where
  [go_const]: "ErrGetProxyCACM = ''failed to get proxy CA configmap''"
definition ErrGeneratePostgresSecret :: string where
  [go_const]: "ErrGeneratePostgresSecret = ''failed to generate OLS Postgres secret''"
definition ErrGeneratePostgresPVC :: string where
  [go_const]: "ErrGeneratePostgresPVC = ''failed to generate OLS Postgres PVC''"
definition ErrGeneratePostgresDeployment :: string where
  [go_const]: "ErrGeneratePostgresDeployment = ''failed to generate OLS Postgres deployment''"
definition ErrGetAPIConfigmap :: string where
  [go_const]: "ErrGetAPIConfigmap = ''failed to get OLS configmap''"
definition ErrGetAPIDeployment :: string where
  [go_const]: "ErrGetAPIDeployment = ''failed to get OLS deployment''"
definition ErrGetAPIService :: string where
  [go_const]: "ErrGetAPIService = ''failed to get OLS service''"
definition ErrGetAPIServiceAccount :: string where
  [go_const]: "ErrGetAPIServiceAccount = ''failed to get OLS service account''"
definition ErrGetAppServerNetworkPolicy :: string where
  [go_const]: "ErrGetAppServerNetworkPolicy = ''failed to get AppServer network policy''"
definition ErrGetConsole :: string where [go_const]: "ErrGetConsole = ''failed to get Console''"
definition ErrGetConsolePlugin :: string where
  [go_const]: "ErrGetConsolePlugin = ''failed to get Console Plugin''"
definition ErrGetConsolePluginConfigMap :: string where
  [go_const]: "ErrGetConsolePluginConfigMap = ''failed to get Console Plugin configmap''"
definition ErrGetConsolePluginDeployment :: string where
  [go_const]: "ErrGetConsolePluginDeployment = ''failed to get Console Plugin deployment''"
definition ErrGetConsolePluginNetworkPolicy :: string where
  [go_const]: "ErrGetConsolePluginNetworkPolicy = ''failed to get Console Plugin network policy''"
definition ErrGetConsolePluginService :: string where
  [go_const]: "ErrGetConsolePluginService = ''failed to get Console Plugin service''"
definition ErrGetConsolePluginServiceAccount :: string where
  [go_const]: "ErrGetConsolePluginServiceAccount = ''failed to get Console Plugin service account''"
definition ErrGetOperatorNetworkPolicy :: string where
  [go_const]: "ErrGetOperatorNetworkPolicy = ''failed to get operator network policy''"
definition ErrGetPostgresNetworkPolicy :: string where
  [go_const]: "ErrGetPostgresNetworkPolicy = ''failed to get OLS Postgres network policy''"
definition ErrGetPostgresServiceAccount :: string where
  [go_const]: "ErrGetPostgresServiceAccount = ''failed to get OLS Postgres service account''"
definition ErrGetTLSSecret :: string where
  [go_const]: "ErrGetTLSSecret = ''failed to get TLS secret''"
definition ErrGetSARClusterRole :: string where
  [go_const]: "ErrGetSARClusterRole = ''failed to get SAR cluster role''"
definition ErrGetSARClusterRoleBinding :: string where
  [go_const]: "ErrGetSARClusterRoleBinding = ''failed to get SAR cluster role binding''"
definition ErrGetServiceMonitor :: string where
  [go_const]: "ErrGetServiceMonitor = ''failed to get ServiceMonitor''"
definition ErrGetMetricsReaderSecret :: string where
  [go_const]: "ErrGetMetricsReaderSecret = ''failed to get metrics reader secret''"
definition ErrGetPrometheusRule :: string where
  [go_const]: "ErrGetPrometheusRule = ''failed to get PrometheusRule''"
definition ErrUpdateAPIConfigmap :: string where
  [go_const]: "ErrUpdateAPIConfigmap = ''failed to update OLS configmap''"
definition ErrUpdateAPIDeployment :: string where
  [go_const]: "ErrUpdateAPIDeployment = ''failed to update OLS deployment''"
definition ErrUpdateAPIService :: string where
  [go_const]: "ErrUpdateAPIService = ''failed to update OLS service''"
definition ErrUpdateAppServerNetworkPolicy :: string where
  [go_const]: "ErrUpdateAppServerNetworkPolicy = ''failed to update AppServer network policy''"
definition ErrUpdateConsole :: string where
  [go_const]: "ErrUpdateConsole = ''failed to update Console''"
definition ErrUpdateConsolePlugin :: string where
  [go_const]: "ErrUpdateConsolePlugin = ''failed to update Console Plugin''"
definition ErrUpdateConsolePluginConfigMap :: string where
  [go_const]: "ErrUpdateConsolePluginConfigMap = ''failed to update Console Plugin configmap''"
definition ErrUpdateConsolePluginDeployment :: string where
  [go_const]: "ErrUpdateConsolePluginDeployment = ''failed to update Console Plugin deployment''"
definition ErrUpdateConsolePluginNetworkPolicy :: string where
  [go_const]: "ErrUpdateConsolePluginNetworkPolicy = ''failed to update Console Plugin network policy''"
definition ErrUpdateConsolePluginService :: string where
  [go_const]: "ErrUpdateConsolePluginService = ''failed to update Console Plugin service''"
definition ErrUpdateOperatorNetworkPolicy :: string where
  [go_const]: "ErrUpdateOperatorNetworkPolicy = ''failed to update operator network policy''"
definition ErrUpdatePostgresNetworkPolicy :: string where
  [go_const]: "ErrUpdatePostgresNetworkPolicy = ''failed to update OLS Postgres network policy''"
definition ErrUpdateServiceMonitor :: string where
  [go_const]: "ErrUpdateServiceMonitor = ''failed to update ServiceMonitor''"
definition ErrUpdateMetricsReaderSecret :: string where
  [go_const]: "ErrUpdateMetricsReaderSecret = ''failed to update metrics reader secret''"
definition ErrUpdatePrometheusRule :: string where
  [go_const]: "ErrUpdatePrometheusRule = ''failed to update PrometheusRule''"
definition ErrGetPostgresSecret :: string where
  [go_const]: "ErrGetPostgresSecret = ''failed to get OLS Postgres secret''"
definition ErrGetPostgresBootstrapSecret :: string where
  [go_const]: "ErrGetPostgresBootstrapSecret = ''failed to get OLS Postgres bootstrap secret''"
definition ErrGetPostgresConfigMap :: string where
  [go_const]: "ErrGetPostgresConfigMap = ''failed to get OLS Postgres configmap''"
definition ErrGetPostgresService :: string where
  [go_const]: "ErrGetPostgresService = ''failed to get OLS Postgres service''"
definition ErrGetPostgresPVC :: string where
  [go_const]: "ErrGetPostgresPVC = ''failed to get OLS Postgres PVC''"
definition ErrGetPostgresDeployment :: string where
  [go_const]: "ErrGetPostgresDeployment = ''failed to get OLS Postgres deployment''"
definition ErrUpdatePostgresDeployment :: string where
  [go_const]: "ErrUpdatePostgresDeployment = ''failed to update OLS Postgres deployment''"
definition ErrCreateAlertsAdapterDeployment :: string where
  [go_const]: "ErrCreateAlertsAdapterDeployment = ''failed to create alerts adapter deployment''"
definition ErrCreateAlertsAdapterNetworkPolicy :: string where
  [go_const]: "ErrCreateAlertsAdapterNetworkPolicy = ''failed to create alerts adapter network policy''"
definition ErrCreateAlertsAdapterServiceAccount :: string where
  [go_const]: "ErrCreateAlertsAdapterServiceAccount = ''failed to create alerts adapter service account''"
definition ErrCreateAlertsAdapterAgenticRunsClusterRole :: string where
  [go_const]: "ErrCreateAlertsAdapterAgenticRunsClusterRole = ''failed to create alerts adapter agenticruns cluster role''"
definition ErrCreateAlertsAdapterAgenticRunsClusterRoleBinding :: string where
  [go_const]: "ErrCreateAlertsAdapterAgenticRunsClusterRoleBinding = ''failed to create alerts adapter agenticruns cluster role binding''"
definition ErrCreateAlertsAdapterAlertmanagerRoleBinding :: string where
  [go_const]: "ErrCreateAlertsAdapterAlertmanagerRoleBinding = ''failed to create alerts adapter alertmanager role binding''"
definition ErrGenerateOtelCollectorConfigMap :: string where
  [go_const]: "ErrGenerateOtelCollectorConfigMap = ''failed to generate OTEL Collector configmap''"
definition ErrGenerateOtelCollectorPostgresSecret :: string where
  [go_const]: "ErrGenerateOtelCollectorPostgresSecret = ''failed to generate OTEL Collector Postgres secret''"
definition ErrGenerateOtelCollectorDeployment :: string where
  [go_const]: "ErrGenerateOtelCollectorDeployment = ''failed to generate OTEL Collector deployment''"
definition ErrCreateOtelCollectorConfigMap :: string where
  [go_const]: "ErrCreateOtelCollectorConfigMap = ''failed to create OTEL Collector configmap''"
definition ErrGetOtelCollectorConfigMap :: string where
  [go_const]: "ErrGetOtelCollectorConfigMap = ''failed to get OTEL Collector configmap''"
definition ErrUpdateOtelCollectorConfigMap :: string where
  [go_const]: "ErrUpdateOtelCollectorConfigMap = ''failed to update OTEL Collector configmap''"
definition ErrGenerateAgenticConfigurationConfigMap :: string where
  [go_const]: "ErrGenerateAgenticConfigurationConfigMap = ''failed to generate agentic configuration configmap''"
definition ErrGetAgenticOtelCASourceConfigMap :: string where
  [go_const]: "ErrGetAgenticOtelCASourceConfigMap = ''failed to get OpenShift service-ca ConfigMap for agentic OTEL CA''"
definition ErrAgenticMCPCANotReady :: string where
  [go_const]: "ErrAgenticMCPCANotReady = ''agentic MCP CA certificate is not ready''"
definition ErrMarshalAgenticSandboxPodSpec :: string where
  [go_const]: "ErrMarshalAgenticSandboxPodSpec = ''failed to marshal agentic sandbox pod spec''"
definition ErrCreateAgenticConfigurationConfigMap :: string where
  [go_const]: "ErrCreateAgenticConfigurationConfigMap = ''failed to create agentic configuration configmap''"
definition ErrGetAgenticConfigurationConfigMap :: string where
  [go_const]: "ErrGetAgenticConfigurationConfigMap = ''failed to get agentic configuration configmap''"
definition ErrUpdateAgenticConfigurationConfigMap :: string where
  [go_const]: "ErrUpdateAgenticConfigurationConfigMap = ''failed to update agentic configuration configmap''"
definition ErrAgenticConfigurationPrerequisitesNotReady :: string where
  [go_const]: "ErrAgenticConfigurationPrerequisitesNotReady = ''agentic configuration prerequisites not ready''"
definition ErrCreateAgenticOtelCASecret :: string where
  [go_const]: "ErrCreateAgenticOtelCASecret = ''failed to create agentic OTEL CA secret''"
definition ErrGetAgenticOtelCASecret :: string where
  [go_const]: "ErrGetAgenticOtelCASecret = ''failed to get agentic OTEL CA secret''"
definition ErrUpdateAgenticOtelCASecret :: string where
  [go_const]: "ErrUpdateAgenticOtelCASecret = ''failed to update agentic OTEL CA secret''"
definition ErrDeleteAgenticOtelCASecret :: string where
  [go_const]: "ErrDeleteAgenticOtelCASecret = ''failed to delete agentic OTEL CA secret''"
definition ErrCreateAgenticMCPCASecret :: string where
  [go_const]: "ErrCreateAgenticMCPCASecret = ''failed to create agentic MCP CA secret''"
definition ErrGetAgenticMCPCASecret :: string where
  [go_const]: "ErrGetAgenticMCPCASecret = ''failed to get agentic MCP CA secret''"
definition ErrUpdateAgenticMCPCASecret :: string where
  [go_const]: "ErrUpdateAgenticMCPCASecret = ''failed to update agentic MCP CA secret''"
definition ErrDeleteAgenticMCPCASecret :: string where
  [go_const]: "ErrDeleteAgenticMCPCASecret = ''failed to delete agentic MCP CA secret''"
definition ErrGetAgenticRHOKPCASourceConfigMap :: string where
  [go_const]: "ErrGetAgenticRHOKPCASourceConfigMap = ''failed to get OpenShift service-ca ConfigMap for agentic RHOKP CA''"
definition ErrCreateAgenticRHOKPCASecret :: string where
  [go_const]: "ErrCreateAgenticRHOKPCASecret = ''failed to create agentic RHOKP CA secret''"
definition ErrGetAgenticRHOKPCASecret :: string where
  [go_const]: "ErrGetAgenticRHOKPCASecret = ''failed to get agentic RHOKP CA secret''"
definition ErrUpdateAgenticRHOKPCASecret :: string where
  [go_const]: "ErrUpdateAgenticRHOKPCASecret = ''failed to update agentic RHOKP CA secret''"
definition ErrDeleteAgenticRHOKPCASecret :: string where
  [go_const]: "ErrDeleteAgenticRHOKPCASecret = ''failed to delete agentic RHOKP CA secret''"
definition ErrGetOLSConfigForAppServerClientCARefresh :: string where
  [go_const]: "ErrGetOLSConfigForAppServerClientCARefresh = ''failed to get OLSConfig for app-server client CA refresh''"
definition ErrTouchAgenticConfigurationConfigMap :: string where
  [go_const]: "ErrTouchAgenticConfigurationConfigMap = ''failed to touch agentic configuration configmap''"
definition ErrCreateOtelCollectorNetworkPolicy :: string where
  [go_const]: "ErrCreateOtelCollectorNetworkPolicy = ''failed to create OTEL Collector network policy''"
definition ErrGetOtelCollectorNetworkPolicy :: string where
  [go_const]: "ErrGetOtelCollectorNetworkPolicy = ''failed to get OTEL Collector network policy''"
definition ErrUpdateOtelCollectorNetworkPolicy :: string where
  [go_const]: "ErrUpdateOtelCollectorNetworkPolicy = ''failed to update OTEL Collector network policy''"
definition ErrCreateOtelCollectorServiceAccount :: string where
  [go_const]: "ErrCreateOtelCollectorServiceAccount = ''failed to create OTEL Collector service account''"
definition ErrGetOtelCollectorServiceAccount :: string where
  [go_const]: "ErrGetOtelCollectorServiceAccount = ''failed to get OTEL Collector service account''"
definition ErrCreateOtelCollectorPostgresSecret :: string where
  [go_const]: "ErrCreateOtelCollectorPostgresSecret = ''failed to create OTEL Collector Postgres secret''"
definition ErrGetOtelCollectorPostgresSecret :: string where
  [go_const]: "ErrGetOtelCollectorPostgresSecret = ''failed to get OTEL Collector Postgres secret''"
definition ErrUpdateOtelCollectorPostgresSecret :: string where
  [go_const]: "ErrUpdateOtelCollectorPostgresSecret = ''failed to update OTEL Collector Postgres secret''"
definition ErrCreateOtelCollectorDeployment :: string where
  [go_const]: "ErrCreateOtelCollectorDeployment = ''failed to create OTEL Collector deployment''"
definition ErrGetOtelCollectorDeployment :: string where
  [go_const]: "ErrGetOtelCollectorDeployment = ''failed to get OTEL Collector deployment''"
definition ErrUpdateOtelCollectorDeployment :: string where
  [go_const]: "ErrUpdateOtelCollectorDeployment = ''failed to update OTEL Collector deployment''"
definition ErrGenerateAlertsAdapterDeployment :: string where
  [go_const]: "ErrGenerateAlertsAdapterDeployment = ''failed to generate alerts adapter deployment''"
definition ErrGetAlertsAdapterDeployment :: string where
  [go_const]: "ErrGetAlertsAdapterDeployment = ''failed to get alerts adapter deployment''"
definition ErrGetAlertsAdapterNetworkPolicy :: string where
  [go_const]: "ErrGetAlertsAdapterNetworkPolicy = ''failed to get alerts adapter network policy''"
definition ErrGetAlertsAdapterServiceAccount :: string where
  [go_const]: "ErrGetAlertsAdapterServiceAccount = ''failed to get alerts adapter service account''"
definition ErrGetAlertsAdapterAgenticRunsClusterRole :: string where
  [go_const]: "ErrGetAlertsAdapterAgenticRunsClusterRole = ''failed to get alerts adapter agenticruns cluster role''"
definition ErrGetAlertsAdapterAgenticRunsClusterRoleBinding :: string where
  [go_const]: "ErrGetAlertsAdapterAgenticRunsClusterRoleBinding = ''failed to get alerts adapter agenticruns cluster role binding''"
definition ErrGetAlertsAdapterAlertmanagerRoleBinding :: string where
  [go_const]: "ErrGetAlertsAdapterAlertmanagerRoleBinding = ''failed to get alerts adapter alertmanager role binding''"
definition ErrGetAlertsAdapterConfigMap :: string where
  [go_const]: "ErrGetAlertsAdapterConfigMap = ''failed to get alerts adapter configmap''"
definition ErrGetAlertsAdapterConfigRole :: string where
  [go_const]: "ErrGetAlertsAdapterConfigRole = ''failed to get alerts adapter config role''"
definition ErrGetAlertsAdapterConfigRoleBinding :: string where
  [go_const]: "ErrGetAlertsAdapterConfigRoleBinding = ''failed to get alerts adapter config role binding''"
definition ErrUpdateAlertsAdapterDeployment :: string where
  [go_const]: "ErrUpdateAlertsAdapterDeployment = ''failed to update alerts adapter deployment''"
definition ErrUpdateAlertsAdapterNetworkPolicy :: string where
  [go_const]: "ErrUpdateAlertsAdapterNetworkPolicy = ''failed to update alerts adapter network policy''"
definition ErrGenerateOpenShiftMCPServerDeployment :: string where
  [go_const]: "ErrGenerateOpenShiftMCPServerDeployment = ''failed to generate openshift-mcp-server deployment''"
definition ErrCreateOpenShiftMCPServerConfigMap :: string where
  [go_const]: "ErrCreateOpenShiftMCPServerConfigMap = ''failed to create openshift-mcp-server configmap''"
definition ErrGetOpenShiftMCPServerConfigMap :: string where
  [go_const]: "ErrGetOpenShiftMCPServerConfigMap = ''failed to get openshift-mcp-server configmap''"
definition ErrUpdateOpenShiftMCPServerConfigMap :: string where
  [go_const]: "ErrUpdateOpenShiftMCPServerConfigMap = ''failed to update openshift-mcp-server configmap''"
definition ErrCreateOpenShiftMCPServerServiceAccount :: string where
  [go_const]: "ErrCreateOpenShiftMCPServerServiceAccount = ''failed to create openshift-mcp-server service account''"
definition ErrGetOpenShiftMCPServerServiceAccount :: string where
  [go_const]: "ErrGetOpenShiftMCPServerServiceAccount = ''failed to get openshift-mcp-server service account''"
definition ErrCreateOpenShiftMCPServerNetworkPolicy :: string where
  [go_const]: "ErrCreateOpenShiftMCPServerNetworkPolicy = ''failed to create openshift-mcp-server network policy''"
definition ErrGetOpenShiftMCPServerNetworkPolicy :: string where
  [go_const]: "ErrGetOpenShiftMCPServerNetworkPolicy = ''failed to get openshift-mcp-server network policy''"
definition ErrUpdateOpenShiftMCPServerNetworkPolicy :: string where
  [go_const]: "ErrUpdateOpenShiftMCPServerNetworkPolicy = ''failed to update openshift-mcp-server network policy''"
definition ErrCreateOpenShiftMCPServerDeployment :: string where
  [go_const]: "ErrCreateOpenShiftMCPServerDeployment = ''failed to create openshift-mcp-server deployment''"
definition ErrGetOpenShiftMCPServerDeployment :: string where
  [go_const]: "ErrGetOpenShiftMCPServerDeployment = ''failed to get openshift-mcp-server deployment''"
definition ErrUpdateOpenShiftMCPServerDeployment :: string where
  [go_const]: "ErrUpdateOpenShiftMCPServerDeployment = ''failed to update openshift-mcp-server deployment''"
definition ErrGetOpenShiftMCPServerTLSSecret :: string where
  [go_const]: "ErrGetOpenShiftMCPServerTLSSecret = ''failed to get openshift-mcp-server TLS secret''"
definition ErrGenerateRHOKPDeployment :: string where
  [go_const]: "ErrGenerateRHOKPDeployment = ''failed to generate RHOKP deployment''"
definition ErrCreateRHOKPNetworkPolicy :: string where
  [go_const]: "ErrCreateRHOKPNetworkPolicy = ''failed to create RHOKP network policy''"
definition ErrGetRHOKPNetworkPolicy :: string where
  [go_const]: "ErrGetRHOKPNetworkPolicy = ''failed to get RHOKP network policy''"
definition ErrUpdateRHOKPNetworkPolicy :: string where
  [go_const]: "ErrUpdateRHOKPNetworkPolicy = ''failed to update RHOKP network policy''"
definition ErrCreateRHOKPDeployment :: string where
  [go_const]: "ErrCreateRHOKPDeployment = ''failed to create RHOKP deployment''"
definition ErrGetRHOKPDeployment :: string where
  [go_const]: "ErrGetRHOKPDeployment = ''failed to get RHOKP deployment''"
definition ErrUpdateRHOKPDeployment :: string where
  [go_const]: "ErrUpdateRHOKPDeployment = ''failed to update RHOKP deployment''"
definition ErrGetRHOKPTLSSecret :: string where
  [go_const]: "ErrGetRHOKPTLSSecret = ''failed to get RHOKP TLS secret''"
definition ErrRemoveOpenShiftMCPServerResources :: string where
  [go_const]: "ErrRemoveOpenShiftMCPServerResources = ''failed to remove openshift-mcp-server resources''"
definition ErrRemoveRHOKPResources :: string where
  [go_const]: "ErrRemoveRHOKPResources = ''failed to remove RHOKP resources''"
definition ErrRemoveAgenticConsoleUIResources :: string where
  [go_const]: "ErrRemoveAgenticConsoleUIResources = ''failed to remove agentic console UI resources''"
definition ErrRemoveAlertsAdapterResources :: string where
  [go_const]: "ErrRemoveAlertsAdapterResources = ''failed to remove alerts adapter resources''"
definition TypeApiReady :: string where [go_const]: "TypeApiReady = ''ApiReady''"
definition TypeCacheReady :: string where [go_const]: "TypeCacheReady = ''CacheReady''"
definition TypeConsolePluginReady :: string where
  [go_const]: "TypeConsolePluginReady = ''ConsolePluginReady''"
definition TypeAgenticConsolePluginReady :: string where
  [go_const]: "TypeAgenticConsolePluginReady = ''AgenticConsolePluginReady''"
definition TypeAlertsAdapterReady :: string where
  [go_const]: "TypeAlertsAdapterReady = ''AlertsAdapterReady''"
definition TypeOtelCollectorReady :: string where
  [go_const]: "TypeOtelCollectorReady = ''OtelCollectorReady''"
definition TypeMCPServerReady :: string where
  [go_const]: "TypeMCPServerReady = ''MCPServerReady''"
definition TypeRHOKPReady :: string where [go_const]: "TypeRHOKPReady = ''RHOKPReady''"
definition sandboxHomeVolumeName :: string where [go_const]: "sandboxHomeVolumeName = ''home''"
definition sandboxHomeMountPath :: string where
  [go_const]: "sandboxHomeMountPath = ''/home/agent''"
definition sandboxSkillsWorkdirVolumeName :: string where
  [go_const]: "sandboxSkillsWorkdirVolumeName = ''skills-workdir''"
definition sandboxSkillsWorkdirMountPath :: string where
  [go_const]: "sandboxSkillsWorkdirMountPath = ''/app/skills/.agents''"

end
