(* ===== verification/Utils_Equality.thy ===== *)
theory Utils_Equality
  imports Cluster Constants
begin

text \<open>
  The comparisons that decide whether an existing object is updated, and the defaulting of a
  desired Deployment (\<open>internal/controller/utils/utils.go\<close>, lines 64--429). Slices that are
  compared through a Go map keyed by name (volumes, environment, volume mounts) share one
  contract, the locale \<open>keyed_compare\<close>.

  \<open>DeploymentSpecEqual\<close> dereferences both \<open>Replicas\<close> pointers; \<open>None\<close> is the nil dereference.
\<close>

section \<open>Resource and security defaults\<close>

definition GetResourcesOrDefault :: "resources option \<Rightarrow> resources \<Rightarrow> resources" where
  "GetResourcesOrDefault custom def = (case custom of Some r \<Rightarrow> r | None \<Rightarrow> def)"

definition RestrictedContainerSecurityContext :: sec_ctx where
  "RestrictedContainerSecurityContext =
     \<lparr>sc_escalation = Some False, sc_readonly_fs = Some True, sc_non_root = Some True,
      sc_seccomp = Some ''RuntimeDefault'', sc_drop = [''ALL'']\<rparr>"

definition RHOOKPContainerSecurityContext :: sec_ctx where
  "RHOOKPContainerSecurityContext =
     RestrictedContainerSecurityContext\<lparr>sc_readonly_fs := Some False\<rparr>"

definition ApplyPodDeploymentConfig ::
  "deployment_spec \<Rightarrow> Config \<Rightarrow> bool \<Rightarrow> deployment_spec" where
  "ApplyPodDeploymentConfig d cfg applyReplicas =
     (let d1 = (if applyReplicas \<and> cf_Replicas cfg \<noteq> None
                then d\<lparr>d_replicas := cf_Replicas cfg\<rparr> else d\<lparr>d_replicas := Some 1\<rparr>);
          p1 = (if cf_NodeSelector cfg \<noteq> None
                then (d_pod d1)\<lparr>po_node_selector := cf_NodeSelector cfg\<rparr> else d_pod d1);
          p2 = (if cf_Tolerations cfg \<noteq> None
                then p1\<lparr>po_tolerations := cf_Tolerations cfg\<rparr> else p1)
      in d1\<lparr>d_pod := p2\<rparr>)"

section \<open>Slices compared by name\<close>

text \<open>The loop body of \<open>PodVolumeEqual\<close>: the first source both volumes have decides.\<close>

definition volume_source_equal :: "volume \<Rightarrow> volume \<Rightarrow> bool" where
  "volume_source_equal a b =
     (case (v_secret a, v_secret b) of (Some x, Some y) \<Rightarrow> vs_name x = vs_name y | _ \<Rightarrow>
     (case (v_configmap a, v_configmap b) of (Some x, Some y) \<Rightarrow> vs_name x = vs_name y | _ \<Rightarrow>
     (case (v_emptydir a, v_emptydir b) of (Some x, Some y) \<Rightarrow> x = y | _ \<Rightarrow>
     (case (v_pvc a, v_pvc b) of (Some x, Some y) \<Rightarrow> x = y | _ \<Rightarrow> False))))"

definition PodVolumeEqual :: "volume list \<Rightarrow> volume list \<Rightarrow> bool" where
  "PodVolumeEqual a b =
     (if length a \<noteq> length b then False else
      (let am = build_map v_name a; bm = build_map v_name b in
       fBall (fmdom am) (\<lambda>name. case (fmlookup am name, fmlookup bm name) of
          (Some av, Some bv) \<Rightarrow> volume_source_equal av bv | _ \<Rightarrow> False)))"

definition EnvEqual :: "env_var list \<Rightarrow> env_var list \<Rightarrow> bool" where
  "EnvEqual a b =
     (if length a \<noteq> length b then False else
      (let am = build_map ev_name a; bm = build_map ev_name b in
       fBall (fmdom am) (\<lambda>name. case (fmlookup am name, fmlookup bm name) of
          (Some av, Some bv) \<Rightarrow> av = bv | _ \<Rightarrow> False)))"

definition VolumeMountsEqual :: "volume_mount list \<Rightarrow> volume_mount list \<Rightarrow> bool" where
  "VolumeMountsEqual a b =
     (if length a \<noteq> length b then False else
      (let am = build_map vm_name a; bm = build_map vm_name b in
       fBall (fmdom am) (\<lambda>name. case (fmlookup am name, fmlookup bm name) of
          (Some av, Some bv) \<Rightarrow> av = bv | _ \<Rightarrow> False)))"

section \<open>Containers and probes\<close>

text \<open>Two probe timings agree when they are equal or one of them is unset (zero).\<close>

fun timings_equal :: "int list \<Rightarrow> int list \<Rightarrow> bool" where
  "timings_equal (x # xs) (y # ys) =
     (if x = 0 \<or> y = 0 then timings_equal xs ys
      else if x \<noteq> y then False else timings_equal xs ys)"
| "timings_equal _ _ = True"

definition ProbeEqual :: "probe option \<Rightarrow> probe option \<Rightarrow> bool" where
  "ProbeEqual a b = (case (a, b) of
      (None, None) \<Rightarrow> True
    | (Some p, Some q) \<Rightarrow>
        (if pr_handler p \<noteq> pr_handler q then False
         else if \<not> timings_equal
              [pr_initial p, pr_timeout p, pr_period p, pr_success p, pr_failure p]
              [pr_initial q, pr_timeout q, pr_period q, pr_success q, pr_failure q] then False
         else pr_grace p = pr_grace q)
    | _ \<Rightarrow> False)"

definition ContainerSpecEqual :: "container \<Rightarrow> container \<Rightarrow> bool" where
  "ContainerSpecEqual a b =
     (c_name a = c_name b \<and> c_image a = c_image b \<and> c_ports a = c_ports b \<and>
      EnvEqual (c_env a) (c_env b) \<and> c_command a = c_command b \<and> c_args a = c_args b \<and>
      VolumeMountsEqual (c_mounts a) (c_mounts b) \<and> c_resources a = c_resources b \<and>
      c_secctx a = c_secctx b \<and> c_pull a = c_pull b \<and>
      ProbeEqual (c_liveness a) (c_liveness b) \<and> ProbeEqual (c_readiness a) (c_readiness b) \<and>
      ProbeEqual (c_startup a) (c_startup b) \<and> c_lifecycle a = c_lifecycle b)"

definition ContainersEqual :: "container list \<Rightarrow> container list \<Rightarrow> bool" where
  "ContainersEqual a b =
     (if length a \<noteq> length b then False
      else list_all (\<lambda>i. ContainerSpecEqual (a ! i) (b ! i)) [0..<length a])"

section \<open>Deployments\<close>

definition DeploymentSpecEqual ::
  "deployment_spec \<Rightarrow> deployment_spec \<Rightarrow> bool \<Rightarrow> bool option" where
  "DeploymentSpecEqual a b compareInit =
     (let pa = d_pod a; pb = d_pod b in
      if nil_map (po_node_selector pa) \<noteq> nil_map (po_node_selector pb) \<or>
         nil_list (po_tolerations pa) \<noteq>
         nil_list (po_tolerations pb) \<or>
         d_strategy a \<noteq> d_strategy b \<or> \<not> PodVolumeEqual (po_volumes pa) (po_volumes pb)
      then Some False
      else case (d_replicas a, d_replicas b) of
        (Some x, Some y) \<Rightarrow>
          Some (x = y \<and> po_service_account pa = po_service_account pb \<and>
                po_grace pa = po_grace pb \<and> ContainersEqual (po_containers pa) (po_containers pb) \<and>
                (compareInit \<longrightarrow> ContainersEqual (po_init pa) (po_init pb)))
      | _ \<Rightarrow> None)"

text \<open>Defaults of a desired Deployment, in the order of the code.\<close>

definition default_strategy :: "strategy \<Rightarrow> strategy" where
  "default_strategy s =
     (let s1 = (if st_type s = [] then s\<lparr>st_type := ''RollingUpdate''\<rparr> else s) in
      if st_type s1 = ''RollingUpdate''
      then s1\<lparr>st_rolling := Some (case st_rolling s1 of
             None \<Rightarrow> (Some ''25%'', Some ''25%'')
           | Some (unavail, surge) \<Rightarrow>
               (Some (case unavail of None \<Rightarrow> ''25%'' | Some x \<Rightarrow> x),
                Some (case surge of None \<Rightarrow> ''25%'' | Some x \<Rightarrow> x)))\<rparr>
      else s1)"

definition or_default :: "'a option \<Rightarrow> 'a \<Rightarrow> 'a option" where
  "or_default o1 d = (case o1 of None \<Rightarrow> Some d | Some x \<Rightarrow> Some x)"

definition SetDefaults_Deployment :: "deployment_spec \<Rightarrow> deployment_spec" where
  "SetDefaults_Deployment d =
     d\<lparr>d_replicas := or_default (d_replicas d) 1,
       d_pod := (d_pod d)\<lparr>po_grace := or_default (po_grace (d_pod d)) 30\<rparr>,
       d_strategy := default_strategy (d_strategy d),
       d_history := or_default (d_history d) 10,
       d_deadline := or_default (d_deadline d) 600\<rparr>"

section \<open>Other objects\<close>

text \<open>
  The comparisons of whole objects look at the labels (or owner references) and the payload.
\<close>

definition ConfigMapEqual :: "kobject \<Rightarrow> kobject \<Rightarrow> bool" where
  "ConfigMapEqual a b =
     (cm_data (k_payload a) = cm_data (k_payload b) \<and>
      cm_binary (k_payload a) = cm_binary (k_payload b))"

definition ports_equal :: "service_port list \<Rightarrow> service_port list \<Rightarrow> bool" where
  "ports_equal a b = list_all (\<lambda>i. a ! i = b ! i) [0..<length a]"

definition ServiceEqual :: "kobject \<Rightarrow> kobject \<Rightarrow> bool" where
  "ServiceEqual a b =
     (case (k_payload a, k_payload b) of
        (PService x, PService y) \<Rightarrow>
          (if m_labels (k_meta a) \<noteq> m_labels (k_meta b) \<or> ss_selector x \<noteq> ss_selector y \<or>
              length (ss_ports x) \<noteq> length (ss_ports y) then False
           else ports_equal (ss_ports x) (ss_ports y))
      | _ \<Rightarrow> False)"

definition labels_and_spec_equal :: "kobject \<Rightarrow> kobject \<Rightarrow> bool" where
  "labels_and_spec_equal a b =
     (m_labels (k_meta a) = m_labels (k_meta b) \<and> k_payload a = k_payload b)"

definition ServiceMonitorEqual :: "kobject \<Rightarrow> kobject \<Rightarrow> bool" where
  "ServiceMonitorEqual a b = labels_and_spec_equal a b"

definition PrometheusRuleEqual :: "kobject \<Rightarrow> kobject \<Rightarrow> bool" where
  "PrometheusRuleEqual a b = labels_and_spec_equal a b"

definition NetworkPolicyEqual :: "kobject \<Rightarrow> kobject \<Rightarrow> bool" where
  "NetworkPolicyEqual a b = labels_and_spec_equal a b"

definition ImageStreamEqual :: "kobject \<Rightarrow> kobject \<Rightarrow> bool" where
  "ImageStreamEqual a b =
     (k_payload a = k_payload b \<and> m_labels (k_meta a) = m_labels (k_meta b) \<and>
      m_owners (k_meta a) = m_owners (k_meta b))"

lemmas object_equal_defs = ServiceMonitorEqual_def PrometheusRuleEqual_def NetworkPolicyEqual_def
  labels_and_spec_equal_def

section \<open>The contract of a comparison by name\<close>

text \<open>
  \<open>eqv\<close> compares two slices by length and, for every name of the first, the two elements that
  the Go maps hold under it (the last one of that name). Its clients below only use this law.
\<close>

locale keyed_compare =
  fixes key :: "'a \<Rightarrow> 'k" and cmp :: "'a \<Rightarrow> 'a \<Rightarrow> bool" and eqv :: "'a list \<Rightarrow> 'a list \<Rightarrow> bool"
  assumes eqv_law: "eqv a b \<longleftrightarrow> length a = length b \<and>
    (\<forall>n \<in> key ` set a. \<exists>x y. fmlookup (build_map key a) n = Some x \<and>
        fmlookup (build_map key b) n = Some y \<and> cmp x y)"
begin

lemma eqv_refl: "(\<And>x. x \<in> set a \<Longrightarrow> cmp x x) \<Longrightarrow> eqv a a"
  unfolding eqv_law
  by (metis build_map_None build_map_SomeD not_None_eq)

text \<open>For distinct names the elements are matched one to one, whatever their order.\<close>

lemma eqv_distinct:
  assumes "distinct (map key a)" "distinct (map key b)"
  shows "eqv a b \<longleftrightarrow> length a = length b \<and>
    (\<forall>x \<in> set a. \<exists>y \<in> set b. key y = key x \<and> cmp x y)"
proof -
  have "(\<exists>x' y. fmlookup (build_map key a) (key x) = Some x' \<and>
          fmlookup (build_map key b) (key x) = Some y \<and> cmp x' y)
        \<longleftrightarrow> (\<exists>y \<in> set b. key y = key x \<and> cmp x y)" if "x \<in> set a" for x
    using build_map_distinct [OF assms(1) that] build_map_distinct [OF assms(2)]
      build_map_SomeD [of key b] by (metis option.inject)
  then show ?thesis unfolding eqv_law by auto
qed

lemma eqv_perm:
  assumes "distinct (map key a)" "distinct (map key b)"
    "mset a' = mset a" "mset b' = mset b"
  shows "eqv a' b' \<longleftrightarrow> eqv a b"
proof -
  have "set a' = set a" "set b' = set b" "length a' = length a" "length b' = length b"
    using assms(3,4) by (metis set_mset_mset, metis set_mset_mset, metis size_mset, metis size_mset)
  moreover have "distinct (map key a')" "distinct (map key b')"
    using assms by (metis distinct_count_atmost_1 mset_map set_map set_mset_mset)+
  ultimately show ?thesis using eqv_distinct assms(1,2) by simp
qed

text \<open>Slices whose elements agree one by one are equal, distinct names or not.\<close>

lemma eqv_pointwise:
  assumes "list_all2 (\<lambda>x y. key x = key y \<and> cmp x y) a b"
  shows "eqv a b"
proof -
  have "rel_option cmp (fmlookup (build_map key a) n) (fmlookup (build_map key b) n)" for n
    using assms
  proof (induction a arbitrary: b rule: rev_induct)
    case (snoc x a)
    then obtain y b' where b: "b = b' @ [y]" and "list_all2 (\<lambda>x y. key x = key y \<and> cmp x y) a b'"
      and xy: "key x = key y" "cmp x y"
      by (auto simp: list_all2_append1 list_all2_Cons1)
    then show ?case using snoc.IH [of b'] xy by (simp add: build_map_def)
  qed (simp add: build_map_def)
  then show ?thesis
    unfolding eqv_law using list_all2_lengthD [OF assms] build_map_None [of key a]
    by (metis option.rel_cases option.simps(3))
qed

lemma eqv_sym:
  assumes "\<And>x y. cmp x y \<Longrightarrow> cmp y x" "distinct (map key a)" "distinct (map key b)" "eqv a b"
  shows "eqv b a"
proof -
  have len: "length a = length b"
    and match: "\<And>x. x \<in> set a \<Longrightarrow> \<exists>y \<in> set b. key y = key x \<and> cmp x y"
    using assms(2-4) eqv_distinct by auto
  have "key ` set a \<subseteq> key ` set b" using match by (metis image_subsetI rev_image_eqI)
  moreover have "card (key ` set a) = card (key ` set b)"
    using assms(2,3) len by (metis distinct_card length_map set_map)
  ultimately have "key ` set a = key ` set b" by (simp add: card_subset_eq)
  moreover have "y = y'" if "y \<in> set b" "y' \<in> set b" "key y = key y'" for y y'
    using assms(3) that by (meson distinct_map inj_onD)
  moreover have "\<exists>x \<in> set a. key x = key y \<and> cmp y x" if y: "y \<in> set b" for y
  proof -
    obtain x where x: "x \<in> set a" "key x = key y" using calculation(1) y by (metis image_iff)
    then obtain y' where "y' \<in> set b" "key y' = key y" "cmp x y'" using match by metis
    then show ?thesis using calculation(2) y x assms(1) by blast
  qed
  ultimately show ?thesis using eqv_distinct assms(2,3) len by simp
qed

end

text \<open>When elements are compared with \<open>=\<close>, distinct names make the comparison exact.\<close>

locale keyed_equal = keyed_compare key "(=)" eqv
  for key :: "'a \<Rightarrow> 'k" and eqv :: "'a list \<Rightarrow> 'a list \<Rightarrow> bool"
begin

lemma eqv_mset:
  assumes "distinct (map key a)" "distinct (map key b)"
  shows "eqv a b \<longleftrightarrow> mset a = mset b"
proof
  assume "eqv a b"
  then have sub: "set a \<subseteq> set b" and len: "length a = length b"
    using eqv_distinct [OF assms] by auto
  have d: "distinct a" "distinct b" using assms by (auto simp: distinct_map)
  have "set a = set b" using sub len d by (metis card_subset_eq distinct_card finite_set)
  then show "mset a = mset b" using d by (simp add: set_eq_iff_mset_eq_distinct)
next
  assume "mset a = mset b"
  then show "eqv a b" using eqv_perm [OF assms(2,2), of a b] eqv_refl by auto
qed

end

lemma fBall_build_map:
  "fBall (fmdom (build_map k a)) (\<lambda>n. case (fmlookup (build_map k a) n, fmlookup m n) of
      (Some x, Some y) \<Rightarrow> c x y | _ \<Rightarrow> False)
   \<longleftrightarrow> (\<forall>n \<in> k ` set a. \<exists>x y. fmlookup (build_map k a) n = Some x \<and>
        fmlookup m n = Some y \<and> c x y)"
proof -
  have "(n |\<in>| fmdom (build_map k a)) = (n \<in> k ` set a)" for n
    using fmdom_build_map [of k a] by blast
  moreover have "(case (fmlookup (build_map k a) n, fmlookup m n) of
      (Some x, Some y) \<Rightarrow> c x y | _ \<Rightarrow> False) \<longleftrightarrow>
      (\<exists>x y. fmlookup (build_map k a) n = Some x \<and> fmlookup m n = Some y \<and> c x y)" for n
    by (auto split: option.splits)
  ultimately show ?thesis unfolding Ball_def by simp
qed

interpretation vols: keyed_compare v_name volume_source_equal PodVolumeEqual
  by unfold_locales (simp only: PodVolumeEqual_def Let_def fBall_build_map split: if_split, blast)

interpretation envs: keyed_equal ev_name EnvEqual
  by unfold_locales (simp only: EnvEqual_def Let_def fBall_build_map split: if_split, blast)

interpretation mounts: keyed_equal vm_name VolumeMountsEqual
  by unfold_locales (simp only: VolumeMountsEqual_def Let_def fBall_build_map split: if_split, blast)

section \<open>What the comparisons decide\<close>

lemma timings_equal_iff: "length xs = length ys \<Longrightarrow>
  timings_equal xs ys \<longleftrightarrow> list_all2 (\<lambda>x y. x = 0 \<or> y = 0 \<or> x = y) xs ys"
  by (induction xs ys rule: timings_equal.induct) auto

lemma ContainersEqual_all2: "ContainersEqual a b \<longleftrightarrow> list_all2 ContainerSpecEqual a b"
  by (auto simp: ContainersEqual_def list_all2_conv_all_nth list_all_iff)

lemma ProbeEqual_refl [simp]: "ProbeEqual p p"
  by (cases p) (simp_all add: ProbeEqual_def)

lemma ContainerSpecEqual_refl [simp]: "ContainerSpecEqual c c"
  by (simp add: ContainerSpecEqual_def envs.eqv_refl mounts.eqv_refl)

lemma ContainersEqual_refl [simp]: "ContainersEqual cs cs"
  by (simp add: ContainersEqual_all2 list.rel_refl)

definition supported_volume :: "volume \<Rightarrow> bool" where
  "supported_volume v = (v_secret v \<noteq> None \<or> v_configmap v \<noteq> None \<or> v_emptydir v \<noteq> None \<or>
     v_pvc v \<noteq> None)"

lemma volume_source_equal_refl: "volume_source_equal v v \<longleftrightarrow> supported_volume v"
  by (auto simp: volume_source_equal_def supported_volume_def split: option.splits)

text \<open>What the server fills in is not taken for a difference.\<close>

lemma ProbeEqual_stored: "rel_option probe_stored p q \<Longrightarrow> ProbeEqual q p"
  by (cases p; cases q) (auto simp: ProbeEqual_def probe_stored_def kept_def)

definition complete_container :: "container \<Rightarrow> bool" where
  "complete_container c = (c_pull c \<noteq> [] \<and> (\<forall>p \<in> set (c_ports c). cp_protocol p \<noteq> []))"

lemma ports_stored:
  "list_all2 port_stored ps qs \<Longrightarrow> \<forall>p \<in> set ps. cp_protocol p \<noteq> [] \<Longrightarrow> qs = ps"
  by (induction rule: list_all2_induct) (auto simp: port_stored_def kept_def)

lemma ContainerSpecEqual_stored:
  assumes "container_stored c d" "complete_container c"
  shows "ContainerSpecEqual d c"
proof -
  have eqs: "c_ports d = c_ports c" "c_pull d = c_pull c"
    using assms ports_stored unfolding container_stored_def complete_container_def kept_def by metis+
  obtain l rd st where d: "d = c\<lparr>c_ports := c_ports d, c_pull := c_pull d, c_liveness := l,
      c_readiness := rd, c_startup := st\<rparr>"
    and pr: "rel_option probe_stored (c_liveness c) l" "rel_option probe_stored (c_readiness c) rd"
      "rel_option probe_stored (c_startup c) st"
    using assms(1) unfolding container_stored_def by blast
  note pe = pr [THEN ProbeEqual_stored]
  show ?thesis
    unfolding ContainerSpecEqual_def eqs
    by (subst (1 2 3 4 5 6 7 8 9 10 11 12) d) (simp add: pe envs.eqv_refl mounts.eqv_refl)
qed

lemma PodVolumeEqual_stored:
  assumes "list_all2 volume_stored vs us" "\<forall>v \<in> set vs. supported_volume v"
  shows "PodVolumeEqual us vs"
proof (rule vols.eqv_pointwise)
  have "v_name u = v_name x \<and> volume_source_equal u x"
    if "volume_stored x u" "supported_volume x" for x u
    using that
    by (auto simp: volume_stored_def file_source_stored_def volume_source_equal_def
        supported_volume_def rel_option_iff split: option.splits)
  then show "list_all2 (\<lambda>x y. v_name x = v_name y \<and> volume_source_equal x y) us vs"
    using assms by (auto simp: list_all2_conv_all_nth)
qed

text \<open>
  A Deployment that leaves nothing for the server to choose where the comparison looks: pull
  policies and protocols set, volumes of the four supported kinds.
\<close>

definition complete_deployment :: "deployment_spec \<Rightarrow> bool" where
  "complete_deployment d = ((\<forall>c \<in> set (po_containers (d_pod d)). complete_container c) \<and>
     (\<forall>c \<in> set (po_init (d_pod d)). complete_container c) \<and>
     (\<forall>x \<in> set (po_volumes (d_pod d)). supported_volume x))"

lemma ContainersEqual_stored:
  "list_all2 container_stored cs ds \<Longrightarrow> \<forall>c \<in> set cs. complete_container c \<Longrightarrow> ContainersEqual ds cs"
  unfolding ContainersEqual_all2
  by (auto simp: list_all2_conv_all_nth ContainerSpecEqual_stored)

lemma default_strategy_stored: "strategy_stored s t \<Longrightarrow> t = default_strategy s"
  by (cases s; cases t)
    (auto simp: strategy_stored_def default_strategy_def filled_def Let_def
      split: if_splits option.splits)

lemma stored_spec_equal:
  assumes "deployment_stored d s" "complete_deployment d"
  shows "DeploymentSpecEqual s (SetDefaults_Deployment d) compareInit = Some True"
proof -
  have pod: "pod_stored (d_pod d) (d_pod s)" and st: "d_strategy s = default_strategy (d_strategy d)"
    and rep: "d_replicas s = or_default (d_replicas d) 1"
    using assms(1) default_strategy_stored
    by (auto simp: deployment_stored_def filled_def or_default_def)
  have same: "po_node_selector (d_pod s) = po_node_selector (d_pod d)"
    "po_tolerations (d_pod s) = po_tolerations (d_pod d)"
    "po_service_account (d_pod s) = po_service_account (d_pod d)"
    "po_grace (d_pod s) = or_default (po_grace (d_pod d)) 30"
    using pod by (cases "d_pod d"; cases "d_pod s";
        simp add: pod_stored_def filled_def or_default_def)+
  have vols: "PodVolumeEqual (po_volumes (d_pod s)) (po_volumes (d_pod d))"
    using pod assms(2) PodVolumeEqual_stored by (simp add: pod_stored_def complete_deployment_def)
  have cs: "ContainersEqual (po_containers (d_pod s)) (po_containers (d_pod d))"
    "ContainersEqual (po_init (d_pod s)) (po_init (d_pod d))"
    using pod assms(2) ContainersEqual_stored
    by (simp_all add: pod_stored_def complete_deployment_def)
  show ?thesis
    using vols cs st rep same
    by (cases "d_replicas d")
      (simp_all add: DeploymentSpecEqual_def SetDefaults_Deployment_def or_default_def Let_def)
qed

lemma SetDefaults_idem [simp]: "SetDefaults_Deployment (SetDefaults_Deployment d) = SetDefaults_Deployment d"
proof -
  have "default_strategy (default_strategy s) = default_strategy s" for s
    by (auto simp: default_strategy_def Let_def split: option.splits prod.splits)
  then show ?thesis by (auto simp: SetDefaults_Deployment_def or_default_def split: option.splits)
qed

lemma SetDefaults_annotations:
  "SetDefaults_Deployment (d\<lparr>d_tmpl_annotations := x\<rparr>) =
     (SetDefaults_Deployment d)\<lparr>d_tmpl_annotations := x\<rparr>"
  by (simp add: SetDefaults_Deployment_def)

lemma complete_SetDefaults [simp]:
  "complete_deployment (SetDefaults_Deployment d) = complete_deployment d"
  "complete_deployment (d\<lparr>d_tmpl_annotations := x\<rparr>) = complete_deployment d"
  by (simp_all add: complete_deployment_def SetDefaults_Deployment_def)

lemma DeploymentSpecEqual_annotations [simp]:
  "DeploymentSpecEqual a (b\<lparr>d_tmpl_annotations := x\<rparr>) ci = DeploymentSpecEqual a b ci"
  "DeploymentSpecEqual (a\<lparr>d_tmpl_annotations := x\<rparr>) b ci = DeploymentSpecEqual a b ci"
  by (simp_all add: DeploymentSpecEqual_def Let_def)

text \<open>The same after an update, which writes the defaulted spec with other template annotations.\<close>

lemma rewritten_spec_equal:
  assumes "deployment_stored ((SetDefaults_Deployment d)\<lparr>d_tmpl_annotations := x\<rparr>) s"
    "complete_deployment d"
  shows "DeploymentSpecEqual s (SetDefaults_Deployment d) compareInit = Some True"
  using stored_spec_equal [OF assms(1)] assms(2) by (simp add: SetDefaults_annotations)

text \<open>
  (C25) What the API server fills in is never taken for drift: a Deployment written by the operator
  and stored with the server's defaults compares equal to the defaulted desired spec, so that the
  next reconcile does not update it.
\<close>

theorem DeploymentSpecEqual_stored:
  assumes "deployment_stored d s" "complete_deployment d"
  shows "DeploymentSpecEqual s (SetDefaults_Deployment d) compareInit = Some True"
  using assms by (rule stored_spec_equal)

text \<open>
  The environment of two containers is found equal exactly when it is the same up to order,
  provided no variable is declared twice: reordering never causes an update and every change of
  a name, a value or a secret reference does.
\<close>

theorem EnvEqual_exact:
  assumes "distinct (map ev_name a)" "distinct (map ev_name b)"
  shows "EnvEqual a b \<longleftrightarrow> mset a = mset b"
  using assms by (rule envs.eqv_mset)

theorem EnvEqual_exact_witness:
  defines "x \<equiv> \<lparr>ev_name = ''a'', ev_value = ''1'', ev_from = None\<rparr>"
    and "y \<equiv> \<lparr>ev_name = ''b'', ev_value = ''2'', ev_from = Some (SecretKeyRef ''s'' ''k'' None)\<rparr>"
  shows "EnvEqual [x, y] [y, x] \<and> \<not> EnvEqual [x] [y]"
  using EnvEqual_exact [of "[x, y]" "[y, x]"] EnvEqual_exact [of "[x]" "[y]"]
  by (simp add: x_def y_def add_mset_commute)

text \<open>
  A Deployment the operator has written is not written again: \<open>DeploymentSpecEqual\<close> of a
  spec and itself is true, when its replica count is set and every volume is of one of the four
  kinds the comparison knows, with or without the init containers.
\<close>

theorem DeploymentSpecEqual_self:
  assumes "d_replicas d \<noteq> None" "\<And>v. v \<in> set (po_volumes (d_pod d)) \<Longrightarrow> supported_volume v"
  shows "DeploymentSpecEqual d d compareInit = Some True"
  using assms vols.eqv_refl [of "po_volumes (d_pod d)"]
  by (auto simp: DeploymentSpecEqual_def Let_def volume_source_equal_refl)

definition sample_container :: container where
  "sample_container = \<lparr>c_name = ''api'', c_image = ''img'',
     c_ports = [\<lparr>cp_name = ''https'', cp_port = 8443, cp_protocol = ''TCP''\<rparr>],
     c_env = [\<lparr>ev_name = ''a'', ev_value = ''1'', ev_from = None\<rparr>,
              \<lparr>ev_name = ''b'', ev_value = ''2'', ev_from = None\<rparr>],
     c_command = [], c_args = [],
     c_mounts = [\<lparr>vm_name = ''tmp'', vm_path = ''/tmp'', vm_subpath = [], vm_readonly = False\<rparr>],
     c_resources = \<lparr>rs_limits = fmempty, rs_requests = fmempty, rs_claims = []\<rparr>,
     c_secctx = Some RestrictedContainerSecurityContext, c_pull = ''Always'',
     c_liveness = None, c_readiness = None, c_startup = None, c_lifecycle = None\<rparr>"

definition sample_deployment :: "container \<Rightarrow> deployment_spec" where
  "sample_deployment c = \<lparr>d_replicas = None, d_selector = None, d_tmpl_labels = fmempty,
     d_tmpl_annotations = None,
     d_pod = \<lparr>po_containers = [c], po_init = [],
        po_volumes = [\<lparr>v_name = ''tmp'', v_secret = None, v_configmap = None,
                       v_emptydir = Some [], v_pvc = None, v_sizelimit = None\<rparr>],
        po_service_account = ''sa'', po_node_selector = None, po_tolerations = None,
        po_grace = None, po_secctx = None, po_automount = None, po_pull_secrets = []\<rparr>,
     d_strategy = \<lparr>st_type = [], st_rolling = None\<rparr>, d_history = None, d_deadline = None\<rparr>"

theorem DeploymentSpecEqual_self_witness:
  "DeploymentSpecEqual (SetDefaults_Deployment (sample_deployment sample_container))
     (SetDefaults_Deployment (sample_deployment sample_container)) True = Some True"
  by (rule DeploymentSpecEqual_self)
    (auto simp: SetDefaults_Deployment_def or_default_def sample_deployment_def
       supported_volume_def)

text \<open>
  When two specs agree, field by field: probes up to timings that one side leaves unset, volumes by
  name and the object they refer to, environment, mounts and volumes up to order.
\<close>

definition probes_agree :: "probe option \<Rightarrow> probe option \<Rightarrow> bool" where
  "probes_agree a b = rel_option (\<lambda>p q. pr_handler p = pr_handler q \<and> pr_grace p = pr_grace q \<and>
     (\<forall>t \<in> {pr_initial, pr_timeout, pr_period, pr_success, pr_failure}. t p = 0 \<or> t q = 0 \<or> t p = t q)) a b"

definition containers_agree :: "container \<Rightarrow> container \<Rightarrow> bool" where
  "containers_agree c d = (c_name c = c_name d \<and> c_image c = c_image d \<and> c_ports c = c_ports d \<and>
     c_command c = c_command d \<and> c_args c = c_args d \<and> c_resources c = c_resources d \<and> c_secctx c = c_secctx d \<and>
     c_pull c = c_pull d \<and> c_lifecycle c = c_lifecycle d \<and>
     mset (c_env c) = mset (c_env d) \<and> mset (c_mounts c) = mset (c_mounts d) \<and>
     probes_agree (c_liveness c) (c_liveness d) \<and> probes_agree (c_readiness c) (c_readiness d) \<and>
     probes_agree (c_startup c) (c_startup d))"

definition volume_ref :: "volume \<Rightarrow> string \<times> string option \<times> string option \<times> string option \<times> string option" where
  "volume_ref v = (v_name v, map_option vs_name (v_secret v), map_option vs_name (v_configmap v), v_emptydir v, v_pvc v)"

definition deployments_agree :: "bool \<Rightarrow> deployment_spec \<Rightarrow> deployment_spec \<Rightarrow> bool" where
  "deployments_agree init a b = (d_replicas a \<noteq> None \<and> d_replicas a = d_replicas b \<and> d_strategy a = d_strategy b \<and>
     po_service_account (d_pod a) = po_service_account (d_pod b) \<and> po_grace (d_pod a) = po_grace (d_pod b) \<and>
     nil_map (po_node_selector (d_pod a)) = nil_map (po_node_selector (d_pod b)) \<and>
     nil_list (po_tolerations (d_pod a)) = nil_list (po_tolerations (d_pod b)) \<and>
     mset (map volume_ref (po_volumes (d_pod a))) = mset (map volume_ref (po_volumes (d_pod b))) \<and>
     list_all2 containers_agree (po_containers (d_pod a)) (po_containers (d_pod b)) \<and>
     (init \<longrightarrow> list_all2 containers_agree (po_init (d_pod a)) (po_init (d_pod b))))"

text \<open>
  Pods whose names are unique and whose volumes have one source each. Of these the API server itself
  enforces the names of the volumes and the single source; it would accept a repeated variable, or a volume that is mounted twice.
\<close>

definition one_source :: "volume \<Rightarrow> bool" where
  "one_source v = (length (filter id [v_secret v \<noteq> None, v_configmap v \<noteq> None, v_emptydir v \<noteq> None, v_pvc v \<noteq> None]) = 1)"

definition valid_container :: "container \<Rightarrow> bool" where
  "valid_container c = (distinct (map ev_name (c_env c)) \<and> distinct (map vm_name (c_mounts c)))"

definition valid_pod :: "pod_spec \<Rightarrow> bool" where
  "valid_pod p = (list_all valid_container (po_containers p @ po_init p) \<and> distinct (map v_name (po_volumes p)) \<and>
     list_all one_source (po_volumes p))"

lemma ProbeEqual_agree: "ProbeEqual a b \<longleftrightarrow> probes_agree a b"
  by (cases a; cases b) (auto simp: ProbeEqual_def probes_agree_def timings_equal_iff)

lemma ContainerSpecEqual_agree:
  "valid_container c \<Longrightarrow> valid_container d \<Longrightarrow> ContainerSpecEqual c d \<longleftrightarrow> containers_agree c d"
  by (auto simp: ContainerSpecEqual_def containers_agree_def valid_container_def envs.eqv_mset mounts.eqv_mset ProbeEqual_agree)

lemma ContainersEqual_agree:
  assumes "list_all valid_container a" "list_all valid_container b"
  shows "ContainersEqual a b \<longleftrightarrow> list_all2 containers_agree a b"
  using assms ContainerSpecEqual_agree
  by (auto simp: ContainersEqual_all2 list_all2_conv_all_nth list_all_length)

lemma volume_source_equal_ref:
  "one_source a \<Longrightarrow> one_source b \<Longrightarrow> v_name a = v_name b \<and> volume_source_equal a b \<longleftrightarrow> volume_ref a = volume_ref b"
  by (auto simp: one_source_def volume_source_equal_def volume_ref_def split: option.splits if_splits)

lemma PodVolumeEqual_agree:
  assumes "distinct (map v_name a)" "distinct (map v_name b)" "list_all one_source a" "list_all one_source b"
  shows "PodVolumeEqual a b \<longleftrightarrow> mset (map volume_ref a) = mset (map volume_ref b)"
proof -
  have d: "distinct (map volume_ref a)" "distinct (map volume_ref b)"
    using assms(1,2) by (auto simp: distinct_map inj_on_def volume_ref_def)
  have "PodVolumeEqual a b \<longleftrightarrow> length a = length b \<and> (\<forall>x \<in> set a. \<exists>y \<in> set b. v_name y = v_name x \<and> volume_source_equal x y)"
    using vols.eqv_distinct [OF assms(1,2)] by simp
  also have "\<dots> \<longleftrightarrow> length a = length b \<and> volume_ref ` set a \<subseteq> volume_ref ` set b"
  proof -
    have "(v_name y = v_name x \<and> volume_source_equal x y) = (volume_ref x = volume_ref y)" if "x \<in> set a" "y \<in> set b" for x y
      using volume_source_equal_ref [of x y] assms(3,4) that by (auto simp: list_all_iff)
    then have "(\<forall>x \<in> set a. \<exists>y \<in> set b. v_name y = v_name x \<and> volume_source_equal x y) \<longleftrightarrow>
        (\<forall>x \<in> set a. \<exists>y \<in> set b. volume_ref x = volume_ref y)" by simp
    then show ?thesis by (simp add: image_subset_iff image_iff)
  qed
  also have "\<dots> \<longleftrightarrow> mset (map volume_ref a) = mset (map volume_ref b)"
  proof
    assume s: "length a = length b \<and> volume_ref ` set a \<subseteq> volume_ref ` set b"
    then have "set (map volume_ref a) = set (map volume_ref b)"
      using distinct_card [OF d(1)] distinct_card [OF d(2)] by (intro card_subset_eq) simp_all
    then show "mset (map volume_ref a) = mset (map volume_ref b)"
      using d set_eq_iff_mset_eq_distinct by blast
  next
    assume m: "mset (map volume_ref a) = mset (map volume_ref b)"
    show "length a = length b \<and> volume_ref ` set a \<subseteq> volume_ref ` set b"
      using mset_eq_length [OF m] mset_eq_setD [OF m] by simp
  qed
  finally show ?thesis .
qed

text \<open>
  (C26) \<open>DeploymentSpecEqual\<close> decides agreement: for two specs in which no container repeats a variable or
  mounts a volume twice, and each volume has a name of its own and one source, it is true exactly when they agree on replicas, strategy, service account, grace period, node selector,
  tolerations and volumes, and when the containers, and if asked for the init containers, agree pairwise on
  name, image, ports, command, arguments, resources, security context, pull policy, life cycle,
  environment, mounts and the three probes. So no change of one of these fields is missed, and
  a different order or a timing left to the server causes no update.
\<close>

theorem DeploymentSpecEqual_sound:
  assumes "valid_pod (d_pod a)" "valid_pod (d_pod b)"
  shows "DeploymentSpecEqual a b compareInit = Some True \<longleftrightarrow> deployments_agree compareInit a b"
proof -
  have eq: "PodVolumeEqual (po_volumes (d_pod a)) (po_volumes (d_pod b)) \<longleftrightarrow>
      mset (map volume_ref (po_volumes (d_pod a))) = mset (map volume_ref (po_volumes (d_pod b)))"
    "ContainersEqual (po_containers (d_pod a)) (po_containers (d_pod b)) \<longleftrightarrow>
      list_all2 containers_agree (po_containers (d_pod a)) (po_containers (d_pod b))"
    "ContainersEqual (po_init (d_pod a)) (po_init (d_pod b)) \<longleftrightarrow>
      list_all2 containers_agree (po_init (d_pod a)) (po_init (d_pod b))"
    using assms ContainersEqual_agree PodVolumeEqual_agree by (simp_all add: valid_pod_def)
  show ?thesis unfolding DeploymentSpecEqual_def deployments_agree_def Let_def eq
    by (cases "d_replicas a"; cases "d_replicas b") auto
qed

theorem DeploymentSpecEqual_stored_witness:
  "DeploymentSpecEqual (fill_deployment (sample_deployment sample_container))
     (SetDefaults_Deployment (sample_deployment sample_container)) True = Some True"
  by (rule DeploymentSpecEqual_stored [OF deployment_stored_fill])
    (simp add: complete_deployment_def complete_container_def supported_volume_def
      sample_deployment_def sample_container_def)

text \<open>The order of the environment does not count, the pull policy does.\<close>

theorem DeploymentSpecEqual_sound_witness:
  defines "a \<equiv> SetDefaults_Deployment (sample_deployment sample_container)"
    and "b \<equiv> SetDefaults_Deployment (sample_deployment (sample_container\<lparr>c_env := rev (c_env sample_container)\<rparr>))"
    and "c \<equiv> SetDefaults_Deployment (sample_deployment (sample_container\<lparr>c_pull := ''Never''\<rparr>))"
  shows "DeploymentSpecEqual a b True = Some True \<and> DeploymentSpecEqual a c True \<noteq> Some True"
proof -
  have v: "valid_pod (d_pod a)" "valid_pod (d_pod b)" "valid_pod (d_pod c)"
    by (simp_all add: a_def b_def c_def valid_pod_def valid_container_def one_source_def SetDefaults_Deployment_def
        sample_deployment_def sample_container_def)
  have "deployments_agree True a b"
    by (simp add: a_def b_def deployments_agree_def SetDefaults_Deployment_def sample_deployment_def or_default_def
        containers_agree_def sample_container_def probes_agree_def add_mset_commute)
  moreover have "\<not> deployments_agree True a c"
    by (simp add: a_def c_def deployments_agree_def SetDefaults_Deployment_def sample_deployment_def
        containers_agree_def sample_container_def)
  ultimately show ?thesis using DeploymentSpecEqual_sound v by blast
qed

text \<open>
  \<open>SetDefaults_Deployment\<close> fills every defaulted field, keeps what is set, and a second
  application changes nothing, so a defaulted spec is a fixed point and its replica count can be
  dereferenced.
\<close>

theorem SetDefaults_Deployment_fixpoint:
  "SetDefaults_Deployment (SetDefaults_Deployment d) = SetDefaults_Deployment d \<and>
   d_replicas (SetDefaults_Deployment d) = Some (case d_replicas d of None \<Rightarrow> 1 | Some n \<Rightarrow> n) \<and>
   po_grace (d_pod (SetDefaults_Deployment d)) \<noteq> None \<and>
   d_history (SetDefaults_Deployment d) \<noteq> None \<and> d_deadline (SetDefaults_Deployment d) \<noteq> None \<and>
   st_type (d_strategy (SetDefaults_Deployment d)) \<noteq> [] \<and>
   po_containers (d_pod (SetDefaults_Deployment d)) = po_containers (d_pod d)"
proof -
  have "default_strategy (default_strategy s) = default_strategy s" for s
    by (auto simp: default_strategy_def Let_def split: option.splits prod.splits)
  moreover have "st_type (default_strategy s) \<noteq> []" for s
    by (auto simp: default_strategy_def Let_def)
  ultimately show ?thesis
    by (auto simp: SetDefaults_Deployment_def or_default_def split: option.splits)
qed

text \<open>
  The comparison of volume mounts keys them by volume name: when one volume is mounted
  twice, only the last mount of it is compared, so changing the path of the first one is not
  seen as a difference.
\<close>

theorem VolumeMountsEqual_duplicate_blind:
  assumes "length ms = length ms'" "build_map vm_name ms = build_map vm_name ms'"
  shows "VolumeMountsEqual (\<lparr>vm_name = n, vm_path = p, vm_subpath = s, vm_readonly = r\<rparr> # ms @
        [\<lparr>vm_name = n, vm_path = q, vm_subpath = t, vm_readonly = u\<rparr>])
      (\<lparr>vm_name = n, vm_path = p', vm_subpath = s', vm_readonly = r'\<rparr> # ms' @
        [\<lparr>vm_name = n, vm_path = q, vm_subpath = t, vm_readonly = u\<rparr>])"
proof -
  let ?l = "\<lparr>vm_name = n, vm_path = q, vm_subpath = t, vm_readonly = u\<rparr>"
  have last: "fmlookup (build_map vm_name (x # xs @ [?l])) k =
      (if k = n then Some ?l else fmlookup (build_map vm_name xs) k)" if "vm_name x = n" for x xs k
    using that by (auto simp: build_map_lookup map_add_def split: option.splits)
  have "\<exists>m. fmlookup (build_map vm_name (x # ms @ [?l])) k = Some m \<and>
      fmlookup (build_map vm_name (y # ms' @ [?l])) k = Some m"
    if "vm_name x = n" "vm_name y = n" "k \<in> vm_name ` set (x # ms @ [?l])" for x y k
    using that last assms(2) build_map_None [of vm_name ms k] by (cases "k = n") auto
  then show ?thesis unfolding mounts.eqv_law using assms(1) by fastforce
qed

theorem VolumeMountsEqual_duplicate_blind_witness:
  "VolumeMountsEqual
     [\<lparr>vm_name = ''v'', vm_path = ''/old'', vm_subpath = ''a'', vm_readonly = False\<rparr>,
      \<lparr>vm_name = ''v'', vm_path = ''/x'', vm_subpath = ''b'', vm_readonly = False\<rparr>]
     [\<lparr>vm_name = ''v'', vm_path = ''/new'', vm_subpath = ''a'', vm_readonly = False\<rparr>,
      \<lparr>vm_name = ''v'', vm_path = ''/x'', vm_subpath = ''b'', vm_readonly = False\<rparr>]"
  using VolumeMountsEqual_duplicate_blind [of "[]" "[]"] by simp

end
