(* ===== verification/Utils_Validate.thy ===== *)
theory Utils_Validate
  imports Reconcile_Core Utils_Equality
begin

text \<open>
  Validation of what the custom resource refers to (\<open>internal/controller/utils/utils.go\<close>): secret
  contents, LLM credentials, TLS secrets, CA config maps; the iterators over the external secrets
  and config maps the resource names; cluster facts read at start-up; image stream names.
\<close>

section \<open>Small helpers\<close>

definition BoolDeref :: "bool option \<Rightarrow> bool \<Rightarrow> bool" where
  "BoolDeref p d = (case p of Some b \<Rightarrow> b | None \<Rightarrow> d)"

definition GetProxyCACertKey :: "ProxyCACertConfigMapRef option \<Rightarrow> string" where
  "GetProxyCACertKey ref = (case ref of
      None \<Rightarrow> ProxyCACertFileName
    | Some p \<Rightarrow> (if pca_Key p \<noteq> [] then pca_Key p else ProxyCACertFileName))"

definition GetProxyCACertConfigMapName :: "ProxyCACertConfigMapRef option \<Rightarrow> string" where
  "GetProxyCACertConfigMapName ref = (case ref of None \<Rightarrow> [] | Some p \<Rightarrow> pca_Name p)"

definition lower_char :: "char \<Rightarrow> char" where
  "lower_char c = (let n = of_char c :: nat in if 65 \<le> n \<and> n \<le> 90 then char_of (n + 32) else c)"

definition ToLower :: "string \<Rightarrow> string" where
  "ToLower = map lower_char"

definition GetProxyEnvVars :: "'w reconciler \<Rightarrow> env_var list" where
  "GetProxyEnvVars r = map (\<lambda>n. \<lparr>ev_name = ToLower n, ev_value = Getenv r n, ev_from = None\<rparr>)
     (filter (\<lambda>n. Getenv r n \<noteq> [])
       [''HTTPS_PROXY'', ''https_proxy'', ''HTTP_PROXY'', ''http_proxy'', ''NO_PROXY'', ''no_proxy''])"

definition GeneratePostgresSelectorLabels :: gmap where
  "GeneratePostgresSelectorLabels = fmap_of_list
     [(''app.kubernetes.io/component'', ''postgres-server''),
      (''app.kubernetes.io/managed-by'', ''lightspeed-operator''),
      (''app.kubernetes.io/name'', ''lightspeed-service-postgres''),
      (''app.kubernetes.io/part-of'', ''openshift-lightspeed'')]"

definition GenerateAppServerSelectorLabels :: gmap where
  "GenerateAppServerSelectorLabels = fmap_of_list
     [(''app.kubernetes.io/component'', ''application-server''),
      (''app.kubernetes.io/managed-by'', ''lightspeed-operator''),
      (''app.kubernetes.io/name'', ''lightspeed-service-api''),
      (''app.kubernetes.io/part-of'', ''openshift-lightspeed'')]"

text \<open>The four generators that also set the plain \<open>app\<close> label.\<close>

definition app_labels :: "string \<Rightarrow> string \<Rightarrow> gmap" where
  "app_labels app component = fmap_of_list
     [(''app'', app), (''app.kubernetes.io/component'', component),
      (''app.kubernetes.io/managed-by'', ''lightspeed-operator''),
      (''app.kubernetes.io/name'', app),
      (''app.kubernetes.io/part-of'', ''openshift-lightspeed'')]"

definition GenerateAlertsAdapterSelectorLabels :: gmap where
  "GenerateAlertsAdapterSelectorLabels =
     app_labels AlertsAdapterDeploymentName AlertsAdapterComponentLabel"

definition GenerateOtelCollectorSelectorLabels :: gmap where
  "GenerateOtelCollectorSelectorLabels =
     app_labels OtelCollectorDeploymentName OtelCollectorComponentLabel"

definition GenerateAgenticIntegrationSelectorLabels :: gmap where
  "GenerateAgenticIntegrationSelectorLabels =
     app_labels AgenticConfigurationConfigMapName AgenticIntegrationComponentLabel"

definition GetPostgresCAConfigVolume :: volume where
  "GetPostgresCAConfigVolume = \<lparr>v_name = PostgresCAVolume, v_secret = None,
     v_configmap = Some \<lparr>vs_name = OLSCAConfigMap, vs_mode = Some VolumeDefaultMode, vs_items = []\<rparr>,
     v_emptydir = None, v_pvc = None, v_sizelimit = None\<rparr>"

definition GetPostgresCAVolumeMount :: "string \<Rightarrow> volume_mount" where
  "GetPostgresCAVolumeMount path =
     \<lparr>vm_name = PostgresCAVolume, vm_path = path, vm_subpath = [], vm_readonly = True\<rparr>"

text \<open>\<open>AnnotateSecretWatcher\<close> and \<open>AnnotateConfigMapWatcher\<close>.\<close>

definition AnnotateSecretWatcher :: "kobject \<Rightarrow> kobject" where
  "AnnotateSecretWatcher s =
     s\<lparr>k_meta := set_annotation WatcherAnnotationKey OLSConfigName (k_meta s)\<rparr>"

definition AnnotateConfigMapWatcher :: "kobject \<Rightarrow> kobject" where
  "AnnotateConfigMapWatcher s =
     s\<lparr>k_meta := set_annotation WatcherAnnotationKey OLSConfigName (k_meta s)\<rparr>"

definition GenerateServiceAccount :: "'w reconciler \<Rightarrow> OLSConfig \<Rightarrow> string \<Rightarrow> kobject" where
  "GenerateServiceAccount r cr name =
     set_controller cr \<lparr>k_meta = new_meta (GetNamespace r) name fmempty, k_payload = PServiceAccount\<rparr>"

section \<open>Reading secrets and config maps\<close>

fun pick_fields :: "gmap \<Rightarrow> string list \<Rightarrow> gmap \<Rightarrow> goerr + gmap" where
  "pick_fields d [] acc = Inr acc"
| "pick_fields d (f # fs) acc = (case fmlookup d f of
      None \<Rightarrow> Inl (newerr (''secret field '' @ f @ '' not present in the secret''))
    | Some x \<Rightarrow> pick_fields d fs (fmupd f x acc))"

definition GetSecretContent :: "'w reconciler \<Rightarrow> string \<Rightarrow> string \<Rightarrow> string list \<Rightarrow>
    ('w, goerr + gmap) io" where
  "GetSecretContent r name ns secretFields = do {
     x \<leftarrow> cl_get r (Secret, ns, name);
     ret (case x of
        Inl e \<Rightarrow> Inl (wrapf (''secret not found: '' @ name @ ''. error'') e)
      | Inr s \<Rightarrow> pick_fields (secret_data (k_payload s)) secretFields fmempty) }"

definition GetCAFromSecret :: "'w reconciler \<Rightarrow> string \<Rightarrow> string \<Rightarrow> ('w, goerr + string) io" where
  "GetCAFromSecret r ns name = do {
     x \<leftarrow> cl_get r (Secret, ns, name);
     ret (case x of
        Inl e \<Rightarrow> Inl (wrapf (''secret not found: '' @ name @ ''. error'') e)
      | Inr s \<Rightarrow> (case fmlookup (secret_data (k_payload s)) ''ca.crt'' of
            None \<Rightarrow> Inr [] | Some c \<Rightarrow> Inr c)) }"

definition GetConfigMapResourceVersion :: "'w reconciler \<Rightarrow> string \<Rightarrow> ('w, goerr + string) io" where
  "GetConfigMapResourceVersion r name = do {
     x \<leftarrow> cl_get r (ConfigMap, GetNamespace r, name);
     ret (case x of Inl e \<Rightarrow> Inl e | Inr cm \<Rightarrow> Inr (m_version (k_meta cm))) }"

definition GetProxyCACertHash :: "'w reconciler \<Rightarrow> OLSConfig \<Rightarrow> ('w, goerr + string) io" where
  "GetProxyCACertHash r cr = (case o_ProxyConfig (s_OLSConfig (cr_Spec cr)) of
      None \<Rightarrow> ret (Inr [])
    | Some pc \<Rightarrow>
        (let cmName = GetProxyCACertConfigMapName (px_ProxyCACertificateRef pc) in
         if cmName = [] then ret (Inr []) else do {
           x \<leftarrow> cl_get r (ConfigMap, GetNamespace r, cmName);
           ret (case x of
              Inl e \<Rightarrow> Inl e
            | Inr cm \<Rightarrow>
                (let certKey = GetProxyCACertKey (px_ProxyCACertificateRef pc) in
                 case fmlookup (cm_data (k_payload cm)) certKey of
                   None \<Rightarrow> Inl (newerr (''proxy CA certificate key '' @ certKey @
                             '' not found in ConfigMap '' @ cmName))
                 | Some c \<Rightarrow> Inr (sha256_hex r c))) }))"

section \<open>LLM credentials\<close>

text \<open>The checks on the data of one provider's secret.\<close>

definition quoted :: "string \<Rightarrow> string" where
  "quoted s = [CHR 0x27] @ s @ [CHR 0x27]"

text \<open>The verb \<open>%q\<close> on names without special characters.\<close>

definition double_quoted :: "string \<Rightarrow> string" where
  "double_quoted s = [CHR 0x22] @ s @ [CHR 0x22]"

definition missing_key_err :: "ProviderSpec \<Rightarrow> string \<Rightarrow> goerr" where
  "missing_key_err p key = newerr (''LLM provider '' @ p_Name p @ '' credential secret '' @
     p_CredentialsSecretRef p @ '' missing key '' @ quoted key)"

definition credential_error :: "ProviderSpec \<Rightarrow> gmap \<Rightarrow> goerr option" where
  "credential_error p d =
     (if p_Type p = AzureOpenAIType then
        (if fmlookup d DefaultCredentialKey \<noteq> None then None
         else map_option (missing_key_err p)
           (List.find (\<lambda>k. fmlookup d k = None) [''client_id'', ''tenant_id'', ''client_secret'']))
      else if p_Type p = GoogleVertexType \<or> p_Type p = GoogleVertexAnthropicType then
        (let credentialKey = (if p_CredentialKey p = [] then DefaultCredentialKey
                              else p_CredentialKey p) in
         if TrimSpace credentialKey = [] then
           Some (newerr (''LLM provider '' @ p_Name p @
                 '': credentialKey must not be empty or whitespace''))
         else if fmlookup d credentialKey = None then Some (missing_key_err p credentialKey)
         else None)
      else if p_Type p = BedrockType then
        (let hasAccessKey = TrimSpace (zlookup d BedrockAccessKeyIDKey) \<noteq> [];
             hasSecretKey = TrimSpace (zlookup d BedrockSecretAccessKeyKey) \<noteq> [] in
         if hasAccessKey \<noteq> hasSecretKey then
           Some (newerr (''LLM provider '' @ p_Name p @ '' credential secret '' @
             p_CredentialsSecretRef p @ '': IAM auth requires both '' @
             quoted BedrockAccessKeyIDKey @ '' and '' @ quoted BedrockSecretAccessKeyKey))
         else if hasAccessKey \<and> hasSecretKey then None
         else if TrimSpace (zlookup d DefaultCredentialKey) \<noteq> [] then None
         else Some (newerr (''LLM provider '' @ p_Name p @ '' credential secret '' @
             p_CredentialsSecretRef p @ '' must contain either '' @ quoted DefaultCredentialKey @
             '' (Bearer token) or '' @ quoted BedrockAccessKeyIDKey @ '' and '' @
             quoted BedrockSecretAccessKeyKey @ '' (IAM credentials)'')))
      else if fmlookup d DefaultCredentialKey = None
      then Some (missing_key_err p DefaultCredentialKey) else None)"

definition validate_provider :: "'w reconciler \<Rightarrow> ProviderSpec \<Rightarrow> ('w, goerr option) io" where
  "validate_provider r p =
     (if p_CredentialsSecretRef p = []
      then ret (Some (newerr (''provider '' @ p_Name p @ '' missing credentials secret'')))
      else do {
        x \<leftarrow> cl_get r (Secret, GetNamespace r, p_CredentialsSecretRef p);
        ret (case x of
           Inl e \<Rightarrow> (if IsNotFound e
             then Some (newerr (''LLM provider '' @ p_Name p @ '' credential secret '' @
                          p_CredentialsSecretRef p @ '' not found''))
             else Some (wrapf (''failed to get LLM provider '' @ p_Name p @
                          '' credential secret '' @ p_CredentialsSecretRef p) e))
         | Inr s \<Rightarrow> credential_error p (secret_data (k_payload s))) })"

definition ValidateLLMCredentials :: "'w reconciler \<Rightarrow> OLSConfig \<Rightarrow> ('w, goerr option) io" where
  "ValidateLLMCredentials r cr =
     for_each (validate_provider r) (llm_Providers (s_LLMConfig (cr_Spec cr)))"

text \<open>
  \<open>ValidateTLSSecret\<close> dereferences \<open>TLSConfig\<close>; its caller checks it, so it takes the name the
  reference holds.
\<close>

definition ValidateTLSSecret :: "'w reconciler \<Rightarrow> string \<Rightarrow> ('w, goerr option) io" where
  "ValidateTLSSecret r secretName = do {
     x \<leftarrow> cl_get r (Secret, GetNamespace r, secretName);
     ret (case x of
        Inl e \<Rightarrow> (if IsNotFound e then Some (newerr (''TLS secret '' @ secretName @ '' not found''))
                  else Some (wrapf (''failed to get TLS secret '' @ secretName) e))
      | Inr s \<Rightarrow> map_option (\<lambda>k. newerr (''TLS secret '' @ secretName @
                  '' missing required key '' @ quoted k))
                (List.find (\<lambda>k. fmlookup (secret_data (k_payload s)) k = None)
                  [''tls.crt'', ''tls.key''])) }"

definition ReconcileOLSAdditionalCAConfigMap ::
  "'w reconciler \<Rightarrow> OLSConfig \<Rightarrow> ('w, goerr option) io" where
  "ReconcileOLSAdditionalCAConfigMap r cr =
     (case o_AdditionalCAConfigMapRef (s_OLSConfig (cr_Spec cr)) of
        None \<Rightarrow> ret None
      | Some name \<Rightarrow> do {
          x \<leftarrow> cl_get r (ConfigMap, GetNamespace r, name);
          ret (case x of Inl e \<Rightarrow> Some (wrapf ErrGetAdditionalCACM e) | Inr cm \<Rightarrow> None) })"

definition ReconcileProxyCAConfigMap ::
  "'w reconciler \<Rightarrow> OLSConfig \<Rightarrow> ('w, goerr option) io" where
  "ReconcileProxyCAConfigMap r cr = (case o_ProxyConfig (s_OLSConfig (cr_Spec cr)) of
      None \<Rightarrow> ret None
    | Some pc \<Rightarrow>
        (let cmName = GetProxyCACertConfigMapName (px_ProxyCACertificateRef pc) in
         if cmName = [] then ret None else do {
           x \<leftarrow> cl_get r (ConfigMap, GetNamespace r, cmName);
           ret (case x of Inl e \<Rightarrow> Some (wrapf ErrGetProxyCACM e) | Inr cm \<Rightarrow> None) }))"

section \<open>External secrets and config maps\<close>

text \<open>
  The callback runs in the same world as its caller; a closure that collects names is a callback
  whose world is the collection.
\<close>

definition for_llm_secrets ::
  "ProviderSpec list \<Rightarrow> (string \<Rightarrow> string \<Rightarrow> ('w, goerr option) io) \<Rightarrow> ('w, goerr option) io" where
  "for_llm_secrets ps fn = for_each (\<lambda>p.
     if p_CredentialsSecretRef p = [] then ret None
     else fn (p_CredentialsSecretRef p) (''llm-provider-'' @ p_Name p)) ps"

definition for_mcp_secrets ::
  "MCPServerConfig list \<Rightarrow> (string \<Rightarrow> string \<Rightarrow> ('w, goerr option) io) \<Rightarrow> ('w, goerr option) io" where
  "for_mcp_secrets ms fn = for_each (\<lambda>m. for_each (\<lambda>h.
     if hv_Type (h_ValueFrom h) \<noteq> MCPHeaderSourceTypeSecret then ret None
     else case hv_SecretRef (h_ValueFrom h) of
        None \<Rightarrow> ret None
      | Some n \<Rightarrow> (if n = [] then ret None else fn n (''mcp-'' @ ms_Name m))) (ms_Headers m)) ms"

definition ForEachExternalSecret ::
  "OLSConfig \<Rightarrow> (string \<Rightarrow> string \<Rightarrow> ('w, goerr option) io) \<Rightarrow> ('w, goerr option) io" where
  "ForEachExternalSecret cr fn =
     and_then (for_llm_secrets (llm_Providers (s_LLMConfig (cr_Spec cr))) fn)
     (and_then (case o_TLSConfig (s_OLSConfig (cr_Spec cr)) of
          None \<Rightarrow> ret None
        | Some n \<Rightarrow> (if n \<noteq> [] then fn n ''tls'' else ret None))
       (for_mcp_secrets (s_MCPServers (cr_Spec cr)) fn))"

definition AlertsAdapterConfigMapRef :: "OLSConfig \<Rightarrow> string option" where
  "AlertsAdapterConfigMapRef cr =
     (case aa_ConfigMapRef (dc_AlertsAdapter (o_DeploymentConfig (s_OLSConfig (cr_Spec cr)))) of
        None \<Rightarrow> None | Some n \<Rightarrow> (if n = [] then None else Some n))"

definition ForEachExternalConfigMap ::
  "OLSConfig \<Rightarrow> (string \<Rightarrow> string \<Rightarrow> ('w, goerr option) io) \<Rightarrow> ('w, goerr option) io" where
  "ForEachExternalConfigMap cr fn =
     and_then (case o_AdditionalCAConfigMapRef (s_OLSConfig (cr_Spec cr)) of
          None \<Rightarrow> ret None
        | Some n \<Rightarrow> (if n \<noteq> [] then fn n ''additional-ca'' else ret None))
     (and_then (case o_ProxyConfig (s_OLSConfig (cr_Spec cr)) of
          None \<Rightarrow> ret None
        | Some pc \<Rightarrow>
            (let n = GetProxyCACertConfigMapName (px_ProxyCACertificateRef pc) in
             if n \<noteq> [] then fn n ''proxy-ca'' else ret None))
       (case AlertsAdapterConfigMapRef cr of None \<Rightarrow> ret None | Some n \<Rightarrow> fn n ''alerts-adapter''))"

section \<open>Cluster facts\<close>

definition GetOpenshiftVersion :: "'w reconciler \<Rightarrow> ('w, goerr + string \<times> string) io" where
  "GetOpenshiftVersion r = do {
     x \<leftarrow> cl_get r (ClusterVersion, [], ''version'');
     ret (case x of
        Inl e \<Rightarrow> Inl e
      | Inr ob \<Rightarrow>
          (let ver = (case k_payload ob of PClusterVersion s \<Rightarrow> s | _ \<Rightarrow> []);
               parts = split_on CHR ''.'' ver in
           if length parts < 2 then Inl (newerr (''failed to parse cluster version: '' @ ver))
           else Inr (parts ! 0, parts ! 1))) }"

definition RosaOKPProductEnv :: "'w reconciler \<Rightarrow> ('w, goerr + env_var option) io" where
  "RosaOKPProductEnv r = do {
     x \<leftarrow> cl_get r (Console, [], ''cluster'');
     case x of
       Inl e \<Rightarrow> ret (Inl (wrapf ''failed to get console cluster'' e))
     | Inr con \<Rightarrow>
         (if (case k_payload con of PConsole ps brand \<Rightarrow> brand | _ \<Rightarrow> []) \<noteq> ''ROSA''
          then ret (Inr None)
          else do {
            y \<leftarrow> cl_get r (Infrastructure, [], ''cluster'');
            ret (case y of
               Inl e \<Rightarrow> Inl (wrapf ''failed to get infrastructure cluster'' e)
             | Inr infra \<Rightarrow>
                 Inr (Some \<lparr>ev_name = OLSRosaProductEnvVar,
                   ev_value = (if (case k_payload infra of PInfrastructure t \<Rightarrow> t | _ \<Rightarrow> []) = ''External''
                               then RosaOKPProductHCP else RosaOKPProductClassic),
                   ev_from = None\<rparr>)) }) }"

definition IsPrometheusOperatorAvailable :: "'w reconciler \<Rightarrow> ('w, bool) io" where
  "IsPrometheusOperatorAvailable r = do {
     x \<leftarrow> cl_list r ServiceMonitor [] fmempty;
     case x of Inl e \<Rightarrow> ret False | Inr l \<Rightarrow> do {
       y \<leftarrow> cl_list r PrometheusRule [] fmempty;
       ret (case y of Inl e \<Rightarrow> False | Inr l' \<Rightarrow> True) } }"

text \<open>
  \<open>ValidateCertificateFormat\<close>; \<open>decode\<close> is \<open>pem.Decode\<close> (the first block's type and bytes) and
  \<open>parse\<close> is \<open>x509.ParseCertificate\<close>.
\<close>

definition ValidateCertificateFormat ::
  "(string \<Rightarrow> (string \<times> string) option) \<Rightarrow> (string \<Rightarrow> goerr option) \<Rightarrow> string \<Rightarrow> goerr option" where
  "ValidateCertificateFormat decode parse cert =
     (if cert = [] then Some (newerr ''certificate is empty'')
      else case decode cert of
        None \<Rightarrow> Some (newerr ''failed to decode PEM certificate'')
      | Some (ty, bytes) \<Rightarrow>
          (if ty \<noteq> ''CERTIFICATE''
           then Some (newerr (''block type is not certificate but '' @ ty))
           else case parse bytes of
             Some e \<Rightarrow> Some (newerr (''failed to parse certificate: '' @ err_msg e))
           | None \<Rightarrow> None))"

section \<open>Image stream names\<close>

definition slug_char :: "char \<Rightarrow> bool" where
  "slug_char c = (let n = of_char c :: nat in
     (97 \<le> n \<and> n \<le> 122) \<or> (48 \<le> n \<and> n \<le> 57) \<or> n = 45)"

text \<open>\<open>regexp.MustCompile("[^a-z0-9-]+").ReplaceAllString(s, "-")\<close>\<close>

function squash :: "string \<Rightarrow> string" where
  "squash [] = []"
| "squash (c # s) = (if slug_char c then c # squash s
     else CHR ''-'' # squash (dropWhile (\<lambda>x. \<not> slug_char x) s))"
  by pat_completeness auto
termination
  by (relation "measure length") (auto intro: le_imp_less_Suc length_dropWhile_le)

definition replace_char :: "char \<Rightarrow> char \<Rightarrow> string \<Rightarrow> string" where
  "replace_char a b = map (\<lambda>c. if c = a then b else c)"

definition is_dash :: "char \<Rightarrow> bool" where
  "is_dash c = (c = CHR ''-'')"

definition image_slug :: "string \<Rightarrow> string" where
  "image_slug img =
     (let base = ToLower (replace_char CHR ''/'' CHR ''_'' img);
          base = replace_char CHR '':'' CHR ''_'' base;
          base = replace_char CHR 0x40 CHR ''_'' base;
          slug = trim_by is_dash (squash base);
          slug = (if length slug > 55 then take 55 slug else slug)
      in trim_by is_dash slug)"

definition ImageStreamNameFor :: "(string \<Rightarrow> string) \<Rightarrow> string \<Rightarrow> string" where
  "ImageStreamNameFor sha1 img = image_slug img @ ''-'' @ take 6 (sha1 img)"

section \<open>What validation accepts\<close>

text \<open>When the data of a secret can authenticate with a provider, per provider type.\<close>

definition usable_credentials :: "ProviderSpec \<Rightarrow> gmap \<Rightarrow> bool" where
  "usable_credentials p d =
     (let has = (\<lambda>k. k |\<in>| fmdom d); nonblank = (\<lambda>k. \<exists>x. fmlookup d k = Some x \<and> TrimSpace x \<noteq> [])
      in if p_Type p = AzureOpenAIType
         then has DefaultCredentialKey \<or> (\<forall>k \<in> {''client_id'', ''tenant_id'', ''client_secret''}. has k)
         else if p_Type p \<in> {GoogleVertexType, GoogleVertexAnthropicType}
         then (let k = (if p_CredentialKey p = [] then DefaultCredentialKey else p_CredentialKey p)
               in TrimSpace k \<noteq> [] \<and> has k)
         else if p_Type p = BedrockType
         then (nonblank BedrockAccessKeyIDKey \<and> nonblank BedrockSecretAccessKeyKey) \<or>
              (\<not> nonblank BedrockAccessKeyIDKey \<and> \<not> nonblank BedrockSecretAccessKeyKey \<and>
               nonblank DefaultCredentialKey)
         else has DefaultCredentialKey)"

lemma TrimSpace_Nil [simp]: "TrimSpace [] = []"
  by (simp add: TrimSpace_def trim_by_def)

lemma zlookup_nonblank:
  "TrimSpace (zlookup d k) \<noteq> [] \<longleftrightarrow> (\<exists>x. fmlookup d k = Some x \<and> TrimSpace x \<noteq> [])"
  by (simp add: zlookup_def split: option.splits)

lemma fmlookup_None_dom: "fmlookup d k = None \<longleftrightarrow> k |\<notin>| fmdom d"
  by (metis fmdom_notD fmdom_notI)

lemma credential_error_iff: "credential_error p d = None \<longleftrightarrow> usable_credentials p d"
proof -
  have find: "List.find P xs = None \<longleftrightarrow> (\<forall>x \<in> set xs. \<not> P x)" for P and xs :: "string list"
    by (auto simp: find_None_iff)
  show ?thesis
    unfolding credential_error_def usable_credentials_def Let_def zlookup_nonblank
    by (auto simp: fmlookup_None_dom find)
qed

text \<open>Reads that never fail for an object that is there.\<close>

definition reads_total :: "('w, 'x) client_scheme \<Rightarrow> ('w \<Rightarrow> okey \<Rightarrow> kobject option) \<Rightarrow> bool" where
  "reads_total c v = (\<forall>k w ob. v w k = Some ob \<longrightarrow> fst (run_state (cl_get c k) w) = Inr ob)"

definition provider_ok :: "'w reconciler \<Rightarrow> (okey \<Rightarrow> kobject option) \<Rightarrow> ProviderSpec \<Rightarrow> bool" where
  "provider_ok r f p = (p_CredentialsSecretRef p \<noteq> [] \<and>
     (\<exists>ob. f (Secret, GetNamespace r, p_CredentialsSecretRef p) = Some ob \<and>
        usable_credentials p (secret_data (k_payload ob))))"

lemma validate_provider_run:
  assumes "api_ok r v" "run_state (validate_provider r p) w = (e, w')"
  shows "v w' = v w" "e = None \<Longrightarrow> provider_ok r (v w) p"
    "reads_total r v \<Longrightarrow> provider_ok r (v w) p \<Longrightarrow> e = None"
proof -
  let ?k = "(Secret, GetNamespace r, p_CredentialsSecretRef p)"
  obtain x w1 where g: "run_state (cl_get r ?k) w = (x, w1)" by force
  note get = api_get [OF assms(1) g]
  show "v w' = v w" using assms(2) g get(1)
    by (auto simp: validate_provider_def split: if_splits)
  show "e = None \<Longrightarrow> provider_ok r (v w) p"
    using assms(2) g get(2) unfolding validate_provider_def provider_ok_def
    by (auto simp: credential_error_iff split: if_splits sum.splits)
  show "reads_total r v \<Longrightarrow> provider_ok r (v w) p \<Longrightarrow> e = None"
  proof -
    assume t: "reads_total r v" and ok: "provider_ok r (v w) p"
    then obtain ob where ob: "v w ?k = Some ob" "usable_credentials p (secret_data (k_payload ob))"
      by (auto simp: provider_ok_def)
    then have "x = Inr ob" using t g unfolding reads_total_def by (metis fst_conv)
    then show "e = None" using assms(2) g ob ok credential_error_iff [of p]
      by (auto simp: validate_provider_def provider_ok_def)
  qed
qed

lemma for_each_check:
  assumes step: "\<And>x w e w'. x \<in> set xs \<Longrightarrow> run_state (f x) w = (e, w') \<Longrightarrow>
      v w' = v w \<and> (e = None \<longleftrightarrow> P (v w) x)"
    and "run_state (for_each f xs) w = (e, w')"
  shows "v w' = v w \<and> (e = None \<longleftrightarrow> (\<forall>x \<in> set xs. P (v w) x))"
  using assms
proof (induction xs arbitrary: w)
  case Nil
  then show ?case by simp
next
  case (Cons x xs)
  obtain e1 w1 where r: "run_state (f x) w = (e1, w1)" by force
  have s: "v w1 = v w \<and> (e1 = None \<longleftrightarrow> P (v w) x)" using Cons.prems(1) [OF _ r] by simp
  show ?case
  proof (cases e1)
    case None
    then have "run_state (for_each f xs) w1 = (e, w')" using Cons.prems(2) r by simp
    then have "v w' = v w1 \<and> (e = None \<longleftrightarrow> (\<forall>x \<in> set xs. P (v w1) x))"
      by (rule Cons.IH [rotated]) (rule Cons.prems(1), simp_all)
    then show ?thesis using s None by simp
  next
    case (Some y)
    then show ?thesis using Cons.prems(2) r s by auto
  qed
qed


lemma mem_reads_total: "reads_total (mem_reconciler op) mem_view"
  by (simp add: reads_total_def mem_get_def)


text \<open>The references of the custom resource, as lists.\<close>

definition external_secrets :: "OLSConfig \<Rightarrow> (string \<times> string) list" where
  "external_secrets cr =
     [(p_CredentialsSecretRef p, ''llm-provider-'' @ p_Name p).
        p \<leftarrow> llm_Providers (s_LLMConfig (cr_Spec cr)), p_CredentialsSecretRef p \<noteq> []] @
     [(n, ''tls''). n \<leftarrow> (case o_TLSConfig (s_OLSConfig (cr_Spec cr)) of None \<Rightarrow> [] | Some n \<Rightarrow> [n]),
        n \<noteq> []] @
     [(n, ''mcp-'' @ ms_Name m). m \<leftarrow> s_MCPServers (cr_Spec cr), h \<leftarrow> ms_Headers m,
        hv_Type (h_ValueFrom h) = MCPHeaderSourceTypeSecret,
        n \<leftarrow> (case hv_SecretRef (h_ValueFrom h) of None \<Rightarrow> [] | Some n \<Rightarrow> [n]), n \<noteq> []]"

definition external_configmaps :: "OLSConfig \<Rightarrow> (string \<times> string) list" where
  "external_configmaps cr =
     [(n, ''additional-ca''). n \<leftarrow> (case o_AdditionalCAConfigMapRef (s_OLSConfig (cr_Spec cr)) of
        None \<Rightarrow> [] | Some n \<Rightarrow> [n]), n \<noteq> []] @
     [(n, ''proxy-ca''). n \<leftarrow> (case o_ProxyConfig (s_OLSConfig (cr_Spec cr)) of
        None \<Rightarrow> [] | Some pc \<Rightarrow> [GetProxyCACertConfigMapName (px_ProxyCACertificateRef pc)]), n \<noteq> []] @
     [(n, ''alerts-adapter''). n \<leftarrow> (case AlertsAdapterConfigMapRef cr of
        None \<Rightarrow> [] | Some n \<Rightarrow> [n])]"

lemma for_each_concat:
  "for_each f (concat (map g xs)) = for_each (\<lambda>x. for_each f (g x)) xs"
  by (induction xs) (simp_all add: for_each_append and_then_def)

lemma bind_same_error [simp]:
  "State_Monad.bind m (case_option (ret None) (\<lambda>e. ret (Some e))) = m"
proof -
  have "run_state (State_Monad.bind m (case_option (ret None) (\<lambda>e. ret (Some e)))) w = run_state m w"
    for w by (auto split: prod.splits option.splits)
  then show ?thesis by (metis state.expand ext)
qed

lemma for_each_single [simp]: "for_each f [x] = f x"
  by simp

lemma for_external_secrets:
  "ForEachExternalSecret cr fn = for_each (\<lambda>(n, src). fn n src) (external_secrets cr)"
proof -
  have a: "for_llm_secrets ps fn = for_each (\<lambda>(n, src). fn n src)
      [(p_CredentialsSecretRef p, ''llm-provider-'' @ p_Name p). p \<leftarrow> ps, p_CredentialsSecretRef p \<noteq> []]"
    for ps
    unfolding for_llm_secrets_def for_each_concat
    by (rule arg_cong [where f = "\<lambda>f. for_each f ps"]) (auto simp: fun_eq_iff for_each_single)
  have b: "for_mcp_secrets ms fn = for_each (\<lambda>(n, src). fn n src)
      [(n, ''mcp-'' @ ms_Name m). m \<leftarrow> ms, h \<leftarrow> ms_Headers m,
        hv_Type (h_ValueFrom h) = MCPHeaderSourceTypeSecret,
        n \<leftarrow> (case hv_SecretRef (h_ValueFrom h) of None \<Rightarrow> [] | Some n \<Rightarrow> [n]), n \<noteq> []]" for ms
    unfolding for_mcp_secrets_def for_each_concat
    by (rule arg_cong [where f = "\<lambda>f. for_each f ms"], rule ext,
        rule arg_cong [where f = "\<lambda>f. for_each f xs" for xs])
      (auto simp: fun_eq_iff for_each_single split: option.splits)
  show ?thesis
    unfolding ForEachExternalSecret_def external_secrets_def for_each_append a b
    by (auto simp: for_each_single split: option.splits)
qed

lemma for_external_configmaps:
  "ForEachExternalConfigMap cr fn = for_each (\<lambda>(n, src). fn n src) (external_configmaps cr)"
  unfolding ForEachExternalConfigMap_def external_configmaps_def for_each_append
  by (auto simp: Let_def split: option.splits)

text \<open>
  (C28) The iterator over external secrets calls its callback on exactly the references of the
  resource, in order (provider credentials, TLS, MCP header secrets), skipping empty names, and
  stops at the first error, whatever the callback does.
\<close>

theorem ForEachExternalSecret_refines:
  "ForEachExternalSecret cr fn = for_each (\<lambda>(n, src). fn n src) (external_secrets cr)"
  by (rule for_external_secrets)

text \<open>
  The iterator over external config maps calls its callback on exactly the references of the
  resource (additional CA, proxy CA, alerts-adapter configuration), in that order, and stops at
  the first error.
\<close>

theorem ForEachExternalConfigMap_refines:
  "ForEachExternalConfigMap cr fn = for_each (\<lambda>(n, src). fn n src) (external_configmaps cr)"
  by (rule for_external_configmaps)

section \<open>Image stream names are DNS labels\<close>

lemma squash_slug_chars: "c \<in> set (squash s) \<Longrightarrow> slug_char c"
  by (induction s rule: squash.induct) (auto simp: slug_char_def split: if_splits)

lemma squash_keeps: "c \<in> set s \<Longrightarrow> slug_char c \<Longrightarrow> c \<in> set (squash s)"
proof (induction s rule: squash.induct)
  case (2 d s)
  have "c \<in> set (dropWhile (\<lambda>x. \<not> slug_char x) s)" if "c \<in> set s"
    using that "2.prems"(2) by (induction s) auto
  then show ?case using 2 by auto
qed simp

lemma set_dropWhile_keeps: "c \<in> set s \<Longrightarrow> \<not> p c \<Longrightarrow> c \<in> set (dropWhile p s)"
  by (induction s) auto

lemma trim_by_ne: "c \<in> set s \<Longrightarrow> \<not> p c \<Longrightarrow> trim_by p s \<noteq> []"
proof -
  assume c: "c \<in> set s" "\<not> p c"
  then have "c \<in> set (dropWhile p (rev (dropWhile p s)))"
    by (simp add: set_dropWhile_keeps)
  then show ?thesis unfolding trim_by_def by (metis empty_iff empty_set rev_is_Nil_conv)
qed

lemma hd_take_pos: "0 < n \<Longrightarrow> hd (take n s) = hd s"
  by (cases s; cases n) auto

text \<open>Letters and digits survive lower-casing and the replacement of separators.\<close>

definition alnum :: "char \<Rightarrow> bool" where
  "alnum c = (let n = of_char c :: nat in
     (97 \<le> n \<and> n \<le> 122) \<or> (65 \<le> n \<and> n \<le> 90) \<or> (48 \<le> n \<and> n \<le> 57))"

lemma alnum_lower:
  assumes "alnum c"
  shows "slug_char (lower_char c) \<and> \<not> is_dash (lower_char c) \<and>
    c \<notin> {CHR ''/'', CHR '':'', CHR 0x40} \<and> lower_char c \<notin> {CHR ''/'', CHR '':'', CHR 0x40}"
proof -
  have len: "(of_char (lower_char c) :: nat) = (if (65::nat) \<le> of_char c \<and> of_char c \<le> (90::nat)
      then of_char c + 32 else (of_char c :: nat))"
    by (auto simp: lower_char_def Let_def of_char_of)
  have ne: "x \<noteq> y" if "(of_char x :: nat) \<noteq> of_char y" for x y :: char using that by auto
  show ?thesis
    using assms len
    by (auto simp: alnum_def slug_char_def is_dash_def Let_def split: if_splits intro!: ne)
qed

lemma image_slug_valid:
  assumes "\<exists>c \<in> set img. alnum c"
  shows "image_slug img \<noteq> []" "length (image_slug img) \<le> 55"
    "\<And>c. c \<in> set (image_slug img) \<Longrightarrow> slug_char c" "\<not> is_dash (hd (image_slug img))"
proof -
  define base where "base = replace_char CHR 0x40 CHR ''_'' (replace_char CHR '':'' CHR ''_''
      (ToLower (replace_char CHR ''/'' CHR ''_'' img)))"
  define slug where "slug = trim_by is_dash (squash base)"
  define cut where "cut = (if length slug > 55 then take 55 slug else slug)"
  have def: "image_slug img = trim_by is_dash cut"
    by (simp add: image_slug_def Let_def base_def slug_def cut_def)
  obtain c where c: "c \<in> set img" "alnum c" using assms by blast
  note al = alnum_lower [OF c(2)]
  have "lower_char c \<in> set base"
    unfolding base_def replace_char_def ToLower_def using c(1) al by (force simp: image_iff)
  then have ne: "slug \<noteq> []"
    unfolding slug_def using al squash_keeps trim_by_ne by metis
  then have cut: "cut \<noteq> []" "hd cut = hd slug" "length cut \<le> 55"
    by (auto simp: cut_def hd_take_pos)
  have "\<not> is_dash (hd cut)" using hd_trim_by ne cut(2) unfolding slug_def by metis
  then show "image_slug img \<noteq> []" unfolding def using cut(1) trim_by_ne hd_in_set by metis
  then show "\<not> is_dash (hd (image_slug img))" unfolding def by (rule hd_trim_by)
  show "length (image_slug img) \<le> 55" unfolding def using cut(3) length_trim_by le_trans by blast
  show "slug_char d" if "d \<in> set (image_slug img)" for d
  proof -
    have "d \<in> set cut" using that set_trim_by unfolding def by blast
    then have "d \<in> set slug" unfolding cut_def by (auto split: if_splits dest: in_set_takeD)
    then show ?thesis unfolding slug_def using set_trim_by squash_slug_chars by blast
  qed
qed

text \<open>
  The image stream name of an image reference that has at least one letter or digit is a DNS
  label: between 8 and 62 characters from \<open>a-z0-9-\<close>, starting with a letter or digit and ending
  with the six hexadecimal digits of the hash.
\<close>

theorem ImageStreamNameFor_label:
  assumes "\<exists>c \<in> set img. alnum c" "length (sha1 img) = 40"
    "\<And>c. c \<in> set (sha1 img) \<Longrightarrow> slug_char c \<and> \<not> is_dash c"
  shows "8 \<le> length (ImageStreamNameFor sha1 img) \<and> length (ImageStreamNameFor sha1 img) \<le> 62 \<and>
    (\<forall>c \<in> set (ImageStreamNameFor sha1 img). slug_char c) \<and>
    \<not> is_dash (hd (ImageStreamNameFor sha1 img)) \<and> \<not> is_dash (last (ImageStreamNameFor sha1 img))"
proof -
  note sl = image_slug_valid [OF assms(1)]
  have sfx: "length (take 6 (sha1 img)) = 6" "take 6 (sha1 img) \<noteq> []" using assms(2) by auto
  have "last (take 6 (sha1 img)) \<in> set (sha1 img)"
    using sfx(2) last_in_set set_take_subset by (metis subsetD)
  moreover have "1 \<le> length (image_slug img)" using sl(1) by (cases "image_slug img") auto
  moreover have "\<forall>c \<in> set (ImageStreamNameFor sha1 img). slug_char c"
    using sl(3) assms(3) set_take_subset [of 6 "sha1 img"]
    by (auto simp: ImageStreamNameFor_def slug_char_def Let_def)
  ultimately show ?thesis
    using sl sfx assms(3) unfolding ImageStreamNameFor_def by (auto simp: hd_append)
qed

theorem ImageStreamNameFor_label_witness:
  "length (ImageStreamNameFor (\<lambda>_. replicate 40 CHR ''a'') ''quay.io/org/img:v1'') \<le> 62"
  using ImageStreamNameFor_label [of "''quay.io/org/img:v1''" "\<lambda>_. replicate 40 CHR ''a''"]
  by (simp add: alnum_def slug_char_def is_dash_def)

end
