(* ===== verification/Reconcile_Tasks.thy ===== *)
theory Reconcile_Tasks
  imports Utils_Validate
begin

text \<open>
  Running lists of tasks (\<open>RunReconcileTasks\<close>, \<open>RunDeleteTasks\<close> of
  \<open>internal/controller/utils/console_plugin_reconciler.go\<close>) and the reconcilers of single objects
  that the operands share: the console-plugin objects of the same file and
  \<open>service_monitor_reconciler.go\<close>. Each of them is shown to meet the contract
  \<open>object_reconciler\<close>; a list of tasks with disjoint keys then settles as a whole.
\<close>

section \<open>Task lists\<close>

type_synonym 'w reconcile_fn = "'w reconciler \<Rightarrow> OLSConfig \<Rightarrow> ('w, goerr option) io"
type_synonym 'w ReconcileTask = "string \<times> 'w reconcile_fn"
type_synonym 'w DeleteTask = "string \<times> ('w reconciler \<Rightarrow> ('w, goerr option) io)"

fun run_all :: "'w reconciler \<Rightarrow> OLSConfig \<Rightarrow> 'w ReconcileTask list \<Rightarrow> ('w, goerr list) io" where
  "run_all r cr [] = ret []"
| "run_all r cr ((name, task) # ts) = do {
     e \<leftarrow> task r cr;
     es \<leftarrow> run_all r cr ts;
     ret (case e of None \<Rightarrow> es | Some err \<Rightarrow> wrapf name err # es) }"

definition RunReconcileTasks ::
  "'w reconciler \<Rightarrow> OLSConfig \<Rightarrow> string \<Rightarrow> 'w ReconcileTask list \<Rightarrow> bool \<Rightarrow> ('w, goerr option) io" where
  "RunReconcileTasks r cr phase tasks continueOnError =
     (if continueOnError then do {
        failedErrs \<leftarrow> run_all r cr tasks;
        ret (if failedErrs \<noteq> [] then Some (wrapf phase (errors_join failedErrs)) else None) }
      else for_each (\<lambda>(name, task). do {
        e \<leftarrow> task r cr;
        ret (map_option (wrapf (''failed to '' @ name)) e) }) tasks)"

definition RunDeleteTasks ::
  "'w reconciler \<Rightarrow> string \<Rightarrow> 'w DeleteTask list \<Rightarrow> ('w, goerr option) io" where
  "RunDeleteTasks r phase tasks = for_each (\<lambda>(name, task). do {
     e \<leftarrow> task r;
     ret (map_option (wrapf (''failed to '' @ name)) e) }) tasks"

text \<open>
  Operands that collect failures in a map by task name run every task and return the names
  only; the Go map gives them in no particular order, the model in task order. Removals that
  collect their errors join them.
\<close>

fun failed_names :: "'w reconciler \<Rightarrow> OLSConfig \<Rightarrow> 'w ReconcileTask list \<Rightarrow> ('w, string list) io" where
  "failed_names r cr [] = ret []"
| "failed_names r cr ((name, task) # ts) = do {
     e \<leftarrow> task r cr;
     ns \<leftarrow> failed_names r cr ts;
     ret (case e of None \<Rightarrow> ns | Some err \<Rightarrow> name # ns) }"

definition run_named :: "'w reconciler \<Rightarrow> OLSConfig \<Rightarrow> 'w ReconcileTask list \<Rightarrow> ('w, goerr option) io" where
  "run_named r cr tasks = do {
     ns \<leftarrow> failed_names r cr tasks;
     ret (if ns \<noteq> [] then Some (newerr (''failed tasks: ['' @ join_with '' '' ns @ '']'')) else None) }"

fun delete_errors :: "'w reconciler \<Rightarrow> 'w DeleteTask list \<Rightarrow> ('w, goerr list) io" where
  "delete_errors r [] = ret []"
| "delete_errors r ((name, task) # ts) = do {
     e \<leftarrow> task r;
     es \<leftarrow> delete_errors r ts;
     ret (case e of None \<Rightarrow> es | Some err \<Rightarrow> wrapf (''failed to '' @ name) err # es) }"

definition run_deletes :: "'w reconciler \<Rightarrow> 'w DeleteTask list \<Rightarrow> ('w, goerr option) io" where
  "run_deletes r tasks = do {
     errs \<leftarrow> delete_errors r tasks;
     ret (if errs \<noteq> [] then Some (errors_join errs) else None) }"

text \<open>The states and results of running every task in order, whatever fails.\<close>

fun run_through :: "('w, 'a) io list \<Rightarrow> 'w \<Rightarrow> 'a list \<times> 'w" where
  "run_through [] w = ([], w)"
| "run_through (m # ms) w =
     (let (a, w1) = run_state m w; (as, w2) = run_through ms w1 in (a # as, w2))"

lemma run_all_through:
  "run_state (run_all r cr ts) w =
     (let (es, w') = run_through (map (\<lambda>(n, t). t r cr) ts) w
      in ([wrapf n e. ((n, t), Some e) \<leftarrow> zip ts es], w'))"
proof (induction ts arbitrary: w)
  case (Cons t ts)
  obtain n f where t: "t = (n, f)" by force
  show ?case
    unfolding t using Cons.IH
    by (auto simp: Let_def split: prod.splits option.splits)
qed simp

lemma length_run_through: "length (fst (run_through ms w)) = length ms"
  by (induction ms arbitrary: w) (auto simp: Let_def split: prod.splits, metis fst_conv)

text \<open>
  With continue-on-error every task runs, in order, also after failures: the final state is
  that of running them all. The phase reports an error exactly when some task failed, and that
  error still carries the API reason of every failed task.
\<close>

theorem RunReconcileTasks_continue:
  assumes "run_state (RunReconcileTasks r cr phase tasks True) w = (e, w')"
    and "run_through (map (\<lambda>(n, t). t r cr) tasks) w = (es, w'')"
  shows "w' = w'' \<and> (e = None \<longleftrightarrow> (\<forall>x \<in> set es. x = None)) \<and>
    (\<forall>err reason. Some err \<in> set es \<and> has_reason reason err \<longrightarrow> has_reason reason (the e))"
proof -
  have len: "length es = length tasks"
    using length_run_through [of "map (\<lambda>(n, t). t r cr) tasks" w] assms(2) by simp
  define fs where "fs = [wrapf n e. ((n, t), Some e) \<leftarrow> zip tasks es]"
  have run: "w' = w''" "e = (if fs \<noteq> [] then Some (wrapf phase (errors_join fs)) else None)"
    using assms by (auto simp: fs_def RunReconcileTasks_def run_all_through Let_def split: if_splits)
  have mem: "\<exists>n. wrapf n err \<in> set fs" if x: "Some err \<in> set es" for err
  proof -
    obtain i where i: "i < length es" "es ! i = Some err" using x by (metis in_set_conv_nth)
    then have "(tasks ! i, Some err) \<in> set (zip tasks es)" using len by (metis nth_mem nth_zip length_zip min.idem)
    moreover obtain n t where "tasks ! i = (n, t)" by force
    ultimately show ?thesis unfolding fs_def by force
  qed
  moreover have "\<exists>err. Some err \<in> set es" if f: "fs \<noteq> []"
  proof -
    obtain y where "y \<in> set fs" using f by (meson hd_in_set)
    then show ?thesis by (auto simp: fs_def split: option.splits dest: set_zip_rightD)
  qed
  ultimately have "(fs = []) = (\<forall>x \<in> set es. x = None)" by (metis empty_iff empty_set not_None_eq option.simps(3))
  moreover have "has_reason reason (the e)" if x: "Some err \<in> set es" "has_reason reason err" for err reason
  proof -
    obtain n where n: "wrapf n err \<in> set fs" using mem [OF x(1)] ..
    then have "the e = wrapf phase (errors_join fs)" using run(2) by auto
    then have "has_reason reason (the e) \<longleftrightarrow> (\<exists>y \<in> set fs. has_reason reason y)" by simp
    then show ?thesis using n x(2) by (metis has_reason_wrapf)
  qed
  moreover have "e = None \<longleftrightarrow> fs = []" using run(2) by simp
  ultimately show ?thesis using run(1) by blast
qed

theorem RunReconcileTasks_continue_witness:
  defines "ts \<equiv> [(''a'', \<lambda>r cr. ret (Some (ApiError Forbidden ''x''))), (''b'', \<lambda>r cr. cl_create r (obj_of_cr cr))]"
  shows "\<exists>w'. run_state (RunReconcileTasks (mem_reconciler (no_options ''ns'')) (blank_cr []) ''p'' ts True)
      fmempty = (Some (wrapf ''p'' (errors_join [wrapf ''a'' (ApiError Forbidden ''x'')])), w') \<and>
      w' = snd (run_state (mem_create (obj_of_cr (blank_cr []))) fmempty)"
proof -
  let ?r = "mem_reconciler (no_options ''ns'')"
  have "run_state (RunReconcileTasks ?r (blank_cr []) ''p'' ts True) fmempty =
      (Some (wrapf ''p'' (errors_join [wrapf ''a'' (ApiError Forbidden ''x'')])),
       snd (run_state (mem_create (obj_of_cr (blank_cr []))) fmempty))" (is "_ = ?res")
    by (simp add: ts_def RunReconcileTasks_def mem_create_def mem_view_def)
  moreover have "run_through (map (\<lambda>(n, t). t ?r (blank_cr [])) ts) fmempty =
      ([Some (ApiError Forbidden ''x''), None], snd (run_state (mem_create (obj_of_cr (blank_cr []))) fmempty))"
    by (simp add: ts_def mem_create_def mem_view_def)
  ultimately show ?thesis
    using RunReconcileTasks_continue [of ?r "blank_cr []" "''p''" ts fmempty] by blast
qed

text \<open>
  Without continue-on-error the phase stops at the first failing task: the tasks before it
  ran and succeeded, none after it runs, and the error names and wraps the failure.
\<close>

theorem RunReconcileTasks_failfast:
  assumes "run_state (RunReconcileTasks r cr phase tasks False) w = (Some e, w')"
  shows "\<exists>pre n t post err ws. tasks = pre @ (n, t) # post \<and>
     run_through (map (\<lambda>(n, t). t r cr) pre) w = (replicate (length pre) None, ws) \<and>
     run_state (t r cr) ws = (Some err, w') \<and> e = wrapf (''failed to '' @ n) err"
  using assms unfolding RunReconcileTasks_def if_False
proof (induction tasks arbitrary: w)
  case (Cons nt ts)
  obtain n t where nt: "nt = (n, t)" by force
  obtain e1 w1 where r: "run_state (t r cr) w = (e1, w1)" by force
  show ?case
  proof (cases e1)
    case (Some err)
    then show ?thesis using Cons.prems r nt
      by (intro exI [of _ "[] :: 'a ReconcileTask list"] exI [of _ n] exI [of _ t] exI [of _ ts]) auto
  next
    case None
    then obtain pre m u post err ws where *: "ts = pre @ (m, u) # post"
      "run_through (map (\<lambda>(n, t). t r cr) pre) w1 = (replicate (length pre) None, ws)"
      "run_state (u r cr) ws = (Some err, w')" "e = wrapf (''failed to '' @ m) err"
      using Cons.IH [of w1] Cons.prems r nt by auto
    then show ?thesis using nt r None
      by (intro exI [of _ "nt # pre"] exI [of _ m] exI [of _ u] exI [of _ post]) auto
  qed
qed simp

theorem RunReconcileTasks_failfast_witness:
  "\<exists>pre n t post err ws.
     [(''a'', \<lambda>r cr. ret (Some (newerr ''x''))), (''b'', \<lambda>r cr. ret None)] = pre @ (n, t) # post \<and>
     run_through (map (\<lambda>(n, t). t (mem_reconciler (no_options ''ns'')) (blank_cr [])) pre) (fmempty :: mem) =
       (replicate (length pre) None, ws) \<and>
     run_state (t (mem_reconciler (no_options ''ns'')) (blank_cr [])) ws = (Some err, (fmempty :: mem)) \<and>
     wrapf ''failed to a'' (newerr ''x'') = wrapf (''failed to '' @ n) err"
proof -
  have "run_state (RunReconcileTasks (mem_reconciler (no_options ''ns'')) (blank_cr []) ''p''
      [(''a'', \<lambda>r cr. ret (Some (newerr ''x''))), (''b'', \<lambda>r cr. ret None)] False) (fmempty :: mem) =
      (Some (wrapf ''failed to a'' (newerr ''x'')), (fmempty :: mem))"
    by (simp add: RunReconcileTasks_def)
  from RunReconcileTasks_failfast [OF this] show ?thesis .
qed

section \<open>Phases settle\<close>

text \<open>Each task with the keys it owns and the state it establishes.\<close>

type_synonym task_spec = "okey set \<times> ((okey \<Rightarrow> kobject option) \<Rightarrow> bool)"

definition disjoint_specs :: "task_spec list \<Rightarrow> bool" where
  "disjoint_specs = sorted_wrt (\<lambda>a b. fst a \<inter> fst b = {})"

lemma ensures_run_all:
  assumes "list_all2 (\<lambda>(n, t) (K, G). ensures v K G (t r cr)) ts specs" "disjoint_specs specs"
  shows "ensures v (\<Union> (fst ` set specs)) (\<lambda>f. \<forall>(K, G) \<in> set specs. G f)
     (do { es \<leftarrow> run_all r cr ts; ret (if es \<noteq> [] then Some (f es) else None) })"
  using assms
proof (induction ts specs arbitrary: f rule: list_all2_induct)
  case Nil
  then show ?case by (simp add: ensures_def on_keys_def)
next
  case (Cons nt ts kg specs)
  obtain n t K G where eq: "nt = (n, t)" "kg = (K, G)" by force
  let ?rest = "do { es \<leftarrow> run_all r cr ts; ret (if es \<noteq> [] then Some (f es) else None) }"
  let ?all = "do { es \<leftarrow> run_all r cr ((n, t) # ts); ret (if es \<noteq> [] then Some (f es) else None) }"
  let ?L = "\<Union> (fst ` set specs)" and ?H = "\<lambda>f. \<forall>(K, G) \<in> set specs. G f"
  have head: "ensures v K G (t r cr)" using Cons.hyps(1) eq by simp
  have disj: "K \<inter> ?L = {}" "disjoint_specs specs"
    using Cons.prems eq by (auto simp: disjoint_specs_def)
  note tail = Cons.IH [OF disj(2), of f]
  have "(e = None \<longrightarrow> G (v w') \<and> ?H (v w')) \<and> (\<forall>k. k \<notin> K \<union> ?L \<longrightarrow> v w' k = v w k)"
    if run: "run_state ?all w = (e, w')" for w e w'
  proof -
    obtain e1 w1 where h: "run_state (t r cr) w = (e1, w1)" by force
    obtain e2 where rest: "run_state ?rest w1 = (e2, w')" and ok: "e = None \<longrightarrow> e1 = None \<and> e2 = None"
      using run h by (auto split: prod.splits option.splits if_splits)
    have "\<forall>k \<in> K. v w1 k = v w' k" using ensuresD(2) [OF tail rest] disj(1) by force
    then have "e = None \<longrightarrow> G (v w')"
      using ensuresD(1,3) [OF head h] ok unfolding on_keys_def by metis
    then show ?thesis using ok ensuresD(1) [OF tail rest] ensuresD(2) [OF head h]
        ensuresD(2) [OF tail rest] by auto
  qed
  moreover have "on_keys (K \<union> ?L) (\<lambda>f. G f \<and> ?H f)"
    using head tail by (intro on_keys_conj) (simp_all only: ensures_def)
  ultimately have "ensures v (K \<union> ?L) (\<lambda>f. G f \<and> ?H f) ?all" unfolding ensures_def by blast
  then show ?case using eq by simp
qed

lemma quiet_run_all:
  assumes "list_all2 (\<lambda>(n, t) (K, G). settles v K G (t r cr)) ts specs"
    "run_state (run_all r cr ts) w = (es, w')" "\<forall>(K, G) \<in> set specs. G (v w)"
  shows "v w' = v w"
  using assms
proof (induction ts specs arbitrary: w es rule: list_all2_induct)
  case (Cons nt ts kg specs)
  obtain n t K G where eq: "nt = (n, t)" "kg = (K, G)" by force
  obtain e1 w1 where h: "run_state (t r cr) w = (e1, w1)" by force
  obtain es2 where rest: "run_state (run_all r cr ts) w1 = (es2, w')"
    using Cons.prems(1) h eq by (auto split: prod.splits)
  have "v w1 = v w" using settlesD(3) [OF _ h] Cons.hyps(1) Cons.prems(2) eq by simp
  then show ?case using Cons.IH [OF rest] Cons.prems(2) by simp
qed simp

lemma settles_run_all:
  assumes "list_all2 (\<lambda>(n, t) (K, G). settles v K G (t r cr)) ts specs" "disjoint_specs specs"
  shows "settles v (\<Union> (fst ` set specs)) (\<lambda>f. \<forall>(K, G) \<in> set specs. G f)
     (do { es \<leftarrow> run_all r cr ts; ret (if es \<noteq> [] then Some (f es) else None) })"
proof (rule settles_quiet [OF ensures_run_all])
  show "list_all2 (\<lambda>(n, t) (K, G). ensures v K G (t r cr)) ts specs"
    using assms(1) by (rule list.rel_mono_strong) (auto intro: settles_ensures)
  fix w e w'
  assume "run_state (do { es \<leftarrow> run_all r cr ts; ret (if es \<noteq> [] then Some (f es) else None) }) w = (e, w')"
    "\<forall>(K, G) \<in> set specs. G (v w)"
  then show "v w' = v w" using quiet_run_all [OF assms(1)] by (auto split: prod.splits)
qed (rule assms(2))

lemma settles_fail_fast:
  assumes "list_all2 (\<lambda>(n, t) (K, G). settles v K G (t r cr)) ts specs" "disjoint_specs specs"
  shows "settles v (\<Union> (fst ` set specs)) (\<lambda>f. \<forall>(K, G) \<in> set specs. G f)
     (for_each (\<lambda>(name, task). do { e \<leftarrow> task r cr; ret (map_option (h name) e) }) ts)"
  using assms
proof (induction ts specs rule: list_all2_induct)
  case Nil
  then show ?case using settles_ret [of v None] by simp
next
  case (Cons nt ts kg specs)
  obtain n t K G where eq: "nt = (n, t)" "kg = (K, G)" by force
  have "settles v K G (do { e \<leftarrow> t r cr; ret (map_option (h n) e) })"
    using Cons.hyps(1) eq settles_wrap by simp
  moreover have "K \<inter> \<Union> (fst ` set specs) = {}" "disjoint_specs specs"
    using Cons.prems eq by (auto simp: disjoint_specs_def)
  ultimately show ?case
    using settles_and_then Cons.IH eq unfolding for_each_Cons by fastforce
qed

lemma ensures_fail_fast:
  assumes "list_all2 (\<lambda>(n, t) (K, G). ensures v K G (t r cr)) ts specs" "disjoint_specs specs"
  shows "ensures v (\<Union> (fst ` set specs)) (\<lambda>f. \<forall>(K, G) \<in> set specs. G f)
     (for_each (\<lambda>(name, task). do { e \<leftarrow> task r cr; ret (map_option (h name) e) }) ts)"
  using assms
proof (induction ts specs rule: list_all2_induct)
  case Nil
  then show ?case using settles_ensures [OF settles_ret [of v None]] by simp
next
  case (Cons nt ts kg specs)
  obtain n t K G where eq: "nt = (n, t)" "kg = (K, G)" by force
  have "ensures v K G (do { e \<leftarrow> t r cr; ret (map_option (h n) e) })"
    using Cons.hyps(1) eq ensures_wrap by simp
  moreover have "K \<inter> \<Union> (fst ` set specs) = {}" "disjoint_specs specs"
    using Cons.prems eq by (auto simp: disjoint_specs_def)
  ultimately show ?case
    using ensures_and_then Cons.IH eq unfolding for_each_Cons by fastforce
qed

lemma ensures_RunReconcileTasks:
  assumes "list_all2 (\<lambda>(n, t) (K, G). ensures v K G (t r cr)) ts specs" "disjoint_specs specs"
  shows "ensures v (\<Union> (fst ` set specs)) (\<lambda>f. \<forall>(K, G) \<in> set specs. G f)
     (RunReconcileTasks r cr phase ts continueOnError)"
  using ensures_run_all [OF assms] ensures_fail_fast [OF assms]
  by (cases continueOnError) (simp_all add: RunReconcileTasks_def)

lemma settles_RunReconcileTasks:
  assumes "list_all2 (\<lambda>(n, t) (K, G). settles v K G (t r cr)) ts specs" "disjoint_specs specs"
  shows "settles v (\<Union> (fst ` set specs)) (\<lambda>f. \<forall>(K, G) \<in> set specs. G f)
     (RunReconcileTasks r cr phase ts continueOnError)"
  using settles_run_all [OF assms] settles_fail_fast [OF assms]
  by (cases continueOnError) (simp_all add: RunReconcileTasks_def)

text \<open>The two other loops over tasks have the same effects, so they settle too.\<close>

lemma failed_names_run_all:
  "run_state (failed_names r cr ts) w =
     (let (es, w') = run_through (map (\<lambda>(n, t). t r cr) ts) w
      in ([n. ((n, t), Some e) \<leftarrow> zip ts es], w'))"
proof (induction ts arbitrary: w)
  case (Cons t ts)
  obtain n f where t: "t = (n, f)" by force
  show ?case unfolding t using Cons.IH by (auto simp: Let_def split: prod.splits option.splits)
qed simp

lemma same_failures:
  "([n. ((n, t), Some e) \<leftarrow> zip ts es] = []) = ([wrapf n e. ((n, t), Some e) \<leftarrow> zip ts es] = [])"
  by (induction ts es rule: list_induct2') (auto split: option.splits)

lemma settles_same:
  assumes "settles v K G m"
    "\<And>w. snd (run_state n w) = snd (run_state m w) \<and> (fst (run_state n w) = None \<longleftrightarrow> fst (run_state m w) = None)"
  shows "settles v K G n"
  using assms unfolding settles_def by (metis fst_conv prod.collapse snd_conv)

lemma settles_run_named:
  assumes "list_all2 (\<lambda>(n, t) (K, G). settles v K G (t r cr)) ts specs" "disjoint_specs specs"
  shows "settles v (\<Union> (fst ` set specs)) (\<lambda>f. \<forall>(K, G) \<in> set specs. G f) (run_named r cr ts)"
proof (rule settles_same [OF settles_run_all [OF assms]])
  fix w
  obtain es w' where e: "run_through (map (\<lambda>(n, t). t r cr) ts) w = (es, w')" by force
  let ?m = "do { es \<leftarrow> run_all r cr ts; ret (if es \<noteq> [] then Some (errors_join es) else None) }"
  show "snd (run_state (run_named r cr ts) w) = snd (run_state ?m w) \<and>
      (fst (run_state (run_named r cr ts) w) = None \<longleftrightarrow> fst (run_state ?m w) = None)"
    using same_failures [of ts es]
    by (simp only: run_named_def run_state_bind run_all_through failed_names_run_all e Let_def
        prod.case run_state_return) (simp only: fst_conv snd_conv, auto simp del: concat_eq_Nil_conv)
qed

lemma delete_errors_run_all:
  "delete_errors r ts = run_all r cr (map (\<lambda>(n, t). (''failed to '' @ n, \<lambda>r cr. t r)) ts)"
  by (induction ts) (auto cong: option.case_cong)

lemma settles_run_deletes:
  assumes "list_all2 (\<lambda>(n, t) (K, G). settles v K G (t r)) ts specs" "disjoint_specs specs"
  shows "settles v (\<Union> (fst ` set specs)) (\<lambda>f. \<forall>(K, G) \<in> set specs. G f) (run_deletes r ts)"
  unfolding run_deletes_def delete_errors_run_all [where cr = undefined]
  by (rule settles_run_all [OF _ assms(2)])
    (use assms(1) in \<open>auto simp: list_all2_conv_all_nth split: prod.splits\<close>)

lemma ensures_run_deletes:
  assumes "list_all2 (\<lambda>(n, t) (K, G). ensures v K G (t r)) ts specs" "disjoint_specs specs"
  shows "ensures v (\<Union> (fst ` set specs)) (\<lambda>f. \<forall>(K, G) \<in> set specs. G f) (run_deletes r ts)"
  unfolding run_deletes_def delete_errors_run_all [where cr = undefined]
  by (rule ensures_run_all [OF _ assms(2)])
    (use assms(1) in \<open>auto simp: list_all2_conv_all_nth split: prod.splits\<close>)

section \<open>Running named tasks\<close>

lemma run_named_Cons:
  assumes "run_state (run_named r cr ((n, t) # ts)) w = (None, w')"
  shows "\<exists>w1. run_state (t r cr) w = (None, w1) \<and> run_state (run_named r cr ts) w1 = (None, w')"
proof -
  obtain e w1 where t: "run_state (t r cr) w = (e, w1)" by force
  obtain ns w2 where ts: "run_state (failed_names r cr ts) w1 = (ns, w2)" by force
  show ?thesis using assms t ts by (cases e) (auto simp: run_named_def split: if_splits)
qed

lemma run_named_keeps:
  assumes "\<And>n t w e w'. (n, t) \<in> set ts \<Longrightarrow> P w \<Longrightarrow> run_state (t r cr) w = (e, w') \<Longrightarrow> P w'"
    "P w" "run_state (run_named r cr ts) w = (e, w')"
  shows "P w'"
proof -
  have "P (snd (run_state (failed_names r cr ts) w))" using assms(1,2)
  proof (induction ts arbitrary: w)
    case (Cons nt ts)
    obtain n t where nt: "nt = (n, t)" by force
    obtain e1 w1 where t: "run_state (t r cr) w = (e1, w1)" by force
    have "P w1" using Cons.prems(1) [of n t w e1 w1] Cons.prems(2) t nt by simp
    moreover have "P w'" if "(n, t) \<in> set ts" "P w" "run_state (t r cr) w = (e, w')" for n t w e w'
      using Cons.prems(1) [of n t w e w'] that by simp
    ultimately have "P (snd (run_state (failed_names r cr ts) w1))" using Cons.IH by blast
    then show ?case using t nt by (auto split: prod.splits)
  qed simp
  then show ?thesis using assms(3) by (auto simp: run_named_def split: prod.splits)
qed

lemma run_named_succeeds:
  "(\<And>n t w. (n, t) \<in> set ts \<Longrightarrow> fst (run_state (t r cr) w) = None) \<Longrightarrow> fst (run_state (run_named r cr ts) w) = None"
proof -
  assume all: "\<And>n t w. (n, t) \<in> set ts \<Longrightarrow> fst (run_state (t r cr) w) = None"
  have "fst (run_state (failed_names r cr ts) w) = []"
    using all
  proof (induction ts arbitrary: w)
    case (Cons nt ts)
    obtain n t where nt: "nt = (n, t)" by force
    obtain w1 where "run_state (t r cr) w = (None, w1)" using Cons.prems [of n t w] nt by (metis list.set_intros(1) prod.collapse)
    moreover have "fst (run_state (failed_names r cr ts) w1) = []"
      by (rule Cons.IH) (use Cons.prems in auto)
    ultimately show ?case using nt by (auto split: prod.splits)
  qed simp
  then show "fst (run_state (run_named r cr ts) w) = None" by (auto simp: run_named_def split: prod.splits)
qed

end
