(* ===== verification/Console_Plugin.thy ===== *)
theory Console_Plugin
  imports Reconcile_Tasks
begin

text \<open>
  The reconcilers of single objects in
  \<open>internal/controller/utils/console_plugin_reconciler.go\<close> and \<open>service_monitor_reconciler.go\<close>, the
  activation and removal of a console plugin, and the generators of console-plugin objects in
  \<open>utils.go\<close>. Each reconciler that converges is an instance of \<open>object_reconciler\<close>; the one for
  network policies does not, and a theorem shows why.
\<close>

section \<open>Reconcilers of single objects\<close>

text \<open>The objects are read from the operator's namespace under the desired name.\<close>

abbreviation own_key :: "kind \<Rightarrow> 'w reconciler \<Rightarrow> kobject \<Rightarrow> okey" where
  "own_key K r d \<equiv> (K, GetNamespace r, m_name (k_meta d))"

definition ReconcileConsolePluginConfigMap ::
  "'w reconciler \<Rightarrow> kobject \<Rightarrow> ('w, goerr option) io" where
  "ReconcileConsolePluginConfigMap r desired =
     create_or_update r ErrGetConsolePluginConfigMap ErrCreateConsolePluginConfigMap
       ErrUpdateConsolePluginConfigMap (own_key ConfigMap r desired) desired
       (\<lambda>found. cm_data (k_payload found) = cm_data (k_payload desired))
       (\<lambda>found. found\<lparr>k_payload := PConfigMap (cm_data (k_payload desired))
          (cm_binary (k_payload found))\<rparr>)"

definition ReconcileConsolePluginService ::
  "'w reconciler \<Rightarrow> kobject \<Rightarrow> ('w, goerr option) io" where
  "ReconcileConsolePluginService r desired =
     create_or_update r ErrGetConsolePluginService ErrCreateConsolePluginService
       ErrUpdateConsolePluginService (own_key Service r desired) desired
       (\<lambda>found. ServiceEqual found desired \<and> m_annotations (k_meta found) \<noteq> None \<and>
          zlookup (nil_map (m_annotations (k_meta found))) ServingCertSecretAnnotationKey =
          zlookup (nil_map (m_annotations (k_meta desired))) ServingCertSecretAnnotationKey)
       (\<lambda>found. found\<lparr>k_payload := k_payload desired,
          k_meta := (k_meta found)\<lparr>m_annotations := m_annotations (k_meta desired),
            m_labels := m_labels (k_meta desired)\<rparr>\<rparr>)"

text \<open>
  A nil dereference in \<open>DeploymentSpecEqual\<close> panics; controller-runtime turns a panic of a
  reconcile into an error.
\<close>

definition nil_panic :: goerr where
  "nil_panic = newerr ''panic: invalid memory address or nil pointer dereference''"

fun dep_spec :: "payload \<Rightarrow> deployment_spec option" where
  "dep_spec (PDeployment d) = Some (dp_spec d)"
| "dep_spec _ = None"

definition set_dep_spec :: "deployment_spec \<Rightarrow> kobject \<Rightarrow> kobject" where
  "set_dep_spec s ob = (case k_payload ob of
      PDeployment d \<Rightarrow> ob\<lparr>k_payload := PDeployment (d\<lparr>dp_spec := s\<rparr>)\<rparr> | _ \<Rightarrow> ob)"

definition dep_of :: "kobject \<Rightarrow> deployment_spec" where
  "dep_of ob = (case dep_spec (k_payload ob) of Some s \<Rightarrow> s | None \<Rightarrow> zero_deployment)"

text \<open>
  The tail of every Deployment reconciler, after the found one is read: default the desired
  spec, compare, replace and write.
\<close>

definition update_deployment ::
  "deployment_spec \<Rightarrow> bool \<Rightarrow> (kobject \<Rightarrow> ('w, goerr option) io) \<Rightarrow> kobject \<Rightarrow> ('w, goerr option) io" where
  "update_deployment desired compareInit write found =
     (let d = SetDefaults_Deployment desired in
      case DeploymentSpecEqual (dep_of found) d compareInit of
        None \<Rightarrow> ret (Some nil_panic)
      | Some True \<Rightarrow> ret None
      | Some False \<Rightarrow> write (set_dep_spec d found))"

definition ReconcileConsolePluginDeployment ::
  "'w reconciler \<Rightarrow> kobject \<Rightarrow> (kobject \<Rightarrow> ('w, goerr option) io) \<Rightarrow> ('w, goerr option) io" where
  "ReconcileConsolePluginDeployment r desired restart =
     fetch r (own_key Deployment r desired)
       (create_as r ErrCreateConsolePluginDeployment desired)
       (\<lambda>e. ret (Some (wrapf ErrGetConsolePluginDeployment e)))
       (update_deployment (dep_of desired) True (\<lambda>ob. do {
          e \<leftarrow> restart ob;
          ret (map_option (wrapf ErrUpdateConsolePluginDeployment) e) }))"

definition ReconcileConsolePluginCR :: "'w reconciler \<Rightarrow> kobject \<Rightarrow> ('w, goerr option) io" where
  "ReconcileConsolePluginCR r desired =
     create_or_update r ErrGetConsolePlugin ErrCreateConsolePlugin ErrUpdateConsolePlugin
       (ConsolePlugin, [], m_name (k_meta desired)) desired
       (\<lambda>found. k_payload found = k_payload desired)
       (\<lambda>found. found\<lparr>k_payload := k_payload desired\<rparr>)"

definition ReconcileConsolePluginNetworkPolicy ::
  "'w reconciler \<Rightarrow> kobject \<Rightarrow> ('w, goerr option) io" where
  "ReconcileConsolePluginNetworkPolicy r desired =
     create_or_update r ErrGetConsolePluginNetworkPolicy ErrCreateConsolePluginNetworkPolicy
       ErrUpdateConsolePluginNetworkPolicy (own_key NetworkPolicy r desired) desired
       (NetworkPolicyEqual desired) (\<lambda>found. found\<lparr>k_payload := k_payload desired\<rparr>)"

definition ReconcileConsolePluginServiceAccount ::
  "'w reconciler \<Rightarrow> kobject \<Rightarrow> ('w, goerr option) io" where
  "ReconcileConsolePluginServiceAccount r desired =
     fetch r (own_key ServiceAccount r desired)
       (create_as r ErrCreateConsolePluginServiceAccount desired)
       (\<lambda>e. ret (Some (wrapf ErrGetConsolePluginServiceAccount e))) (\<lambda>found. ret None)"

definition ReconcileServiceMonitor :: "'w reconciler \<Rightarrow> kobject \<Rightarrow> ('w, goerr option) io" where
  "ReconcileServiceMonitor r desired =
     (if \<not> IsPrometheusAvailable r then ret None
      else create_or_update r ErrGetServiceMonitor ErrCreateServiceMonitor ErrUpdateServiceMonitor
        (own_key ServiceMonitor r desired) desired
        (\<lambda>found. ServiceMonitorEqual found desired)
        (\<lambda>found. found\<lparr>k_payload := k_payload desired,
           k_meta := (k_meta found)\<lparr>m_labels := m_labels (k_meta desired)\<rparr>\<rparr>))"

section \<open>Restarts, activation and removal\<close>

text \<open>
  \<open>given\<close> is the optional variadic Deployment. The restart stamps the pod template and writes the
  Deployment.
\<close>

definition stamp_template :: "string \<Rightarrow> kobject \<Rightarrow> kobject" where
  "stamp_template now ob = set_dep_spec ((dep_of ob)\<lparr>d_tmpl_annotations :=
     Some (fmupd ForceReloadAnnotationKey now (nil_map (d_tmpl_annotations (dep_of ob))))\<rparr>) ob"

definition restart_deployment :: "'w reconciler \<Rightarrow> kobject \<Rightarrow> ('w, goerr option) io" where
  "restart_deployment r dep = do {
     now \<leftarrow> cl_now r;
     update_as r (''failed to update deployment '' @ m_name (k_meta dep)) (stamp_template now dep) }"

definition RestartConsolePluginDeployment ::
  "'w reconciler \<Rightarrow> string \<Rightarrow> kobject option \<Rightarrow> ('w, goerr option) io" where
  "RestartConsolePluginDeployment r name given = (case given of
      Some dep \<Rightarrow> restart_deployment r dep
    | None \<Rightarrow> try_or (cl_get r (Deployment, GetNamespace r, name))
        (wrapf (''failed to get deployment '' @ name)) (restart_deployment r))"

definition console_key :: okey where
  "console_key = (Console, [], ConsoleCRName)"

definition activate_once :: "'w reconciler \<Rightarrow> string \<Rightarrow> ('w, goerr option) io" where
  "activate_once r pluginName = try_or (cl_get r console_key) (wrapf ErrGetConsole) (\<lambda>con.
     case console_plugins (k_payload con) of
       None \<Rightarrow> cl_update r (con\<lparr>k_payload := set_console_plugins (Some [pluginName]) (k_payload con)\<rparr>)
     | Some ps \<Rightarrow>
         (if pluginName \<notin> set ps
          then cl_update r (con\<lparr>k_payload :=
                 set_console_plugins (Some (ps @ [pluginName])) (k_payload con)\<rparr>)
          else ret None))"

definition ActivateConsolePlugin :: "'w reconciler \<Rightarrow> string \<Rightarrow> ('w, goerr option) io" where
  "ActivateConsolePlugin r pluginName = do {
     e \<leftarrow> RetryOnConflict r (activate_once r pluginName);
     ret (map_option (wrapf ErrUpdateConsole) e) }"

definition deactivate_once :: "'w reconciler \<Rightarrow> string \<Rightarrow> ('w, goerr option) io" where
  "deactivate_once r pluginName =
     fetch r console_key (ret None) (\<lambda>e. ret (Some (wrapf ErrGetConsole e))) (\<lambda>con.
       case console_plugins (k_payload con) of
         None \<Rightarrow> ret None
       | Some ps \<Rightarrow>
           (if pluginName \<in> set ps
            then cl_update r (con\<lparr>k_payload :=
                   set_console_plugins (Some (filter (\<lambda>n. n \<noteq> pluginName) ps)) (k_payload con)\<rparr>)
            else ret None))"

definition DeactivateConsolePlugin :: "'w reconciler \<Rightarrow> string \<Rightarrow> ('w, goerr option) io" where
  "DeactivateConsolePlugin r pluginName = do {
     e \<leftarrow> RetryOnConflict r (deactivate_once r pluginName);
     ret (map_option (wrapf ErrUpdateConsole) e) }"

definition DeleteConsolePluginCR :: "'w reconciler \<Rightarrow> string \<Rightarrow> ('w, goerr option) io" where
  "DeleteConsolePluginCR r pluginName =
     delete_object r ErrGetConsolePlugin ErrDeleteConsolePlugin (ConsolePlugin, [], pluginName)"

definition RemoveConsolePlugin :: "'w reconciler \<Rightarrow> string \<Rightarrow> ('w, goerr option) io" where
  "RemoveConsolePlugin r pluginName = RunDeleteTasks r ''RemoveConsolePlugin''
     [(''deactivate Console Plugin'', \<lambda>r. DeactivateConsolePlugin r pluginName),
      (''delete Console Plugin'', \<lambda>r. DeleteConsolePluginCR r pluginName)]"

text \<open>\<open>ResourceCreationTimeout\<close> is 60 seconds.\<close>

definition WaitForConsolePluginTLSSecret :: "'w reconciler \<Rightarrow> string \<Rightarrow> ('w, goerr option) io" where
  "WaitForConsolePluginTLSSecret r secretName = do {
     (e, lastErr, _) \<leftarrow> PollUntilTimeout r 1 60 (\<lambda>vars. do {
        x \<leftarrow> GetSecretContent r secretName (GetNamespace r) [''tls.key'', ''tls.crt''];
        ret (case x of
           Inl err \<Rightarrow> (Inr False, (Some (wrapf (''secret: '' @ secretName @
              '' does not have expected tls.key or tls.crt. error'') err), None))
         | Inr m \<Rightarrow> (Inr True, vars)) });
     ret (case e of None \<Rightarrow> None
        | Some err \<Rightarrow> Some (Errorf (''failed to get TLS key and cert - wait err '' @ err_msg err @
            ''; last error: '' @ (case lastErr of None \<Rightarrow> [] | Some l \<Rightarrow> err_msg l))
            (err # (case lastErr of None \<Rightarrow> [] | Some l \<Rightarrow> [l])))) }"

section \<open>Generators\<close>

definition GenerateConsolePluginNginxConfigMap ::
  "'w reconciler \<Rightarrow> OLSConfig \<Rightarrow> string \<Rightarrow> gmap \<Rightarrow> string \<Rightarrow> kobject" where
  "GenerateConsolePluginNginxConfigMap r cr name labels nginxConfig =
     set_controller cr \<lparr>k_meta = new_meta (GetNamespace r) name labels,
       k_payload = PConfigMap (fmap_of_list [(''nginx.conf'', nginxConfig)]) fmempty\<rparr>"

definition only_labels :: "(string \<times> string) list \<Rightarrow> label_selector" where
  "only_labels l = \<lparr>ls_labels = fmap_of_list l, ls_exprs = []\<rparr>"

definition GenerateConsolePluginNetworkPolicy ::
  "'w reconciler \<Rightarrow> OLSConfig \<Rightarrow> string \<Rightarrow> gmap \<Rightarrow> int \<Rightarrow> kobject" where
  "GenerateConsolePluginNetworkPolicy r cr name labels port =
     set_controller cr \<lparr>k_meta = new_meta (GetNamespace r) name labels,
       k_payload = PNetworkPolicy \<lparr>np_pods = \<lparr>ls_labels = labels, ls_exprs = []\<rparr>,
         np_ingress = [\<lparr>ru_from = [\<lparr>
              pe_pods = Some (only_labels [(''app'', ''console'')]),
              pe_namespaces = Some (only_labels [(''kubernetes.io/metadata.name'', ''openshift-console'')])\<rparr>],
            ru_ports = [(''TCP'', port)]\<rparr>],
         np_egress = [], np_types = [''Ingress'']\<rparr>\<rparr>"

text \<open>\<open>10m\<close> of CPU and \<open>50Mi\<close> of memory, in milli-units.\<close>

definition DefaultConsolePluginResourceRequirements :: resources where
  "DefaultConsolePluginResourceRequirements = \<lparr>rs_limits = fmempty,
     rs_requests = fmap_of_list [(''cpu'', 10), (''memory'', 50 * 1024 * 1024 * 1000)], rs_claims = []\<rparr>"

record ConsolePluginDeploymentOptions =
  co_Name :: string
  co_Labels :: gmap
  co_SelectorLabels :: gmap
  co_ServiceAccountName :: string
  co_ContainerName :: string
  co_Image :: string
  co_Port :: int
  co_PortName :: string
  co_CertVolumeName :: string
  co_CertSecretName :: string
  co_NginxVolumeName :: string
  co_NginxConfigMapName :: string
  co_NginxTempVolumeName :: string
  co_Resources :: "resources option"
  co_Env :: "env_var list"
  co_DeploymentConfig :: Config

definition secret_volume :: "string \<Rightarrow> string \<Rightarrow> int \<Rightarrow> volume" where
  "secret_volume name secret mode = \<lparr>v_name = name,
     v_secret = Some \<lparr>vs_name = secret, vs_mode = Some mode, vs_items = []\<rparr>,
     v_configmap = None, v_emptydir = None, v_pvc = None, v_sizelimit = None\<rparr>"

definition configmap_volume :: "string \<Rightarrow> string \<Rightarrow> int \<Rightarrow> volume" where
  "configmap_volume name cm mode = \<lparr>v_name = name, v_secret = None,
     v_configmap = Some \<lparr>vs_name = cm, vs_mode = Some mode, vs_items = []\<rparr>,
     v_emptydir = None, v_pvc = None, v_sizelimit = None\<rparr>"

definition emptydir_volume :: "string \<Rightarrow> volume" where
  "emptydir_volume name = \<lparr>v_name = name, v_secret = None, v_configmap = None,
     v_emptydir = Some [], v_pvc = None, v_sizelimit = None\<rparr>"

definition mount :: "string \<Rightarrow> string \<Rightarrow> bool \<Rightarrow> volume_mount" where
  "mount name path ro = \<lparr>vm_name = name, vm_path = path, vm_subpath = [], vm_readonly = ro\<rparr>"

definition restricted_pod :: sec_ctx where
  "restricted_pod = \<lparr>sc_escalation = None, sc_readonly_fs = None, sc_non_root = Some True,
     sc_seccomp = Some ''RuntimeDefault'', sc_drop = []\<rparr>"

definition console_container :: "ConsolePluginDeploymentOptions \<Rightarrow> container" where
  "console_container o1 = \<lparr>c_name = co_ContainerName o1, c_image = co_Image o1,
     c_ports = [\<lparr>cp_name = co_PortName o1, cp_port = co_Port o1, cp_protocol = ''TCP''\<rparr>],
     c_env = co_Env o1, c_command = [], c_args = [],
     c_mounts = [mount (co_CertVolumeName o1) ''/var/cert'' True,
       (mount (co_NginxVolumeName o1) ''/etc/nginx/nginx.conf'' True)\<lparr>vm_subpath := ''nginx.conf''\<rparr>,
       mount (co_NginxTempVolumeName o1) ''/tmp/nginx'' False],
     c_resources = (case co_Resources o1 of Some x \<Rightarrow> x | None \<Rightarrow> DefaultConsolePluginResourceRequirements),
     c_secctx = Some RestrictedContainerSecurityContext, c_pull = ''Always'',
     c_liveness = None, c_readiness = None, c_startup = None, c_lifecycle = None\<rparr>"

definition deployment_object ::
  "'w reconciler \<Rightarrow> OLSConfig \<Rightarrow> string \<Rightarrow> gmap \<Rightarrow> deployment_spec \<Rightarrow> kobject" where
  "deployment_object r cr name labels spec =
     set_controller cr \<lparr>k_meta = new_meta (GetNamespace r) name labels,
       k_payload = PDeployment \<lparr>dp_spec = spec, dp_conditions = []\<rparr>\<rparr>"

definition GenerateConsolePluginDeployment ::
  "'w reconciler \<Rightarrow> OLSConfig \<Rightarrow> ConsolePluginDeploymentOptions \<Rightarrow> kobject" where
  "GenerateConsolePluginDeployment r cr opts =
     deployment_object r cr (co_Name opts) (co_Labels opts)
       (ApplyPodDeploymentConfig \<lparr>d_replicas = Some 1, d_selector = Some (co_SelectorLabels opts),
          d_tmpl_labels = co_Labels opts, d_tmpl_annotations = None,
          d_pod = \<lparr>po_containers = [console_container opts], po_init = [],
            po_volumes = [secret_volume (co_CertVolumeName opts) (co_CertSecretName opts) VolumeDefaultMode,
              configmap_volume (co_NginxVolumeName opts) (co_NginxConfigMapName opts) VolumeDefaultMode,
              emptydir_volume (co_NginxTempVolumeName opts)],
            po_service_account = co_ServiceAccountName opts, po_node_selector = None,
            po_tolerations = None, po_grace = None, po_secctx = Some restricted_pod,
            po_automount = Some False, po_pull_secrets = []\<rparr>,
          d_strategy = \<lparr>st_type = [], st_rolling = None\<rparr>, d_history = None, d_deadline = None\<rparr>
        (co_DeploymentConfig opts) False)"

section \<open>Pieces the operands share\<close>

definition plain_env :: "string \<Rightarrow> string \<Rightarrow> env_var" where
  "plain_env n x = \<lparr>ev_name = n, ev_value = x, ev_from = None\<rparr>"

text \<open>Objects that are created when missing and never compared.\<close>

definition create_missing ::
  "'w reconciler \<Rightarrow> string \<Rightarrow> string \<Rightarrow> okey \<Rightarrow> kobject \<Rightarrow> ('w, goerr option) io" where
  "create_missing r errGet errCreate k desired =
     fetch r k (create_as r errCreate desired) (\<lambda>e. ret (Some (wrapf errGet e))) (\<lambda>found. ret None)"

text \<open>A policy whose labels and spec are both compared and both written.\<close>

definition reconcile_labelled :: "'w reconciler \<Rightarrow> string \<Rightarrow> string \<Rightarrow> string \<Rightarrow> okey \<Rightarrow> kobject \<Rightarrow>
    ('w, goerr option) io" where
  "reconcile_labelled r errGet errCreate errUpdate k desired =
     create_or_update r errGet errCreate errUpdate k desired (NetworkPolicyEqual desired)
       (\<lambda>found. found\<lparr>k_payload := k_payload desired,
          k_meta := (k_meta found)\<lparr>m_labels := m_labels (k_meta desired)\<rparr>\<rparr>)"

text \<open>
  A rolling restart of a Deployment by name, or of the one given; every operand has the same.
\<close>

definition restart_named ::
  "'w reconciler \<Rightarrow> string \<Rightarrow> kobject option \<Rightarrow> ('w, goerr option) io" where
  "restart_named r name given = (case given of
      Some dep \<Rightarrow> restart_deployment r dep
    | None \<Rightarrow> try_or (cl_get r (Deployment, GetNamespace r, name))
        (wrapf (''failed to get deployment '' @ name)) (restart_deployment r))"

section \<open>The reconcilers meet the contract\<close>

text \<open>Inputs: an object of the right kind in the operator's namespace.\<close>

definition own :: "kind \<Rightarrow> 'w reconciler \<Rightarrow> kobject \<Rightarrow> bool" where
  "own K r d = (key_of d = own_key K r d)"

lemma ownD: "own K r d \<Longrightarrow> kind_of (k_payload d) = K \<and> m_namespace (k_meta d) = GetNamespace r"
  by (simp add: own_def key_of_def)

lemma key_of_update [simp]:
  "key_of (ob\<lparr>k_meta := (k_meta ob)\<lparr>m_labels := l\<rparr>\<rparr>) = key_of ob"
  "key_of (ob\<lparr>k_meta := (k_meta ob)\<lparr>m_annotations := a, m_labels := l\<rparr>\<rparr>) = key_of ob"
  by (simp_all add: key_of_def)

lemma key_of_payload: "kind_of p = fst (key_of ob) \<Longrightarrow> key_of (ob\<lparr>k_payload := p\<rparr>) = key_of ob"
  by (simp add: key_of_def)

lemma stored_as_payload: "stored_as ob s \<Longrightarrow> payload_stored (k_payload ob) (k_payload s)"
  and stored_as_labels: "stored_as ob s \<Longrightarrow> m_labels (k_meta s) = m_labels (k_meta ob)"
  and stored_as_annotations: "stored_as ob s \<Longrightarrow>
     nil_map (m_annotations (k_meta s)) = nil_map (m_annotations (k_meta ob))"
  by (simp_all add: stored_as_def)

lemma stored_plain:
  "stored_as ob s \<Longrightarrow> kind_of (k_payload ob) \<notin> {Deployment, Service, OLSConfigKind'} \<Longrightarrow>
     k_payload s = k_payload ob"
  by (simp add: stored_as_def payload_stored_other)

interpretation plugin_cm: object_reconciler ReconcileConsolePluginConfigMap key_of
  "\<lambda>d s. cm_data (k_payload s) = cm_data (k_payload d)" "own ConfigMap"
proof
  fix r :: "'w reconciler" and v d assume api: "api_ok r v" and d: "own ConfigMap r d"
  then have k: "key_of d = own_key ConfigMap r d" by (simp add: own_def)
  show "settles v {key_of d} (\<lambda>f. \<exists>s. f (key_of d) = Some s \<and>
      cm_data (k_payload s) = cm_data (k_payload d)) (ReconcileConsolePluginConfigMap r d)"
    unfolding ReconcileConsolePluginConfigMap_def k [symmetric]
    using ownD [OF d]
    by (intro settles_create_or_update [OF api])
      (auto simp: keeps_life_def key_of_def dest!: stored_plain)
qed

interpretation plugin_cr: object_reconciler ReconcileConsolePluginCR key_of
  "\<lambda>d s. k_payload s = k_payload d" "\<lambda>r d. key_of d = (ConsolePlugin, [], m_name (k_meta d))"
proof
  fix r :: "'w reconciler" and v d
  assume api: "api_ok r v" and k: "key_of d = (ConsolePlugin, [], m_name (k_meta d))"
  have kind: "kind_of (k_payload d) = ConsolePlugin" using k by (simp add: key_of_def)
  show "settles v {key_of d} (\<lambda>f. \<exists>s. f (key_of d) = Some s \<and> k_payload s = k_payload d)
      (ReconcileConsolePluginCR r d)"
    unfolding ReconcileConsolePluginCR_def k [symmetric]
    using kind
    by (intro settles_create_or_update [OF api])
      (auto simp: keeps_life_def key_of_def dest!: stored_plain)
qed

interpretation plugin_sa: object_reconciler ReconcileConsolePluginServiceAccount key_of
  "\<lambda>d s. True" "own ServiceAccount"
proof
  fix r :: "'w reconciler" and v d assume api: "api_ok r v" and d: "own ServiceAccount r d"
  then have k: "key_of d = own_key ServiceAccount r d" by (simp add: own_def)
  show "settles v {key_of d} (\<lambda>f. \<exists>s. f (key_of d) = Some s \<and> True)
      (ReconcileConsolePluginServiceAccount r d)"
    unfolding ReconcileConsolePluginServiceAccount_def k [symmetric]
    by (rule settles_fetch [OF api]) auto
qed

interpretation sm: object_reconciler ReconcileServiceMonitor key_of
  "\<lambda>d s. ServiceMonitorEqual s d" "\<lambda>r d. own ServiceMonitor r d \<and> IsPrometheusAvailable r"
proof
  fix r :: "'w reconciler" and v d
  assume api: "api_ok r v" and d: "own ServiceMonitor r d \<and> IsPrometheusAvailable r"
  then have k: "key_of d = own_key ServiceMonitor r d" by (simp add: own_def)
  show "settles v {key_of d} (\<lambda>f. \<exists>s. f (key_of d) = Some s \<and> ServiceMonitorEqual s d)
      (ReconcileServiceMonitor r d)"
    unfolding ReconcileServiceMonitor_def k [symmetric] using d ownD [of ServiceMonitor r d]
    by (auto intro!: settles_create_or_update [OF api]
        simp: object_equal_defs keeps_life_def key_of_def dest: stored_plain stored_as_labels)
qed

subsection \<open>Services\<close>

text \<open>A Service that names protocols and target ports and carries the serving-cert annotation.\<close>

definition complete_service :: "kobject \<Rightarrow> bool" where
  "complete_service d = (\<exists>sp. k_payload d = PService sp \<and>
     (\<forall>p \<in> set (ss_ports sp). sp_protocol p \<noteq> [] \<and> sp_target p \<noteq> []) \<and>
     fmlookup (nil_map (m_annotations (k_meta d))) ServingCertSecretAnnotationKey \<noteq> None)"

definition service_current :: "kobject \<Rightarrow> kobject \<Rightarrow> bool" where
  "service_current d s = (ServiceEqual s d \<and> m_annotations (k_meta s) \<noteq> None \<and>
     zlookup (nil_map (m_annotations (k_meta s))) ServingCertSecretAnnotationKey =
     zlookup (nil_map (m_annotations (k_meta d))) ServingCertSecretAnnotationKey)"

lemma service_ports_stored:
  "list_all2 service_port_stored ps qs \<Longrightarrow>
     \<forall>p \<in> set ps. sp_protocol p \<noteq> [] \<and> sp_target p \<noteq> [] \<Longrightarrow> qs = ps"
  by (induction rule: list_all2_induct) (auto simp: service_port_stored_def kept_def)

lemma service_stored_current:
  assumes "stored_as ob s" "complete_service d" "k_payload ob = k_payload d"
    "m_labels (k_meta ob) = m_labels (k_meta d)" "m_annotations (k_meta ob) = m_annotations (k_meta d)"
  shows "service_current d s"
proof -
  obtain sp where sp: "k_payload d = PService sp"
    "\<forall>p \<in> set (ss_ports sp). sp_protocol p \<noteq> [] \<and> sp_target p \<noteq> []"
    and ann: "fmlookup (nil_map (m_annotations (k_meta d))) ServingCertSecretAnnotationKey \<noteq> None"
    using assms(2) by (auto simp: complete_service_def)
  obtain sq where sq: "k_payload s = PService sq" "service_stored sp sq"
    using stored_as_payload [OF assms(1)] assms(3) sp(1) by auto
  then have "ss_ports sq = ss_ports sp" "ss_selector sq = ss_selector sp"
    using service_ports_stored sp(2) by (auto simp: service_stored_def)
  moreover have "nil_map (m_annotations (k_meta s)) = nil_map (m_annotations (k_meta d))"
    using stored_as_annotations [OF assms(1)] assms(5) by simp
  moreover from this ann have "m_annotations (k_meta s) \<noteq> None"
    by (cases "m_annotations (k_meta s)") (auto simp: nil_map_def [of None])
  ultimately show ?thesis
    using sp(1) sq(1) stored_as_labels [OF assms(1)] assms(4)
    by (simp add: service_current_def ServiceEqual_def ports_equal_def list_all_iff)
qed

interpretation plugin_svc: object_reconciler ReconcileConsolePluginService key_of
  service_current "\<lambda>r d. own Service r d \<and> complete_service d"
proof
  fix r :: "'w reconciler" and v d
  assume api: "api_ok r v" and d: "own Service r d \<and> complete_service d"
  then have k: "key_of d = own_key Service r d" by (simp add: own_def)
  show "settles v {key_of d} (\<lambda>f. \<exists>s. f (key_of d) = Some s \<and> service_current d s)
      (ReconcileConsolePluginService r d)"
    unfolding ReconcileConsolePluginService_def k [symmetric] service_current_def [symmetric]
    using d ownD [of Service r d]
    by (intro settles_create_or_update [OF api])
      (auto simp: keeps_life_def key_of_def intro: service_stored_current)
qed

subsection \<open>Deployments\<close>

definition deployment_current :: "bool \<Rightarrow> kobject \<Rightarrow> kobject \<Rightarrow> bool" where
  "deployment_current ci d s =
     (DeploymentSpecEqual (dep_of s) (SetDefaults_Deployment (dep_of d)) ci = Some True)"

text \<open>
  A write of a Deployment that may also set annotations: it stores, under the key of the
  object, an object whose spec is the one given but for the template annotations.
\<close>

definition writes_deployment ::
  "('w \<Rightarrow> okey \<Rightarrow> kobject option) \<Rightarrow> (kobject \<Rightarrow> ('w, goerr option) io) \<Rightarrow> bool" where
  "writes_deployment v write = (\<forall>ob w e w'.
     (m_deleting (k_meta ob) \<longrightarrow> m_finalizers (k_meta ob) \<noteq> []) \<longrightarrow> fst (key_of ob) = Deployment \<longrightarrow>
     run_state (write ob) w = (e, w') \<longrightarrow>
     (e = None \<longrightarrow> (\<exists>s ob' a. v w' (key_of ob) = Some s \<and> stored_as ob' s \<and>
        fst (key_of ob') = Deployment \<and> dep_of ob' = (dep_of ob)\<lparr>d_tmpl_annotations := a\<rparr>)) \<and>
     (\<forall>k. k \<noteq> key_of ob \<longrightarrow> v w' k = v w k))"

lemma deployment_payload: "fst (key_of ob) = Deployment \<Longrightarrow> \<exists>q. k_payload ob = PDeployment q"
  by (cases "k_payload ob") (simp_all add: key_of_def)

lemma set_dep_spec_simps [simp]:
  "k_meta (set_dep_spec x ob) = k_meta ob" "key_of (set_dep_spec x ob) = key_of ob"
  by (auto simp: set_dep_spec_def key_of_def split: payload.splits)

lemma dep_of_set [simp]: "fst (key_of ob) = Deployment \<Longrightarrow> dep_of (set_dep_spec x ob) = x"
  using deployment_payload [of ob] by (auto simp: dep_of_def set_dep_spec_def)

lemma stored_dep_of:
  assumes "stored_as ob s" "fst (key_of ob) = Deployment"
  shows "deployment_stored (dep_of ob) (dep_of s)"
  using stored_as_payload [OF assms(1)] deployment_payload [OF assms(2)] by (auto simp: dep_of_def)

lemma settles_update_deployment:
  assumes api: "api_ok r v" and key: "key_of desired = k" "fst k = Deployment"
    and complete: "complete_deployment (dep_of desired)" and w: "writes_deployment v write"
  shows "settles v {k} (\<lambda>f. \<exists>s. f k = Some s \<and> deployment_current ci desired s)
     (fetch r k (create_as r ec desired) (\<lambda>e. ret (Some (wrapf eg e)))
        (update_deployment (dep_of desired) ci write))"
proof (rule settles_fetch [OF api key(1)])
  fix s assume "stored_as desired s"
  then show "deployment_current ci desired s"
    using stored_dep_of key complete stored_spec_equal by (simp add: deployment_current_def)
next
  fix ob w e w'
  let ?d = "SetDefaults_Deployment (dep_of desired)"
  assume k: "key_of ob = k" and life: "m_deleting (k_meta ob) \<Longrightarrow> m_finalizers (k_meta ob) \<noteq> []"
    and run: "run_state (update_deployment (dep_of desired) ci write ob) w = (e, w')"
  consider (panic) "DeploymentSpecEqual (dep_of ob) ?d ci = None"
    | (same) "DeploymentSpecEqual (dep_of ob) ?d ci = Some True"
    | (differ) "DeploymentSpecEqual (dep_of ob) ?d ci = Some False"
    by (cases "DeploymentSpecEqual (dep_of ob) ?d ci") auto
  then show "(v w k = Some ob \<longrightarrow> e = None \<longrightarrow> (\<exists>s. v w' k = Some s \<and> deployment_current ci desired s)) \<and>
      (\<forall>k'. k' \<noteq> k \<longrightarrow> v w' k' = v w k') \<and> (deployment_current ci desired ob \<longrightarrow> v w' = v w)"
  proof cases
    case differ
    then have u: "run_state (write (set_dep_spec ?d ob)) w = (e, w')"
      using run by (simp add: update_deployment_def Let_def)
    have wr: "(e = None \<longrightarrow> (\<exists>s ob' a. v w' k = Some s \<and> stored_as ob' s \<and>
          fst (key_of ob') = Deployment \<and> dep_of ob' = ?d\<lparr>d_tmpl_annotations := a\<rparr>)) \<and>
        (\<forall>k'. k' \<noteq> k \<longrightarrow> v w' k' = v w k')"
      using w [unfolded writes_deployment_def, rule_format, of "set_dep_spec ?d ob" w e w'] life u k key(2)
      by auto
    moreover have "deployment_current ci desired s" if "stored_as ob' s" "fst (key_of ob') = Deployment"
      "dep_of ob' = ?d\<lparr>d_tmpl_annotations := a\<rparr>" for ob' s a
      using stored_dep_of [OF that(1,2)] that(3) complete rewritten_spec_equal
      by (simp add: deployment_current_def)
    ultimately show ?thesis using differ by (auto simp: deployment_current_def)
  qed (use run in \<open>auto simp: update_deployment_def Let_def deployment_current_def\<close>)
qed

lemma restart_writes:
  assumes api: "api_ok r v"
  shows "writes_deployment v (restart_deployment r)"
  unfolding writes_deployment_def
proof (intro allI impI)
  fix ob w e w'
  assume life: "m_deleting (k_meta ob) \<longrightarrow> m_finalizers (k_meta ob) \<noteq> []"
    and kind: "fst (key_of ob) = Deployment" and run: "run_state (restart_deployment r ob) w = (e, w')"
  obtain now w1 where t: "run_state (cl_now r) w = (now, w1)" by force
  have u: "run_state (update_as r (''failed to update deployment '' @ m_name (k_meta ob))
      (stamp_template now ob)) w1 = (e, w')"
    using run t by (simp add: restart_deployment_def)
  have st: "key_of (stamp_template now ob) = key_of ob" "k_meta (stamp_template now ob) = k_meta ob"
    by (simp_all add: stamp_template_def)
  have "dep_of (stamp_template now ob) = (dep_of ob)\<lparr>d_tmpl_annotations :=
      Some (fmupd ForceReloadAnnotationKey now (nil_map (d_tmpl_annotations (dep_of ob))))\<rparr>"
    unfolding stamp_template_def using kind by simp
  moreover have "m_deleting (k_meta (stamp_template now ob)) = m_deleting (k_meta ob)"
    "m_finalizers (k_meta (stamp_template now ob)) = m_finalizers (k_meta ob)"
    by (simp_all add: st)
  note upd = update_as_found [OF api st(1) this _ u] and now = api_now [OF api t]
  ultimately show "(e = None \<longrightarrow> (\<exists>s ob' a. v w' (key_of ob) = Some s \<and> stored_as ob' s \<and>
        fst (key_of ob') = Deployment \<and> dep_of ob' = (dep_of ob)\<lparr>d_tmpl_annotations := a\<rparr>)) \<and>
     (\<forall>k. k \<noteq> key_of ob \<longrightarrow> v w' k = v w k)"
    using upd life kind now st(1) by metis
qed

lemma writes_wrap:
  assumes "writes_deployment v write"
  shows "writes_deployment v (\<lambda>ob. do { e \<leftarrow> write ob; ret (map_option f e) })"
  unfolding writes_deployment_def
proof (intro allI impI)
  fix ob w e w'
  assume a: "m_deleting (k_meta ob) \<longrightarrow> m_finalizers (k_meta ob) \<noteq> []" "fst (key_of ob) = Deployment"
    and run: "run_state (do { e \<leftarrow> write ob; ret (map_option f e) }) w = (e, w')"
  obtain e0 where "run_state (write ob) w = (e0, w')" "e = map_option f e0"
    using run by (auto split: prod.splits)
  then show "(e = None \<longrightarrow> (\<exists>s ob' a. v w' (key_of ob) = Some s \<and> stored_as ob' s \<and>
        fst (key_of ob') = Deployment \<and> dep_of ob' = (dep_of ob)\<lparr>d_tmpl_annotations := a\<rparr>)) \<and>
     (\<forall>k. k \<noteq> key_of ob \<longrightarrow> v w' k = v w k)"
    using assms [unfolded writes_deployment_def, rule_format, OF a(1) [rule_format] a(2)] by simp
qed

lemma settles_plugin_deployment:
  assumes "api_ok r v" "own Deployment r desired" "complete_deployment (dep_of desired)"
  shows "settles v {key_of desired} (\<lambda>f. \<exists>s. f (key_of desired) = Some s \<and>
      deployment_current True desired s)
    (ReconcileConsolePluginDeployment r desired (\<lambda>ob. RestartConsolePluginDeployment r n (Some ob)))"
proof -
  have k: "key_of desired = own_key Deployment r desired" using assms(2) by (simp add: own_def)
  have "writes_deployment v (\<lambda>ob. do { e \<leftarrow> RestartConsolePluginDeployment r n (Some ob);
      ret (map_option (wrapf ErrUpdateConsolePluginDeployment) e) })"
    using restart_writes [OF assms(1)] by (intro writes_wrap) (simp add: RestartConsolePluginDeployment_def)
  then show ?thesis
    unfolding ReconcileConsolePluginDeployment_def k [symmetric]
    using settles_update_deployment [OF assms(1) refl _ assms(3)] k by simp
qed

interpretation plugin_dep: object_reconciler
  "\<lambda>r d. ReconcileConsolePluginDeployment r d (\<lambda>ob. RestartConsolePluginDeployment r n (Some ob))"
  key_of "deployment_current True" "\<lambda>r d. own Deployment r d \<and> complete_deployment (dep_of d)"
  for n
  by unfold_locales (use settles_plugin_deployment in blast)

subsection \<open>The shared pieces\<close>

lemma settles_create_missing:
  "api_ok r v \<Longrightarrow> key_of desired = k \<Longrightarrow>
     settles v {k} (\<lambda>f. f k \<noteq> None) (create_missing r eg ec k desired)"
  using settles_fetch [of r v desired k "\<lambda>s. True" "\<lambda>found. ret None" ec eg]
  by (simp add: create_missing_def)

definition labelled_current :: "kobject \<Rightarrow> kobject \<Rightarrow> bool" where
  "labelled_current d s = (m_labels (k_meta s) = m_labels (k_meta d) \<and> k_payload s = k_payload d)"

lemma settles_labelled:
  assumes "api_ok r v" "key_of d = k" "fst k \<notin> {Deployment, Service, OLSConfigKind'}"
  shows "settles v {k} (\<lambda>f. \<exists>s. f k = Some s \<and> labelled_current d s)
     (reconcile_labelled r eg ec eu k d)"
  unfolding reconcile_labelled_def
proof (rule settles_create_or_update [OF assms(1,2)])
  have kind: "kind_of (k_payload d) = fst k" using assms(2) by (auto simp: key_of_def)
  then have plain: "k_payload s = k_payload d" if "stored_as ob s" "k_payload ob = k_payload d" for ob s
    using stored_plain [OF that(1)] that(2) assms(3) by simp
  then show "labelled_current d s" if "stored_as d s" for s
    using that stored_as_labels by (simp add: labelled_current_def)
  show "labelled_current d s" if "stored_as (found\<lparr>k_payload := k_payload d,
      k_meta := (k_meta found)\<lparr>m_labels := m_labels (k_meta d)\<rparr>\<rparr>) s" for found s
    using stored_as_labels [OF that] plain [OF that] by (simp add: labelled_current_def)
  show "key_of (ob\<lparr>k_payload := k_payload d, k_meta := (k_meta ob)\<lparr>m_labels := m_labels (k_meta d)\<rparr>\<rparr>) = k"
    if "key_of ob = k" for ob
    using that kind by (auto simp: key_of_def)
qed (auto simp: keeps_life_def object_equal_defs labelled_current_def)

lemma restart_named_writes:
  "api_ok r v \<Longrightarrow> writes_deployment v (\<lambda>ob. restart_named r n (Some ob))"
  using restart_writes [of r v] by (simp add: restart_named_def)

section \<open>Activation and removal\<close>

text \<open>A retried step that changes nothing when it fails: its last run starts from the same cluster.\<close>

lemma attempts_last:
  assumes "\<And>w err w'. run_state m w = (Some err, w') \<Longrightarrow> v w' = v w"
    "run_state (attempts n m) w = (e, w')"
  shows "\<exists>w1. v w1 = v w \<and> run_state m w1 = (e, w')"
  using assms(2)
proof (induction n arbitrary: w)
  case (Suc n)
  obtain e1 w1 where r: "run_state m w = (e1, w1)" by force
  show ?case
  proof (cases "\<exists>err. e1 = Some err \<and> IsConflict err")
    case True
    then obtain err where err: "e1 = Some err" "IsConflict err" by blast
    then have "run_state (attempts n m) w1 = (e, w')" using Suc.prems r by simp
    from Suc.IH [OF this] show ?thesis using assms(1) r err by metis
  next
    case False
    then show ?thesis using Suc.prems r by (intro exI [of _ w]) (cases e1; auto)
  qed
qed auto

lemma retry_last:
  assumes "runtime_ok r" "\<And>w err w'. run_state m w = (Some err, w') \<Longrightarrow> v w' = v w"
    "run_state (do { e \<leftarrow> RetryOnConflict r m; ret (map_option f e) }) w = (e, w')"
  shows "\<exists>w1 e1. v w1 = v w \<and> run_state m w1 = (e1, w') \<and> e = map_option f e1"
proof -
  obtain e1 w2 where x: "run_state (RetryOnConflict r m) w = (e1, w2)" by force
  then obtain n where "run_state (attempts n m) w = (e1, w2)"
    using assms(1) unfolding runtime_ok_def retry_ok_def by metis
  then show ?thesis using attempts_last [where v = v, OF assms(2)] assms(3) x by fastforce
qed

text \<open>The plugins of the cluster's console.\<close>

definition plugins_in :: "(okey \<Rightarrow> kobject option) \<Rightarrow> string list" where
  "plugins_in f = (case f console_key of
      None \<Rightarrow> [] | Some con \<Rightarrow> nil_list (console_plugins (k_payload con)))"

lemma console_payload: "key_of con = console_key \<Longrightarrow> \<exists>ps b. k_payload con = PConsole ps b"
  by (cases "k_payload con") (simp_all add: key_of_def console_key_def)

lemma update_console:
  assumes "api_ok r v" "key_of con = console_key"
    "m_deleting (k_meta con) \<Longrightarrow> m_finalizers (k_meta con) \<noteq> []"
    "run_state (cl_update r (con\<lparr>k_payload := set_console_plugins (Some ps) (k_payload con)\<rparr>)) w = (e, w')"
  shows "e = None \<Longrightarrow> plugins_in (v w') = ps" "e \<noteq> None \<Longrightarrow> v w' = v w"
    "k \<noteq> console_key \<Longrightarrow> v w' k = v w k"
proof -
  obtain qs b where pl: "k_payload con = PConsole qs b" using console_payload [OF assms(2)] by blast
  let ?ob = "con\<lparr>k_payload := set_console_plugins (Some ps) (k_payload con)\<rparr>"
  have k: "key_of ?ob = console_key" using assms(2) pl by (simp add: key_of_def)
  note u = api_update [OF assms(1,4)]
  show "e = None \<Longrightarrow> plugins_in (v w') = ps"
    using u(1) assms(3) k pl
    by (auto simp: plugins_in_def nil_list_def dest: stored_plain)
  show "e \<noteq> None \<Longrightarrow> v w' = v w" using u(3) .
  show "k \<noteq> console_key \<Longrightarrow> v w' k = v w k" using u(4) k by simp
qed

lemma activate_once_run:
  assumes "api_ok r v" "run_state (activate_once r n) w = (e, w')"
  shows "e = None \<Longrightarrow> plugins_in (v w') =
      (if n \<in> set (plugins_in (v w)) then plugins_in (v w) else plugins_in (v w) @ [n])"
    "e \<noteq> None \<Longrightarrow> v w' = v w" "k \<noteq> console_key \<Longrightarrow> v w' k = v w k"
    "n \<in> set (plugins_in (v w)) \<Longrightarrow> v w' = v w"
proof -
  obtain x w1 where g: "run_state (cl_get r console_key) w = (x, w1)" by force
  note get = api_get [OF assms(1) g]
  have "(e = None \<longrightarrow> plugins_in (v w') =
      (if n \<in> set (plugins_in (v w)) then plugins_in (v w) else plugins_in (v w) @ [n])) \<and>
      (e \<noteq> None \<longrightarrow> v w' = v w) \<and> (\<forall>k. k \<noteq> console_key \<longrightarrow> v w' k = v w k) \<and>
      (n \<in> set (plugins_in (v w)) \<longrightarrow> v w' = v w)"
  proof (cases x)
    case (Inl err)
    then show ?thesis using assms(2) g get(1) by (auto simp: activate_once_def try_or_def)
  next
    case (Inr con)
    note upd = update_console [OF assms(1) get(3) [OF Inr] get(4) [OF Inr]]
    have pi: "plugins_in (v w) = nil_list (console_plugins (k_payload con))"
      using get(2) [OF Inr] by (simp add: plugins_in_def)
    show ?thesis
      using assms(2) g Inr get(1) upd pi
      by (cases "console_plugins (k_payload con)")
        (auto simp: activate_once_def try_or_def nil_list_def split: if_splits)
  qed
  then show "e = None \<Longrightarrow> plugins_in (v w') =
      (if n \<in> set (plugins_in (v w)) then plugins_in (v w) else plugins_in (v w) @ [n])"
    "e \<noteq> None \<Longrightarrow> v w' = v w" "k \<noteq> console_key \<Longrightarrow> v w' k = v w k"
    "n \<in> set (plugins_in (v w)) \<Longrightarrow> v w' = v w" by blast+
qed

lemma deactivate_once_run:
  assumes "api_ok r v" "run_state (deactivate_once r n) w = (e, w')"
  shows "e = None \<Longrightarrow> plugins_in (v w') = filter (\<lambda>p. p \<noteq> n) (plugins_in (v w))"
    "e \<noteq> None \<Longrightarrow> v w' = v w" "k \<noteq> console_key \<Longrightarrow> v w' k = v w k"
proof -
  obtain x w1 where g: "run_state (cl_get r console_key) w = (x, w1)" by force
  note get = api_get [OF assms(1) g]
  have "(e = None \<longrightarrow> plugins_in (v w') = filter (\<lambda>p. p \<noteq> n) (plugins_in (v w))) \<and>
      (e \<noteq> None \<longrightarrow> v w' = v w) \<and> (\<forall>k. k \<noteq> console_key \<longrightarrow> v w' k = v w k)"
  proof (cases x)
    case (Inl err)
    then show ?thesis using assms(2) g get(1,5)
      by (auto simp: deactivate_once_def run_fetch plugins_in_def split: if_splits)
  next
    case (Inr con)
    note upd = update_console [OF assms(1) get(3) [OF Inr] get(4) [OF Inr]]
    have pi: "plugins_in (v w) = nil_list (console_plugins (k_payload con))"
      using get(2) [OF Inr] by (simp add: plugins_in_def)
    have f: "filter (\<lambda>p. p \<noteq> n) ps = ps" if "n \<notin> set ps" for ps using that by (induction ps) auto
    show ?thesis
      using assms(2) g Inr get(1) upd pi f
      by (cases "console_plugins (k_payload con)")
        (auto simp: deactivate_once_def run_fetch nil_list_def split: if_splits)
  qed
  then show "e = None \<Longrightarrow> plugins_in (v w') = filter (\<lambda>p. p \<noteq> n) (plugins_in (v w))"
    "e \<noteq> None \<Longrightarrow> v w' = v w" "k \<noteq> console_key \<Longrightarrow> v w' k = v w k" by blast+
qed

lemma ActivateConsolePlugin_run:
  assumes "api_ok r v" "runtime_ok r" "run_state (ActivateConsolePlugin r n) w = (e, w')"
  shows "e = None \<Longrightarrow> plugins_in (v w') =
      (if n \<in> set (plugins_in (v w)) then plugins_in (v w) else plugins_in (v w) @ [n])"
    "e \<noteq> None \<Longrightarrow> v w' = v w" "k \<noteq> console_key \<Longrightarrow> v w' k = v w k"
    "n \<in> set (plugins_in (v w)) \<Longrightarrow> v w' = v w"
proof -
  obtain w1 e1 where "v w1 = v w" "run_state (activate_once r n) w1 = (e1, w')"
    "e = map_option (wrapf ErrUpdateConsole) e1"
    using retry_last [where v = v, OF assms(2) _ assms(3) [unfolded ActivateConsolePlugin_def]]
      activate_once_run(2) [OF assms(1)] by (metis option.simps(3))
  then show "e = None \<Longrightarrow> plugins_in (v w') =
      (if n \<in> set (plugins_in (v w)) then plugins_in (v w) else plugins_in (v w) @ [n])"
    "e \<noteq> None \<Longrightarrow> v w' = v w" "k \<noteq> console_key \<Longrightarrow> v w' k = v w k"
    "n \<in> set (plugins_in (v w)) \<Longrightarrow> v w' = v w"
    using activate_once_run [OF assms(1), of n w1 e1 w'] by auto
qed

text \<open>
  Activating a console plugin appends it to the console's plugin list unless it is already
  there, keeps every other plugin and its place, touches no other object, and changes nothing
  when it fails, however often the update conflicts.
\<close>

theorem ActivateConsolePlugin_adds:
  assumes "api_ok r v" "runtime_ok r" "run_state (ActivateConsolePlugin r n) w = (e, w')"
  shows "(e = None \<longrightarrow> plugins_in (v w') =
      (if n \<in> set (plugins_in (v w)) then plugins_in (v w) else plugins_in (v w) @ [n])) \<and>
    (e \<noteq> None \<longrightarrow> v w' = v w) \<and> (\<forall>k. k \<noteq> console_key \<longrightarrow> v w' k = v w k)"
  using ActivateConsolePlugin_run [OF assms] by blast

definition sample_console :: kobject where
  "sample_console = \<lparr>k_meta = new_meta [] ConsoleCRName fmempty, k_payload = PConsole (Some [''other'']) ''OKD''\<rparr>"

definition console_mem :: mem where
  "console_mem = fmap_of_list [(console_key, sample_console)]"

lemma console_mem_view: "mem_view console_mem console_key = Some sample_console"
  by (simp add: console_mem_def mem_view_def key_of_def console_key_def sample_console_def new_meta_def)

theorem ActivateConsolePlugin_adds_witness:
  "plugins_in (mem_view (snd (run_state
     (ActivateConsolePlugin (mem_reconciler (no_options ''ns'')) ''ols'') console_mem))) = [''other'', ''ols'']"
proof -
  let ?r = "mem_reconciler (no_options ''ns'')"
  have p: "plugins_in (mem_view console_mem) = [''other'']"
    using console_mem_view by (simp add: plugins_in_def sample_console_def nil_list_def)
  obtain e w' where run: "run_state (ActivateConsolePlugin ?r ''ols'') console_mem = (e, w')" by force
  have "key_of (sample_console\<lparr>k_payload := PConsole (Some [''other'', ''ols'']) ''OKD''\<rparr>) = console_key"
    by (simp add: key_of_def sample_console_def console_key_def new_meta_def)
  then have "e = None"
    using run console_mem_view
    by (auto simp: ActivateConsolePlugin_def activate_once_def try_or_def mem_get_def mem_update_def
        sample_console_def new_meta_def eval_nat_numeral split: option.splits if_splits)
  then show ?thesis
    using ActivateConsolePlugin_adds [OF mem_reconciler_ok mem_runtime_ok run] run p by simp
qed

lemma settles_activate:
  assumes "api_ok r v" "runtime_ok r"
  shows "settles v {console_key} (\<lambda>f. n \<in> set (plugins_in f)) (ActivateConsolePlugin r n)"
proof (rule settlesI)
  show "on_keys {console_key} (\<lambda>f. n \<in> set (plugins_in f))"
    by (simp add: on_keys_def plugins_in_def)
qed (use ActivateConsolePlugin_run [OF assms] in \<open>(auto; fail)+\<close>)

lemma DeactivateConsolePlugin_run:
  assumes "api_ok r v" "runtime_ok r" "run_state (DeactivateConsolePlugin r n) w = (e, w')"
  shows "e = None \<Longrightarrow> plugins_in (v w') = filter (\<lambda>p. p \<noteq> n) (plugins_in (v w))"
    "e \<noteq> None \<Longrightarrow> v w' = v w" "k \<noteq> console_key \<Longrightarrow> v w' k = v w k"
proof -
  obtain w1 e1 where "v w1 = v w" "run_state (deactivate_once r n) w1 = (e1, w')"
    "e = map_option (wrapf ErrUpdateConsole) e1"
    using retry_last [where v = v, OF assms(2) _ assms(3) [unfolded DeactivateConsolePlugin_def]]
      deactivate_once_run(2) [OF assms(1)] by (metis option.simps(3))
  then show "e = None \<Longrightarrow> plugins_in (v w') = filter (\<lambda>p. p \<noteq> n) (plugins_in (v w))"
    "e \<noteq> None \<Longrightarrow> v w' = v w" "k \<noteq> console_key \<Longrightarrow> v w' k = v w k"
    using deactivate_once_run [OF assms(1), of n w1 e1 w'] by auto
qed

lemma DeleteConsolePluginCR_run:
  assumes "api_ok r v" "run_state (DeleteConsolePluginCR r n) w = (e, w')"
  shows "e = None \<Longrightarrow> gone (v w' (ConsolePlugin, [], n))"
    "k \<noteq> (ConsolePlugin, [], n) \<Longrightarrow> v w' k = v w k"
  using settlesD [OF settles_delete_object [OF assms(1)] assms(2) [unfolded DeleteConsolePluginCR_def]]
  by auto

text \<open>
  Removing a console plugin deactivates it first: after success the console no longer lists
  it, every other plugin is kept, and its ConsolePlugin object is gone. When the deactivation
  fails the ConsolePlugin is not touched, and nothing else is changed in any case.
\<close>

theorem RemoveConsolePlugin_order:
  assumes "api_ok r v" "runtime_ok r" "run_state (RemoveConsolePlugin r n) w = (e, w')"
  shows "(e = None \<longrightarrow> plugins_in (v w') = filter (\<lambda>p. p \<noteq> n) (plugins_in (v w)) \<and>
       gone (v w' (ConsolePlugin, [], n))) \<and>
    (n \<in> set (plugins_in (v w')) \<longrightarrow> v w' = v w) \<and>
    (\<forall>k. k \<notin> {console_key, (ConsolePlugin, [], n)} \<longrightarrow> v w' k = v w k)"
proof -
  obtain e1 w1 where d: "run_state (DeactivateConsolePlugin r n) w = (e1, w1)" by force
  note de = DeactivateConsolePlugin_run [OF assms(1,2) d]
  show ?thesis
  proof (cases e1)
    case (Some err)
    then show ?thesis using assms(3) d de(2)
      by (auto simp: RemoveConsolePlugin_def RunDeleteTasks_def)
  next
    case None
    then obtain e2 where c: "run_state (DeleteConsolePluginCR r n) w1 = (e2, w')"
      and e: "e = map_option (wrapf ''failed to delete Console Plugin'') e2"
      using assms(3) d by (auto simp: RemoveConsolePlugin_def RunDeleteTasks_def split: prod.splits)
    note dc = DeleteConsolePluginCR_run [OF assms(1) c]
    have "v w' console_key = v w1 console_key" using dc(2) by (simp add: console_key_def)
    then have "plugins_in (v w') = plugins_in (v w1)" by (simp add: plugins_in_def)
    then show ?thesis using de dc e None by auto
  qed
qed

theorem RemoveConsolePlugin_order_witness:
  "plugins_in (mem_view (snd (run_state
     (RemoveConsolePlugin (mem_reconciler (no_options ''ns'')) ''other'') console_mem))) = []"
proof -
  let ?r = "mem_reconciler (no_options ''ns'')"
  have p: "plugins_in (mem_view console_mem) = [''other'']"
    using console_mem_view by (simp add: plugins_in_def sample_console_def nil_list_def)
  obtain e w' where run: "run_state (RemoveConsolePlugin ?r ''other'') console_mem = (e, w')" by force
  have "key_of (sample_console\<lparr>k_payload := PConsole (Some []) ''OKD''\<rparr>) = console_key"
    by (simp add: key_of_def sample_console_def console_key_def new_meta_def)
  then have "e = None"
    using run console_mem_view
    by (auto simp: RemoveConsolePlugin_def RunDeleteTasks_def DeactivateConsolePlugin_def
        deactivate_once_def DeleteConsolePluginCR_def delete_object_def run_fetch mem_get_def mem_update_def
        mem_delete_def sample_console_def eval_nat_numeral split: option.splits if_splits)
  then show ?thesis
    using RemoveConsolePlugin_order [OF mem_reconciler_ok mem_runtime_ok run] run p by simp
qed

section \<open>Waiting for the serving certificate\<close>

lemma pick_fields_Inr:
  "pick_fields d fs acc = Inr m \<Longrightarrow> \<forall>f \<in> set fs. fmlookup d f \<noteq> None"
  by (induction fs arbitrary: acc) (auto split: option.splits)

lemma GetSecretContent_run:
  assumes "api_ok r v" "run_state (GetSecretContent r n ns fs) w = (x, w')"
  shows "v w' = v w" "x = Inr m \<Longrightarrow>
    \<exists>s. v w (Secret, ns, n) = Some s \<and> (\<forall>f \<in> set fs. fmlookup (secret_data (k_payload s)) f \<noteq> None)"
proof -
  obtain y w1 where g: "run_state (cl_get r (Secret, ns, n)) w = (y, w1)" by force
  note get = api_get [OF assms(1) g]
  show "v w' = v w" using assms(2) g get(1) by (auto simp: GetSecretContent_def)
  show "x = Inr m \<Longrightarrow>
    \<exists>s. v w (Secret, ns, n) = Some s \<and> (\<forall>f \<in> set fs. fmlookup (secret_data (k_payload s)) f \<noteq> None)"
    using assms(2) g get(2) by (auto simp: GetSecretContent_def split: sum.splits dest: pick_fields_Inr)
qed

lemma poll_steps_check:
  assumes c: "\<And>l w x l' w'. run_state (c l) w = ((x, l'), w') \<Longrightarrow> v w' = v w \<and> (x = Inr True \<longrightarrow> P (v w) l')"
    and "run_state (poll_steps n c l) w = ((e, l'), w')"
  shows "v w' = v w \<and> (e = None \<longrightarrow> P (v w) l')"
  using assms(2)
proof (induction n arbitrary: l w)
  case (Suc n)
  obtain x l1 w1 where r: "run_state (c l) w = ((x, l1), w1)" by (metis surj_pair)
  note step = c [OF r]
  show ?case
  proof (cases x)
    case (Inl err)
    then show ?thesis using Suc.prems r step by auto
  next
    case (Inr b)
    show ?thesis
    proof (cases b)
      case True
      then show ?thesis using Suc.prems r step Inr by auto
    next
      case False
      then have "run_state (poll_steps n c l1) w1 = ((e, l'), w')" using Suc.prems r Inr by simp
      from Suc.IH [OF this] show ?thesis using step by simp
    qed
  qed
qed auto

lemma WaitForConsolePluginTLSSecret_run:
  assumes "api_ok r v" "runtime_ok r" "run_state (WaitForConsolePluginTLSSecret r n) w = (e, w')"
  shows "v w' = v w \<and> (e = None \<longrightarrow> (\<exists>s. v w (Secret, GetNamespace r, n) = Some s \<and>
     fmlookup (secret_data (k_payload s)) ''tls.key'' \<noteq> None \<and>
     fmlookup (secret_data (k_payload s)) ''tls.crt'' \<noteq> None))" (is "_ \<and> (_ \<longrightarrow> ?P (v w))")
proof -
  define c where "c = (\<lambda>vars :: captured. do {
        x \<leftarrow> GetSecretContent r n (GetNamespace r) [''tls.key'', ''tls.crt''];
        ret (case x of
           Inl err \<Rightarrow> (Inr False :: goerr + bool, (Some (wrapf (''secret: '' @ n @
              '' does not have expected tls.key or tls.crt. error'') err), None))
         | Inr m \<Rightarrow> (Inr True, vars)) })"
  have cond: "v w' = v w \<and> (x = Inr True \<longrightarrow> ?P (v w))" if "run_state (c l) w = ((x, l'), w')" for l w x l' w'
  proof -
    obtain y w1 where g: "run_state (GetSecretContent r n (GetNamespace r) [''tls.key'', ''tls.crt'']) w = (y, w1)"
      by force
    show ?thesis using that g GetSecretContent_run [OF assms(1) g]
      by (cases y) (auto simp: c_def)
  qed
  obtain pe l w1 where p: "run_state (PollUntilTimeout r 1 60 c) w = ((pe, l), w1)" by (metis surj_pair)
  then obtain k where "run_state (poll_steps (Suc k) c (None, None)) w = ((pe, l), w1)"
    using assms(2) unfolding runtime_ok_def poll_ok_def by metis
  from poll_steps_check [where v = v and P = "\<lambda>f l. ?P f", OF cond this]
  have "v w1 = v w \<and> (pe = None \<longrightarrow> ?P (v w))" .
  then show ?thesis using assms(3) p unfolding WaitForConsolePluginTLSSecret_def c_def [symmetric]
    by (auto split: option.splits prod.splits)
qed

lemma settles_wait_tls:
  "api_ok r v \<Longrightarrow> runtime_ok r \<Longrightarrow> settles v {} (\<lambda>f. True) (WaitForConsolePluginTLSSecret r n)"
  by (rule settlesI) (auto simp: on_keys_def dest: WaitForConsolePluginTLSSecret_run)

section \<open>Network policies do not converge after label drift\<close>

text \<open>
  The network-policy reconciler compares labels but does not write them: when the stored
  policy has other labels than the desired one, a successful reconcile leaves those labels in
  place, and the policy still compares different, so that every following reconcile writes it
  again.
\<close>

theorem NetworkPolicy_label_drift:
  assumes "api_ok r v" "own NetworkPolicy r d" "v w (key_of d) = Some s"
    "m_labels (k_meta s) \<noteq> m_labels (k_meta d)"
    "run_state (ReconcileConsolePluginNetworkPolicy r d) w = (None, w')"
  shows "\<exists>s'. v w' (key_of d) = Some s' \<and> m_labels (k_meta s') = m_labels (k_meta s) \<and>
    k_payload s' = k_payload d \<and> \<not> NetworkPolicyEqual d s'"
proof -
  have k: "key_of d = own_key NetworkPolicy r d" using assms(2) by (simp add: own_def)
  obtain x w1 where g: "run_state (cl_get r (key_of d)) w = (x, w1)" by force
  note get = api_get [OF assms(1) g]
  have x: "x = Inr s"
    using assms(3,5) g get(2,5) unfolding ReconcileConsolePluginNetworkPolicy_def k [symmetric]
    by (cases x) (auto simp: create_or_update_def run_fetch split: if_splits)
  let ?ob = "s\<lparr>k_payload := k_payload d\<rparr>"
  have u: "run_state (update_as r ErrUpdateConsolePluginNetworkPolicy ?ob) w1 = (None, w')"
    using assms(4,5) g x unfolding ReconcileConsolePluginNetworkPolicy_def k [symmetric]
    by (auto simp: create_or_update_def run_fetch object_equal_defs)
  have key: "key_of ?ob = key_of s"
    using get(3) [OF x] by (simp add: key_of_def)
  have kind: "kind_of (k_payload ?ob) = NetworkPolicy" using ownD [OF assms(2)] by simp
  obtain s' where "v w' (key_of s) = Some s'" "stored_as ?ob s'"
    using update_as_found(1) [OF assms(1) key _ _ get(4) [OF x] u] by auto
  then show ?thesis
    using stored_as_labels [of ?ob s'] stored_plain [of ?ob s'] kind get(3) [OF x] assms(4)
    by (auto simp: object_equal_defs)
qed

theorem NetworkPolicy_label_drift_witness:
  defines "r \<equiv> mem_reconciler (no_options ''ns'')"
  defines "d \<equiv> GenerateConsolePluginNetworkPolicy r (blank_cr []) ''np'' (fmap_of_list [(''a'', ''b'')]) 9443"
  defines "s \<equiv> d\<lparr>k_meta := (k_meta d)\<lparr>m_labels := fmempty\<rparr>\<rparr>"
  shows "\<exists>s' w'. run_state (ReconcileConsolePluginNetworkPolicy r d) (fmap_of_list [(key_of d, s)]) = (None, w') \<and>
     mem_view w' (key_of d) = Some s' \<and> \<not> NetworkPolicyEqual d s'"
proof -
  have k: "key_of d = (NetworkPolicy, ''ns'', ''np'')" "key_of s = key_of d"
    by (simp_all add: s_def d_def r_def GenerateConsolePluginNetworkPolicy_def set_controller_def
        key_of_def new_meta_def GetNamespace_def no_options_def)
  have own: "own NetworkPolicy r d"
    by (simp add: own_def k r_def GetNamespace_def no_options_def)
      (simp add: d_def GenerateConsolePluginNetworkPolicy_def set_controller_def new_meta_def)
  have del: "\<not> m_deleting (k_meta s)"
    by (simp add: s_def d_def GenerateConsolePluginNetworkPolicy_def set_controller_def new_meta_def)
  have view: "mem_view (fmap_of_list [(key_of d, s)]) (key_of d) = Some s"
    by (simp add: mem_view_def k del)
  have lab: "m_labels (k_meta s) \<noteq> m_labels (k_meta d)"
    by (simp add: s_def d_def GenerateConsolePluginNetworkPolicy_def set_controller_def new_meta_def)
  have "key_of (s\<lparr>k_payload := k_payload d\<rparr>) = key_of d" using k(2) by (simp add: key_of_def)
  then obtain w' where run: "run_state (ReconcileConsolePluginNetworkPolicy r d)
      (fmap_of_list [(key_of d, s)]) = (None, w')"
    using view del lab own unfolding ReconcileConsolePluginNetworkPolicy_def own_def
    by (auto simp: create_or_update_def run_fetch run_update_as r_def mem_get_def mem_update_def
        object_equal_defs)
  from NetworkPolicy_label_drift [OF mem_reconciler_ok own [unfolded r_def] view lab run [unfolded r_def]]
  show ?thesis using run by (auto simp: r_def)
qed

end
