(* ===== verification/Console_UI.thy ===== *)
theory Console_UI
  imports Console_Plugin
begin

text \<open>
  The console plugin operand (\<open>internal/controller/console\<close>): its generators, its two phases and
  its removal. Phase 2 (Deployment, Service, certificate, ConsolePlugin, activation) is shown to
  converge.
\<close>

section \<open>Generated objects\<close>

definition ind :: "nat \<Rightarrow> string \<Rightarrow> string" where
  "ind n s = replicate n CHR 0x09 @ s"

definition GenerateConsoleUILabels :: gmap where
  "GenerateConsoleUILabels = fmap_of_list
     [(''app.kubernetes.io/component'', ''console-plugin''),
      (''app.kubernetes.io/managed-by'', ''lightspeed-operator''),
      (''app.kubernetes.io/name'', ''lightspeed-console-plugin''),
      (''app.kubernetes.io/part-of'', ''openshift-lightspeed'')]"

definition console_nginx_config :: string where
  "console_nginx_config = join_lines
    [[],
     ind 3 (''pid       /tmp/nginx/nginx.pid;''),
     ind 3 (''error_log /dev/stdout info;''),
     ind 3 (''events {}''),
     ind 3 (''http {''),
     ind 4 (''client_body_temp_path /tmp/nginx/client_body;''),
     ind 4 (''proxy_temp_path       /tmp/nginx/proxy;''),
     ind 4 (''fastcgi_temp_path     /tmp/nginx/fastcgi;''),
     ind 4 (''uwsgi_temp_path       /tmp/nginx/uwsgi;''),
     ind 4 (''scgi_temp_path        /tmp/nginx/scgi;''),
     ind 4 (''access_log            /dev/stdout;''),
     ind 4 (''include               /etc/nginx/mime.types;''),
     ind 4 (''default_type          application/octet-stream;''),
     ind 4 (''keepalive_timeout     65;''),
     ind 4 (''server {''),
     ind 5 (''listen              9443 ssl;''),
     ind 5 (''listen              [::]:9443 ssl;''),
     ind 5 (''ssl_certificate     /var/cert/tls.crt;''),
     ind 5 (''ssl_certificate_key /var/cert/tls.key;''),
     ind 5 (''root                /usr/share/nginx/html;''),
     ind 4 (''}''),
     ind 3 (''}'')]"

definition GenerateConsoleUIConfigMap :: "'w reconciler \<Rightarrow> OLSConfig \<Rightarrow> kobject" where
  "GenerateConsoleUIConfigMap r cr =
     GenerateConsolePluginNginxConfigMap r cr ConsoleUIConfigMapName GenerateConsoleUILabels
       console_nginx_config"

definition GenerateConsoleUIService :: "'w reconciler \<Rightarrow> OLSConfig \<Rightarrow> kobject" where
  "GenerateConsoleUIService r cr = set_controller cr \<lparr>
     k_meta = (new_meta (GetNamespace r) ConsoleUIServiceName GenerateConsoleUILabels)\<lparr>m_annotations :=
       Some (fmap_of_list [(ServingCertSecretAnnotationKey, ConsoleUIServiceCertSecretName)])\<rparr>,
     k_payload = PService \<lparr>ss_selector = GenerateConsoleUILabels,
       ss_ports = [\<lparr>sp_name = ''https'', sp_protocol = ''TCP'', sp_port = ConsoleUIHTTPSPort,
         sp_target = ''https''\<rparr>], ss_cluster_ip = []\<rparr>\<rparr>"

text \<open>The plugin object for a CA certificate, empty for none.\<close>

definition console_plugin_object :: "'w reconciler \<Rightarrow> OLSConfig \<Rightarrow> string \<Rightarrow> kobject" where
  "console_plugin_object r cr ca = set_controller cr \<lparr>
     k_meta = new_meta [] ConsoleUIPluginName GenerateConsoleUILabels,
     k_payload = PConsolePlugin \<lparr>pl_display = ''Lightspeed Console Plugin'',
       pl_backend = (ConsoleUIServiceName, GetNamespace r, ConsoleUIHTTPSPort, ''/''),
       pl_i18n = ''Preload'',
       pl_proxies = [\<lparr>px_alias = ConsoleProxyAlias, px_auth = ''UserToken'',
         px_service = (OLSAppServerServiceName, GetNamespace r, OLSAppServerServicePort),
         px_ca = ca\<rparr>]\<rparr>\<rparr>"

definition tls_secret_name :: "OLSConfig \<Rightarrow> string option" where
  "tls_secret_name cr = (case o_TLSConfig (s_OLSConfig (cr_Spec cr)) of
      None \<Rightarrow> None | Some n \<Rightarrow> (if n = [] then None else Some n))"

definition GenerateConsoleUIPlugin ::
  "'w reconciler \<Rightarrow> OLSConfig \<Rightarrow> ('w, goerr + kobject) io" where
  "GenerateConsoleUIPlugin r cr = (case tls_secret_name cr of
      None \<Rightarrow> ret (Inr (console_plugin_object r cr []))
    | Some n \<Rightarrow> do {
        x \<leftarrow> GetCAFromSecret r (GetNamespace r) n;
        ret (case x of
           Inl e \<Rightarrow> Inl (wrapf (''failed to get CA certificate from Secret '' @ n) e)
         | Inr ca \<Rightarrow> Inr (console_plugin_object r cr ca)) })"

definition GenerateConsoleUINetworkPolicy :: "'w reconciler \<Rightarrow> OLSConfig \<Rightarrow> kobject" where
  "GenerateConsoleUINetworkPolicy r cr = GenerateConsolePluginNetworkPolicy r cr
     ConsoleUINetworkPolicyName GenerateConsoleUILabels ConsoleUIHTTPSPort"

definition GenerateConsoleUIServiceAccount :: "'w reconciler \<Rightarrow> OLSConfig \<Rightarrow> kobject" where
  "GenerateConsoleUIServiceAccount r cr = GenerateServiceAccount r cr ConsoleUIServiceAccountName"

definition GenerateConsoleUIDeployment :: "'w reconciler \<Rightarrow> OLSConfig \<Rightarrow> kobject" where
  "GenerateConsoleUIDeployment r cr =
     (let cfg = dc_ConsoleContainer (o_DeploymentConfig (s_OLSConfig (cr_Spec cr))) in
      GenerateConsolePluginDeployment r cr \<lparr>co_Name = ConsoleUIDeploymentName,
        co_Labels = GenerateConsoleUILabels, co_SelectorLabels = GenerateConsoleUILabels,
        co_ServiceAccountName = ConsoleUIServiceAccountName,
        co_ContainerName = ConsoleUIContainerName, co_Image = ConsoleUIImage (Options r),
        co_Port = ConsoleUIHTTPSPort, co_PortName = ''https'',
        co_CertVolumeName = ''lightspeed-console-plugin-cert'',
        co_CertSecretName = ConsoleUIServiceCertSecretName, co_NginxVolumeName = ''nginx-config'',
        co_NginxConfigMapName = ConsoleUIConfigMapName, co_NginxTempVolumeName = ''nginx-temp'',
        co_Resources = Some (GetResourcesOrDefault (cf_Resources cfg)
          DefaultConsolePluginResourceRequirements),
        co_Env = GetProxyEnvVars r @ [\<lparr>ev_name = ''OCP_VERSION'',
          ev_value = OpenShiftMajor (Options r) @ ''.'' @ OpenshiftMinor (Options r), ev_from = None\<rparr>],
        co_DeploymentConfig = cfg\<rparr>)"

section \<open>Tasks\<close>

definition reconcileConsoleUIConfigMap :: "'w reconcile_fn" where
  "reconcileConsoleUIConfigMap r cr =
     ReconcileConsolePluginConfigMap r (GenerateConsoleUIConfigMap r cr)"

definition reconcileConsoleUIService :: "'w reconcile_fn" where
  "reconcileConsoleUIService r cr = ReconcileConsolePluginService r (GenerateConsoleUIService r cr)"

definition RestartConsoleUI :: "'w reconciler \<Rightarrow> kobject option \<Rightarrow> ('w, goerr option) io" where
  "RestartConsoleUI r given = RestartConsolePluginDeployment r ConsoleUIDeploymentName given"

definition ReconcileConsoleUIDeployment :: "'w reconcile_fn" where
  "ReconcileConsoleUIDeployment r cr =
     ReconcileConsolePluginDeployment r (GenerateConsoleUIDeployment r cr)
       (\<lambda>ob. RestartConsoleUI r (Some ob))"

definition reconcileConsoleUIPlugin :: "'w reconcile_fn" where
  "reconcileConsoleUIPlugin r cr = try_or (GenerateConsoleUIPlugin r cr)
     (wrapf ErrGenerateConsolePlugin) (ReconcileConsolePluginCR r)"

definition activateConsoleUI :: "'w reconcile_fn" where
  "activateConsoleUI r cr = ActivateConsolePlugin r ConsoleUIPluginName"

definition RemoveConsoleUI :: "'w reconciler \<Rightarrow> ('w, goerr option) io" where
  "RemoveConsoleUI r = RemoveConsolePlugin r ConsoleUIPluginName"

definition reconcileConsoleTLSSecret :: "'w reconcile_fn" where
  "reconcileConsoleTLSSecret r cr = WaitForConsolePluginTLSSecret r ConsoleUIServiceCertSecretName"

definition reconcileConsoleNetworkPolicy :: "'w reconcile_fn" where
  "reconcileConsoleNetworkPolicy r cr =
     ReconcileConsolePluginNetworkPolicy r (GenerateConsoleUINetworkPolicy r cr)"

definition reconcileConsoleUIServiceAccount :: "'w reconcile_fn" where
  "reconcileConsoleUIServiceAccount r cr =
     ReconcileConsolePluginServiceAccount r (GenerateConsoleUIServiceAccount r cr)"

definition ReconcileConsoleUIResources :: "'w reconcile_fn" where
  "ReconcileConsoleUIResources r cr = RunReconcileTasks r cr ''reconcileConsoleUIResources''
     [(''reconcile Console Plugin ConfigMap'', reconcileConsoleUIConfigMap),
      (''reconcile Console Plugin NetworkPolicy'', reconcileConsoleNetworkPolicy),
      (''reconcile Console Plugin Service Account'', reconcileConsoleUIServiceAccount)] True"

definition ReconcileConsoleUIDeploymentAndPlugin :: "'w reconcile_fn" where
  "ReconcileConsoleUIDeploymentAndPlugin r cr =
     RunReconcileTasks r cr ''reconcileConsoleUIDeploymentAndPlugin''
     [(''reconcile Console Plugin Deployment'', ReconcileConsoleUIDeployment),
      (''reconcile Console Plugin Service'', reconcileConsoleUIService),
      (''reconcile Console Plugin TLS Certs'', reconcileConsoleTLSSecret),
      (''reconcile Console Plugin'', reconcileConsoleUIPlugin),
      (''activate Console Plugin'', activateConsoleUI)] False"

definition ReconcileConsoleUI :: "'w reconcile_fn" where
  "ReconcileConsoleUI r cr =
     and_then (ReconcileConsoleUIResources r cr) (ReconcileConsoleUIDeploymentAndPlugin r cr)"

section \<open>Phase 2 converges\<close>

lemma ApplyPodDeploymentConfig_containers [simp]:
  "po_containers (d_pod (ApplyPodDeploymentConfig d cfg b)) = po_containers (d_pod d)"
  "po_init (d_pod (ApplyPodDeploymentConfig d cfg b)) = po_init (d_pod d)"
  "po_volumes (d_pod (ApplyPodDeploymentConfig d cfg b)) = po_volumes (d_pod d)"
  by (simp_all add: ApplyPodDeploymentConfig_def Let_def)

lemma complete_Apply [simp]:
  "complete_deployment (ApplyPodDeploymentConfig d cfg b) = complete_deployment d"
  by (simp add: complete_deployment_def)

lemma deployment_object_simps [simp]:
  "dep_of (deployment_object r cr n l sp) = sp"
  "key_of (deployment_object r cr n l sp) = (Deployment, GetNamespace r, n)"
  "m_name (k_meta (deployment_object r cr n l sp)) = n"
  by (simp_all add: deployment_object_def dep_of_def key_of_def set_controller_def new_meta_def)

lemma supported_volumes [simp]:
  "supported_volume (secret_volume n s m)" "supported_volume (configmap_volume n s m)"
  "supported_volume (emptydir_volume n)"
  by (simp_all add: supported_volume_def secret_volume_def configmap_volume_def emptydir_volume_def)

lemma console_deployment_complete:
  "own Deployment r (GenerateConsolePluginDeployment r cr opts)"
  "complete_deployment (dep_of (GenerateConsolePluginDeployment r cr opts))"
  "key_of (GenerateConsolePluginDeployment r cr opts) = (Deployment, GetNamespace r, co_Name opts)"
  by (simp_all add: GenerateConsolePluginDeployment_def own_def complete_deployment_def
      complete_container_def console_container_def)

lemma console_service_complete:
  "own Service r (GenerateConsoleUIService r cr)" "complete_service (GenerateConsoleUIService r cr)"
  by (simp_all add: GenerateConsoleUIService_def own_def key_of_def complete_service_def
      set_controller_def new_meta_def nil_map_def)

text \<open>The certificate authority the plugin object uses, when the cluster stores \<open>f\<close>.\<close>

definition console_ca :: "'w reconciler \<Rightarrow> OLSConfig \<Rightarrow> (okey \<Rightarrow> kobject option) \<Rightarrow> string option" where
  "console_ca r cr f = (case tls_secret_name cr of
      None \<Rightarrow> Some []
    | Some n \<Rightarrow> map_option (\<lambda>s. zlookup (secret_data (k_payload s)) ''ca.crt'')
        (f (Secret, GetNamespace r, n)))"

definition console_ca_keys :: "'w reconciler \<Rightarrow> OLSConfig \<Rightarrow> okey set" where
  "console_ca_keys r cr = (case tls_secret_name cr of
      None \<Rightarrow> {} | Some n \<Rightarrow> {(Secret, GetNamespace r, n)})"

lemma GenerateConsoleUIPlugin_run:
  assumes "api_ok r v" "run_state (GenerateConsoleUIPlugin r cr) w = (x, w')"
  shows "v w' = v w \<and> (\<forall>d. x = Inr d \<longrightarrow>
     map_option (console_plugin_object r cr) (console_ca r cr (v w)) = Some d)"
proof (cases "tls_secret_name cr")
  case None
  then show ?thesis using assms(2) by (auto simp: GenerateConsoleUIPlugin_def console_ca_def)
next
  case (Some n)
  obtain y w1 where g: "run_state (cl_get r (Secret, GetNamespace r, n)) w = (y, w1)" by force
  note get = api_get [OF assms(1) g]
  show ?thesis
    using assms(2) Some g get(1,2)
    by (cases y) (auto simp: GenerateConsoleUIPlugin_def GetCAFromSecret_def console_ca_def zlookup_def
        split: option.splits)
qed

definition console_settled :: "'w reconciler \<Rightarrow> OLSConfig \<Rightarrow> (okey \<Rightarrow> kobject option) \<Rightarrow> bool" where
  "console_settled r cr f =
     ((\<exists>s. f (Deployment, GetNamespace r, ConsoleUIDeploymentName) = Some s \<and>
         deployment_current True (GenerateConsoleUIDeployment r cr) s) \<and>
      (\<exists>s. f (Service, GetNamespace r, ConsoleUIServiceName) = Some s \<and>
         service_current (GenerateConsoleUIService r cr) s) \<and>
      (\<exists>ca s. console_ca r cr f = Some ca \<and> f (ConsolePlugin, [], ConsoleUIPluginName) = Some s \<and>
         k_payload s = k_payload (console_plugin_object r cr ca)) \<and>
      ConsoleUIPluginName \<in> set (plugins_in f))"

lemma settles_console_plugin:
  assumes "api_ok r v"
  shows "settles v (insert (ConsolePlugin, [], ConsoleUIPluginName) (console_ca_keys r cr))
     (\<lambda>f. \<exists>ca s. console_ca r cr f = Some ca \<and> f (ConsolePlugin, [], ConsoleUIPluginName) = Some s \<and>
        k_payload s = k_payload (console_plugin_object r cr ca))
     (reconcileConsoleUIPlugin r cr)"
proof -
  let ?D = "\<lambda>f. map_option (console_plugin_object r cr) (console_ca r cr f)"
  let ?k = "(ConsolePlugin, [], ConsoleUIPluginName)"
  have "settles v ({?k} \<union> console_ca_keys r cr)
      (\<lambda>f. \<exists>d. ?D f = Some d \<and> (\<exists>s. f ?k = Some s \<and> k_payload s = k_payload d))
      (reconcileConsoleUIPlugin r cr)"
    unfolding reconcileConsoleUIPlugin_def
  proof (rule settles_generated)
    fix f :: "okey \<Rightarrow> kobject option" and d assume "?D f = Some d"
    then have "key_of d = ?k" "m_name (k_meta d) = ConsoleUIPluginName"
      by (auto simp: console_plugin_object_def key_of_def set_controller_def new_meta_def)
    then show "settles v {?k} (\<lambda>f. \<exists>s. f ?k = Some s \<and> k_payload s = k_payload d)
        (ReconcileConsolePluginCR r d)"
      using plugin_cr.settles_recon [OF assms, of d] by simp
  next
    show "?D f = ?D g" if "\<forall>k \<in> console_ca_keys r cr. f k = g k" for f g
      using that by (auto simp: console_ca_def console_ca_keys_def split: option.splits)
  qed (use GenerateConsoleUIPlugin_run [OF assms] in \<open>auto simp: console_ca_keys_def split: option.splits\<close>)
  moreover have "(\<lambda>f. \<exists>d. ?D f = Some d \<and> (\<exists>s. f ?k = Some s \<and> k_payload s = k_payload d)) =
      (\<lambda>f. \<exists>ca s. console_ca r cr f = Some ca \<and> f ?k = Some s \<and>
        k_payload s = k_payload (console_plugin_object r cr ca))"
    by (auto simp: fun_eq_iff)
  ultimately show ?thesis by simp
qed

lemma settles_console_phase2:
  assumes "api_ok r v" "runtime_ok r"
  shows "settles v ({(Deployment, GetNamespace r, ConsoleUIDeploymentName),
      (Service, GetNamespace r, ConsoleUIServiceName), (ConsolePlugin, [], ConsoleUIPluginName),
      console_key} \<union> console_ca_keys r cr) (console_settled r cr)
    (ReconcileConsoleUIDeploymentAndPlugin r cr)"
proof -
  let ?D = "GenerateConsoleUIDeployment r cr" and ?S = "GenerateConsoleUIService r cr"
  let ?specs = "[({key_of ?D}, \<lambda>f. \<exists>s. f (key_of ?D) = Some s \<and> deployment_current True ?D s),
     ({key_of ?S}, \<lambda>f. \<exists>s. f (key_of ?S) = Some s \<and> service_current ?S s),
     ({}, \<lambda>f. True),
     (insert (ConsolePlugin, [], ConsoleUIPluginName) (console_ca_keys r cr),
      \<lambda>f. \<exists>ca s. console_ca r cr f = Some ca \<and>
        f (ConsolePlugin, [], ConsoleUIPluginName) = Some s \<and>
        k_payload s = k_payload (console_plugin_object r cr ca)),
     ({console_key}, \<lambda>f. ConsoleUIPluginName \<in> set (plugins_in f))] :: task_spec list"
  have kD: "key_of ?D = (Deployment, GetNamespace r, ConsoleUIDeploymentName)"
    by (simp add: GenerateConsoleUIDeployment_def console_deployment_complete Let_def)
  have kS: "key_of ?S = (Service, GetNamespace r, ConsoleUIServiceName)"
    by (simp add: GenerateConsoleUIService_def key_of_def set_controller_def new_meta_def)
  have dep: "settles v {key_of ?D} (\<lambda>f. \<exists>s. f (key_of ?D) = Some s \<and> deployment_current True ?D s)
      (ReconcileConsoleUIDeployment r cr)"
    unfolding ReconcileConsoleUIDeployment_def RestartConsoleUI_def
    by (rule settles_plugin_deployment [OF assms(1)])
      (simp_all add: GenerateConsoleUIDeployment_def Let_def console_deployment_complete)
  have svc: "settles v {key_of ?S} (\<lambda>f. \<exists>s. f (key_of ?S) = Some s \<and> service_current ?S s)
      (reconcileConsoleUIService r cr)"
    unfolding reconcileConsoleUIService_def
    using plugin_svc.settles_recon [OF assms(1), of ?S] console_service_complete by blast
  have "disjoint_specs ?specs"
    by (auto simp: disjoint_specs_def kD kS console_key_def console_ca_keys_def split: option.splits)
  note phase = settles_RunReconcileTasks [OF _ this, of v r cr]
  have "settles v (\<Union> (fst ` set ?specs)) (\<lambda>f. \<forall>(K, G) \<in> set ?specs. G f)
      (ReconcileConsoleUIDeploymentAndPlugin r cr)"
    unfolding ReconcileConsoleUIDeploymentAndPlugin_def
    by (rule phase) (use settles_console_plugin [OF assms(1), of cr] in
        \<open>simp add: dep svc settles_wait_tls [OF assms] settles_activate [OF assms]
           reconcileConsoleTLSSecret_def activateConsoleUI_def\<close>)
  moreover have "\<Union> (fst ` set ?specs) = {(Deployment, GetNamespace r, ConsoleUIDeploymentName),
      (Service, GetNamespace r, ConsoleUIServiceName), (ConsolePlugin, [], ConsoleUIPluginName),
      console_key} \<union> console_ca_keys r cr"
    by (auto simp: kD kS)
  moreover have "(\<lambda>f. \<forall>(K, G) \<in> set ?specs. G f) = console_settled r cr"
    by (auto simp: fun_eq_iff console_settled_def kD kS)
  ultimately show ?thesis by simp
qed

text \<open>
  (C14) The second phase of the console plugin converges: after a successful run the Deployment,
  the Service, the ConsolePlugin (with the certificate of the configured TLS secret) and the
  console's plugin list are as desired, and running the phase again writes nothing. Outside these
  objects and the TLS secret it reads, nothing is ever touched, also when a task fails.
\<close>

theorem console_phase2_converges:
  assumes "api_ok r v" "runtime_ok r"
    "run_state (ReconcileConsoleUIDeploymentAndPlugin r cr) w = (e, w1)"
    "run_state (ReconcileConsoleUIDeploymentAndPlugin r cr) w1 = (e', w2)"
  shows "(e = None \<longrightarrow> console_settled r cr (v w1) \<and> v w2 = v w1) \<and>
    (\<forall>k. k \<notin> {(Deployment, GetNamespace r, ConsoleUIDeploymentName),
      (Service, GetNamespace r, ConsoleUIServiceName), (ConsolePlugin, [], ConsoleUIPluginName),
      console_key} \<union> console_ca_keys r cr \<longrightarrow> v w1 k = v w k)"
proof -
  note s = settles_console_phase2 [OF assms(1,2), of cr]
  note d = settlesD [OF s assms(3)]
  have "v w2 = v w1" if "e = None" using settles_twice [OF s _ assms(4)] assms(3) that by blast
  then show ?thesis using d(1,2) by blast
qed

theorem console_phase2_converges_witness:
  defines "r \<equiv> mem_reconciler (no_options ''ns'')"
  shows "\<exists>e w1. run_state (ReconcileConsoleUIDeploymentAndPlugin r (blank_cr [])) fmempty = (e, w1) \<and>
    mem_view w1 (Secret, ''ns'', ''x'') = None"
proof -
  obtain e w1 e' w2 where
    run: "run_state (ReconcileConsoleUIDeploymentAndPlugin r (blank_cr [])) fmempty = (e, w1)"
      "run_state (ReconcileConsoleUIDeploymentAndPlugin r (blank_cr [])) w1 = (e', w2)"
    by (metis surj_pair)
  have "console_ca_keys r (blank_cr []) = {}"
    by (simp add: console_ca_keys_def tls_secret_name_def blank_cr_def blank_ols_def)
  then show ?thesis
    using console_phase2_converges [OF mem_reconciler_ok mem_runtime_ok run [unfolded r_def]] run
    by (auto simp: r_def console_key_def mem_view_def)
qed

end
