(* ===== verification/Agentic_Console.thy ===== *)
theory Agentic_Console
  imports Console_UI
begin

text \<open>
  The agentic console plugin operand (\<open>internal/controller/agenticconsole\<close>): generators, the two
  phases and the removal, on the same shared reconcilers as the console plugin.
\<close>

section \<open>Generated objects\<close>

definition GenerateAgenticConsoleUILabels :: gmap where
  "GenerateAgenticConsoleUILabels = fmap_of_list
     [(''app.kubernetes.io/name'', AgenticConsoleUIPluginName),
      (''app.kubernetes.io/component'', ''console''),
      (''app.kubernetes.io/managed-by'', ''lightspeed-operator'')]"

definition agentic_nginx_config :: string where
  "agentic_nginx_config = join_lines
    [''pid /tmp/nginx/nginx.pid;'',
     ''error_log /dev/stdout info;'',
     ''events {}'',
     ''http {'',
     ''  client_body_temp_path /tmp/nginx/client_body;'',
     ''  proxy_temp_path       /tmp/nginx/proxy;'',
     ''  fastcgi_temp_path     /tmp/nginx/fastcgi;'',
     ''  uwsgi_temp_path       /tmp/nginx/uwsgi;'',
     ''  scgi_temp_path        /tmp/nginx/scgi;'',
     ''  include               /etc/nginx/mime.types;'',
     ''  default_type          application/octet-stream;'',
     ''  keepalive_timeout     65;'',
     ''  server {'',
     ''    listen              9443 ssl;'',
     ''    listen              [::]:9443 ssl;'',
     ''    ssl_certificate     /var/cert/tls.crt;'',
     ''    ssl_certificate_key /var/cert/tls.key;'',
     ''    root                /usr/share/nginx/html;'',
     ''    access_log          /dev/stdout;'',
     ''  }'',
     ''}'',
     []]"

definition GenerateAgenticConsoleUIConfigMap :: "'w reconciler \<Rightarrow> OLSConfig \<Rightarrow> kobject" where
  "GenerateAgenticConsoleUIConfigMap r cr =
     GenerateConsolePluginNginxConfigMap r cr AgenticConsoleUIConfigMapName
       GenerateAgenticConsoleUILabels agentic_nginx_config"

text \<open>\<open>intstr.FromInt32(AgenticConsoleUIHTTPSPort)\<close>, the port 9443.\<close>

definition agentic_target_port :: string where
  "agentic_target_port = ''9443''"

definition agentic_selector :: gmap where
  "agentic_selector = fmap_of_list [(''app.kubernetes.io/name'', AgenticConsoleUIPluginName)]"

definition GenerateAgenticConsoleUIService :: "'w reconciler \<Rightarrow> OLSConfig \<Rightarrow> kobject" where
  "GenerateAgenticConsoleUIService r cr = set_controller cr \<lparr>
     k_meta = (new_meta (GetNamespace r) AgenticConsoleUIServiceName GenerateAgenticConsoleUILabels)
       \<lparr>m_annotations := Some (fmap_of_list
          [(ServingCertSecretAnnotationKey, AgenticConsoleUIServiceCertSecretName)])\<rparr>,
     k_payload = PService \<lparr>ss_selector = agentic_selector,
       ss_ports = [\<lparr>sp_name = ''https'', sp_protocol = ''TCP'', sp_port = AgenticConsoleUIHTTPSPort,
         sp_target = agentic_target_port\<rparr>], ss_cluster_ip = []\<rparr>\<rparr>"

definition GenerateAgenticConsoleUIPlugin :: "'w reconciler \<Rightarrow> OLSConfig \<Rightarrow> kobject" where
  "GenerateAgenticConsoleUIPlugin r cr = set_controller cr \<lparr>
     k_meta = new_meta [] AgenticConsoleUIPluginName GenerateAgenticConsoleUILabels,
     k_payload = PConsolePlugin \<lparr>pl_display = AgenticConsoleUIPluginDisplayName,
       pl_backend = (AgenticConsoleUIServiceName, GetNamespace r, AgenticConsoleUIHTTPSPort, ''/''),
       pl_i18n = ''Preload'', pl_proxies = []\<rparr>\<rparr>"

definition GenerateAgenticConsoleUINetworkPolicy :: "'w reconciler \<Rightarrow> OLSConfig \<Rightarrow> kobject" where
  "GenerateAgenticConsoleUINetworkPolicy r cr = GenerateConsolePluginNetworkPolicy r cr
     AgenticConsoleUINetworkPolicyName GenerateAgenticConsoleUILabels AgenticConsoleUIHTTPSPort"

definition GenerateAgenticConsoleUIServiceAccount :: "'w reconciler \<Rightarrow> OLSConfig \<Rightarrow> kobject" where
  "GenerateAgenticConsoleUIServiceAccount r cr =
     GenerateServiceAccount r cr AgenticConsoleUIServiceAccountName"

definition GenerateAgenticConsoleUIDeployment :: "'w reconciler \<Rightarrow> OLSConfig \<Rightarrow> kobject" where
  "GenerateAgenticConsoleUIDeployment r cr =
     (let cfg = dc_AgenticConsoleContainer (o_DeploymentConfig (s_OLSConfig (cr_Spec cr))) in
      GenerateConsolePluginDeployment r cr \<lparr>co_Name = AgenticConsoleUIDeploymentName,
        co_Labels = GenerateAgenticConsoleUILabels, co_SelectorLabels = agentic_selector,
        co_ServiceAccountName = AgenticConsoleUIServiceAccountName,
        co_ContainerName = AgenticConsoleUIContainerName, co_Image = AgenticConsoleUIImage (Options r),
        co_Port = AgenticConsoleUIHTTPSPort, co_PortName = [], co_CertVolumeName = ''cert'',
        co_CertSecretName = AgenticConsoleUIServiceCertSecretName, co_NginxVolumeName = ''nginx-conf'',
        co_NginxConfigMapName = AgenticConsoleUIConfigMapName, co_NginxTempVolumeName = ''nginx-tmp'',
        co_Resources = Some (GetResourcesOrDefault (cf_Resources cfg)
          DefaultConsolePluginResourceRequirements),
        co_Env = [], co_DeploymentConfig = cfg\<rparr>)"

section \<open>Tasks\<close>

definition reconcileAgenticConsoleUIConfigMap :: "'w reconcile_fn" where
  "reconcileAgenticConsoleUIConfigMap r cr =
     ReconcileConsolePluginConfigMap r (GenerateAgenticConsoleUIConfigMap r cr)"

definition reconcileAgenticConsoleUIService :: "'w reconcile_fn" where
  "reconcileAgenticConsoleUIService r cr =
     ReconcileConsolePluginService r (GenerateAgenticConsoleUIService r cr)"

definition RestartAgenticConsoleUI ::
  "'w reconciler \<Rightarrow> kobject option \<Rightarrow> ('w, goerr option) io" where
  "RestartAgenticConsoleUI r given =
     RestartConsolePluginDeployment r AgenticConsoleUIDeploymentName given"

definition ReconcileAgenticConsoleUIDeployment :: "'w reconcile_fn" where
  "ReconcileAgenticConsoleUIDeployment r cr =
     ReconcileConsolePluginDeployment r (GenerateAgenticConsoleUIDeployment r cr)
       (\<lambda>ob. RestartAgenticConsoleUI r (Some ob))"

definition reconcileAgenticConsoleUIPlugin :: "'w reconcile_fn" where
  "reconcileAgenticConsoleUIPlugin r cr =
     ReconcileConsolePluginCR r (GenerateAgenticConsoleUIPlugin r cr)"

definition activateAgenticConsoleUI :: "'w reconcile_fn" where
  "activateAgenticConsoleUI r cr = ActivateConsolePlugin r AgenticConsoleUIPluginName"

definition RemoveAgenticConsole :: "'w reconciler \<Rightarrow> ('w, goerr option) io" where
  "RemoveAgenticConsole r = RemoveConsolePlugin r AgenticConsoleUIPluginName"

definition reconcileAgenticConsoleTLSSecret :: "'w reconcile_fn" where
  "reconcileAgenticConsoleTLSSecret r cr =
     WaitForConsolePluginTLSSecret r AgenticConsoleUIServiceCertSecretName"

definition reconcileAgenticConsoleNetworkPolicy :: "'w reconcile_fn" where
  "reconcileAgenticConsoleNetworkPolicy r cr =
     ReconcileConsolePluginNetworkPolicy r (GenerateAgenticConsoleUINetworkPolicy r cr)"

definition reconcileAgenticConsoleUIServiceAccount :: "'w reconcile_fn" where
  "reconcileAgenticConsoleUIServiceAccount r cr =
     ReconcileConsolePluginServiceAccount r (GenerateAgenticConsoleUIServiceAccount r cr)"

definition ReconcileAgenticConsoleUIResources :: "'w reconcile_fn" where
  "ReconcileAgenticConsoleUIResources r cr =
     RunReconcileTasks r cr ''reconcileAgenticConsoleUIResources''
     [(''reconcile Agentic Console Plugin ConfigMap'', reconcileAgenticConsoleUIConfigMap),
      (''reconcile Agentic Console Plugin NetworkPolicy'', reconcileAgenticConsoleNetworkPolicy),
      (''reconcile Agentic Console Plugin Service Account'', reconcileAgenticConsoleUIServiceAccount)]
     True"

definition ReconcileAgenticConsoleUIDeploymentAndPlugin :: "'w reconcile_fn" where
  "ReconcileAgenticConsoleUIDeploymentAndPlugin r cr =
     RunReconcileTasks r cr ''reconcileAgenticConsoleUIDeploymentAndPlugin''
     [(''reconcile Agentic Console Plugin Deployment'', ReconcileAgenticConsoleUIDeployment),
      (''reconcile Agentic Console Plugin Service'', reconcileAgenticConsoleUIService),
      (''reconcile Agentic Console Plugin TLS Certs'', reconcileAgenticConsoleTLSSecret),
      (''reconcile Agentic Console Plugin'', reconcileAgenticConsoleUIPlugin),
      (''activate Agentic Console Plugin'', activateAgenticConsoleUI)] False"

definition ReconcileAgenticConsoleUI :: "'w reconcile_fn" where
  "ReconcileAgenticConsoleUI r cr = and_then (ReconcileAgenticConsoleUIResources r cr)
     (ReconcileAgenticConsoleUIDeploymentAndPlugin r cr)"

end
