(* ===== verification/Alerts_Adapter.thy ===== *)
theory Alerts_Adapter
  imports Console_UI
begin

text \<open>
  The alerts adapter operand (\<open>internal/controller/alertsadapter\<close>): its generators, the resource
  phase (which removes the operand when no ConfigMap is referenced), the Deployment phase, the
  removal with its tolerance for the OpenShift admission webhook, and restarts.
\<close>

section \<open>Generated objects\<close>

definition GenerateServiceAccount_aa :: "'w reconciler \<Rightarrow> OLSConfig \<Rightarrow> kobject" where
  "GenerateServiceAccount_aa r cr = GenerateServiceAccount r cr AlertsAdapterServiceAccountName"

definition GenerateAgenticRunsClusterRole :: "'w reconciler \<Rightarrow> OLSConfig \<Rightarrow> kobject" where
  "GenerateAgenticRunsClusterRole r cr = set_controller cr \<lparr>
     k_meta = new_meta [] AlertsAdapterAgenticRunsClusterRoleName GenerateAlertsAdapterSelectorLabels,
     k_payload = PClusterRole [\<lparr>rr_groups = [''agentic.openshift.io''], rr_resources = [''agenticruns''],
       rr_names = [], rr_verbs = [''create'', ''list'', ''get'']\<rparr>]\<rparr>"

definition adapter_subject :: "'w reconciler \<Rightarrow> rbac_subject" where
  "adapter_subject r = \<lparr>su_kind = ''ServiceAccount'', su_name = AlertsAdapterServiceAccountName,
     su_namespace = GetNamespace r\<rparr>"

definition GenerateAgenticRunsClusterRoleBinding :: "'w reconciler \<Rightarrow> OLSConfig \<Rightarrow> kobject" where
  "GenerateAgenticRunsClusterRoleBinding r cr = set_controller cr \<lparr>
     k_meta = new_meta [] AlertsAdapterAgenticRunsClusterRoleBindingName GenerateAlertsAdapterSelectorLabels,
     k_payload = PClusterRoleBinding [adapter_subject r]
       (''ClusterRole'', AlertsAdapterAgenticRunsClusterRoleName)\<rparr>"

definition GenerateAlertmanagerRoleBinding :: "'w reconciler \<Rightarrow> OLSConfig \<Rightarrow> kobject" where
  "GenerateAlertmanagerRoleBinding r cr = set_controller cr \<lparr>
     k_meta = new_meta OpenShiftMonitoringNamespace AlertsAdapterAlertmanagerRoleBindingName
       GenerateAlertsAdapterSelectorLabels,
     k_payload = PRoleBinding [adapter_subject r] (''Role'', MonitoringAlertmanagerViewRoleName)\<rparr>"

definition GenerateNetworkPolicy_aa :: "'w reconciler \<Rightarrow> OLSConfig \<Rightarrow> kobject" where
  "GenerateNetworkPolicy_aa r cr = set_controller cr \<lparr>
     k_meta = new_meta (GetNamespace r) AlertsAdapterNetworkPolicyName GenerateAlertsAdapterSelectorLabels,
     k_payload = PNetworkPolicy \<lparr>np_pods = \<lparr>ls_labels = GenerateAlertsAdapterSelectorLabels, ls_exprs = []\<rparr>,
       np_ingress = [], np_egress = [], np_types = [''Ingress'']\<rparr>\<rparr>"

text \<open>\<open>Inr None\<close> when the ConfigMap does not exist.\<close>

definition getUserConfigMap :: "'w reconciler \<Rightarrow> OLSConfig \<Rightarrow> ('w, goerr + kobject option) io" where
  "getUserConfigMap r cr = (case AlertsAdapterConfigMapRef cr of
      None \<Rightarrow> ret (Inl (newerr (ErrGetAlertsAdapterConfigMap @ '': alerts adapter configMapRef is not set'')))
    | Some name \<Rightarrow> do {
        x \<leftarrow> cl_get r (ConfigMap, GetNamespace r, name);
        ret (case x of
           Inl e \<Rightarrow> (if IsNotFound e then Inr None else Inl (wrapf ErrGetAlertsAdapterConfigMap e))
         | Inr cm \<Rightarrow> Inr (Some cm)) })"

definition getAlertsAdapterResources :: "OLSConfig \<Rightarrow> resources" where
  "getAlertsAdapterResources cr = GetResourcesOrDefault
     (cf_Resources (aa_Config (dc_AlertsAdapter (o_DeploymentConfig (s_OLSConfig (cr_Spec cr))))))
     \<lparr>rs_limits = fmempty,
      rs_requests = fmap_of_list [(''cpu'', 10), (''memory'', 50 * 1024 * 1024 * 1000)], rs_claims = []\<rparr>"

text \<open>The container and the Deployment, given the name of the mounted ConfigMap, if any.\<close>

definition adapter_container :: "'w reconciler \<Rightarrow> OLSConfig \<Rightarrow> string option \<Rightarrow> container" where
  "adapter_container r cr cm = \<lparr>c_name = AlertsAdapterContainerName,
     c_image = AlertsAdapterImage (Options r), c_ports = [],
     c_env = GetProxyEnvVars r @ [plain_env AlertsAdapterAlertmanagerURLEnvVar AlertsAdapterAlertmanagerURL,
       \<lparr>ev_name = ''POD_NAMESPACE'', ev_value = [], ev_from = Some (FieldRef ''metadata.namespace'')\<rparr>],
     c_command = [], c_args = [],
     c_mounts = mount TmpVolumeName TmpVolumeMountPath False #
       (if cm = None then [] else [mount AlertsAdapterConfigVolumeName AlertsAdapterConfigVolumeMountPath True]),
     c_resources = getAlertsAdapterResources cr, c_secctx = Some RestrictedContainerSecurityContext,
     c_pull = ''Always'', c_liveness = None, c_readiness = None, c_startup = None, c_lifecycle = None\<rparr>"

definition adapter_deployment :: "'w reconciler \<Rightarrow> OLSConfig \<Rightarrow> string option \<Rightarrow> kobject" where
  "adapter_deployment r cr cm =
     deployment_object r cr AlertsAdapterDeploymentName GenerateAlertsAdapterSelectorLabels
       (ApplyPodDeploymentConfig (zero_deployment\<lparr>
          d_selector := Some GenerateAlertsAdapterSelectorLabels,
          d_tmpl_labels := GenerateAlertsAdapterSelectorLabels,
          d_pod := zero_pod\<lparr>po_service_account := AlertsAdapterServiceAccountName,
            po_secctx := Some restricted_pod, po_containers := [adapter_container r cr cm],
            po_volumes := emptydir_volume TmpVolumeName # (case cm of None \<Rightarrow> []
              | Some n \<Rightarrow> [\<lparr>v_name = AlertsAdapterConfigVolumeName, v_secret = None,
                  v_configmap = Some \<lparr>vs_name = n, vs_mode = None, vs_items = []\<rparr>,
                  v_emptydir = None, v_pvc = None, v_sizelimit = None\<rparr>])\<rparr>\<rparr>)
        (aa_Config (dc_AlertsAdapter (o_DeploymentConfig (s_OLSConfig (cr_Spec cr))))) False)"

definition GenerateDeployment_aa :: "'w reconciler \<Rightarrow> OLSConfig \<Rightarrow> ('w, goerr + kobject) io" where
  "GenerateDeployment_aa r cr = (case AlertsAdapterConfigMapRef cr of
      None \<Rightarrow> ret (Inr (adapter_deployment r cr None))
    | Some _ \<Rightarrow> do {
        x \<leftarrow> getUserConfigMap r cr;
        ret (case x of
           Inl e \<Rightarrow> Inl (wrapf ErrGenerateAlertsAdapterDeployment e)
         | Inr cm \<Rightarrow> Inr (adapter_deployment r cr (map_option (\<lambda>ob. m_name (k_meta ob)) cm))) })"

section \<open>Reconcilers of single objects\<close>

definition reconcileServiceAccount_aa :: "'w reconcile_fn" where
  "reconcileServiceAccount_aa r cr =
     create_missing r ErrGetAlertsAdapterServiceAccount ErrCreateAlertsAdapterServiceAccount
       (ServiceAccount, GetNamespace r, AlertsAdapterServiceAccountName) (GenerateServiceAccount_aa r cr)"

definition reconcileAgenticRunsClusterRole :: "'w reconcile_fn" where
  "reconcileAgenticRunsClusterRole r cr =
     create_missing r ErrGetAlertsAdapterAgenticRunsClusterRole ErrCreateAlertsAdapterAgenticRunsClusterRole
       (ClusterRole, [], AlertsAdapterAgenticRunsClusterRoleName) (GenerateAgenticRunsClusterRole r cr)"

definition reconcileAgenticRunsClusterRoleBinding :: "'w reconcile_fn" where
  "reconcileAgenticRunsClusterRoleBinding r cr =
     create_missing r ErrGetAlertsAdapterAgenticRunsClusterRoleBinding
       ErrCreateAlertsAdapterAgenticRunsClusterRoleBinding
       (ClusterRoleBinding, [], AlertsAdapterAgenticRunsClusterRoleBindingName)
       (GenerateAgenticRunsClusterRoleBinding r cr)"

definition reconcileAlertmanagerRoleBinding :: "'w reconcile_fn" where
  "reconcileAlertmanagerRoleBinding r cr =
     create_missing r ErrGetAlertsAdapterAlertmanagerRoleBinding ErrCreateAlertsAdapterAlertmanagerRoleBinding
       (RoleBinding, OpenShiftMonitoringNamespace, AlertsAdapterAlertmanagerRoleBindingName)
       (GenerateAlertmanagerRoleBinding r cr)"

definition reconcileNetworkPolicy_aa :: "'w reconcile_fn" where
  "reconcileNetworkPolicy_aa r cr =
     reconcile_labelled r ErrGetAlertsAdapterNetworkPolicy ErrCreateAlertsAdapterNetworkPolicy
       ErrUpdateAlertsAdapterNetworkPolicy (NetworkPolicy, GetNamespace r, AlertsAdapterNetworkPolicyName)
       (GenerateNetworkPolicy_aa r cr)"

definition RestartAlertsAdapter :: "'w reconciler \<Rightarrow> kobject option \<Rightarrow> ('w, goerr option) io" where
  "RestartAlertsAdapter r given = restart_named r AlertsAdapterDeploymentName given"

definition reconcileDeployment_aa :: "'w reconcile_fn" where
  "reconcileDeployment_aa r cr = try_or (GenerateDeployment_aa r cr)
     (wrapf ErrGenerateAlertsAdapterDeployment) (\<lambda>desired.
       fetch r (Deployment, GetNamespace r, AlertsAdapterDeploymentName)
         (create_as r ErrCreateAlertsAdapterDeployment desired)
         (\<lambda>e. ret (Some (wrapf ErrGetAlertsAdapterDeployment e)))
         (update_deployment (dep_of desired) True (\<lambda>ob. do {
            e \<leftarrow> RestartAlertsAdapter r (Some ob);
            ret (map_option (wrapf ErrUpdateAlertsAdapterDeployment) e) })))"

section \<open>Deletions\<close>

definition deleteDeployment_aa :: "'w reconciler \<Rightarrow> ('w, goerr option) io" where
  "deleteDeployment_aa r = delete_object r ErrGetAlertsAdapterDeployment
     ''failed to delete alerts adapter deployment'' (Deployment, GetNamespace r, AlertsAdapterDeploymentName)"

definition deleteNetworkPolicy_aa :: "'w reconciler \<Rightarrow> ('w, goerr option) io" where
  "deleteNetworkPolicy_aa r = delete_object r ErrGetAlertsAdapterNetworkPolicy
     ''failed to delete alerts adapter network policy''
     (NetworkPolicy, GetNamespace r, AlertsAdapterNetworkPolicyName)"

definition deleteConfigRoleBinding :: "'w reconciler \<Rightarrow> ('w, goerr option) io" where
  "deleteConfigRoleBinding r = delete_object r ErrGetAlertsAdapterConfigRoleBinding
     ''failed to delete alerts adapter config RoleBinding''
     (RoleBinding, GetNamespace r, AlertsAdapterConfigRoleBindingName)"

definition deleteConfigRole :: "'w reconciler \<Rightarrow> ('w, goerr option) io" where
  "deleteConfigRole r = delete_object r ErrGetAlertsAdapterConfigRole
     ''failed to delete alerts adapter config Role'' (Role, GetNamespace r, AlertsAdapterConfigRoleName)"

definition removeLegacyConfigRoleBinding :: "'w reconcile_fn" where
  "removeLegacyConfigRoleBinding r cr = deleteConfigRoleBinding r"

definition removeLegacyConfigRole :: "'w reconcile_fn" where
  "removeLegacyConfigRole r cr = deleteConfigRole r"

definition deleteServiceAccount_aa :: "'w reconciler \<Rightarrow> ('w, goerr option) io" where
  "deleteServiceAccount_aa r = delete_object r ErrGetAlertsAdapterServiceAccount
     ''failed to delete alerts adapter service account''
     (ServiceAccount, GetNamespace r, AlertsAdapterServiceAccountName)"

definition deleteAlertmanagerRoleBinding :: "'w reconciler \<Rightarrow> ('w, goerr option) io" where
  "deleteAlertmanagerRoleBinding r = delete_object r ErrGetAlertsAdapterAlertmanagerRoleBinding
     ''failed to delete alerts adapter Alertmanager RoleBinding''
     (RoleBinding, OpenShiftMonitoringNamespace, AlertsAdapterAlertmanagerRoleBindingName)"

definition isOpenShiftManagedCRBDeleteDenied :: "goerr option \<Rightarrow> bool" where
  "isOpenShiftManagedCRBDeleteDenied e = (case e of
      None \<Rightarrow> False
    | Some err \<Rightarrow>
        (if \<not> IsForbidden err then False
         else str_contains (err_msg err) ''clusterrolebindings-validation.managed.openshift.io'' \<or>
           (str_contains (err_msg err) ''Deleting ClusterRoleBinding'' \<and>
            str_contains (err_msg err) ''is not allowed'')))"

definition deleteAgenticRunsClusterRole :: "'w reconciler \<Rightarrow> ('w, goerr option) io" where
  "deleteAgenticRunsClusterRole r = delete_object r ErrGetAlertsAdapterAgenticRunsClusterRole
     ''failed to delete alerts adapter agenticruns ClusterRole''
     (ClusterRole, [], AlertsAdapterAgenticRunsClusterRoleName)"

definition deleteAgenticRunsClusterRBAC :: "'w reconciler \<Rightarrow> ('w, goerr option) io" where
  "deleteAgenticRunsClusterRBAC r =
     fetch r (ClusterRoleBinding, [], AlertsAdapterAgenticRunsClusterRoleBindingName)
       (deleteAgenticRunsClusterRole r)
       (\<lambda>e. ret (Some (wrapf ErrGetAlertsAdapterAgenticRunsClusterRoleBinding e)))
       (\<lambda>rb. do {
          e \<leftarrow> cl_delete r (key_of rb);
          case e of
            None \<Rightarrow> deleteAgenticRunsClusterRole r
          | Some err \<Rightarrow>
              (if IsNotFound err then deleteAgenticRunsClusterRole r
               else if isOpenShiftManagedCRBDeleteDenied e then deleteAgenticRunsClusterRole r
               else ret (Some (wrapf
                 ''failed to delete alerts adapter agenticruns ClusterRoleBinding'' err))) })"

definition RemoveAlertsAdapter :: "'w reconciler \<Rightarrow> ('w, goerr option) io" where
  "RemoveAlertsAdapter r = run_deletes r
     [(''delete alerts adapter deployment'', deleteDeployment_aa),
      (''delete alerts adapter network policy'', deleteNetworkPolicy_aa),
      (''delete alerts adapter config RoleBinding'', deleteConfigRoleBinding),
      (''delete alerts adapter config Role'', deleteConfigRole),
      (''delete alerts adapter service account'', deleteServiceAccount_aa),
      (''delete alerts adapter Alertmanager RoleBinding'', deleteAlertmanagerRoleBinding),
      (''delete alerts adapter agenticruns cluster RBAC'', deleteAgenticRunsClusterRBAC)]"

section \<open>Phases\<close>

definition alerts_adapter_tasks :: "'w ReconcileTask list" where
  "alerts_adapter_tasks =
     [(''reconcile alerts adapter ServiceAccount'', reconcileServiceAccount_aa),
      (''reconcile alerts adapter agenticruns ClusterRole'', reconcileAgenticRunsClusterRole),
      (''reconcile alerts adapter agenticruns ClusterRoleBinding'', reconcileAgenticRunsClusterRoleBinding),
      (''remove legacy alerts adapter config RoleBinding'', removeLegacyConfigRoleBinding),
      (''remove legacy alerts adapter config Role'', removeLegacyConfigRole),
      (''reconcile alerts adapter Alertmanager RoleBinding'', reconcileAlertmanagerRoleBinding),
      (''reconcile alerts adapter NetworkPolicy'', reconcileNetworkPolicy_aa)]"

definition ReconcileAlertsAdapterResources :: "'w reconcile_fn" where
  "ReconcileAlertsAdapterResources r cr = (case AlertsAdapterConfigMapRef cr of
      None \<Rightarrow> RemoveAlertsAdapter r
    | Some _ \<Rightarrow> run_named r cr alerts_adapter_tasks)"

definition ReconcileAlertsAdapterDeployment :: "'w reconcile_fn" where
  "ReconcileAlertsAdapterDeployment r cr = do {
     e \<leftarrow> reconcileDeployment_aa r cr;
     ret (map_option (wrapf ''failed to reconcile alerts adapter deployment'') e) }"

section \<open>Enabled: the resources converge\<close>

lemma adapter_keys:
  "key_of (GenerateServiceAccount_aa r cr) = (ServiceAccount, GetNamespace r, AlertsAdapterServiceAccountName)"
  "key_of (GenerateAgenticRunsClusterRole r cr) = (ClusterRole, [], AlertsAdapterAgenticRunsClusterRoleName)"
  "key_of (GenerateAgenticRunsClusterRoleBinding r cr) =
     (ClusterRoleBinding, [], AlertsAdapterAgenticRunsClusterRoleBindingName)"
  "key_of (GenerateAlertmanagerRoleBinding r cr) =
     (RoleBinding, OpenShiftMonitoringNamespace, AlertsAdapterAlertmanagerRoleBindingName)"
  "key_of (GenerateNetworkPolicy_aa r cr) = (NetworkPolicy, GetNamespace r, AlertsAdapterNetworkPolicyName)"
  by (simp_all add: GenerateServiceAccount_aa_def GenerateServiceAccount_def
      GenerateAgenticRunsClusterRole_def GenerateAgenticRunsClusterRoleBinding_def
      GenerateAlertmanagerRoleBinding_def GenerateNetworkPolicy_aa_def key_of_def
      set_controller_def new_meta_def)

text \<open>What the resource phase of an enabled adapter establishes, object by object.\<close>

definition adapter_specs :: "'w reconciler \<Rightarrow> OLSConfig \<Rightarrow> task_spec list" where
  "adapter_specs r cr =
     [({(ServiceAccount, GetNamespace r, AlertsAdapterServiceAccountName)},
        \<lambda>f. f (ServiceAccount, GetNamespace r, AlertsAdapterServiceAccountName) \<noteq> None),
      ({(ClusterRole, [], AlertsAdapterAgenticRunsClusterRoleName)},
        \<lambda>f. f (ClusterRole, [], AlertsAdapterAgenticRunsClusterRoleName) \<noteq> None),
      ({(ClusterRoleBinding, [], AlertsAdapterAgenticRunsClusterRoleBindingName)},
        \<lambda>f. f (ClusterRoleBinding, [], AlertsAdapterAgenticRunsClusterRoleBindingName) \<noteq> None),
      ({(RoleBinding, GetNamespace r, AlertsAdapterConfigRoleBindingName)},
        \<lambda>f. gone (f (RoleBinding, GetNamespace r, AlertsAdapterConfigRoleBindingName))),
      ({(Role, GetNamespace r, AlertsAdapterConfigRoleName)},
        \<lambda>f. gone (f (Role, GetNamespace r, AlertsAdapterConfigRoleName))),
      ({(RoleBinding, OpenShiftMonitoringNamespace, AlertsAdapterAlertmanagerRoleBindingName)},
        \<lambda>f. f (RoleBinding, OpenShiftMonitoringNamespace, AlertsAdapterAlertmanagerRoleBindingName) \<noteq> None),
      ({(NetworkPolicy, GetNamespace r, AlertsAdapterNetworkPolicyName)},
        \<lambda>f. \<exists>s. f (NetworkPolicy, GetNamespace r, AlertsAdapterNetworkPolicyName) = Some s \<and>
          labelled_current (GenerateNetworkPolicy_aa r cr) s)]"

lemma adapter_disjoint: "disjoint_specs (adapter_specs r cr)"
  by (simp add: disjoint_specs_def adapter_specs_def)
    (simp add: go_const)

lemma settles_adapter_resources:
  assumes "api_ok r v" "AlertsAdapterConfigMapRef cr \<noteq> None"
  shows "settles v (\<Union> (fst ` set (adapter_specs r cr))) (\<lambda>f. \<forall>(K, G) \<in> set (adapter_specs r cr). G f)
     (ReconcileAlertsAdapterResources r cr)"
proof -
  have "list_all2 (\<lambda>(n, t) (K, G). settles v K G (t r cr)) alerts_adapter_tasks (adapter_specs r cr)"
    unfolding alerts_adapter_tasks_def adapter_specs_def
    by (simp add: reconcileServiceAccount_aa_def reconcileAgenticRunsClusterRole_def
        reconcileAgenticRunsClusterRoleBinding_def removeLegacyConfigRoleBinding_def
        removeLegacyConfigRole_def deleteConfigRoleBinding_def deleteConfigRole_def
        reconcileAlertmanagerRoleBinding_def reconcileNetworkPolicy_aa_def
        settles_create_missing [OF assms(1), unfolded not_None_eq] settles_delete_object [OF assms(1)]
        settles_labelled [OF assms(1)] adapter_keys)
  from settles_run_named [OF this adapter_disjoint] show ?thesis
    using assms(2) by (auto simp: ReconcileAlertsAdapterResources_def)
qed

text \<open>
  When the alerts adapter is enabled, its resource phase converges: after a successful run
  the service account, the cluster role and binding, the Alertmanager binding exist, the network
  policy is as generated, the legacy role and binding are gone; a second run writes nothing; and
  only these seven objects are ever touched, also when tasks fail.
\<close>

theorem alerts_adapter_resources_converge:
  assumes "api_ok r v" "AlertsAdapterConfigMapRef cr \<noteq> None"
    "run_state (ReconcileAlertsAdapterResources r cr) w = (e, w1)"
    "run_state (ReconcileAlertsAdapterResources r cr) w1 = (e', w2)"
  shows "(e = None \<longrightarrow> (\<forall>(K, G) \<in> set (adapter_specs r cr). G (v w1)) \<and> v w2 = v w1) \<and>
    (\<forall>k. k \<notin> \<Union> (fst ` set (adapter_specs r cr)) \<longrightarrow> v w1 k = v w k)"
proof -
  note s = settles_adapter_resources [OF assms(1,2)]
  have "v w2 = v w1" if "e = None" using settles_twice [OF s _ assms(4)] assms(3) that by blast
  then show ?thesis using settlesD(1,2) [OF s assms(3)] by blast
qed

definition adapter_cr :: OLSConfig where
  "adapter_cr = (blank_cr [])\<lparr>cr_Spec := (cr_Spec (blank_cr []))\<lparr>s_OLSConfig := blank_ols\<lparr>o_DeploymentConfig :=
     (o_DeploymentConfig blank_ols)\<lparr>dc_AlertsAdapter := \<lparr>aa_Config = no_config, aa_ConfigMapRef = Some ''cm''\<rparr>\<rparr>\<rparr>\<rparr>\<rparr>"

theorem alerts_adapter_resources_converge_witness:
  "\<exists>e w1. run_state (ReconcileAlertsAdapterResources (mem_reconciler (no_options ''ns'')) adapter_cr) fmempty
      = (e, w1) \<and> mem_view w1 (Secret, ''ns'', ''x'') = None"
proof -
  let ?r = "mem_reconciler (no_options ''ns'')"
  obtain e w1 e' w2 where run: "run_state (ReconcileAlertsAdapterResources ?r adapter_cr) fmempty = (e, w1)"
    "run_state (ReconcileAlertsAdapterResources ?r adapter_cr) w1 = (e', w2)" by (metis surj_pair)
  have "AlertsAdapterConfigMapRef adapter_cr \<noteq> None"
    by (simp add: adapter_cr_def AlertsAdapterConfigMapRef_def)
  from alerts_adapter_resources_converge [OF mem_reconciler_ok this run] run show ?thesis
    by (auto simp: adapter_specs_def mem_view_def)
qed

section \<open>Disabled: the operand is removed\<close>

text \<open>Two worlds that agree outside the objects \<open>K\<close>, and calls that fail in such a world.\<close>

definition outside :: "('w \<Rightarrow> okey \<Rightarrow> kobject option) \<Rightarrow> okey set \<Rightarrow> 'w \<Rightarrow> 'w \<Rightarrow> bool" where
  "outside v K w w' = (\<forall>k. k \<notin> K \<longrightarrow> v w' k = v w k)"

definition get_fails :: "'w reconciler \<Rightarrow> ('w \<Rightarrow> okey \<Rightarrow> kobject option) \<Rightarrow> okey set \<Rightarrow> 'w \<Rightarrow> okey \<Rightarrow> bool" where
  "get_fails r v K w k = (\<exists>wa wb err. outside v K w wa \<and> run_state (cl_get r k) wa = (Inl err, wb) \<and> \<not> IsNotFound err)"

definition delete_fails :: "'w reconciler \<Rightarrow> ('w \<Rightarrow> okey \<Rightarrow> kobject option) \<Rightarrow> okey set \<Rightarrow> 'w \<Rightarrow> okey \<Rightarrow>
    (goerr \<Rightarrow> bool) \<Rightarrow> bool" where
  "delete_fails r v K w k P = (\<exists>wa wb err. outside v K w wa \<and> run_state (cl_delete r k) wa = (Some err, wb) \<and>
     \<not> IsNotFound err \<and> P err)"

lemma outsideD: "outside v K w w' \<Longrightarrow> k \<notin> K \<Longrightarrow> v w' k = v w k"
  unfolding outside_def by blast

lemma outside_trans: "outside v K w w1 \<Longrightarrow> outside v K w1 w2 \<Longrightarrow> outside v K w w2"
  by (simp add: outside_def)

lemma outside_mono: "outside v K w w' \<Longrightarrow> K \<subseteq> L \<Longrightarrow> outside v L w w'"
  by (auto simp: outside_def)

lemma outside_same: "v w' = v w \<Longrightarrow> outside v K w w'"
  by (simp add: outside_def)

lemma delete_object_each:
  assumes api: "api_ok r v" and run: "run_state (delete_object r eg ed k) wa = (e, wb)" and w: "outside v K w wa"
  shows "(gone (v wb k) \<or> get_fails r v K w k \<or> delete_fails r v K w k (\<lambda>_. True)) \<and>
    (if e = None then gone (v wb k) else get_fails r v K w k \<or> delete_fails r v K w k (\<lambda>_. True)) \<and>
    outside v {k} wa wb"
proof -
  have s: "e = None \<longrightarrow> gone (v wb k)" "outside v {k} wa wb"
    using settlesD [OF settles_delete_object [OF api] run] by (simp_all add: outside_def)
  have "get_fails r v K w k \<or> delete_fails r v K w k (\<lambda>_. True)" if err: "e \<noteq> None"
  proof -
    obtain x w1 where g: "run_state (cl_get r k) wa = (x, w1)" by force
    note get = api_get [OF api g]
    show ?thesis
    proof (cases x)
      case (Inl err)
      then have "\<not> IsNotFound err" using run g err by (auto simp: delete_object_def run_fetch)
      then show ?thesis using g Inl w unfolding get_fails_def by blast
    next
      case (Inr ob)
      then obtain d where d: "run_state (cl_delete r k) w1 = (d, wb)"
        and e: "e = (case d of None \<Rightarrow> None
             | Some err \<Rightarrow> (if IsNotFound err then None else Some (wrapf ed err)))"
        using run g get(3) [OF Inr] by (auto simp: delete_object_def run_fetch split: prod.splits)
      then obtain err' where "run_state (cl_delete r k) w1 = (Some err', wb)" "\<not> IsNotFound err'"
        using err by (auto split: option.splits if_splits)
      moreover have "outside v K w w1" by (rule outside_trans [OF w outside_same [OF get(1)]])
      ultimately show ?thesis unfolding delete_fails_def by blast
    qed
  qed
  then show ?thesis using s by auto
qed

text \<open>The cluster role binding may stay when OpenShift denies its deletion; the role goes all the same.\<close>

abbreviation binding_key :: okey where
  "binding_key \<equiv> (ClusterRoleBinding, [], AlertsAdapterAgenticRunsClusterRoleBindingName)"

abbreviation cluster_role_key :: okey where
  "cluster_role_key \<equiv> (ClusterRole, [], AlertsAdapterAgenticRunsClusterRoleName)"

abbreviation denied :: "goerr \<Rightarrow> bool" where
  "denied err \<equiv> isOpenShiftManagedCRBDeleteDenied (Some err)"

definition binding_blocked :: "'w reconciler \<Rightarrow> ('w \<Rightarrow> okey \<Rightarrow> kobject option) \<Rightarrow> okey set \<Rightarrow> 'w \<Rightarrow> bool" where
  "binding_blocked r v K w = (get_fails r v K w binding_key \<or> delete_fails r v K w binding_key (\<lambda>err. \<not> denied err))"

definition role_blocked :: "'w reconciler \<Rightarrow> ('w \<Rightarrow> okey \<Rightarrow> kobject option) \<Rightarrow> okey set \<Rightarrow> 'w \<Rightarrow> okey \<Rightarrow> bool" where
  "role_blocked r v K w k = (get_fails r v K w k \<or> delete_fails r v K w k (\<lambda>_. True))"

lemma delete_rbac_each:
  assumes api: "api_ok r v" and K: "binding_key \<in> K"
    and run: "run_state (deleteAgenticRunsClusterRBAC r) wa = (e, wb)" and w: "outside v K w wa"
  shows "(gone (v wb cluster_role_key) \<or> role_blocked r v K w cluster_role_key \<or> binding_blocked r v K w) \<and>
    (if e = None then gone (v wb cluster_role_key) \<and> (gone (v wb binding_key) \<or> delete_fails r v K w binding_key denied)
     else role_blocked r v K w cluster_role_key \<or> binding_blocked r v K w) \<and>
    outside v {binding_key, cluster_role_key} wa wb"
proof -
  let ?b = "binding_key" and ?c = "cluster_role_key"
  have role: "(if e = None then gone (v wb ?c) \<and> (gone (v wb ?b) \<or> delete_fails r v K w ?b denied) else role_blocked r v K w ?c) \<and>
      outside v {?b, ?c} wa wb"
    if r: "run_state (deleteAgenticRunsClusterRole r) w1 = (e, wb)" and w1: "outside v {?b} wa w1"
      and b: "gone (v w1 ?b) \<or> delete_fails r v K w ?b denied" for w1
  proof -
    have ww: "outside v K w w1" using outside_trans [OF w outside_mono [OF w1]] K by simp
    note d = delete_object_each [OF api r [unfolded deleteAgenticRunsClusterRole_def] ww]
    have "v wb ?b = v w1 ?b" using d outsideD [of v "{?c}" w1 wb ?b] by simp
    then have "gone (v wb ?b) \<or> delete_fails r v K w ?b denied" using b by simp
    moreover have "outside v {?b, ?c} wa wb"
      using outside_trans [OF outside_mono [OF w1, of "{?b, ?c}"] outside_mono [of v "{?c}" w1 wb "{?b, ?c}"]] d by simp
    ultimately show ?thesis using d by (simp add: role_blocked_def)
  qed
  obtain x w1 where g: "run_state (cl_get r ?b) wa = (x, w1)" by force
  note get = api_get [OF api g]
  have w1: "outside v {?b} wa w1" "outside v K w w1"
    using get(1) outside_same [of v w1 wa] outside_trans [OF w] by blast+
  consider (done') "run_state (deleteAgenticRunsClusterRole r) w1 = (e, wb)" "gone (v w1 ?b)"
    | (stop) "e \<noteq> None" "binding_blocked r v K w" "outside v {?b} wa wb"
    | (cont) w2 where "run_state (deleteAgenticRunsClusterRole r) w2 = (e, wb)" "outside v {?b} wa w2"
        "gone (v w2 ?b) \<or> delete_fails r v K w ?b denied"
  proof (cases x)
    case (Inl err)
    show thesis
    proof (cases "IsNotFound err")
      case True
      then have "v wa ?b = None" using get(5) Inl by simp
      then show thesis using done' run g Inl True get(1)
        by (simp add: deleteAgenticRunsClusterRBAC_def run_fetch gone_def)
    next
      case False
      then have "binding_blocked r v K w" unfolding binding_blocked_def get_fails_def using g w Inl by blast
      then show thesis using stop run g Inl False w1(1) by (auto simp: deleteAgenticRunsClusterRBAC_def run_fetch)
    qed
  next
    case (Inr ob)
    obtain d w2 where d: "run_state (cl_delete r ?b) w1 = (d, w2)" by force
    note del = api_delete [OF api d]
    have w2: "outside v {?b} wa w2" using del(4) get(1) by (simp add: outside_def)
    have rest: "run_state (case d of None \<Rightarrow> deleteAgenticRunsClusterRole r
          | Some err \<Rightarrow>
              (if IsNotFound err then deleteAgenticRunsClusterRole r
               else if isOpenShiftManagedCRBDeleteDenied d then deleteAgenticRunsClusterRole r
               else ret (Some (wrapf
                 ''failed to delete alerts adapter agenticruns ClusterRoleBinding'' err)))) w2 = (e, wb)"
      using run g Inr d get(3) [OF Inr] by (simp add: deleteAgenticRunsClusterRBAC_def run_fetch)
    show thesis
    proof (cases d)
      case None
      then obtain y where "deleted_as ob y" "v w2 = (v w1)(?b := y)" using del(1) get(1,2) Inr by auto
      then have "gone (v w2 ?b)" using gone_deleted_as by simp
      then show thesis using cont rest None w2 by simp
    next
      case (Some err)
      consider "IsNotFound err" | "\<not> IsNotFound err" "denied err" | "\<not> IsNotFound err" "\<not> denied err" by blast
      then show thesis
      proof cases
        case 1
        then have "v w2 ?b = None" using del(2,3) Some by simp
        then show thesis using cont rest Some 1 w2 by (simp add: gone_def)
      next
        case 2
        then have "delete_fails r v K w ?b denied" unfolding delete_fails_def using d Some w1(2) by blast
        then show thesis using cont rest Some 2 w2 by simp
      next
        case 3
        then have "binding_blocked r v K w" unfolding binding_blocked_def delete_fails_def using d Some w1(2) by blast
        then show thesis using stop rest Some 3 w2 by auto
      qed
    qed
  qed
  then show ?thesis
  proof cases
    case done'
    then show ?thesis using role [OF done'(1) w1(1)] by (auto split: if_splits)
  next
    case stop
    then show ?thesis using outside_mono [of v "{?b}" wa wb "{?b, ?c}"] by auto
  next
    case (cont w2)
    then show ?thesis using role [OF cont] by (auto split: if_splits)
  qed
qed

text \<open>Running every deletion, whatever fails: each leaves its own mark, and an error has a cause.\<close>

lemma delete_errors_each:
  assumes "list_all2 (\<lambda>(n, t) (K, G, H). on_keys K G \<and> on_keys K H \<and> K \<subseteq> U \<and>
       (\<forall>wa e wb. outside v U w wa \<longrightarrow> run_state (t r) wa = (e, wb) \<longrightarrow>
          G (v wb) \<and> (if e = None then H (v wb) else F) \<and> outside v K wa wb)) ts specs"
    "sorted_wrt (\<lambda>a b. fst a \<inter> fst b = {}) specs" "outside v U w w0" "run_state (delete_errors r ts) w0 = (errs, w')"
  shows "(\<forall>(K, G, H) \<in> set specs. G (v w')) \<and> (if errs = [] then \<forall>(K, G, H) \<in> set specs. H (v w') else F) \<and>
    outside v (\<Union> (fst ` set specs)) w0 w'"
  using assms
proof (induction ts specs arbitrary: w0 errs rule: list_all2_induct)
  case (Cons nt ts s specs)
  obtain n t where nt: "nt = (n, t)" by force
  obtain K G H where s: "s = (K, G, H)" by (metis prod_cases3)
  obtain e w1 where t: "run_state (t r) w0 = (e, w1)" by force
  obtain es where es: "run_state (delete_errors r ts) w1 = (es, w')" "errs = [] \<longleftrightarrow> e = None \<and> es = []"
    using Cons.prems(3) t nt by (auto split: prod.splits option.splits)
  have on: "on_keys K G" "on_keys K H" "K \<subseteq> U" and st: "G (v w1)" "if e = None then H (v w1) else F" "outside v K w0 w1"
    using Cons.hyps(1) Cons.prems(2) t nt s by auto
  have "outside v U w w1" using outside_trans [OF Cons.prems(2) outside_mono [OF st(3) on(3)]] .
  then have ih: "\<forall>(K, G, H) \<in> set specs. G (v w')" "if es = [] then \<forall>(K, G, H) \<in> set specs. H (v w') else F"
    "outside v (\<Union> (fst ` set specs)) w1 w'"
    using Cons.IH [OF _ _ es(1)] Cons.prems(1) by auto
  have "K \<inter> \<Union> (fst ` set specs) = {}" using Cons.prems(1) s by auto
  then have "\<forall>k \<in> K. v w' k = v w1 k" using outsideD [OF ih(3)] by blast
  then have keep: "G (v w') = G (v w1)" "H (v w') = H (v w1)" using on(1,2) unfolding on_keys_def by blast+
  have "outside v (\<Union> (fst ` set (s # specs))) w0 w'"
    using outside_trans [OF outside_mono [OF st(3)] outside_mono [OF ih(3)]] s by auto
  then show ?case using ih st keep s es(2) by (auto split: if_splits)
qed (simp add: outside_def)

text \<open>The objects of the operand.\<close>

definition adapter_plain_keys :: "'w reconciler \<Rightarrow> okey list" where
  "adapter_plain_keys r =
      [(Deployment, GetNamespace r, AlertsAdapterDeploymentName),
       (NetworkPolicy, GetNamespace r, AlertsAdapterNetworkPolicyName),
       (RoleBinding, GetNamespace r, AlertsAdapterConfigRoleBindingName),
       (Role, GetNamespace r, AlertsAdapterConfigRoleName),
       (ServiceAccount, GetNamespace r, AlertsAdapterServiceAccountName),
       (RoleBinding, OpenShiftMonitoringNamespace, AlertsAdapterAlertmanagerRoleBindingName)]"

definition adapter_objects :: "'w reconciler \<Rightarrow> okey set" where
  "adapter_objects r = set (adapter_plain_keys r) \<union> {cluster_role_key, binding_key}"

definition removal_marks :: "'w reconciler \<Rightarrow> ('w \<Rightarrow> okey \<Rightarrow> kobject option) \<Rightarrow> 'w \<Rightarrow>
    (okey set \<times> ((okey \<Rightarrow> kobject option) \<Rightarrow> bool) \<times> ((okey \<Rightarrow> kobject option) \<Rightarrow> bool)) list" where
  "removal_marks r v w = map (\<lambda>k. ({k}, \<lambda>f. gone (f k) \<or> role_blocked r v (adapter_objects r) w k, \<lambda>f. gone (f k)))
       (adapter_plain_keys r) @
     [({binding_key, cluster_role_key},
       \<lambda>f. gone (f cluster_role_key) \<or> role_blocked r v (adapter_objects r) w cluster_role_key \<or>
         binding_blocked r v (adapter_objects r) w,
       \<lambda>f. gone (f cluster_role_key) \<and>
         (gone (f binding_key) \<or> delete_fails r v (adapter_objects r) w binding_key denied))]"

lemma RemoveAlertsAdapter_run:
  assumes api: "api_ok r v" and run: "run_state (RemoveAlertsAdapter r) w = (e, w')"
  defines "U \<equiv> adapter_objects r"
  shows "(\<forall>(K, G, H) \<in> set (removal_marks r v w). G (v w')) \<and>
    (if e = None then \<forall>(K, G, H) \<in> set (removal_marks r v w). H (v w')
     else (\<exists>k \<in> insert cluster_role_key (set (adapter_plain_keys r)). role_blocked r v U w k) \<or> binding_blocked r v U w) \<and>
    outside v U w w'"
proof -
  let ?ts = "[(''delete alerts adapter deployment'', deleteDeployment_aa),
      (''delete alerts adapter network policy'', deleteNetworkPolicy_aa),
      (''delete alerts adapter config RoleBinding'', deleteConfigRoleBinding),
      (''delete alerts adapter config Role'', deleteConfigRole),
      (''delete alerts adapter service account'', deleteServiceAccount_aa),
      (''delete alerts adapter Alertmanager RoleBinding'', deleteAlertmanagerRoleBinding),
      (''delete alerts adapter agenticruns cluster RBAC'', deleteAgenticRunsClusterRBAC)]"
  let ?F = "(\<exists>k \<in> insert cluster_role_key (set (adapter_plain_keys r)). role_blocked r v U w k) \<or> binding_blocked r v U w"
  define P where "P = (\<lambda>(t :: 'a reconciler \<Rightarrow> ('a, goerr option) io) K G H. on_keys K G \<and> on_keys K H \<and> K \<subseteq> U \<and>
       (\<forall>wa e wb. outside v U w wa \<longrightarrow> run_state (t r) wa = (e, wb) \<longrightarrow>
          G (v wb) \<and> (if e = None then H (v wb) else ?F) \<and> outside v K wa wb))"
  obtain errs where errs: "run_state (delete_errors r ?ts) w = (errs, w')" "e = None \<longleftrightarrow> errs = []"
    using run by (auto simp: RemoveAlertsAdapter_def run_deletes_def simp del: delete_errors.simps split: prod.splits if_splits)
  have plain: "P t {k} (\<lambda>f. gone (f k) \<or> role_blocked r v U w k) (\<lambda>f. gone (f k))"
    if t: "t r = delete_object r eg ed k" and k: "k \<in> set (adapter_plain_keys r)" for t eg ed k
    unfolding P_def
  proof (intro conjI allI impI)
    fix wa e wb assume w: "outside v U w wa" and r: "run_state (t r) wa = (e, wb)"
    note d = delete_object_each [OF api r [unfolded t] w, folded role_blocked_def]
    show "gone (v wb k) \<or> role_blocked r v U w k" "if e = None then gone (v wb k) else ?F" "outside v {k} wa wb"
      using d k by (auto split: if_splits)
  qed (use k in \<open>auto simp: on_keys_def U_def adapter_objects_def\<close>)
  have last: "P deleteAgenticRunsClusterRBAC {binding_key, cluster_role_key}
      (\<lambda>f. gone (f cluster_role_key) \<or> role_blocked r v U w cluster_role_key \<or> binding_blocked r v U w)
      (\<lambda>f. gone (f cluster_role_key) \<and> (gone (f binding_key) \<or> delete_fails r v U w binding_key denied))"
    unfolding P_def
  proof (intro conjI allI impI)
    fix wa e wb assume w: "outside v U w wa" and r: "run_state (deleteAgenticRunsClusterRBAC r) wa = (e, wb)"
    have "binding_key \<in> U" by (simp add: U_def adapter_objects_def)
    note d = delete_rbac_each [OF api this r w]
    show "gone (v wb cluster_role_key) \<or> role_blocked r v U w cluster_role_key \<or> binding_blocked r v U w"
      "if e = None then gone (v wb cluster_role_key) \<and> (gone (v wb binding_key) \<or> delete_fails r v U w binding_key denied) else ?F"
      "outside v {binding_key, cluster_role_key} wa wb"
      using d by (auto split: if_splits)
  qed (auto simp: on_keys_def U_def adapter_objects_def)
  note plains = plain [of deleteDeployment_aa, OF deleteDeployment_aa_def]
    plain [of deleteNetworkPolicy_aa, OF deleteNetworkPolicy_aa_def]
    plain [of deleteConfigRoleBinding, OF deleteConfigRoleBinding_def]
    plain [of deleteConfigRole, OF deleteConfigRole_def]
    plain [of deleteServiceAccount_aa, OF deleteServiceAccount_aa_def]
    plain [of deleteAlertmanagerRoleBinding, OF deleteAlertmanagerRoleBinding_def]
  have marks: "list_all2 (\<lambda>(n, t) (K, G, H). P t K G H) ?ts (removal_marks r v w)"
    unfolding removal_marks_def U_def [symmetric] adapter_plain_keys_def list.map append.simps list_all2_Cons prod.case list_all2_Nil
    by (intro conjI plains last TrueI) (simp_all add: adapter_plain_keys_def)
  have apart: "sorted_wrt (\<lambda>a b. fst a \<inter> fst b = {}) (removal_marks r v w)"
    by (simp add: removal_marks_def adapter_plain_keys_def) (simp add: go_const)
  have "outside v U w w" by (rule outside_same) simp
  note each = delete_errors_each [OF marks [unfolded P_def] apart this errs(1)]
  have "\<Union> (fst ` set (removal_marks r v w)) \<subseteq> U"
    by (auto simp: removal_marks_def U_def adapter_objects_def)
  then have frame: "outside v U w w'" by (rule outside_mono [OF conjunct2 [OF conjunct2 [OF each]]])
  show ?thesis unfolding errs(2)
    by (rule conjI [OF conjunct1 [OF each] conjI [OF conjunct1 [OF conjunct2 [OF each]] frame]])
qed

text \<open>
  (C21) Disabling the alerts adapter removes it. The resource phase of a resource without a ConfigMap
  reference succeeds exactly when nothing but the tolerated refusal of OpenShift stood in the way:
  then the Deployment, the network policy, the service account, the legacy role and binding, the
  Alertmanager binding and the cluster role are gone, and so is the cluster role binding unless
  OpenShift denied its deletion; an error means that a read or a deletion failed in another way.
  Every object whose own read and deletion work is gone, whatever happens to the others; nothing
  else is touched.
\<close>

theorem alerts_adapter_disabled_removed:
  assumes "api_ok r v" "AlertsAdapterConfigMapRef cr = None"
    "run_state (ReconcileAlertsAdapterResources r cr) w = (e, w')"
  defines "U \<equiv> adapter_objects r"
  shows "(e = None \<longrightarrow> (\<forall>k \<in> insert cluster_role_key (set (adapter_plain_keys r)). gone (v w' k)) \<and>
      (gone (v w' binding_key) \<or> delete_fails r v U w binding_key denied)) \<and>
    (e \<noteq> None \<longrightarrow> (\<exists>k \<in> insert cluster_role_key (set (adapter_plain_keys r)). role_blocked r v U w k) \<or>
      binding_blocked r v U w) \<and>
    (\<forall>k \<in> set (adapter_plain_keys r). gone (v w' k) \<or> role_blocked r v U w k) \<and>
    (gone (v w' cluster_role_key) \<or> role_blocked r v U w cluster_role_key \<or> binding_blocked r v U w) \<and>
    outside v U w w'"
proof -
  have run: "run_state (RemoveAlertsAdapter r) w = (e, w')"
    using assms(2,3) by (simp add: ReconcileAlertsAdapterResources_def)
  from RemoveAlertsAdapter_run [OF assms(1) run] show ?thesis
    unfolding U_def removal_marks_def by (auto split: if_splits)
qed

text \<open>A cluster in which OpenShift denies the deletion of the binding.\<close>

definition managed_reconciler :: "mem reconciler" where
  "managed_reconciler = (mem_reconciler (no_options ''ns''))\<lparr>cl_delete := (\<lambda>k. if k = binding_key
     then ret (Some (ApiError Forbidden ''clusterrolebindings-validation.managed.openshift.io denied the request''))
     else mem_delete k)\<rparr>"

definition adapter_cluster :: mem where
  "adapter_cluster = fmap_of_list (map (\<lambda>ob. (key_of ob, ob))
     [adapter_deployment managed_reconciler adapter_cr (Some ''cm''),
      GenerateAgenticRunsClusterRole managed_reconciler adapter_cr,
      GenerateAgenticRunsClusterRoleBinding managed_reconciler adapter_cr])"

lemma managed_reconciler_ok: "api_ok managed_reconciler mem_view"
proof -
  let ?m = "mem_reconciler (no_options ''ns'')"
  have mem: "api_ok ?m mem_view" by (rule mem_reconciler_ok)
  have del: "cl_delete managed_reconciler k = (if k = binding_key
     then ret (Some (ApiError Forbidden ''clusterrolebindings-validation.managed.openshift.io denied the request''))
     else cl_delete ?m k)" for k by (simp add: managed_reconciler_def)
  have "delete_ok managed_reconciler mem_view" unfolding delete_ok_def
  proof (intro allI impI)
    fix k w r w' assume run: "run_state (cl_delete managed_reconciler k) w = (r, w')"
    have d: "delete_ok ?m mem_view" using mem by (simp add: api_ok_def)
    show "(r = None \<longrightarrow> (\<exists>ob x. mem_view w k = Some ob \<and> deleted_as ob x \<and> mem_view w' = (mem_view w)(k := x))) \<and>
      (\<forall>e. r = Some e \<longrightarrow> mem_view w' = mem_view w \<and> (IsNotFound e \<longrightarrow> mem_view w k = None))"
    proof (cases "k = binding_key")
      case True
      then show ?thesis using run by (auto simp: del)
    next
      case False
      then have "run_state (cl_delete ?m k) w = (r, w')" using run by (simp only: del if_False)
      from d [unfolded delete_ok_def, THEN spec, THEN spec, THEN spec, THEN spec, THEN mp, OF this] show ?thesis .
    qed
  qed
  moreover have f: "cl_get managed_reconciler = cl_get ?m" "cl_create managed_reconciler = cl_create ?m"
    "cl_update managed_reconciler = cl_update ?m" "cl_now managed_reconciler = cl_now ?m" "cl_list managed_reconciler = cl_list ?m"
    "cl_update_status managed_reconciler = cl_update_status ?m" "cl_delete_all managed_reconciler = cl_delete_all ?m"
    by (simp_all add: managed_reconciler_def)
  have "get_ok managed_reconciler mem_view = get_ok ?m mem_view" by (simp only: get_ok_def f)
  moreover have "create_ok managed_reconciler mem_view = create_ok ?m mem_view" by (simp only: create_ok_def f)
  moreover have "update_ok managed_reconciler mem_view = update_ok ?m mem_view" by (simp only: update_ok_def f)
  moreover have "clock_ok managed_reconciler mem_view = clock_ok ?m mem_view" by (simp only: clock_ok_def f)
  moreover have "list_ok managed_reconciler mem_view = list_ok ?m mem_view" by (simp only: list_ok_def f)
  moreover have "status_ok managed_reconciler mem_view = status_ok ?m mem_view" by (simp only: status_ok_def f)
  moreover have "delete_all_ok managed_reconciler mem_view = delete_all_ok ?m mem_view" by (simp only: delete_all_ok_def f)
  ultimately show ?thesis using mem by (simp add: api_ok_def)
qed

lemma managed_never_blocks:
  "\<not> get_fails managed_reconciler v K w k" "k \<noteq> binding_key \<Longrightarrow> \<not> delete_fails managed_reconciler v K w k P"
  "\<not> delete_fails managed_reconciler v K w binding_key (\<lambda>err. \<not> denied err)"
proof -
  show "\<not> get_fails managed_reconciler v K w k"
    by (auto simp: get_fails_def managed_reconciler_def mem_get_def split: option.splits)
  show "\<not> delete_fails managed_reconciler v K w k P" if "k \<noteq> binding_key"
    using that by (auto simp: delete_fails_def managed_reconciler_def mem_delete_def split: option.splits)
  have "cl_delete managed_reconciler binding_key =
      ret (Some (ApiError Forbidden ''clusterrolebindings-validation.managed.openshift.io denied the request''))"
    by (simp add: managed_reconciler_def)
  moreover have "denied (ApiError Forbidden ''clusterrolebindings-validation.managed.openshift.io denied the request'')"
    by (simp add: isOpenShiftManagedCRBDeleteDenied_def)
  ultimately show "\<not> delete_fails managed_reconciler v K w binding_key (\<lambda>err. \<not> denied err)"
    by (auto simp: delete_fails_def)
qed

lemma adapter_cluster_views:
  "mem_view adapter_cluster cluster_role_key \<noteq> None" "mem_view adapter_cluster binding_key \<noteq> None"
  "mem_view adapter_cluster (Deployment, ''ns'', AlertsAdapterDeploymentName) \<noteq> None"
proof -
  have ns: "GetNamespace managed_reconciler = ''ns''"
    by (simp add: managed_reconciler_def GetNamespace_def no_options_def)
  have keys: "key_of (adapter_deployment managed_reconciler adapter_cr c) = (Deployment, ''ns'', AlertsAdapterDeploymentName)" for c
    by (simp add: adapter_deployment_def deployment_object_def key_of_def set_controller_def new_meta_def ns)
  have life: "\<not> m_deleting (k_meta (adapter_deployment managed_reconciler adapter_cr c))"
    "\<not> m_deleting (k_meta (GenerateAgenticRunsClusterRole managed_reconciler adapter_cr))"
    "\<not> m_deleting (k_meta (GenerateAgenticRunsClusterRoleBinding managed_reconciler adapter_cr))" for c
    by (simp_all add: adapter_deployment_def deployment_object_def set_controller_def new_meta_def
        GenerateAgenticRunsClusterRole_def GenerateAgenticRunsClusterRoleBinding_def)
  show "mem_view adapter_cluster cluster_role_key \<noteq> None" "mem_view adapter_cluster binding_key \<noteq> None"
    "mem_view adapter_cluster (Deployment, ''ns'', AlertsAdapterDeploymentName) \<noteq> None"
    by (simp_all add: mem_view_def adapter_cluster_def fmlookup_of_list keys adapter_keys life)
qed

theorem alerts_adapter_disabled_removed_witness:
  "\<exists>w'. run_state (ReconcileAlertsAdapterResources managed_reconciler (blank_cr [])) adapter_cluster = (None, w') \<and>
     mem_view adapter_cluster cluster_role_key \<noteq> None \<and> gone (mem_view w' cluster_role_key) \<and>
     mem_view adapter_cluster (Deployment, ''ns'', AlertsAdapterDeploymentName) \<noteq> None \<and>
     gone (mem_view w' (Deployment, ''ns'', AlertsAdapterDeploymentName))"
proof -
  let ?r = managed_reconciler
  obtain e w' where run: "run_state (ReconcileAlertsAdapterResources ?r (blank_cr [])) adapter_cluster = (e, w')"
    by force
  have ns: "GetNamespace ?r = ''ns''" by (simp add: managed_reconciler_def GetNamespace_def no_options_def)
  have "AlertsAdapterConfigMapRef (blank_cr []) = None"
    by (simp add: blank_cr_def blank_ols_def AlertsAdapterConfigMapRef_def)
  note c = alerts_adapter_disabled_removed [OF managed_reconciler_ok this run]
  have "k \<noteq> binding_key" if "k \<in> insert cluster_role_key (set (adapter_plain_keys ?r))" for k
    using that by (auto simp: adapter_plain_keys_def)
  then have "\<not> role_blocked ?r mem_view K w k" if "k \<in> insert cluster_role_key (set (adapter_plain_keys ?r))" for k K w
    using that managed_never_blocks(1,2) by (simp add: role_blocked_def)
  moreover have "\<not> binding_blocked ?r mem_view K w" for K w
    using managed_never_blocks(1,3) by (simp add: binding_blocked_def)
  ultimately have "e = None" using c by blast
  moreover have "(Deployment, ''ns'', AlertsAdapterDeploymentName) \<in> set (adapter_plain_keys ?r)"
    by (simp add: adapter_plain_keys_def ns)
  ultimately have "gone (mem_view w' (Deployment, ''ns'', AlertsAdapterDeploymentName))" "gone (mem_view w' cluster_role_key)"
    using c by blast+
  then show ?thesis using run adapter_cluster_views \<open>e = None\<close> by blast
qed

end
