(* ===== verification/Watch.thy ===== *)
theory Watch
  imports Agentic_Console Alerts_Adapter
begin

text \<open>
  Watching of Secrets and ConfigMaps: the watcher configuration
  (\<open>internal/controller/utils/types.go\<close>), the annotation of the external resources the custom
  resource names and the watch predicates (\<open>internal/controller/olsconfig_helpers.go\<close>), and the
  event handlers that restart the affected Deployments (\<open>internal/controller/watchers\<close>).

  The operand entry points that the handlers and the controller call are collected in the record
  \<open>operands\<close>.
\<close>

section \<open>Operand entry points\<close>

type_synonym 'w remove_fn = "'w reconciler \<Rightarrow> ('w, goerr option) io"
type_synonym 'w RestartFunc = "'w reconciler \<Rightarrow> kobject option \<Rightarrow> ('w, goerr option) io"

record 'w operands =
  console_Resources :: "'w reconcile_fn"
  console_Deployment :: "'w reconcile_fn"
  console_Remove :: "'w remove_fn"
  console_Restart :: "'w RestartFunc"
  agenticconsole_Resources :: "'w reconcile_fn"
  agenticconsole_Deployment :: "'w reconcile_fn"
  agenticconsole_Remove :: "'w remove_fn"
  agenticconsole_Restart :: "'w RestartFunc"
  alertsadapter_Resources :: "'w reconcile_fn"
  alertsadapter_Deployment :: "'w reconcile_fn"
  alertsadapter_Remove :: "'w remove_fn"
  alertsadapter_Restart :: "'w RestartFunc"
  ocpmcp_Resources :: "'w reconcile_fn"
  ocpmcp_Deployment :: "'w reconcile_fn"
  ocpmcp_Remove :: "'w remove_fn"
  ocpmcp_Restart :: "'w RestartFunc"
  rhokp_Resources :: "'w reconcile_fn"
  rhokp_Deployment :: "'w reconcile_fn"
  rhokp_Remove :: "'w remove_fn"
  rhokp_Restart :: "'w RestartFunc"
  postgres_Resources :: "'w reconcile_fn"
  postgres_Deployment :: "'w reconcile_fn"
  postgres_Restart :: "'w RestartFunc"
  otelcollector_Resources :: "'w reconcile_fn"
  otelcollector_Deployment :: "'w reconcile_fn"
  otelcollector_Restart :: "'w RestartFunc"
  appserver_Resources :: "'w reconcile_fn"
  appserver_Deployment :: "'w reconcile_fn"
  appserver_Restart :: "'w RestartFunc"
  agenticintegration_Resources :: "'w reconcile_fn"
  agenticintegration_Touch :: "'w remove_fn"

section \<open>Watcher configuration\<close>

record SystemSecret =
  sy_Name :: string
  sy_Namespace :: string
  sy_Description :: string
  sy_AffectedDeployments :: "string list"

record SystemConfigMap =
  sc_Name :: string
  sc_Namespace :: string
  sc_Description :: string
  sc_AffectedDeployments :: "string list"

record WatcherConfig =
  wc_Secrets :: "SystemSecret list"
  wc_ConfigMaps :: "SystemConfigMap list"
  wc_AnnotatedSecretMapping :: "(string, string list) fmap"
  wc_AnnotatedConfigMapMapping :: "(string, string list) fmap"
  wc_OpenShiftMCPServerTLSWatchEnabled :: bool
  wc_RHOKPTLSWatchEnabled :: bool

definition IsSystemSecretWatchEnabled :: "WatcherConfig option \<Rightarrow> SystemSecret \<Rightarrow> bool" where
  "IsSystemSecretWatchEnabled c secret = (case c of
      None \<Rightarrow> False
    | Some wc \<Rightarrow>
        (if sy_Name secret = OpenShiftMCPServerCertsSecretName then wc_OpenShiftMCPServerTLSWatchEnabled wc
         else if sy_Name secret = RHOKPCertsSecretName then wc_RHOKPTLSWatchEnabled wc
         else True))"

section \<open>Annotating external resources\<close>

definition annotateSecretIfNeeded :: "'w reconciler \<Rightarrow> string \<Rightarrow> string \<Rightarrow> ('w, goerr option) io" where
  "annotateSecretIfNeeded r name namespace = fetch r (Secret, namespace, name) (ret None)
     (\<lambda>e. ret (Some e))
     (\<lambda>ob. if annotation (k_meta ob) WatcherAnnotationKey \<noteq> None then ret None
       else cl_update r (ob\<lparr>k_meta := set_annotation WatcherAnnotationKey OLSConfigName (k_meta ob)\<rparr>))"

definition annotateConfigMapIfNeeded :: "'w reconciler \<Rightarrow> string \<Rightarrow> string \<Rightarrow> ('w, goerr option) io" where
  "annotateConfigMapIfNeeded r name namespace = fetch r (ConfigMap, namespace, name) (ret None)
     (\<lambda>e. ret (Some e))
     (\<lambda>ob. if annotation (k_meta ob) WatcherAnnotationKey \<noteq> None then ret None
       else cl_update r (ob\<lparr>k_meta := set_annotation WatcherAnnotationKey OLSConfigName (k_meta ob)\<rparr>))"

definition syncOpenShiftMCPServerTLSWatcher :: "OLSConfig \<Rightarrow> WatcherConfig option \<Rightarrow> WatcherConfig option" where
  "syncOpenShiftMCPServerTLSWatcher cr = map_option (\<lambda>c. c\<lparr>wc_OpenShiftMCPServerTLSWatchEnabled :=
     BoolDeref (o_IntrospectionEnabled (s_OLSConfig (cr_Spec cr))) True\<rparr>)"

definition syncRHOKPTLSWatcher :: "OLSConfig \<Rightarrow> WatcherConfig option \<Rightarrow> WatcherConfig option" where
  "syncRHOKPTLSWatcher cr = map_option (\<lambda>c. c\<lparr>wc_RHOKPTLSWatchEnabled :=
     \<not> o_ByokRAGOnly (s_OLSConfig (cr_Spec cr))\<rparr>)"

text \<open>
  The callbacks given to the iterators capture the watcher configuration and the list of errors,
  so they run on the world together with both. They never return an error.
\<close>

type_synonym 'w watch_world = "'w \<times> WatcherConfig option \<times> goerr list"

definition note_error :: "goerr option \<Rightarrow> goerr list \<Rightarrow> goerr list" where
  "note_error e errs = (case e of None \<Rightarrow> errs | Some err \<Rightarrow> errs @ [err])"

definition annotate_secret_callback ::
  "'w reconciler \<Rightarrow> string \<Rightarrow> string \<Rightarrow> ('w watch_world, goerr option) io" where
  "annotate_secret_callback r name source = State (\<lambda>(w, wc, errs).
     let wc' = (if source = ''tls'' then map_option (\<lambda>c. c\<lparr>wc_AnnotatedSecretMapping :=
                  fmupd name [ConsoleUIDeploymentName, OLSAppServerDeploymentName]
                    (wc_AnnotatedSecretMapping c)\<rparr>) wc else wc);
         (e, w') = run_state (annotateSecretIfNeeded r name (GetNamespace r)) w
     in (None, (w', wc', note_error e errs)))"

definition annotate_configmap_callback ::
  "'w reconciler \<Rightarrow> string \<Rightarrow> string \<Rightarrow> ('w watch_world, goerr option) io" where
  "annotate_configmap_callback r name source = State (\<lambda>(w, wc, errs).
     let wc' = (if source = ''alerts-adapter'' then map_option (\<lambda>c. c\<lparr>wc_AnnotatedConfigMapMapping :=
                  fmupd name [AlertsAdapterDeploymentName] (wc_AnnotatedConfigMapMapping c)\<rparr>) wc else wc);
         (e, w') = run_state (annotateConfigMapIfNeeded r name (GetNamespace r)) w
     in (None, (w', wc', note_error e errs)))"

definition clear_mappings :: "WatcherConfig option \<Rightarrow> WatcherConfig option" where
  "clear_mappings = map_option (\<lambda>c. c\<lparr>wc_AnnotatedConfigMapMapping := fmempty,
     wc_AnnotatedSecretMapping := fmempty\<rparr>)"

text \<open>The two loops and what follows them, on the world with the captured variables.\<close>

definition annotate_loops :: "'w reconciler \<Rightarrow> OLSConfig \<Rightarrow> ('w watch_world, unit) io" where
  "annotate_loops r cr = do {
     e1 \<leftarrow> ForEachExternalSecret cr (annotate_secret_callback r);
     State (\<lambda>(w, wc, errs). ((), (w, wc, note_error e1 errs)));
     e2 \<leftarrow> ForEachExternalConfigMap cr (annotate_configmap_callback r);
     State (\<lambda>(w, wc, errs). ((), (w, wc, note_error e2 errs))) }"

definition annotate_all :: "'w reconciler \<Rightarrow> OLSConfig \<Rightarrow> WatcherConfig option \<Rightarrow>
    ('w, goerr option \<times> WatcherConfig option) io" where
  "annotate_all r cr wc = State (\<lambda>w.
     case run_state (annotate_loops r cr) (w, clear_mappings wc, []) of
       (_, (w', wc', errs)) \<Rightarrow>
         (if errs \<noteq> []
          then (Some (newerr (''failed to annotate '' @ nat_to_string (length errs) @ '' external resources'')), wc')
          else (None, syncRHOKPTLSWatcher cr (syncOpenShiftMCPServerTLSWatcher cr wc')), w'))"

definition annotateExternalResources :: "'w reconciler \<Rightarrow> OLSConfig \<Rightarrow> WatcherConfig option \<Rightarrow>
    ('w, goerr option \<times> WatcherConfig option) io" where
  "annotateExternalResources r cr wc = do {
     e \<leftarrow> ValidateLLMCredentials r cr;
     case e of
       Some err \<Rightarrow> ret (Some (wrapf ''LLM credentials validation failed'' err), wc)
     | None \<Rightarrow> do {
         t \<leftarrow> (case o_TLSConfig (s_OLSConfig (cr_Spec cr)) of
             None \<Rightarrow> ret None
           | Some n \<Rightarrow> (if n \<noteq> [] then ValidateTLSSecret r n else ret None));
         case t of
           Some err \<Rightarrow> ret (Some (wrapf ''TLS secret validation failed'' err), wc)
         | None \<Rightarrow> annotate_all r cr wc } }"

section \<open>Watch predicates\<close>

definition shouldWatchSecret :: "WatcherConfig option \<Rightarrow> kobject \<Rightarrow> bool" where
  "shouldWatchSecret wc obj =
     (if annotation (k_meta obj) WatcherAnnotationKey \<noteq> None then True
      else case wc of
        None \<Rightarrow> False
      | Some c \<Rightarrow> (case find (\<lambda>s. m_namespace (k_meta obj) = sy_Namespace s \<and> m_name (k_meta obj) = sy_Name s)
            (wc_Secrets c) of
            None \<Rightarrow> False
          | Some s \<Rightarrow> IsSystemSecretWatchEnabled wc s))"

definition shouldWatchConfigMap :: "WatcherConfig option \<Rightarrow> kobject \<Rightarrow> bool" where
  "shouldWatchConfigMap wc obj =
     (if annotation (k_meta obj) WatcherAnnotationKey \<noteq> None then True
      else case wc of
        None \<Rightarrow> False
      | Some c \<Rightarrow> list_ex (\<lambda>s. m_namespace (k_meta obj) = sc_Namespace s \<and> m_name (k_meta obj) = sc_Name s)
            (wc_ConfigMaps c))"

section \<open>Event handlers\<close>

definition isSecretReferencedInCR :: "OLSConfig \<Rightarrow> string \<Rightarrow> bool" where
  "isSecretReferencedInCR cr secretName = snd (run_state (ForEachExternalSecret cr (\<lambda>name source.
     State (\<lambda>found. if name = secretName then (Some (newerr ''stop''), True) else (None, found)))) False)"

definition isConfigMapReferencedInCR :: "OLSConfig \<Rightarrow> string \<Rightarrow> bool" where
  "isConfigMapReferencedInCR cr cmName = snd (run_state (ForEachExternalConfigMap cr (\<lambda>name source.
     State (\<lambda>found. if name = cmName then (Some (newerr ''stop''), True) else (None, found)))) False)"

definition touchAgenticConfigurationFunc :: "'w operands \<Rightarrow> 'w RestartFunc" where
  "touchAgenticConfigurationFunc ops r given = agenticintegration_Touch ops r"

definition restartFuncs :: "'w operands \<Rightarrow> (string \<times> 'w RestartFunc) list" where
  "restartFuncs ops =
     [(OLSAppServerDeploymentName, appserver_Restart ops),
      (PostgresDeploymentName, postgres_Restart ops),
      (ConsoleUIDeploymentName, console_Restart ops),
      (AgenticConsoleUIDeploymentName, agenticconsole_Restart ops),
      (AlertsAdapterDeploymentName, alertsadapter_Restart ops),
      (OtelCollectorDeploymentName, otelcollector_Restart ops),
      (OpenShiftMCPServerDeploymentName, ocpmcp_Restart ops),
      (RHOKPDeploymentName, rhokp_Restart ops),
      (AgenticConfigurationConfigMapName, touchAgenticConfigurationFunc ops)]"

fun restartDeployment :: "'w operands \<Rightarrow> 'w reconciler \<Rightarrow> string list \<Rightarrow> ('w, unit) io" where
  "restartDeployment ops r [] = ret ()"
| "restartDeployment ops r (depName # ds) = (case map_of (restartFuncs ops) depName of
      None \<Rightarrow> restartDeployment ops r ds
    | Some restartFunc \<Rightarrow> do { e \<leftarrow> restartFunc r None; restartDeployment ops r ds })"

definition annotated_targets :: "(string, string list) fmap option \<Rightarrow> kobject \<Rightarrow> string list" where
  "annotated_targets mapping obj =
     (case Option.bind mapping (\<lambda>m. fmlookup m (m_name (k_meta obj))) of
        None \<Rightarrow> [OLSAppServerDeploymentName]
      | Some ds \<Rightarrow> ds)"

definition SecretWatcherFilter ::
  "'w operands \<Rightarrow> 'w reconciler \<Rightarrow> WatcherConfig option \<Rightarrow> kobject \<Rightarrow> bool \<Rightarrow> ('w, unit) io" where
  "SecretWatcherFilter ops r wc obj inCluster =
     (case Option.bind wc (\<lambda>c. find (\<lambda>s. m_namespace (k_meta obj) = sy_Namespace s \<and>
         m_name (k_meta obj) = sy_Name s) (wc_Secrets c)) of
        Some s \<Rightarrow>
          (if \<not> IsSystemSecretWatchEnabled wc s then ret ()
           else if inCluster then restartDeployment ops r (sy_AffectedDeployments s) else ret ())
      | None \<Rightarrow>
          (if annotation (k_meta obj) WatcherAnnotationKey \<noteq> None
           then (if inCluster then restartDeployment ops r
                   (annotated_targets (map_option wc_AnnotatedSecretMapping wc) obj) else ret ())
           else ret ()))"

definition ConfigMapWatcherFilter ::
  "'w operands \<Rightarrow> 'w reconciler \<Rightarrow> WatcherConfig option \<Rightarrow> kobject \<Rightarrow> bool \<Rightarrow> ('w, unit) io" where
  "ConfigMapWatcherFilter ops r wc obj inCluster =
     (case Option.bind wc (\<lambda>c. find (\<lambda>s. m_namespace (k_meta obj) = sc_Namespace s \<and>
         m_name (k_meta obj) = sc_Name s) (wc_ConfigMaps c)) of
        Some s \<Rightarrow> (if inCluster then restartDeployment ops r (sc_AffectedDeployments s) else ret ())
      | None \<Rightarrow>
          (if annotation (k_meta obj) WatcherAnnotationKey \<noteq> None
           then (if inCluster then restartDeployment ops r
                   (annotated_targets (map_option wc_AnnotatedConfigMapMapping wc) obj) else ret ())
           else ret ()))"

definition owned_by_config :: "kobject \<Rightarrow> bool" where
  "owned_by_config obj = list_ex (\<lambda>ow. ow_kind ow = OLSConfigKind \<and> ow_apiversion ow = OLSConfigAPIVersion)
     (m_owners (k_meta obj))"

text \<open>The resource the handlers read: the one named \<open>cluster\<close>.\<close>

definition get_config :: "'w reconciler \<Rightarrow> ('w, OLSConfig option) io" where
  "get_config r = do {
     x \<leftarrow> cl_get r (OLSConfigKind', [], OLSConfigName);
     ret (case x of Inl e \<Rightarrow> None | Inr ob \<Rightarrow> cr_of ob) }"

definition SecretUpdateHandler_Create ::
  "'w operands \<Rightarrow> 'w reconciler \<Rightarrow> WatcherConfig option \<Rightarrow> kobject \<Rightarrow> ('w, unit) io" where
  "SecretUpdateHandler_Create ops r wc obj =
     (if kind_of (k_payload obj) \<noteq> Secret \<or> owned_by_config obj then ret ()
      else do {
        x \<leftarrow> get_config r;
        case x of
          None \<Rightarrow> ret ()
        | Some cr \<Rightarrow>
            (if \<not> isSecretReferencedInCR cr (m_name (k_meta obj)) then ret ()
             else if annotation (k_meta obj) WatcherAnnotationKey = None
             then do {
               e \<leftarrow> cl_update r (AnnotateSecretWatcher obj);
               if e \<noteq> None then ret () else SecretWatcherFilter ops r wc (AnnotateSecretWatcher obj) True }
             else SecretWatcherFilter ops r wc obj True) })"

definition SecretUpdateHandler_Update ::
  "'w operands \<Rightarrow> 'w reconciler \<Rightarrow> WatcherConfig option \<Rightarrow> kobject \<Rightarrow> kobject \<Rightarrow> ('w, unit) io" where
  "SecretUpdateHandler_Update ops r wc old new =
     (if kind_of (k_payload old) \<noteq> Secret \<or> kind_of (k_payload new) \<noteq> Secret then ret ()
      else if secret_data (k_payload old) = secret_data (k_payload new) then ret ()
      else SecretWatcherFilter ops r wc new True)"

definition ConfigMapUpdateHandler_Create ::
  "'w operands \<Rightarrow> 'w reconciler \<Rightarrow> WatcherConfig option \<Rightarrow> kobject \<Rightarrow> ('w, unit) io" where
  "ConfigMapUpdateHandler_Create ops r wc obj =
     (if kind_of (k_payload obj) \<noteq> ConfigMap \<or> owned_by_config obj then ret ()
      else do {
        x \<leftarrow> get_config r;
        case x of
          None \<Rightarrow> ret ()
        | Some cr \<Rightarrow>
            (if \<not> isConfigMapReferencedInCR cr (m_name (k_meta obj)) then ret ()
             else if annotation (k_meta obj) WatcherAnnotationKey = None
             then do {
               e \<leftarrow> cl_update r (AnnotateConfigMapWatcher obj);
               if e \<noteq> None then ret () else ConfigMapWatcherFilter ops r wc (AnnotateConfigMapWatcher obj) True }
             else ConfigMapWatcherFilter ops r wc obj True) })"

definition ConfigMapUpdateHandler_Update ::
  "'w operands \<Rightarrow> 'w reconciler \<Rightarrow> WatcherConfig option \<Rightarrow> kobject \<Rightarrow> kobject \<Rightarrow> ('w, unit) io" where
  "ConfigMapUpdateHandler_Update ops r wc old new =
     (if kind_of (k_payload old) \<noteq> ConfigMap \<or> kind_of (k_payload new) \<noteq> ConfigMap then ret ()
      else if cm_data (k_payload old) = cm_data (k_payload new) \<and>
        cm_binary (k_payload old) = cm_binary (k_payload new) then ret ()
      else ConfigMapWatcherFilter ops r wc new True)"

section \<open>Delivery\<close>

text \<open>
  The events of a watched object, the predicates in front of the handlers (a predicate that is not
  set lets its events through), and the two together. Deletions and generic events have empty
  handlers.
\<close>

datatype watch_event = CreateEvent kobject | UpdateEvent kobject kobject | DeleteEvent kobject | GenericEvent kobject

fun secret_predicate :: "'w reconciler \<Rightarrow> WatcherConfig option \<Rightarrow> watch_event \<Rightarrow> bool" where
  "secret_predicate r wc (CreateEvent obj) = (m_namespace (k_meta obj) = Namespace (Options r))"
| "secret_predicate r wc (UpdateEvent old new) = shouldWatchSecret wc new"
| "secret_predicate r wc (DeleteEvent obj) = False"
| "secret_predicate r wc (GenericEvent obj) = True"

fun configmap_predicate :: "'w reconciler \<Rightarrow> WatcherConfig option \<Rightarrow> watch_event \<Rightarrow> bool" where
  "configmap_predicate r wc (CreateEvent obj) = (m_namespace (k_meta obj) = Namespace (Options r))"
| "configmap_predicate r wc (UpdateEvent old new) = shouldWatchConfigMap wc new"
| "configmap_predicate r wc (DeleteEvent obj) = False"
| "configmap_predicate r wc (GenericEvent obj) = True"

fun secret_handler :: "'w operands \<Rightarrow> 'w reconciler \<Rightarrow> WatcherConfig option \<Rightarrow> watch_event \<Rightarrow> ('w, unit) io" where
  "secret_handler ops r wc (CreateEvent obj) = SecretUpdateHandler_Create ops r wc obj"
| "secret_handler ops r wc (UpdateEvent old new) = SecretUpdateHandler_Update ops r wc old new"
| "secret_handler ops r wc (DeleteEvent obj) = ret ()"
| "secret_handler ops r wc (GenericEvent obj) = ret ()"

fun configmap_handler :: "'w operands \<Rightarrow> 'w reconciler \<Rightarrow> WatcherConfig option \<Rightarrow> watch_event \<Rightarrow> ('w, unit) io" where
  "configmap_handler ops r wc (CreateEvent obj) = ConfigMapUpdateHandler_Create ops r wc obj"
| "configmap_handler ops r wc (UpdateEvent old new) = ConfigMapUpdateHandler_Update ops r wc old new"
| "configmap_handler ops r wc (DeleteEvent obj) = ret ()"
| "configmap_handler ops r wc (GenericEvent obj) = ret ()"

definition watch_secret :: "'w operands \<Rightarrow> 'w reconciler \<Rightarrow> WatcherConfig option \<Rightarrow> watch_event \<Rightarrow> ('w, unit) io" where
  "watch_secret ops r wc ev = (if secret_predicate r wc ev then secret_handler ops r wc ev else ret ())"

definition watch_configmap :: "'w operands \<Rightarrow> 'w reconciler \<Rightarrow> WatcherConfig option \<Rightarrow> watch_event \<Rightarrow> ('w, unit) io" where
  "watch_configmap ops r wc ev = (if configmap_predicate r wc ev then configmap_handler ops r wc ev else ret ())"

section \<open>Annotation\<close>

definition marked :: "kobject option \<Rightarrow> bool" where
  "marked x = (case x of None \<Rightarrow> True | Some ob \<Rightarrow> annotation (k_meta ob) WatcherAnnotationKey \<noteq> None)"

text \<open>Nothing but annotations differs.\<close>

definition same_object :: "kobject \<Rightarrow> kobject \<Rightarrow> bool" where
  "same_object a b = (k_payload b = k_payload a \<and> m_labels (k_meta b) = m_labels (k_meta a) \<and>
     m_owners (k_meta b) = m_owners (k_meta a) \<and> m_finalizers (k_meta b) = m_finalizers (k_meta a))"

definition same_data :: "(okey \<Rightarrow> kobject option) \<Rightarrow> (okey \<Rightarrow> kobject option) \<Rightarrow> bool" where
  "same_data f g = (\<forall>k. rel_option same_object (f k) (g k))"

lemma same_data_refl [simp]: "same_data f f"
  by (simp add: same_data_def same_object_def option.rel_refl)

lemma same_data_trans: "same_data f g \<Longrightarrow> same_data g h \<Longrightarrow> same_data f h"
proof -
  assume a: "same_data f g" "same_data g h"
  have "rel_option same_object (f k) (h k)" for k
  proof -
    have "rel_option same_object (f k) (g k)" "rel_option same_object (g k) (h k)"
      using a by (simp_all only: same_data_def)
    then show ?thesis by (cases "f k"; cases "g k"; cases "h k") (simp_all add: same_object_def)
  qed
  then show ?thesis by (simp add: same_data_def)
qed

definition annotate_step :: "'w reconciler \<Rightarrow> okey \<Rightarrow> ('w, goerr option) io" where
  "annotate_step r k = fetch r k (ret None) (\<lambda>e. ret (Some e))
     (\<lambda>ob. if annotation (k_meta ob) WatcherAnnotationKey \<noteq> None then ret None
       else cl_update r (ob\<lparr>k_meta := set_annotation WatcherAnnotationKey OLSConfigName (k_meta ob)\<rparr>))"

lemma annotate_is_step:
  "annotateSecretIfNeeded r n ns = annotate_step r (Secret, ns, n)"
  "annotateConfigMapIfNeeded r n ns = annotate_step r (ConfigMap, ns, n)"
  by (simp_all add: annotateSecretIfNeeded_def annotateConfigMapIfNeeded_def annotate_step_def)

lemma annotate_step_run:
  assumes api: "api_ok r v" and kind: "fst k \<in> {Secret, ConfigMap}"
    and run: "run_state (annotate_step r k) w = (e, w')"
  shows "e = None \<Longrightarrow> marked (v w' k)" "k' \<noteq> k \<Longrightarrow> v w' k' = v w k'" "marked (v w k) \<Longrightarrow> v w' = v w"
    "same_data (v w) (v w')"
proof -
  have "(e = None \<longrightarrow> marked (v w' k)) \<and> (\<forall>k'. k' \<noteq> k \<longrightarrow> v w' k' = v w k') \<and>
      (marked (v w k) \<longrightarrow> v w' = v w) \<and> same_data (v w) (v w')"
  proof -
    obtain x w1 where g: "run_state (cl_get r k) w = (x, w1)" by force
    note get = api_get [OF api g]
    show ?thesis
    proof (cases x)
      case (Inl err)
      then show ?thesis using run g get(1,5)
        by (auto simp: annotate_step_def run_fetch marked_def split: if_splits)
    next
      case (Inr ob)
      let ?ob = "ob\<lparr>k_meta := set_annotation WatcherAnnotationKey OLSConfigName (k_meta ob)\<rparr>"
      have ob: "v w1 k = Some ob" "key_of ?ob = k" using get(1,2,3) Inr by (auto simp: key_of_def)
      show ?thesis
      proof (cases "annotation (k_meta ob) WatcherAnnotationKey = None")
        case True
        then have u: "run_state (cl_update r ?ob) w1 = (e, w')"
          using run g Inr by (simp add: annotate_step_def run_fetch)
        have life: "\<not> (m_deleting (k_meta ?ob) \<and> m_finalizers (k_meta ?ob) = [])"
          using get(4) [OF Inr] by (simp add: set_annotation_def)
        have no: "\<not> marked (v w k)" using True ob get(1) by (simp add: marked_def)
        show ?thesis
        proof (cases e)
          case None
          then obtain s where s: "stored_as ?ob s" "v w' = (v w1)(k \<mapsto> s)"
            using api_update(1) [OF api u] life ob by auto
          have pay: "k_payload s = k_payload ob"
            using s(1) kind ob(2) payload_stored_other [of "k_payload ob" "k_payload s"]
            by (auto simp: stored_as_def key_of_def)
          have "annotation (k_meta s) WatcherAnnotationKey \<noteq> None"
            using s(1) by (simp add: stored_as_def annotation_def set_annotation_def nil_map_def)
          then show ?thesis
            using s pay ob no get(1)
            by (auto simp: marked_def same_data_def same_object_def option.rel_refl stored_as_def set_annotation_def)
        next
          case (Some err)
          then show ?thesis using api_update(3) [OF api u] get(1) no by auto
        qed
      next
        case False
        then show ?thesis using run g Inr get(1) ob by (auto simp: annotate_step_def run_fetch marked_def)
      qed
    qed
  qed
  then show "e = None \<Longrightarrow> marked (v w' k)" "k' \<noteq> k \<Longrightarrow> v w' k' = v w k'" "marked (v w k) \<Longrightarrow> v w' = v w"
    "same_data (v w) (v w')" by blast+
qed

text \<open>A loop of callbacks over the references of one kind.\<close>

lemma annotate_loop:
  assumes api: "api_ok r v" and kind: "K \<in> {Secret, ConfigMap}"
    and cb: "\<And>n src w wc errs. run_state (cb n src) (w, wc, errs) =
      (case run_state (annotate_step r (K, ns, n)) w of (e, w') \<Rightarrow> (None, (w', upd n src wc, note_error e errs)))"
  shows "run_state (for_each (\<lambda>(n, src). cb n src) xs) (w, wc, errs) = (e, (w', wc', errs')) \<Longrightarrow>
    e = None \<and> wc' = fold (\<lambda>(n, src). upd n src) xs wc \<and> same_data (v w) (v w') \<and>
    (\<forall>k. k \<notin> (\<lambda>(n, src). (K, ns, n)) ` set xs \<longrightarrow> v w' k = v w k) \<and>
    (\<exists>es. errs' = errs @ es \<and> (es = [] \<longrightarrow> (\<forall>(n, src) \<in> set xs. marked (v w' (K, ns, n))))) \<and>
    ((\<forall>(n, src) \<in> set xs. marked (v w (K, ns, n))) \<longrightarrow> v w' = v w) \<and>
    (\<forall>k. marked (v w k) \<longrightarrow> marked (v w' k))"
proof (induction xs arbitrary: w wc errs)
  case (Cons x xs)
  obtain n src where x: "x = (n, src)" by force
  let ?k = "(K, ns, n)"
  obtain e1 w1 where s: "run_state (annotate_step r ?k) w = (e1, w1)" by force
  have "fst ?k \<in> {Secret, ConfigMap}" using kind by simp
  note step = annotate_step_run [OF api this s]
  have "run_state (for_each (\<lambda>(n, src). cb n src) xs) (w1, upd n src wc, note_error e1 errs) = (e, (w', wc', errs'))"
    using Cons.prems s by (simp add: x cb)
  note ih = Cons.IH [OF this]
  have mono: "marked (v w1 k)" if "marked (v w k)" for k
    using that step(2) [of k] step(3) by (cases "k = ?k") simp_all
  obtain es where es: "errs' = note_error e1 errs @ es"
      "es = [] \<longrightarrow> (\<forall>(n, src) \<in> set xs. marked (v w' (K, ns, n)))" using ih by blast
  have "\<exists>fs. errs' = errs @ fs \<and> (fs = [] \<longrightarrow> (\<forall>(n, src) \<in> set (x # xs). marked (v w' (K, ns, n))))"
  proof (cases e1)
    case None
    then have "marked (v w' ?k)" using step(1) ih by blast
    then show ?thesis using None es x by (auto simp: note_error_def)
  next
    case (Some err)
    then show ?thesis using es by (simp add: note_error_def)
  qed
  moreover have "v w' = v w" if "\<forall>(n, src) \<in> set (x # xs). marked (v w (K, ns, n))"
  proof -
    have "v w1 = v w" using that step(3) x by auto
    moreover have "\<forall>(n, src) \<in> set xs. marked (v w1 (K, ns, n))" using that mono by auto
    ultimately show ?thesis using ih by metis
  qed
  moreover have "same_data (v w) (v w')" using ih step(4) same_data_trans by blast
  moreover have "v w' k = v w k" if "k \<notin> (\<lambda>(n, src). (K, ns, n)) ` set (x # xs)" for k
  proof -
    have "k \<notin> (\<lambda>(n, src). (K, ns, n)) ` set xs" "k \<noteq> ?k" using that x by auto
    then show ?thesis using ih step(2) by metis
  qed
  moreover have "\<forall>k. marked (v w k) \<longrightarrow> marked (v w' k)" using ih mono by blast
  moreover have "e = None" "wc' = fold (\<lambda>(n, src). upd n src) (x # xs) wc" using ih x by simp_all
  ultimately show ?case by blast
qed simp

definition secret_watch :: "string \<Rightarrow> string \<Rightarrow> WatcherConfig option \<Rightarrow> WatcherConfig option" where
  "secret_watch name source wc = (if source = ''tls'' then map_option (\<lambda>c. c\<lparr>wc_AnnotatedSecretMapping :=
     fmupd name [ConsoleUIDeploymentName, OLSAppServerDeploymentName] (wc_AnnotatedSecretMapping c)\<rparr>) wc else wc)"

definition configmap_watch :: "string \<Rightarrow> string \<Rightarrow> WatcherConfig option \<Rightarrow> WatcherConfig option" where
  "configmap_watch name source wc = (if source = ''alerts-adapter'' then map_option (\<lambda>c. c\<lparr>wc_AnnotatedConfigMapMapping :=
     fmupd name [AlertsAdapterDeploymentName] (wc_AnnotatedConfigMapMapping c)\<rparr>) wc else wc)"

text \<open>The objects the resource refers to, by key.\<close>

definition external_keys :: "'w reconciler \<Rightarrow> OLSConfig \<Rightarrow> okey set" where
  "external_keys r cr = (\<lambda>(n, src). (Secret, GetNamespace r, n)) ` set (external_secrets cr) \<union>
     (\<lambda>(n, src). (ConfigMap, GetNamespace r, n)) ` set (external_configmaps cr)"

definition synced_watcher :: "OLSConfig \<Rightarrow> WatcherConfig option \<Rightarrow> WatcherConfig option" where
  "synced_watcher cr wc = syncRHOKPTLSWatcher cr (syncOpenShiftMCPServerTLSWatcher cr
     (fold (\<lambda>(n, src). configmap_watch n src) (external_configmaps cr)
       (fold (\<lambda>(n, src). secret_watch n src) (external_secrets cr) (clear_mappings wc))))"

lemma annotate_all_run:
  assumes api: "api_ok r v" and run: "run_state (annotate_all r cr wc) w = ((e, wc'), w')"
  shows "e = None \<Longrightarrow> wc' = synced_watcher cr wc"
    "e = None \<Longrightarrow> k \<in> external_keys r cr \<Longrightarrow> marked (v w' k)"
    "k \<notin> external_keys r cr \<Longrightarrow> v w' k = v w k" "same_data (v w) (v w')"
    "(\<And>k. k \<in> external_keys r cr \<Longrightarrow> marked (v w k)) \<Longrightarrow> v w' = v w"
proof -
  let ?ns = "GetNamespace r"
  let ?loop1 = "for_each (\<lambda>(n, src). annotate_secret_callback r n src) (external_secrets cr)"
  let ?loop2 = "for_each (\<lambda>(n, src). annotate_configmap_callback r n src) (external_configmaps cr)"
  obtain e1 w1 wc1 er1 where l1: "run_state ?loop1 (w, clear_mappings wc, []) = (e1, (w1, wc1, er1))"
    by (metis surj_pair)
  obtain e2 w2 wc2 er2 where l2: "run_state ?loop2 (w1, wc1, note_error e1 er1) = (e2, (w2, wc2, er2))"
    by (metis surj_pair)
  have cb1: "run_state (annotate_secret_callback r n src) (x, y, z) =
      (case run_state (annotate_step r (Secret, ?ns, n)) x of (e, w') \<Rightarrow> (None, (w', secret_watch n src y, note_error e z)))"
    for n src x y z
    by (simp add: annotate_secret_callback_def secret_watch_def annotate_is_step Let_def)
  have cb2: "run_state (annotate_configmap_callback r n src) (x, y, z) =
      (case run_state (annotate_step r (ConfigMap, ?ns, n)) x of (e, w') \<Rightarrow> (None, (w', configmap_watch n src y, note_error e z)))"
    for n src x y z
    by (simp add: annotate_configmap_callback_def configmap_watch_def annotate_is_step Let_def)
  have kinds: "Secret \<in> {Secret, ConfigMap}" "ConfigMap \<in> {Secret, ConfigMap}" by simp_all
  note p1 = annotate_loop [OF api kinds(1) cb1 l1]
  note p2 = annotate_loop [OF api kinds(2) cb2 l2]
  have e12: "e1 = None" "e2 = None" using p1 p2 by blast+
  have res: "w' = w2" "e = None \<longleftrightarrow> er2 = []"
      "er2 = [] \<longrightarrow> wc' = syncRHOKPTLSWatcher cr (syncOpenShiftMCPServerTLSWatcher cr wc2)"
    using run l1 l2 e12
    by (auto simp: annotate_all_def annotate_loops_def for_external_secrets for_external_configmaps
        note_error_def split: if_splits)
  show "e = None \<Longrightarrow> wc' = synced_watcher cr wc"
    using res p1 p2 by (simp add: synced_watcher_def)
  have none: "er1 = [] \<and> er2 = []" if "e = None"
    using that res(2) p2 e12 by (auto simp: note_error_def)
  have s1: "er1 = [] \<longrightarrow> (\<forall>(n, src) \<in> set (external_secrets cr). marked (v w1 (Secret, ?ns, n)))"
    using p1 by blast
  have s2: "er2 = [] \<longrightarrow> (\<forall>(n, src) \<in> set (external_configmaps cr). marked (v w2 (ConfigMap, ?ns, n)))"
    using p2 by (metis append_is_Nil_conv)
  have mono: "\<forall>k. marked (v w1 k) \<longrightarrow> marked (v w2 k)" using p2 by blast
  show "e = None \<Longrightarrow> k \<in> external_keys r cr \<Longrightarrow> marked (v w' k)"
    using none s1 s2 mono res(1) unfolding external_keys_def by fastforce
  show "k \<notin> external_keys r cr \<Longrightarrow> v w' k = v w k"
    using p1 p2 res(1) unfolding external_keys_def by (metis UnI1 UnI2)
  show "same_data (v w) (v w')" using p1 p2 same_data_trans res(1) by blast
  assume m: "\<And>k. k \<in> external_keys r cr \<Longrightarrow> marked (v w k)"
  have "\<forall>(n, src) \<in> set (external_secrets cr). marked (v w (Secret, ?ns, n))"
    "\<forall>(n, src) \<in> set (external_configmaps cr). marked (v w (ConfigMap, ?ns, n))"
    using m unfolding external_keys_def by force+
  then have "v w1 = v w" "v w1 = v w \<longrightarrow> v w2 = v w1" using p1 p2 by metis+
  then show "v w' = v w" using res(1) by simp
qed

lemma for_each_success:
  assumes step: "\<And>x w e w'. x \<in> set xs \<Longrightarrow> run_state (f x) w = (e, w') \<Longrightarrow>
      v w' = v w \<and> (e = None \<longrightarrow> P (v w) x)"
    and "run_state (for_each f xs) w = (e, w')"
  shows "v w' = v w \<and> (e = None \<longrightarrow> (\<forall>x \<in> set xs. P (v w) x))"
  using assms
proof (induction xs arbitrary: w)
  case (Cons x xs)
  obtain e1 w1 where r: "run_state (f x) w = (e1, w1)" by force
  have s: "v w1 = v w \<and> (e1 = None \<longrightarrow> P (v w) x)" using Cons.prems(1) [OF _ r] by simp
  show ?case
  proof (cases e1)
    case None
    then have "run_state (for_each f xs) w1 = (e, w')" using Cons.prems(2) r by simp
    then have "v w' = v w1 \<and> (e = None \<longrightarrow> (\<forall>x \<in> set xs. P (v w1) x))"
      by (rule Cons.IH [rotated]) (rule Cons.prems(1), simp_all)
    then show ?thesis using s None by simp
  next
    case (Some y)
    then show ?thesis using Cons.prems(2) r s by auto
  qed
qed simp

lemma credentials_run:
  assumes "api_ok r v" "run_state (ValidateLLMCredentials r cr) w = (e, w')"
  shows "v w' = v w"
    "e = None \<Longrightarrow> p \<in> set (llm_Providers (s_LLMConfig (cr_Spec cr))) \<Longrightarrow> provider_ok r (v w) p"
  using for_each_success [OF _ assms(2) [unfolded ValidateLLMCredentials_def], of v "provider_ok r"]
    validate_provider_run(1,2) [OF assms(1)] by blast+

definition tls_secret_ok :: "'w reconciler \<Rightarrow> (okey \<Rightarrow> kobject option) \<Rightarrow> string \<Rightarrow> bool" where
  "tls_secret_ok r f n = (\<exists>s. f (Secret, GetNamespace r, n) = Some s \<and>
     fmlookup (secret_data (k_payload s)) ''tls.crt'' \<noteq> None \<and>
     fmlookup (secret_data (k_payload s)) ''tls.key'' \<noteq> None)"

lemma tls_secret_run:
  assumes "api_ok r v" "run_state (ValidateTLSSecret r n) w = (e, w')"
  shows "v w' = v w" "e = None \<Longrightarrow> tls_secret_ok r (v w) n"
proof -
  obtain x w1 where g: "run_state (cl_get r (Secret, GetNamespace r, n)) w = (x, w1)" by force
  note get = api_get [OF assms(1) g]
  show "v w' = v w" using assms(2) g get(1) by (auto simp: ValidateTLSSecret_def)
  show "e = None \<Longrightarrow> tls_secret_ok r (v w) n"
    using assms(2) g get(2)
    by (auto simp: ValidateTLSSecret_def tls_secret_ok_def split: sum.splits if_splits)
qed

lemma annotateExternalResources_run:
  assumes api: "api_ok r v" and run: "run_state (annotateExternalResources r cr wc) w = ((e, wc'), w')"
  shows "k \<notin> external_keys r cr \<Longrightarrow> v w' k = v w k" "same_data (v w) (v w')"
    "(\<And>k. k \<in> external_keys r cr \<Longrightarrow> marked (v w k)) \<Longrightarrow> v w' = v w"
    "e = None \<Longrightarrow> wc' = synced_watcher cr wc"
    "e = None \<Longrightarrow> k \<in> external_keys r cr \<Longrightarrow> marked (v w' k)"
    "e = None \<Longrightarrow> p \<in> set (llm_Providers (s_LLMConfig (cr_Spec cr))) \<Longrightarrow> provider_ok r (v w) p"
    "e = None \<Longrightarrow> o_TLSConfig (s_OLSConfig (cr_Spec cr)) = Some n \<Longrightarrow> n \<noteq> [] \<Longrightarrow> tls_secret_ok r (v w) n"
proof -
  let ?tls = "case o_TLSConfig (s_OLSConfig (cr_Spec cr)) of
      None \<Rightarrow> ret None | Some n \<Rightarrow> (if n \<noteq> [] then ValidateTLSSecret r n else ret None)"
  obtain e1 w1 where c: "run_state (ValidateLLMCredentials r cr) w = (e1, w1)" by force
  obtain e2 w2 where t: "run_state ?tls w1 = (e2, w2)" by force
  note c' = credentials_run [OF api c]
  have t': "v w2 = v w1 \<and> (\<forall>n. e2 = None \<and> o_TLSConfig (s_OLSConfig (cr_Spec cr)) = Some n \<and> n \<noteq> [] \<longrightarrow>
      tls_secret_ok r (v w1) n)"
    using t tls_secret_run [OF api, of _ w1 e2 w2] by (auto split: option.splits if_splits)
  have "e \<noteq> None \<and> v w' = v w \<or> e1 = None \<and> e2 = None \<and> run_state (annotate_all r cr wc) w2 = ((e, wc'), w')"
    using run c t c'(1) t' by (auto simp: annotateExternalResources_def split: option.splits)
  then consider (stop) "e \<noteq> None" "v w' = v w"
    | (go) "e1 = None" "e2 = None" "run_state (annotate_all r cr wc) w2 = ((e, wc'), w')" by blast
  then have all: "(k \<notin> external_keys r cr \<longrightarrow> v w' k = v w k) \<and> same_data (v w) (v w') \<and>
      ((\<forall>k. k \<in> external_keys r cr \<longrightarrow> marked (v w k)) \<longrightarrow> v w' = v w) \<and>
      (e = None \<longrightarrow> wc' = synced_watcher cr wc \<and> (k \<in> external_keys r cr \<longrightarrow> marked (v w' k)) \<and>
        e1 = None \<and> e2 = None)" for k
  proof cases
    case go
    have "v w2 = v w" using t' c'(1) by simp
    then show ?thesis using annotate_all_run [OF api go(3)] go by metis
  qed auto
  then show "k \<notin> external_keys r cr \<Longrightarrow> v w' k = v w k" "same_data (v w) (v w')"
    "(\<And>k. k \<in> external_keys r cr \<Longrightarrow> marked (v w k)) \<Longrightarrow> v w' = v w"
    "e = None \<Longrightarrow> wc' = synced_watcher cr wc"
    "e = None \<Longrightarrow> k \<in> external_keys r cr \<Longrightarrow> marked (v w' k)" by blast+
  show "e = None \<Longrightarrow> p \<in> set (llm_Providers (s_LLMConfig (cr_Spec cr))) \<Longrightarrow> provider_ok r (v w) p"
    using all c'(2) by blast
  show "e = None \<Longrightarrow> o_TLSConfig (s_OLSConfig (cr_Spec cr)) = Some n \<Longrightarrow> n \<noteq> [] \<Longrightarrow> tls_secret_ok r (v w) n"
    using all t' c'(1) by auto
qed

text \<open>
  (C7) Annotation of the external resources: after success every secret and config map that the
  custom resource names and that exists carries the watcher annotation, every provider has usable
  credentials and a configured TLS secret has its certificate and key; only these objects are
  touched and nothing but annotations changes, also on failure; when all of them are annotated
  already, nothing is written.
\<close>

theorem annotateExternalResources_annotates:
  assumes "api_ok r v" "run_state (annotateExternalResources r cr wc) w = ((e, wc'), w')"
  shows "(e = None \<longrightarrow> (\<forall>k \<in> external_keys r cr. marked (v w' k)) \<and>
      (\<forall>p \<in> set (llm_Providers (s_LLMConfig (cr_Spec cr))). provider_ok r (v w) p) \<and>
      (\<forall>n. o_TLSConfig (s_OLSConfig (cr_Spec cr)) = Some n \<and> n \<noteq> [] \<longrightarrow> tls_secret_ok r (v w) n)) \<and>
    (\<forall>k. k \<notin> external_keys r cr \<longrightarrow> v w' k = v w k) \<and> same_data (v w) (v w') \<and>
    ((\<forall>k \<in> external_keys r cr. marked (v w k)) \<longrightarrow> v w' = v w)"
  using annotateExternalResources_run [OF assms] by (intro conjI impI ballI allI) metis+

lemma blank_external: "external_keys r (blank_cr []) = {}"
  by (simp add: external_keys_def external_secrets_def external_configmaps_def blank_cr_def blank_ols_def
      AlertsAdapterConfigMapRef_def)

theorem annotateExternalResources_annotates_witness:
  "\<exists>e wc' w'. run_state (annotateExternalResources (mem_reconciler (no_options ''ns'')) (blank_cr []) None)
      fmempty = ((e, wc'), w') \<and> mem_view w' = mem_view fmempty"
proof -
  obtain e wc' w' where run: "run_state (annotateExternalResources (mem_reconciler (no_options ''ns''))
      (blank_cr []) None) fmempty = ((e, wc'), w')" by (metis surj_pair)
  from annotateExternalResources_annotates [OF mem_reconciler_ok run] run show ?thesis
    by (auto simp: blank_external)
qed

section \<open>Which Deployments an event restarts\<close>

definition secret_targets :: "WatcherConfig option \<Rightarrow> kobject \<Rightarrow> string list" where
  "secret_targets wc obj =
     (case Option.bind wc (\<lambda>c. find (\<lambda>s. m_namespace (k_meta obj) = sy_Namespace s \<and>
         m_name (k_meta obj) = sy_Name s) (wc_Secrets c)) of
        Some s \<Rightarrow> (if IsSystemSecretWatchEnabled wc s then sy_AffectedDeployments s else [])
      | None \<Rightarrow> (if annotation (k_meta obj) WatcherAnnotationKey \<noteq> None
           then annotated_targets (map_option wc_AnnotatedSecretMapping wc) obj else []))"

definition configmap_targets :: "WatcherConfig option \<Rightarrow> kobject \<Rightarrow> string list" where
  "configmap_targets wc obj =
     (case Option.bind wc (\<lambda>c. find (\<lambda>s. m_namespace (k_meta obj) = sc_Namespace s \<and>
         m_name (k_meta obj) = sc_Name s) (wc_ConfigMaps c)) of
        Some s \<Rightarrow> sc_AffectedDeployments s
      | None \<Rightarrow> (if annotation (k_meta obj) WatcherAnnotationKey \<noteq> None
           then annotated_targets (map_option wc_AnnotatedConfigMapMapping wc) obj else []))"

lemma filter_restarts:
  "SecretWatcherFilter ops r wc obj True = restartDeployment ops r (secret_targets wc obj)"
  "ConfigMapWatcherFilter ops r wc obj True = restartDeployment ops r (configmap_targets wc obj)"
  by (auto simp: SecretWatcherFilter_def ConfigMapWatcherFilter_def secret_targets_def
      configmap_targets_def split: option.splits)

lemma dropped_updates:
  "\<not> shouldWatchSecret wc obj \<Longrightarrow> SecretWatcherFilter ops r wc obj inCluster = ret ()"
  "\<not> shouldWatchConfigMap wc obj \<Longrightarrow> ConfigMapWatcherFilter ops r wc obj inCluster = ret ()"
proof -
  assume "\<not> shouldWatchSecret wc obj"
  then show "SecretWatcherFilter ops r wc obj inCluster = ret ()"
    by (cases wc) (auto simp: shouldWatchSecret_def SecretWatcherFilter_def split: option.splits if_splits)
next
  let ?hit = "\<lambda>s. m_namespace (k_meta obj) = sc_Namespace s \<and> m_name (k_meta obj) = sc_Name s"
  assume no: "\<not> shouldWatchConfigMap wc obj"
  have "find ?hit (wc_ConfigMaps c) = None" if "wc = Some c" for c
    using no that unfolding find_None_iff by (auto simp: shouldWatchConfigMap_def list_ex_iff split: if_splits)
  then show "ConfigMapWatcherFilter ops r wc obj inCluster = ret ()"
    using no by (cases wc) (auto simp: shouldWatchConfigMap_def ConfigMapWatcherFilter_def split: if_splits)
qed

text \<open>
  (C22) The watch predicates lose no update: whatever an update event would have done in the handler of
  its object, it does behind the predicate too, since an update that is dropped would have
  restarted nothing. Of the creations exactly those in the operator's namespace are handled, so that an object
  of another namespace never counts as a resource that the custom resource names, although the
  handlers only compare names; and deletions do nothing.
\<close>

theorem watch_predicate_complete:
  "watch_secret ops r wc (UpdateEvent old new) = SecretUpdateHandler_Update ops r wc old new \<and>
   watch_configmap ops r wc (UpdateEvent old new) = ConfigMapUpdateHandler_Update ops r wc old new \<and>
   watch_secret ops r wc (CreateEvent obj) =
     (if m_namespace (k_meta obj) = GetNamespace r then SecretUpdateHandler_Create ops r wc obj else ret ()) \<and>
   watch_configmap ops r wc (CreateEvent obj) =
     (if m_namespace (k_meta obj) = GetNamespace r then ConfigMapUpdateHandler_Create ops r wc obj else ret ()) \<and>
   watch_secret ops r wc (DeleteEvent obj) = ret () \<and> watch_configmap ops r wc (DeleteEvent obj) = ret ()"
  using dropped_updates [of wc new ops r True]
  by (auto simp: watch_secret_def watch_configmap_def SecretUpdateHandler_Update_def ConfigMapUpdateHandler_Update_def
      GetNamespace_def)

definition plain_secret :: kobject where
  "plain_secret = \<lparr>k_meta = new_meta ''ns'' ''creds'' fmempty, k_payload = PSecret fmempty ''Opaque''\<rparr>"

lemma fold_secret_watch:
  "fold (\<lambda>(n, src). secret_watch n src) xs (Some c) = Some (c\<lparr>wc_AnnotatedSecretMapping :=
     fold (\<lambda>(n, src) m. if src = ''tls'' then fmupd n [ConsoleUIDeploymentName, OLSAppServerDeploymentName] m else m)
       xs (wc_AnnotatedSecretMapping c)\<rparr>)"
  by (induction xs arbitrary: c) (auto simp: secret_watch_def)

lemma fold_configmap_watch:
  "fold (\<lambda>(n, src). configmap_watch n src) xs (Some c) = Some (c\<lparr>wc_AnnotatedConfigMapMapping :=
     fold (\<lambda>(n, src) m. if src = ''alerts-adapter'' then fmupd n [AlertsAdapterDeploymentName] m else m)
       xs (wc_AnnotatedConfigMapMapping c)\<rparr>)"
  by (induction xs arbitrary: c) (auto simp: configmap_watch_def)

lemma fold_marked_lookup:
  "fmlookup (fold (\<lambda>(n, src) m. if src = t then fmupd n ds m else m) xs m) k =
     (if (k, t) \<in> set xs then Some ds else fmlookup m k)"
  by (induction xs arbitrary: m) (auto split: if_splits)

lemma external_sources:
  "(n, ''tls'') \<in> set (external_secrets cr) \<longleftrightarrow> o_TLSConfig (s_OLSConfig (cr_Spec cr)) = Some n \<and> n \<noteq> []"
  "(n, ''alerts-adapter'') \<in> set (external_configmaps cr) \<longleftrightarrow> AlertsAdapterConfigMapRef cr = Some n"
  by (auto simp: external_secrets_def external_configmaps_def split: option.splits if_splits)

text \<open>The watcher configuration a successful annotation leaves.\<close>

lemma synced_watcher_simps:
  assumes "synced_watcher cr (Some c) = Some c'"
  shows "wc_Secrets c' = wc_Secrets c" "wc_ConfigMaps c' = wc_ConfigMaps c"
    "fmlookup (wc_AnnotatedSecretMapping c') n = (if o_TLSConfig (s_OLSConfig (cr_Spec cr)) = Some n \<and> n \<noteq> []
       then Some [ConsoleUIDeploymentName, OLSAppServerDeploymentName] else None)"
    "fmlookup (wc_AnnotatedConfigMapMapping c') n = (if AlertsAdapterConfigMapRef cr = Some n
       then Some [AlertsAdapterDeploymentName] else None)"
    "wc_OpenShiftMCPServerTLSWatchEnabled c' = BoolDeref (o_IntrospectionEnabled (s_OLSConfig (cr_Spec cr))) True"
    "wc_RHOKPTLSWatchEnabled c' = (\<not> o_ByokRAGOnly (s_OLSConfig (cr_Spec cr)))"
  using assms
  by (auto simp: synced_watcher_def clear_mappings_def fold_secret_watch fold_configmap_watch
      syncRHOKPTLSWatcher_def syncOpenShiftMCPServerTLSWatcher_def fold_marked_lookup external_sources)

lemma synced_watcher_Some: "\<exists>c'. synced_watcher cr (Some c) = Some c'"
  by (simp add: synced_watcher_def clear_mappings_def fold_secret_watch fold_configmap_watch
      syncRHOKPTLSWatcher_def syncOpenShiftMCPServerTLSWatcher_def)

definition system_object :: "WatcherConfig \<Rightarrow> kobject \<Rightarrow> bool" where
  "system_object c ob = (list_ex (\<lambda>s. m_namespace (k_meta ob) = sy_Namespace s \<and> m_name (k_meta ob) = sy_Name s)
      (wc_Secrets c) \<or> list_ex (\<lambda>s. m_namespace (k_meta ob) = sc_Namespace s \<and> m_name (k_meta ob) = sc_Name s)
      (wc_ConfigMaps c))"

lemma find_system:
  assumes "\<not> system_object c ob"
  shows "find (\<lambda>s. m_namespace (k_meta ob) = sy_Namespace s \<and> m_name (k_meta ob) = sy_Name s) (wc_Secrets c) = None"
    "find (\<lambda>s. m_namespace (k_meta ob) = sc_Namespace s \<and> m_name (k_meta ob) = sc_Name s) (wc_ConfigMaps c) = None"
  using assms unfolding find_None_iff by (auto simp: system_object_def list_ex_iff)

text \<open>
  (C8) What a change of user data restarts: after a successful annotation, when the data of an
  annotated secret or config map that is not a system resource changes, the handlers restart
  exactly: for the TLS secret of the resource the console and the application server, for the
  alerts-adapter configuration the alerts adapter, for every other one the application server;
  and an event that leaves the data alone restarts nothing.
\<close>

theorem user_data_restarts:
  assumes "api_ok r v" "run_state (annotateExternalResources r cr (Some c)) w = ((None, wc'), w')"
    "\<not> system_object c new" "marked (Some new)"
  shows "(kind_of (k_payload old) = Secret \<and> kind_of (k_payload new) = Secret \<longrightarrow>
      SecretUpdateHandler_Update ops r wc' old new =
        (if secret_data (k_payload old) = secret_data (k_payload new) then ret ()
         else restartDeployment ops r
           (if o_TLSConfig (s_OLSConfig (cr_Spec cr)) = Some (m_name (k_meta new)) \<and> m_name (k_meta new) \<noteq> []
            then [ConsoleUIDeploymentName, OLSAppServerDeploymentName] else [OLSAppServerDeploymentName]))) \<and>
    (kind_of (k_payload old) = ConfigMap \<and> kind_of (k_payload new) = ConfigMap \<longrightarrow>
      ConfigMapUpdateHandler_Update ops r wc' old new =
        (if cm_data (k_payload old) = cm_data (k_payload new) \<and>
            cm_binary (k_payload old) = cm_binary (k_payload new) then ret ()
         else restartDeployment ops r
           (if AlertsAdapterConfigMapRef cr = Some (m_name (k_meta new))
            then [AlertsAdapterDeploymentName] else [OLSAppServerDeploymentName])))"
proof -
  have "wc' = synced_watcher cr (Some c)" using annotateExternalResources_run(4) [OF assms(1,2)] by simp
  then obtain c' where wc': "wc' = Some c'" "synced_watcher cr (Some c) = Some c'"
    using synced_watcher_Some by metis
  note sync = synced_watcher_simps [OF wc'(2)]
  have "\<not> system_object c' new" using assms(3) sync(1,2) by (simp add: system_object_def)
  note nosys = find_system [OF this]
  have ann: "annotation (k_meta new) WatcherAnnotationKey \<noteq> None" using assms(4) by (simp add: marked_def)
  show ?thesis
    using nosys ann sync(3,4)
    by (auto simp: SecretUpdateHandler_Update_def ConfigMapUpdateHandler_Update_def filter_restarts
        secret_targets_def configmap_targets_def wc' annotated_targets_def)
qed

definition no_watchers :: WatcherConfig where
  "no_watchers = \<lparr>wc_Secrets = [], wc_ConfigMaps = [], wc_AnnotatedSecretMapping = fmempty,
     wc_AnnotatedConfigMapMapping = fmempty, wc_OpenShiftMCPServerTLSWatchEnabled = False,
     wc_RHOKPTLSWatchEnabled = False\<rparr>"

theorem user_data_restarts_witness:
  "\<forall>ops :: mem operands. \<exists>wc' w'. run_state (annotateExternalResources (mem_reconciler (no_options ''ns'')) (blank_cr [])
      (Some no_watchers)) fmempty = ((None, wc'), w') \<and>
    SecretUpdateHandler_Update ops (mem_reconciler (no_options ''ns'')) wc' plain_secret
      (AnnotateSecretWatcher (plain_secret\<lparr>k_payload := PSecret (fmap_of_list [(''k'', ''v'')]) ''Opaque''\<rparr>)) =
    restartDeployment ops (mem_reconciler (no_options ''ns'')) [OLSAppServerDeploymentName]"
proof
  fix ops :: "mem operands"
  let ?r = "mem_reconciler (no_options ''ns'')"
  let ?new = "AnnotateSecretWatcher (plain_secret\<lparr>k_payload := PSecret (fmap_of_list [(''k'', ''v'')]) ''Opaque''\<rparr>)"
  obtain wc' w' where run: "run_state (annotateExternalResources ?r (blank_cr []) (Some no_watchers)) fmempty
      = ((None, wc'), w')"
    by (simp add: annotateExternalResources_def ValidateLLMCredentials_def annotate_all_def annotate_loops_def
        ForEachExternalSecret_def ForEachExternalConfigMap_def for_llm_secrets_def for_mcp_secrets_def
        blank_cr_def blank_ols_def AlertsAdapterConfigMapRef_def note_error_def and_then_def)
  have "\<not> system_object no_watchers ?new" "marked (Some ?new)"
    by (simp_all add: system_object_def no_watchers_def marked_def AnnotateSecretWatcher_def)
  from user_data_restarts [OF mem_reconciler_ok run this, of plain_secret ops]
  have "SecretUpdateHandler_Update ops ?r wc' plain_secret ?new =
      restartDeployment ops ?r [OLSAppServerDeploymentName]"
    by (simp add: plain_secret_def AnnotateSecretWatcher_def blank_cr_def blank_ols_def)
  then show "\<exists>wc' w'. run_state (annotateExternalResources ?r (blank_cr []) (Some no_watchers)) fmempty
      = ((None, wc'), w') \<and> SecretUpdateHandler_Update ops ?r wc' plain_secret ?new =
    restartDeployment ops ?r [OLSAppServerDeploymentName]" using run by blast
qed

section \<open>Newly created objects\<close>

lemma found_by_loop:
  "snd (run_state (for_each (\<lambda>(n, src). State (\<lambda>found. if n = x then (Some e, True) else (None, found))) xs) b) =
     (b \<or> (\<exists>src. (x, src) \<in> set xs))"
  by (induction xs arbitrary: b) (auto split: if_splits)

lemma isSecretReferencedInCR_iff: "isSecretReferencedInCR cr x \<longleftrightarrow> (\<exists>src. (x, src) \<in> set (external_secrets cr))"
  unfolding isSecretReferencedInCR_def for_external_secrets found_by_loop by simp

lemma isConfigMapReferencedInCR_iff:
  "isConfigMapReferencedInCR cr x \<longleftrightarrow> (\<exists>src. (x, src) \<in> set (external_configmaps cr))"
  unfolding isConfigMapReferencedInCR_def for_external_configmaps found_by_loop by simp

text \<open>
  The create handlers leave the cluster alone unless the new object is not owned by the
  operator and the stored custom resource refers to it by name.
\<close>

theorem create_handlers_ignore_unreferenced:
  assumes "api_ok r v"
    "owned_by_config obj \<or> (\<forall>ob cr. v w (OLSConfigKind', [], OLSConfigName) = Some ob \<and> cr_of ob = Some cr \<longrightarrow>
       (\<forall>src. (m_name (k_meta obj), src) \<notin> set (external_secrets cr) \<union> set (external_configmaps cr)))"
  shows "v (snd (run_state (SecretUpdateHandler_Create ops r wc obj) w)) = v w \<and>
    v (snd (run_state (ConfigMapUpdateHandler_Create ops r wc obj) w)) = v w"
proof -
  obtain x w1 where g: "run_state (cl_get r (OLSConfigKind', [], OLSConfigName)) w = (x, w1)" by force
  note get = api_get [OF assms(1) g]
  have c: "run_state (get_config r) w = (case x of Inl e \<Rightarrow> None | Inr ob \<Rightarrow> cr_of ob, w1)"
    using g by (simp add: get_config_def)
  have "\<not> isSecretReferencedInCR cr (m_name (k_meta obj)) \<and> \<not> isConfigMapReferencedInCR cr (m_name (k_meta obj))"
    if "\<not> owned_by_config obj" "x = Inr ob" "cr_of ob = Some cr" for ob cr
    using assms(2) that get(2) [OF that(2)] by (auto simp: isSecretReferencedInCR_iff isConfigMapReferencedInCR_iff)
  then show ?thesis using c get(1)
    by (auto simp: SecretUpdateHandler_Create_def ConfigMapUpdateHandler_Create_def
        split: sum.splits option.splits)
qed

theorem create_handlers_ignore_unreferenced_witness:
  "\<forall>ops :: mem operands. mem_view (snd (run_state (SecretUpdateHandler_Create ops
     (mem_reconciler (no_options ''ns'')) None plain_secret) fmempty)) = mem_view fmempty"
proof
  fix ops :: "mem operands"
  have "\<forall>ob cr. mem_view fmempty (OLSConfigKind', [], OLSConfigName) = Some ob \<and> cr_of ob = Some cr \<longrightarrow>
      (\<forall>src. (m_name (k_meta plain_secret), src) \<notin> set (external_secrets cr) \<union> set (external_configmaps cr))"
    by (simp add: mem_view_def)
  from create_handlers_ignore_unreferenced [OF mem_reconciler_ok disjI2 [OF this], where ops = ops and wc = None]
  show "mem_view (snd (run_state (SecretUpdateHandler_Create ops (mem_reconciler (no_options ''ns'')) None
      plain_secret) fmempty)) = mem_view fmempty" by blast
qed

section \<open>The operator's watcher configuration\<close>

text \<open>The configuration \<open>cmd/main.go\<close> starts the operator with.\<close>

definition system_secret :: "string \<Rightarrow> string \<Rightarrow> string \<Rightarrow> string list \<Rightarrow> SystemSecret" where
  "system_secret name ns descr ds = \<lparr>sy_Name = name, sy_Namespace = ns, sy_Description = descr, sy_AffectedDeployments = ds\<rparr>"

definition system_configmap :: "string \<Rightarrow> string \<Rightarrow> string \<Rightarrow> string list \<Rightarrow> SystemConfigMap" where
  "system_configmap name ns descr ds = \<lparr>sc_Name = name, sc_Namespace = ns, sc_Description = descr, sc_AffectedDeployments = ds\<rparr>"

definition watcherConfig :: "string \<Rightarrow> WatcherConfig" where
  "watcherConfig namespace = \<lparr>
     wc_Secrets =
       [system_secret TelemetryPullSecretName TelemetryPullSecretNamespace ''OpenShift telemetry pull secret''
          [OLSAppServerDeploymentName],
        system_secret ConsoleUIServiceCertSecretName namespace ''Console UI TLS certificate'' [ConsoleUIDeploymentName],
        system_secret AgenticConsoleUIServiceCertSecretName namespace ''Agentic Console UI TLS certificate''
          [AgenticConsoleUIDeploymentName],
        system_secret PostgresCertsSecretName namespace ''PostgreSQL TLS certificate (created by Service CA Operator)''
          [PostgresDeploymentName, OLSAppServerDeploymentName],
        system_secret OtelCollectorCertsSecretName namespace ''OTEL Collector TLS certificate (created by Service CA Operator)''
          [OtelCollectorDeploymentName, OLSAppServerDeploymentName, AgenticConfigurationConfigMapName],
        system_secret OpenShiftMCPServerCertsSecretName namespace
          ''OpenShift MCP server serving certificate (created by Service CA Operator)''
          [OpenShiftMCPServerDeploymentName, OLSAppServerDeploymentName, AgenticConfigurationConfigMapName],
        system_secret RHOKPCertsSecretName namespace ''RHOKP serving certificate (created by Service CA Operator)''
          [RHOKPDeploymentName, OLSAppServerDeploymentName, AgenticConfigurationConfigMapName]],
     wc_ConfigMaps =
       [system_configmap DefaultOpenShiftCerts namespace ''OpenShift default CA bundle'' [OLSAppServerDeploymentName],
        system_configmap OLSCAConfigMap namespace ''OpenShift Service CA certificate bundle''
          [OLSAppServerDeploymentName, PostgresDeploymentName]],
     wc_AnnotatedSecretMapping = fmempty, wc_AnnotatedConfigMapMapping = fmempty,
     wc_OpenShiftMCPServerTLSWatchEnabled = False, wc_RHOKPTLSWatchEnabled = False\<rparr>"

lemma known_targets:
  "set (sy_AffectedDeployments s) \<subseteq> fst ` set (restartFuncs ops)" if "s \<in> set (wc_Secrets (watcherConfig ns))"
  using that by (auto simp: watcherConfig_def system_secret_def restartFuncs_def)

lemma known_targets_configmap:
  "set (sc_AffectedDeployments s) \<subseteq> fst ` set (restartFuncs ops)" if "s \<in> set (wc_ConfigMaps (watcherConfig ns))"
  using that by (auto simp: watcherConfig_def system_configmap_def restartFuncs_def)

lemma known_annotated:
  assumes "\<And>ds. fmlookup m (m_name (k_meta obj)) = Some ds \<Longrightarrow> set ds \<subseteq> K"
    "OLSAppServerDeploymentName \<in> K"
  shows "set (annotated_targets (Some m) obj) \<subseteq> K"
  using assms by (auto simp: annotated_targets_def split: option.splits)

text \<open>
  Every restart the watchers ask for is possible: with the configuration the operator starts
  with, after a successful annotation, each Deployment name that an event on any secret or config
  map resolves to has a restart function, so the unknown-name branch is never taken.
\<close>

theorem watcher_targets_known:
  assumes "api_ok r v" "run_state (annotateExternalResources r cr (Some (watcherConfig ns))) w = ((None, wc'), w')"
  shows "set (secret_targets wc' obj) \<subseteq> fst ` set (restartFuncs ops) \<and>
    set (configmap_targets wc' obj) \<subseteq> fst ` set (restartFuncs ops)"
proof -
  have "wc' = synced_watcher cr (Some (watcherConfig ns))"
    using annotateExternalResources_run(4) [OF assms] by simp
  then obtain c' where wc': "wc' = Some c'" "synced_watcher cr (Some (watcherConfig ns)) = Some c'"
    using synced_watcher_Some by metis
  note sync = synced_watcher_simps [OF wc'(2)]
  have app: "{OLSAppServerDeploymentName, ConsoleUIDeploymentName, AlertsAdapterDeploymentName} \<subseteq> fst ` set (restartFuncs ops)"
    by (auto simp: restartFuncs_def)
  then have names: "OLSAppServerDeploymentName \<in> fst ` set (restartFuncs ops)"
    "ConsoleUIDeploymentName \<in> fst ` set (restartFuncs ops)"
    "AlertsAdapterDeploymentName \<in> fst ` set (restartFuncs ops)" by blast+
  have a: "set (annotated_targets (Some (wc_AnnotatedSecretMapping c')) obj) \<subseteq> fst ` set (restartFuncs ops)"
    by (rule known_annotated) (auto simp: sync(3) names split: if_splits)
  have b: "set (annotated_targets (Some (wc_AnnotatedConfigMapMapping c')) obj) \<subseteq> fst ` set (restartFuncs ops)"
    by (rule known_annotated) (auto simp: sync(4) names split: if_splits)
  have "set (secret_targets wc' obj) \<subseteq> fst ` set (restartFuncs ops)"
  proof (cases "find (\<lambda>s. m_namespace (k_meta obj) = sy_Namespace s \<and> m_name (k_meta obj) = sy_Name s) (wc_Secrets c')")
    case None
    then show ?thesis using a by (simp add: secret_targets_def wc'(1)) blast
  next
    case (Some s)
    then have "s \<in> set (wc_Secrets (watcherConfig ns))" using sync(1) by (auto simp: find_Some_iff)
    then show ?thesis using known_targets [of s ns ops] Some by (simp add: secret_targets_def wc'(1)) blast
  qed
  moreover have "set (configmap_targets wc' obj) \<subseteq> fst ` set (restartFuncs ops)"
  proof (cases "find (\<lambda>s. m_namespace (k_meta obj) = sc_Namespace s \<and> m_name (k_meta obj) = sc_Name s) (wc_ConfigMaps c')")
    case None
    then show ?thesis using b by (simp add: configmap_targets_def wc'(1)) blast
  next
    case (Some s)
    then have "s \<in> set (wc_ConfigMaps (watcherConfig ns))" using sync(2) by (auto simp: find_Some_iff)
    then show ?thesis using known_targets_configmap [of s ns ops] Some by (simp add: configmap_targets_def wc'(1))
  qed
  ultimately show ?thesis by blast
qed

theorem watcher_targets_known_witness:
  "\<forall>ops :: mem operands. \<exists>wc' w'. run_state (annotateExternalResources (mem_reconciler (no_options ''ns'')) (blank_cr [])
      (Some (watcherConfig ''ns''))) fmempty = ((None, wc'), w') \<and>
    set (secret_targets wc' plain_secret) \<subseteq> fst ` set (restartFuncs ops)"
proof
  fix ops :: "mem operands"
  let ?r = "mem_reconciler (no_options ''ns'')"
  obtain wc' w' where run: "run_state (annotateExternalResources ?r (blank_cr []) (Some (watcherConfig ''ns''))) fmempty
      = ((None, wc'), w')"
    by (simp add: annotateExternalResources_def ValidateLLMCredentials_def annotate_all_def annotate_loops_def
        ForEachExternalSecret_def ForEachExternalConfigMap_def for_llm_secrets_def for_mcp_secrets_def
        blank_cr_def blank_ols_def AlertsAdapterConfigMapRef_def note_error_def and_then_def)
  from watcher_targets_known [OF mem_reconciler_ok run, of plain_secret ops] run
  show "\<exists>wc' w'. run_state (annotateExternalResources ?r (blank_cr []) (Some (watcherConfig ''ns''))) fmempty
      = ((None, wc'), w') \<and> set (secret_targets wc' plain_secret) \<subseteq> fst ` set (restartFuncs ops)" by blast
qed

end
