(* ===== verification/Status.thy ===== *)
theory Status
  imports Reconcile_Tasks
begin

text \<open>
  Status of the custom resource (\<open>internal/controller/olsconfig_helpers.go\<close>): the conflict-safe
  status write with its preserved transition times, the health of a Deployment and the diagnostics
  collected from its pods.
\<close>

section \<open>Writing the status\<close>

text \<open>\<open>preserveTransitionTimes\<close>: the first existing condition with the same type, status and reason
  gives its time.\<close>

definition same_condition :: "condition \<Rightarrow> condition \<Rightarrow> bool" where
  "same_condition a b = (cn_Type a = cn_Type b \<and> cn_Status a = cn_Status b \<and> cn_Reason a = cn_Reason b)"

definition preserve_time :: "condition list \<Rightarrow> condition \<Rightarrow> condition" where
  "preserve_time existing c = (case find (same_condition c) existing of
      None \<Rightarrow> c
    | Some old \<Rightarrow> c\<lparr>cn_Transition := cn_Transition old\<rparr>)"

definition preserveTransitionTimes :: "OLSConfigStatus \<Rightarrow> condition list \<Rightarrow> OLSConfigStatus" where
  "preserveTransitionTimes st existing =
     st\<lparr>os_Conditions := map (preserve_time existing) (os_Conditions st)\<rparr>"

definition status_of :: "kobject \<Rightarrow> OLSConfigStatus" where
  "status_of ob = (case k_payload ob of POLSConfig s t \<Rightarrow> t | _ \<Rightarrow> cr_Status (blank_cr []))"

definition with_status :: "OLSConfigStatus \<Rightarrow> kobject \<Rightarrow> kobject" where
  "with_status st ob = (case k_payload ob of
      POLSConfig s t \<Rightarrow> ob\<lparr>k_payload := POLSConfig s st\<rparr> | _ \<Rightarrow> ob)"

definition cr_key :: "OLSConfig \<Rightarrow> okey" where
  "cr_key cr = (OLSConfigKind', m_namespace (cr_Meta cr), m_name (cr_Meta cr))"

text \<open>
  One attempt of the retried closure. The closure captures \<open>newStatus\<close> and changes it, so the
  attempt runs on the world together with the captured status, and so does the retry it is given.
\<close>

definition status_attempt :: "'w reconciler \<Rightarrow> okey \<Rightarrow> ('w \<times> OLSConfigStatus, goerr option) io" where
  "status_attempt r k = State (\<lambda>(w, newStatus). case run_state (cl_get r k) w of
      (Inl e, w1) \<Rightarrow> (if IsNotFound e then None else Some e, (w1, newStatus))
    | (Inr current, w1) \<Rightarrow>
        let st = preserveTransitionTimes newStatus (os_Conditions (status_of current));
            (e, w2) = run_state (cl_update_status r (with_status st current)) w1
        in (e, (w2, st)))"

type_synonym 'w status_retry =
  "('w \<times> OLSConfigStatus, goerr option) io \<Rightarrow> ('w \<times> OLSConfigStatus, goerr option) io"

definition UpdateStatusCondition :: "'w status_retry \<Rightarrow> 'w reconciler \<Rightarrow> OLSConfig \<Rightarrow> OLSConfigStatus \<Rightarrow>
    bool \<Rightarrow> ('w, goerr option) io" where
  "UpdateStatusCondition retry r cr newStatus inCluster =
     (let st = (if os_OverallStatus newStatus = []
                then newStatus\<lparr>os_OverallStatus := OverallStatusNotReady\<rparr> else newStatus)
      in if inCluster
         then State (\<lambda>w. case run_state (retry (status_attempt r (cr_key cr))) (w, st) of
                (e, (w', _)) \<Rightarrow> (e, w'))
         else cl_update_status r (obj_of_cr (cr\<lparr>cr_Status :=
                preserveTransitionTimes st (os_Conditions (cr_Status cr))\<rparr>)))"

section \<open>Pod diagnostics\<close>

definition messageOrDefault :: "string \<Rightarrow> string \<Rightarrow> string" where
  "messageOrDefault message defaultMessage = (if message = [] then defaultMessage else message)"

text \<open>Entries for one container, in the order the code appends them.\<close>

definition container_diagnostics :: "string \<Rightarrow> string \<Rightarrow> string \<Rightarrow> container_status \<Rightarrow> PodDiagnostic list" where
  "container_diagnostics component now pod cs =
     (if cs_running cs \<and> cs_ready cs then []
      else (case cs_waiting cs of None \<Rightarrow> []
         | Some (reason, msg) \<Rightarrow> [\<lparr>di_FailedComponent = component, di_PodName = pod,
             di_ContainerName = cs_name cs, di_Reason = reason,
             di_Message = messageOrDefault msg ''Container waiting - check pod status for details'',
             di_ExitCode = None, di_Type = DiagnosticTypeContainerWaiting, di_LastUpdated = now\<rparr>]) @
       (case cs_terminated cs of None \<Rightarrow> []
         | Some t \<Rightarrow> (if te_exit t \<noteq> 0
             then [\<lparr>di_FailedComponent = component, di_PodName = pod, di_ContainerName = cs_name cs,
               di_Reason = te_reason t,
               di_Message = messageOrDefault (te_message t) ''Container terminated - check pod logs for details'',
               di_ExitCode = Some (te_exit t), di_Type = DiagnosticTypeContainerTerminated,
               di_LastUpdated = now\<rparr>]
             else [])) @
       (case (cs_waiting cs, cs_last_terminated cs) of
           (Some _, Some t) \<Rightarrow> [\<lparr>di_FailedComponent = component, di_PodName = pod,
               di_ContainerName = cs_name cs, di_Reason = ''PreviousCrash: '' @ te_reason t,
               di_Message = messageOrDefault (te_message t) ''Previous container crash - check pod logs for details'',
               di_ExitCode = Some (te_exit t), di_Type = DiagnosticTypeContainerTerminated,
               di_LastUpdated = now\<rparr>]
         | _ \<Rightarrow> []))"

definition init_diagnostics :: "string \<Rightarrow> string \<Rightarrow> string \<Rightarrow> container_status \<Rightarrow> PodDiagnostic list" where
  "init_diagnostics component now pod cs = (case cs_waiting cs of None \<Rightarrow> []
     | Some (reason, msg) \<Rightarrow> [\<lparr>di_FailedComponent = component, di_PodName = pod,
         di_ContainerName = ''init/'' @ cs_name cs, di_Reason = reason,
         di_Message = messageOrDefault msg ''Init container waiting - check pod status for details'',
         di_ExitCode = None, di_Type = DiagnosticTypeContainerWaiting, di_LastUpdated = now\<rparr>])"

text \<open>\<open>flagged\<close>: the pod already has a container entry.\<close>

definition condition_diagnostics ::
  "string \<Rightarrow> string \<Rightarrow> string \<Rightarrow> string \<Rightarrow> bool \<Rightarrow> pod_condition \<Rightarrow> PodDiagnostic list" where
  "condition_diagnostics component now pod phase flagged c =
     (let d = \<lparr>di_FailedComponent = component, di_PodName = pod, di_ContainerName = [],
          di_Reason = pc_reason c, di_Message = pc_message c, di_ExitCode = None,
          di_Type = [], di_LastUpdated = now\<rparr>
      in (if pc_type c = ''PodScheduled'' \<and> pc_status c = ''False''
          then [d\<lparr>di_Type := DiagnosticTypePodScheduling\<rparr>] else []) @
         (if pc_type c = ''Ready'' \<and> pc_status c = ''False'' \<and> phase = ''Running'' \<and> \<not> flagged
          then [d\<lparr>di_Type := DiagnosticTypePodCondition\<rparr>] else []))"

definition phase_diagnostics :: "string \<Rightarrow> string \<Rightarrow> string \<Rightarrow> pod_status \<Rightarrow> PodDiagnostic list" where
  "phase_diagnostics component now pod st =
     (if st_phase st = ''Failed'' \<or> st_phase st = ''Unknown''
      then [\<lparr>di_FailedComponent = component, di_PodName = pod, di_ContainerName = [],
         di_Reason = st_phase st, di_Message = st_message st, di_ExitCode = None,
         di_Type = DiagnosticTypePodCondition, di_LastUpdated = now\<rparr>]
      else [])"

text \<open>The loop over the pods; \<open>podsWithContainerDiags\<close> is the set of flagged pod names.\<close>

fun pods_diagnostics :: "string \<Rightarrow> string \<Rightarrow> string fset \<Rightarrow> kobject list \<Rightarrow> PodDiagnostic list" where
  "pods_diagnostics component now flagged [] = []"
| "pods_diagnostics component now flagged (p # ps) =
     (case payload_pod (k_payload p) of
        None \<Rightarrow> pods_diagnostics component now flagged ps
      | Some st \<Rightarrow>
          (let name = m_name (k_meta p);
               cs = concat (map (container_diagnostics component now name) (st_containers st)) @
                 concat (map (init_diagnostics component now name) (st_init st));
               flagged' = (if cs = [] then flagged else finsert name flagged)
           in cs @
              concat (map (condition_diagnostics component now name (st_phase st) (name |\<in>| flagged'))
                (st_conditions st)) @
              phase_diagnostics component now name st @
              pods_diagnostics component now flagged' ps))"

definition dep_selector :: "kobject \<Rightarrow> gmap option" where
  "dep_selector ob = (case k_payload ob of PDeployment d \<Rightarrow> d_selector (dp_spec d) | _ \<Rightarrow> None)"

definition collectDeploymentDiagnostics ::
  "'w reconciler \<Rightarrow> kobject \<Rightarrow> string \<Rightarrow> ('w, PodDiagnostic list) io" where
  "collectDeploymentDiagnostics r deployment conditionType =
     (case dep_selector deployment of
        None \<Rightarrow> ret []
      | Some sel \<Rightarrow>
          (if sel = fmempty then ret []
           else do {
             x \<leftarrow> cl_list r Pod (m_namespace (k_meta deployment)) sel;
             case x of
               Inl e \<Rightarrow> ret []
             | Inr pods \<Rightarrow> do {
                 now \<leftarrow> cl_now r;
                 ret (pods_diagnostics conditionType now {||} pods) } }))"

section \<open>Deployment health\<close>

definition terminal_reason :: "string \<Rightarrow> bool" where
  "terminal_reason s = (s = ''CrashLoopBackOff'' \<or> s = ''ImagePullBackOff'' \<or> s = ''ErrImagePull'' \<or>
     s = ''OOMKilled'' \<or> HasPrefix s ''PreviousCrash:'')"

definition dep_available :: "kobject \<Rightarrow> bool" where
  "dep_available ob = (case k_payload ob of
      PDeployment d \<Rightarrow> list_ex (\<lambda>(t, s). t = ''Available'' \<and> s = ''True'') (dp_conditions d)
    | _ \<Rightarrow> False)"

definition checkDeploymentStatus ::
  "'w reconciler \<Rightarrow> kobject \<Rightarrow> string \<Rightarrow> ('w, string \<times> PodDiagnostic list \<times> goerr option) io" where
  "checkDeploymentStatus r deployment conditionType =
     (if dep_available deployment then ret (DeploymentStatusReady, [], None)
      else do {
        diagnostics \<leftarrow> collectDeploymentDiagnostics r deployment conditionType;
        ret (case find (\<lambda>d. terminal_reason (di_Reason d)) diagnostics of
            Some d \<Rightarrow> (DeploymentStatusFailed, diagnostics,
              Some (newerr (''deployment has failing pods: '' @ di_Reason d)))
          | None \<Rightarrow> (DeploymentStatusProgressing, diagnostics, None)) })"

section \<open>The status write\<close>

lemma same_condition_time [simp]:
  "same_condition (c\<lparr>cn_Transition := t\<rparr>) = same_condition c"
  by (simp add: same_condition_def fun_eq_iff)

lemma preserve_time_idem [simp]: "preserve_time ex (preserve_time ex c) = preserve_time ex c"
  by (simp add: preserve_time_def split: option.splits)

lemma preserve_idem [simp]:
  "preserveTransitionTimes (preserveTransitionTimes st ex) ex = preserveTransitionTimes st ex"
  by (simp add: preserveTransitionTimes_def)

lemma preserve_other [simp]:
  "os_OverallStatus (preserveTransitionTimes st ex) = os_OverallStatus st"
  "os_DiagnosticInfo (preserveTransitionTimes st ex) = os_DiagnosticInfo st"
  "os_Conditions (preserveTransitionTimes st ex) = map (preserve_time ex) (os_Conditions st)"
  by (simp_all add: preserveTransitionTimes_def)

lemma with_status_key [simp]: "key_of (with_status st ob) = key_of ob" "k_meta (with_status st ob) = k_meta ob"
  by (simp_all add: with_status_def key_of_def split: payload.splits)

lemma is_cr: "fst (key_of ob) = OLSConfigKind' \<Longrightarrow> \<exists>s t. k_payload ob = POLSConfig s t"
  by (cases "k_payload ob") (simp_all add: key_of_def)

lemma set_status_self:
  "fst (key_of ob) = OLSConfigKind' \<Longrightarrow> set_status (with_status st ob) ob = with_status st ob"
  using is_cr [of ob] by (auto simp: set_status_def with_status_def)

text \<open>The cluster after a successful write of \<open>st\<close>: only the status of the resource under \<open>k\<close>.\<close>

definition status_written :: "(okey \<Rightarrow> kobject option) \<Rightarrow> okey \<Rightarrow> OLSConfigStatus \<Rightarrow>
    (okey \<Rightarrow> kobject option) \<Rightarrow> bool" where
  "status_written f k st g = (case f k of
      None \<Rightarrow> g = f
    | Some old \<Rightarrow> \<exists>n. g = f(k \<mapsto> with_status (preserveTransitionTimes st (os_Conditions (status_of old))) old
        \<lparr>k_meta := (k_meta old)\<lparr>m_version := n\<rparr>\<rparr>))"

lemma status_attempt_run:
  assumes api: "api_ok r v" and k: "fst k = OLSConfigKind'"
    and run: "run_state (status_attempt r k) (w, st) = (e, (w', st'))"
  shows "(e = None \<longrightarrow> status_written (v w) k st (v w')) \<and> (e \<noteq> None \<longrightarrow> v w' = v w \<and>
    (st' = st \<or> (\<exists>old. v w k = Some old \<and> st' = preserveTransitionTimes st (os_Conditions (status_of old)))))"
proof -
  obtain x w1 where g: "run_state (cl_get r k) w = (x, w1)" by force
  note get = api_get [OF api g]
  show ?thesis
  proof (cases x)
    case (Inl err)
    then show ?thesis
      using run g get(1) get(5) [OF Inl] by (auto simp: status_attempt_def status_written_def split: if_splits)
  next
    case (Inr old)
    let ?st = "preserveTransitionTimes st (os_Conditions (status_of old))"
    obtain y w2 where u: "run_state (cl_update_status r (with_status ?st old)) w1 = (y, w2)" by force
    have res: "e = y" "w' = w2" "st' = ?st"
      using run g Inr u by (simp_all add: status_attempt_def Let_def)
    have old: "v w k = Some old" "key_of old = k" using get(2,3) [OF Inr] by simp_all
    then show ?thesis
      using api_status [OF api u] res get(1) k set_status_self [of old ?st]
      by (cases y) (auto simp: status_written_def)
  qed
qed

lemma status_written_preserved:
  "v k = Some old \<Longrightarrow> status_written v k (preserveTransitionTimes st (os_Conditions (status_of old))) g
     = status_written v k st g"
  by (simp add: status_written_def)

lemma status_attempts_run:
  assumes api: "api_ok r v" and k: "fst k = OLSConfigKind'"
  shows "run_state (attempts n (status_attempt r k)) (w, st) = (e, (w', st')) \<Longrightarrow>
    (e = None \<longrightarrow> status_written (v w) k st (v w')) \<and> (e \<noteq> None \<longrightarrow> v w' = v w)"
proof (induction n arbitrary: w st)
  case 0
  then show ?case using status_attempt_run [OF assms] by auto
next
  case (Suc n)
  obtain e1 w1 st1 where one: "run_state (status_attempt r k) (w, st) = (e1, (w1, st1))"
    by (metis surj_pair)
  note a = status_attempt_run [OF assms one]
  show ?case
  proof (cases "\<exists>err. e1 = Some err \<and> IsConflict err")
    case True
    then have "run_state (attempts n (status_attempt r k)) (w1, st1) = (e, (w', st'))"
      using Suc.prems one by auto
    note ih = Suc.IH [OF this]
    have "v w1 = v w" using a True by auto
    moreover have "status_written (v w) k st1 g = status_written (v w) k st g" for g
      using a True status_written_preserved [of "v w"] by (metis option.distinct(1))
    ultimately show ?thesis using ih by simp
  next
    case False
    then have "e = e1" "w' = w1" using Suc.prems one by (auto split: option.splits if_splits)
    then show ?thesis using a by auto
  qed
qed

text \<open>
  (C6) A status update in the cluster writes exactly the new status of the custom resource: after
  success the stored resource has its spec and metadata unchanged, the new overall status
  (\<open>NotReady\<close> when none is given), the new diagnostics, and the new conditions, each with the
  transition time of the stored condition of the same type, status and reason where there is one;
  conflicts are retried on the latest version, a resource that is gone is left alone, and a
  failure changes nothing.
\<close>

theorem UpdateStatusCondition_stores:
  assumes "api_ok r v" "retry_ok retry"
    and "run_state (UpdateStatusCondition retry r cr newStatus True) w = (e, w')"
  defines "st \<equiv> newStatus\<lparr>os_OverallStatus := (if os_OverallStatus newStatus = []
      then OverallStatusNotReady else os_OverallStatus newStatus)\<rparr>"
  shows "(e = None \<longrightarrow> status_written (v w) (cr_key cr) st (v w')) \<and> (e \<noteq> None \<longrightarrow> v w' = v w)"
proof -
  have st: "(if os_OverallStatus newStatus = []
      then newStatus\<lparr>os_OverallStatus := OverallStatusNotReady\<rparr> else newStatus) = st"
    by (simp add: st_def)
  obtain st' where "run_state (retry (status_attempt r (cr_key cr))) (w, st) = (e, (w', st'))"
    using assms(3) by (auto simp: UpdateStatusCondition_def st split: prod.splits)
  then obtain n where "run_state (attempts n (status_attempt r (cr_key cr))) (w, st) = (e, (w', st'))"
    using assms(2) unfolding retry_ok_def by metis
  from status_attempts_run [OF assms(1) _ this] show ?thesis by (simp add: cr_key_def)
qed

lemma attempts_retry_ok: "retry_ok (attempts n)"
  by (auto simp: retry_ok_def)

theorem UpdateStatusCondition_stores_witness:
  "\<exists>e w'. run_state (UpdateStatusCondition (attempts 4) (mem_reconciler (no_options ''ns'')) (blank_cr [])
      (cr_Status (blank_cr [])) True) fmempty = (e, w') \<and> (e = None \<longrightarrow> mem_view w' = mem_view fmempty)"
proof -
  let ?r = "mem_reconciler (no_options ''ns'')"
  obtain e w' where run: "run_state (UpdateStatusCondition (attempts 4) ?r (blank_cr [])
      (cr_Status (blank_cr [])) True) fmempty = (e, w')" by force
  have "mem_view fmempty (cr_key (blank_cr [])) = None" by (simp add: mem_view_def)
  with UpdateStatusCondition_stores [OF mem_reconciler_ok attempts_retry_ok run] run show ?thesis
    by (auto simp: status_written_def)
qed

section \<open>Deployment health\<close>

lemma diagnostic_parts:
  "d \<in> set (container_diagnostics ct now pod cs) \<Longrightarrow> di_FailedComponent d = ct \<and> di_PodName d = pod"
  "d \<in> set (init_diagnostics ct now pod cs) \<Longrightarrow> di_FailedComponent d = ct \<and> di_PodName d = pod"
  "d \<in> set (condition_diagnostics ct now pod ph b c) \<Longrightarrow> di_FailedComponent d = ct \<and> di_PodName d = pod"
  "d \<in> set (phase_diagnostics ct now pod st) \<Longrightarrow> di_FailedComponent d = ct \<and> di_PodName d = pod"
  by (auto simp: container_diagnostics_def init_diagnostics_def condition_diagnostics_def
      phase_diagnostics_def Let_def split: if_splits option.splits prod.splits)

lemma pods_diagnostics_sound:
  "d \<in> set (pods_diagnostics ct now fl ps) \<Longrightarrow>
     di_FailedComponent d = ct \<and> (\<exists>p \<in> set ps. di_PodName d = m_name (k_meta p))"
proof (induction ps arbitrary: fl)
  case (Cons p ps)
  then show ?case
    by (auto simp: Let_def split: option.splits dest: diagnostic_parts)
qed simp

lemma pods_diagnostics_container:
  assumes "p \<in> set ps" "payload_pod (k_payload p) = Some st" "cs \<in> set (st_containers st)"
    "d \<in> set (container_diagnostics ct now (m_name (k_meta p)) cs)"
  shows "d \<in> set (pods_diagnostics ct now fl ps)"
  using assms(1)
proof (induction ps arbitrary: fl)
  case (Cons q ps)
  show ?case
  proof (cases "q = p")
    case True
    then show ?thesis using assms(2-4) by (auto simp: Let_def)
  next
    case False
    then show ?thesis using Cons by (auto simp: Let_def split: option.splits)
  qed
qed simp

lemma collect_run:
  assumes api: "api_ok r v" and run: "run_state (collectDeploymentDiagnostics r dep ct) w = (ds, w')"
  shows "v w' = v w"
    "d \<in> set ds \<Longrightarrow> di_FailedComponent d = ct \<and> (\<exists>sel p. dep_selector dep = Some sel \<and>
       selected Pod (m_namespace (k_meta dep)) sel p \<and> v w (key_of p) = Some p \<and>
       di_PodName d = m_name (k_meta p))"
proof -
  have "v w' = v w \<and> (\<forall>d \<in> set ds. di_FailedComponent d = ct \<and> (\<exists>sel p. dep_selector dep = Some sel \<and>
       selected Pod (m_namespace (k_meta dep)) sel p \<and> v w (key_of p) = Some p \<and>
       di_PodName d = m_name (k_meta p)))"
  proof (cases "\<exists>sel. dep_selector dep = Some sel \<and> sel \<noteq> fmempty")
    case True
    then obtain sel where sel: "dep_selector dep = Some sel" "sel \<noteq> fmempty" by blast
    obtain x w1 where l: "run_state (cl_list r Pod (m_namespace (k_meta dep)) sel) w = (x, w1)" by force
    obtain now w2 where n: "run_state (cl_now r) w1 = (now, w2)" by force
    note ok = api_list [OF api l] api_now [OF api n]
    show ?thesis
    proof (cases x)
      case (Inl e)
      then show ?thesis using run sel l ok(1) by (auto simp: collectDeploymentDiagnostics_def)
    next
      case (Inr pods)
      then have "ds = pods_diagnostics ct now {||} pods" "w' = w2"
        using run sel l n by (auto simp: collectDeploymentDiagnostics_def)
      then show ?thesis
        using ok(1,3) ok(2) [OF Inr] sel(1) pods_diagnostics_sound [of _ ct now "{||}" pods] by metis
    qed
  next
    case False
    then show ?thesis using run
      by (auto simp: collectDeploymentDiagnostics_def split: option.splits if_splits)
  qed
  then show "v w' = v w" "d \<in> set ds \<Longrightarrow> di_FailedComponent d = ct \<and> (\<exists>sel p. dep_selector dep = Some sel \<and>
       selected Pod (m_namespace (k_meta dep)) sel p \<and> v w (key_of p) = Some p \<and>
       di_PodName d = m_name (k_meta p))" by blast+
qed

lemma status_values [simp]:
  "DeploymentStatusReady \<noteq> DeploymentStatusFailed" "DeploymentStatusReady \<noteq> DeploymentStatusProgressing"
  "DeploymentStatusProgressing \<noteq> DeploymentStatusFailed" "DeploymentStatusFailed \<noteq> DeploymentStatusReady"
  "DeploymentStatusProgressing \<noteq> DeploymentStatusReady" "DeploymentStatusFailed \<noteq> DeploymentStatusProgressing"
  "OverallStatusReady \<noteq> OverallStatusNotReady" "OverallStatusNotReady \<noteq> OverallStatusReady"
  by (simp_all add: go_const)

lemma find_None: "find P xs = None \<longleftrightarrow> (\<forall>x \<in> set xs. \<not> P x)"
  by (auto simp: find_None_iff)

lemma checkDeploymentStatus_run:
  assumes "api_ok r v" "run_state (checkDeploymentStatus r dep ct) w = ((s, ds, err), w')"
  shows "v w' = v w \<and> (s = DeploymentStatusReady \<longleftrightarrow> dep_available dep) \<and>
    (s = DeploymentStatusFailed \<longleftrightarrow> \<not> dep_available dep \<and> (\<exists>d \<in> set ds. terminal_reason (di_Reason d))) \<and>
    (s = DeploymentStatusFailed \<longleftrightarrow> err \<noteq> None) \<and>
    s \<in> {DeploymentStatusReady, DeploymentStatusFailed, DeploymentStatusProgressing} \<and>
    (\<forall>d \<in> set ds. di_FailedComponent d = ct \<and> (\<exists>sel p. dep_selector dep = Some sel \<and>
       selected Pod (m_namespace (k_meta dep)) sel p \<and> v w (key_of p) = Some p \<and>
       di_PodName d = m_name (k_meta p)))"
proof (cases "dep_available dep")
  case True
  then show ?thesis using assms(2) by (auto simp: checkDeploymentStatus_def)
next
  case False
  obtain ds' w1 where c: "run_state (collectDeploymentDiagnostics r dep ct) w = (ds', w1)" by force
  note ok = collect_run [OF assms(1) c]
  show ?thesis
  proof (cases "find (\<lambda>d. terminal_reason (di_Reason d)) ds'")
    case None
    then have "s = DeploymentStatusProgressing" "ds = ds'" "err = None" "w' = w1"
      using assms(2) False c by (auto simp: checkDeploymentStatus_def)
    then show ?thesis using ok False None by (simp add: find_None)
  next
    case (Some d)
    then have "s = DeploymentStatusFailed" "ds = ds'" "err \<noteq> None" "w' = w1"
      using assms(2) False c by (auto simp: checkDeploymentStatus_def)
    moreover have "d \<in> set ds'" "terminal_reason (di_Reason d)"
      using Some by (auto simp: find_Some_iff)
    ultimately show ?thesis using ok False by auto
  qed
qed

lemma check_run:
  assumes "api_ok r v" "run_state (checkDeploymentStatus r dep ct) w = ((s, ds, err), w')"
  shows "v w' = v w" "s = DeploymentStatusReady \<longleftrightarrow> dep_available dep" "s = DeploymentStatusReady \<Longrightarrow> ds = []"
  using checkDeploymentStatus_run [OF assms] assms(2) by (auto simp: checkDeploymentStatus_def)

text \<open>
  The health check classifies a Deployment: Ready exactly when it is Available; otherwise
  Failed, with an error, exactly when some pod diagnostic has a terminal reason, and Progressing
  in the remaining case. Every diagnostic carries the given condition type and names a pod that
  is in the Deployment's namespace and carries its selector labels. The check changes nothing.
\<close>

theorem checkDeploymentStatus_classifies:
  assumes "api_ok r v" "run_state (checkDeploymentStatus r dep ct) w = ((s, ds, err), w')"
  shows "v w' = v w \<and> (s = DeploymentStatusReady \<longleftrightarrow> dep_available dep) \<and>
    (s = DeploymentStatusFailed \<longleftrightarrow> \<not> dep_available dep \<and> (\<exists>d \<in> set ds. terminal_reason (di_Reason d))) \<and>
    (s = DeploymentStatusFailed \<longleftrightarrow> err \<noteq> None) \<and>
    s \<in> {DeploymentStatusReady, DeploymentStatusFailed, DeploymentStatusProgressing} \<and>
    (\<forall>d \<in> set ds. di_FailedComponent d = ct \<and> (\<exists>sel p. dep_selector dep = Some sel \<and>
       selected Pod (m_namespace (k_meta dep)) sel p \<and> v w (key_of p) = Some p \<and>
       di_PodName d = m_name (k_meta p)))"
  by (rule checkDeploymentStatus_run [OF assms])

definition idle_deployment :: kobject where
  "idle_deployment = \<lparr>k_meta = new_meta ''ns'' ''app'' fmempty,
     k_payload = PDeployment \<lparr>dp_spec = zero_deployment, dp_conditions = [(''Available'', ''True'')]\<rparr>\<rparr>"

theorem checkDeploymentStatus_classifies_witness:
  "\<exists>s ds err w'. run_state (checkDeploymentStatus (mem_reconciler (no_options ''ns'')) idle_deployment
      TypeApiReady) fmempty = ((s, ds, err), w') \<and> s = DeploymentStatusReady"
proof -
  obtain s ds err w' where run: "run_state (checkDeploymentStatus (mem_reconciler (no_options ''ns''))
      idle_deployment TypeApiReady) fmempty = ((s, ds, err), w')" by (metis surj_pair)
  have "dep_available idle_deployment" by (simp add: dep_available_def idle_deployment_def)
  with checkDeploymentStatus_classifies [OF mem_reconciler_ok run] run show ?thesis by blast
qed

text \<open>
  A crash loop is found: when an unavailable Deployment has a stored pod, in its namespace
  and with its labels, that has a container waiting for a terminal reason, and the pods can be
  listed, the Deployment is reported Failed.
\<close>

theorem checkDeploymentStatus_finds_crash:
  assumes api: "api_ok r v" and unavailable: "\<not> dep_available dep"
    and sel: "dep_selector dep = Some sel" "sel \<noteq> fmempty"
    and pod: "v w (key_of p) = Some p" "selected Pod (m_namespace (k_meta dep)) sel p"
      "payload_pod (k_payload p) = Some st"
    and cs: "c \<in> set (st_containers st)" "\<not> (cs_running c \<and> cs_ready c)"
      "cs_waiting c = Some (reason, msg)" "terminal_reason reason"
    and listed: "run_state (cl_list r Pod (m_namespace (k_meta dep)) sel) w = (Inr pods, w1)"
  shows "fst (fst (run_state (checkDeploymentStatus r dep ct) w)) = DeploymentStatusFailed"
proof -
  obtain now w2 where n: "run_state (cl_now r) w1 = (now, w2)" by force
  let ?ds = "pods_diagnostics ct now {||} pods"
  have run: "run_state (collectDeploymentDiagnostics r dep ct) w = (?ds, w2)"
    using listed n sel by (simp add: collectDeploymentDiagnostics_def)
  have p: "p \<in> set pods" using api_list(2) [OF api listed refl] pod(1,2) by blast
  define d where "d = hd (container_diagnostics ct now (m_name (k_meta p)) c)"
  have "d \<in> set (container_diagnostics ct now (m_name (k_meta p)) c)" "di_Reason d = reason"
    using cs(2,3) by (auto simp: d_def container_diagnostics_def)
  then have "d \<in> set ?ds" "terminal_reason (di_Reason d)"
    using pods_diagnostics_container [OF p pod(3) cs(1)] cs(4) by simp_all
  then obtain d' where "find (\<lambda>d. terminal_reason (di_Reason d)) ?ds = Some d'"
    by (metis find_None not_Some_eq)
  then show ?thesis using run unavailable by (simp add: checkDeploymentStatus_def)
qed

definition crashing_pod :: kobject where
  "crashing_pod = \<lparr>k_meta = new_meta ''ns'' ''app-0'' (fmap_of_list [(''app'', ''x'')]),
     k_payload = PPod \<lparr>st_containers = [\<lparr>cs_name = ''api'', cs_ready = False, cs_running = False,
         cs_waiting = Some (''CrashLoopBackOff'', []), cs_terminated = None, cs_last_terminated = None\<rparr>],
       st_init = [], st_conditions = [], st_phase = ''Running'', st_message = []\<rparr>\<rparr>"

definition crashing_deployment :: kobject where
  "crashing_deployment = idle_deployment\<lparr>k_payload := PDeployment
     \<lparr>dp_spec = zero_deployment\<lparr>d_selector := Some (fmap_of_list [(''app'', ''x'')])\<rparr>, dp_conditions = []\<rparr>\<rparr>"

theorem checkDeploymentStatus_finds_crash_witness:
  "fst (fst (run_state (checkDeploymentStatus (mem_reconciler (no_options ''ns'')) crashing_deployment
      TypeApiReady) (fmupd (key_of crashing_pod) crashing_pod fmempty))) = DeploymentStatusFailed"
proof -
  let ?w = "fmupd (key_of crashing_pod) crashing_pod fmempty"
  let ?sel = "fmap_of_list [(''app'', ''x'')]"
  obtain pods where listed: "run_state (cl_list (mem_reconciler (no_options ''ns'')) Pod
      (m_namespace (k_meta crashing_deployment)) ?sel) ?w = (Inr pods, ?w)"
    by (simp add: mem_list_def)
  show ?thesis
  proof (rule checkDeploymentStatus_finds_crash [where reason = "''CrashLoopBackOff''" and msg = "[]" and
        st = "the (payload_pod (k_payload crashing_pod))" and
        c = "\<lparr>cs_name = ''api'', cs_ready = False, cs_running = False,
          cs_waiting = Some (''CrashLoopBackOff'', []), cs_terminated = None, cs_last_terminated = None\<rparr>",
        OF mem_reconciler_ok _ _ _ _ _ _ _ _ _ _ listed])
    show "mem_view ?w (key_of crashing_pod) = Some crashing_pod"
      by (simp add: mem_view_def crashing_pod_def new_meta_def)
    show "\<not> dep_available crashing_deployment"
      by (simp add: dep_available_def crashing_deployment_def)
    show "selected Pod (m_namespace (k_meta crashing_deployment)) ?sel crashing_pod"
      by (simp add: selected_def crashing_pod_def crashing_deployment_def idle_deployment_def key_of_def
          new_meta_def fmpred_iff)
  qed (simp_all add: crashing_pod_def crashing_deployment_def dep_selector_def terminal_reason_def)
qed

end
