(* ===== verification/Finalizer.thy ===== *)
theory Finalizer
  imports Watch Status
begin

text \<open>
  Deletion of the custom resource (\<open>internal/controller/olsconfig_controller.go\<close>): fetching and
  validating the resource, the finalizer, the removal of the operands, the enumeration, deletion
  and awaiting of everything the resource owns.
\<close>

section \<open>Definitions\<close>

text \<open>\<open>ctrl.Result\<close>: the seconds after which to requeue, 0 for the empty result.\<close>

type_synonym ctrl_result = int

definition getAndValidateCR ::
  "'w reconciler \<Rightarrow> string \<times> string \<Rightarrow> ('w, OLSConfig option \<times> goerr option) io" where
  "getAndValidateCR r req =
     (if snd req \<noteq> OLSConfigName then ret (None, None)
      else do {
        x \<leftarrow> cl_get r (OLSConfigKind', fst req, snd req);
        ret (case x of
           Inl err \<Rightarrow> (if IsNotFound err then (None, None)
             else (None, Some (wrapf ''failed to get OLSConfig CR'' err)))
         | Inr ob \<Rightarrow> (cr_of ob, None)) })"

record ResourceGroup =
  rg_Type :: string
  rg_Items :: "kobject list"

definition isOwnedBy :: "kobject \<Rightarrow> OLSConfig \<Rightarrow> bool" where
  "isOwnedBy obj cr = list_ex (\<lambda>ref. ow_uid ref = m_uid (cr_Meta cr)) (m_owners (k_meta obj))"

text \<open>The nine kinds whose listing must succeed, with the group type and the word of the error.\<close>

definition owned_kinds :: "(kind \<times> string \<times> string) list" where
  "owned_kinds =
     [(Deployment, ''deployment'', ''deployments''), (PersistentVolumeClaim, ''pvc'', ''pvcs''),
      (Service, ''service'', ''services''), (ConfigMap, ''configmap'', ''configmaps''),
      (Secret, ''secret'', ''secrets''), (ServiceAccount, ''serviceaccount'', ''serviceaccounts''),
      (NetworkPolicy, ''networkpolicy'', ''networkpolicies''), (Role, ''role'', ''roles''),
      (RoleBinding, ''rolebinding'', ''rolebindings'')]"

fun list_groups :: "'w reconciler \<Rightarrow> OLSConfig \<Rightarrow> (kind \<times> string \<times> string) list \<Rightarrow>
    ('w, goerr + ResourceGroup list) io" where
  "list_groups r cr [] = ret (Inr [])"
| "list_groups r cr ((K, type, plural) # ks) = do {
     x \<leftarrow> cl_list r K (GetNamespace r) fmempty;
     case x of
       Inl err \<Rightarrow> ret (Inl (wrapf (''failed to list '' @ plural) err))
     | Inr items \<Rightarrow> do {
         y \<leftarrow> list_groups r cr ks;
         ret (case y of Inl err \<Rightarrow> Inl err
           | Inr gs \<Rightarrow> Inr (\<lparr>rg_Type = type, rg_Items = filter (\<lambda>ob. isOwnedBy ob cr) items\<rparr> # gs)) } }"

text \<open>Kinds of the Prometheus operator: a failing list is taken for an absent definition.\<close>

definition list_optional :: "'w reconciler \<Rightarrow> OLSConfig \<Rightarrow> kind \<Rightarrow> string \<Rightarrow> ('w, ResourceGroup list) io" where
  "list_optional r cr K type = do {
     x \<leftarrow> cl_list r K (GetNamespace r) fmempty;
     ret (case x of Inl err \<Rightarrow> []
       | Inr items \<Rightarrow> [\<lparr>rg_Type = type, rg_Items = filter (\<lambda>ob. isOwnedBy ob cr) items\<rparr>]) }"

definition listOwnedResources :: "'w reconciler \<Rightarrow> OLSConfig \<Rightarrow> ('w, goerr + ResourceGroup list) io" where
  "listOwnedResources r cr = do {
     x \<leftarrow> list_groups r cr owned_kinds;
     case x of
       Inl err \<Rightarrow> ret (Inl err)
     | Inr gs \<Rightarrow> do {
         sms \<leftarrow> list_optional r cr ServiceMonitor ''servicemonitor'';
         prs \<leftarrow> list_optional r cr PrometheusRule ''prometheusrule'';
         ret (Inr (gs @ sms @ prs)) } }"

text \<open>Failed deletions are logged; the function never returns an error.\<close>

fun delete_items :: "'w reconciler \<Rightarrow> kobject list \<Rightarrow> ('w, unit) io" where
  "delete_items r [] = ret ()"
| "delete_items r (ob # obs) = do { e \<leftarrow> cl_delete r (key_of ob); delete_items r obs }"

definition deleteOwnedResources :: "'w reconciler \<Rightarrow> ResourceGroup list \<Rightarrow> ('w, goerr option) io" where
  "deleteOwnedResources r groups = do { delete_items r (concat (map rg_Items groups)); ret None }"

definition total_items :: "ResourceGroup list \<Rightarrow> nat" where
  "total_items groups = sum_list (map (\<lambda>g. length (rg_Items g)) groups)"

definition waitForOwnedResourcesDeletion :: "'w reconciler \<Rightarrow> OLSConfig \<Rightarrow> ('w, goerr option) io" where
  "waitForOwnedResourcesDeletion r cr = do {
     (e, last) \<leftarrow> PollUntilTimeout r 5 180 (\<lambda>last. do {
        x \<leftarrow> listOwnedResources r cr;
        ret (Inr (case x of Inl err \<Rightarrow> False | Inr groups \<Rightarrow> total_items groups = 0), last) });
     ret e }"

definition finalizeOLSConfig :: "'w operands \<Rightarrow> 'w reconciler \<Rightarrow> OLSConfig \<Rightarrow> ('w, goerr option) io" where
  "finalizeOLSConfig ops r cr = do {
     e1 \<leftarrow> console_Remove ops r;
     e2 \<leftarrow> agenticconsole_Remove ops r;
     e3 \<leftarrow> alertsadapter_Remove ops r;
     e4 \<leftarrow> ocpmcp_Remove ops r;
     e5 \<leftarrow> rhokp_Remove ops r;
     x \<leftarrow> listOwnedResources r cr;
     case x of
       Inl err \<Rightarrow> ret (Some (wrapf ''failed to list owned resources'' err))
     | Inr resourceGroups \<Rightarrow> do {
         e6 \<leftarrow> deleteOwnedResources r resourceGroups;
         e7 \<leftarrow> waitForOwnedResourcesDeletion r cr;
         ret None } }"

definition ContainsFinalizer :: "objmeta \<Rightarrow> string \<Rightarrow> bool" where
  "ContainsFinalizer m f = (f \<in> set (m_finalizers m))"

definition set_finalizers :: "string list \<Rightarrow> kobject \<Rightarrow> kobject" where
  "set_finalizers fs ob = ob\<lparr>k_meta := (k_meta ob)\<lparr>m_finalizers := fs\<rparr>\<rparr>"

text \<open>The update that removes the finalizer, and its classified errors.\<close>

definition remove_finalizer :: "'w reconciler \<Rightarrow> kobject \<Rightarrow> ('w, goerr option) io" where
  "remove_finalizer r ob = do {
     e \<leftarrow> cl_update r (set_finalizers (filter (\<lambda>f. f \<noteq> OLSConfigFinalizer) (m_finalizers (k_meta ob))) ob);
     ret (case e of
        None \<Rightarrow> None
      | Some err \<Rightarrow> (if IsNotFound err then None
          else if IsConflict err then Some (wrapf ''conflict removing finalizer'' err)
          else Some (wrapf ''failed to remove finalizer from OLSConfig CR'' err))) }"

definition handleFinalizer :: "'w operands \<Rightarrow> 'w reconciler \<Rightarrow> string \<times> string \<Rightarrow> OLSConfig \<Rightarrow>
    ('w, ctrl_result option \<times> goerr option) io" where
  "handleFinalizer ops r req cr =
     (if m_deleting (cr_Meta cr)
      then (if ContainsFinalizer (cr_Meta cr) OLSConfigFinalizer
            then do {
              e \<leftarrow> finalizeOLSConfig ops r cr;
              case e of
                Some err \<Rightarrow> ret (Some 0, Some (wrapf ''failed to finalize OLSConfig CR'' err))
              | None \<Rightarrow> do {
                  x \<leftarrow> cl_get r (OLSConfigKind', fst req, snd req);
                  case x of
                    Inl err \<Rightarrow> ret (Some 0, if IsNotFound err then None
                      else Some (wrapf ''failed to re-fetch OLSConfig CR before finalizer removal'' err))
                  | Inr ob \<Rightarrow> do {
                      e' \<leftarrow> remove_finalizer r ob;
                      ret (Some 0, e') } } }
            else ret (Some 0, None))
      else if \<not> ContainsFinalizer (cr_Meta cr) OLSConfigFinalizer
      then do {
        e \<leftarrow> cl_update r (set_finalizers (m_finalizers (cr_Meta cr) @ [OLSConfigFinalizer]) (obj_of_cr cr));
        ret (Some 0, map_option (wrapf ''failed to add finalizer to OLSConfig CR'') e) }
      else ret (None, None))"

definition wasComponentEnabled :: "OLSConfig \<Rightarrow> string \<Rightarrow> bool" where
  "wasComponentEnabled cr conditionType =
     (case find (\<lambda>c. cn_Type c = conditionType) (os_Conditions (cr_Status cr)) of
        None \<Rightarrow> False
      | Some c \<Rightarrow> cn_Reason c \<noteq> ''Disabled'')"

section \<open>Enumeration\<close>

text \<open>An object of kind \<open>K\<close> that the resource owns in the operator's namespace.\<close>

definition owned_object :: "'w reconciler \<Rightarrow> OLSConfig \<Rightarrow> (okey \<Rightarrow> kobject option) \<Rightarrow> kind \<Rightarrow> kobject \<Rightarrow> bool" where
  "owned_object r cr f K ob = (f (key_of ob) = Some ob \<and> selected K (GetNamespace r) fmempty ob \<and> isOwnedBy ob cr)"

definition group_items :: "ResourceGroup list \<Rightarrow> kobject set" where
  "group_items gs = (\<Union>g \<in> set gs. set (rg_Items g))"

lemma group_items_simps [simp]:
  "group_items [] = {}" "group_items (g # gs) = set (rg_Items g) \<union> group_items gs"
  "group_items (gs @ hs) = group_items gs \<union> group_items hs"
  by (auto simp: group_items_def)

lemma total_items_zero: "total_items gs = 0 \<longleftrightarrow> group_items gs = {}"
  by (induction gs) (auto simp: total_items_def)

lemma list_groups_run:
  assumes api: "api_ok r v"
  shows "run_state (list_groups r cr ks) w = (x, w') \<Longrightarrow> v w' = v w \<and>
    (\<forall>gs. x = Inr gs \<longrightarrow> group_items gs = {ob. \<exists>K \<in> fst ` set ks. owned_object r cr (v w) K ob})"
proof (induction ks arbitrary: w x w')
  case (Cons a ks)
  obtain K t p where a: "a = (K, t, p)" by (metis surj_pair)
  obtain y w1 where l: "run_state (cl_list r K (GetNamespace r) fmempty) w = (y, w1)" by force
  note l' = api_list [OF api l]
  show ?case
  proof (cases y)
    case (Inl err)
    then show ?thesis using Cons.prems l l'(1) by (auto simp: a)
  next
    case (Inr items)
    obtain z w2 where r: "run_state (list_groups r cr ks) w1 = (z, w2)" by force
    note ih = Cons.IH [OF r]
    have "set (filter (\<lambda>ob. isOwnedBy ob cr) items) = {ob. owned_object r cr (v w) K ob}"
      using l'(2) [OF Inr] by (auto simp: owned_object_def)
    then show ?thesis using Cons.prems l l'(1) Inr r ih by (cases z) (auto simp: a)
  qed
qed simp

lemma list_optional_run:
  assumes "api_ok r v" "run_state (list_optional r cr K t) w = (gs, w')"
  shows "v w' = v w" "ob \<in> group_items gs \<Longrightarrow> owned_object r cr (v w) K ob"
proof -
  obtain y w1 where l: "run_state (cl_list r K (GetNamespace r) fmempty) w = (y, w1)" by force
  note l' = api_list [OF assms(1) l]
  show "v w' = v w" "ob \<in> group_items gs \<Longrightarrow> owned_object r cr (v w) K ob"
    using assms(2) l l' by (auto simp: list_optional_def owned_object_def split: sum.splits)
qed

definition finalized_kinds :: "kind set" where
  "finalized_kinds = fst ` set owned_kinds \<union> {ServiceMonitor, PrometheusRule}"

lemma listOwnedResources_run:
  assumes api: "api_ok r v" and run: "run_state (listOwnedResources r cr) w = (x, w')"
  shows "v w' = v w"
    "x = Inr gs \<Longrightarrow> ob \<in> group_items gs \<Longrightarrow> \<exists>K \<in> finalized_kinds. owned_object r cr (v w) K ob"
    "x = Inr gs \<Longrightarrow> K \<in> fst ` set owned_kinds \<Longrightarrow> owned_object r cr (v w) K ob \<Longrightarrow> ob \<in> group_items gs"
proof -
  obtain y w1 where a: "run_state (list_groups r cr owned_kinds) w = (y, w1)" by force
  obtain sms w2 where b: "run_state (list_optional r cr ServiceMonitor ''servicemonitor'') w1 = (sms, w2)" by force
  obtain prs w3 where c: "run_state (list_optional r cr PrometheusRule ''prometheusrule'') w2 = (prs, w3)" by force
  note a' = list_groups_run [OF api a] and b' = list_optional_run [OF api b] and c' = list_optional_run [OF api c]
  have res: "case y of Inl e \<Rightarrow> x = Inl e \<and> w' = w1 | Inr gs \<Rightarrow> x = Inr (gs @ sms @ prs) \<and> w' = w3"
    using run a b c by (auto simp: listOwnedResources_def split: sum.splits)
  show "v w' = v w" using res a' b' c' by (auto split: sum.splits)
  show "x = Inr gs \<Longrightarrow> ob \<in> group_items gs \<Longrightarrow> \<exists>K \<in> finalized_kinds. owned_object r cr (v w) K ob"
    using res a' b' c' by (auto simp: finalized_kinds_def split: sum.splits)
  show "x = Inr gs \<Longrightarrow> K \<in> fst ` set owned_kinds \<Longrightarrow> owned_object r cr (v w) K ob \<Longrightarrow> ob \<in> group_items gs"
    using res a' by (auto split: sum.splits)
qed

text \<open>
  The enumeration of owned resources is exact: it changes nothing; on success it holds only
  stored objects of the managed kinds, in the operator's namespace, with an owner reference to
  this very resource, and it misses none of the nine kinds whose listing must succeed.
\<close>

theorem listOwnedResources_exact:
  assumes "api_ok r v" "run_state (listOwnedResources r cr) w = (x, w')"
  shows "v w' = v w \<and> (\<forall>gs. x = Inr gs \<longrightarrow>
    (\<forall>ob \<in> group_items gs. \<exists>K \<in> finalized_kinds. owned_object r cr (v w) K ob) \<and>
    (\<forall>K \<in> fst ` set owned_kinds. \<forall>ob. owned_object r cr (v w) K ob \<longrightarrow> ob \<in> group_items gs))"
  using listOwnedResources_run [OF assms] by blast

definition owned_config :: kobject where
  "owned_config = set_controller (blank_cr []) \<lparr>k_meta = new_meta ''ns'' ''cfg'' fmempty,
     k_payload = PConfigMap fmempty fmempty\<rparr>"

lemma owned_config_simps:
  "key_of owned_config = (ConfigMap, ''ns'', ''cfg'')" "\<not> m_deleting (k_meta owned_config)"
  "m_finalizers (k_meta owned_config) = []"
  by (simp_all add: owned_config_def set_controller_def key_of_def new_meta_def)

theorem listOwnedResources_exact_witness:
  "\<exists>gs w'. run_state (listOwnedResources (mem_reconciler (no_options ''ns'')) (blank_cr []))
      (fmupd (ConfigMap, ''ns'', ''cfg'') owned_config fmempty) = (Inr gs, w') \<and> owned_config \<in> group_items gs"
proof -
  let ?r = "mem_reconciler (no_options ''ns'')"
  let ?w = "fmupd (ConfigMap, ''ns'', ''cfg'') owned_config fmempty"
  obtain gs w' where run: "run_state (listOwnedResources ?r (blank_cr [])) ?w = (Inr gs, w')"
    by (simp add: listOwnedResources_def owned_kinds_def mem_list_def list_optional_def)
  have "owned_object ?r (blank_cr []) (mem_view ?w) ConfigMap owned_config"
    by (simp add: owned_object_def mem_view_def owned_config_simps selected_def GetNamespace_def no_options_def)
      (simp add: owned_config_def isOwnedBy_def set_controller_def new_meta_def)
  then show ?thesis
    using listOwnedResources_exact [OF mem_reconciler_ok run] run by (force simp: owned_kinds_def)
qed

section \<open>Deletion touches only owned objects\<close>

lemma delete_items_run:
  assumes api: "api_ok r v"
  shows "run_state (delete_items r obs) w = (u, w') \<Longrightarrow> k \<notin> key_of ` set obs \<Longrightarrow> v w' k = v w k"
proof (induction obs arbitrary: w)
  case (Cons ob obs)
  obtain e w1 where d: "run_state (cl_delete r (key_of ob)) w = (e, w1)" by force
  have "run_state (delete_items r obs) w1 = (u, w')" using Cons.prems d by simp
  then have "v w' k = v w1 k" using Cons by simp
  moreover have "v w1 k = v w k" using api_delete(4) [OF api d] Cons.prems(2) by auto
  ultimately show ?case by simp
qed simp

lemma wait_run:
  assumes api: "api_ok r v" and "runtime_ok r"
    and run: "run_state (waitForOwnedResourcesDeletion r cr) w = (e, w')"
  shows "v w' = v w \<and> (e = None \<longrightarrow> (\<forall>K \<in> fst ` set owned_kinds. \<forall>ob. \<not> owned_object r cr (v w) K ob))"
    (is "_ \<and> (_ \<longrightarrow> ?P (v w))")
proof -
  define c where "c = (\<lambda>last :: captured. do {
        x \<leftarrow> listOwnedResources r cr;
        ret (Inr (case x of Inl err \<Rightarrow> False | Inr groups \<Rightarrow> total_items groups = 0) :: goerr + bool, last) })"
  have cond: "v w' = v w \<and> (x = Inr True \<longrightarrow> ?P (v w))" if "run_state (c l) w = ((x, l'), w')" for l w x l' w'
  proof -
    obtain y w1 where l: "run_state (listOwnedResources r cr) w = (y, w1)" by force
    have "?P (v w)" if "y = Inr gs" "group_items gs = {}" for gs
      using listOwnedResources_run(3) [OF api l that(1)] that(2) by blast
    then show ?thesis using that l listOwnedResources_run(1) [OF api l]
      by (cases y) (force simp: c_def total_items_zero)+
  qed
  obtain pe l w1 where p: "run_state (PollUntilTimeout r 5 180 c) w = ((pe, l), w1)" by (metis surj_pair)
  then obtain n where "run_state (poll_steps (Suc n) c (None, None)) w = ((pe, l), w1)"
    using assms(2) unfolding runtime_ok_def poll_ok_def by metis
  from poll_steps_check [where v = v and P = "\<lambda>f l. ?P f", OF cond this]
  have "v w1 = v w \<and> (pe = None \<longrightarrow> ?P (v w))" .
  then show ?thesis using run p unfolding waitForOwnedResourcesDeletion_def c_def [symmetric] by auto
qed

text \<open>
  The wait is not over early: it succeeds only when no object of the nine namespaced kinds is
  left that the resource owns, and it changes nothing.
\<close>

theorem wait_complete:
  assumes "api_ok r v" "runtime_ok r" "run_state (waitForOwnedResourcesDeletion r cr) w = (e, w')"
  shows "v w' = v w \<and> (e = None \<longrightarrow> (\<forall>K \<in> fst ` set owned_kinds. \<forall>ob. \<not> owned_object r cr (v w') K ob))"
  using wait_run [OF assms] by simp

theorem wait_complete_witness:
  "\<exists>e w'. run_state (waitForOwnedResourcesDeletion (mem_reconciler (no_options ''ns'')) (blank_cr []))
      (fmupd (ConfigMap, ''ns'', ''cfg'') owned_config fmempty) = (e, w') \<and> e \<noteq> None"
proof -
  let ?r = "mem_reconciler (no_options ''ns'')"
  let ?w = "fmupd (ConfigMap, ''ns'', ''cfg'') owned_config fmempty"
  obtain e w' where run: "run_state (waitForOwnedResourcesDeletion ?r (blank_cr [])) ?w = (e, w')" by force
  have "owned_object ?r (blank_cr []) (mem_view ?w) ConfigMap owned_config"
    by (simp add: owned_object_def mem_view_def owned_config_simps selected_def GetNamespace_def no_options_def)
      (simp add: owned_config_def isOwnedBy_def set_controller_def new_meta_def)
  then show ?thesis
    using wait_complete [OF mem_reconciler_ok mem_runtime_ok run] run by (force simp: owned_kinds_def)
qed

section \<open>Finalization\<close>

text \<open>What the controller relies on of the operand removals: each touches only the objects \<open>R\<close>.\<close>

definition removals_within :: "('w \<Rightarrow> okey \<Rightarrow> kobject option) \<Rightarrow> okey set \<Rightarrow> 'w operands \<Rightarrow> 'w reconciler \<Rightarrow> bool" where
  "removals_within v R ops r = (\<forall>m \<in> {console_Remove ops r, agenticconsole_Remove ops r, alertsadapter_Remove ops r,
      ocpmcp_Remove ops r, rhokp_Remove ops r}. ensures v R (\<lambda>f. True) m)"

lemma removals_withinD:
  assumes "removals_within v R ops r"
    "run_state m w = (e, w')" "m \<in> {console_Remove ops r, agenticconsole_Remove ops r, alertsadapter_Remove ops r,
      ocpmcp_Remove ops r, rhokp_Remove ops r}" "k \<notin> R"
  shows "v w' k = v w k"
  using assms ensuresD(2) unfolding removals_within_def by metis

text \<open>The run of the finalization: the removals, then the enumeration, deletion and wait.\<close>

lemma finalize_run:
  assumes api: "api_ok r v" and rt: "runtime_ok r" and rem: "removals_within v R ops r"
    and run: "run_state (finalizeOLSConfig ops r cr) w = (e, w')"
  obtains w1 x w2 where "\<And>k. k \<notin> R \<Longrightarrow> v w1 k = v w k" "run_state (listOwnedResources r cr) w1 = (x, w2)"
    "\<And>err. x = Inl err \<Longrightarrow> e = Some (wrapf ''failed to list owned resources'' err) \<and> w' = w2"
    "\<And>gs k. x = Inr gs \<Longrightarrow> k \<notin> key_of ` group_items gs \<Longrightarrow> v w' k = v w1 k" "\<And>gs. x = Inr gs \<Longrightarrow> e = None"
proof -
  obtain e1 a where 1: "run_state (console_Remove ops r) w = (e1, a)" by force
  obtain e2 b where 2: "run_state (agenticconsole_Remove ops r) a = (e2, b)" by force
  obtain e3 c where 3: "run_state (alertsadapter_Remove ops r) b = (e3, c)" by force
  obtain e4 d where 4: "run_state (ocpmcp_Remove ops r) c = (e4, d)" by force
  obtain e5 w1 where 5: "run_state (rhokp_Remove ops r) d = (e5, w1)" by force
  obtain x w2 where l: "run_state (listOwnedResources r cr) w1 = (x, w2)" by force
  note rm = removals_withinD [OF rem]
  have fr: "v w1 k = v w k" if "k \<notin> R" for k
    using rm [OF 1 _ that] rm [OF 2 _ that] rm [OF 3 _ that] rm [OF 4 _ that] rm [OF 5 _ that] by simp
  have head: "run_state (finalizeOLSConfig ops r cr) w = (case x of
       Inl err \<Rightarrow> (Some (wrapf ''failed to list owned resources'' err), w2)
     | Inr gs \<Rightarrow> (None, snd (run_state (waitForOwnedResourcesDeletion r cr)
         (snd (run_state (delete_items r (concat (map rg_Items gs))) w2)))))"
    using 1 2 3 4 5 l
    by (auto simp: finalizeOLSConfig_def deleteOwnedResources_def split: sum.splits prod.splits)
  have "v w' k = v w1 k" if "x = Inr gs" "k \<notin> key_of ` group_items gs" for gs k
  proof -
    obtain u w3 where dl: "run_state (delete_items r (concat (map rg_Items gs))) w2 = (u, w3)" by (metis surj_pair)
    obtain y w4 where wt: "run_state (waitForOwnedResourcesDeletion r cr) w3 = (y, w4)" by force
    have "k \<notin> key_of ` set (concat (map rg_Items gs))" using that(2) by (auto simp: group_items_def)
    then have "v w3 k = v w2 k" by (rule delete_items_run [OF api dl])
    then show ?thesis
      using run head that(1) dl wt wait_run [OF api rt wt] listOwnedResources_run(1) [OF api l] by simp
  qed
  moreover have "e = Some (wrapf ''failed to list owned resources'' err) \<and> w' = w2" if "x = Inl err" for err
    using run head that by simp
  moreover have "e = None" if "x = Inr gs" for gs using run head that by simp
  ultimately show ?thesis using that [OF fr l] by blast
qed

text \<open>
  (C5) Finalization deletes nothing it should not: apart from the objects of the operand removals,
  every object that this resource does not own (or that is of another kind or namespace) is left
  as it is; and it fails only when the owned resources cannot be listed, whatever goes wrong in
  the removals, the deletions or the wait.
\<close>

theorem finalize_only_owned:
  assumes "api_ok r v" "runtime_ok r" "removals_within v R ops r"
    "run_state (finalizeOLSConfig ops r cr) w = (e, w')"
  shows "(\<forall>k. k \<notin> R \<and> (\<forall>ob K. v w k = Some ob \<and> K \<in> finalized_kinds \<longrightarrow> \<not> owned_object r cr (v w) K ob)
      \<longrightarrow> v w' k = v w k) \<and>
    (e \<noteq> None \<longrightarrow> (\<exists>w1 err. (\<forall>k. k \<notin> R \<longrightarrow> v w1 k = v w k) \<and>
      run_state (listOwnedResources r cr) w1 = (Inl err, w') \<and> e = Some (wrapf ''failed to list owned resources'' err)))"
  using assms
proof (rule finalize_run)
  fix w1 x w2
  assume fr: "\<And>k. k \<notin> R \<Longrightarrow> v w1 k = v w k" and l: "run_state (listOwnedResources r cr) w1 = (x, w2)"
    and err: "\<And>err. x = Inl err \<Longrightarrow> e = Some (wrapf ''failed to list owned resources'' err) \<and> w' = w2"
    and del: "\<And>gs k. x = Inr gs \<Longrightarrow> k \<notin> key_of ` group_items gs \<Longrightarrow> v w' k = v w1 k"
    and ok: "\<And>gs. x = Inr gs \<Longrightarrow> e = None"
  note l' = listOwnedResources_run [OF assms(1) l]
  have "v w' k = v w k" if k: "k \<notin> R"
      "\<forall>ob K. v w k = Some ob \<and> K \<in> finalized_kinds \<longrightarrow> \<not> owned_object r cr (v w) K ob" for k
  proof (cases x)
    case (Inl e')
    then show ?thesis using err fr [OF k(1)] l'(1) by simp
  next
    case (Inr gs)
    have "k \<notin> key_of ` group_items gs"
    proof
      assume "k \<in> key_of ` group_items gs"
      then obtain ob K where ob: "k = key_of ob" "K \<in> finalized_kinds" "owned_object r cr (v w1) K ob"
        using l'(2) [OF Inr] by blast
      then have "owned_object r cr (v w) K ob" "v w k = Some ob" using fr [OF k(1)] by (auto simp: owned_object_def)
      then show False using k(2) ob(2) by blast
    qed
    then show ?thesis using del [OF Inr] fr [OF k(1)] by simp
  qed
  moreover have "\<exists>w1 err. (\<forall>k. k \<notin> R \<longrightarrow> v w1 k = v w k) \<and>
      run_state (listOwnedResources r cr) w1 = (Inl err, w') \<and> e = Some (wrapf ''failed to list owned resources'' err)" if "e \<noteq> None"
    using that ok l fr err by (cases x) blast+
  ultimately show ?thesis by blast
qed

text \<open>Operands that do nothing.\<close>

definition idle_operands :: "'w operands" where
  "idle_operands = operands.make
     (\<lambda>r cr. ret None) (\<lambda>r cr. ret None) (\<lambda>r. ret None) (\<lambda>r g. ret None)
     (\<lambda>r cr. ret None) (\<lambda>r cr. ret None) (\<lambda>r. ret None) (\<lambda>r g. ret None)
     (\<lambda>r cr. ret None) (\<lambda>r cr. ret None) (\<lambda>r. ret None) (\<lambda>r g. ret None)
     (\<lambda>r cr. ret None) (\<lambda>r cr. ret None) (\<lambda>r. ret None) (\<lambda>r g. ret None)
     (\<lambda>r cr. ret None) (\<lambda>r cr. ret None) (\<lambda>r. ret None) (\<lambda>r g. ret None)
     (\<lambda>r cr. ret None) (\<lambda>r cr. ret None) (\<lambda>r g. ret None)
     (\<lambda>r cr. ret None) (\<lambda>r cr. ret None) (\<lambda>r g. ret None)
     (\<lambda>r cr. ret None) (\<lambda>r cr. ret None) (\<lambda>r g. ret None)
     (\<lambda>r cr. ret None) (\<lambda>r. ret None)"

lemma idle_removals: "removals_within v {} idle_operands r"
  by (simp add: removals_within_def idle_operands_def operands.defs ensures_def on_keys_def)

theorem finalize_only_owned_witness:
  "\<exists>e w'. run_state (finalizeOLSConfig idle_operands (mem_reconciler (no_options ''ns'')) (blank_cr []))
      (fmupd (key_of plain_secret) plain_secret fmempty) = (e, w') \<and>
    mem_view w' (key_of plain_secret) = Some plain_secret"
proof -
  let ?r = "mem_reconciler (no_options ''ns'')"
  let ?w = "fmupd (key_of plain_secret) plain_secret fmempty"
  obtain e w' where run: "run_state (finalizeOLSConfig idle_operands ?r (blank_cr [])) ?w = (e, w')" by force
  have s: "mem_view ?w (key_of plain_secret) = Some plain_secret" "\<not> isOwnedBy plain_secret (blank_cr [])"
    by (simp_all add: mem_view_def plain_secret_def new_meta_def isOwnedBy_def)
  have "\<forall>ob K. mem_view ?w (key_of plain_secret) = Some ob \<and> K \<in> finalized_kinds \<longrightarrow>
      \<not> owned_object ?r (blank_cr []) (mem_view ?w) K ob"
    unfolding s(1) using s(2) by (auto simp: owned_object_def)
  then have "mem_view w' (key_of plain_secret) = mem_view ?w (key_of plain_secret)"
    using finalize_only_owned [OF mem_reconciler_ok mem_runtime_ok idle_removals run] by blast
  then show ?thesis using run s(1) by auto
qed

section \<open>The finalizer\<close>

definition without_finalizer :: "kobject option \<Rightarrow> bool" where
  "without_finalizer x = (case x of None \<Rightarrow> True | Some ob \<Rightarrow> OLSConfigFinalizer \<notin> set (m_finalizers (k_meta ob)))"

lemma set_finalizers_simps [simp]:
  "key_of (set_finalizers fs ob) = key_of ob" "m_finalizers (k_meta (set_finalizers fs ob)) = fs"
  "m_deleting (k_meta (set_finalizers fs ob)) = m_deleting (k_meta ob)"
  "k_payload (set_finalizers fs ob) = k_payload ob"
  by (simp_all add: set_finalizers_def key_of_def)

lemma remove_finalizer_run:
  assumes api: "api_ok r v" and ob: "v w k = Some ob" "key_of ob = k"
    and run: "run_state (remove_finalizer r ob) w = (e, w')"
  shows "e = None \<Longrightarrow> without_finalizer (v w' k)" "k' \<noteq> k \<Longrightarrow> v w' k' = v w k'"
proof -
  let ?ob = "set_finalizers (filter (\<lambda>f. f \<noteq> OLSConfigFinalizer) (m_finalizers (k_meta ob))) ob"
  obtain u where u: "run_state (cl_update r ?ob) w = (u, w')"
    and e: "e = (case u of None \<Rightarrow> None | Some err \<Rightarrow> (if IsNotFound err then None
          else if IsConflict err then Some (wrapf ''conflict removing finalizer'' err)
          else Some (wrapf ''failed to remove finalizer from OLSConfig CR'' err)))"
    using run by (auto simp: remove_finalizer_def split: prod.splits)
  note up = api_update [OF api u]
  show "k' \<noteq> k \<Longrightarrow> v w' k' = v w k'" using up(4) ob by simp
  show "without_finalizer (v w' k)" if "e = None"
  proof (cases u)
    case None
    show ?thesis
    proof (cases "m_deleting (k_meta ?ob) \<and> m_finalizers (k_meta ?ob) = []")
      case True
      then show ?thesis using up(2) [OF None] ob by (simp add: without_finalizer_def)
    next
      case False
      then obtain s where "stored_as ?ob s" "v w' = (v w)(key_of ?ob \<mapsto> s)" using up(1) [OF None] by blast
      then show ?thesis using ob by (simp add: without_finalizer_def stored_as_def)
    qed
  next
    case (Some err)
    then have "IsNotFound err" using that e by (auto split: if_splits)
    then show ?thesis using up(5) [OF Some] ob by simp
  qed
qed

text \<open>
  The three ways in which the finalizer step can fail: the owned resources cannot be listed after
  the removals, the resource cannot be read again, or the update without the finalizer is refused.
\<close>

definition release_failed :: "('w \<Rightarrow> okey \<Rightarrow> kobject option) \<Rightarrow> okey set \<Rightarrow> 'w operands \<Rightarrow> 'w reconciler \<Rightarrow> OLSConfig \<Rightarrow>
    okey \<Rightarrow> 'w \<Rightarrow> goerr \<Rightarrow> 'w \<Rightarrow> bool" where
  "release_failed v R ops r cr k w e w' =
     ((\<exists>w1 err. (\<forall>k'. k' \<notin> R \<longrightarrow> v w1 k' = v w k') \<and> run_state (listOwnedResources r cr) w1 = (Inl err, w') \<and>
         e = wrapf ''failed to finalize OLSConfig CR'' (wrapf ''failed to list owned resources'' err)) \<or>
      (\<exists>w1 err. run_state (finalizeOLSConfig ops r cr) w = (None, w1) \<and> run_state (cl_get r k) w1 = (Inl err, w') \<and>
         \<not> IsNotFound err \<and> e = wrapf ''failed to re-fetch OLSConfig CR before finalizer removal'' err) \<or>
      (\<exists>w1 ob w2 err. run_state (finalizeOLSConfig ops r cr) w = (None, w1) \<and> run_state (cl_get r k) w1 = (Inr ob, w2) \<and>
         run_state (cl_update r (set_finalizers (filter (\<lambda>f. f \<noteq> OLSConfigFinalizer) (m_finalizers (k_meta ob))) ob)) w2
           = (Some err, w') \<and> \<not> IsNotFound err \<and>
         e = wrapf (if IsConflict err then ''conflict removing finalizer''
           else ''failed to remove finalizer from OLSConfig CR'') err))"

lemma handleFinalizer_run:
  assumes api: "api_ok r v" and rt: "runtime_ok r" and rem: "removals_within v R ops r"
    and cr: "v w (OLSConfigKind', fst req, snd req) = Some ob" "cr_of ob = Some cr" "m_deleting (cr_Meta cr)"
    and run: "run_state (handleFinalizer ops r req cr) w = ((res, e), w')"
  shows "res = Some 0 \<and> (case e of
     None \<Rightarrow> without_finalizer (v w' (OLSConfigKind', fst req, snd req))
   | Some err \<Rightarrow> release_failed v R ops r cr (OLSConfigKind', fst req, snd req) w err w')"
proof (cases "ContainsFinalizer (cr_Meta cr) OLSConfigFinalizer")
  case True
  let ?k = "(OLSConfigKind', fst req, snd req)"
  obtain e1 w1 where f: "run_state (finalizeOLSConfig ops r cr) w = (e1, w1)" by force
  obtain x w2 where g: "run_state (cl_get r ?k) w1 = (x, w2)" by force
  note get = api_get [OF api g]
  show ?thesis
  proof (cases e1)
    case (Some err)
    have "\<exists>wl le. (\<forall>k. k \<notin> R \<longrightarrow> v wl k = v w k) \<and> run_state (listOwnedResources r cr) wl = (Inl le, w1) \<and>
        err = wrapf ''failed to list owned resources'' le"
      using api rt rem f
    proof (rule finalize_run)
      fix wl x wm
      assume "\<And>k. k \<notin> R \<Longrightarrow> v wl k = v w k" "run_state (listOwnedResources r cr) wl = (x, wm)"
        "\<And>err. x = Inl err \<Longrightarrow> e1 = Some (wrapf ''failed to list owned resources'' err) \<and> w1 = wm"
        "\<And>gs. x = Inr gs \<Longrightarrow> e1 = None"
      then show ?thesis using Some by (cases x) auto
    qed
    then obtain wl le where le: "\<forall>k. k \<notin> R \<longrightarrow> v wl k = v w k" "run_state (listOwnedResources r cr) wl = (Inl le, w1)"
      "err = wrapf ''failed to list owned resources'' le" by blast
    have res: "res = Some 0" "w' = w1" "e = Some (wrapf ''failed to finalize OLSConfig CR'' err)"
      using run cr(3) True f Some by (simp_all add: handleFinalizer_def)
    have "release_failed v R ops r cr ?k w (wrapf ''failed to finalize OLSConfig CR'' err) w'"
      unfolding release_failed_def le(3) res(2) using le(1,2) by blast
    then show ?thesis using res by simp
  next
    case None
    note n = None
    show ?thesis
    proof (cases x)
      case (Inl err)
      then have res: "res = Some 0" "w' = w2" "e = (if IsNotFound err then None
          else Some (wrapf ''failed to re-fetch OLSConfig CR before finalizer removal'' err))"
        using run cr(3) True f g n by (auto simp: handleFinalizer_def)
      show ?thesis
      proof (cases "IsNotFound err")
        case True
        then show ?thesis using res get(1) get(5) [OF Inl] by (simp add: without_finalizer_def)
      next
        case False
        then have "release_failed v R ops r cr ?k w (wrapf ''failed to re-fetch OLSConfig CR before finalizer removal'' err) w'"
          using f g n Inl res(2) unfolding release_failed_def by blast
        then show ?thesis using res False by simp
      qed
    next
      case (Inr ob')
      obtain e2 where rm: "run_state (remove_finalizer r ob') w2 = (e2, w')" "res = Some 0" "e = e2"
        using run cr(3) True f g n Inr by (auto simp: handleFinalizer_def split: prod.splits)
      have "v w2 ?k = Some ob'" using get(1,2) Inr by simp
      note gone = remove_finalizer_run(1) [OF api this get(3) [OF Inr] rm(1)]
      show ?thesis
      proof (cases e)
        case None
        then show ?thesis using gone rm by simp
      next
        case (Some err)
        then obtain ue where "run_state (cl_update r (set_finalizers (filter (\<lambda>f. f \<noteq> OLSConfigFinalizer)
            (m_finalizers (k_meta ob'))) ob')) w2 = (Some ue, w')" "\<not> IsNotFound ue"
          "err = wrapf (if IsConflict ue then ''conflict removing finalizer''
             else ''failed to remove finalizer from OLSConfig CR'') ue"
          using rm(1,3) by (auto simp: remove_finalizer_def split: prod.splits option.splits if_splits)
        then have "release_failed v R ops r cr ?k w err w'"
          using f g n Inr unfolding release_failed_def by blast
        then show ?thesis using Some rm(2) by simp
      qed
    qed
  qed
next
  case False
  then have "res = Some 0" "w' = w" "e = None" using run cr(3) by (auto simp: handleFinalizer_def)
  moreover have "cr_Meta cr = k_meta ob" using cr(2) by (auto simp: cr_of_def split: payload.splits)
  ultimately show ?thesis using False cr(1) by (simp add: without_finalizer_def ContainsFinalizer_def)
qed

text \<open>
  (C4) A resource marked for deletion is let go: the finalizer step always ends the reconcile, and
  either it reports no error and the stored resource is gone or no longer has the operator's
  finalizer, or it reports one of three failures: the owned resources could not be listed, the
  resource could not be read again, or the update that removes the finalizer was refused. A
  failure to remove an operand, to delete an owned object or to see it go never holds it back.
\<close>

theorem handleFinalizer_releases:
  assumes "api_ok r v" "runtime_ok r" "removals_within v R ops r"
    "v w (OLSConfigKind', fst req, snd req) = Some ob" "cr_of ob = Some cr" "m_deleting (cr_Meta cr)"
    "run_state (handleFinalizer ops r req cr) w = ((res, e), w')"
  shows "res = Some 0 \<and> (case e of
     None \<Rightarrow> without_finalizer (v w' (OLSConfigKind', fst req, snd req))
   | Some err \<Rightarrow> release_failed v R ops r cr (OLSConfigKind', fst req, snd req) w err w')"
  by (rule handleFinalizer_run [OF assms])

definition leaving_cr :: OLSConfig where
  "leaving_cr = (blank_cr [])\<lparr>cr_Meta := (cr_Meta (blank_cr []))\<lparr>m_deleting := True,
     m_finalizers := [OLSConfigFinalizer]\<rparr>\<rparr>"

text \<open>Operands none of which can be removed.\<close>

definition stuck_operands :: "'w operands" where
  "stuck_operands = idle_operands\<lparr>console_Remove := (\<lambda>r. ret (Some (newerr ''stuck''))),
     agenticconsole_Remove := (\<lambda>r. ret (Some (newerr ''stuck''))),
     alertsadapter_Remove := (\<lambda>r. ret (Some (newerr ''stuck''))),
     ocpmcp_Remove := (\<lambda>r. ret (Some (newerr ''stuck''))), rhokp_Remove := (\<lambda>r. ret (Some (newerr ''stuck'')))\<rparr>"

lemma stuck_removals: "removals_within v {} stuck_operands r"
  by (simp add: removals_within_def stuck_operands_def ensures_def on_keys_def)

lemma mem_list_groups: "\<exists>gs. run_state (list_groups (mem_reconciler op) cr ks) w = (Inr gs, w)"
proof (induction ks)
  case (Cons a ks)
  obtain K t p where "a = (K, t, p)" by (metis surj_pair)
  then show ?case using Cons by (auto simp: mem_list_def)
qed simp

lemma mem_listOwned: "\<exists>gs. run_state (listOwnedResources (mem_reconciler op) cr) w = (Inr gs, w)"
  using mem_list_groups [of op cr owned_kinds w]
  by (auto simp: listOwnedResources_def list_optional_def mem_list_def)

lemma mem_never_held: "\<not> release_failed mem_view R ops (mem_reconciler op) cr k w e w'"
proof -
  have "run_state (listOwnedResources (mem_reconciler op) cr) w1 \<noteq> (Inl err, w')" for w1 err
    using mem_listOwned [of op cr w1] by auto
  moreover have "\<not> (run_state (cl_get (mem_reconciler op) k) w1 = (Inl err, w') \<and> \<not> IsNotFound err)" for w1 err
    by (auto simp: mem_get_def split: option.splits)
  moreover have "\<not> (run_state (cl_update (mem_reconciler op) ob) w1 = (Some err, w') \<and> \<not> IsNotFound err)" for ob w1 err
    by (auto simp: mem_update_def split: if_splits)
  ultimately show ?thesis unfolding release_failed_def by blast
qed

theorem handleFinalizer_releases_witness:
  "\<exists>w'. run_state (handleFinalizer stuck_operands (mem_reconciler (no_options ''ns'')) ([], ''cluster'') leaving_cr)
      (fmupd (OLSConfigKind', [], ''cluster'') (obj_of_cr leaving_cr) fmempty) = ((Some 0, None), w') \<and>
    without_finalizer (mem_view w' (OLSConfigKind', [], ''cluster''))"
proof -
  let ?r = "mem_reconciler (no_options ''ns'')" and ?req = "([], ''cluster'') :: string \<times> string"
  let ?w = "fmupd (OLSConfigKind', [], ''cluster'') (obj_of_cr leaving_cr) fmempty"
  obtain res e w' where run: "run_state (handleFinalizer stuck_operands ?r ?req leaving_cr) ?w = ((res, e), w')"
    by (metis surj_pair)
  have "mem_view ?w (OLSConfigKind', fst ?req, snd ?req) = Some (obj_of_cr leaving_cr)"
    by (simp add: mem_view_def obj_of_cr_def leaving_cr_def key_of_def blank_cr_def new_meta_def)
  from handleFinalizer_releases [OF mem_reconciler_ok mem_runtime_ok stuck_removals this cr_of_obj_of_cr _ run]
  show ?thesis using run mem_never_held by (cases e) (auto simp: leaving_cr_def)
qed

text \<open>
  The first reconcile of a resource only adds the finalizer: for a resource that is not being
  deleted and has none, the step ends the reconcile, touches only the resource, and on success the
  stored one has its spec unchanged and the finalizer added.
\<close>

theorem handleFinalizer_adds:
  assumes "api_ok r v" "\<not> m_deleting (cr_Meta cr)" "OLSConfigFinalizer \<notin> set (m_finalizers (cr_Meta cr))"
    "run_state (handleFinalizer ops r req cr) w = ((res, e), w')"
  shows "res = Some 0 \<and> (\<forall>k. k \<noteq> cr_key cr \<longrightarrow> v w' k = v w k) \<and>
    (e = None \<longrightarrow> (\<exists>s t. v w' (cr_key cr) = Some s \<and> k_payload s = POLSConfig (cr_Spec cr) t \<and>
      m_finalizers (k_meta s) = m_finalizers (cr_Meta cr) @ [OLSConfigFinalizer]))"
proof -
  let ?ob = "set_finalizers (m_finalizers (cr_Meta cr) @ [OLSConfigFinalizer]) (obj_of_cr cr)"
  obtain u where u: "run_state (cl_update r ?ob) w = (u, w')" "res = Some 0"
    "e = map_option (wrapf ''failed to add finalizer to OLSConfig CR'') u"
    using assms(2-4) by (auto simp: handleFinalizer_def ContainsFinalizer_def split: prod.splits)
  have key: "key_of ?ob = cr_key cr" by (simp add: cr_key_def) (simp add: obj_of_cr_def key_of_def)
  note up = api_update [OF assms(1) u(1), unfolded key]
  have "\<exists>s t. v w' (cr_key cr) = Some s \<and> k_payload s = POLSConfig (cr_Spec cr) t \<and>
      m_finalizers (k_meta s) = m_finalizers (cr_Meta cr) @ [OLSConfigFinalizer]" if "e = None"
  proof -
    have "u = None" using that u(3) by simp
    then obtain s where "stored_as ?ob s" "v w' (cr_key cr) = Some s" using up(1) by auto
    then show ?thesis by (auto simp: stored_as_def obj_of_cr_def)
  qed
  then show ?thesis using u(2) up(4) by blast
qed

theorem handleFinalizer_adds_witness:
  "\<exists>e w'. run_state (handleFinalizer idle_operands (mem_reconciler (no_options ''ns'')) ([], ''cluster'') (blank_cr []))
      fmempty = ((Some 0, e), w')"
proof -
  obtain res e w' where run: "run_state (handleFinalizer idle_operands (mem_reconciler (no_options ''ns''))
      ([], ''cluster'') (blank_cr [])) fmempty = ((res, e), w')" by (metis surj_pair)
  have "\<not> m_deleting (cr_Meta (blank_cr []))" "OLSConfigFinalizer \<notin> set (m_finalizers (cr_Meta (blank_cr [])))"
    by (simp_all add: blank_cr_def new_meta_def)
  from handleFinalizer_adds [OF mem_reconciler_ok this run] run show ?thesis by blast
qed

end
