(* ===== verification/Operator_Assets.thy ===== *)
theory Operator_Assets
  imports Console_Plugin
begin

text \<open>
  The operator's own objects (\<open>internal/controller/operator_assets.go\<close>): the ServiceMonitor of its
  metrics endpoint, owned by the operator's Deployment, and the network policy of its pod, and
  the step of the controller that reconciles both.
\<close>

section \<open>Definitions\<close>

definition operator_endpoint :: "'w reconciler \<Rightarrow> sm_endpoint" where
  "operator_endpoint r = \<lparr>se_port = ''metrics'', se_path = ''/metrics'', se_interval = ''30s'', se_scheme = ''https'',
     se_ca = ''/etc/prometheus/configmaps/serving-certs-ca-bundle/service-ca.crt'',
     se_cert = ''/etc/prometheus/secrets/metrics-client-certs/tls.crt'',
     se_key = ''/etc/prometheus/secrets/metrics-client-certs/tls.key'', se_insecure = False,
     se_server_name = join_with ''.'' [''lightspeed-operator-controller-manager-service'', GetNamespace r, ''svc''],
     se_auth = None\<rparr>"

definition generateServiceMonitorForOperator :: "'w reconciler \<Rightarrow> kobject" where
  "generateServiceMonitorForOperator r = \<lparr>
     k_meta = new_meta (GetNamespace r) OperatorServiceMonitorName (fmap_of_list
       [(''control-plane'', ''controller-manager''), (''app.kubernetes.io/component'', ''metrics''),
        (''app.kubernetes.io/managed-by'', ''lightspeed-operator''),
        (''app.kubernetes.io/name'', ''servicemonitor''),
        (''app.kubernetes.io/instance'', ''controller-manager-metrics-monitor''),
        (''app.kubernetes.io/part-of'', ''lightspeed-operator''),
        (''monitoring.openshift.io/collection-profile'', ''full''),
        (''openshift.io/user-monitoring'', ''false'')]),
     k_payload = PServiceMonitor \<lparr>sm_endpoints = [operator_endpoint r], sm_job_label = ''app.kubernetes.io/name'',
       sm_selector = fmap_of_list [(''control-plane'', ''controller-manager'')]\<rparr>\<rparr>"

text \<open>\<open>controllerutil.SetOwnerReference\<close> with the operator's Deployment, on an object without owners.\<close>

definition owned_by_deployment :: "kobject \<Rightarrow> kobject \<Rightarrow> kobject" where
  "owned_by_deployment dep ob = ob\<lparr>k_meta := (k_meta ob)\<lparr>m_owners := [\<lparr>ow_kind = ''Deployment'',
     ow_apiversion = ''apps/v1'', ow_uid = m_uid (k_meta dep), ow_controller = False\<rparr>]\<rparr>\<rparr>"

definition ReconcileServiceMonitorForOperator :: "'w reconciler \<Rightarrow> ('w, goerr option) io" where
  "ReconcileServiceMonitorForOperator r =
     (if \<not> IsPrometheusAvailable r then ret None
      else let sm = generateServiceMonitorForOperator r;
               operatorDeployment = cl_get r (Deployment, GetNamespace r, OperatorDeploymentName)
        in fetch r (ServiceMonitor, GetNamespace r, OperatorServiceMonitorName)
          (try_or operatorDeployment (wrapf ErrCreateServiceMonitor) (\<lambda>dep.
             create_as r ErrCreateServiceMonitor (owned_by_deployment dep sm)))
          (\<lambda>e. ret (Some (wrapf ErrGetServiceMonitor e)))
          (\<lambda>foundSm. if ServiceMonitorEqual foundSm sm then ret None
             else try_or operatorDeployment (wrapf ErrUpdateServiceMonitor) (\<lambda>dep.
               update_as r ErrUpdateServiceMonitor (foundSm\<lparr>k_payload := k_payload sm\<rparr>))))"

definition generateNetworkPolicyForOperator :: "'w reconciler \<Rightarrow> kobject" where
  "generateNetworkPolicyForOperator r = \<lparr>
     k_meta = new_meta (GetNamespace r) OperatorNetworkPolicyName (fmap_of_list
       [(''app.kubernetes.io/component'', ''manager''),
        (''app.kubernetes.io/managed-by'', ''lightspeed-operator''),
        (''app.kubernetes.io/name'', ''networkpolicy''),
        (''app.kubernetes.io/instance'', ''lightspeed-operator''),
        (''app.kubernetes.io/part-of'', ''lightspeed-operator'')]),
     k_payload = PNetworkPolicy \<lparr>
       np_pods = only_labels [(''control-plane'', ''controller-manager'')],
       np_ingress = [\<lparr>ru_from = [\<lparr>
           pe_pods = Some \<lparr>ls_labels = fmempty, ls_exprs = [(''app.kubernetes.io/name'', ''In'', [''prometheus'']),
             (''prometheus'', ''In'', [''k8s''])]\<rparr>,
           pe_namespaces = Some (only_labels [(''kubernetes.io/metadata.name'', ClientCACmNamespace)])\<rparr>],
         ru_ports = [(''TCP'', OperatorMetricsPort)]\<rparr>],
       np_egress = [], np_types = [''Ingress'']\<rparr>\<rparr>"

definition ReconcileNetworkPolicyForOperator :: "'w reconciler \<Rightarrow> ('w, goerr option) io" where
  "ReconcileNetworkPolicyForOperator r =
     (let np = generateNetworkPolicyForOperator r in
      create_or_update r ErrGetOperatorNetworkPolicy ErrCreateOperatorNetworkPolicy
        ErrUpdateOperatorNetworkPolicy (NetworkPolicy, GetNamespace r, OperatorNetworkPolicyName) np
        (\<lambda>found. NetworkPolicyEqual found np) (\<lambda>found. found\<lparr>k_payload := k_payload np\<rparr>))"

definition operatorReconcileFuncs :: "'w reconciler \<Rightarrow> (string \<times> ('w, goerr option) io) list" where
  "operatorReconcileFuncs r =
     (if localDev r then [] else [(''service monitor for operator'', ReconcileServiceMonitorForOperator r)]) @
     [(''network policy for operator'', ReconcileNetworkPolicyForOperator r)]"

definition reconcileOperatorResources :: "'w reconciler \<Rightarrow> ('w, goerr option) io" where
  "reconcileOperatorResources r = for_each (\<lambda>(name, fn). do {
     e \<leftarrow> fn;
     ret (map_option (wrapf (''failed to reconcile '' @ name)) e) }) (operatorReconcileFuncs r)"

section \<open>What they establish\<close>

lemma ensures_fetch:
  assumes api: "api_ok r v" and keys: "on_keys K G"
    and missing: "\<And>w e w'. v w k = None \<Longrightarrow> run_state missing w = (e, w') \<Longrightarrow>
      (e = None \<longrightarrow> G (v w')) \<and> (\<forall>k'. k' \<notin> K \<longrightarrow> v w' k' = v w k')"
    and found: "\<And>ob w e w'. v w k = Some ob \<Longrightarrow> key_of ob = k \<Longrightarrow>
      (m_deleting (k_meta ob) \<longrightarrow> m_finalizers (k_meta ob) \<noteq> []) \<Longrightarrow> run_state (upd ob) w = (e, w') \<Longrightarrow>
      (e = None \<longrightarrow> G (v w')) \<and> (\<forall>k'. k' \<notin> K \<longrightarrow> v w' k' = v w k')"
  shows "ensures v K G (fetch r k missing (\<lambda>e. ret (Some (wrap e))) upd)"
proof -
  have "(e = None \<longrightarrow> G (v w')) \<and> (\<forall>k'. k' \<notin> K \<longrightarrow> v w' k' = v w k')"
    if run: "run_state (fetch r k missing (\<lambda>e. ret (Some (wrap e))) upd) w = (e, w')" for w e w'
  proof -
    obtain x w1 where g: "run_state (cl_get r k) w = (x, w1)" by force
    note get = api_get [OF api g]
    show ?thesis
    proof (cases x)
      case (Inl err)
      then show ?thesis using run g get(1,5) missing [of w1 e w']
        by (cases "IsNotFound err") (auto simp: run_fetch)
    next
      case (Inr ob)
      then have "run_state (upd ob) w1 = (e, w')" using run g by (simp add: run_fetch)
      then show ?thesis using found [of w1 ob e w'] get Inr by auto
    qed
  qed
  then show ?thesis unfolding ensures_def using keys by blast
qed

text \<open>Objects whose spec alone is replaced, and that the server stores as written.\<close>

definition spec_current :: "kobject \<Rightarrow> kobject \<Rightarrow> bool" where
  "spec_current d s = (k_payload s = k_payload d)"

lemma spec_written:
  assumes api: "api_ok r v" and kind: "kind_of (k_payload d) \<notin> {Deployment, Service, OLSConfigKind'}"
    and ob: "key_of ob = k" "fst k = kind_of (k_payload d)"
      "m_deleting (k_meta ob) \<longrightarrow> m_finalizers (k_meta ob) \<noteq> []"
    and run: "run_state (update_as r msg (ob\<lparr>k_payload := k_payload d\<rparr>)) w = (e, w')"
  shows "(e = None \<longrightarrow> (\<exists>s. v w' k = Some s \<and> spec_current d s)) \<and> (\<forall>k'. k' \<noteq> k \<longrightarrow> v w' k' = v w k')"
proof -
  have key: "key_of (ob\<lparr>k_payload := k_payload d\<rparr>) = key_of ob" using ob by (auto simp: key_of_def)
  note u = update_as_found [OF api key _ _ _ run, simplified, OF ob(3) [rule_format]]
  show ?thesis
    using u ob(1) payload_stored_other [OF kind] by (auto simp: stored_as_def spec_current_def)
qed

lemma spec_created:
  assumes api: "api_ok r v" and kind: "kind_of (k_payload ob) \<notin> {Deployment, Service, OLSConfigKind'}"
    and run: "run_state (create_as r msg ob) w = (e, w')"
  shows "(e = None \<longrightarrow> (\<exists>s. v w' (key_of ob) = Some s \<and> spec_current ob s)) \<and>
    (\<forall>k'. k' \<noteq> key_of ob \<longrightarrow> v w' k' = v w k')"
proof -
  obtain ce where c: "run_state (cl_create r ob) w = (ce, w')" "e = map_option (wrapf msg) ce"
    using run by (auto simp: run_create_as split: prod.splits)
  show ?thesis
    using api_create [OF api c(1)] c(2) payload_stored_other [OF kind]
    by (cases ce) (auto simp: stored_as_def spec_current_def)
qed

lemma ensures_operator_policy:
  assumes api: "api_ok r v"
  shows "ensures v {(NetworkPolicy, GetNamespace r, OperatorNetworkPolicyName)}
    (\<lambda>f. \<exists>s. f (NetworkPolicy, GetNamespace r, OperatorNetworkPolicyName) = Some s \<and>
       spec_current (generateNetworkPolicyForOperator r) s) (ReconcileNetworkPolicyForOperator r)"
  unfolding ReconcileNetworkPolicyForOperator_def Let_def create_or_update_def
proof (rule ensures_fetch [OF api on_keys_object])
  let ?np = "generateNetworkPolicyForOperator r"
  let ?k = "(NetworkPolicy, GetNamespace r, OperatorNetworkPolicyName)"
  have np: "key_of ?np = ?k" "kind_of (k_payload ?np) = NetworkPolicy"
    by (simp_all add: generateNetworkPolicyForOperator_def key_of_def new_meta_def)
  fix w e w'
  show "(e = None \<longrightarrow> (\<exists>s. v w' ?k = Some s \<and> spec_current ?np s)) \<and> (\<forall>k'. k' \<notin> {?k} \<longrightarrow> v w' k' = v w k')"
    if "run_state (create_as r ErrCreateOperatorNetworkPolicy ?np) w = (e, w')"
    using spec_created [OF api _ that] np by simp
  fix ob assume ob: "v w ?k = Some ob" "key_of ob = ?k" "m_deleting (k_meta ob) \<longrightarrow> m_finalizers (k_meta ob) \<noteq> []"
    and run: "run_state (if NetworkPolicyEqual ob ?np then ret None
        else update_as r ErrUpdateOperatorNetworkPolicy (ob\<lparr>k_payload := k_payload ?np\<rparr>)) w = (e, w')"
  show "(e = None \<longrightarrow> (\<exists>s. v w' ?k = Some s \<and> spec_current ?np s)) \<and> (\<forall>k'. k' \<notin> {?k} \<longrightarrow> v w' k' = v w k')"
  proof (cases "NetworkPolicyEqual ob ?np")
    case True
    then show ?thesis using run ob(1) by (auto simp: object_equal_defs spec_current_def)
  next
    case False
    then have "run_state (update_as r ErrUpdateOperatorNetworkPolicy (ob\<lparr>k_payload := k_payload ?np\<rparr>)) w = (e, w')"
      using run by simp
    from spec_written [OF api _ ob(2) _ ob(3) this] show ?thesis using np by simp
  qed
qed

lemma try_or_read:
  assumes "api_ok r v" "run_state (try_or (cl_get r k) f g) w = (e, w')"
  obtains (failed) err where "e = Some (f err)" "v w' = v w"
    | (read) d w1 where "v w1 = v w" "run_state (g d) w1 = (e, w')"
proof -
  obtain x w1 where g: "run_state (cl_get r k) w = (x, w1)" by force
  show ?thesis
    using assms(2) g api_get(1) [OF assms(1) g] failed read by (cases x) (auto simp: try_or_def)
qed

lemma ensures_operator_monitor:
  assumes api: "api_ok r v"
  shows "ensures v {(ServiceMonitor, GetNamespace r, OperatorServiceMonitorName)}
    (\<lambda>f. IsPrometheusAvailable r \<longrightarrow> (\<exists>s. f (ServiceMonitor, GetNamespace r, OperatorServiceMonitorName) = Some s \<and>
       spec_current (generateServiceMonitorForOperator r) s)) (ReconcileServiceMonitorForOperator r)"
proof (cases "IsPrometheusAvailable r")
  case True
  let ?sm = "generateServiceMonitorForOperator r"
  let ?k = "(ServiceMonitor, GetNamespace r, OperatorServiceMonitorName)"
  let ?dep = "cl_get r (Deployment, GetNamespace r, OperatorDeploymentName)"
  have sm: "key_of ?sm = ?k" "kind_of (k_payload ?sm) = ServiceMonitor"
    by (simp_all add: generateServiceMonitorForOperator_def key_of_def new_meta_def)
  have "ensures v {?k} (\<lambda>f. \<exists>s. f ?k = Some s \<and> spec_current ?sm s) (ReconcileServiceMonitorForOperator r)"
    unfolding ReconcileServiceMonitorForOperator_def Let_def using True apply simp
  proof (rule ensures_fetch [OF api on_keys_object])
    fix w e w'
    show "(e = None \<longrightarrow> (\<exists>s. v w' ?k = Some s \<and> spec_current ?sm s)) \<and> (\<forall>k'. k' \<notin> {?k} \<longrightarrow> v w' k' = v w k')"
      if run: "run_state (try_or ?dep (wrapf ErrCreateServiceMonitor) (\<lambda>dep.
         create_as r ErrCreateServiceMonitor (owned_by_deployment dep ?sm))) w = (e, w')"
      using api run
    proof (cases rule: try_or_read)
      case (read d w1)
      have o: "key_of (owned_by_deployment d ?sm) = ?k" "k_payload (owned_by_deployment d ?sm) = k_payload ?sm"
        using sm(1) by (simp_all add: owned_by_deployment_def key_of_def)
      show ?thesis using spec_created [OF api _ read(2)] read(1) o sm by (auto simp: spec_current_def)
    qed simp
    fix ob assume ob: "v w ?k = Some ob" "key_of ob = ?k" "m_deleting (k_meta ob) \<longrightarrow> m_finalizers (k_meta ob) \<noteq> []"
      and run: "run_state (if ServiceMonitorEqual ob ?sm then ret None
        else try_or ?dep (wrapf ErrUpdateServiceMonitor) (\<lambda>dep.
          update_as r ErrUpdateServiceMonitor (ob\<lparr>k_payload := k_payload ?sm\<rparr>))) w = (e, w')"
    show "(e = None \<longrightarrow> (\<exists>s. v w' ?k = Some s \<and> spec_current ?sm s)) \<and> (\<forall>k'. k' \<notin> {?k} \<longrightarrow> v w' k' = v w k')"
    proof (cases "ServiceMonitorEqual ob ?sm")
      case True
      then show ?thesis using run ob(1) by (auto simp: object_equal_defs spec_current_def)
    next
      case False
      then have u: "run_state (try_or ?dep (wrapf ErrUpdateServiceMonitor) (\<lambda>dep.
          update_as r ErrUpdateServiceMonitor (ob\<lparr>k_payload := k_payload ?sm\<rparr>))) w = (e, w')" using run by simp
      show ?thesis using api u
      proof (cases rule: try_or_read)
        case (read d w1)
        show ?thesis using spec_written [OF api _ ob(2) _ ob(3) read(2)] read(1) sm by simp
      qed simp
    qed
  qed
  then show ?thesis using True by simp
next
  case False
  then show ?thesis by (auto simp: ReconcileServiceMonitorForOperator_def ensures_def on_keys_def)
qed

definition operator_keys :: "'w reconciler \<Rightarrow> okey set" where
  "operator_keys r = {(ServiceMonitor, GetNamespace r, OperatorServiceMonitorName),
     (NetworkPolicy, GetNamespace r, OperatorNetworkPolicyName)}"

lemma reconcileOperatorResources_run:
  assumes api: "api_ok r v" and run: "run_state (reconcileOperatorResources r) w = (e, w')"
  shows "e = None \<Longrightarrow> \<exists>s. v w' (NetworkPolicy, GetNamespace r, OperatorNetworkPolicyName) = Some s \<and>
      spec_current (generateNetworkPolicyForOperator r) s"
    "e = None \<Longrightarrow> \<not> localDev r \<Longrightarrow> IsPrometheusAvailable r \<Longrightarrow>
      \<exists>s. v w' (ServiceMonitor, GetNamespace r, OperatorServiceMonitorName) = Some s \<and>
        spec_current (generateServiceMonitorForOperator r) s"
    "k \<notin> operator_keys r \<Longrightarrow> v w' k = v w k"
proof -
  let ?np = "(NetworkPolicy, GetNamespace r, OperatorNetworkPolicyName)"
  let ?sm = "(ServiceMonitor, GetNamespace r, OperatorServiceMonitorName)"
  obtain e1 w1 where one: "run_state (if localDev r then ret None else ReconcileServiceMonitorForOperator r) w = (e1, w1)"
    by force
  obtain e2 w2 where two: "run_state (ReconcileNetworkPolicyForOperator r) w1 = (e2, w2)" by force
  have m: "(e1 = None \<longrightarrow> \<not> localDev r \<longrightarrow> IsPrometheusAvailable r \<longrightarrow>
      (\<exists>s. v w1 ?sm = Some s \<and> spec_current (generateServiceMonitorForOperator r) s)) \<and>
      (\<forall>k. k \<noteq> ?sm \<longrightarrow> v w1 k = v w k)"
    using one ensuresD(1,2) [OF ensures_operator_monitor [OF api], of w e1 w1] by (auto split: if_splits)
  note p = ensuresD(1,2) [OF ensures_operator_policy [OF api] two]
  have res: "if e1 = None then (e = None \<longleftrightarrow> e2 = None) \<and> w' = w2 else e \<noteq> None \<and> w' = w1"
    using run one two by (cases e1; cases e2)
      (auto simp: reconcileOperatorResources_def operatorReconcileFuncs_def split: if_splits)
  show "e = None \<Longrightarrow> \<exists>s. v w' ?np = Some s \<and> spec_current (generateNetworkPolicyForOperator r) s"
    using res p(1) by (auto split: if_splits)
  have "v w2 ?sm = v w1 ?sm" using p(2) by simp
  then show "e = None \<Longrightarrow> \<not> localDev r \<Longrightarrow> IsPrometheusAvailable r \<Longrightarrow>
      \<exists>s. v w' ?sm = Some s \<and> spec_current (generateServiceMonitorForOperator r) s"
    using res m by (auto split: if_splits)
  have fr: "v w1 k = v w k" if "k \<noteq> ?sm" for k using m that by blast
  show "k \<notin> operator_keys r \<Longrightarrow> v w' k = v w k"
    using res fr [of k] p(2) [of k] by (cases "e1 = None") (simp_all add: operator_keys_def)
qed

text \<open>
  Reconciling the operator's own objects: after success its network policy has the generated
  spec and, with Prometheus available and outside local development, so has its ServiceMonitor;
  whatever happens, no other object is touched.
\<close>

theorem operator_resources_current:
  assumes "api_ok r v" "run_state (reconcileOperatorResources r) w = (e, w')"
  shows "(e = None \<longrightarrow>
      (\<exists>s. v w' (NetworkPolicy, GetNamespace r, OperatorNetworkPolicyName) = Some s \<and>
         spec_current (generateNetworkPolicyForOperator r) s) \<and>
      (\<not> localDev r \<and> IsPrometheusAvailable r \<longrightarrow>
         (\<exists>s. v w' (ServiceMonitor, GetNamespace r, OperatorServiceMonitorName) = Some s \<and>
            spec_current (generateServiceMonitorForOperator r) s))) \<and>
    (\<forall>k. k \<notin> operator_keys r \<longrightarrow> v w' k = v w k)"
  using reconcileOperatorResources_run [OF assms] by blast

theorem operator_resources_current_witness:
  "\<exists>w' s. run_state (reconcileOperatorResources (mem_reconciler (no_options ''ns''))) fmempty = (None, w') \<and>
     mem_view w' (NetworkPolicy, ''ns'', OperatorNetworkPolicyName) = Some s"
proof -
  let ?r = "mem_reconciler (no_options ''ns'')"
  have "\<not> IsPrometheusAvailable ?r" by (simp add: IsPrometheusAvailable_def no_options_def)
  then obtain w' where run: "run_state (reconcileOperatorResources ?r) fmempty = (None, w')"
    by (simp add: reconcileOperatorResources_def operatorReconcileFuncs_def ReconcileServiceMonitorForOperator_def
        ReconcileNetworkPolicyForOperator_def create_or_update_def run_fetch run_create_as mem_get_def
        mem_create_def mem_view_def Let_def)
  have "GetNamespace ?r = ''ns''" by (simp add: GetNamespace_def no_options_def)
  with operator_resources_current [OF mem_reconciler_ok run] run show ?thesis by metis
qed

end
