(* ===== verification/Controller.thy ===== *)
theory Controller
  imports Finalizer Operator_Assets "HOL-Library.AList"
begin

text \<open>
  The reconcile loop (\<open>internal/controller/olsconfig_controller.go\<close>): the two phases and
  \<open>Reconcile\<close> itself, over the operand entry points \<open>operands\<close>.

  Failures are kept in Go maps by step name; a map is a list here in insertion order, and the order
  in which Go ranges over it is the parameter \<open>map_range\<close> of the record \<open>control\<close>, together with the
  operands and the retry used for status writes. The map \<open>failedTasks\<close> of the second phase is
  written and never read; it has no counterpart.
\<close>

section \<open>Definitions\<close>

record 'w control =
  ct_operands :: "'w operands"
  ct_retry :: "'w status_retry"
  map_range :: "(string \<times> goerr) list \<Rightarrow> (string \<times> goerr) list"
  map_range_again :: "(string \<times> goerr) list \<Rightarrow> (string \<times> goerr) list"

record 'w ReconcileSteps =
  rs_Name :: string
  rs_Fn :: "OLSConfig \<Rightarrow> ('w, goerr option) io"
  rs_ConditionType :: string
  rs_Deployment :: string

definition resource_step :: "string \<Rightarrow> (OLSConfig \<Rightarrow> ('w, goerr option) io) \<Rightarrow> 'w ReconcileSteps" where
  "resource_step name fn = \<lparr>rs_Name = name, rs_Fn = fn, rs_ConditionType = [], rs_Deployment = []\<rparr>"

definition introspection :: "OLSConfig \<Rightarrow> bool" where
  "introspection cr = BoolDeref (o_IntrospectionEnabled (s_OLSConfig (cr_Spec cr))) True"

definition byok_only :: "OLSConfig \<Rightarrow> bool" where
  "byok_only cr = o_ByokRAGOnly (s_OLSConfig (cr_Spec cr))"

text \<open>
  An optional operand in the first phase: its step when enabled; otherwise, when its status
  condition says that it was enabled, it is removed at once and a failure is recorded.
\<close>

type_synonym 'w gathered = "'w ReconcileSteps list \<times> (string \<times> goerr) list"

definition optional_resources :: "bool \<Rightarrow> 'w ReconcileSteps \<Rightarrow> OLSConfig \<Rightarrow> string \<Rightarrow> string \<Rightarrow> string \<Rightarrow>
    ('w, goerr option) io \<Rightarrow> 'w gathered \<Rightarrow> ('w, 'w gathered) io" where
  "optional_resources enabled step cr conditionType cleanup errRemove remove g =
     (if enabled then ret (fst g @ [step], snd g)
      else if wasComponentEnabled cr conditionType then do {
        e \<leftarrow> remove;
        ret (case e of None \<Rightarrow> g | Some err \<Rightarrow> (fst g, AList.update cleanup (wrapf errRemove err) (snd g))) }
      else ret g)"

definition gather_resource_steps :: "'w operands \<Rightarrow> 'w reconciler \<Rightarrow> OLSConfig \<Rightarrow> ('w, 'w gathered) io" where
  "gather_resource_steps ops r cr = do {
     g1 \<leftarrow> optional_resources (introspection cr)
       (resource_step ''openshift-mcp-server resources'' (ocpmcp_Resources ops r)) cr TypeMCPServerReady
       ''openshift-mcp-server cleanup'' ErrRemoveOpenShiftMCPServerResources (ocpmcp_Remove ops r)
       ([resource_step ''console UI resources'' (console_Resources ops r),
         resource_step ''postgres resources'' (postgres_Resources ops r)], []);
     g2 \<leftarrow> optional_resources (\<not> byok_only cr)
       (resource_step ''RHOKP resources'' (rhokp_Resources ops r)) cr TypeRHOKPReady
       ''RHOKP cleanup'' ErrRemoveRHOKPResources (rhokp_Remove ops r) g1;
     g3 \<leftarrow> optional_resources (AgenticConsoleUIImage (Options r) \<noteq> [])
       (resource_step ''agentic console UI resources'' (agenticconsole_Resources ops r)) cr
       TypeAgenticConsolePluginReady ''agentic console UI cleanup'' ErrRemoveAgenticConsoleUIResources
       (agenticconsole_Remove ops r) g2;
     g4 \<leftarrow> optional_resources (AlertsAdapterImage (Options r) \<noteq> [] \<and> AlertsAdapterConfigMapRef cr \<noteq> None)
       (resource_step ''alerts adapter resources'' (alertsadapter_Resources ops r)) cr
       TypeAlertsAdapterReady ''alerts adapter cleanup'' ErrRemoveAlertsAdapterResources
       (alertsadapter_Remove ops r) g3;
     ret (fst g4 @
       (if OtelCollectorImage (Options r) \<noteq> []
        then [resource_step ''OTEL Collector resources'' (otelcollector_Resources ops r)] else []) @
       [resource_step ''application server resources'' (appserver_Resources ops r)], snd g4) }"

fun run_resource_steps :: "OLSConfig \<Rightarrow> 'w ReconcileSteps list \<Rightarrow> (string \<times> goerr) list \<Rightarrow>
    ('w, (string \<times> goerr) list) io" where
  "run_resource_steps cr [] failures = ret failures"
| "run_resource_steps cr (step # steps) failures = do {
     e \<leftarrow> rs_Fn step cr;
     run_resource_steps cr steps
       (case e of None \<Rightarrow> failures | Some err \<Rightarrow> AList.update (rs_Name step) err failures) }"

definition mk_condition :: "OLSConfig \<Rightarrow> string \<Rightarrow> string \<Rightarrow> string \<Rightarrow> string \<Rightarrow> string \<Rightarrow> condition" where
  "mk_condition cr type status reason message now =
     \<lparr>cn_Type = type, cn_Status = status, cn_Generation = m_generation (cr_Meta cr), cn_Reason = reason,
      cn_Message = message, cn_Transition = now\<rparr>"

definition failure_message :: "string \<times> goerr \<Rightarrow> string" where
  "failure_message f = ''Failed to reconcile '' @ fst f @ '': '' @ err_msg (snd f)"

definition failure_condition :: "'w reconciler \<Rightarrow> OLSConfig \<Rightarrow> string \<times> goerr \<Rightarrow> ('w, condition) io" where
  "failure_condition r cr f = do {
     now \<leftarrow> cl_now r;
     ret (mk_condition cr ''ResourceReconciliation'' ''False'' ''Failed'' (failure_message f) now) }"

definition report_failures :: "'w control \<Rightarrow> 'w reconciler \<Rightarrow> OLSConfig \<Rightarrow> (string \<times> goerr) list \<Rightarrow>
    ('w, goerr option) io" where
  "report_failures c r cr failures = do {
     conditions \<leftarrow> mapM_io (failure_condition r cr) (map_range c failures);
     updateErr \<leftarrow> UpdateStatusCondition (ct_retry c) r cr
       \<lparr>os_Conditions = conditions, os_OverallStatus = OverallStatusNotReady, os_DiagnosticInfo = []\<rparr> True;
     ret (let reconcileErr = newerr (''failed to reconcile resources: ['' @
                join_with '' '' (map fst (map_range_again c failures)) @ '']'')
          in Some (case updateErr of
             None \<Rightarrow> reconcileErr
           | Some e \<Rightarrow> Errorf (err_msg reconcileErr @ '' (status update also failed: '' @ err_msg e @ '')'')
               [reconcileErr])) }"

definition reconcileIndependentResources :: "'w control \<Rightarrow> 'w reconciler \<Rightarrow> OLSConfig \<Rightarrow> ('w, goerr option) io" where
  "reconcileIndependentResources c r cr = do {
     g \<leftarrow> gather_resource_steps (ct_operands c) r cr;
     resourceFailures \<leftarrow> run_resource_steps cr (fst g) (snd g);
     if resourceFailures \<noteq> [] then report_failures c r cr resourceFailures else ret None }"

text \<open>The second phase: the steps, and the conditions of the operands that are disabled.\<close>

definition deployment_step ::
  "string \<Rightarrow> (OLSConfig \<Rightarrow> ('w, goerr option) io) \<Rightarrow> string \<Rightarrow> string \<Rightarrow> 'w ReconcileSteps" where
  "deployment_step name fn type dep = \<lparr>rs_Name = name, rs_Fn = fn, rs_ConditionType = type, rs_Deployment = dep\<rparr>"

definition core_deployment_steps :: "'w operands \<Rightarrow> 'w reconciler \<Rightarrow> OLSConfig \<Rightarrow> 'w ReconcileSteps list" where
  "core_deployment_steps ops r cr =
     [deployment_step ''console UI deployment'' (console_Deployment ops r) TypeConsolePluginReady ConsoleUIDeploymentName,
      deployment_step ''postgres deployment'' (postgres_Deployment ops r) TypeCacheReady PostgresDeploymentName] @
     (if introspection cr then [deployment_step ''openshift-mcp-server deployment'' (ocpmcp_Deployment ops r)
        TypeMCPServerReady OpenShiftMCPServerDeploymentName] else []) @
     (if \<not> byok_only cr then [deployment_step ''RHOKP deployment'' (rhokp_Deployment ops r)
        TypeRHOKPReady RHOKPDeploymentName] else []) @
     [deployment_step ''application server deployment'' (appserver_Deployment ops r) TypeApiReady
        OLSAppServerDeploymentName]"

definition disabled_condition :: "'w reconciler \<Rightarrow> OLSConfig \<Rightarrow> string \<Rightarrow> string \<Rightarrow> ('w, condition) io" where
  "disabled_condition r cr type message = do {
     now \<leftarrow> cl_now r; ret (mk_condition cr type ''False'' ''Disabled'' message now) }"

definition optional_deployment :: "bool \<Rightarrow> 'w ReconcileSteps \<Rightarrow> ('w, condition) io \<Rightarrow>
    'w ReconcileSteps list \<times> condition list \<Rightarrow> ('w, 'w ReconcileSteps list \<times> condition list) io" where
  "optional_deployment enabled step disabled g =
     (if enabled then ret (fst g @ [step], snd g)
      else do { c \<leftarrow> disabled; ret (fst g, snd g @ [c]) })"

definition alerts_deployment :: "'w operands \<Rightarrow> 'w reconciler \<Rightarrow> OLSConfig \<Rightarrow>
    'w ReconcileSteps list \<times> condition list \<Rightarrow> ('w, 'w ReconcileSteps list \<times> condition list) io" where
  "alerts_deployment ops r cr g =
     (if AlertsAdapterImage (Options r) \<noteq> [] then
        (if AlertsAdapterConfigMapRef cr \<noteq> None
         then ret (fst g @ [deployment_step ''alerts adapter deployment'' (alertsadapter_Deployment ops r)
                TypeAlertsAdapterReady AlertsAdapterDeploymentName], snd g)
         else do {
           e \<leftarrow> (if wasComponentEnabled cr TypeAlertsAdapterReady then alertsadapter_Remove ops r else ret None);
           if e \<noteq> None then ret g
           else do {
             c \<leftarrow> disabled_condition r cr TypeAlertsAdapterReady
               ''Alerts adapter is disabled; spec.ols.deployment.alertsAdapter.configMapRef is not set'';
             ret (fst g, snd g @ [c]) } })
      else do {
        c \<leftarrow> disabled_condition r cr TypeAlertsAdapterReady ''Alerts adapter is disabled; image not provided'';
        ret (fst g, snd g @ [c]) })"

definition gather_deployment_steps :: "'w operands \<Rightarrow> 'w reconciler \<Rightarrow> OLSConfig \<Rightarrow>
    ('w, 'w ReconcileSteps list \<times> condition list) io" where
  "gather_deployment_steps ops r cr = do {
     c1 \<leftarrow> (if introspection cr then ret [] else do {
        c \<leftarrow> disabled_condition r cr TypeMCPServerReady
          ''OpenShift MCP server is disabled; spec.ols.introspectionEnabled is false''; ret [c] });
     c2 \<leftarrow> (if byok_only cr then do {
        c \<leftarrow> disabled_condition r cr TypeRHOKPReady ''RHOKP is disabled; spec.ols.byokRAGOnly is true''; ret [c] }
       else ret []);
     g1 \<leftarrow> optional_deployment (OtelCollectorImage (Options r) \<noteq> [])
       (deployment_step ''OTEL Collector deployment'' (otelcollector_Deployment ops r) TypeOtelCollectorReady
         OtelCollectorDeploymentName)
       (disabled_condition r cr TypeOtelCollectorReady ''OTEL Collector is disabled; image not provided'')
       (core_deployment_steps ops r cr, c1 @ c2);
     g2 \<leftarrow> optional_deployment (AgenticConsoleUIImage (Options r) \<noteq> [])
       (deployment_step ''agentic console UI deployment'' (agenticconsole_Deployment ops r)
         TypeAgenticConsolePluginReady AgenticConsoleUIDeploymentName)
       (disabled_condition r cr TypeAgenticConsolePluginReady
         ''Agentic console plugin is disabled; image not provided'') g1;
     alerts_deployment ops r cr g2 }"

definition add_condition :: "OLSConfigStatus \<Rightarrow> condition \<Rightarrow> bool \<Rightarrow> OLSConfigStatus" where
  "add_condition st c ready = st\<lparr>os_Conditions := os_Conditions st @ [c],
     os_OverallStatus := (if ready then os_OverallStatus st else OverallStatusNotReady)\<rparr>"

definition failed_step :: "'w reconciler \<Rightarrow> OLSConfig \<Rightarrow> string \<Rightarrow> goerr \<Rightarrow> OLSConfigStatus \<Rightarrow>
    ('w, OLSConfigStatus) io" where
  "failed_step r cr type err st = do {
     now \<leftarrow> cl_now r;
     ret (add_condition st (mk_condition cr type ''False'' ''Failed'' (''Failed: '' @ err_msg err) now) False) }"

text \<open>A nil error prints as \<open><nil>\<close>.\<close>

definition shown :: "goerr option \<Rightarrow> goerr" where
  "shown e = (case e of None \<Rightarrow> newerr ''<nil>'' | Some err \<Rightarrow> err)"

definition run_deployment_step ::
  "'w reconciler \<Rightarrow> OLSConfig \<Rightarrow> 'w ReconcileSteps \<Rightarrow> OLSConfigStatus \<Rightarrow> ('w, OLSConfigStatus) io" where
  "run_deployment_step r cr step st = do {
     e \<leftarrow> rs_Fn step cr;
     case e of
       Some err \<Rightarrow> failed_step r cr (rs_ConditionType step) err st
     | None \<Rightarrow> do {
         x \<leftarrow> cl_get r (Deployment, GetNamespace r, rs_Deployment step);
         case x of
           Inl err \<Rightarrow> failed_step r cr (rs_ConditionType step) err st
         | Inr deployment \<Rightarrow> do {
             (status, diagnostics, err) \<leftarrow> checkDeploymentStatus r deployment (rs_ConditionType step);
             let st1 = st\<lparr>os_DiagnosticInfo := os_DiagnosticInfo st @ diagnostics\<rparr> in
             if status = DeploymentStatusReady then do {
               now \<leftarrow> cl_now r;
               ret (add_condition st1 (mk_condition cr (rs_ConditionType step) ''True'' ''Available'' ''Ready'' now) True) }
             else if status = DeploymentStatusProgressing then do {
               now \<leftarrow> cl_now r;
               ret (add_condition st1 (mk_condition cr (rs_ConditionType step) ''False'' ''Progressing'' status now) False) }
             else failed_step r cr (rs_ConditionType step) (shown err) st1 } } }"

fun run_deployment_steps ::
  "'w reconciler \<Rightarrow> OLSConfig \<Rightarrow> 'w ReconcileSteps list \<Rightarrow> OLSConfigStatus \<Rightarrow> ('w, OLSConfigStatus) io" where
  "run_deployment_steps r cr [] st = ret st"
| "run_deployment_steps r cr (step # steps) st = do {
     st' \<leftarrow> run_deployment_step r cr step st;
     run_deployment_steps r cr steps st' }"

text \<open>What the second phase returns once the status is written.\<close>

definition phase2_error :: "goerr option \<Rightarrow> OLSConfigStatus \<Rightarrow> goerr option" where
  "phase2_error agenticIntegrationErr st =
     (case agenticIntegrationErr of
        Some e \<Rightarrow> Some e
      | None \<Rightarrow>
          (if os_DiagnosticInfo st \<noteq> [] then Some (newerr (''deployment has failing pods (count: '' @
             nat_to_string (length (os_DiagnosticInfo st)) @ ''), see status.diagnosticInfo for details''))
           else if os_OverallStatus st = OverallStatusReady then None
           else Some (newerr ''deployments not ready yet, retrying'')))"

definition reconcileDeploymentsAndStatus ::
  "'w control \<Rightarrow> 'w reconciler \<Rightarrow> OLSConfig \<Rightarrow> ('w, ctrl_result \<times> goerr option) io" where
  "reconcileDeploymentsAndStatus c r cr = do {
     g \<leftarrow> gather_deployment_steps (ct_operands c) r cr;
     st \<leftarrow> run_deployment_steps r cr (fst g)
       \<lparr>os_Conditions = snd g, os_OverallStatus = OverallStatusReady, os_DiagnosticInfo = []\<rparr>;
     ai \<leftarrow> agenticintegration_Resources (ct_operands c) r cr;
     let agenticIntegrationErr = map_option (wrapf ''failed to reconcile agentic integration handoff'') ai;
         newStatus = (if ai = None then st else st\<lparr>os_OverallStatus := OverallStatusNotReady\<rparr>)
     in do {
       updateErr \<leftarrow> UpdateStatusCondition (ct_retry c) r cr newStatus True;
       ret (0, case updateErr of
          Some e \<Rightarrow> Some (wrapf ''failed to update OLSConfig status'' e)
        | None \<Rightarrow> phase2_error agenticIntegrationErr newStatus) } }"

definition isRESTMappingError :: "goerr option \<Rightarrow> bool" where
  "isRESTMappingError err = (case err of None \<Rightarrow> False
     | Some e \<Rightarrow> str_contains (err_msg e) ''cannot find RESTMapping'')"

text \<open>
  The watcher configuration is a field of the Go reconciler that one step changes; it is passed
  and returned here.
\<close>

definition reconcile_phases :: "'w control \<Rightarrow> 'w reconciler \<Rightarrow> OLSConfig \<Rightarrow> ('w, ctrl_result \<times> goerr option) io" where
  "reconcile_phases c r cr = do {
     e \<leftarrow> reconcileIndependentResources c r cr;
     case e of
       Some err \<Rightarrow> ret (if isRESTMappingError e then (5, None) else (0, Some err))
     | None \<Rightarrow> reconcileDeploymentsAndStatus c r cr }"

definition Reconcile :: "'w control \<Rightarrow> 'w reconciler \<Rightarrow> WatcherConfig option \<Rightarrow> string \<times> string \<Rightarrow>
    ('w, (ctrl_result \<times> goerr option) \<times> WatcherConfig option) io" where
  "Reconcile c r wc req = do {
     (found, err) \<leftarrow> getAndValidateCR r req;
     case found of
       None \<Rightarrow> ret ((0, err), wc)
     | Some olsconfig \<Rightarrow> do {
         (finalizerResult, err) \<leftarrow> handleFinalizer (ct_operands c) r req olsconfig;
         case finalizerResult of
           Some res \<Rightarrow> ret ((res, err), wc)
         | None \<Rightarrow> do {
             e \<leftarrow> reconcileOperatorResources r;
             case e of
               Some err \<Rightarrow> ret ((0, Some err), wc)
             | None \<Rightarrow> do {
                 (e, wc') \<leftarrow> annotateExternalResources r olsconfig wc;
                 case e of
                   Some err \<Rightarrow> ret ((0, Some (wrapf ''failed to annotate external resources'' err)), wc')
                 | None \<Rightarrow> do { res \<leftarrow> reconcile_phases c r olsconfig; ret (res, wc') } } } } }"

section \<open>The first phase\<close>

lemma update_ne [simp]: "AList.update k x l \<noteq> []"
  by (cases l) (auto split: if_splits)

lemma update_keys [simp]: "fst ` set (AList.update k x l) = insert k (fst ` set l)"
  by (induction l) auto

lemma update_fresh: "k \<notin> fst ` set l \<Longrightarrow> AList.update k x l = l @ [(k, x)]"
  by (induction l) auto

lemma run_resource_steps_run:
  "run_state (run_resource_steps cr steps fails) w =
     (let (es, w') = run_through (map (\<lambda>s. rs_Fn s cr) steps) w
      in (fold (\<lambda>(s, e) fs. case e of None \<Rightarrow> fs | Some err \<Rightarrow> AList.update (rs_Name s) err fs) (zip steps es) fails, w'))"
  by (induction steps arbitrary: fails w) (auto simp: Let_def split: prod.splits)

lemma fold_failures_empty:
  "length es = length steps \<Longrightarrow>
     fold (\<lambda>(s, e) fs. case e of None \<Rightarrow> fs | Some err \<Rightarrow> AList.update (rs_Name s) err fs) (zip steps es) fails = []
     \<longleftrightarrow> fails = [] \<and> (\<forall>x \<in> set es. x = None)"
proof (induction steps arbitrary: es fails)
  case (Cons s steps)
  then obtain e es' where "es = e # es'" by (cases es) auto
  then show ?case using Cons by (cases e) auto
qed simp

lemma fold_failures_names:
  "fst ` set (fold (\<lambda>(s, e) fs. case e of None \<Rightarrow> fs | Some err \<Rightarrow> AList.update (rs_Name s) err fs) (zip steps es) fails)
     \<subseteq> fst ` set fails \<union> rs_Name ` set steps"
proof (induction steps arbitrary: es fails)
  case (Cons s steps)
  show ?case
  proof (cases es)
    case (Cons e es')
    then show ?thesis
      using Cons.IH [of es' "case e of None \<Rightarrow> fails | Some err \<Rightarrow> AList.update (rs_Name s) err fails"]
      by (cases e) auto
  qed auto
qed simp

lemma phase1_run:
  assumes "run_state (gather_resource_steps (ct_operands c) r cr) w = ((steps, fails), w1)"
    "run_through (map (\<lambda>s. rs_Fn s cr) steps) w1 = (es, w2)"
    "run_state (reconcileIndependentResources c r cr) w = (e, w')"
  shows "(e = None \<longleftrightarrow> fails = [] \<and> (\<forall>x \<in> set es. x = None)) \<and> (e = None \<longrightarrow> w' = w2)"
proof -
  have len: "length es = length steps"
    using length_run_through [of "map (\<lambda>s. rs_Fn s cr) steps" w1] assms(2) by simp
  have run: "run_state (run_resource_steps cr steps fails) w1 =
      (fold (\<lambda>(s, e) fs. case e of None \<Rightarrow> fs | Some err \<Rightarrow> AList.update (rs_Name s) err fs) (zip steps es) fails, w2)"
    using assms(2) by (simp add: run_resource_steps_run)
  have "e \<noteq> None" if "run_state (report_failures c r cr fs) w2 = (e, w')" for fs
    using that by (auto simp: report_failures_def Let_def split: prod.splits)
  then show ?thesis
    using assms(1,3) run fold_failures_empty [OF len]
    by (auto simp: reconcileIndependentResources_def split: if_splits)
qed

text \<open>
  What the first phase has to do, as a list of named actions: the removals of the operands that were
  switched off since the status was written, then the resources of every enabled operand.
\<close>

type_synonym 'w work = "(string \<times> ('w, goerr option) io) list"

definition removal_work :: "bool \<Rightarrow> OLSConfig \<Rightarrow> string \<Rightarrow> string \<Rightarrow> string \<Rightarrow> ('w, goerr option) io \<Rightarrow> 'w work" where
  "removal_work enabled cr conditionType cleanup errRemove remove =
     (if \<not> enabled \<and> wasComponentEnabled cr conditionType
      then [(cleanup, do { e \<leftarrow> remove; ret (map_option (wrapf errRemove) e) })] else [])"

definition phase1_removals :: "'w operands \<Rightarrow> 'w reconciler \<Rightarrow> OLSConfig \<Rightarrow> 'w work" where
  "phase1_removals ops r cr =
     removal_work (introspection cr) cr TypeMCPServerReady ''openshift-mcp-server cleanup''
       ErrRemoveOpenShiftMCPServerResources (ocpmcp_Remove ops r) @
     removal_work (\<not> byok_only cr) cr TypeRHOKPReady ''RHOKP cleanup'' ErrRemoveRHOKPResources (rhokp_Remove ops r) @
     removal_work (AgenticConsoleUIImage (Options r) \<noteq> []) cr TypeAgenticConsolePluginReady
       ''agentic console UI cleanup'' ErrRemoveAgenticConsoleUIResources (agenticconsole_Remove ops r) @
     removal_work (AlertsAdapterImage (Options r) \<noteq> [] \<and> AlertsAdapterConfigMapRef cr \<noteq> None) cr
       TypeAlertsAdapterReady ''alerts adapter cleanup'' ErrRemoveAlertsAdapterResources (alertsadapter_Remove ops r)"

definition phase1_resources :: "'w operands \<Rightarrow> 'w reconciler \<Rightarrow> OLSConfig \<Rightarrow> 'w work" where
  "phase1_resources ops r cr =
     [(''console UI resources'', console_Resources ops r cr), (''postgres resources'', postgres_Resources ops r cr)] @
     (if introspection cr then [(''openshift-mcp-server resources'', ocpmcp_Resources ops r cr)] else []) @
     (if \<not> byok_only cr then [(''RHOKP resources'', rhokp_Resources ops r cr)] else []) @
     (if AgenticConsoleUIImage (Options r) \<noteq> []
      then [(''agentic console UI resources'', agenticconsole_Resources ops r cr)] else []) @
     (if AlertsAdapterImage (Options r) \<noteq> [] \<and> AlertsAdapterConfigMapRef cr \<noteq> None
      then [(''alerts adapter resources'', alertsadapter_Resources ops r cr)] else []) @
     (if OtelCollectorImage (Options r) \<noteq> []
      then [(''OTEL Collector resources'', otelcollector_Resources ops r cr)] else []) @
     [(''application server resources'', appserver_Resources ops r cr)]"

definition phase1_work :: "'w operands \<Rightarrow> 'w reconciler \<Rightarrow> OLSConfig \<Rightarrow> 'w work" where
  "phase1_work ops r cr = phase1_removals ops r cr @ phase1_resources ops r cr"

text \<open>The failures among the results of a list of named actions, in order.\<close>

definition failures_of :: "string list \<Rightarrow> goerr option list \<Rightarrow> (string \<times> goerr) list" where
  "failures_of ns es = concat (map (\<lambda>(n, e). case e of None \<Rightarrow> [] | Some err \<Rightarrow> [(n, err)]) (zip ns es))"

abbreviation record_failures :: "string list \<Rightarrow> goerr option list \<Rightarrow> (string \<times> goerr) list \<Rightarrow> (string \<times> goerr) list" where
  "record_failures ns es fs \<equiv> fold (\<lambda>(n, e) fs. case e of None \<Rightarrow> fs | Some err \<Rightarrow> AList.update n err fs) (zip ns es) fs"

lemma failures_of_names: "fst ` set (failures_of ns es) \<subseteq> set ns"
  by (auto simp: failures_of_def dest: set_zip_leftD split: option.splits)

lemma failures_of_empty:
  "length ns = length es \<Longrightarrow> failures_of ns es = [] \<longleftrightarrow> (\<forall>x \<in> set es. x = None)"
  by (induction ns es rule: list_induct2) (auto simp: failures_of_def split: option.splits)

lemma record_failures_distinct:
  "distinct ns \<Longrightarrow> fst ` set fs \<inter> set ns = {} \<Longrightarrow> record_failures ns es fs = fs @ failures_of ns es"
proof (induction ns arbitrary: es fs)
  case (Cons n ns)
  show ?case
  proof (cases es)
    case (Cons e es')
    have "record_failures ns es' (case e of None \<Rightarrow> fs | Some err \<Rightarrow> fs @ [(n, err)]) =
        (case e of None \<Rightarrow> fs | Some err \<Rightarrow> fs @ [(n, err)]) @ failures_of ns es'"
      using Cons.prems by (intro Cons.IH) (auto split: option.splits)
    moreover have "AList.update n err fs = fs @ [(n, err)]" for err
      using Cons.prems by (intro update_fresh) auto
    ultimately show ?thesis using Cons by (cases e) (auto simp: failures_of_def)
  qed (simp add: failures_of_def)
qed (simp add: failures_of_def)

lemma run_through_append:
  "run_through (xs @ ys) w = (let (es, w1) = run_through xs w; (fs, w2) = run_through ys w1 in (es @ fs, w2))"
  by (induction xs arbitrary: w) (auto simp: Let_def split: prod.splits)

lemma optional_resources_work:
  assumes "run_through (map snd (removal_work b cr t cl er m)) w = (es, w')"
  shows "run_state (optional_resources b step cr t cl er m g) w =
     ((fst g @ (if b then [step] else []), record_failures (map fst (removal_work b cr t cl er m)) es (snd g)), w')"
  using assms by (cases g) (auto simp: optional_resources_def removal_work_def Let_def split: prod.splits option.splits if_splits)

lemma record_steps:
  "fold (\<lambda>(s, e) fs. case e of None \<Rightarrow> fs | Some err \<Rightarrow> AList.update (rs_Name s) err fs) (zip steps es) fs =
     record_failures (map rs_Name steps) es fs"
proof (induction steps arbitrary: es fs)
  case (Cons s steps)
  then show ?case by (cases es) auto
qed simp

lemma length_run: "run_through ms w = (es, w') \<Longrightarrow> length es = length ms"
  using length_run_through [of ms w] by simp

lemma gather_resource_run:
  assumes "run_through (map snd (phase1_removals ops r cr)) w = (es, w1)"
  shows "\<exists>steps. run_state (gather_resource_steps ops r cr) w =
      ((steps, record_failures (map fst (phase1_removals ops r cr)) es []), w1) \<and>
    map (\<lambda>s. (rs_Name s, rs_Fn s cr)) steps = phase1_resources ops r cr"
proof -
  let ?m = "removal_work (introspection cr) cr TypeMCPServerReady ''openshift-mcp-server cleanup''
       ErrRemoveOpenShiftMCPServerResources (ocpmcp_Remove ops r)"
  let ?o = "removal_work (\<not> byok_only cr) cr TypeRHOKPReady ''RHOKP cleanup'' ErrRemoveRHOKPResources (rhokp_Remove ops r)"
  let ?a = "removal_work (AgenticConsoleUIImage (Options r) \<noteq> []) cr TypeAgenticConsolePluginReady
       ''agentic console UI cleanup'' ErrRemoveAgenticConsoleUIResources (agenticconsole_Remove ops r)"
  let ?l = "removal_work (AlertsAdapterImage (Options r) \<noteq> [] \<and> AlertsAdapterConfigMapRef cr \<noteq> None) cr
       TypeAlertsAdapterReady ''alerts adapter cleanup'' ErrRemoveAlertsAdapterResources (alertsadapter_Remove ops r)"
  obtain e1 v1 where 1: "run_through (map snd ?m) w = (e1, v1)" by force
  obtain e2 v2 where 2: "run_through (map snd ?o) v1 = (e2, v2)" by force
  obtain e3 v3 where 3: "run_through (map snd ?a) v2 = (e3, v3)" by force
  obtain e4 v4 where 4: "run_through (map snd ?l) v3 = (e4, v4)" by force
  have es: "es = e1 @ e2 @ e3 @ e4" "w1 = v4"
    using assms 1 2 3 4 by (auto simp: phase1_removals_def run_through_append)
  note len = length_run [OF 1] length_run [OF 2] length_run [OF 3] length_run [OF 4]
  have rec: "record_failures (map fst (phase1_removals ops r cr)) es [] =
      record_failures (map fst ?l) e4 (record_failures (map fst ?a) e3
        (record_failures (map fst ?o) e2 (record_failures (map fst ?m) e1 [])))"
    using len by (simp add: phase1_removals_def es(1))
  define s1 where "s1 = [resource_step ''console UI resources'' (console_Resources ops r),
      resource_step ''postgres resources'' (postgres_Resources ops r)] @
      (if introspection cr then [resource_step ''openshift-mcp-server resources'' (ocpmcp_Resources ops r)] else [])"
  define s2 where "s2 = s1 @ (if \<not> byok_only cr then [resource_step ''RHOKP resources'' (rhokp_Resources ops r)] else [])"
  define s3 where "s3 = s2 @ (if AgenticConsoleUIImage (Options r) \<noteq> []
      then [resource_step ''agentic console UI resources'' (agenticconsole_Resources ops r)] else [])"
  define s4 where "s4 = s3 @ (if AlertsAdapterImage (Options r) \<noteq> [] \<and> AlertsAdapterConfigMapRef cr \<noteq> None
      then [resource_step ''alerts adapter resources'' (alertsadapter_Resources ops r)] else [])"
  define f1 where "f1 = record_failures (map fst ?m) e1 []"
  define f2 where "f2 = record_failures (map fst ?o) e2 f1"
  define f3 where "f3 = record_failures (map fst ?a) e3 f2"
  define f4 where "f4 = record_failures (map fst ?l) e4 f3"
  note g = optional_resources_work [OF 1, where step = "resource_step ''openshift-mcp-server resources'' (ocpmcp_Resources ops r)"
      and g = "([resource_step ''console UI resources'' (console_Resources ops r),
        resource_step ''postgres resources'' (postgres_Resources ops r)], [])", unfolded fst_conv snd_conv, folded s1_def f1_def]
    optional_resources_work [OF 2, where step = "resource_step ''RHOKP resources'' (rhokp_Resources ops r)"
      and g = "(s1, f1)", unfolded fst_conv snd_conv, folded s2_def f2_def]
    optional_resources_work [OF 3, where step = "resource_step ''agentic console UI resources'' (agenticconsole_Resources ops r)"
      and g = "(s2, f2)", unfolded fst_conv snd_conv, folded s3_def f3_def]
    optional_resources_work [OF 4, where step = "resource_step ''alerts adapter resources'' (alertsadapter_Resources ops r)"
      and g = "(s3, f3)", unfolded fst_conv snd_conv, folded s4_def f4_def]
  have "run_state (gather_resource_steps ops r cr) w = ((s4 @
      (if OtelCollectorImage (Options r) \<noteq> []
       then [resource_step ''OTEL Collector resources'' (otelcollector_Resources ops r)] else []) @
      [resource_step ''application server resources'' (appserver_Resources ops r)], f4), v4)"
    unfolding gather_resource_steps_def run_bind_pair [OF g(1)] run_bind_pair [OF g(2)] run_bind_pair [OF g(3)]
      run_bind_pair [OF g(4)] by simp
  moreover have "map (\<lambda>s. (rs_Name s, rs_Fn s cr)) (s4 @
      (if OtelCollectorImage (Options r) \<noteq> []
       then [resource_step ''OTEL Collector resources'' (otelcollector_Resources ops r)] else []) @
      [resource_step ''application server resources'' (appserver_Resources ops r)]) = phase1_resources ops r cr"
    unfolding s4_def s3_def s2_def s1_def phase1_resources_def resource_step_def
    by (simp add: if_distrib [of "map _"] cong: if_cong split del: if_split)
  ultimately show ?thesis unfolding rec es(2) f1_def f2_def f3_def f4_def by blast
qed

lemma distinct_submset: "mset xs \<subseteq># mset ys \<Longrightarrow> distinct ys \<Longrightarrow> distinct xs"
proof -
  assume sub: "mset xs \<subseteq># mset ys" and d: "distinct ys"
  obtain zs where "mset zs = mset ys - mset xs" using ex_mset by blast
  then have "mset ys = mset (xs @ zs)" using sub by (simp add: subset_mset.add_diff_inverse)
  then show "distinct xs" using d mset_eq_imp_distinct_iff distinct_append by metis
qed

lemma removal_names: "mset (map fst (removal_work b cr t cl er m)) \<subseteq># {#cl#}"
  by (simp add: removal_work_def)

lemma optional_names: "mset (map fst (if b then [x] else [])) \<subseteq># {#fst x#}"
  by simp

lemma phase1_work_names: "distinct (map fst (phase1_work ops r cr))"
proof (rule distinct_submset)
  show "mset (map fst (phase1_work ops r cr)) \<subseteq>#
      mset ([''openshift-mcp-server cleanup''] @ [''RHOKP cleanup''] @ [''agentic console UI cleanup''] @
        [''alerts adapter cleanup''] @ [''console UI resources'', ''postgres resources''] @
        [''openshift-mcp-server resources''] @ [''RHOKP resources''] @ [''agentic console UI resources''] @
        [''alerts adapter resources''] @ [''OTEL Collector resources''] @ [''application server resources''])"
    unfolding phase1_work_def phase1_removals_def phase1_resources_def map_append mset_append append_assoc
    by (intro subset_mset.add_mono removal_names [THEN subset_mset.order_trans]
        optional_names [THEN subset_mset.order_trans]) simp_all
qed simp

lemma phase1_work_run:
  assumes work: "run_through (map snd (phase1_work (ct_operands c) r cr)) w = (es, w1)"
    and run: "run_state (reconcileIndependentResources c r cr) w = (e, w')"
  shows "let failures = failures_of (map fst (phase1_work (ct_operands c) r cr)) es in
    if \<forall>x \<in> set es. x = None then e = None \<and> w' = w1
    else failures \<noteq> [] \<and> run_state (report_failures c r cr failures) w1 = (e, w') \<and> e \<noteq> None"
proof -
  let ?ops = "ct_operands c"
  let ?rem = "phase1_removals ?ops r cr" and ?res = "phase1_resources ?ops r cr"
  let ?ns = "map fst (phase1_work ?ops r cr)"
  obtain e1 v1 where 1: "run_through (map snd ?rem) w = (e1, v1)" by force
  obtain e2 v2 where 2: "run_through (map snd ?res) v1 = (e2, v2)" by force
  have es: "es = e1 @ e2" "w1 = v2" using work 1 2 by (simp_all add: phase1_work_def run_through_append)
  obtain steps where g: "run_state (gather_resource_steps ?ops r cr) w = ((steps, record_failures (map fst ?rem) e1 []), v1)"
    "map (\<lambda>s. (rs_Name s, rs_Fn s cr)) steps = ?res" using gather_resource_run [OF 1] by blast
  have st: "map (\<lambda>s. rs_Fn s cr) steps = map snd ?res" "map rs_Name steps = map fst ?res"
    by (simp_all flip: g(2))
  have len: "length (map fst ?rem) = length e1" "length ?ns = length es"
    using length_run [OF 1] length_run [OF work] by simp_all
  have "record_failures (map fst ?res) e2 (record_failures (map fst ?rem) e1 []) = record_failures ?ns es []"
    using len(1) by (simp add: phase1_work_def es(1))
  also have "\<dots> = failures_of ?ns es" using record_failures_distinct [OF phase1_work_names, of "[]"] by simp
  finally have fails: "run_state (run_resource_steps cr steps (record_failures (map fst ?rem) e1 [])) v1 =
      (failures_of ?ns es, w1)"
    using 2 by (simp add: run_resource_steps_run st(1) record_steps) (simp add: st(2) es(2))
  have "e \<noteq> None" if "run_state (report_failures c r cr fs) w1 = (e, w')" for fs
    using that by (auto simp: report_failures_def Let_def split: prod.splits)
  then show ?thesis
    using run g(1) fails failures_of_empty [OF len(2)]
    by (auto simp: reconcileIndependentResources_def Let_def split: if_splits)
qed


definition idle_control :: "'w control" where
  "idle_control = \<lparr>ct_operands = idle_operands, ct_retry = attempts 4, map_range = (\<lambda>l. l), map_range_again = (\<lambda>l. l)\<rparr>"

lemma blank_gates:
  "introspection (blank_cr ps)" "\<not> byok_only (blank_cr ps)" "\<not> wasComponentEnabled (blank_cr ps) t"
  "AgenticConsoleUIImage (no_options ns) = []" "AlertsAdapterImage (no_options ns) = []"
  "OtelCollectorImage (no_options ns) = []"
  by (simp_all add: introspection_def byok_only_def wasComponentEnabled_def blank_cr_def blank_ols_def
      BoolDeref_def no_options_def)

lemma gather_blank:
  "run_state (gather_resource_steps ops (mem_reconciler (no_options ns)) (blank_cr ps)) w =
     (([resource_step ''console UI resources'' (console_Resources ops (mem_reconciler (no_options ns))),
        resource_step ''postgres resources'' (postgres_Resources ops (mem_reconciler (no_options ns))),
        resource_step ''openshift-mcp-server resources'' (ocpmcp_Resources ops (mem_reconciler (no_options ns))),
        resource_step ''RHOKP resources'' (rhokp_Resources ops (mem_reconciler (no_options ns))),
        resource_step ''application server resources'' (appserver_Resources ops (mem_reconciler (no_options ns)))], []), w)"
  by (simp add: gather_resource_steps_def optional_resources_def blank_gates)

lemma idle_fields [simp]:
  "console_Resources idle_operands r = (\<lambda>cr. ret None)" "postgres_Resources idle_operands r = (\<lambda>cr. ret None)"
  "ocpmcp_Resources idle_operands r = (\<lambda>cr. ret None)" "rhokp_Resources idle_operands r = (\<lambda>cr. ret None)"
  "appserver_Resources idle_operands r = (\<lambda>cr. ret None)"
  by (simp_all add: idle_operands_def operands.defs)

text \<open>The failures the phase reports, and the status it writes for them.\<close>

lemma mapM_conditions:
  assumes api: "api_ok r v"
  shows "run_state (mapM_io (failure_condition r cr) fs) w = (cs, w') \<Longrightarrow> v w' = v w \<and>
    map cn_Message cs = map failure_message fs \<and>
    (\<forall>c \<in> set cs. cn_Type c = ''ResourceReconciliation'' \<and> cn_Status c = ''False'' \<and> cn_Reason c = ''Failed'')"
proof (induction fs arbitrary: w cs w')
  case (Cons f fs)
  obtain now w1 where n: "run_state (cl_now r) w = (now, w1)" by force
  obtain cs' w2 where m: "run_state (mapM_io (failure_condition r cr) fs) w1 = (cs', w2)" by force
  have f: "run_state (failure_condition r cr f) w =
      (mk_condition cr ''ResourceReconciliation'' ''False'' ''Failed'' (failure_message f) now, w1)"
    using n by (simp add: failure_condition_def)
  show ?case
    using Cons.prems f m Cons.IH [OF m] api_now [OF api n] by (auto simp: mk_condition_def)
qed simp

text \<open>Go ranges over a map in some order: every entry once.\<close>

definition ranges_ok :: "'w control \<Rightarrow> bool" where
  "ranges_ok c = (\<forall>l. mset (map_range c l) = mset l \<and> mset (map_range_again c l) = mset l)"

lemma UpdateStatusCondition_run:
  assumes "api_ok r v" "retry_ok retry" "os_OverallStatus st \<noteq> []"
    and "run_state (UpdateStatusCondition retry r cr st True) w = (e, w')"
  shows "(e = None \<longrightarrow> status_written (v w) (cr_key cr) st (v w')) \<and> (e \<noteq> None \<longrightarrow> v w' = v w)"
proof -
  obtain st' where "run_state (retry (status_attempt r (cr_key cr))) (w, st) = (e, (w', st'))"
    using assms(3,4) by (auto simp: UpdateStatusCondition_def split: prod.splits)
  then obtain n where "run_state (attempts n (status_attempt r (cr_key cr))) (w, st) = (e, (w', st'))"
    using assms(2) unfolding retry_ok_def by metis
  from status_attempts_run [OF assms(1) _ this] show ?thesis by (simp add: cr_key_def)
qed

lemma report_failures_run:
  assumes api: "api_ok r v" and retry: "retry_ok (ct_retry c)" and rng: "ranges_ok c"
    and run: "run_state (report_failures c r cr fails) w = (e, w')"
  obtains st where "e \<noteq> None" "os_OverallStatus st = OverallStatusNotReady" "os_DiagnosticInfo st = []"
    "mset (map cn_Message (os_Conditions st)) = mset (map failure_message fails)"
    "\<And>cn. cn \<in> set (os_Conditions st) \<Longrightarrow>
       cn_Type cn = ''ResourceReconciliation'' \<and> cn_Status cn = ''False'' \<and> cn_Reason cn = ''Failed''"
    "status_written (v w) (cr_key cr) st (v w') \<or> v w' = v w"
    "\<And>m. e = Some (newerr m) \<Longrightarrow> status_written (v w) (cr_key cr) st (v w') \<and>
       m = ''failed to reconcile resources: ['' @ join_with '' '' (map fst (map_range_again c fails)) @ '']''"
proof -
  obtain cs w1 where m: "run_state (mapM_io (failure_condition r cr) (map_range c fails)) w = (cs, w1)" by force
  note m' = mapM_conditions [OF api m]
  let ?st = "\<lparr>os_Conditions = cs, os_OverallStatus = OverallStatusNotReady, os_DiagnosticInfo = []\<rparr>"
  obtain ue w2 where u: "run_state (UpdateStatusCondition (ct_retry c) r cr ?st True) w1 = (ue, w2)" by force
  have "os_OverallStatus ?st \<noteq> []" by (simp add: go_const)
  note u' = UpdateStatusCondition_run [OF api retry this u]
  have res: "e \<noteq> None" "w' = w2" using run m u by (auto simp: report_failures_def Let_def)
  have "mset (map cn_Message cs) = image_mset failure_message (mset fails)"
    using m' rng by (metis mset_map ranges_ok_def)
  moreover have "ue = None \<and>
      m = ''failed to reconcile resources: ['' @ join_with '' '' (map fst (map_range_again c fails)) @ '']''"
    if "e = Some (newerr m)" for m
    using that run m u by (cases ue) (auto simp: report_failures_def Let_def newerr_def)
  ultimately show ?thesis using that [of ?st] res m' u' by auto
qed

text \<open>
  (C10) A failed first phase is published: when resources could not be reconciled the phase returns
  an error; unless the status write failed too, the stored resource has the overall status
  \<open>NotReady\<close>, no diagnostics, and exactly one condition per failed resource with its error.
\<close>

theorem phase1_failure_published:
  assumes "api_ok r v" "retry_ok (ct_retry c)" "ranges_ok c"
    "run_state (gather_resource_steps (ct_operands c) r cr) w = ((steps, fails0), w1)"
    "run_state (run_resource_steps cr steps fails0) w1 = (fails, w2)" "fails \<noteq> []"
    "run_state (reconcileIndependentResources c r cr) w = (e, w')"
  shows "\<exists>st err. e = Some err \<and> os_OverallStatus st = OverallStatusNotReady \<and> os_DiagnosticInfo st = [] \<and>
    mset (map cn_Message (os_Conditions st)) = mset (map failure_message fails) \<and>
    (status_written (v w2) (cr_key cr) st (v w') \<or> v w' = v w2 \<and> (\<nexists>m. err = newerr m))"
proof -
  have "run_state (report_failures c r cr fails) w2 = (e, w')"
    using assms(4-7) by (auto simp: reconcileIndependentResources_def split: if_splits)
  then show ?thesis using report_failures_run [OF assms(1-3)] by (metis option.exhaust)
qed


definition broken_control :: "'w control" where
  "broken_control = idle_control\<lparr>ct_operands := idle_operands\<lparr>console_Resources :=
     (\<lambda>r cr. ret (Some (newerr ''cannot find RESTMapping'')))\<rparr>\<rparr>"

lemma broken_work:
  "run_through (map snd (phase1_work (ct_operands broken_control) (mem_reconciler (no_options ''ns'')) (blank_cr []))) w =
     ([Some (newerr ''cannot find RESTMapping''), None, None, None, None], w)"
  by (simp add: broken_control_def phase1_work_def phase1_removals_def phase1_resources_def removal_work_def blank_gates)


lemma broken_control_ok: "retry_ok (ct_retry broken_control)" "ranges_ok broken_control"
  by (simp_all add: broken_control_def idle_control_def attempts_retry_ok ranges_ok_def)

theorem phase1_failure_published_witness:
  "\<exists>e w'. run_state (reconcileIndependentResources broken_control (mem_reconciler (no_options ''ns'')) (blank_cr []))
     fmempty = (Some e, w')"
proof -
  let ?r = "mem_reconciler (no_options ''ns'')"
  have ops: "ct_operands broken_control = idle_operands\<lparr>console_Resources :=
     (\<lambda>r cr. ret (Some (newerr ''cannot find RESTMapping'')))\<rparr>" by (simp add: broken_control_def)
  obtain steps fails0 w1 where g: "run_state (gather_resource_steps (ct_operands broken_control) ?r (blank_cr [])) fmempty
      = ((steps, fails0), w1)" by (metis surj_pair)
  obtain fails w2 where f: "run_state (run_resource_steps (blank_cr []) steps fails0) w1 = (fails, w2)" by force
  have "fails \<noteq> []" using g f unfolding ops gather_blank by (auto simp: resource_step_def)
  moreover obtain e w' where run: "run_state (reconcileIndependentResources broken_control ?r (blank_cr [])) fmempty = (e, w')"
    by force
  ultimately show ?thesis
    using phase1_failure_published [OF mem_reconciler_ok broken_control_ok g f] by blast
qed


text \<open>The names a failure can have.\<close>

definition resource_names :: "string list" where
  "resource_names = [''console UI resources'', ''postgres resources'', ''openshift-mcp-server resources'',
     ''RHOKP resources'', ''agentic console UI resources'', ''alerts adapter resources'',
     ''OTEL Collector resources'', ''application server resources'', ''openshift-mcp-server cleanup'',
     ''RHOKP cleanup'', ''agentic console UI cleanup'', ''alerts adapter cleanup'']"

definition named_within :: "'w gathered \<Rightarrow> bool" where
  "named_within g = (rs_Name ` set (fst g) \<subseteq> set resource_names \<and> fst ` set (snd g) \<subseteq> set resource_names)"

lemma optional_named:
  assumes "run_state (optional_resources b step cr t cl er m g) w = (g', w')"
    "named_within g" "rs_Name step \<in> set resource_names" "cl \<in> set resource_names"
  shows "named_within g'"
proof -
  have "g' \<in> {(fst g @ [step], snd g), g} \<or> (\<exists>e. g' = (fst g, AList.update cl e (snd g)))"
    using assms(1) by (auto simp: optional_resources_def split: if_splits prod.splits option.splits)
  then show ?thesis using assms(2-4) unfolding named_within_def
    by (elim disjE exE insertE emptyE) (simp_all add: image_Un)
qed

lemma gather_named:
  assumes run: "run_state (gather_resource_steps ops r cr) w = (g, w')"
  shows "named_within g"
proof -
  obtain g1 w1 where 1: "run_state (optional_resources (introspection cr)
       (resource_step ''openshift-mcp-server resources'' (ocpmcp_Resources ops r)) cr TypeMCPServerReady
       ''openshift-mcp-server cleanup'' ErrRemoveOpenShiftMCPServerResources (ocpmcp_Remove ops r)
       ([resource_step ''console UI resources'' (console_Resources ops r),
         resource_step ''postgres resources'' (postgres_Resources ops r)], [])) w = (g1, w1)" by (metis surj_pair)
  obtain g2 w2 where 2: "run_state (optional_resources (\<not> byok_only cr)
       (resource_step ''RHOKP resources'' (rhokp_Resources ops r)) cr TypeRHOKPReady
       ''RHOKP cleanup'' ErrRemoveRHOKPResources (rhokp_Remove ops r) g1) w1 = (g2, w2)" by (metis surj_pair)
  obtain g3 w3 where 3: "run_state (optional_resources (AgenticConsoleUIImage (Options r) \<noteq> [])
       (resource_step ''agentic console UI resources'' (agenticconsole_Resources ops r)) cr
       TypeAgenticConsolePluginReady ''agentic console UI cleanup'' ErrRemoveAgenticConsoleUIResources
       (agenticconsole_Remove ops r) g2) w2 = (g3, w3)" by (metis surj_pair)
  obtain g4 w4 where 4: "run_state (optional_resources (AlertsAdapterImage (Options r) \<noteq> [] \<and> AlertsAdapterConfigMapRef cr \<noteq> None)
       (resource_step ''alerts adapter resources'' (alertsadapter_Resources ops r)) cr
       TypeAlertsAdapterReady ''alerts adapter cleanup'' ErrRemoveAlertsAdapterResources
       (alertsadapter_Remove ops r) g3) w3 = (g4, w4)" by (metis surj_pair)
  have "named_within g1" by (rule optional_named [OF 1]) (simp_all add: named_within_def resource_names_def resource_step_def)
  then have "named_within g2" by (rule optional_named [OF 2]) (simp_all add: resource_names_def resource_step_def)
  then have "named_within g3" by (rule optional_named [OF 3]) (simp_all add: resource_names_def resource_step_def)
  then have "named_within g4" by (rule optional_named [OF 4]) (simp_all add: resource_names_def resource_step_def)
  moreover have "g = (fst g4 @ (if OtelCollectorImage (Options r) \<noteq> []
        then [resource_step ''OTEL Collector resources'' (otelcollector_Resources ops r)] else []) @
       [resource_step ''application server resources'' (appserver_Resources ops r)], snd g4)"
    using run 1 2 3 4 by (simp add: gather_resource_steps_def)
  ultimately show ?thesis by (auto simp: named_within_def resource_names_def resource_step_def)
qed

lemma str_contains_chars: "str_contains s p \<Longrightarrow> set p \<subseteq> set s"
  unfolding str_contains_iff by auto

lemma join_with_chars: "set (join_with sep ss) \<subseteq> set sep \<union> \<Union> (set ` set ss)"
  by (induction sep ss rule: join_with.induct) auto

lemma names_without_M: "n \<in> set resource_names \<Longrightarrow> CHR ''M'' \<notin> set n"
  by (auto simp: resource_names_def)

lemma no_rest_mapping:
  assumes "set ns \<subseteq> set resource_names"
  shows "\<not> isRESTMappingError (Some (newerr (''failed to reconcile resources: ['' @ join_with '' '' ns @ '']'')))"
proof
  assume "isRESTMappingError (Some (newerr (''failed to reconcile resources: ['' @ join_with '' '' ns @ '']'')))"
  then have "str_contains (''failed to reconcile resources: ['' @ join_with '' '' ns @ '']'') ''cannot find RESTMapping''"
    by (simp add: isRESTMappingError_def newerr_def)
  from str_contains_chars [OF this]
  have "CHR ''M'' \<in> set (join_with '' '' ns)" by auto
  then show False using join_with_chars [of "'' ''" ns] assms names_without_M by fastforce
qed

text \<open>
  (C23) The requeue for a missing REST mapping never happens for a failed resource: the error the
  first phase returns names the failed steps and not their errors, so as long as the status can be
  written the controller returns that error with an empty result, also when every step failed with
  \<open>cannot find RESTMapping\<close>.
\<close>

theorem rest_mapping_requeue_unreachable:
  assumes "api_ok r v" "retry_ok (ct_retry c)" "ranges_ok c"
    "run_state (reconcileIndependentResources c r cr) w = (Some (newerr m), w1)"
    "run_state (reconcile_phases c r cr) w = (res, w')"
  shows "res = (0, Some (newerr m))"
proof -
  obtain g wa where g: "run_state (gather_resource_steps (ct_operands c) r cr) w = (g, wa)" by (metis surj_pair)
  obtain fails wb where f: "run_state (run_resource_steps cr (fst g) (snd g)) wa = (fails, wb)" by force
  obtain es where es: "fails = fold (\<lambda>(s, e) fs. case e of None \<Rightarrow> fs | Some err \<Rightarrow> AList.update (rs_Name s) err fs)
      (zip (fst g) es) (snd g)"
    using f by (auto simp: run_resource_steps_run Let_def split: prod.splits)
  have names: "fst ` set fails \<subseteq> set resource_names"
    using fold_failures_names [of "fst g" es "snd g"] gather_named [OF g]
    unfolding es named_within_def by (meson Un_least subset_trans)
  have "run_state (report_failures c r cr fails) wb = (Some (newerr m), w1)"
    using assms(4) g f by (auto simp: reconcileIndependentResources_def split: if_splits)
  then have "m = ''failed to reconcile resources: ['' @ join_with '' '' (map fst (map_range_again c fails)) @ '']''"
    using report_failures_run [OF assms(1-3)] by metis
  moreover have "set (map fst (map_range_again c fails)) \<subseteq> set resource_names"
  proof -
    have "set (map_range_again c fails) = set fails"
      using assms(3) unfolding ranges_ok_def by (metis set_mset_mset)
    then show ?thesis using names by simp
  qed
  ultimately have "\<not> isRESTMappingError (Some (newerr m))" using no_rest_mapping by metis
  then show ?thesis using assms(4,5) by (simp add: reconcile_phases_def)
qed

lemma mem_status_written:
  assumes "os_OverallStatus st \<noteq> []"
  shows "\<exists>w'. run_state (UpdateStatusCondition (attempts n) (mem_reconciler op) cr st True) w = (None, w')"
  using assms
  by (cases n; cases "mem_view w (cr_key cr)")
    (auto simp: UpdateStatusCondition_def status_attempt_def mem_get_def mem_status_def Let_def mem_view_def
      split: option.splits if_splits)

lemma broken_run:
  obtains m w' st where "run_state (reconcileIndependentResources broken_control (mem_reconciler (no_options ''ns''))
    (blank_cr [])) w = (Some (newerr m), w')" "status_written (mem_view w) (cr_key (blank_cr [])) st (mem_view w')"
proof -
  let ?r = "mem_reconciler (no_options ''ns'')"
  have ops: "ct_operands broken_control = idle_operands\<lparr>console_Resources :=
     (\<lambda>r cr. ret (Some (newerr ''cannot find RESTMapping'')))\<rparr>" by (simp add: broken_control_def)
  obtain fails w1 where f: "run_state (run_resource_steps (blank_cr [])
      (fst (fst (run_state (gather_resource_steps (ct_operands broken_control) ?r (blank_cr [])) w))) []) w = (fails, w1)"
    "fails \<noteq> []" "w1 = w" unfolding ops gather_blank by (simp add: resource_step_def)
  obtain cs w2 where m: "run_state (mapM_io (failure_condition ?r (blank_cr [])) (map_range broken_control fails)) w1 = (cs, w2)"
    by force
  have "os_OverallStatus \<lparr>os_Conditions = cs, os_OverallStatus = OverallStatusNotReady, os_DiagnosticInfo = []\<rparr> \<noteq> []"
    by (simp add: go_const)
  from mem_status_written [OF this, of 4 "no_options ''ns''" "blank_cr []" w2]
  obtain m' w3 where "run_state (report_failures broken_control ?r (blank_cr []) fails) w1 = (Some (newerr m'), w3)"
    using m by (auto simp: report_failures_def Let_def broken_control_def idle_control_def)
  moreover from report_failures_run [OF mem_reconciler_ok broken_control_ok this]
  obtain st where "status_written (mem_view w1) (cr_key (blank_cr [])) st (mem_view w3)" by metis
  ultimately show ?thesis using that f
    by (simp add: reconcileIndependentResources_def ops gather_blank)
qed

text \<open>The stored resource after a status write.\<close>

lemma written_status:
  assumes "status_written f k st g" "g k = Some ob'" "cr_of ob' = Some cr'"
  obtains old where "f k = Some old" "cr_Status cr' = preserveTransitionTimes st (os_Conditions (status_of old))"
proof -
  obtain old n where old: "f k = Some old" "ob' = with_status (preserveTransitionTimes st (os_Conditions (status_of old))) old
      \<lparr>k_meta := (k_meta old)\<lparr>m_version := n\<rparr>\<rparr>"
    using assms(1,2) by (auto simp: status_written_def split: option.splits)
  have "k_payload ob' = k_payload (with_status (preserveTransitionTimes st (os_Conditions (status_of old))) old)"
    by (simp add: old(2))
  then have "cr_Status cr' = preserveTransitionTimes st (os_Conditions (status_of old))"
    using assms(3) by (cases "k_payload old") (simp_all add: with_status_def cr_of_def, auto)
  then show ?thesis using that old(1) by blast
qed

theorem rest_mapping_requeue_unreachable_witness:
  "\<exists>err w'. run_state (reconcile_phases broken_control (mem_reconciler (no_options ''ns'')) (blank_cr [])) fmempty
     = ((0, Some err), w')"
proof -
  let ?r = "mem_reconciler (no_options ''ns'')"
  obtain m w1 where run: "run_state (reconcileIndependentResources broken_control ?r (blank_cr [])) fmempty
      = (Some (newerr m), w1)" using broken_run .
  obtain res w' where p: "run_state (reconcile_phases broken_control ?r (blank_cr [])) fmempty = (res, w')"
    by (metis surj_pair)
  from rest_mapping_requeue_unreachable [OF mem_reconciler_ok broken_control_ok run p] p show ?thesis by blast
qed

text \<open>
  (C24) A failed removal is forgotten: after a first phase that failed and whose status was
  written, the stored resource has no condition of any operand left, so no operand counts as
  having been enabled and the next reconcile does not try a removal again.
\<close>

theorem failed_cleanup_forgotten:
  assumes "api_ok r v" "retry_ok (ct_retry c)" "ranges_ok c"
    "run_state (reconcileIndependentResources c r cr) w = (Some (newerr m), w')"
    "v w' (cr_key cr) = Some ob'" "cr_of ob' = Some cr'" "t \<noteq> ''ResourceReconciliation''"
  shows "\<not> wasComponentEnabled cr' t"
proof -
  obtain g w1 where g: "run_state (gather_resource_steps (ct_operands c) r cr) w = (g, w1)" by (metis surj_pair)
  obtain fails w2 where f: "run_state (run_resource_steps cr (fst g) (snd g)) w1 = (fails, w2)" by force
  have "run_state (report_failures c r cr fails) w2 = (Some (newerr m), w')"
    using assms(4) g f by (auto simp: reconcileIndependentResources_def split: if_splits)
  then obtain st where st: "\<forall>cn \<in> set (os_Conditions st). cn_Type cn = ''ResourceReconciliation''"
    "status_written (v w2) (cr_key cr) st (v w')" using report_failures_run [OF assms(1-3)] by metis
  obtain old where "cr_Status cr' = preserveTransitionTimes st (os_Conditions (status_of old))"
    using written_status [OF st(2) assms(5,6)] by blast
  then have "\<forall>cn \<in> set (os_Conditions (cr_Status cr')). cn_Type cn = ''ResourceReconciliation''"
    using st(1) by (auto simp: preserve_time_def split: option.splits)
  then have "find (\<lambda>cn. cn_Type cn = t) (os_Conditions (cr_Status cr')) = None"
    using assms(7) by (auto simp: find_None_iff)
  then show ?thesis by (simp add: wasComponentEnabled_def)
qed

theorem failed_cleanup_forgotten_witness:
  "\<exists>m w' ob' cr'. run_state (reconcileIndependentResources broken_control (mem_reconciler (no_options ''ns''))
      (blank_cr [])) (fmupd (cr_key (blank_cr [])) (obj_of_cr (blank_cr [])) fmempty) = (Some (newerr m), w') \<and>
    mem_view w' (cr_key (blank_cr [])) = Some ob' \<and> cr_of ob' = Some cr' \<and> \<not> wasComponentEnabled cr' TypeRHOKPReady"
proof -
  let ?k = "cr_key (blank_cr [])" and ?ob = "obj_of_cr (blank_cr [])"
  obtain m w' st where run: "run_state (reconcileIndependentResources broken_control (mem_reconciler (no_options ''ns''))
      (blank_cr [])) (fmupd ?k ?ob fmempty) = (Some (newerr m), w')"
    "status_written (mem_view (fmupd ?k ?ob fmempty)) ?k st (mem_view w')" using broken_run .
  have "mem_view (fmupd ?k ?ob fmempty) ?k = Some ?ob"
    by (simp add: mem_view_def cr_key_def key_of_def obj_of_cr_def blank_cr_def new_meta_def)
  then obtain ob' where ob': "mem_view w' ?k = Some ob'" "\<exists>s t. k_payload ob' = POLSConfig s t"
    using run(2) by (auto simp: status_written_def with_status_def obj_of_cr_def)
  then obtain cr' where cr': "cr_of ob' = Some cr'" by (auto simp: cr_of_def)
  have "TypeRHOKPReady \<noteq> ''ResourceReconciliation''" by (simp add: go_const)
  from failed_cleanup_forgotten [OF mem_reconciler_ok broken_control_ok run(1) ob'(1) cr' this] run(1) ob'(1) cr'
  show ?thesis by blast
qed

section \<open>The second phase\<close>

text \<open>One step appends one condition of its type; the overall status stays ready exactly when that
  condition is true, and then there are no new diagnostics and the Deployment is available.\<close>

definition step_outcome :: "(okey \<Rightarrow> kobject option) \<Rightarrow> 'w reconciler \<Rightarrow> 'w ReconcileSteps \<Rightarrow> OLSConfigStatus \<Rightarrow>
    OLSConfigStatus \<Rightarrow> condition \<Rightarrow> PodDiagnostic list \<Rightarrow> bool" where
  "step_outcome f r step st st' cn ds =
     (os_Conditions st' = os_Conditions st @ [cn] \<and> cn_Type cn = rs_ConditionType step \<and>
      os_DiagnosticInfo st' = os_DiagnosticInfo st @ ds \<and>
      (os_OverallStatus st' = OverallStatusReady \<longleftrightarrow> os_OverallStatus st = OverallStatusReady \<and> cn_Status cn = ''True'') \<and>
      (cn_Status cn = ''True'' \<longrightarrow> ds = [] \<and>
        (\<exists>dep. f (Deployment, GetNamespace r, rs_Deployment step) = Some dep \<and> dep_available dep)) \<and>
      (cn_Status cn \<noteq> ''True'' \<longrightarrow> cn_Status cn = ''False'' \<and> cn_Reason cn \<in> {''Failed'', ''Progressing''}))"

lemma run_deployment_step_run:
  assumes api: "api_ok r v" and run: "run_state (run_deployment_step r cr step st) w = (st', w')"
  shows "\<exists>cn ds. step_outcome (v w') r step st st' cn ds"
proof -
  let ?t = "rs_ConditionType step" and ?k = "(Deployment, GetNamespace r, rs_Deployment step)"
  obtain e w1 where 1: "run_state (rs_Fn step cr) w = (e, w1)" by force
  have failed: "\<exists>cn ds. step_outcome (v w') r step st st' cn ds"
    if "run_state (failed_step r cr ?t err st1) w3 = (st', w')"
      "os_Conditions st1 = os_Conditions st" "os_DiagnosticInfo st1 = os_DiagnosticInfo st @ ds" for err st1 w3 ds
  proof -
    obtain now w4 where "run_state (cl_now r) w3 = (now, w4)" by force
    then have "st' = add_condition st1 (mk_condition cr ?t ''False'' ''Failed'' (''Failed: '' @ err_msg err) now) False"
      using that(1) by (simp add: failed_step_def)
    then have "step_outcome (v w') r step st st'
        (mk_condition cr ?t ''False'' ''Failed'' (''Failed: '' @ err_msg err) now) ds"
      using that(2,3) by (simp add: step_outcome_def add_condition_def mk_condition_def)
    then show ?thesis by blast
  qed
  show ?thesis
  proof (cases e)
    case (Some err)
    then show ?thesis using run 1 failed [of err st w1 "[]"] by (simp add: run_deployment_step_def)
  next
    case None
    obtain x w2 where 2: "run_state (cl_get r ?k) w1 = (x, w2)" by force
    note get = api_get [OF api 2]
    show ?thesis
    proof (cases x)
      case (Inl err)
      then show ?thesis using run 1 2 None failed [of err st w2 "[]"] by (simp add: run_deployment_step_def)
    next
      case (Inr dep)
      obtain s ds err w3 where 3: "run_state (checkDeploymentStatus r dep ?t) w2 = ((s, ds, err), w3)"
        by (metis surj_pair)
      obtain now w4 where 4: "run_state (cl_now r) w3 = (now, w4)" by force
      let ?st1 = "st\<lparr>os_DiagnosticInfo := os_DiagnosticInfo st @ ds\<rparr>"
      note chk = check_run [OF api 3]
      have views: "v w4 = v w2" using chk(1) api_now [OF api 4] by simp
      consider (ready) "s = DeploymentStatusReady" | (progress) "s = DeploymentStatusProgressing"
        | (fail) "s \<noteq> DeploymentStatusReady" "s \<noteq> DeploymentStatusProgressing" by blast
      then show ?thesis
      proof cases
        case ready
        let ?c = "mk_condition cr ?t ''True'' ''Available'' ''Ready'' now"
        have "st' = add_condition ?st1 ?c True" "w' = w4"
          using run 1 2 3 4 None Inr ready by (auto simp: run_deployment_step_def Let_def)
        moreover have "v w' ?k = Some dep" using views get(1,2) Inr calculation(2) by simp
        ultimately have "step_outcome (v w') r step st st' ?c ds" using chk(2,3) ready
          by (simp add: step_outcome_def add_condition_def mk_condition_def)
        then show ?thesis by blast
      next
        case progress
        let ?c = "mk_condition cr ?t ''False'' ''Progressing'' s now"
        have "st' = add_condition ?st1 ?c False"
          using run 1 2 3 4 None Inr progress by (auto simp: run_deployment_step_def Let_def)
        then have "step_outcome (v w') r step st st' ?c ds"
          by (simp add: step_outcome_def add_condition_def mk_condition_def)
        then show ?thesis by blast
      next
        case fail
        then have "run_state (failed_step r cr ?t (shown err) ?st1) w3 = (st', w')"
          using run 1 2 3 None Inr by (simp add: run_deployment_step_def Let_def)
        then show ?thesis by (rule failed) simp_all
      qed
    qed
  qed
qed

lemma run_deployment_steps_run:
  assumes api: "api_ok r v"
  shows "run_state (run_deployment_steps r cr steps st) w = (st', w') \<Longrightarrow>
    \<exists>cs ds. os_Conditions st' = os_Conditions st @ cs \<and> map cn_Type cs = map rs_ConditionType steps \<and>
      os_DiagnosticInfo st' = os_DiagnosticInfo st @ ds \<and>
      (os_OverallStatus st' = OverallStatusReady \<longleftrightarrow>
        os_OverallStatus st = OverallStatusReady \<and> (\<forall>cn \<in> set cs. cn_Status cn = ''True'')) \<and>
      ((\<forall>cn \<in> set cs. cn_Status cn = ''True'') \<longrightarrow> ds = []) \<and>
      (\<forall>cn \<in> set cs. cn_Status cn \<noteq> ''True'' \<longrightarrow> cn_Status cn = ''False'' \<and> cn_Reason cn \<in> {''Failed'', ''Progressing''})"
proof (induction steps arbitrary: st w)
  case (Cons step steps)
  obtain st1 w1 where one: "run_state (run_deployment_step r cr step st) w = (st1, w1)" by force
  obtain cn ds where c: "step_outcome (v w1) r step st st1 cn ds"
    using run_deployment_step_run [OF api one] by blast
  have "run_state (run_deployment_steps r cr steps st1) w1 = (st', w')" using Cons.prems one by simp
  from Cons.IH [OF this] obtain cs es where "os_Conditions st' = os_Conditions st1 @ cs"
    "map cn_Type cs = map rs_ConditionType steps" "os_DiagnosticInfo st' = os_DiagnosticInfo st1 @ es"
    "os_OverallStatus st' = OverallStatusReady \<longleftrightarrow>
        os_OverallStatus st1 = OverallStatusReady \<and> (\<forall>cn \<in> set cs. cn_Status cn = ''True'')"
    "(\<forall>cn \<in> set cs. cn_Status cn = ''True'') \<longrightarrow> es = []"
    "\<forall>cn \<in> set cs. cn_Status cn \<noteq> ''True'' \<longrightarrow> cn_Status cn = ''False'' \<and> cn_Reason cn \<in> {''Failed'', ''Progressing''}"
    by blast
  then show ?case using c by (intro exI [of _ "cn # cs"] exI [of _ "ds @ es"]) (simp add: step_outcome_def)
qed simp

definition disabled_cn :: "condition \<Rightarrow> bool" where
  "disabled_cn cn = (cn_Status cn = ''False'' \<and> cn_Reason cn = ''Disabled'')"

definition condition_types :: "'w ReconcileSteps list \<times> condition list \<Rightarrow> string multiset" where
  "condition_types g = mset (map rs_ConditionType (fst g)) + mset (map cn_Type (snd g))"

text \<open>
  The components, by the type of their condition; those that are switched off; and the one case in
  which a component has no condition, the alerts adapter when it was enabled, is not any more, and
  its removal fails.
\<close>

definition component_types :: "string multiset" where
  "component_types = {#TypeConsolePluginReady, TypeCacheReady, TypeApiReady, TypeMCPServerReady, TypeRHOKPReady,
     TypeOtelCollectorReady, TypeAgenticConsolePluginReady, TypeAlertsAdapterReady#}"

definition switched_off :: "'w reconciler \<Rightarrow> OLSConfig \<Rightarrow> string set" where
  "switched_off r cr = {t. t = TypeMCPServerReady \<and> \<not> introspection cr \<or> t = TypeRHOKPReady \<and> byok_only cr \<or>
     t = TypeOtelCollectorReady \<and> OtelCollectorImage (Options r) = [] \<or>
     t = TypeAgenticConsolePluginReady \<and> AgenticConsoleUIImage (Options r) = [] \<or>
     t = TypeAlertsAdapterReady \<and> (AlertsAdapterImage (Options r) = [] \<or> AlertsAdapterConfigMapRef cr = None)}"

definition adapter_removal_failed :: "'w operands \<Rightarrow> 'w reconciler \<Rightarrow> OLSConfig \<Rightarrow> 'w \<Rightarrow> bool" where
  "adapter_removal_failed ops r cr w = (AlertsAdapterImage (Options r) \<noteq> [] \<and> AlertsAdapterConfigMapRef cr = None \<and>
     wasComponentEnabled cr TypeAlertsAdapterReady \<and> fst (run_state (alertsadapter_Remove ops r) w) \<noteq> None)"

lemma switched_off_iff:
  "TypeConsolePluginReady \<notin> switched_off r cr" "TypeCacheReady \<notin> switched_off r cr" "TypeApiReady \<notin> switched_off r cr"
  "TypeMCPServerReady \<in> switched_off r cr \<longleftrightarrow> \<not> introspection cr"
  "TypeRHOKPReady \<in> switched_off r cr \<longleftrightarrow> byok_only cr"
  "TypeOtelCollectorReady \<in> switched_off r cr \<longleftrightarrow> OtelCollectorImage (Options r) = []"
  "TypeAgenticConsolePluginReady \<in> switched_off r cr \<longleftrightarrow> AgenticConsoleUIImage (Options r) = []"
  "TypeAlertsAdapterReady \<in> switched_off r cr \<longleftrightarrow>
     AlertsAdapterImage (Options r) = [] \<or> AlertsAdapterConfigMapRef cr = None"
  by (simp_all add: switched_off_def go_const)

definition placed :: "'w reconciler \<Rightarrow> OLSConfig \<Rightarrow> 'w ReconcileSteps list \<times> condition list \<Rightarrow> bool" where
  "placed r cr g = ((\<forall>cn \<in> set (snd g). disabled_cn cn \<and> cn_Type cn \<in> switched_off r cr) \<and>
     (\<forall>s \<in> set (fst g). rs_ConditionType s \<notin> switched_off r cr))"

lemma disabled_condition_run:
  "run_state (disabled_condition r cr t m) w = (cn, w') \<Longrightarrow> cn_Type cn = t \<and> disabled_cn cn"
  by (auto simp: disabled_condition_def disabled_cn_def mk_condition_def split: prod.splits)

lemma disabled_condition_view:
  "run_state (disabled_condition r cr t m) w = (cn, w') \<Longrightarrow> api_ok r v \<Longrightarrow> v w' = v w \<and> cn_Type cn = t \<and> disabled_cn cn"
  by (auto simp: disabled_condition_def disabled_cn_def mk_condition_def dest: api_now split: prod.splits)

lemma optional_deployment_run:
  assumes "api_ok r v"
    "run_state (optional_deployment b step (disabled_condition r cr (rs_ConditionType step) m) g) w = (g', w')"
    "placed r cr g" "b \<longleftrightarrow> rs_ConditionType step \<notin> switched_off r cr"
  shows "condition_types g' = add_mset (rs_ConditionType step) (condition_types g) \<and> placed r cr g' \<and> v w' = v w"
  using assms
  by (auto simp: optional_deployment_def condition_types_def placed_def
      dest!: disabled_condition_view [OF _ assms(1)] split: if_splits prod.splits)

lemma alerts_deployment_run:
  assumes "run_state (alerts_deployment ops r cr g) w = (g', w')" "placed r cr g"
  shows "(condition_types g' = add_mset TypeAlertsAdapterReady (condition_types g) \<or>
      condition_types g' = condition_types g \<and> adapter_removal_failed ops r cr w) \<and> placed r cr g'"
  using assms
  by (auto simp: alerts_deployment_def condition_types_def deployment_step_def placed_def adapter_removal_failed_def
      switched_off_iff dest!: disabled_condition_run split: if_splits prod.splits)

lemma gather_deployment_run:
  assumes api: "api_ok r v" and run: "run_state (gather_deployment_steps ops r cr) w = (g, w')"
  shows "placed r cr g \<and> (condition_types g = component_types \<or>
    condition_types g = component_types - {#TypeAlertsAdapterReady#} \<and>
      (\<exists>wa. v wa = v w \<and> adapter_removal_failed ops r cr wa))"
proof -
  obtain c1 w1 where 1: "run_state (if introspection cr then ret [] else do {
        c \<leftarrow> disabled_condition r cr TypeMCPServerReady
          ''OpenShift MCP server is disabled; spec.ols.introspectionEnabled is false''; ret [c] }) w = (c1, w1)"
    by (metis surj_pair)
  obtain c2 w2 where 2: "run_state (if byok_only cr then do {
        c \<leftarrow> disabled_condition r cr TypeRHOKPReady ''RHOKP is disabled; spec.ols.byokRAGOnly is true''; ret [c] }
       else ret []) w1 = (c2, w2)" by (metis surj_pair)
  let ?g0 = "(core_deployment_steps ops r cr, c1 @ c2)"
  let ?otel = "deployment_step ''OTEL Collector deployment'' (otelcollector_Deployment ops r) TypeOtelCollectorReady
         OtelCollectorDeploymentName"
  let ?ac = "deployment_step ''agentic console UI deployment'' (agenticconsole_Deployment ops r)
         TypeAgenticConsolePluginReady AgenticConsoleUIDeploymentName"
  obtain g1 w3 where 3: "run_state (optional_deployment (OtelCollectorImage (Options r) \<noteq> []) ?otel
       (disabled_condition r cr TypeOtelCollectorReady ''OTEL Collector is disabled; image not provided'') ?g0) w2 = (g1, w3)"
    by (metis surj_pair)
  obtain g2 w4 where 4: "run_state (optional_deployment (AgenticConsoleUIImage (Options r) \<noteq> []) ?ac
       (disabled_condition r cr TypeAgenticConsolePluginReady ''Agentic console plugin is disabled; image not provided'') g1) w3
       = (g2, w4)" by (metis surj_pair)
  have 5: "run_state (alerts_deployment ops r cr g2) w4 = (g, w')"
    using run 1 2 3 4 by (simp add: gather_deployment_steps_def)
  have types: "rs_ConditionType ?otel = TypeOtelCollectorReady" "rs_ConditionType ?ac = TypeAgenticConsolePluginReady"
    by (simp_all add: deployment_step_def)
  have g0: "placed r cr ?g0"
      "condition_types ?g0 = {#TypeConsolePluginReady, TypeCacheReady, TypeApiReady, TypeMCPServerReady, TypeRHOKPReady#}"
    using 1 2
    by (auto simp: placed_def condition_types_def core_deployment_steps_def deployment_step_def switched_off_iff
        dest!: disabled_condition_run split: if_splits prod.splits)
  have w2: "v w2 = v w"
    using 1 2 by (auto dest!: disabled_condition_view [OF _ api] split: if_splits prod.splits)
  note g1 = optional_deployment_run [OF api, of _ ?otel, unfolded types switched_off_iff not_not, OF 3 g0(1) refl]
  note g2 = optional_deployment_run [OF api, of _ ?ac, unfolded types switched_off_iff not_not, OF 4 _ refl]
  have g2: "condition_types g2 = component_types - {#TypeAlertsAdapterReady#}" "placed r cr g2" "v w4 = v w"
    using g2 g1 g0(2) w2 by (simp_all add: component_types_def)
  have "component_types = add_mset TypeAlertsAdapterReady (component_types - {#TypeAlertsAdapterReady#})"
    by (simp add: component_types_def)
  then show ?thesis using alerts_deployment_run [OF 5 g2(2)] g2(1,3) by metis
qed

text \<open>The status the second phase writes.\<close>

definition phase2_status :: "OLSConfigStatus \<Rightarrow> bool" where
  "phase2_status st = (distinct (map cn_Type (os_Conditions st)) \<and>
     {TypeConsolePluginReady, TypeCacheReady, TypeApiReady, TypeMCPServerReady, TypeRHOKPReady, TypeOtelCollectorReady,
       TypeAgenticConsolePluginReady} \<subseteq> cn_Type ` set (os_Conditions st) \<and>
     os_OverallStatus st \<in> {OverallStatusReady, OverallStatusNotReady} \<and>
     (os_OverallStatus st = OverallStatusReady \<longrightarrow>
       (\<forall>cn \<in> set (os_Conditions st). cn_Status cn = ''True'' \<or> disabled_cn cn)))"

definition phase2_ready :: "OLSConfigStatus \<Rightarrow> bool" where
  "phase2_ready st = (phase2_status st \<and> os_OverallStatus st = OverallStatusReady \<and> os_DiagnosticInfo st = [])"

lemma types_distinct: "distinct [TypeConsolePluginReady, TypeCacheReady, TypeApiReady, TypeMCPServerReady,
    TypeRHOKPReady, TypeOtelCollectorReady, TypeAgenticConsolePluginReady, TypeAlertsAdapterReady]"
  by (simp add: go_const)

lemma overall_kept:
  "run_state (run_deployment_steps r cr steps st) w = (st', w') \<Longrightarrow>
     os_OverallStatus st \<in> {OverallStatusReady, OverallStatusNotReady} \<Longrightarrow>
     os_OverallStatus st' \<in> {OverallStatusReady, OverallStatusNotReady}"
proof (induction steps arbitrary: st w)
  case (Cons s steps)
  obtain st1 w1 where one: "run_state (run_deployment_step r cr s st) w = (st1, w1)" by force
  have "os_OverallStatus st1 \<in> {os_OverallStatus st, OverallStatusNotReady}"
    using one by (auto simp: run_deployment_step_def failed_step_def add_condition_def Let_def
        split: prod.splits option.splits sum.splits if_splits)
  then show ?case using Cons one by auto
qed simp

lemma phase2_run:
  assumes api: "api_ok r v" and retry: "retry_ok (ct_retry c)"
    and 1: "run_state (gather_deployment_steps (ct_operands c) r cr) w = ((steps, conds), w1)"
    and 2: "run_state (run_deployment_steps r cr steps
      \<lparr>os_Conditions = conds, os_OverallStatus = OverallStatusReady, os_DiagnosticInfo = []\<rparr>) w1 = (st, w2)"
    and 3: "run_state (agenticintegration_Resources (ct_operands c) r cr) w2 = (ai, w3)"
    and run: "run_state (reconcileDeploymentsAndStatus c r cr) w = ((res, e), w')"
  defines "ns \<equiv> (if ai = None then st else st\<lparr>os_OverallStatus := OverallStatusNotReady\<rparr>)"
  shows "res = 0 \<and> phase2_status ns \<and> (e = None \<longrightarrow> phase2_ready ns) \<and>
    (mset (map cn_Type (os_Conditions ns)) = component_types \<or>
      mset (map cn_Type (os_Conditions ns)) = component_types - {#TypeAlertsAdapterReady#} \<and>
        (\<exists>wa. v wa = v w \<and> adapter_removal_failed (ct_operands c) r cr wa)) \<and>
    (\<forall>cn \<in> set (os_Conditions ns). disabled_cn cn \<longleftrightarrow> cn_Type cn \<in> switched_off r cr) \<and>
    (status_written (v w3) (cr_key cr) ns (v w') \<and>
       e = phase2_error (map_option (wrapf ''failed to reconcile agentic integration handoff'') ai) ns \<or>
     v w' = v w3 \<and> (\<exists>err. e = Some (wrapf ''failed to update OLSConfig status'' err)))"
proof -
  obtain ue w4 where 4: "run_state (UpdateStatusCondition (ct_retry c) r cr ns True) w3 = (ue, w4)" by force
  have res: "res = 0" "w' = w4" "e = (case ue of Some e \<Rightarrow> Some (wrapf ''failed to update OLSConfig status'' e)
      | None \<Rightarrow> phase2_error (map_option (wrapf ''failed to reconcile agentic integration handoff'') ai) ns)"
    using run 1 2 3 4 unfolding ns_def by (auto simp: reconcileDeploymentsAndStatus_def Let_def)
  note g = gather_deployment_run [OF api 1]
  obtain cs ds where s: "os_Conditions st = conds @ cs" "map cn_Type cs = map rs_ConditionType steps"
    "os_OverallStatus st = OverallStatusReady \<longleftrightarrow> (\<forall>cn \<in> set cs. cn_Status cn = ''True'')"
    "\<forall>cn \<in> set cs. cn_Status cn \<noteq> ''True'' \<longrightarrow> cn_Status cn = ''False'' \<and> cn_Reason cn \<in> {''Failed'', ''Progressing''}"
    using run_deployment_steps_run [OF api 2] by auto
  have ns: "os_Conditions ns = conds @ cs" "os_OverallStatus ns = OverallStatusReady \<longrightarrow> os_OverallStatus st = OverallStatusReady"
    using s(1) by (auto simp: ns_def)
  have ov: "os_OverallStatus ns \<in> {OverallStatusReady, OverallStatusNotReady}"
    using overall_kept [OF 2] by (auto simp: ns_def)
  have types: "mset (map cn_Type (os_Conditions ns)) = condition_types (steps, conds)"
    unfolding ns(1) condition_types_def by (simp add: s(2) flip: mset_append) (metis s(2) add.commute mset_append mset_map)
  have sub: "component_types - {#TypeAlertsAdapterReady#} \<subseteq># mset (map cn_Type (os_Conditions ns))"
    "mset (map cn_Type (os_Conditions ns)) \<subseteq># component_types"
    using g unfolding types by auto
  have "component_types = mset [TypeConsolePluginReady, TypeCacheReady, TypeApiReady,
      TypeMCPServerReady, TypeRHOKPReady, TypeOtelCollectorReady, TypeAgenticConsolePluginReady, TypeAlertsAdapterReady]"
    by (simp add: component_types_def)
  then have dist: "distinct (map cn_Type (os_Conditions ns))"
    using sub(2) types_distinct distinct_submset by metis
  have "set_mset (component_types - {#TypeAlertsAdapterReady#}) \<subseteq> set (map cn_Type (os_Conditions ns))"
    using set_mset_mono [OF sub(1)] by simp
  then have all: "{TypeConsolePluginReady, TypeCacheReady, TypeApiReady, TypeMCPServerReady, TypeRHOKPReady,
      TypeOtelCollectorReady, TypeAgenticConsolePluginReady} \<subseteq> cn_Type ` set (os_Conditions ns)"
    by (simp add: component_types_def)
  have pl: "\<forall>cn \<in> set conds. disabled_cn cn \<and> cn_Type cn \<in> switched_off r cr"
    "\<forall>cn \<in> set cs. cn_Type cn \<notin> switched_off r cr"
  proof -
    show "\<forall>cn \<in> set conds. disabled_cn cn \<and> cn_Type cn \<in> switched_off r cr" using g by (simp add: placed_def)
    have "\<forall>t \<in> set (map rs_ConditionType steps). t \<notin> switched_off r cr" using g by (simp add: placed_def)
    then show "\<forall>cn \<in> set cs. cn_Type cn \<notin> switched_off r cr" unfolding s(2) [symmetric] by simp
  qed
  have off: "\<forall>cn \<in> set (os_Conditions ns). disabled_cn cn \<longleftrightarrow> cn_Type cn \<in> switched_off r cr"
  proof -
    have "\<not> disabled_cn cn" if "cn \<in> set cs" for cn
    proof
      assume "disabled_cn cn"
      then have cn: "cn_Status cn = ''False''" "cn_Reason cn = ''Disabled''" by (simp_all add: disabled_cn_def)
      then have "cn_Status cn \<noteq> ''True''" by simp
      then show False using bspec [OF s(4) that] cn(2) by simp
    qed
    then show ?thesis using pl unfolding ns(1) set_append by blast
  qed
  have ready: "\<forall>cn \<in> set (os_Conditions ns). cn_Status cn = ''True'' \<or> disabled_cn cn"
    if "os_OverallStatus ns = OverallStatusReady" using that ns s(3) pl(1) by auto
  have ok: "phase2_status ns" using dist all ready ov by (simp add: phase2_status_def)
  have "os_OverallStatus ns \<noteq> []" using ov by (auto simp: go_const)
  note u = UpdateStatusCondition_run [OF api retry this 4]
  have "os_OverallStatus ns = OverallStatusReady \<and> os_DiagnosticInfo ns = []" if "e = None"
    using that res(3) by (auto simp: phase2_error_def split: option.splits if_splits)
  then have "e = None \<longrightarrow> phase2_ready ns" using ok by (simp add: phase2_ready_def)
  then show ?thesis using ok res u off g unfolding types by (cases ue) auto
qed


text \<open>The transition times kept by a status write do not matter here.\<close>

lemma phase2_status_times: "phase2_status (preserveTransitionTimes st cs) = phase2_status st"
proof -
  have keep: "cn_Type (preserve_time cs c) = cn_Type c" "cn_Status (preserve_time cs c) = cn_Status c"
    "cn_Reason (preserve_time cs c) = cn_Reason c" for c
    by (simp_all add: preserve_time_def split: option.splits)
  show ?thesis
    by (auto simp: phase2_status_def preserveTransitionTimes_def comp_def keep disabled_cn_def image_image)
qed


section \<open>The reconcile loop\<close>

lemma phase2_success:
  assumes "api_ok r v" "retry_ok (ct_retry c)" "run_state (reconcileDeploymentsAndStatus c r cr) w = ((res, None), w')"
    "v w' (cr_key cr) = Some ob'" "cr_of ob' = Some cr'"
  shows "phase2_ready (cr_Status cr')"
proof -
  obtain steps conds w1 where 1: "run_state (gather_deployment_steps (ct_operands c) r cr) w = ((steps, conds), w1)"
    by (metis surj_pair)
  obtain st w2 where 2: "run_state (run_deployment_steps r cr steps
      \<lparr>os_Conditions = conds, os_OverallStatus = OverallStatusReady, os_DiagnosticInfo = []\<rparr>) w1 = (st, w2)" by force
  obtain ai w3 where 3: "run_state (agenticintegration_Resources (ct_operands c) r cr) w2 = (ai, w3)" by force
  from phase2_run [OF assms(1,2) 1 2 3 assms(3)] obtain ns where
    "phase2_ready ns" "status_written (v w3) (cr_key cr) ns (v w')" by auto
  moreover from written_status [OF this(2) assms(4,5)] obtain old where
    "cr_Status cr' = preserveTransitionTimes ns (os_Conditions (status_of old))" by blast
  ultimately show ?thesis
    by (simp add: phase2_ready_def phase2_status_times)
qed

text \<open>
  (C1) Success means ready: when a reconcile of a live resource that has the finalizer ends with no
  error and no requeue, the operator's objects were reconciled, the external resources validated
  and annotated, every resource step succeeded before any Deployment was touched, and the stored
  resource shows the overall status Ready, no diagnostics, and every condition true or disabled.
\<close>

theorem Reconcile_success_ready:
  assumes "api_ok r v" "retry_ok (ct_retry c)" "snd req = OLSConfigName"
    "v w (OLSConfigKind', fst req, snd req) = Some ob" "cr_of ob = Some cr" "\<not> m_deleting (cr_Meta cr)"
    "OLSConfigFinalizer \<in> set (m_finalizers (cr_Meta cr))"
    "run_state (Reconcile c r wc req) w = (((0, None), wc'), w')"
  shows "(\<exists>wa wb wd we. v wa = v w \<and> run_state (reconcileOperatorResources r) wa = (None, wb) \<and>
    run_state (annotateExternalResources r cr wc) wb = ((None, wc'), wd) \<and>
    run_state (reconcileIndependentResources c r cr) wd = (None, we) \<and>
    run_state (reconcileDeploymentsAndStatus c r cr) we = ((0, None), w')) \<and>
    (\<forall>ob' cr'. v w' (cr_key cr) = Some ob' \<and> cr_of ob' = Some cr' \<longrightarrow> phase2_ready (cr_Status cr'))"
proof -
  obtain x wa where g: "run_state (cl_get r (OLSConfigKind', fst req, snd req)) w = (x, wa)" by force
  note get = api_get [OF assms(1) g]
  have x: "x = Inr ob"
  proof (cases x)
    case (Inl e)
    then have "\<not> IsNotFound e" using get(5) assms(4) by auto
    then show ?thesis using assms(3,8) g Inl by (auto simp: Reconcile_def getAndValidateCR_def)
  next
    case (Inr ob')
    then show ?thesis using get(2) assms(4) by simp
  qed
  have hf: "handleFinalizer (ct_operands c) r req cr = ret (None, None)"
    using assms(6,7) by (simp add: handleFinalizer_def ContainsFinalizer_def)
  obtain e1 wb where 1: "run_state (reconcileOperatorResources r) wa = (e1, wb)" by force
  obtain e2 wc2 wd where 2: "run_state (annotateExternalResources r cr wc) wb = ((e2, wc2), wd)" by (metis surj_pair)
  obtain e3 we where 3: "run_state (reconcileIndependentResources c r cr) wd = (e3, we)" by force
  have r1: "run_state (Reconcile c r wc req) w = (case e1 of Some err \<Rightarrow> (((0, Some err), wc), wb)
     | None \<Rightarrow> (case e2 of Some err \<Rightarrow> (((0, Some (wrapf ''failed to annotate external resources'' err)), wc2), wd)
       | None \<Rightarrow> (case run_state (reconcile_phases c r cr) wd of (p, w') \<Rightarrow> ((p, wc2), w'))))"
    using assms(3,5) g x hf 1 2 by (auto simp: Reconcile_def getAndValidateCR_def split: option.splits prod.splits)
  have e12: "e1 = None" "e2 = None" "wc2 = wc'" "run_state (reconcile_phases c r cr) wd = ((0, None), w')"
    using r1 assms(8) by (auto split: option.splits prod.splits)
  have e3: "e3 = None" "run_state (reconcileDeploymentsAndStatus c r cr) we = ((0, None), w')"
    using e12(4) 3 by (auto simp: reconcile_phases_def split: option.splits if_splits)
  have "phase2_ready (cr_Status cr')" if "v w' (cr_key cr) = Some ob'" "cr_of ob' = Some cr'" for ob' cr'
    using phase2_success [OF assms(1,2) e3(2) that] .
  then show ?thesis using get(1) 1 2 3 e12 e3 by blast
qed


text \<open>A resource that has the finalizer, and the operands of an idle cluster whose Deployments run.\<close>

definition live_cr :: OLSConfig where
  "live_cr = (blank_cr [])\<lparr>cr_Meta := (cr_Meta (blank_cr []))\<lparr>m_finalizers := [OLSConfigFinalizer]\<rparr>\<rparr>"

definition ready_deployment :: "string \<Rightarrow> kobject" where
  "ready_deployment n = \<lparr>k_meta = new_meta ''ns'' n fmempty,
     k_payload = PDeployment \<lparr>dp_spec = zero_deployment, dp_conditions = [(''Available'', ''True'')]\<rparr>\<rparr>"

definition ready_cluster :: mem where
  "ready_cluster = fmap_of_list (map (\<lambda>n. ((Deployment, ''ns'', n), ready_deployment n))
       [ConsoleUIDeploymentName, PostgresDeploymentName, OpenShiftMCPServerDeploymentName, RHOKPDeploymentName,
        OLSAppServerDeploymentName] @ [((OLSConfigKind', [], ''cluster''), obj_of_cr live_cr)])"

lemma map_of_deployments:
  "n \<in> set ns \<Longrightarrow> map_of (map (\<lambda>n. ((Deployment, x, n), f n)) ns @ l) (Deployment, x, n) = Some (f n)"
  by (induction ns) auto

lemma ready_cluster_views:
  "n \<in> {ConsoleUIDeploymentName, PostgresDeploymentName, OpenShiftMCPServerDeploymentName, RHOKPDeploymentName,
     OLSAppServerDeploymentName} \<Longrightarrow> mem_view ready_cluster (Deployment, ''ns'', n) = Some (ready_deployment n)"
  "mem_view ready_cluster (OLSConfigKind', [], ''cluster'') = Some (obj_of_cr live_cr)"
  "mem_view ready_cluster (NetworkPolicy, x, y) = None"
proof -
  show "mem_view ready_cluster (Deployment, ''ns'', n) = Some (ready_deployment n)"
    if "n \<in> {ConsoleUIDeploymentName, PostgresDeploymentName, OpenShiftMCPServerDeploymentName, RHOKPDeploymentName,
     OLSAppServerDeploymentName}"
  proof -
    have "fmlookup ready_cluster (Deployment, ''ns'', n) = Some (ready_deployment n)"
      using that unfolding ready_cluster_def fmlookup_of_list by (intro map_of_deployments) simp
    then show ?thesis by (simp add: mem_view_def) (simp add: ready_deployment_def key_of_def new_meta_def)
  qed
qed (simp_all add: ready_cluster_def mem_view_def fmlookup_of_list obj_of_cr_def live_cr_def key_of_def blank_cr_def
    new_meta_def)

lemma live_gates:
  "introspection live_cr" "\<not> byok_only live_cr" "\<not> wasComponentEnabled live_cr t"
  "AlertsAdapterConfigMapRef live_cr = None" "cr_key live_cr = (OLSConfigKind', [], ''cluster'')"
  by (simp_all add: introspection_def byok_only_def wasComponentEnabled_def live_cr_def blank_cr_def blank_ols_def
      BoolDeref_def AlertsAdapterConfigMapRef_def cr_key_def new_meta_def)

lemma ready_step_run:
  assumes "mem_view w (Deployment, ''ns'', n) = Some (ready_deployment n)"
  shows "\<exists>cn. run_state (run_deployment_step (mem_reconciler (no_options ''ns'')) cr
      (deployment_step x (\<lambda>cr. ret None) t n) st) w = (add_condition st cn True, w)"
proof -
  have "dep_available (ready_deployment n)" by (simp add: dep_available_def ready_deployment_def)
  then show ?thesis using assms
    by (auto simp: run_deployment_step_def deployment_step_def mem_get_def GetNamespace_def no_options_def
        checkDeploymentStatus_def Let_def)
qed

lemma idle_integration: "agenticintegration_Resources idle_operands r = (\<lambda>cr. ret None)"
  by (simp add: idle_operands_def operands.defs)

lemma ready_steps:
  assumes dep: "\<And>n. n \<in> {ConsoleUIDeploymentName, PostgresDeploymentName, OpenShiftMCPServerDeploymentName,
      RHOKPDeploymentName, OLSAppServerDeploymentName} \<Longrightarrow> mem_view w (Deployment, ''ns'', n) = Some (ready_deployment n)"
  obtains conds st where "run_state (gather_deployment_steps idle_operands (mem_reconciler (no_options ''ns'')) live_cr) w
      = ((core_deployment_steps idle_operands (mem_reconciler (no_options ''ns'')) live_cr, conds), w)"
    "run_state (run_deployment_steps (mem_reconciler (no_options ''ns'')) live_cr
      (core_deployment_steps idle_operands (mem_reconciler (no_options ''ns'')) live_cr)
      \<lparr>os_Conditions = conds, os_OverallStatus = OverallStatusReady, os_DiagnosticInfo = []\<rparr>) w = (st, w)"
    "os_OverallStatus st = OverallStatusReady" "os_DiagnosticInfo st = []"
proof -
  let ?r = "mem_reconciler (no_options ''ns'')"
  have idle: "console_Deployment idle_operands ?r = (\<lambda>cr. ret None)" "postgres_Deployment idle_operands ?r = (\<lambda>cr. ret None)"
    "ocpmcp_Deployment idle_operands ?r = (\<lambda>cr. ret None)" "rhokp_Deployment idle_operands ?r = (\<lambda>cr. ret None)"
    "appserver_Deployment idle_operands ?r = (\<lambda>cr. ret None)" "agenticintegration_Resources idle_operands ?r = (\<lambda>cr. ret None)"
    by (simp_all add: idle_operands_def operands.defs)
  obtain conds where g: "run_state (gather_deployment_steps idle_operands ?r live_cr) w
      = ((core_deployment_steps idle_operands ?r live_cr, conds), w)"
    by (simp add: gather_deployment_steps_def optional_deployment_def alerts_deployment_def disabled_condition_def
        live_gates blank_gates)
  have step: "\<exists>cn. run_state (run_deployment_step ?r live_cr (deployment_step x (\<lambda>cr. ret None) t n) st) w
      = (add_condition st cn True, w)"
    if "n \<in> {ConsoleUIDeploymentName, PostgresDeploymentName, OpenShiftMCPServerDeploymentName,
      RHOKPDeploymentName, OLSAppServerDeploymentName}" for x t n st
    using ready_step_run [OF dep [OF that]] by blast
  have "\<exists>st. run_state (run_deployment_steps ?r live_cr (map (\<lambda>(x, t, n). deployment_step x (\<lambda>cr. ret None) t n) l) st0) w
      = (st, w) \<and> os_OverallStatus st = os_OverallStatus st0 \<and> os_DiagnosticInfo st = os_DiagnosticInfo st0"
    if "\<forall>(x, t, n) \<in> set l. n \<in> {ConsoleUIDeploymentName, PostgresDeploymentName, OpenShiftMCPServerDeploymentName,
      RHOKPDeploymentName, OLSAppServerDeploymentName}" for l st0
    using that
  proof (induction l arbitrary: st0)
    case (Cons a l)
    obtain x t n where a: "a = (x, t, n)" by (metis surj_pair)
    obtain cn where "run_state (run_deployment_step ?r live_cr (deployment_step x (\<lambda>cr. ret None) t n) st0) w
        = (add_condition st0 cn True, w)" using step Cons.prems a by force
    moreover have "\<forall>(x, t, n) \<in> set l. n \<in> {ConsoleUIDeploymentName, PostgresDeploymentName, OpenShiftMCPServerDeploymentName,
      RHOKPDeploymentName, OLSAppServerDeploymentName}" using Cons.prems by simp
    ultimately show ?case using Cons.IH [of "add_condition st0 cn True"] a by (auto simp: add_condition_def)
  qed simp
  from this [of "[(''console UI deployment'', TypeConsolePluginReady, ConsoleUIDeploymentName),
      (''postgres deployment'', TypeCacheReady, PostgresDeploymentName),
      (''openshift-mcp-server deployment'', TypeMCPServerReady, OpenShiftMCPServerDeploymentName),
      (''RHOKP deployment'', TypeRHOKPReady, RHOKPDeploymentName),
      (''application server deployment'', TypeApiReady, OLSAppServerDeploymentName)]"
      "\<lparr>os_Conditions = conds, os_OverallStatus = OverallStatusReady, os_DiagnosticInfo = []\<rparr>"]
  obtain st where st: "run_state (run_deployment_steps ?r live_cr (core_deployment_steps idle_operands ?r live_cr)
      \<lparr>os_Conditions = conds, os_OverallStatus = OverallStatusReady, os_DiagnosticInfo = []\<rparr>) w = (st, w)"
    "os_OverallStatus st = OverallStatusReady" "os_DiagnosticInfo st = []"
    by (auto simp: core_deployment_steps_def live_gates idle)
  then show ?thesis using that g by blast
qed

lemma ready_phase2:
  assumes dep: "\<And>n. n \<in> {ConsoleUIDeploymentName, PostgresDeploymentName, OpenShiftMCPServerDeploymentName,
      RHOKPDeploymentName, OLSAppServerDeploymentName} \<Longrightarrow> mem_view w (Deployment, ''ns'', n) = Some (ready_deployment n)"
  shows "\<exists>w'. run_state (reconcileDeploymentsAndStatus idle_control (mem_reconciler (no_options ''ns'')) live_cr) w
      = ((0, None), w')"
proof -
  let ?r = "mem_reconciler (no_options ''ns'')"
  obtain conds st where g: "run_state (gather_deployment_steps idle_operands ?r live_cr) w
      = ((core_deployment_steps idle_operands ?r live_cr, conds), w)"
    and st: "run_state (run_deployment_steps ?r live_cr (core_deployment_steps idle_operands ?r live_cr)
      \<lparr>os_Conditions = conds, os_OverallStatus = OverallStatusReady, os_DiagnosticInfo = []\<rparr>) w = (st, w)"
      "os_OverallStatus st = OverallStatusReady" "os_DiagnosticInfo st = []"
    using ready_steps [OF dep] by blast
  have "os_OverallStatus st \<noteq> []" using st(2) by (simp add: go_const)
  from mem_status_written [OF this, of 4 "no_options ''ns''" live_cr w] obtain w' where
    "run_state (UpdateStatusCondition (attempts 4) ?r live_cr st True) w = (None, w')" by blast
  then show ?thesis using g st
    by (auto simp: reconcileDeploymentsAndStatus_def idle_control_def idle_integration phase2_error_def Let_def)
qed

theorem Reconcile_success_ready_witness:
  "\<exists>wc' w'. run_state (Reconcile idle_control (mem_reconciler (no_options ''ns'')) None ([], ''cluster'')) ready_cluster
     = (((0, None), wc'), w') \<and>
     (\<forall>ob' cr'. mem_view w' (cr_key live_cr) = Some ob' \<and> cr_of ob' = Some cr' \<longrightarrow> phase2_ready (cr_Status cr'))"
proof -
  let ?r = "mem_reconciler (no_options ''ns'')" and ?req = "([], ''cluster'') :: string \<times> string"
  have ns: "GetNamespace ?r = ''ns''" by (simp add: GetNamespace_def no_options_def)
  have prom: "\<not> IsPrometheusAvailable ?r" by (simp add: IsPrometheusAvailable_def no_options_def)
  obtain w1 where 1: "run_state (reconcileOperatorResources ?r) ready_cluster = (None, w1)"
    using prom ready_cluster_views(3)
    by (simp add: reconcileOperatorResources_def operatorReconcileFuncs_def ReconcileServiceMonitorForOperator_def
        ReconcileNetworkPolicyForOperator_def create_or_update_def run_fetch run_create_as mem_get_def mem_create_def
        Let_def generateNetworkPolicyForOperator_def key_of_def new_meta_def ns)
  have fr: "mem_view w1 (Deployment, ''ns'', n) = mem_view ready_cluster (Deployment, ''ns'', n)" for n
    using reconcileOperatorResources_run(3) [OF mem_reconciler_ok 1] by (simp add: operator_keys_def)
  obtain wc' where 2: "run_state (annotateExternalResources ?r live_cr None) w1 = ((None, wc'), w1)"
    by (simp add: annotateExternalResources_def ValidateLLMCredentials_def annotate_all_def annotate_loops_def
        ForEachExternalSecret_def ForEachExternalConfigMap_def for_llm_secrets_def for_mcp_secrets_def live_cr_def
        blank_cr_def blank_ols_def AlertsAdapterConfigMapRef_def note_error_def and_then_def)
  have 3: "run_state (reconcileIndependentResources idle_control ?r live_cr) w1 = (None, w1)"
    by (simp add: reconcileIndependentResources_def idle_control_def gather_resource_steps_def optional_resources_def
        live_gates blank_gates resource_step_def)
  obtain w' where 4: "run_state (reconcileDeploymentsAndStatus idle_control ?r live_cr) w1 = ((0, None), w')"
    using ready_phase2 [of w1] fr ready_cluster_views(1) by metis
  have live: "\<not> m_deleting (cr_Meta live_cr)" "OLSConfigFinalizer \<in> set (m_finalizers (cr_Meta live_cr))"
    by (simp_all add: live_cr_def blank_cr_def new_meta_def)
  have name: "snd ?req = OLSConfigName" by (simp add: go_const)
  have run: "run_state (Reconcile idle_control ?r None ?req) ready_cluster = (((0, None), wc'), w')"
    using 1 2 3 4 live name ready_cluster_views(2)
    by (simp add: Reconcile_def getAndValidateCR_def mem_get_def handleFinalizer_def ContainsFinalizer_def
        reconcile_phases_def)
  have "retry_ok (ct_retry idle_control)" by (simp add: idle_control_def attempts_retry_ok)
  from Reconcile_success_ready [OF mem_reconciler_ok this name _ cr_of_obj_of_cr live run] ready_cluster_views(2) run
  show ?thesis by auto
qed

lemma preserve_type: "cn_Type (preserve_time cs c) = cn_Type c"
  by (simp add: preserve_time_def split: option.splits)


end
