(* ===== verification/Versioned_Deployment.thy ===== *)
theory Versioned_Deployment
  imports Console_UI Operator_Assets
begin

text \<open>
  What the standalone HTTPS operands (\<open>internal/controller/ocpmcp\<close>, \<open>rhokp\<close>) share: a Deployment
  that records, in its annotations, the resource versions of the objects its pods mount, so that
  a changed ConfigMap or certificate rolls the pods; restarts that read the Deployment again;
  deletions that return the API error as it is; and the pieces of their generated objects.
\<close>

section \<open>Operations\<close>

text \<open>
  \<open>tracked\<close> are the annotation keys that hold resource versions. The found Deployment gets the
  desired spec, the tracked annotations and a fresh reload stamp in one update.
\<close>

definition recorded :: "kobject \<Rightarrow> string \<Rightarrow> string" where
  "recorded ob k = zlookup (nil_map (m_annotations (k_meta ob))) k"

definition same_versions :: "string list \<Rightarrow> kobject \<Rightarrow> kobject \<Rightarrow> bool" where
  "same_versions tracked existing desired =
     list_all (\<lambda>k. recorded existing k = recorded desired k) tracked"

definition copy_versions :: "string list \<Rightarrow> kobject \<Rightarrow> kobject \<Rightarrow> kobject" where
  "copy_versions tracked desired existing = existing\<lparr>k_meta :=
     fold (\<lambda>k. set_annotation k (recorded desired k)) tracked (k_meta existing)\<rparr>"

definition update_versioned :: "'w reconciler \<Rightarrow> string \<Rightarrow> string list \<Rightarrow> kobject \<Rightarrow> kobject \<Rightarrow>
    ('w, goerr option) io" where
  "update_versioned r errUpdate tracked existing desired =
     (let d = SetDefaults_Deployment (dep_of desired) in
      case DeploymentSpecEqual (dep_of existing) d False of
        None \<Rightarrow> ret (Some nil_panic)
      | Some same \<Rightarrow>
          (if same \<and> same_versions tracked existing desired then ret None
           else do {
             now \<leftarrow> cl_now r;
             update_as r errUpdate
               (stamp_template now (copy_versions tracked desired (set_dep_spec d existing))) }))"

definition reconcile_versioned :: "'w reconciler \<Rightarrow> string \<Rightarrow> string \<Rightarrow> string \<Rightarrow> string list \<Rightarrow> okey \<Rightarrow>
    kobject \<Rightarrow> ('w, goerr option) io" where
  "reconcile_versioned r errGet errCreate errUpdate tracked k desired =
     fetch r k (create_as r errCreate desired) (\<lambda>e. ret (Some (wrapf errGet e))) (\<lambda>existing. do {
       e \<leftarrow> update_versioned r errUpdate tracked existing desired;
       ret (map_option (wrapf errUpdate) e) })"

definition secret_version :: "'w reconciler \<Rightarrow> string \<Rightarrow> string \<Rightarrow> ('w, goerr + string) io" where
  "secret_version r errGet name = do {
     x \<leftarrow> cl_get r (Secret, GetNamespace r, name);
     ret (case x of Inl e \<Rightarrow> Inl (wrapf errGet e) | Inr s \<Rightarrow> Inr (m_version (k_meta s))) }"

text \<open>A Deployment that is not there, or goes away meanwhile, needs no restart.\<close>

definition restart_refetched :: "'w reconciler \<Rightarrow> string \<Rightarrow> string \<Rightarrow> ('w, goerr option) io" where
  "restart_refetched r errUpdate name =
     fetch r (Deployment, GetNamespace r, name) (ret None) (\<lambda>e. ret (Some (wrapf errUpdate e)))
       (\<lambda>dep. do {
          now \<leftarrow> cl_now r;
          e \<leftarrow> cl_update r (stamp_template now dep);
          ret (case e of None \<Rightarrow> None
             | Some err \<Rightarrow> (if IsNotFound err then None else Some (wrapf errUpdate err))) })"

definition delete_plain :: "'w reconciler \<Rightarrow> okey \<Rightarrow> ('w, goerr option) io" where
  "delete_plain r k = fetch r k (ret None) (\<lambda>e. ret (Some e)) (\<lambda>ob. do {
     e \<leftarrow> cl_delete r (key_of ob);
     ret (case e of None \<Rightarrow> None | Some err \<Rightarrow> (if IsNotFound err then None else Some err)) })"

section \<open>Generated pieces\<close>

text \<open>A cluster-internal Service on one HTTPS port, with a serving certificate.\<close>

definition https_service :: "'w reconciler \<Rightarrow> OLSConfig \<Rightarrow> string \<Rightarrow> gmap \<Rightarrow> string \<Rightarrow> int \<Rightarrow> kobject" where
  "https_service r cr name labels certSecret port = set_controller cr \<lparr>
     k_meta = (new_meta (GetNamespace r) name labels)
       \<lparr>m_annotations := Some (fmap_of_list [(ServingCertSecretAnnotationKey, certSecret)])\<rparr>,
     k_payload = PService \<lparr>ss_selector = labels,
       ss_ports = [\<lparr>sp_name = ''https'', sp_protocol = ''TCP'', sp_port = port, sp_target = ''https''\<rparr>],
       ss_cluster_ip = []\<rparr>\<rparr>"

text \<open>Ingress from every pod of the namespace to one port.\<close>

definition namespace_policy :: "'w reconciler \<Rightarrow> OLSConfig \<Rightarrow> string \<Rightarrow> gmap \<Rightarrow> int \<Rightarrow> kobject" where
  "namespace_policy r cr name labels port = set_controller cr \<lparr>
     k_meta = new_meta (GetNamespace r) name labels,
     k_payload = PNetworkPolicy \<lparr>np_pods = \<lparr>ls_labels = labels, ls_exprs = []\<rparr>,
       np_ingress = [\<lparr>ru_from = [\<lparr>pe_pods = Some \<lparr>ls_labels = fmempty, ls_exprs = []\<rparr>,
         pe_namespaces = None\<rparr>], ru_ports = [(''TCP'', port)]\<rparr>],
       np_egress = [], np_types = [''Ingress'']\<rparr>\<rparr>"

text \<open>Scraping over HTTPS, verified against the service CA, without a client certificate.\<close>

definition https_monitor ::
  "'w reconciler \<Rightarrow> OLSConfig \<Rightarrow> string \<Rightarrow> string \<Rightarrow> string \<Rightarrow> gmap \<Rightarrow> kobject" where
  "https_monitor r cr name service path labels = set_controller cr \<lparr>
     k_meta = new_meta (GetNamespace r) name
       (fmupd ''openshift.io/user-monitoring'' ''false''
         (fmupd ''app.kubernetes.io/component'' ''metrics''
           (fmupd ''monitoring.openshift.io/collection-profile'' ''full'' labels))),
     k_payload = PServiceMonitor \<lparr>sm_endpoints = [\<lparr>se_port = ''https'', se_path = path, se_interval = ''30s'',
         se_scheme = ''https'', se_ca = ''/etc/prometheus/configmaps/serving-certs-ca-bundle/service-ca.crt'',
         se_cert = [], se_key = [], se_insecure = False,
         se_server_name = service @ ''.'' @ GetNamespace r @ ''.svc'', se_auth = None\<rparr>],
       sm_job_label = ''app.kubernetes.io/name'', sm_selector = labels\<rparr>\<rparr>"

definition https_probe :: "string \<Rightarrow> int \<Rightarrow> probe" where
  "https_probe path port = \<lparr>pr_handler = HTTPGet path (int_to_string port) ''HTTPS'', pr_initial = 0,
     pr_timeout = 0, pr_period = 0, pr_success = 0, pr_failure = 0, pr_grace = None\<rparr>"

definition with_annotations :: "(string \<times> string) list \<Rightarrow> kobject \<Rightarrow> kobject" where
  "with_annotations l ob = ob\<lparr>k_meta := (k_meta ob)\<lparr>m_annotations := Some (fmap_of_list l)\<rparr>\<rparr>"

section \<open>The Deployment converges\<close>

lemma https_service_complete:
  "own Service r (https_service r cr n l c p)" "complete_service (https_service r cr n l c p)"
  "key_of (https_service r cr n l c p) = (Service, GetNamespace r, n)"
  by (simp_all add: https_service_def own_def key_of_def complete_service_def set_controller_def
      new_meta_def nil_map_def)

lemma https_monitor_key:
  "own ServiceMonitor r (https_monitor r cr n s p l)"
  "key_of (https_monitor r cr n s p l) = (ServiceMonitor, GetNamespace r, n)"
  by (simp_all add: https_monitor_def own_def key_of_def set_controller_def new_meta_def)

lemma copy_versions_simps [simp]:
  "key_of (copy_versions ks d ob) = key_of ob" "k_payload (copy_versions ks d ob) = k_payload ob"
  "dep_of (copy_versions ks d ob) = dep_of ob"
  "m_deleting (k_meta (copy_versions ks d ob)) = m_deleting (k_meta ob)"
  "m_finalizers (k_meta (copy_versions ks d ob)) = m_finalizers (k_meta ob)"
proof -
  have "m_name (fold (\<lambda>k. set_annotation k (g k)) ks m) = m_name m \<and>
      m_namespace (fold (\<lambda>k. set_annotation k (g k)) ks m) = m_namespace m \<and>
      m_deleting (fold (\<lambda>k. set_annotation k (g k)) ks m) = m_deleting m \<and>
      m_finalizers (fold (\<lambda>k. set_annotation k (g k)) ks m) = m_finalizers m" for g m
    by (induction ks arbitrary: m) (simp_all add: set_annotation_def)
  then show "key_of (copy_versions ks d ob) = key_of ob" "k_payload (copy_versions ks d ob) = k_payload ob"
    "dep_of (copy_versions ks d ob) = dep_of ob"
    "m_deleting (k_meta (copy_versions ks d ob)) = m_deleting (k_meta ob)"
    "m_finalizers (k_meta (copy_versions ks d ob)) = m_finalizers (k_meta ob)"
    by (simp_all add: copy_versions_def key_of_def dep_of_def)
qed

lemma with_annotations_simps [simp]:
  "key_of (with_annotations l ob) = key_of ob" "dep_of (with_annotations l ob) = dep_of ob"
  "recorded (with_annotations l ob) k = zlookup (fmap_of_list l) k"
  by (simp_all add: with_annotations_def key_of_def dep_of_def recorded_def nil_map_def)

lemma recorded_annotation: "recorded ob k = (case annotation (k_meta ob) k of None \<Rightarrow> [] | Some x \<Rightarrow> x)"
  by (simp add: recorded_def zlookup_def annotation_def)

lemma annotation_fold:
  "annotation (fold (\<lambda>k. set_annotation k (g k)) ks m) k =
     (if k \<in> set ks then Some (g k) else annotation m k)"
  by (induction ks arbitrary: m) simp_all

lemma recorded_copy_versions [simp]:
  "recorded (copy_versions ks d ob) k = (if k \<in> set ks then recorded d k else recorded ob k)"
proof -
  have "annotation (k_meta (copy_versions ks d ob)) k =
      (if k \<in> set ks then Some (recorded d k) else annotation (k_meta ob) k)"
    by (simp add: copy_versions_def annotation_fold)
  then show ?thesis by (simp add: recorded_annotation [of "copy_versions ks d ob"] recorded_annotation [of ob])
qed

lemma recorded_stored: "stored_as ob s \<Longrightarrow> recorded s = recorded ob"
  by (simp add: recorded_def fun_eq_iff stored_as_annotations)

lemma stamp_template_simps [simp]:
  "k_meta (stamp_template now ob) = k_meta ob" "key_of (stamp_template now ob) = key_of ob"
  "recorded (stamp_template now ob) = recorded ob"
  by (simp_all add: stamp_template_def recorded_def fun_eq_iff)

text \<open>An empty Deployment is never taken for a desired one.\<close>

lemma zero_deployment_differs: "DeploymentSpecEqual zero_deployment (SetDefaults_Deployment d) ci = Some False"
proof -
  have "d_strategy zero_deployment \<noteq> d_strategy (SetDefaults_Deployment d)"
    by (cases "d_strategy d")
      (auto simp: SetDefaults_Deployment_def zero_deployment_def default_strategy_def Let_def)
  then show ?thesis by (simp add: DeploymentSpecEqual_def Let_def)
qed

definition versioned_current :: "string list \<Rightarrow> kobject \<Rightarrow> kobject \<Rightarrow> bool" where
  "versioned_current tracked d s = (deployment_current False d s \<and> same_versions tracked s d)"

text \<open>The one update that carries spec, versions and reload stamp.\<close>

definition roll_versioned :: "'w reconciler \<Rightarrow> string \<Rightarrow> string list \<Rightarrow> kobject \<Rightarrow> kobject \<Rightarrow>
    ('w, goerr option) io" where
  "roll_versioned r errUpdate tracked existing desired = do {
     now \<leftarrow> cl_now r;
     update_as r errUpdate (stamp_template now (copy_versions tracked desired
       (set_dep_spec (SetDefaults_Deployment (dep_of desired)) existing))) }"

text \<open>A stamp is what the clock returned in a world that differs from \<open>w\<close> at most in the objects \<open>K\<close>.\<close>

definition clock_reading :: "'w reconciler \<Rightarrow> ('w \<Rightarrow> okey \<Rightarrow> kobject option) \<Rightarrow> okey set \<Rightarrow> 'w \<Rightarrow> string \<Rightarrow> bool" where
  "clock_reading r v K w now = (\<exists>wa wb. (\<forall>k. k \<notin> K \<longrightarrow> v wa k = v w k) \<and> run_state (cl_now r) wa = (now, wb))"

lemma clock_readingI: "run_state (cl_now r) wa = (now, wb) \<Longrightarrow> (\<And>k. k \<notin> K \<Longrightarrow> v wa k = v w k) \<Longrightarrow> clock_reading r v K w now"
  unfolding clock_reading_def by blast

lemma clock_reading_cong:
  "clock_reading r v K w now \<Longrightarrow> (\<And>k. k \<notin> K \<Longrightarrow> v w k = v w' k) \<Longrightarrow> clock_reading r v K w' now"
  unfolding clock_reading_def by (metis (no_types, lifting))

lemma roll_versioned_writes:
  assumes api: "api_ok r v" and key: "key_of ob = k" "fst k = Deployment"
    and complete: "complete_deployment (dep_of d)"
    and life: "m_deleting (k_meta ob) \<Longrightarrow> m_finalizers (k_meta ob) \<noteq> []"
    and run: "run_state (roll_versioned r eu ks ob d) w = (e, w')"
  shows "(e = None \<longrightarrow> (\<exists>s now. v w' k = Some s \<and> versioned_current ks d s \<and> clock_reading r v {} w now \<and>
        fmlookup (nil_map (d_tmpl_annotations (dep_of s))) ForceReloadAnnotationKey = Some now)) \<and>
      (\<forall>k'. k' \<noteq> k \<longrightarrow> v w' k' = v w k')"
proof -
  let ?d = "SetDefaults_Deployment (dep_of d)"
  obtain now w1 where t: "run_state (cl_now r) w = (now, w1)" by force
  define nob where "nob = stamp_template now (copy_versions ks d (set_dep_spec ?d ob))"
  have u: "run_state (update_as r eu nob) w1 = (e, w')"
    using run t by (simp add: roll_versioned_def nob_def)
  have nob: "key_of nob = key_of ob" "m_deleting (k_meta nob) = m_deleting (k_meta ob)"
    "m_finalizers (k_meta nob) = m_finalizers (k_meta ob)"
    by (simp_all add: nob_def)
  have dep: "dep_of nob = ?d\<lparr>d_tmpl_annotations :=
      Some (fmupd ForceReloadAnnotationKey now (nil_map (d_tmpl_annotations ?d)))\<rparr>"
    using key by (simp add: nob_def stamp_template_def)
  note upd = update_as_found [OF api nob(1,2,3) life u]
  have "versioned_current ks d s \<and>
      fmlookup (nil_map (d_tmpl_annotations (dep_of s))) ForceReloadAnnotationKey = Some now"
    if s: "stored_as nob s" for s
  proof -
    have st: "deployment_stored (dep_of nob) (dep_of s)"
      using stored_dep_of [OF s] nob(1) key by simp
    then have "deployment_current False d s"
      using dep rewritten_spec_equal complete by (simp add: deployment_current_def)
    moreover have "same_versions ks s d"
      using recorded_stored [OF s] by (simp add: same_versions_def nob_def list_all_iff)
    moreover have "d_tmpl_annotations (dep_of s) = d_tmpl_annotations (dep_of nob)"
      using st by (simp add: deployment_stored_def)
    ultimately show ?thesis using dep by (simp add: versioned_current_def nil_map_def)
  qed
  moreover have "clock_reading r v {} w now" using t by (rule clock_readingI) simp
  ultimately show ?thesis using upd key(1) api_now [OF api t] by metis
qed

text \<open>What an update writes when the Deployment differs.\<close>

lemma update_versioned_writes:
  assumes api: "api_ok r v" and key: "key_of ob = k" "fst k = Deployment"
    and complete: "complete_deployment (dep_of d)"
    and life: "m_deleting (k_meta ob) \<Longrightarrow> m_finalizers (k_meta ob) \<noteq> []"
    and run: "run_state (update_versioned r eu ks ob d) w = (e, w')"
  shows "e = None \<Longrightarrow> \<not> versioned_current ks d ob \<Longrightarrow>
      \<exists>s now. v w' k = Some s \<and> versioned_current ks d s \<and> clock_reading r v {} w now \<and>
        fmlookup (nil_map (d_tmpl_annotations (dep_of s))) ForceReloadAnnotationKey = Some now"
    and "versioned_current ks d ob \<Longrightarrow> e = None \<and> w' = w" and "k' \<noteq> k \<Longrightarrow> v w' k' = v w k'"
proof -
  let ?d = "SetDefaults_Deployment (dep_of d)"
  show "versioned_current ks d ob \<Longrightarrow> e = None \<and> w' = w"
    using run by (auto simp: update_versioned_def versioned_current_def deployment_current_def Let_def)
  have "(e = None \<longrightarrow> \<not> versioned_current ks d ob \<longrightarrow> (\<exists>s now. v w' k = Some s \<and> versioned_current ks d s \<and> clock_reading r v {} w now \<and>
        fmlookup (nil_map (d_tmpl_annotations (dep_of s))) ForceReloadAnnotationKey = Some now)) \<and>
      (\<forall>k'. k' \<noteq> k \<longrightarrow> v w' k' = v w k')"
  proof (cases "DeploymentSpecEqual (dep_of ob) ?d False = None \<or> versioned_current ks d ob")
    case True
    then show ?thesis
      using run by (auto simp: update_versioned_def versioned_current_def deployment_current_def Let_def)
  next
    case False
    then have "run_state (roll_versioned r eu ks ob d) w = (e, w')"
      using run by (auto simp: update_versioned_def roll_versioned_def versioned_current_def deployment_current_def
          Let_def split: option.splits if_splits)
    from roll_versioned_writes [OF api key complete life this] show ?thesis by blast
  qed
  then show "e = None \<Longrightarrow> \<not> versioned_current ks d ob \<Longrightarrow>
      \<exists>s now. v w' k = Some s \<and> versioned_current ks d s \<and> clock_reading r v {} w now \<and>
        fmlookup (nil_map (d_tmpl_annotations (dep_of s))) ForceReloadAnnotationKey = Some now"
    "k' \<noteq> k \<Longrightarrow> v w' k' = v w k'" by blast+
qed

lemma settles_versioned:
  assumes api: "api_ok r v" and key: "key_of d = k" "fst k = Deployment"
    and complete: "complete_deployment (dep_of d)"
  shows "settles v {k} (\<lambda>f. \<exists>s. f k = Some s \<and> versioned_current ks d s)
     (reconcile_versioned r eg ec eu ks k d)"
  unfolding reconcile_versioned_def
proof (rule settles_fetch [OF api key(1)])
  fix s assume s: "stored_as d s"
  then show "versioned_current ks d s"
    using stored_dep_of [OF s] key complete stored_spec_equal recorded_stored [OF s]
    by (simp add: versioned_current_def deployment_current_def same_versions_def list_all_iff)
next
  fix ob w e w'
  assume k: "key_of ob = k" and life: "m_deleting (k_meta ob) \<Longrightarrow> m_finalizers (k_meta ob) \<noteq> []"
    and run: "run_state (do { e \<leftarrow> update_versioned r eu ks ob d; ret (map_option (wrapf eu) e) }) w = (e, w')"
  obtain e0 where u: "run_state (update_versioned r eu ks ob d) w = (e0, w')" "e = map_option (wrapf eu) e0"
    using run by (auto split: prod.splits)
  note wr = update_versioned_writes [OF api k key(2) complete life u(1)]
  show "(v w k = Some ob \<longrightarrow> e = None \<longrightarrow> (\<exists>s. v w' k = Some s \<and> versioned_current ks d s)) \<and>
      (\<forall>k'. k' \<noteq> k \<longrightarrow> v w' k' = v w k') \<and> (versioned_current ks d ob \<longrightarrow> v w' = v w)"
    using wr u(2) by (cases "versioned_current ks d ob") auto
qed

section \<open>Deletions, certificates and monitors\<close>

lemma settles_delete_plain:
  assumes "api_ok r v"
  shows "settles v {k} (\<lambda>f. gone (f k)) (delete_plain r k)"
proof (rule settles_same [OF settles_delete_object [OF assms, of k "[]" "[]"]])
  fix w
  show "snd (run_state (delete_plain r k) w) = snd (run_state (delete_object r [] [] k) w) \<and>
      (fst (run_state (delete_plain r k) w) = None \<longleftrightarrow> fst (run_state (delete_object r [] [] k) w) = None)"
    by (auto simp: delete_plain_def delete_object_def run_fetch split: prod.splits sum.splits option.splits)
qed

lemma settles_RunDeleteTasks:
  assumes "list_all2 (\<lambda>(n, t) (K, G). settles v K G (t r)) ts specs" "disjoint_specs specs"
  shows "settles v (\<Union> (fst ` set specs)) (\<lambda>f. \<forall>(K, G) \<in> set specs. G f) (RunDeleteTasks r phase ts)"
proof -
  have "RunDeleteTasks r phase ts = for_each (\<lambda>(name, task). do {
      e \<leftarrow> task r (undefined :: OLSConfig); ret (map_option (wrapf (''failed to '' @ name)) e) })
      (map (\<lambda>(n, t). (n, \<lambda>r cr. t r)) ts)"
    unfolding RunDeleteTasks_def by (induction ts) (auto simp: for_each_Cons)
  moreover have "list_all2 (\<lambda>(n, t) (K, G). settles v K G (t r undefined)) (map (\<lambda>(n, t). (n, \<lambda>r cr. t r)) ts) specs"
    using assms(1) by (auto simp: list_all2_conv_all_nth split: prod.splits)
  note settles_fail_fast [OF this assms(2), of "\<lambda>n. wrapf (''failed to '' @ n)"]
  ultimately show ?thesis by (simp only:)
qed

lemma RunDeleteTasks_fails:
  assumes "(n, t) \<in> set ts" "\<And>w. fst (run_state (t r) w) \<noteq> None"
  shows "fst (run_state (RunDeleteTasks r phase ts) w) \<noteq> None"
  using assms(1)
proof (induction ts arbitrary: w)
  case (Cons nt ts)
  obtain m u where nt: "nt = (m, u)" by force
  obtain e w1 where u: "run_state (u r) w = (e, w1)" by force
  show ?case
  proof (cases e)
    case (Some err)
    then show ?thesis using u by (simp add: nt RunDeleteTasks_def)
  next
    case None
    then have "(n, t) \<in> set ts" using Cons.prems nt assms(2) [of w] u by auto
    then show ?thesis using Cons.IH [of w1] u None by (simp add: nt RunDeleteTasks_def)
  qed
qed simp

lemma RunDeleteTasks_succeeds:
  "\<forall>(n, t) \<in> set ts. \<forall>w. fst (run_state (t r) w) = None \<Longrightarrow> fst (run_state (RunDeleteTasks r phase ts) w) = None"
proof (induction ts arbitrary: w)
  case (Cons nt ts)
  obtain m u where nt: "nt = (m, u)" by force
  obtain e w1 where u: "run_state (u r) w = (e, w1)" by force
  moreover have "fst (run_state (u r) w) = None" using Cons.prems nt by simp
  ultimately show ?case using Cons.IH [of w1] Cons.prems by (simp add: nt RunDeleteTasks_def)
qed (simp add: RunDeleteTasks_def)

text \<open>The store of the examples never refuses a deletion.\<close>

lemma mem_deletes:
  "fst (run_state (delete_plain (mem_reconciler op) k) m) = None"
  "fst (run_state (delete_object (mem_reconciler op) a b k) m) = None"
  by (auto simp: delete_plain_def delete_object_def run_fetch mem_get_def mem_delete_def
      dest: mem_view_key split: option.splits)

text \<open>The store with a kind the server does not know.\<close>

definition without_kind :: "kind \<Rightarrow> mem reconciler" where
  "without_kind K = (mem_reconciler (no_options ''ns''))\<lparr>cl_get :=
     (\<lambda>k. if fst k = K then ret (Inl (newerr ''no matches for kind'')) else mem_get k)\<rparr>"

text \<open>Deleting a list of objects one by one, stopping at the first failure.\<close>

definition gone_specs :: "okey list \<Rightarrow> task_spec list" where
  "gone_specs ks = map (\<lambda>k. ({k}, \<lambda>f. gone (f k))) ks"

lemma disjoint_gone_specs: "distinct ks \<Longrightarrow> disjoint_specs (gone_specs ks)"
  by (induction ks) (auto simp: disjoint_specs_def gone_specs_def)

lemma gone_specs_keys [simp]: "\<Union> (fst ` set (gone_specs ks)) = set ks"
  and gone_specs_all [simp]: "(\<forall>(K, G) \<in> set (gone_specs ks). G f) = (\<forall>k \<in> set ks. gone (f k))"
  by (auto simp: gone_specs_def)

lemma settles_removal:
  assumes "api_ok r v" "distinct ks" "list_all2 (\<lambda>(n, t) k. settles v {k} (\<lambda>f. gone (f k)) (t r)) ts ks"
  shows "settles v (set ks) (\<lambda>f. \<forall>k \<in> set ks. gone (f k)) (RunDeleteTasks r phase ts)"
proof -
  have "list_all2 (\<lambda>(n, t) (K, G). settles v K G (t r)) ts (gone_specs ks)"
    unfolding gone_specs_def list_all2_map2 using assms(3) by (rule list.rel_mono_strong) auto
  from settles_RunDeleteTasks [OF this disjoint_gone_specs [OF assms(2)]] show ?thesis by simp
qed

lemma settles_service_monitor:
  assumes "api_ok r v" "own ServiceMonitor r d"
  shows "settles v {key_of d} (\<lambda>f. IsPrometheusAvailable r \<longrightarrow>
      (\<exists>s. f (key_of d) = Some s \<and> ServiceMonitorEqual s d)) (ReconcileServiceMonitor r d)"
proof (cases "IsPrometheusAvailable r")
  case True
  then show ?thesis using sm.settles_recon [OF assms(1), of d] assms(2) by simp
next
  case False
  then show ?thesis by (simp add: ReconcileServiceMonitor_def settles_def on_keys_def)
qed

text \<open>
  The Deployment phase of such an operand: Service, certificate, Deployment, ServiceMonitor,
  stopping at the first failure. It converges when the Deployment step does.
\<close>

lemma settles_https_phase:
  assumes "api_ok r v" "runtime_ok r"
    and tasks: "svc r cr = ReconcileConsolePluginService r (https_service r cr sn l cs p)"
      "wait r cr = WaitForConsolePluginTLSSecret r cs"
      "mon r cr = ReconcileServiceMonitor r (https_monitor r cr mn sn mp l)"
    and dep: "settles v K G (dep r cr)" "\<forall>k \<in> K. fst k \<notin> {Service, ServiceMonitor}"
  shows "settles v (insert (Service, GetNamespace r, sn) (insert (ServiceMonitor, GetNamespace r, mn) K))
     (\<lambda>f. (\<exists>s. f (Service, GetNamespace r, sn) = Some s \<and> service_current (https_service r cr sn l cs p) s) \<and>
        G f \<and> (IsPrometheusAvailable r \<longrightarrow> (\<exists>s. f (ServiceMonitor, GetNamespace r, mn) = Some s \<and>
          ServiceMonitorEqual s (https_monitor r cr mn sn mp l))))
     (RunReconcileTasks r cr phase [(a, svc), (b, wait), (c, dep), (d, mon)] False)"
proof -
  let ?S = "https_service r cr sn l cs p" and ?M = "https_monitor r cr mn sn mp l"
  let ?specs = "[({key_of ?S}, \<lambda>f. \<exists>s. f (key_of ?S) = Some s \<and> service_current ?S s), ({}, \<lambda>f. True),
     (K, G), ({key_of ?M}, \<lambda>f. IsPrometheusAvailable r \<longrightarrow>
        (\<exists>s. f (key_of ?M) = Some s \<and> ServiceMonitorEqual s ?M))] :: task_spec list"
  have svc: "settles v {key_of ?S} (\<lambda>f. \<exists>s. f (key_of ?S) = Some s \<and> service_current ?S s) (svc r cr)"
    unfolding tasks by (rule plugin_svc.settles_recon [OF assms(1)]) (simp add: https_service_complete)
  have mon: "settles v {key_of ?M} (\<lambda>f. IsPrometheusAvailable r \<longrightarrow>
      (\<exists>s. f (key_of ?M) = Some s \<and> ServiceMonitorEqual s ?M)) (mon r cr)"
    unfolding tasks by (rule settles_service_monitor [OF assms(1)]) (simp add: https_monitor_key)
  have "disjoint_specs ?specs"
    using dep(2) by (auto simp: disjoint_specs_def https_service_complete https_monitor_key)
  from settles_RunReconcileTasks [OF _ this, of v r cr "[(a, svc), (b, wait), (c, dep), (d, mon)]" phase False]
  have "settles v (\<Union> (fst ` set ?specs)) (\<lambda>f. \<forall>(K, G) \<in> set ?specs. G f)
      (RunReconcileTasks r cr phase [(a, svc), (b, wait), (c, dep), (d, mon)] False)"
    using svc mon settles_wait_tls [OF assms(1,2)] dep(1) tasks(2) by simp
  then show ?thesis by (simp add: https_service_complete https_monitor_key insert_commute Un_commute conj_left_commute)
qed

lemma fetch_cases:
  assumes "api_ok r v" "run_state (fetch r k missing failed upd) w = (e, w')"
  obtains (missing) w1 where "v w1 = v w" "v w k = None" "run_state missing w1 = (e, w')"
  | (failed) err w1 where "v w1 = v w" "run_state (failed err) w1 = (e, w')"
  | (found) ob w1 where "v w1 = v w" "v w k = Some ob" "key_of ob = k"
      "m_deleting (k_meta ob) \<longrightarrow> m_finalizers (k_meta ob) \<noteq> []" "run_state (upd ob) w1 = (e, w')"
proof -
  obtain x w1 where g: "run_state (cl_get r k) w = (x, w1)" by force
  note get = api_get [OF assms(1) g]
  show thesis
  proof (cases x)
    case (Inl err)
    then show ?thesis using assms(2) g get(1,5) missing [of w1] failed [of w1 err]
      by (cases "IsNotFound err") (auto simp: run_fetch)
  next
    case (Inr ob)
    then show ?thesis using assms(2) g get found [of w1 ob] by (auto simp: run_fetch)
  qed
qed

section \<open>Steps that establish their object\<close>

text \<open>
  Comparisons that look at more than what is written (foreign binary data, a version that could
  not be read) make a step write again, so it does not settle; it still establishes \<open>cur\<close>.
\<close>

lemma ensures_create:
  assumes api: "api_ok r v" and key: "key_of d = k" and created: "\<And>s. stored_as d s \<Longrightarrow> cur s"
    and run: "run_state (create_as r ec d) w = (e, w')"
  shows "(e = None \<longrightarrow> (\<exists>s. v w' k = Some s \<and> cur s)) \<and> (\<forall>k'. k' \<notin> {k} \<longrightarrow> v w' k' = v w k')"
proof -
  obtain ce where c: "run_state (cl_create r d) w = (ce, w')" "e = map_option (wrapf ec) ce"
    using run by (auto simp: run_create_as split: prod.splits)
  show ?thesis using api_create [OF api c(1)] c(2) key created by (cases ce) auto
qed

lemma ensures_create_or_update:
  assumes "api_ok r v" "key_of desired = k" "keeps_life merge"
    "\<And>ob. key_of ob = k \<Longrightarrow> key_of (merge ob) = k"
    "\<And>s. stored_as desired s \<Longrightarrow> cur s"
    "\<And>ob s. key_of ob = k \<Longrightarrow> stored_as (merge ob) s \<Longrightarrow> cur s"
    "\<And>s. key_of s = k \<Longrightarrow> same s \<Longrightarrow> cur s"
  shows "ensures v {k} (\<lambda>f. \<exists>s. f k = Some s \<and> cur s) (create_or_update r eg ec eu k desired same merge)"
  unfolding create_or_update_def
proof (rule ensures_fetch [OF assms(1) on_keys_object])
  fix w e w'
  assume "run_state (create_as r ec desired) w = (e, w')"
  from ensures_create [OF assms(1,2) _ this, of cur] assms(5)
  show "(e = None \<longrightarrow> (\<exists>s. v w' k = Some s \<and> cur s)) \<and> (\<forall>k'. k' \<notin> {k} \<longrightarrow> v w' k' = v w k')" by blast
next
  fix ob w e w'
  assume ob: "v w k = Some ob" "key_of ob = k" "m_deleting (k_meta ob) \<longrightarrow> m_finalizers (k_meta ob) \<noteq> []"
    and run: "run_state (if same ob then ret None else update_as r eu (merge ob)) w = (e, w')"
  show "(e = None \<longrightarrow> (\<exists>s. v w' k = Some s \<and> cur s)) \<and> (\<forall>k'. k' \<notin> {k} \<longrightarrow> v w' k' = v w k')"
  proof (cases "same ob")
    case True
    then show ?thesis using run ob assms(7) by auto
  next
    case False
    then have u: "run_state (update_as r eu (merge ob)) w = (e, w')" using run by simp
    have kn: "key_of (merge ob) = key_of ob" using assms(4) ob(2) by simp
    have life: "m_deleting (k_meta (merge ob)) = m_deleting (k_meta ob)"
      "m_finalizers (k_meta (merge ob)) = m_finalizers (k_meta ob)"
      using assms(3) by (simp_all add: keeps_life_def)
    note upd = update_as_found [OF assms(1) kn life ob(3) [rule_format] u]
    show ?thesis using upd(1,2) assms(6) ob(2) by (metis singletonI)
  qed
qed

text \<open>
  The desired state is computed from the objects \<open>R\<close> without writing; when each follow-up
  establishes its part, so does the whole step.
\<close>

lemma ensures_generated:
  assumes gen: "\<And>w x w'. run_state gen w = (x, w') \<Longrightarrow>
      v w' = v w \<and> (\<forall>d. x = Inr d \<longrightarrow> D (v w) = Some d)"
    and deps: "\<And>f g. (\<forall>k \<in> R. f k = g k) \<Longrightarrow> D f = D g"
    and keys: "\<And>d. on_keys (K \<union> R) (G d)"
    and body: "\<And>w d e w'. D (v w) = Some d \<Longrightarrow> run_state (recon d) w = (e, w') \<Longrightarrow>
      (e = None \<longrightarrow> G d (v w')) \<and> (\<forall>k. k \<notin> K \<longrightarrow> v w' k = v w k)" and disj: "K \<inter> R = {}"
  shows "ensures v (K \<union> R) (\<lambda>f. \<exists>d. D f = Some d \<and> G d f) (try_or gen wrap recon)"
proof -
  have "on_keys (K \<union> R) (\<lambda>f. \<exists>d. D f = Some d \<and> G d f)"
    unfolding on_keys_def
  proof (intro allI impI)
    fix f g :: "okey \<Rightarrow> kobject option" assume eq: "\<forall>k \<in> K \<union> R. f k = g k"
    have "D f = D g" using eq deps by blast
    moreover have "G d f = G d g" for d using keys [of d] eq unfolding on_keys_def by blast
    ultimately show "(\<exists>d. D f = Some d \<and> G d f) = (\<exists>d. D g = Some d \<and> G d g)" by simp
  qed
  moreover have "(e = None \<longrightarrow> (\<exists>d. D (v w') = Some d \<and> G d (v w'))) \<and> (\<forall>k. k \<notin> K \<union> R \<longrightarrow> v w' k = v w k)"
    if run: "run_state (try_or gen wrap recon) w = (e, w')" for w e w'
  proof -
    obtain x w1 where x: "run_state gen w = (x, w1)" by force
    note g = gen [OF x]
    show ?thesis
    proof (cases x)
      case (Inl err)
      then show ?thesis using run x g by (auto simp: try_or_def)
    next
      case (Inr d)
      then have rd: "run_state (recon d) w1 = (e, w')" using run x by (simp add: try_or_def)
      have dw: "D (v w1) = Some d" using g Inr by simp
      note b = body [OF dw rd]
      have "D (v w') = Some d" using dw deps [of "v w'" "v w1"] b disj by (metis disjoint_iff)
      then show ?thesis using b g by auto
    qed
  qed
  ultimately show ?thesis unfolding ensures_def by blast
qed

text \<open>
  A ConfigMap whose data and labels are replaced; foreign binary data is left in place, so it is
  not compared here.
\<close>

definition config_written :: "kobject \<Rightarrow> kobject \<Rightarrow> bool" where
  "config_written d s = (cm_data (k_payload s) = cm_data (k_payload d) \<and>
     m_labels (k_meta s) = m_labels (k_meta d))"

definition has_certificate :: "'w reconciler \<Rightarrow> string \<Rightarrow> (okey \<Rightarrow> kobject option) \<Rightarrow> bool" where
  "has_certificate r n f = (\<exists>s. f (Secret, GetNamespace r, n) = Some s \<and>
     fmlookup (secret_data (k_payload s)) ''tls.key'' \<noteq> None \<and>
     fmlookup (secret_data (k_payload s)) ''tls.crt'' \<noteq> None)"

text \<open>The version of the stored object, if there is one.\<close>

definition version_at :: "okey \<Rightarrow> (okey \<Rightarrow> kobject option) \<Rightarrow> string option" where
  "version_at k f = map_option (\<lambda>ob. m_version (k_meta ob)) (f k)"

lemma secret_version_run:
  assumes "api_ok r v" "run_state (secret_version r eg n) w = (x, w')"
  shows "v w' = v w \<and> (\<forall>y. x = Inr y \<longrightarrow> version_at (Secret, GetNamespace r, n) (v w) = Some y)"
proof -
  obtain g w1 where g: "run_state (cl_get r (Secret, GetNamespace r, n)) w = (g, w1)" by force
  show ?thesis using assms(2) g api_get(1,2) [OF assms(1) g]
    by (cases g) (auto simp: secret_version_def version_at_def)
qed

lemma configmap_version_run:
  assumes "api_ok r v" "run_state (GetConfigMapResourceVersion r n) w = (x, w')"
  shows "v w' = v w \<and> (\<forall>y. x = Inr y \<longrightarrow> version_at (ConfigMap, GetNamespace r, n) (v w) = Some y)"
proof -
  obtain g w1 where g: "run_state (cl_get r (ConfigMap, GetNamespace r, n)) w = (g, w1)" by force
  show ?thesis using assms(2) g api_get(1,2) [OF assms(1) g]
    by (cases g) (auto simp: GetConfigMapResourceVersion_def version_at_def)
qed

lemma restart_refetched_run:
  assumes api: "api_ok r v" and run: "run_state (restart_refetched r eu n) w = (e, w')"
  shows "e = None \<Longrightarrow> v w (Deployment, GetNamespace r, n) = Some ob \<Longrightarrow>
      \<exists>s now. v w' (Deployment, GetNamespace r, n) = Some s \<and>
        deployment_stored ((dep_of ob)\<lparr>d_tmpl_annotations :=
          Some (fmupd ForceReloadAnnotationKey now (nil_map (d_tmpl_annotations (dep_of ob))))\<rparr>) (dep_of s)"
    and "v w (Deployment, GetNamespace r, n) = None \<Longrightarrow> v w' = v w"
    and "k \<noteq> (Deployment, GetNamespace r, n) \<Longrightarrow> v w' k = v w k"
proof -
  let ?k = "(Deployment, GetNamespace r, n)"
  have "(e = None \<longrightarrow> v w ?k = Some ob \<longrightarrow> (\<exists>s now. v w' ?k = Some s \<and> deployment_stored
        ((dep_of ob)\<lparr>d_tmpl_annotations := Some (fmupd ForceReloadAnnotationKey now
          (nil_map (d_tmpl_annotations (dep_of ob))))\<rparr>) (dep_of s))) \<and>
      (v w ?k = None \<longrightarrow> v w' = v w) \<and> (\<forall>k. k \<noteq> ?k \<longrightarrow> v w' k = v w k)" for ob
  proof -
    obtain x w1 where g: "run_state (cl_get r ?k) w = (x, w1)" by force
    note get = api_get [OF api g]
    show ?thesis
    proof (cases x)
      case (Inl err)
      then show ?thesis using run g get(1,5) by (auto simp: restart_refetched_def run_fetch split: if_splits)
    next
      case (Inr dep)
      obtain now w2 where t: "run_state (cl_now r) w1 = (now, w2)" by force
      obtain ue where u: "run_state (cl_update r (stamp_template now dep)) w2 = (ue, w')"
        and e: "e = (case ue of None \<Rightarrow> None
           | Some err \<Rightarrow> (if IsNotFound err then None else Some (wrapf eu err)))"
        using run g Inr t by (auto simp: restart_refetched_def run_fetch split: prod.splits)
      have views: "v w1 = v w" "v w2 = v w" using get(1) api_now [OF api t] by simp_all
      have kd: "key_of (stamp_template now dep) = ?k" "v w ?k = Some dep"
        using get(2,3) [OF Inr] by simp_all
      have dep: "dep_of (stamp_template now dep) = (dep_of dep)\<lparr>d_tmpl_annotations := Some (fmupd
          ForceReloadAnnotationKey now (nil_map (d_tmpl_annotations (dep_of dep))))\<rparr>"
        using get(3) [OF Inr] by (simp add: stamp_template_def)
      note up = api_update [OF api u]
      show ?thesis
      proof (cases ue)
        case None
        then obtain s where s: "stored_as (stamp_template now dep) s" "v w' = (v w2)(?k \<mapsto> s)"
          using up(1) get(4) [OF Inr] kd(1) by auto
        then show ?thesis using stored_dep_of [OF s(1)] kd dep views by auto
      next
        case (Some err)
        then show ?thesis using up(3,5) e kd views by (auto split: if_splits)
      qed
    qed
  qed
  then show "e = None \<Longrightarrow> v w ?k = Some ob \<Longrightarrow>
      \<exists>s now. v w' ?k = Some s \<and>
        deployment_stored ((dep_of ob)\<lparr>d_tmpl_annotations :=
          Some (fmupd ForceReloadAnnotationKey now (nil_map (d_tmpl_annotations (dep_of ob))))\<rparr>) (dep_of s)"
    "v w ?k = None \<Longrightarrow> v w' = v w" "k \<noteq> ?k \<Longrightarrow> v w' k = v w k" by blast+
qed

section \<open>Sample runs\<close>

lemma tasks_succeed:
  assumes "\<And>n t w. (n, t) \<in> set ts \<Longrightarrow> P w \<Longrightarrow> fst (run_state (t r cr) w) = None \<and> P (snd (run_state (t r cr) w))" "P w"
  shows "fst (run_state (RunReconcileTasks r cr phase ts True) w) = None"
proof -
  have "fst (run_state (run_all r cr ts) w) = []" using assms
  proof (induction ts arbitrary: w)
    case (Cons nt ts)
    obtain n t where nt: "nt = (n, t)" by force
    obtain e w1 where t: "run_state (t r cr) w = (e, w1)" by force
    have "e = None" "P w1" using Cons.prems(1) [of n t w] Cons.prems(2) nt t by simp_all
    moreover have "fst (run_state (run_all r cr ts) w1) = []"
      by (rule Cons.IH) (use Cons.prems(1) \<open>P w1\<close> in auto)
    ultimately show ?case using t by (simp add: nt split: prod.splits)
  qed simp
  then show ?thesis by (cases "run_state (run_all r cr ts) w") (simp add: RunReconcileTasks_def)
qed

lemma mem_create_or_update:
  "key_of d = k \<Longrightarrow> (\<And>ob. key_of ob = k \<Longrightarrow> key_of (merge ob) = k) \<Longrightarrow>
    fst (run_state (create_or_update (mem_reconciler op) a b c k d same merge) w) = None"
  using mem_view_key [of w k]
  by (cases "mem_view w k")
    (auto simp: create_or_update_def run_fetch mem_get_def run_create_as run_update_as mem_create_def mem_update_def
      split: prod.splits)

end
