(* ===== verification/Ocp_Mcp.thy ===== *)
theory Ocp_Mcp
  imports Versioned_Deployment
begin

text \<open>
  The standalone OpenShift MCP server operand (\<open>internal/controller/ocpmcp\<close>): its generators, the
  resource phase (ConfigMap, ServiceAccount, NetworkPolicy, removal of a legacy ConfigMap), the
  Deployment phase (Service, certificate, Deployment, ServiceMonitor), its removal and restarts.
\<close>

section \<open>Generated objects\<close>

definition configTOML :: string where
  "configTOML = join_lines
    [''# Denied resources prevent the MCP server from accessing these Kubernetes resource types.'',
     ''# This ensures secret data never reaches the LLM through the shipped MCP server.'',
     ''# User-brought MCP servers (spec.mcpServers) are the user'' @ [CHR 0x27] @ ''s responsibility to secure.'',
     ''# Toolsets are pinned explicitly so upstream default changes do not affect OLS.'',
     [],
     ''read_only = false'',
     ''toolsets = ['' @ [CHR 0x22] @ ''core'' @ [CHR 0x22] @ '', '' @ [CHR 0x22] @ ''config'' @ [CHR 0x22] @ '', '' @ [CHR 0x22] @ ''helm'' @ [CHR 0x22] @ '', '' @ [CHR 0x22] @ ''metrics'' @ [CHR 0x22] @ '']'',
     [],
     CHR 0x5B # ''[denied_resources]]'',
     ''group = '' @ [CHR 0x22] @ [CHR 0x22],
     ''version = '' @ [CHR 0x22] @ ''v1'' @ [CHR 0x22],
     ''kind = '' @ [CHR 0x22] @ ''Secret'' @ [CHR 0x22],
     [],
     CHR 0x5B # ''[denied_resources]]'',
     ''group = '' @ [CHR 0x22] @ ''rbac.authorization.k8s.io'' @ [CHR 0x22],
     ''version = '' @ [CHR 0x22] @ ''v1'' @ [CHR 0x22],
     [],
     ''[toolset_configs.metrics]'',
     ''prometheus_url = '' @ [CHR 0x22] @ ''https://thanos-querier.openshift-monitoring.svc.cluster.local:9091'' @ [CHR 0x22],
     ''alertmanager_url = '' @ [CHR 0x22] @ ''https://alertmanager-main.openshift-monitoring.svc.cluster.local:9094'' @ [CHR 0x22],
     ''# Query-safety PromQL checks (not RBAC). '' @ [CHR 0x22] @ ''!tsdb'' @ [CHR 0x22] @ '' disables TSDB-dependent guardrails that'',
     ''# OpenShift Thanos Querier often lacks (/api/v1/status/tsdb); other guardrails stay on.'',
     ''# Auth still uses the caller'' @ [CHR 0x27] @ ''s bearer token forwarded to Thanos/Alertmanager.'',
     ''guardrails = '' @ [CHR 0x22] @ ''!tsdb'' @ [CHR 0x22],
     []]"

definition selectorLabels_mcp :: gmap where
  "selectorLabels_mcp = app_labels OpenShiftMCPServerDeploymentName OpenShiftMCPServerComponentLabel"

definition GenerateServiceAccount_mcp :: "'w reconciler \<Rightarrow> OLSConfig \<Rightarrow> kobject" where
  "GenerateServiceAccount_mcp r cr = GenerateServiceAccount r cr OpenShiftMCPServerServiceAccountName"

definition GenerateConfigMap_mcp :: "'w reconciler \<Rightarrow> OLSConfig \<Rightarrow> kobject" where
  "GenerateConfigMap_mcp r cr = set_controller cr \<lparr>
     k_meta = new_meta (GetNamespace r) OpenShiftMCPServerConfigCmName selectorLabels_mcp,
     k_payload = PConfigMap (fmap_of_list [(OpenShiftMCPServerConfigFilename, configTOML)]) fmempty\<rparr>"

definition GenerateService_mcp :: "'w reconciler \<Rightarrow> OLSConfig \<Rightarrow> kobject" where
  "GenerateService_mcp r cr = https_service r cr OpenShiftMCPServerServiceName selectorLabels_mcp
     OpenShiftMCPServerCertsSecretName OpenShiftMCPServerHTTPSPort"

definition GenerateNetworkPolicy_mcp :: "'w reconciler \<Rightarrow> OLSConfig \<Rightarrow> kobject" where
  "GenerateNetworkPolicy_mcp r cr = namespace_policy r cr OpenShiftMCPServerNetworkPolicyName
     selectorLabels_mcp OpenShiftMCPServerHTTPSPort"

text \<open>\<open>path.Join\<close> of two components without a slash at either seam.\<close>

definition GetConfigPath :: string where
  "GetConfigPath = OpenShiftMCPServerConfigMountPath @ ''/'' @ OpenShiftMCPServerConfigFilename"

definition GetConfigVolumeAndMount :: "volume \<times> volume_mount" where
  "GetConfigVolumeAndMount =
     (configmap_volume OpenShiftMCPServerConfigVolumeName OpenShiftMCPServerConfigCmName VolumeDefaultMode,
      (mount OpenShiftMCPServerConfigVolumeName
         (OpenShiftMCPServerConfigMountPath @ ''/'' @ OpenShiftMCPServerConfigFilename) True)
        \<lparr>vm_subpath := OpenShiftMCPServerConfigFilename\<rparr>)"

definition generateServiceMonitor_mcp :: "'w reconciler \<Rightarrow> OLSConfig \<Rightarrow> kobject" where
  "generateServiceMonitor_mcp r cr = https_monitor r cr OpenShiftMCPServerServiceMonitorName
     OpenShiftMCPServerServiceName OpenShiftMCPServerMetricsPath selectorLabels_mcp"

definition getResources_mcp :: "OLSConfig \<Rightarrow> resources" where
  "getResources_mcp cr = GetResourcesOrDefault
     (cf_Resources (dc_MCPServerContainer (o_DeploymentConfig (s_OLSConfig (cr_Spec cr)))))
     \<lparr>rs_limits = fmempty,
      rs_requests = fmap_of_list [(''cpu'', 50), (''memory'', 64 * 1024 * 1024 * 1000)], rs_claims = []\<rparr>"

definition getSecretResourceVersion_mcp :: "'w reconciler \<Rightarrow> string \<Rightarrow> ('w, goerr + string) io" where
  "getSecretResourceVersion_mcp r name = secret_version r ErrGetOpenShiftMCPServerTLSSecret name"

definition mcp_container :: "'w reconciler \<Rightarrow> OLSConfig \<Rightarrow> container" where
  "mcp_container r cr = \<lparr>c_name = OpenShiftMCPServerContainerName,
     c_image = OpenShiftMCPServerImage (Options r),
     c_ports = [\<lparr>cp_name = ''https'', cp_port = OpenShiftMCPServerHTTPSPort, cp_protocol = ''TCP''\<rparr>],
     c_env = [],
     c_command = [''/openshift-mcp-server'', ''--config'', GetConfigPath,
       ''--port'', int_to_string OpenShiftMCPServerHTTPSPort,
       ''--tls-cert='' @ OpenShiftMCPServerTLSMountPath @ ''/tls.crt'',
       ''--tls-key='' @ OpenShiftMCPServerTLSMountPath @ ''/tls.key''],
     c_args = [],
     c_mounts = [snd GetConfigVolumeAndMount,
       mount OpenShiftMCPServerTLSVolumeName OpenShiftMCPServerTLSMountPath True,
       mount TmpVolumeName TmpVolumeMountPath False],
     c_resources = getResources_mcp cr, c_secctx = Some RestrictedContainerSecurityContext,
     c_pull = ''IfNotPresent'',
     c_liveness = Some ((https_probe ''/healthz'' OpenShiftMCPServerHTTPSPort)\<lparr>pr_period := 30, pr_failure := 3\<rparr>),
     c_readiness = Some ((https_probe ''/healthz'' OpenShiftMCPServerHTTPSPort)\<lparr>pr_period := 10, pr_failure := 3\<rparr>),
     c_startup = None, c_lifecycle = None\<rparr>"

text \<open>The Deployment, given the versions of the configuration and of the certificate.\<close>

definition mcp_deployment :: "'w reconciler \<Rightarrow> OLSConfig \<Rightarrow> string \<Rightarrow> string \<Rightarrow> kobject" where
  "mcp_deployment r cr configMapResourceVersion tlsSecretResourceVersion =
     with_annotations
       [(OpenShiftMCPServerConfigMapResourceVersionAnnotation, configMapResourceVersion),
        (OpenShiftMCPServerTLSSecretResourceVersionAnnotation, tlsSecretResourceVersion)]
       (deployment_object r cr OpenShiftMCPServerDeploymentName selectorLabels_mcp
         (ApplyPodDeploymentConfig (zero_deployment\<lparr>
            d_selector := Some selectorLabels_mcp, d_history := Some 1,
            d_tmpl_labels := selectorLabels_mcp,
            d_pod := zero_pod\<lparr>po_service_account := OpenShiftMCPServerServiceAccountName,
              po_secctx := Some restricted_pod, po_containers := [mcp_container r cr],
              po_volumes := [fst GetConfigVolumeAndMount,
                secret_volume OpenShiftMCPServerTLSVolumeName OpenShiftMCPServerCertsSecretName
                  VolumeRestrictedMode,
                emptydir_volume TmpVolumeName]\<rparr>\<rparr>)
           (dc_MCPServerContainer (o_DeploymentConfig (s_OLSConfig (cr_Spec cr)))) True))"

definition GenerateDeployment_mcp :: "'w reconciler \<Rightarrow> OLSConfig \<Rightarrow> ('w, goerr + kobject) io" where
  "GenerateDeployment_mcp r cr = do {
     x \<leftarrow> GetConfigMapResourceVersion r OpenShiftMCPServerConfigCmName;
     case x of
       Inl e \<Rightarrow> ret (Inl e)
     | Inr cv \<Rightarrow> do {
         y \<leftarrow> getSecretResourceVersion_mcp r OpenShiftMCPServerCertsSecretName;
         ret (case y of Inl e \<Rightarrow> Inl e | Inr tv \<Rightarrow> Inr (mcp_deployment r cr cv tv)) } }"

section \<open>Reconcilers\<close>

definition mcp_versions :: "string list" where
  "mcp_versions = [OpenShiftMCPServerConfigMapResourceVersionAnnotation,
     OpenShiftMCPServerTLSSecretResourceVersionAnnotation]"

definition UpdateDeployment_mcp :: "'w reconciler \<Rightarrow> kobject \<Rightarrow> kobject \<Rightarrow> ('w, goerr option) io" where
  "UpdateDeployment_mcp r existing desired =
     update_versioned r ErrUpdateOpenShiftMCPServerDeployment mcp_versions existing desired"

text \<open>The optional Deployment argument is not used.\<close>

definition Restart_mcp :: "'w reconciler \<Rightarrow> kobject option \<Rightarrow> ('w, goerr option) io" where
  "Restart_mcp r deployment =
     restart_refetched r ErrUpdateOpenShiftMCPServerDeployment OpenShiftMCPServerDeploymentName"

definition reconcileConfigMap_mcp :: "'w reconcile_fn" where
  "reconcileConfigMap_mcp r cr = (let cm = GenerateConfigMap_mcp r cr in
     create_or_update r ErrGetOpenShiftMCPServerConfigMap ErrCreateOpenShiftMCPServerConfigMap
       ErrUpdateOpenShiftMCPServerConfigMap (ConfigMap, GetNamespace r, OpenShiftMCPServerConfigCmName) cm
       (\<lambda>found. ConfigMapEqual found cm \<and> m_labels (k_meta found) = m_labels (k_meta cm))
       (\<lambda>found. found\<lparr>k_payload := PConfigMap (cm_data (k_payload cm)) (cm_binary (k_payload found)),
          k_meta := (k_meta found)\<lparr>m_labels := m_labels (k_meta cm)\<rparr>\<rparr>))"

definition reconcileServiceAccount_mcp :: "'w reconcile_fn" where
  "reconcileServiceAccount_mcp r cr =
     create_missing r ErrGetOpenShiftMCPServerServiceAccount ErrCreateOpenShiftMCPServerServiceAccount
       (ServiceAccount, GetNamespace r, OpenShiftMCPServerServiceAccountName) (GenerateServiceAccount_mcp r cr)"

definition reconcileNetworkPolicy_mcp :: "'w reconcile_fn" where
  "reconcileNetworkPolicy_mcp r cr =
     reconcile_labelled r ErrGetOpenShiftMCPServerNetworkPolicy ErrCreateOpenShiftMCPServerNetworkPolicy
       ErrUpdateOpenShiftMCPServerNetworkPolicy
       (NetworkPolicy, GetNamespace r, OpenShiftMCPServerNetworkPolicyName) (GenerateNetworkPolicy_mcp r cr)"

definition reconcileService_mcp :: "'w reconcile_fn" where
  "reconcileService_mcp r cr = ReconcileConsolePluginService r (GenerateService_mcp r cr)"

definition reconcileTLSSecret_mcp :: "'w reconcile_fn" where
  "reconcileTLSSecret_mcp r cr = WaitForConsolePluginTLSSecret r OpenShiftMCPServerCertsSecretName"

definition reconcileDeployment_mcp :: "'w reconcile_fn" where
  "reconcileDeployment_mcp r cr = try_or (GenerateDeployment_mcp r cr)
     (wrapf ErrGenerateOpenShiftMCPServerDeployment) (\<lambda>desired.
       fetch r (Deployment, GetNamespace r, OpenShiftMCPServerDeploymentName)
         (create_as r ErrCreateOpenShiftMCPServerDeployment desired)
         (\<lambda>e. ret (Some (wrapf ErrGetOpenShiftMCPServerDeployment e)))
         (\<lambda>existing. do {
            e \<leftarrow> UpdateDeployment_mcp r existing desired;
            ret (map_option (wrapf ErrUpdateOpenShiftMCPServerDeployment) e) }))"

definition reconcileServiceMonitor_mcp :: "'w reconcile_fn" where
  "reconcileServiceMonitor_mcp r cr = ReconcileServiceMonitor r (generateServiceMonitor_mcp r cr)"

section \<open>Deletions\<close>

definition deleteNamespacedObject_mcp :: "'w reconciler \<Rightarrow> kind \<Rightarrow> string \<Rightarrow> ('w, goerr option) io" where
  "deleteNamespacedObject_mcp r K name = delete_plain r (K, GetNamespace r, name)"

definition deleteServiceMonitor_mcp :: "'w reconciler \<Rightarrow> ('w, goerr option) io" where
  "deleteServiceMonitor_mcp r =
     deleteNamespacedObject_mcp r ServiceMonitor OpenShiftMCPServerServiceMonitorName"

definition deleteDeployment_mcp :: "'w reconciler \<Rightarrow> ('w, goerr option) io" where
  "deleteDeployment_mcp r = deleteNamespacedObject_mcp r Deployment OpenShiftMCPServerDeploymentName"

definition deleteService_mcp :: "'w reconciler \<Rightarrow> ('w, goerr option) io" where
  "deleteService_mcp r = deleteNamespacedObject_mcp r Service OpenShiftMCPServerServiceName"

definition deleteNetworkPolicy_mcp :: "'w reconciler \<Rightarrow> ('w, goerr option) io" where
  "deleteNetworkPolicy_mcp r =
     deleteNamespacedObject_mcp r NetworkPolicy OpenShiftMCPServerNetworkPolicyName"

definition deleteConfigMap_mcp :: "'w reconciler \<Rightarrow> ('w, goerr option) io" where
  "deleteConfigMap_mcp r = deleteNamespacedObject_mcp r ConfigMap OpenShiftMCPServerConfigCmName"

definition deleteServiceAccount_mcp :: "'w reconciler \<Rightarrow> ('w, goerr option) io" where
  "deleteServiceAccount_mcp r =
     deleteNamespacedObject_mcp r ServiceAccount OpenShiftMCPServerServiceAccountName"

definition deleteTLSSecret_mcp :: "'w reconciler \<Rightarrow> ('w, goerr option) io" where
  "deleteTLSSecret_mcp r = deleteNamespacedObject_mcp r Secret OpenShiftMCPServerCertsSecretName"

definition deleteLegacyCAConfigMap :: "'w reconciler \<Rightarrow> ('w, goerr option) io" where
  "deleteLegacyCAConfigMap r =
     delete_object r ''failed to get legacy openshift-mcp-server CA ConfigMap''
       ''failed to delete legacy openshift-mcp-server CA ConfigMap''
       (ConfigMap, GetNamespace r, LegacyOpenShiftMCPServerCAConfigMapName)"

definition removeLegacyCAConfigMap :: "'w reconcile_fn" where
  "removeLegacyCAConfigMap r cr = deleteLegacyCAConfigMap r"

section \<open>Entry points\<close>

definition mcp_resource_tasks :: "'w ReconcileTask list" where
  "mcp_resource_tasks =
     [(''reconcile openshift-mcp-server ConfigMap'', reconcileConfigMap_mcp),
      (''reconcile openshift-mcp-server ServiceAccount'', reconcileServiceAccount_mcp),
      (''reconcile openshift-mcp-server NetworkPolicy'', reconcileNetworkPolicy_mcp),
      (''remove legacy openshift-mcp-server CA ConfigMap'', removeLegacyCAConfigMap)]"

definition ReconcileResources_mcp :: "'w reconcile_fn" where
  "ReconcileResources_mcp r cr =
     RunReconcileTasks r cr ''reconcileOpenShiftMCPServerResources'' mcp_resource_tasks True"

definition mcp_deployment_tasks :: "'w ReconcileTask list" where
  "mcp_deployment_tasks =
     [(''reconcile openshift-mcp-server Service'', reconcileService_mcp),
      (''reconcile openshift-mcp-server TLS Certs'', reconcileTLSSecret_mcp),
      (''reconcile openshift-mcp-server Deployment'', reconcileDeployment_mcp),
      (''reconcile openshift-mcp-server ServiceMonitor'', reconcileServiceMonitor_mcp)]"

definition ReconcileDeployment_mcp :: "'w reconcile_fn" where
  "ReconcileDeployment_mcp r cr =
     RunReconcileTasks r cr ''reconcileOpenShiftMCPServerDeployment'' mcp_deployment_tasks False"

definition Remove_mcp :: "'w reconciler \<Rightarrow> ('w, goerr option) io" where
  "Remove_mcp r = RunDeleteTasks r ''RemoveOpenShiftMCPServer''
     [(''delete openshift-mcp-server deployment'', deleteDeployment_mcp),
      (''delete openshift-mcp-server service'', deleteService_mcp),
      (''delete openshift-mcp-server network policy'', deleteNetworkPolicy_mcp),
      (''delete openshift-mcp-server configmap'', deleteConfigMap_mcp),
      (''delete openshift-mcp-server service account'', deleteServiceAccount_mcp),
      (''delete openshift-mcp-server TLS secret'', deleteTLSSecret_mcp),
      (''delete openshift-mcp-server ServiceMonitor'', deleteServiceMonitor_mcp),
      (''delete legacy openshift-mcp-server CA ConfigMap'', deleteLegacyCAConfigMap)]"

section \<open>The Deployment phase converges\<close>

abbreviation mcp_config_key :: "'w reconciler \<Rightarrow> okey" where
  "mcp_config_key r \<equiv> (ConfigMap, GetNamespace r, OpenShiftMCPServerConfigCmName)"

abbreviation mcp_tls_key :: "'w reconciler \<Rightarrow> okey" where
  "mcp_tls_key r \<equiv> (Secret, GetNamespace r, OpenShiftMCPServerCertsSecretName)"

abbreviation mcp_dep_key :: "'w reconciler \<Rightarrow> okey" where
  "mcp_dep_key r \<equiv> (Deployment, GetNamespace r, OpenShiftMCPServerDeploymentName)"

text \<open>The Deployment that belongs to what the cluster stores.\<close>

definition mcp_desired :: "'w reconciler \<Rightarrow> OLSConfig \<Rightarrow> (okey \<Rightarrow> kobject option) \<Rightarrow> kobject option" where
  "mcp_desired r cr f = (case (version_at (mcp_config_key r) f, version_at (mcp_tls_key r) f) of
      (Some cv, Some tv) \<Rightarrow> Some (mcp_deployment r cr cv tv) | _ \<Rightarrow> None)"

lemma GenerateDeployment_mcp_run:
  assumes "api_ok r v" "run_state (GenerateDeployment_mcp r cr) w = (x, w')"
  shows "v w' = v w \<and> (\<forall>d. x = Inr d \<longrightarrow> mcp_desired r cr (v w) = Some d)"
proof -
  obtain c w1 where c: "run_state (GetConfigMapResourceVersion r OpenShiftMCPServerConfigCmName) w = (c, w1)"
    by force
  note cv = configmap_version_run [OF assms(1) c]
  show ?thesis
  proof (cases c)
    case (Inl e)
    then show ?thesis using assms(2) c cv by (auto simp: GenerateDeployment_mcp_def)
  next
    case (Inr a)
    obtain t w2 where t: "run_state (getSecretResourceVersion_mcp r OpenShiftMCPServerCertsSecretName) w1 = (t, w2)"
      by force
    show ?thesis
      using assms(2) c cv Inr t secret_version_run [OF assms(1) t [unfolded getSecretResourceVersion_mcp_def]]
      by (cases t) (auto simp: GenerateDeployment_mcp_def mcp_desired_def)
  qed
qed

lemma mcp_deployment_complete:
  "key_of (mcp_deployment r cr cv tv) = mcp_dep_key r"
  "complete_deployment (dep_of (mcp_deployment r cr cv tv))"
  by (simp_all add: mcp_deployment_def complete_deployment_def complete_container_def mcp_container_def
      GetConfigVolumeAndMount_def zero_pod_def)

lemma settles_mcp_deployment:
  assumes "api_ok r v"
  shows "settles v {mcp_dep_key r, mcp_config_key r, mcp_tls_key r}
     (\<lambda>f. \<exists>d. mcp_desired r cr f = Some d \<and> (\<exists>s. f (mcp_dep_key r) = Some s \<and> versioned_current mcp_versions d s))
     (reconcileDeployment_mcp r cr)"
proof -
  have "settles v ({mcp_dep_key r} \<union> {mcp_config_key r, mcp_tls_key r})
     (\<lambda>f. \<exists>d. mcp_desired r cr f = Some d \<and> (\<exists>s. f (mcp_dep_key r) = Some s \<and> versioned_current mcp_versions d s))
     (reconcileDeployment_mcp r cr)"
    unfolding reconcileDeployment_mcp_def UpdateDeployment_mcp_def reconcile_versioned_def [symmetric]
  proof (rule settles_generated)
    fix f :: "okey \<Rightarrow> kobject option" and d assume "mcp_desired r cr f = Some d"
    then obtain cv tv where "d = mcp_deployment r cr cv tv" by (auto simp: mcp_desired_def split: option.splits)
    then show "settles v {mcp_dep_key r} (\<lambda>f. \<exists>s. f (mcp_dep_key r) = Some s \<and> versioned_current mcp_versions d s)
        (reconcile_versioned r ErrGetOpenShiftMCPServerDeployment ErrCreateOpenShiftMCPServerDeployment
          ErrUpdateOpenShiftMCPServerDeployment mcp_versions (mcp_dep_key r) d)"
      using settles_versioned [OF assms mcp_deployment_complete(1) _ mcp_deployment_complete(2)] by simp
  qed (use GenerateDeployment_mcp_run [OF assms] in \<open>auto simp: mcp_desired_def version_at_def\<close>)
  then show ?thesis by (simp add: insert_commute)
qed

definition mcp_settled :: "'w reconciler \<Rightarrow> OLSConfig \<Rightarrow> (okey \<Rightarrow> kobject option) \<Rightarrow> bool" where
  "mcp_settled r cr f =
     ((\<exists>s. f (Service, GetNamespace r, OpenShiftMCPServerServiceName) = Some s \<and>
         service_current (GenerateService_mcp r cr) s) \<and>
      (\<exists>d s. mcp_desired r cr f = Some d \<and> f (mcp_dep_key r) = Some s \<and> versioned_current mcp_versions d s) \<and>
      (IsPrometheusAvailable r \<longrightarrow>
         (\<exists>s. f (ServiceMonitor, GetNamespace r, OpenShiftMCPServerServiceMonitorName) = Some s \<and>
            ServiceMonitorEqual s (generateServiceMonitor_mcp r cr))))"

definition mcp_phase2_keys :: "'w reconciler \<Rightarrow> okey set" where
  "mcp_phase2_keys r = {(Service, GetNamespace r, OpenShiftMCPServerServiceName), mcp_dep_key r,
     mcp_config_key r, mcp_tls_key r, (ServiceMonitor, GetNamespace r, OpenShiftMCPServerServiceMonitorName)}"

lemma settles_mcp_phase2:
  assumes "api_ok r v" "runtime_ok r"
  shows "settles v (mcp_phase2_keys r) (mcp_settled r cr) (ReconcileDeployment_mcp r cr)"
proof -
  have K: "\<forall>k \<in> {mcp_dep_key r, mcp_config_key r, mcp_tls_key r}. fst k \<notin> {Service, ServiceMonitor}" by simp
  have "mcp_settled r cr = (\<lambda>f. (\<exists>s. f (Service, GetNamespace r, OpenShiftMCPServerServiceName) = Some s \<and>
        service_current (GenerateService_mcp r cr) s) \<and>
      (\<exists>d. mcp_desired r cr f = Some d \<and> (\<exists>s. f (mcp_dep_key r) = Some s \<and> versioned_current mcp_versions d s)) \<and>
      (IsPrometheusAvailable r \<longrightarrow>
        (\<exists>s. f (ServiceMonitor, GetNamespace r, OpenShiftMCPServerServiceMonitorName) = Some s \<and>
          ServiceMonitorEqual s (generateServiceMonitor_mcp r cr))))"
    by (auto simp: fun_eq_iff mcp_settled_def)
  moreover have "mcp_phase2_keys r = insert (Service, GetNamespace r, OpenShiftMCPServerServiceName)
      (insert (ServiceMonitor, GetNamespace r, OpenShiftMCPServerServiceMonitorName)
        {mcp_dep_key r, mcp_config_key r, mcp_tls_key r})"
    by (auto simp: mcp_phase2_keys_def)
  ultimately show ?thesis
    unfolding ReconcileDeployment_mcp_def mcp_deployment_tasks_def GenerateService_mcp_def generateServiceMonitor_mcp_def
    by (simp only:) (rule settles_https_phase [where svc = reconcileService_mcp and wait = reconcileTLSSecret_mcp
        and dep = reconcileDeployment_mcp and mon = reconcileServiceMonitor_mcp and cr = cr, OF assms _ _ _ settles_mcp_deployment [OF assms(1)] K],
      simp_all add: reconcileService_mcp_def GenerateService_mcp_def reconcileTLSSecret_mcp_def
        reconcileServiceMonitor_mcp_def generateServiceMonitor_mcp_def)
qed

text \<open>
  (C15) The Deployment phase of the MCP server converges: after a successful run the Service is as
  generated, the Deployment is as generated for the versions of the stored configuration and of
  the stored certificate, and the ServiceMonitor is as generated when Prometheus is available; a
  second run writes nothing; other objects are never touched, also when a task fails.
\<close>

theorem mcp_phase2_converges:
  assumes "api_ok r v" "runtime_ok r"
    "run_state (ReconcileDeployment_mcp r cr) w = (e, w1)"
    "run_state (ReconcileDeployment_mcp r cr) w1 = (e', w2)"
  shows "(e = None \<longrightarrow> mcp_settled r cr (v w1) \<and> v w2 = v w1) \<and>
    (\<forall>k. k \<notin> mcp_phase2_keys r \<longrightarrow> v w1 k = v w k)"
proof -
  note s = settles_mcp_phase2 [OF assms(1,2), of cr]
  have "v w2 = v w1" if "e = None" using settles_twice [OF s _ assms(4)] assms(3) that by blast
  then show ?thesis using settlesD(1,2) [OF s assms(3)] by blast
qed

theorem mcp_phase2_converges_witness:
  "\<exists>e w1. run_state (ReconcileDeployment_mcp (mem_reconciler (no_options ''ns'')) (blank_cr [])) fmempty
      = (e, w1) \<and> mem_view w1 (Secret, ''ns'', ''x'') = None"
proof -
  let ?r = "mem_reconciler (no_options ''ns'')"
  obtain e w1 e' w2 where run: "run_state (ReconcileDeployment_mcp ?r (blank_cr [])) fmempty = (e, w1)"
    "run_state (ReconcileDeployment_mcp ?r (blank_cr [])) w1 = (e', w2)" by (metis surj_pair)
  have "(Secret, ''ns'', ''x'') \<notin> mcp_phase2_keys ?r" by (simp add: mcp_phase2_keys_def go_const)
  with mcp_phase2_converges [OF mem_reconciler_ok mem_runtime_ok run] run show ?thesis
    by (auto simp: mem_view_def)
qed

section \<open>A new certificate or configuration rolls the pods\<close>

lemma mcp_recorded:
  "recorded (mcp_deployment r cr cv tv) OpenShiftMCPServerConfigMapResourceVersionAnnotation = cv"
  "recorded (mcp_deployment r cr cv tv) OpenShiftMCPServerTLSSecretResourceVersionAnnotation = tv"
  by (simp_all add: mcp_deployment_def zlookup_def) (simp_all add: go_const)

text \<open>
  (C16) When the certificate or the configuration of the MCP server changed since its Deployment
  was written, a successful reconcile writes the Deployment with a fresh reload stamp on the pod
  template, the time that the clock shows during this reconcile, so that the pods roll whenever
  that time is not the one of the last stamp; and it records the current versions.
\<close>

theorem mcp_rotation_rolls:
  assumes "api_ok r v" "run_state (reconcileDeployment_mcp r cr) w = (None, w')"
    "v w (mcp_dep_key r) = Some dep" "v w (mcp_config_key r) = Some cm" "v w (mcp_tls_key r) = Some tls"
    "recorded dep OpenShiftMCPServerTLSSecretResourceVersionAnnotation \<noteq> m_version (k_meta tls) \<or>
     recorded dep OpenShiftMCPServerConfigMapResourceVersionAnnotation \<noteq> m_version (k_meta cm)"
  shows "\<exists>s now. v w' (mcp_dep_key r) = Some s \<and> clock_reading r v {} w now \<and>
    fmlookup (nil_map (d_tmpl_annotations (dep_of s))) ForceReloadAnnotationKey = Some now \<and>
    (fmlookup (nil_map (d_tmpl_annotations (dep_of dep))) ForceReloadAnnotationKey \<noteq> Some now \<longrightarrow>
       d_tmpl_annotations (dep_of s) \<noteq> d_tmpl_annotations (dep_of dep)) \<and>
    recorded s OpenShiftMCPServerTLSSecretResourceVersionAnnotation = m_version (k_meta tls) \<and>
    recorded s OpenShiftMCPServerConfigMapResourceVersionAnnotation = m_version (k_meta cm)"
proof -
  let ?d = "mcp_deployment r cr (m_version (k_meta cm)) (m_version (k_meta tls))"
  obtain x w1 where g: "run_state (GenerateDeployment_mcp r cr) w = (x, w1)" by force
  note gen = GenerateDeployment_mcp_run [OF assms(1) g]
  have x: "x = Inr ?d" using gen assms(2,4,5) g
    by (cases x) (auto simp: reconcileDeployment_mcp_def try_or_def mcp_desired_def version_at_def)
  obtain y w2 where f: "run_state (cl_get r (mcp_dep_key r)) w1 = (y, w2)" by force
  note get = api_get [OF assms(1) f]
  have y: "y = Inr dep"
    using assms(2,3) g x f get(2,5) gen
    by (cases y) (auto simp: reconcileDeployment_mcp_def try_or_def run_fetch split: if_splits)
  have u: "run_state (update_versioned r ErrUpdateOpenShiftMCPServerDeployment mcp_versions dep ?d) w2 = (None, w')"
    using assms(2) g x f y
    by (auto simp: reconcileDeployment_mcp_def UpdateDeployment_mcp_def try_or_def run_fetch split: prod.splits)
  have "\<not> versioned_current mcp_versions ?d dep"
    using assms(6) by (auto simp: versioned_current_def same_versions_def mcp_versions_def mcp_recorded)
  from update_versioned_writes(1) [OF assms(1) get(3) [OF y] _ mcp_deployment_complete(2) get(4) [OF y] u refl this]
  obtain s now where s: "v w' (mcp_dep_key r) = Some s" "versioned_current mcp_versions ?d s" "clock_reading r v {} w2 now"
    "fmlookup (nil_map (d_tmpl_annotations (dep_of s))) ForceReloadAnnotationKey = Some now" by auto
  have "clock_reading r v {} w now" using clock_reading_cong [OF s(3)] get(1) gen by simp
  moreover have "d_tmpl_annotations (dep_of s) \<noteq> d_tmpl_annotations (dep_of dep)"
    if "fmlookup (nil_map (d_tmpl_annotations (dep_of dep))) ForceReloadAnnotationKey \<noteq> Some now" using that s(4) by auto
  ultimately show ?thesis using s(1,2,4)
    by (intro exI [of _ s] exI [of _ now]) (simp add: versioned_current_def same_versions_def mcp_versions_def mcp_recorded)
qed

text \<open>A cluster in which the certificate is newer than the Deployment.\<close>

definition mcp_sample :: mem where
  "mcp_sample = fmap_of_list
     [((ConfigMap, ''ns'', OpenShiftMCPServerConfigCmName),
        \<lparr>k_meta = (new_meta ''ns'' OpenShiftMCPServerConfigCmName fmempty)\<lparr>m_version := ''1''\<rparr>,
         k_payload = PConfigMap fmempty fmempty\<rparr>),
      ((Secret, ''ns'', OpenShiftMCPServerCertsSecretName),
        \<lparr>k_meta = (new_meta ''ns'' OpenShiftMCPServerCertsSecretName fmempty)\<lparr>m_version := ''7''\<rparr>,
         k_payload = PSecret fmempty []\<rparr>),
      ((Deployment, ''ns'', OpenShiftMCPServerDeploymentName),
        \<lparr>k_meta = new_meta ''ns'' OpenShiftMCPServerDeploymentName fmempty,
         k_payload = PDeployment \<lparr>dp_spec = zero_deployment, dp_conditions = []\<rparr>\<rparr>)]"

theorem mcp_rotation_rolls_witness:
  defines "r \<equiv> mem_reconciler (no_options ''ns'')"
  shows "\<exists>s w'. run_state (reconcileDeployment_mcp r (blank_cr [])) mcp_sample = (None, w') \<and>
    mem_view w' (mcp_dep_key r) = Some s \<and>
    fmlookup (nil_map (d_tmpl_annotations (dep_of s))) ForceReloadAnnotationKey = Some ''2024-01-01T00:00:00Z'' \<and>
    recorded s OpenShiftMCPServerTLSSecretResourceVersionAnnotation = ''7''"
proof -
  have ns: "GetNamespace r = ''ns''" by (simp add: r_def GetNamespace_def no_options_def)
  have view: "mem_view mcp_sample (mcp_config_key r) = Some \<lparr>k_meta = (new_meta ''ns''
        OpenShiftMCPServerConfigCmName fmempty)\<lparr>m_version := ''1''\<rparr>, k_payload = PConfigMap fmempty fmempty\<rparr>"
    "mem_view mcp_sample (mcp_tls_key r) = Some \<lparr>k_meta = (new_meta ''ns''
        OpenShiftMCPServerCertsSecretName fmempty)\<lparr>m_version := ''7''\<rparr>, k_payload = PSecret fmempty []\<rparr>"
    "mem_view mcp_sample (mcp_dep_key r) = Some \<lparr>k_meta = new_meta ''ns'' OpenShiftMCPServerDeploymentName fmempty,
        k_payload = PDeployment \<lparr>dp_spec = zero_deployment, dp_conditions = []\<rparr>\<rparr>"
    by (simp_all add: mcp_sample_def mem_view_def ns key_of_def new_meta_def)
  have upd: "mem_view mcp_sample (Deployment, ''ns'', OpenShiftMCPServerDeploymentName) \<noteq> None"
    using view(3) ns by simp
  have "fst (run_state (reconcileDeployment_mcp r (blank_cr [])) mcp_sample) = None"
    using view upd
    by (simp add: reconcileDeployment_mcp_def GenerateDeployment_mcp_def getSecretResourceVersion_mcp_def
        secret_version_def GetConfigMapResourceVersion_def UpdateDeployment_mcp_def update_versioned_def
        try_or_def run_fetch run_update_as Let_def r_def mem_get_def mem_update_def dep_of_def
        zero_deployment_differs)
      (simp add: key_of_def new_meta_def)
  then obtain w' where run: "run_state (reconcileDeployment_mcp r (blank_cr [])) mcp_sample = (None, w')"
    by (metis prod.collapse)
  have "recorded \<lparr>k_meta = new_meta ''ns'' n fmempty, k_payload = p\<rparr> k = []" for n p k
    by (simp add: recorded_def new_meta_def nil_map_def zlookup_def)
  with mcp_rotation_rolls [OF mem_reconciler_ok run [unfolded r_def] view(3,1,2) [unfolded r_def]] run
  show ?thesis by (auto simp: r_def clock_reading_def)
qed

section \<open>The resource phase\<close>

lemma ensures_mcp_config:
  assumes api: "api_ok r v"
  shows "ensures v {mcp_config_key r} (\<lambda>f. \<exists>s. f (mcp_config_key r) = Some s \<and>
      config_written (GenerateConfigMap_mcp r cr) s) (reconcileConfigMap_mcp r cr)"
  unfolding reconcileConfigMap_mcp_def Let_def
proof (rule ensures_create_or_update [OF api])
  let ?d = "GenerateConfigMap_mcp r cr" and ?k = "mcp_config_key r"
  show d: "key_of ?d = ?k" by (simp add: GenerateConfigMap_mcp_def key_of_def new_meta_def set_controller_def)
  show "config_written ?d s" if "stored_as ?d s" for s
    using that d stored_plain [OF that] stored_as_labels [OF that] by (simp add: config_written_def key_of_def)
  show "config_written ?d s" if "stored_as (ob\<lparr>k_payload := PConfigMap (cm_data (k_payload ?d)) (cm_binary (k_payload ob)),
      k_meta := (k_meta ob)\<lparr>m_labels := m_labels (k_meta ?d)\<rparr>\<rparr>) s" for ob s
    using stored_plain [OF that] stored_as_labels [OF that] by (simp add: config_written_def)
qed (auto simp: keeps_life_def key_of_def config_written_def ConfigMapEqual_def)

definition mcp_resource_specs :: "'w reconciler \<Rightarrow> OLSConfig \<Rightarrow> task_spec list" where
  "mcp_resource_specs r cr =
     [({mcp_config_key r}, \<lambda>f. \<exists>s. f (mcp_config_key r) = Some s \<and>
         config_written (GenerateConfigMap_mcp r cr) s),
      ({(ServiceAccount, GetNamespace r, OpenShiftMCPServerServiceAccountName)},
       \<lambda>f. f (ServiceAccount, GetNamespace r, OpenShiftMCPServerServiceAccountName) \<noteq> None),
      ({(NetworkPolicy, GetNamespace r, OpenShiftMCPServerNetworkPolicyName)},
       \<lambda>f. \<exists>s. f (NetworkPolicy, GetNamespace r, OpenShiftMCPServerNetworkPolicyName) = Some s \<and>
         labelled_current (GenerateNetworkPolicy_mcp r cr) s),
      ({(ConfigMap, GetNamespace r, LegacyOpenShiftMCPServerCAConfigMapName)},
       \<lambda>f. gone (f (ConfigMap, GetNamespace r, LegacyOpenShiftMCPServerCAConfigMapName)))]"

lemma mcp_resource_keys:
  "key_of (GenerateServiceAccount_mcp r cr) = (ServiceAccount, GetNamespace r, OpenShiftMCPServerServiceAccountName)"
  "key_of (GenerateNetworkPolicy_mcp r cr) = (NetworkPolicy, GetNamespace r, OpenShiftMCPServerNetworkPolicyName)"
  by (simp_all add: GenerateServiceAccount_mcp_def GenerateServiceAccount_def GenerateNetworkPolicy_mcp_def
      namespace_policy_def key_of_def set_controller_def new_meta_def)

lemma ensures_mcp_resources:
  assumes "api_ok r v"
  shows "ensures v (\<Union> (fst ` set (mcp_resource_specs r cr)))
     (\<lambda>f. \<forall>(K, G) \<in> set (mcp_resource_specs r cr). G f) (ReconcileResources_mcp r cr)"
proof -
  have "disjoint_specs (mcp_resource_specs r cr)"
    by (simp add: disjoint_specs_def mcp_resource_specs_def) (simp add: go_const)
  note run = ensures_run_all [OF _ this, of v r cr mcp_resource_tasks
      "\<lambda>es. wrapf ''reconcileOpenShiftMCPServerResources'' (errors_join es)"]
  have "list_all2 (\<lambda>(n, t) (K, G). ensures v K G (t r cr)) mcp_resource_tasks (mcp_resource_specs r cr)"
    unfolding mcp_resource_tasks_def mcp_resource_specs_def
    by (simp add: ensures_mcp_config [OF assms] settles_ensures [OF settles_create_missing [OF assms], unfolded not_None_eq]
        settles_ensures [OF settles_labelled [OF assms]] settles_ensures [OF settles_delete_object [OF assms]]
        reconcileServiceAccount_mcp_def reconcileNetworkPolicy_mcp_def removeLegacyCAConfigMap_def
        deleteLegacyCAConfigMap_def mcp_resource_keys)
  from run [OF this] show ?thesis by (simp add: ReconcileResources_mcp_def RunReconcileTasks_def)
qed

section \<open>Removal\<close>

definition mcp_objects :: "'w reconciler \<Rightarrow> okey list" where
  "mcp_objects r = map (\<lambda>(K, n). (K, GetNamespace r, n))
     [(Deployment, OpenShiftMCPServerDeploymentName), (Service, OpenShiftMCPServerServiceName),
      (NetworkPolicy, OpenShiftMCPServerNetworkPolicyName), (ConfigMap, OpenShiftMCPServerConfigCmName),
      (ServiceAccount, OpenShiftMCPServerServiceAccountName), (Secret, OpenShiftMCPServerCertsSecretName),
      (ServiceMonitor, OpenShiftMCPServerServiceMonitorName),
      (ConfigMap, LegacyOpenShiftMCPServerCAConfigMapName)]"

lemma settles_Remove_mcp:
  assumes "api_ok r v"
  shows "settles v (set (mcp_objects r)) (\<lambda>f. \<forall>k \<in> set (mcp_objects r). gone (f k)) (Remove_mcp r)"
  unfolding Remove_mcp_def
  by (rule settles_removal [OF assms])
    (simp_all add: mcp_objects_def settles_delete_plain [OF assms] settles_delete_object [OF assms]
      deleteNamespacedObject_mcp_def deleteDeployment_mcp_def deleteService_mcp_def deleteNetworkPolicy_mcp_def
      deleteConfigMap_mcp_def deleteServiceAccount_mcp_def deleteTLSSecret_mcp_def deleteServiceMonitor_mcp_def
      deleteLegacyCAConfigMap_def, simp add: go_const)

text \<open>
  Removing the MCP server removes all of its eight objects and touches nothing else; a
  removed server, removed again, causes no write.
\<close>

theorem mcp_removed:
  assumes "api_ok r v" "run_state (Remove_mcp r) w = (e, w')"
  shows "(e = None \<longrightarrow> (\<forall>k \<in> set (mcp_objects r). gone (v w' k))) \<and>
    (\<forall>k. k \<notin> set (mcp_objects r) \<longrightarrow> v w' k = v w k) \<and>
    ((\<forall>k \<in> set (mcp_objects r). gone (v w k)) \<longrightarrow> v w' = v w)"
  using settlesD [OF settles_Remove_mcp [OF assms(1)] assms(2)] by blast

theorem mcp_removed_witness:
  "gone (mem_view (snd (run_state (Remove_mcp (mem_reconciler (no_options ''ns''))) mcp_sample))
     (Deployment, ''ns'', OpenShiftMCPServerDeploymentName))"
proof -
  let ?r = "mem_reconciler (no_options ''ns'')"
  have ns: "GetNamespace ?r = ''ns''" by (simp add: GetNamespace_def no_options_def)
  obtain e w' where run: "run_state (Remove_mcp ?r) mcp_sample = (e, w')" by force
  have "fst (run_state (Remove_mcp ?r) mcp_sample) = None"
    unfolding Remove_mcp_def
    by (rule RunDeleteTasks_succeeds) (simp add: mem_deletes deleteNamespacedObject_mcp_def
        deleteDeployment_mcp_def deleteService_mcp_def deleteNetworkPolicy_mcp_def deleteConfigMap_mcp_def
        deleteServiceAccount_mcp_def deleteTLSSecret_mcp_def deleteServiceMonitor_mcp_def
        deleteLegacyCAConfigMap_def)
  then show ?thesis using mcp_removed [OF mem_reconciler_ok run] run
    by (simp add: mcp_objects_def ns)
qed

text \<open>
  The removal reads the ServiceMonitor also where the monitoring API is not installed: when
  that read fails with anything but NotFound, the removal always reports an error, although the
  phases that create the objects skip the ServiceMonitor there.
\<close>

theorem mcp_removal_needs_monitoring:
  assumes "\<And>w. \<exists>err w'. run_state (cl_get r (ServiceMonitor, GetNamespace r, OpenShiftMCPServerServiceMonitorName)) w =
      (Inl err, w') \<and> \<not> IsNotFound err"
  shows "fst (run_state (Remove_mcp r) w) \<noteq> None"
proof -
  have fails: "fst (run_state (deleteServiceMonitor_mcp r) w) \<noteq> None" for w
    using assms [of w]
    by (auto simp: deleteServiceMonitor_mcp_def deleteNamespacedObject_mcp_def delete_plain_def run_fetch)
  show ?thesis unfolding Remove_mcp_def
    by (rule RunDeleteTasks_fails [of "''delete openshift-mcp-server ServiceMonitor''" deleteServiceMonitor_mcp])
      (use fails in auto)
qed

theorem mcp_removal_needs_monitoring_witness:
  "fst (run_state (Remove_mcp (without_kind ServiceMonitor)) fmempty) \<noteq> None"
  by (rule mcp_removal_needs_monitoring) (simp add: without_kind_def)

end
