(* ===== verification/Rhokp.thy ===== *)
theory Rhokp
  imports Versioned_Deployment
begin

text \<open>
  The standalone Red Hat offline knowledge portal operand (\<open>internal/controller/rhokp\<close>): its
  generators, the resource phase (NetworkPolicy), the Deployment phase (Service, certificate,
  Deployment, ServiceMonitor), its removal and restarts.
\<close>

section \<open>Generated objects\<close>

definition selectorLabels_okp :: gmap where
  "selectorLabels_okp = app_labels RHOKPDeploymentName RHOKPComponentLabel"

definition GenerateService_okp :: "'w reconciler \<Rightarrow> OLSConfig \<Rightarrow> kobject" where
  "GenerateService_okp r cr = https_service r cr RHOKPServiceName selectorLabels_okp
     RHOKPCertsSecretName RHOOKPImageHTTPSPort"

definition GenerateNetworkPolicy_okp :: "'w reconciler \<Rightarrow> OLSConfig \<Rightarrow> kobject" where
  "GenerateNetworkPolicy_okp r cr = namespace_policy r cr RHOKPNetworkPolicyName selectorLabels_okp
     RHOOKPImageHTTPSPort"

definition generateServiceMonitor_okp :: "'w reconciler \<Rightarrow> OLSConfig \<Rightarrow> kobject" where
  "generateServiceMonitor_okp r cr = https_monitor r cr RHOKPServiceMonitorName RHOKPServiceName
     RHOKPMetricsPath selectorLabels_okp"

text \<open>\<open>resource.MustParse\<close> of \<open>RHOKPSolrDataSizeLimitDefault\<close>, which is \<open>75Gi\<close>, in milli-units.\<close>

definition solr_size_default :: int where
  "solr_size_default = 75 * 1024 * 1024 * 1024 * 1000"

definition getResources_okp :: "OLSConfig \<Rightarrow> resources" where
  "getResources_okp cr = GetResourcesOrDefault
     (cf_Resources (dc_RHOKPContainer (o_DeploymentConfig (s_OLSConfig (cr_Spec cr)))))
     \<lparr>rs_limits = fmempty,
      rs_requests = fmap_of_list [(''cpu'', 2000), (''memory'', 2 * 1024 * 1024 * 1024 * 1000),
        (''ephemeral-storage'', solr_size_default)], rs_claims = []\<rparr>"

definition solrDataSizeLimit :: "OLSConfig \<Rightarrow> int" where
  "solrDataSizeLimit cr = (case fmlookup (rs_requests (getResources_okp cr)) ''ephemeral-storage'' of
      Some es \<Rightarrow> es | None \<Rightarrow> solr_size_default)"

definition getSecretResourceVersion_okp :: "'w reconciler \<Rightarrow> string \<Rightarrow> ('w, goerr + string) io" where
  "getSecretResourceVersion_okp r name = secret_version r ErrGetRHOKPTLSSecret name"

definition generateRHOOKPEnv :: "env_var list" where
  "generateRHOOKPEnv = [\<lparr>ev_name = ''ACCESS_KEY'', ev_value = [],
     ev_from = Some (SecretKeyRef RHOOKPAccessKeySecretName RHOOKPAccessKeySecretKey (Some True))\<rparr>]"

definition okp_container :: "'w reconciler \<Rightarrow> OLSConfig \<Rightarrow> container" where
  "okp_container r cr = \<lparr>c_name = RHOOKPContainerName, c_image = RHOOKPImage (Options r),
     c_ports = [\<lparr>cp_name = ''https'', cp_port = RHOOKPImageHTTPSPort, cp_protocol = ''TCP''\<rparr>],
     c_env = generateRHOOKPEnv, c_command = [], c_args = [],
     c_mounts = [mount RHOKPTLSVolumeName RHOKPTLSMountPath True,
       mount RHOKPSolrDataVolumeName RHOKPSolrDataMountPath False],
     c_resources = getResources_okp cr, c_secctx = Some RHOOKPContainerSecurityContext,
     c_pull = ''IfNotPresent'',
     c_liveness = Some ((https_probe RHOOKPReadinessHTTPPath RHOOKPImageHTTPSPort)
       \<lparr>pr_period := RHOOKPProbePeriodSeconds, pr_timeout := RHOOKPProbeTimeoutSeconds,
        pr_failure := RHOKPProbeFailureThreshold\<rparr>),
     c_readiness = Some ((https_probe RHOOKPReadinessHTTPPath RHOOKPImageHTTPSPort)
       \<lparr>pr_period := RHOOKPProbePeriodSeconds, pr_timeout := RHOOKPProbeTimeoutSeconds,
        pr_failure := RHOKPReadinessProbeFailureThreshold\<rparr>),
     c_startup = Some ((https_probe RHOOKPReadinessHTTPPath RHOOKPImageHTTPSPort)
       \<lparr>pr_initial := RHOOKPStartupProbeInitialDelaySeconds, pr_period := RHOOKPStartupProbePeriodSeconds,
        pr_failure := RHOOKPStartupProbeFailureThreshold\<rparr>),
     c_lifecycle = None\<rparr>"

text \<open>The Deployment, given the version of the certificate.\<close>

definition okp_deployment :: "'w reconciler \<Rightarrow> OLSConfig \<Rightarrow> string \<Rightarrow> kobject" where
  "okp_deployment r cr tlsSecretResourceVersion =
     with_annotations [(RHOKPTLSSecretResourceVersionAnnotation, tlsSecretResourceVersion)]
       (deployment_object r cr RHOKPDeploymentName selectorLabels_okp
         (ApplyPodDeploymentConfig (zero_deployment\<lparr>
            d_selector := Some selectorLabels_okp, d_history := Some 1,
            d_tmpl_labels := selectorLabels_okp,
            d_pod := zero_pod\<lparr>po_secctx := Some restricted_pod, po_containers := [okp_container r cr],
              po_volumes := [\<lparr>v_name = RHOKPTLSVolumeName,
                  v_secret = Some \<lparr>vs_name = RHOKPCertsSecretName, vs_mode = Some VolumeRestrictedMode,
                    vs_items = [(''tls.crt'', ''localhost.crt''), (''tls.key'', ''localhost.key'')]\<rparr>,
                  v_configmap = None, v_emptydir = None, v_pvc = None, v_sizelimit = None\<rparr>,
                (emptydir_volume RHOKPSolrDataVolumeName)\<lparr>v_sizelimit := Some (solrDataSizeLimit cr)\<rparr>]\<rparr>\<rparr>)
           (dc_RHOKPContainer (o_DeploymentConfig (s_OLSConfig (cr_Spec cr)))) False))"

definition GenerateDeployment_okp :: "'w reconciler \<Rightarrow> OLSConfig \<Rightarrow> ('w, goerr + kobject) io" where
  "GenerateDeployment_okp r cr = do {
     y \<leftarrow> getSecretResourceVersion_okp r RHOKPCertsSecretName;
     ret (case y of Inl e \<Rightarrow> Inl e | Inr tv \<Rightarrow> Inr (okp_deployment r cr tv)) }"

section \<open>Reconcilers\<close>

definition okp_versions :: "string list" where
  "okp_versions = [RHOKPTLSSecretResourceVersionAnnotation]"

definition UpdateDeployment_okp :: "'w reconciler \<Rightarrow> kobject \<Rightarrow> kobject \<Rightarrow> ('w, goerr option) io" where
  "UpdateDeployment_okp r existing desired =
     update_versioned r ErrUpdateRHOKPDeployment okp_versions existing desired"

definition Restart_okp :: "'w reconciler \<Rightarrow> kobject option \<Rightarrow> ('w, goerr option) io" where
  "Restart_okp r deployment = restart_refetched r ErrUpdateRHOKPDeployment RHOKPDeploymentName"

text \<open>The labels are compared twice, by \<open>NetworkPolicyEqual\<close> and again.\<close>

definition reconcileNetworkPolicy_okp :: "'w reconcile_fn" where
  "reconcileNetworkPolicy_okp r cr = (let np = GenerateNetworkPolicy_okp r cr in
     create_or_update r ErrGetRHOKPNetworkPolicy ErrCreateRHOKPNetworkPolicy ErrUpdateRHOKPNetworkPolicy
       (NetworkPolicy, GetNamespace r, RHOKPNetworkPolicyName) np
       (\<lambda>found. NetworkPolicyEqual np found \<and> m_labels (k_meta found) = m_labels (k_meta np))
       (\<lambda>found. found\<lparr>k_payload := k_payload np,
          k_meta := (k_meta found)\<lparr>m_labels := m_labels (k_meta np)\<rparr>\<rparr>))"

definition reconcileService_okp :: "'w reconcile_fn" where
  "reconcileService_okp r cr = ReconcileConsolePluginService r (GenerateService_okp r cr)"

definition reconcileTLSSecret_okp :: "'w reconcile_fn" where
  "reconcileTLSSecret_okp r cr = WaitForConsolePluginTLSSecret r RHOKPCertsSecretName"

definition reconcileDeployment_okp :: "'w reconcile_fn" where
  "reconcileDeployment_okp r cr = try_or (GenerateDeployment_okp r cr)
     (wrapf ErrGenerateRHOKPDeployment) (\<lambda>desired.
       fetch r (Deployment, GetNamespace r, RHOKPDeploymentName)
         (create_as r ErrCreateRHOKPDeployment desired)
         (\<lambda>e. ret (Some (wrapf ErrGetRHOKPDeployment e)))
         (\<lambda>existing. do {
            e \<leftarrow> UpdateDeployment_okp r existing desired;
            ret (map_option (wrapf ErrUpdateRHOKPDeployment) e) }))"

definition reconcileServiceMonitor_okp :: "'w reconcile_fn" where
  "reconcileServiceMonitor_okp r cr = ReconcileServiceMonitor r (generateServiceMonitor_okp r cr)"

section \<open>Deletions and entry points\<close>

definition deleteNamespacedObject_okp :: "'w reconciler \<Rightarrow> kind \<Rightarrow> string \<Rightarrow> ('w, goerr option) io" where
  "deleteNamespacedObject_okp r K name = delete_plain r (K, GetNamespace r, name)"

definition deleteDeployment_okp :: "'w reconciler \<Rightarrow> ('w, goerr option) io" where
  "deleteDeployment_okp r = deleteNamespacedObject_okp r Deployment RHOKPDeploymentName"

definition deleteService_okp :: "'w reconciler \<Rightarrow> ('w, goerr option) io" where
  "deleteService_okp r = deleteNamespacedObject_okp r Service RHOKPServiceName"

definition deleteNetworkPolicy_okp :: "'w reconciler \<Rightarrow> ('w, goerr option) io" where
  "deleteNetworkPolicy_okp r = deleteNamespacedObject_okp r NetworkPolicy RHOKPNetworkPolicyName"

definition deleteTLSSecret_okp :: "'w reconciler \<Rightarrow> ('w, goerr option) io" where
  "deleteTLSSecret_okp r = deleteNamespacedObject_okp r Secret RHOKPCertsSecretName"

definition deleteServiceMonitor_okp :: "'w reconciler \<Rightarrow> ('w, goerr option) io" where
  "deleteServiceMonitor_okp r = deleteNamespacedObject_okp r ServiceMonitor RHOKPServiceMonitorName"

definition ReconcileResources_okp :: "'w reconcile_fn" where
  "ReconcileResources_okp r cr = RunReconcileTasks r cr ''reconcileRHOKPResources''
     [(''reconcile RHOKP NetworkPolicy'', reconcileNetworkPolicy_okp)] True"

definition okp_deployment_tasks :: "'w ReconcileTask list" where
  "okp_deployment_tasks =
     [(''reconcile RHOKP Service'', reconcileService_okp),
      (''reconcile RHOKP TLS Certs'', reconcileTLSSecret_okp),
      (''reconcile RHOKP Deployment'', reconcileDeployment_okp),
      (''reconcile RHOKP ServiceMonitor'', reconcileServiceMonitor_okp)]"

definition ReconcileDeployment_okp :: "'w reconcile_fn" where
  "ReconcileDeployment_okp r cr =
     RunReconcileTasks r cr ''reconcileRHOKPDeployment'' okp_deployment_tasks False"

definition Remove_okp :: "'w reconciler \<Rightarrow> ('w, goerr option) io" where
  "Remove_okp r = RunDeleteTasks r ''RemoveRHOKP''
     [(''delete RHOKP deployment'', deleteDeployment_okp),
      (''delete RHOKP service'', deleteService_okp),
      (''delete RHOKP network policy'', deleteNetworkPolicy_okp),
      (''delete RHOKP TLS secret'', deleteTLSSecret_okp),
      (''delete RHOKP ServiceMonitor'', deleteServiceMonitor_okp)]"

section \<open>The resource phase converges\<close>

abbreviation okp_policy_key :: "'w reconciler \<Rightarrow> okey" where
  "okp_policy_key r \<equiv> (NetworkPolicy, GetNamespace r, RHOKPNetworkPolicyName)"

lemma settles_okp_phase1:
  assumes "api_ok r v"
  shows "settles v {okp_policy_key r}
     (\<lambda>f. \<exists>s. f (okp_policy_key r) = Some s \<and> labelled_current (GenerateNetworkPolicy_okp r cr) s)
     (ReconcileResources_okp r cr)"
proof -
  let ?d = "GenerateNetworkPolicy_okp r cr" and ?k = "okp_policy_key r"
  let ?specs = "[({?k}, \<lambda>f. \<exists>s. f ?k = Some s \<and> labelled_current ?d s)] :: task_spec list"
  have k: "key_of ?d = ?k"
    by (simp add: GenerateNetworkPolicy_okp_def namespace_policy_def key_of_def set_controller_def new_meta_def)
  have "reconcileNetworkPolicy_okp r cr = reconcile_labelled r ErrGetRHOKPNetworkPolicy
      ErrCreateRHOKPNetworkPolicy ErrUpdateRHOKPNetworkPolicy ?k ?d"
    unfolding reconcileNetworkPolicy_okp_def reconcile_labelled_def Let_def
    by (rule arg_cong [where f = "\<lambda>same. create_or_update _ _ _ _ _ _ same _"])
      (auto simp: fun_eq_iff object_equal_defs)
  then have "settles v {?k} (\<lambda>f. \<exists>s. f ?k = Some s \<and> labelled_current ?d s) (reconcileNetworkPolicy_okp r cr)"
    using settles_labelled [OF assms k] by simp
  then show ?thesis
    using settles_RunReconcileTasks [of v r cr "[(''reconcile RHOKP NetworkPolicy'', reconcileNetworkPolicy_okp)]" ?specs]
    by (simp add: ReconcileResources_okp_def disjoint_specs_def)
qed

section \<open>The Deployment phase converges\<close>

abbreviation okp_tls_key :: "'w reconciler \<Rightarrow> okey" where
  "okp_tls_key r \<equiv> (Secret, GetNamespace r, RHOKPCertsSecretName)"

abbreviation okp_dep_key :: "'w reconciler \<Rightarrow> okey" where
  "okp_dep_key r \<equiv> (Deployment, GetNamespace r, RHOKPDeploymentName)"

definition okp_desired :: "'w reconciler \<Rightarrow> OLSConfig \<Rightarrow> (okey \<Rightarrow> kobject option) \<Rightarrow> kobject option" where
  "okp_desired r cr f = map_option (okp_deployment r cr) (version_at (okp_tls_key r) f)"

lemma GenerateDeployment_okp_run:
  assumes "api_ok r v" "run_state (GenerateDeployment_okp r cr) w = (x, w')"
  shows "v w' = v w \<and> (\<forall>d. x = Inr d \<longrightarrow> okp_desired r cr (v w) = Some d)"
proof -
  obtain t w1 where t: "run_state (getSecretResourceVersion_okp r RHOKPCertsSecretName) w = (t, w1)" by force
  show ?thesis
    using assms(2) t secret_version_run [OF assms(1) t [unfolded getSecretResourceVersion_okp_def]]
    by (cases t) (auto simp: GenerateDeployment_okp_def okp_desired_def)
qed

lemma okp_deployment_complete:
  "key_of (okp_deployment r cr tv) = okp_dep_key r" "complete_deployment (dep_of (okp_deployment r cr tv))"
  "recorded (okp_deployment r cr tv) RHOKPTLSSecretResourceVersionAnnotation = tv"
  by (simp_all add: okp_deployment_def complete_deployment_def complete_container_def okp_container_def
      zero_pod_def supported_volume_def emptydir_volume_def zlookup_def)

lemma settles_okp_deployment:
  assumes "api_ok r v"
  shows "settles v {okp_dep_key r, okp_tls_key r}
     (\<lambda>f. \<exists>d. okp_desired r cr f = Some d \<and> (\<exists>s. f (okp_dep_key r) = Some s \<and> versioned_current okp_versions d s))
     (reconcileDeployment_okp r cr)"
proof -
  have "settles v ({okp_dep_key r} \<union> {okp_tls_key r})
     (\<lambda>f. \<exists>d. okp_desired r cr f = Some d \<and> (\<exists>s. f (okp_dep_key r) = Some s \<and> versioned_current okp_versions d s))
     (reconcileDeployment_okp r cr)"
    unfolding reconcileDeployment_okp_def UpdateDeployment_okp_def reconcile_versioned_def [symmetric]
  proof (rule settles_generated)
    fix f :: "okey \<Rightarrow> kobject option" and d assume "okp_desired r cr f = Some d"
    then obtain tv where "d = okp_deployment r cr tv" by (auto simp: okp_desired_def)
    then show "settles v {okp_dep_key r} (\<lambda>f. \<exists>s. f (okp_dep_key r) = Some s \<and> versioned_current okp_versions d s)
        (reconcile_versioned r ErrGetRHOKPDeployment ErrCreateRHOKPDeployment ErrUpdateRHOKPDeployment
          okp_versions (okp_dep_key r) d)"
      using settles_versioned [OF assms okp_deployment_complete(1) _ okp_deployment_complete(2)] by simp
  qed (use GenerateDeployment_okp_run [OF assms] in \<open>auto simp: okp_desired_def version_at_def\<close>)
  then show ?thesis by (simp add: insert_commute)
qed

definition okp_settled :: "'w reconciler \<Rightarrow> OLSConfig \<Rightarrow> (okey \<Rightarrow> kobject option) \<Rightarrow> bool" where
  "okp_settled r cr f =
     ((\<exists>s. f (Service, GetNamespace r, RHOKPServiceName) = Some s \<and> service_current (GenerateService_okp r cr) s) \<and>
      (\<exists>d. okp_desired r cr f = Some d \<and> (\<exists>s. f (okp_dep_key r) = Some s \<and> versioned_current okp_versions d s)) \<and>
      (IsPrometheusAvailable r \<longrightarrow>
         (\<exists>s. f (ServiceMonitor, GetNamespace r, RHOKPServiceMonitorName) = Some s \<and>
            ServiceMonitorEqual s (generateServiceMonitor_okp r cr))))"

definition okp_phase2_keys :: "'w reconciler \<Rightarrow> okey set" where
  "okp_phase2_keys r = {(Service, GetNamespace r, RHOKPServiceName),
     (ServiceMonitor, GetNamespace r, RHOKPServiceMonitorName), okp_dep_key r, okp_tls_key r}"

lemma settles_okp_phase2:
  assumes "api_ok r v" "runtime_ok r"
  shows "settles v (okp_phase2_keys r) (okp_settled r cr) (ReconcileDeployment_okp r cr)"
proof -
  have K: "\<forall>k \<in> {okp_dep_key r, okp_tls_key r}. fst k \<notin> {Service, ServiceMonitor}" by simp
  show ?thesis
    unfolding ReconcileDeployment_okp_def okp_deployment_tasks_def okp_phase2_keys_def okp_settled_def
      GenerateService_okp_def generateServiceMonitor_okp_def
    by (rule settles_https_phase [where svc = reconcileService_okp and wait = reconcileTLSSecret_okp
        and dep = reconcileDeployment_okp and mon = reconcileServiceMonitor_okp and cr = cr, OF assms _ _ _ settles_okp_deployment [OF assms(1)] K])
      (simp_all add: reconcileService_okp_def GenerateService_okp_def reconcileTLSSecret_okp_def
        reconcileServiceMonitor_okp_def generateServiceMonitor_okp_def)
qed



text \<open>
  The size limit of the Solr data volume is the ephemeral storage the container requests,
  or 75Gi when resources are configured without such a request, so that the pod is never given
  a volume without a limit.
\<close>

theorem okp_solr_limit:
  "\<exists>x \<in> set (po_volumes (d_pod (dep_of (okp_deployment r cr tv)))). v_name x = RHOKPSolrDataVolumeName \<and>
     v_sizelimit x = Some (case cf_Resources (dc_RHOKPContainer (o_DeploymentConfig (s_OLSConfig (cr_Spec cr)))) of
        None \<Rightarrow> solr_size_default
      | Some res \<Rightarrow> (case fmlookup (rs_requests res) ''ephemeral-storage'' of None \<Rightarrow> solr_size_default | Some q \<Rightarrow> q))"
  by (simp add: okp_deployment_def solrDataSizeLimit_def getResources_okp_def GetResourcesOrDefault_def
      emptydir_volume_def split: option.splits)

section \<open>Removal\<close>

definition okp_objects :: "'w reconciler \<Rightarrow> okey list" where
  "okp_objects r = map (\<lambda>(K, n). (K, GetNamespace r, n))
     [(Deployment, RHOKPDeploymentName), (Service, RHOKPServiceName), (NetworkPolicy, RHOKPNetworkPolicyName),
      (Secret, RHOKPCertsSecretName), (ServiceMonitor, RHOKPServiceMonitorName)]"

lemma settles_Remove_okp:
  assumes "api_ok r v"
  shows "settles v (set (okp_objects r)) (\<lambda>f. \<forall>k \<in> set (okp_objects r). gone (f k)) (Remove_okp r)"
  unfolding Remove_okp_def
  by (rule settles_removal [OF assms])
    (simp_all add: okp_objects_def settles_delete_plain [OF assms] deleteNamespacedObject_okp_def
      deleteDeployment_okp_def deleteService_okp_def deleteNetworkPolicy_okp_def deleteTLSSecret_okp_def
      deleteServiceMonitor_okp_def)

end
