(* ===== verification/Postgres.thy ===== *)
theory Postgres
  imports Versioned_Deployment
begin

text \<open>
  The Postgres operand (\<open>internal/controller/postgres\<close>, \<open>utils/postgres_wait.go\<close>): its generators with
  the random password, the resource phase, the Deployment phase and restarts.
\<close>

section \<open>Generated objects\<close>

definition PostgresBootStrapScriptContent :: string where
  "PostgresBootStrapScriptContent = join_lines
    [[],
     ''#!/bin/bash'',
     [],
     ''cat /var/lib/pgsql/data/userdata/postgresql.conf'',
     [],
     ''echo '' @ [CHR 0x22] @ ''attempting to create extensions and schemas if they do not exist'' @ [CHR 0x22],
     [],
     ''_psql () { psql --set ON_ERROR_STOP=1 '' @ [CHR 0x22] @ ''$@'' @ [CHR 0x22] @ '' ; }'',
     [],
     ''# Create pg_trgm extension in default database (for OLS conversation cache)'',
     ''echo '' @ [CHR 0x22] @ ''CREATE EXTENSION IF NOT EXISTS pg_trgm;'' @ [CHR 0x22] @ '' | _psql -d $POSTGRESQL_DATABASE'',
     [],
     ''# quota schema: token quota tracking and limits'',
     ''echo '' @ [CHR 0x22] @ ''CREATE SCHEMA IF NOT EXISTS quota;'' @ [CHR 0x22] @ '' | _psql -d $POSTGRESQL_DATABASE'',
     [],
     ''# conversation_cache schema: conversation history storage'',
     ''echo '' @ [CHR 0x22] @ ''CREATE SCHEMA IF NOT EXISTS conversation_cache;'' @ [CHR 0x22] @ '' | _psql -d $POSTGRESQL_DATABASE'',
     []]"

definition PostgresConfigMapContent :: string where
  "PostgresConfigMapContent = join_lines
    [[],
     ''huge_pages = off'',
     ''ssl = on'',
     ''ssl_cert_file = '' @ [CHR 0x27] @ ''/etc/certs/tls.crt'' @ [CHR 0x27],
     ''ssl_key_file = '' @ [CHR 0x27] @ ''/etc/certs/tls.key'' @ [CHR 0x27],
     ''ssl_ca_file = '' @ [CHR 0x27] @ ''/etc/certs/cm-olspostgresca/service-ca.crt'' @ [CHR 0x27],
     []]"

definition GeneratePostgresService :: "'w reconciler \<Rightarrow> OLSConfig \<Rightarrow> kobject" where
  "GeneratePostgresService r cr = set_controller cr \<lparr>
     k_meta = (new_meta (GetNamespace r) PostgresServiceName GeneratePostgresSelectorLabels)
       \<lparr>m_annotations := Some (fmap_of_list [(ServingCertSecretAnnotationKey, PostgresCertsSecretName)])\<rparr>,
     k_payload = PService \<lparr>ss_selector = GeneratePostgresSelectorLabels,
       ss_ports = [\<lparr>sp_name = ''server'', sp_protocol = ''TCP'', sp_port = PostgresServicePort,
         sp_target = ''server''\<rparr>], ss_cluster_ip = []\<rparr>\<rparr>"

text \<open>\<open>base64.StdEncoding.EncodeToString\<close>: three bytes give four characters, the rest is padded.\<close>

definition base64_char :: "nat \<Rightarrow> char" where
  "base64_char n = (''ABCDEFGHIJKLMNOPQRSTUVWXYZabcdefghijklmnopqrstuvwxyz0123456789+/'') ! (n mod 64)"

fun EncodeToString :: "8 word list \<Rightarrow> string" where
  "EncodeToString [] = []"
| "EncodeToString [a] = (let n = unat a * 16 in [base64_char (n div 64), base64_char n, CHR ''='', CHR ''=''])"
| "EncodeToString [a, b] = (let n = unat a * 1024 + unat b * 4 in
     [base64_char (n div 4096), base64_char (n div 64), base64_char n, CHR ''=''])"
| "EncodeToString (a # b # c # xs) = (let n = unat a * 65536 + unat b * 256 + unat c in
     [base64_char (n div 262144), base64_char (n div 4096), base64_char (n div 64), base64_char n] @
     EncodeToString xs)"

definition postgres_secret :: "'w reconciler \<Rightarrow> OLSConfig \<Rightarrow> string \<Rightarrow> kobject" where
  "postgres_secret r cr encodedPassword = set_controller cr \<lparr>
     k_meta = new_meta (GetNamespace r) PostgresSecretName GeneratePostgresSelectorLabels,
     k_payload = PSecret (fmap_of_list [(PostgresSecretKeyName, encodedPassword)]) []\<rparr>"

definition GeneratePostgresSecret :: "'w reconciler \<Rightarrow> OLSConfig \<Rightarrow> ('w, goerr + kobject) io" where
  "GeneratePostgresSecret r cr = do {
     x \<leftarrow> rand_read r 12;
     ret (case x of
        Inl e \<Rightarrow> Inl (wrapf ''error generating random password'' e)
      | Inr randomPassword \<Rightarrow> Inr (postgres_secret r cr (EncodeToString randomPassword))) }"

text \<open>The server stores \<open>StringData\<close> as data.\<close>

definition GeneratePostgresBootstrapSecret :: "'w reconciler \<Rightarrow> OLSConfig \<Rightarrow> kobject" where
  "GeneratePostgresBootstrapSecret r cr = set_controller cr \<lparr>
     k_meta = new_meta (GetNamespace r) PostgresBootstrapSecretName GeneratePostgresSelectorLabels,
     k_payload = PSecret (fmap_of_list [(PostgresExtensionScript, PostgresBootStrapScriptContent)]) []\<rparr>"

definition GeneratePostgresConfigMap :: "'w reconciler \<Rightarrow> OLSConfig \<Rightarrow> kobject" where
  "GeneratePostgresConfigMap r cr = set_controller cr \<lparr>
     k_meta = new_meta (GetNamespace r) PostgresConfigMap GeneratePostgresSelectorLabels,
     k_payload = PConfigMap (fmap_of_list [(PostgresConfig, PostgresConfigMapContent)]) fmempty\<rparr>"

definition GeneratePostgresNetworkPolicy :: "'w reconciler \<Rightarrow> OLSConfig \<Rightarrow> kobject" where
  "GeneratePostgresNetworkPolicy r cr = set_controller cr \<lparr>
     k_meta = new_meta (GetNamespace r) PostgresNetworkPolicyName GeneratePostgresSelectorLabels,
     k_payload = PNetworkPolicy \<lparr>np_pods = \<lparr>ls_labels = GeneratePostgresSelectorLabels, ls_exprs = []\<rparr>,
       np_ingress = [\<lparr>ru_from = [\<lparr>pe_pods = Some \<lparr>ls_labels = fmempty,
           ls_exprs = [(''app.kubernetes.io/name'', ''In'',
             [OLSAppServerContainerName, OtelCollectorDeploymentName])]\<rparr>, pe_namespaces = None\<rparr>],
         ru_ports = [(''TCP'', PostgresServicePort)]\<rparr>],
       np_egress = [], np_types = [''Ingress'']\<rparr>\<rparr>"

definition GeneratePostgresServiceAccount :: "'w reconciler \<Rightarrow> OLSConfig \<Rightarrow> kobject" where
  "GeneratePostgresServiceAccount r cr = GenerateServiceAccount r cr PostgreServiceAccountName"

text \<open>
  The defaults of the storage settings. A failing list of storage classes is ignored; of several
  default classes the last one is taken. The size is in milli-units, \<open>1Gi\<close> by default.
\<close>

definition default_class :: "kobject list \<Rightarrow> string" where
  "default_class scs = fold (\<lambda>sc cl.
     if zlookup (nil_map (m_annotations (k_meta sc))) ''storageclass.kubernetes.io/is-default-class'' = ''true''
     then m_name (k_meta sc) else cl) scs []"

definition storageDefaults :: "'w reconciler \<Rightarrow> Storage \<Rightarrow> ('w, goerr + Storage) io" where
  "storageDefaults r s =
     (let s1 = (if sto_Size s = 0 then s\<lparr>sto_Size := 1024 * 1024 * 1024 * 1000\<rparr> else s) in
      if sto_Class s1 \<noteq> [] then ret (Inr s1)
      else do {
        x \<leftarrow> cl_list r StorageClass [] fmempty;
        ret (let cl = (case x of Inl e \<Rightarrow> [] | Inr scs \<Rightarrow> default_class scs) in
          if cl = [] then Inl (newerr ''no storage class specified and no default storage class configured'')
          else Inr (s1\<lparr>sto_Class := cl\<rparr>)) })"

definition GeneratePostgresPVC :: "'w reconciler \<Rightarrow> OLSConfig \<Rightarrow> Storage \<Rightarrow> ('w, goerr + kobject) io" where
  "GeneratePostgresPVC r cr storage = do {
     x \<leftarrow> storageDefaults r storage;
     ret (case x of
        Inl e \<Rightarrow> Inl e
      | Inr s \<Rightarrow> Inr (set_controller cr \<lparr>
          k_meta = new_meta (GetNamespace r) PostgresPVCName fmempty,
          k_payload = PPvc [''ReadWriteOnce''] (sto_Size s) (sto_Class s)\<rparr>)) }"

section \<open>The Deployment\<close>

definition getDatabaseResources :: "OLSConfig \<Rightarrow> resources" where
  "getDatabaseResources cr = GetResourcesOrDefault
     (cf_Resources (dc_DatabaseContainer (o_DeploymentConfig (s_OLSConfig (cr_Spec cr)))))
     \<lparr>rs_limits = fmempty,
      rs_requests = fmap_of_list [(''cpu'', 30), (''memory'', 300 * 1024 * 1024 * 1000)], rs_claims = []\<rparr>"

definition postgres_volumes :: "OLSConfig \<Rightarrow> volume list" where
  "postgres_volumes cr =
     [secret_volume (''secret-'' @ PostgresCertsSecretName) PostgresCertsSecretName VolumeRestrictedMode,
      secret_volume (''secret-'' @ PostgresBootstrapSecretName) PostgresBootstrapSecretName VolumeRestrictedMode,
      configmap_volume PostgresConfigMap PostgresConfigMap VolumeDefaultMode,
      (if o_Storage (s_OLSConfig (cr_Spec cr)) \<noteq> None
       then (emptydir_volume PostgresDataVolume)\<lparr>v_emptydir := None, v_pvc := Some PostgresPVCName\<rparr>
       else emptydir_volume PostgresDataVolume),
      GetPostgresCAConfigVolume, emptydir_volume PostgresVarRunVolumeName, emptydir_volume TmpVolumeName]"

definition postgres_mounts :: "volume_mount list" where
  "postgres_mounts =
     [mount (''secret-'' @ PostgresCertsSecretName) OLSAppCertsMountRoot True,
      (mount (''secret-'' @ PostgresBootstrapSecretName) PostgresBootstrapVolumeMountPath True)
        \<lparr>vm_subpath := PostgresExtensionScript\<rparr>,
      (mount PostgresConfigMap PostgresConfigVolumeMountPath False)\<lparr>vm_subpath := PostgresConfig\<rparr>,
      mount PostgresDataVolume PostgresDataVolumeMountPath False,
      GetPostgresCAVolumeMount (OLSAppCertsMountRoot @ ''/'' @ PostgresCAVolume),
      mount PostgresVarRunVolumeName PostgresVarRunVolumeMountPath False,
      mount TmpVolumeName TmpVolumeMountPath False]"

text \<open>The defaults of the two settings are written into the resource in memory.\<close>

definition postgres_settings :: "OLSConfig \<Rightarrow> string \<times> int" where
  "postgres_settings cr = (let p = ca_Postgres (o_ConversationCache (s_OLSConfig (cr_Spec cr))) in
     (if pg_SharedBuffers p = [] then PostgresSharedBuffers else pg_SharedBuffers p,
      if pg_MaxConnections p = 0 then PostgresMaxConnections else pg_MaxConnections p))"

definition postgres_container :: "'w reconciler \<Rightarrow> OLSConfig \<Rightarrow> container" where
  "postgres_container r cr =
     (let passwordSecretRef = Some (SecretKeyRef PostgresSecretName PostgresSecretKeyName None) in
      \<lparr>c_name = PostgresDeploymentName, c_image = LightspeedServicePostgresImage (Options r),
       c_ports = [\<lparr>cp_name = ''server'', cp_port = PostgresServicePort, cp_protocol = ''TCP''\<rparr>],
       c_env = [plain_env ''POSTGRESQL_USER'' PostgresDefaultUser,
         plain_env ''POSTGRESQL_DATABASE'' PostgresDefaultDbName,
         \<lparr>ev_name = ''POSTGRESQL_ADMIN_PASSWORD'', ev_value = [], ev_from = passwordSecretRef\<rparr>,
         \<lparr>ev_name = ''POSTGRESQL_PASSWORD'', ev_value = [], ev_from = passwordSecretRef\<rparr>,
         plain_env ''POSTGRESQL_SHARED_BUFFERS'' (fst (postgres_settings cr)),
         plain_env ''POSTGRESQL_MAX_CONNECTIONS'' (int_to_string (snd (postgres_settings cr)))],
       c_command = [], c_args = [], c_mounts = postgres_mounts, c_resources = getDatabaseResources cr,
       c_secctx = Some RestrictedContainerSecurityContext, c_pull = ''Always'',
       c_liveness = None, c_readiness = None, c_startup = None,
       c_lifecycle = Some [''/bin/sh'', ''-c'', ''if [ -f '' @ PostgresUserDataDir @
         ''/PG_VERSION ]; then pg_ctl stop -D '' @ PostgresUserDataDir @ '' -m fast -w -t '' @
         int_to_string PostgresShutdownTimeoutSeconds @ ''; fi'']\<rparr>)"

text \<open>The strategy is set last: a volume that one node can mount does not allow a rolling update.\<close>

definition postgres_spec :: "'w reconciler \<Rightarrow> OLSConfig \<Rightarrow> deployment_spec" where
  "postgres_spec r cr = (ApplyPodDeploymentConfig (zero_deployment\<lparr>
       d_replicas := Some 1, d_selector := Some GeneratePostgresSelectorLabels, d_history := Some 1,
       d_tmpl_labels := GeneratePostgresSelectorLabels,
       d_pod := zero_pod\<lparr>po_automount := Some False, po_containers := [postgres_container r cr],
         po_volumes := postgres_volumes cr, po_service_account := PostgreServiceAccountName,
         po_grace := Some PostgresTerminationGracePeriodSeconds\<rparr>\<rparr>)
     (dc_DatabaseContainer (o_DeploymentConfig (s_OLSConfig (cr_Spec cr)))) False)
     \<lparr>d_strategy := \<lparr>st_type = ''Recreate'', st_rolling = None\<rparr>\<rparr>"

text \<open>A failed read of the version is ignored and leaves the empty string.\<close>

definition postgres_deployment :: "'w reconciler \<Rightarrow> OLSConfig \<Rightarrow> string \<Rightarrow> kobject" where
  "postgres_deployment r cr configMapResourceVersion =
     with_annotations [(PostgresConfigMapResourceVersionAnnotation, configMapResourceVersion)]
       (deployment_object r cr PostgresDeploymentName GeneratePostgresSelectorLabels (postgres_spec r cr))"

definition GeneratePostgresDeployment :: "'w reconciler \<Rightarrow> OLSConfig \<Rightarrow> ('w, goerr + kobject) io" where
  "GeneratePostgresDeployment r cr = do {
     x \<leftarrow> GetConfigMapResourceVersion r PostgresConfigMap;
     ret (Inr (postgres_deployment r cr (case x of Inl e \<Rightarrow> [] | Inr cv \<Rightarrow> cv))) }"

definition RestartPostgres :: "'w reconciler \<Rightarrow> kobject option \<Rightarrow> ('w, goerr option) io" where
  "RestartPostgres r given = restart_named r PostgresDeploymentName given"

text \<open>Writing an entry of a nil map panics.\<close>

definition nil_map_panic :: goerr where
  "nil_map_panic = newerr ''panic: assignment to entry in nil map''"

definition UpdatePostgresDeployment :: "'w reconciler \<Rightarrow> kobject \<Rightarrow> kobject \<Rightarrow> ('w, goerr option) io" where
  "UpdatePostgresDeployment r existing desired =
     (let d = SetDefaults_Deployment (dep_of desired) in
      case DeploymentSpecEqual (dep_of existing) d True of
        None \<Rightarrow> ret (Some nil_panic)
      | Some same \<Rightarrow> do {
          x \<leftarrow> GetConfigMapResourceVersion r PostgresConfigMap;
          (if same \<and> (case x of Inl e \<Rightarrow> False
              | Inr cv \<Rightarrow> recorded existing PostgresConfigMapResourceVersionAnnotation = cv)
           then ret None
           else if m_annotations (k_meta existing) = None then ret (Some nil_map_panic)
           else RestartPostgres r (Some (copy_versions [PostgresConfigMapResourceVersionAnnotation] desired
             (set_dep_spec d existing)))) })"

section \<open>Reconcilers\<close>

definition reconcilePostgresConfigMap :: "'w reconcile_fn" where
  "reconcilePostgresConfigMap r cr =
     create_missing r ErrGetPostgresConfigMap ErrCreatePostgresConfigMap
       (ConfigMap, GetNamespace r, PostgresConfigMap) (GeneratePostgresConfigMap r cr)"

definition reconcilePostgresBootstrapSecret :: "'w reconcile_fn" where
  "reconcilePostgresBootstrapSecret r cr =
     create_missing r ErrGetPostgresBootstrapSecret ErrCreatePostgresBootstrapSecret
       (Secret, GetNamespace r, PostgresBootstrapSecretName) (GeneratePostgresBootstrapSecret r cr)"

definition deleteOldPostgresSecrets :: "'w reconciler \<Rightarrow> ('w, goerr option) io" where
  "deleteOldPostgresSecrets r =
     (let sel = fmap_of_list [(''app.kubernetes.io/name'', ''lightspeed-service-postgres'')] in
      try_or (cl_list r Secret (GetNamespace r) sel) (wrapf ''failed to list old Postgres secrets'')
        (\<lambda>oldSecrets. do {
           e \<leftarrow> cl_delete_all r Secret (GetNamespace r) sel;
           ret (map_option (wrapf ''failed to delete old Postgres secrets'') e) }))"

definition reconcilePostgresSecret :: "'w reconcile_fn" where
  "reconcilePostgresSecret r cr = fetch r (Secret, GetNamespace r, PostgresSecretName)
     (try_or (GeneratePostgresSecret r cr) (wrapf ErrGeneratePostgresSecret) (\<lambda>secret.
        and_then (deleteOldPostgresSecrets r) (create_as r ErrCreatePostgresSecret secret)))
     (\<lambda>e. ret (Some (wrapf ErrGetPostgresSecret e))) (\<lambda>found. ret None)"

definition reconcilePostgresNetworkPolicy :: "'w reconcile_fn" where
  "reconcilePostgresNetworkPolicy r cr = (let np = GeneratePostgresNetworkPolicy r cr in
     create_or_update r ErrGetPostgresNetworkPolicy ErrCreatePostgresNetworkPolicy
       ErrUpdatePostgresNetworkPolicy (NetworkPolicy, GetNamespace r, PostgresNetworkPolicyName) np
       (\<lambda>found. NetworkPolicyEqual found np) (\<lambda>found. found\<lparr>k_payload := k_payload np\<rparr>))"

definition reconcilePostgresServiceAccount :: "'w reconcile_fn" where
  "reconcilePostgresServiceAccount r cr =
     create_missing r ErrGetPostgresServiceAccount ErrCreatePostgresServiceAccount
       (ServiceAccount, GetNamespace r, PostgreServiceAccountName) (GeneratePostgresServiceAccount r cr)"

definition reconcilePostgresPVC :: "'w reconcile_fn" where
  "reconcilePostgresPVC r cr = (case o_Storage (s_OLSConfig (cr_Spec cr)) of
      None \<Rightarrow> ret None
    | Some storage \<Rightarrow> try_or (GeneratePostgresPVC r cr storage) (wrapf ErrGeneratePostgresPVC) (\<lambda>pvc.
        create_missing r ErrGetPostgresPVC ErrCreatePostgresPVC
          (PersistentVolumeClaim, GetNamespace r, PostgresPVCName) pvc))"

definition reconcilePostgresService :: "'w reconcile_fn" where
  "reconcilePostgresService r cr =
     create_missing r ErrGetPostgresService ErrCreatePostgresService
       (Service, GetNamespace r, PostgresServiceName) (GeneratePostgresService r cr)"

definition reconcilePostgresDeployment :: "'w reconcile_fn" where
  "reconcilePostgresDeployment r cr = try_or (GeneratePostgresDeployment r cr)
     (wrapf ErrGeneratePostgresDeployment) (\<lambda>desired.
       fetch r (Deployment, GetNamespace r, PostgresDeploymentName)
         (create_as r ErrCreatePostgresDeployment desired)
         (\<lambda>e. ret (Some (wrapf ErrGetPostgresDeployment e)))
         (\<lambda>existing. do {
            e \<leftarrow> UpdatePostgresDeployment r existing desired;
            ret (map_option (wrapf ErrUpdatePostgresDeployment) e) }))"

section \<open>Entry points\<close>

definition postgres_resource_tasks :: "'w ReconcileTask list" where
  "postgres_resource_tasks =
     [(''reconcile Postgres ConfigMap'', reconcilePostgresConfigMap),
      (''reconcile Postgres Bootstrap Secret'', reconcilePostgresBootstrapSecret),
      (''reconcile Postgres Secret'', reconcilePostgresSecret),
      (''generate Postgres Network Policy'', reconcilePostgresNetworkPolicy),
      (''reconcile Postgres Service Account'', reconcilePostgresServiceAccount)]"

definition ReconcilePostgresResources :: "'w reconcile_fn" where
  "ReconcilePostgresResources r cr = run_named r cr postgres_resource_tasks"

text \<open>The loop of the second phase is the fail-fast loop of \<open>RunReconcileTasks\<close>.\<close>

definition postgres_deployment_tasks :: "'w ReconcileTask list" where
  "postgres_deployment_tasks =
     [(''reconcile Postgres PVC'', reconcilePostgresPVC),
      (''reconcile Postgres Deployment'', reconcilePostgresDeployment),
      (''reconcile Postgres Service'', reconcilePostgresService)]"

definition ReconcilePostgresDeployment :: "'w reconcile_fn" where
  "ReconcilePostgresDeployment r cr =
     RunReconcileTasks r cr ''reconcilePostgresDeployment'' postgres_deployment_tasks False"

definition ReconcilePostgres :: "'w reconcile_fn" where
  "ReconcilePostgres r cr = and_then (ReconcilePostgresResources r cr) (ReconcilePostgresDeployment r cr)"

section \<open>Waiting for the database\<close>

definition PostgresWaitMaxSeconds :: int where
  "PostgresWaitMaxSeconds = 300"

definition postgres_wait_script :: string where
  "postgres_wait_script = join_lines
    [[],
     '': '' @ [CHR 0x22] @ ''${PGHOST:='' @ PostgresServiceName @ ''}'' @ [CHR 0x22],
     '': '' @ [CHR 0x22] @ ''${PGPORT:='' @ int_to_string PostgresServicePort @ ''}'' @ [CHR 0x22],
     '': '' @ [CHR 0x22] @ ''${PGUSER:=postgres}'' @ [CHR 0x22],
     '': '' @ [CHR 0x22] @ ''${PGDATABASE:=postgres}'' @ [CHR 0x22],
     [],
     ''sleep_sec=1'',
     ''max_sleep=30'',
     ''start=$(date +%s)'',
     ''max_elapsed='' @ int_to_string PostgresWaitMaxSeconds,
     [],
     ''backoff() {'',
     ''  sleep '' @ [CHR 0x22] @ ''$sleep_sec'' @ [CHR 0x22],
     ''  sleep_sec=$((sleep_sec * 2))'',
     ''  [ '' @ [CHR 0x22] @ ''$sleep_sec'' @ [CHR 0x22] @ '' -gt '' @ [CHR 0x22] @ ''$max_sleep'' @ [CHR 0x22] @ '' ] && sleep_sec='' @ [CHR 0x22] @ ''$max_sleep'' @ [CHR 0x22],
     ''}'',
     [],
     ''if ! command -v pg_isready >/dev/null 2>&1; then'',
     ''  echo '' @ [CHR 0x22] @ ''wait-for-postgres: pg_isready not found in image'' @ [CHR 0x22] @ '' >&2'',
     ''  exit 1'',
     ''fi'',
     [],
     ''while true; do'',
     ''  now=$(date +%s)'',
     ''  elapsed=$((now - start))'',
     ''  if [ '' @ [CHR 0x22] @ ''$elapsed'' @ [CHR 0x22] @ '' -ge '' @ [CHR 0x22] @ ''$max_elapsed'' @ [CHR 0x22] @ '' ]; then'',
     ''    echo '' @ [CHR 0x22] @ ''wait-for-postgres: timed out after ${max_elapsed}s'' @ [CHR 0x22] @ '' >&2'',
     ''    exit 1'',
     ''  fi'',
     [],
     ''  if pg_isready -q -h '' @ [CHR 0x22] @ ''$PGHOST'' @ [CHR 0x22] @ '' -p '' @ [CHR 0x22] @ ''$PGPORT'' @ [CHR 0x22] @ '' -U '' @ [CHR 0x22] @ ''$PGUSER'' @ [CHR 0x22] @ '' -d '' @ [CHR 0x22] @ ''$PGDATABASE'' @ [CHR 0x22] @ ''; then'',
     ''    echo '' @ [CHR 0x22] @ ''wait-for-postgres: postgres is accepting connections'' @ [CHR 0x22],
     ''    exit 0'',
     ''  fi'',
     [],
     ''  echo '' @ [CHR 0x22] @ ''wait-for-postgres: not ready yet (host=$PGHOST port=$PGPORT db=$PGDATABASE user=$PGUSER)'' @ [CHR 0x22] @ '' >&2'',
     ''  backoff'',
     ''done'',
     []]"

definition GeneratePostgresWaitInitContainer :: "string \<Rightarrow> container" where
  "GeneratePostgresWaitInitContainer img = \<lparr>c_name = PostgresWaitInitContainerName, c_image = img,
     c_ports = [], c_env = [], c_command = [''/bin/sh'', ''-c'', postgres_wait_script], c_args = [], c_mounts = [],
     c_resources = \<lparr>rs_limits = fmap_of_list [(''cpu'', 100), (''memory'', 64 * 1024 * 1024 * 1000)],
       rs_requests = fmap_of_list [(''cpu'', 10), (''memory'', 32 * 1024 * 1024 * 1000)], rs_claims = []\<rparr>,
     c_secctx = Some \<lparr>sc_escalation = Some False, sc_readonly_fs = Some True, sc_non_root = None,
       sc_seccomp = None, sc_drop = []\<rparr>,
     c_pull = ''IfNotPresent'', c_liveness = None, c_readiness = None, c_startup = None, c_lifecycle = None\<rparr>"

section \<open>The password\<close>

text \<open>The random source does not write to the cluster.\<close>

definition rand_ok :: "'w reconciler \<Rightarrow> ('w \<Rightarrow> okey \<Rightarrow> kobject option) \<Rightarrow> bool" where
  "rand_ok r v = (\<forall>n w x w'. run_state (rand_read r n) w = (x, w') \<longrightarrow> v w' = v w \<and>
     (\<forall>bs. x = Inr bs \<longrightarrow> length bs = n))"

lemma length_EncodeToString: "length (EncodeToString bs) = 4 * ((length bs + 2) div 3)"
proof (induction bs rule: EncodeToString.induct)
  case (4 a b c xs)
  have "(length xs + 5) div 3 = Suc ((length xs + 2) div 3)" using div_add_self2 [of 3 "length xs + 2"] by simp
  then show ?case using 4 by (simp add: Let_def add.commute)
qed (simp_all add: Let_def)

abbreviation pg_secret_key :: "'w reconciler \<Rightarrow> okey" where
  "pg_secret_key r \<equiv> (Secret, GetNamespace r, PostgresSecretName)"

abbreviation pg_boot_key :: "'w reconciler \<Rightarrow> okey" where
  "pg_boot_key r \<equiv> (Secret, GetNamespace r, PostgresBootstrapSecretName)"

lemma postgres_keys:
  "key_of (postgres_secret r cr p) = pg_secret_key r"
  "key_of (GeneratePostgresBootstrapSecret r cr) = pg_boot_key r"
  "key_of (GeneratePostgresConfigMap r cr) = (ConfigMap, GetNamespace r, PostgresConfigMap)"
  "key_of (GeneratePostgresNetworkPolicy r cr) = (NetworkPolicy, GetNamespace r, PostgresNetworkPolicyName)"
  "key_of (GeneratePostgresServiceAccount r cr) = (ServiceAccount, GetNamespace r, PostgreServiceAccountName)"
  "key_of (GeneratePostgresService r cr) = (Service, GetNamespace r, PostgresServiceName)"
  by (simp_all add: postgres_secret_def GeneratePostgresBootstrapSecret_def GeneratePostgresConfigMap_def
      GeneratePostgresNetworkPolicy_def GeneratePostgresServiceAccount_def GenerateServiceAccount_def
      GeneratePostgresService_def key_of_def set_controller_def new_meta_def)

lemma pg_secret_keys_differ: "PostgresSecretName \<noteq> PostgresBootstrapSecretName"
  by (simp add: go_const)

text \<open>The creation of the password secret, after the old ones are deleted.\<close>

lemma deleteOldPostgresSecrets_run:
  assumes api: "api_ok r v" and run: "run_state (deleteOldPostgresSecrets r) w = (e, w')"
  shows "e = None \<Longrightarrow> v w k = Some ob \<Longrightarrow> key_of ob = k \<Longrightarrow> fst k = Secret \<Longrightarrow>
      m_namespace (k_meta ob) = GetNamespace r \<Longrightarrow> m_labels (k_meta ob) = GeneratePostgresSelectorLabels \<Longrightarrow>
      deleted_as ob (v w' k)"
    and "fst k \<noteq> Secret \<Longrightarrow> v w' k = v w k" and "v w k = None \<Longrightarrow> v w' k = None"
proof -
  let ?sel = "fmap_of_list [(''app.kubernetes.io/name'', ''lightspeed-service-postgres'')]"
  obtain x w1 where l: "run_state (cl_list r Secret (GetNamespace r) ?sel) w = (x, w1)" by force
  note list = api_list [OF api l]
  have "(\<exists>d. run_state (cl_delete_all r Secret (GetNamespace r) ?sel) w1 = (d, w') \<and> (e = None \<longrightarrow> d = None)) \<or>
      (e \<noteq> None \<and> w' = w1)"
    using run l by (cases x) (auto simp: deleteOldPostgresSecrets_def try_or_def Let_def split: prod.splits)
  then consider (del) d where "run_state (cl_delete_all r Secret (GetNamespace r) ?sel) w1 = (d, w')" "e = None \<longrightarrow> d = None"
    | (fail) "e \<noteq> None" "w' = w1" by blast
  then have "(e = None \<longrightarrow> v w k = Some ob \<longrightarrow> key_of ob = k \<longrightarrow> fst k = Secret \<longrightarrow>
      m_namespace (k_meta ob) = GetNamespace r \<longrightarrow> m_labels (k_meta ob) = GeneratePostgresSelectorLabels \<longrightarrow>
      deleted_as ob (v w' k)) \<and> (fst k \<noteq> Secret \<longrightarrow> v w' k = v w k) \<and> (v w k = None \<longrightarrow> v w' k = None)" for k ob
  proof cases
    case del
    note d = api_delete_all [OF api del(1)]
    have "selected Secret (GetNamespace r) ?sel ob"
      if "fst (key_of ob) = Secret" "m_namespace (k_meta ob) = GetNamespace r"
        "m_labels (k_meta ob) = GeneratePostgresSelectorLabels" for ob
      using that by (simp add: selected_def GeneratePostgresSelectorLabels_def fmpred_iff)
    then show ?thesis using d(1) [of k ob] d(2) [of k] del(2) list(1) by (auto simp: selected_def)
  qed (use list in auto)
  then show "e = None \<Longrightarrow> v w k = Some ob \<Longrightarrow> key_of ob = k \<Longrightarrow> fst k = Secret \<Longrightarrow>
      m_namespace (k_meta ob) = GetNamespace r \<Longrightarrow> m_labels (k_meta ob) = GeneratePostgresSelectorLabels \<Longrightarrow>
      deleted_as ob (v w' k)"
    "fst k \<noteq> Secret \<Longrightarrow> v w' k = v w k" "v w k = None \<Longrightarrow> v w' k = None" by blast+
qed

lemma reconcilePostgresSecret_run:
  assumes api: "api_ok r v" and rand: "rand_ok r v"
    and run: "run_state (reconcilePostgresSecret r cr) w = (e, w')"
  shows "v w (pg_secret_key r) = Some s \<Longrightarrow> v w' = v w"
    and "e = None \<Longrightarrow> v w (pg_secret_key r) = None \<Longrightarrow>
      \<exists>bs s w1. run_state (deleteOldPostgresSecrets r) w1 = (None, snd (run_state (deleteOldPostgresSecrets r) w1)) \<and>
        v w1 = v w \<and> length bs = 12 \<and> stored_as (postgres_secret r cr (EncodeToString bs)) s \<and>
        v w' = (v (snd (run_state (deleteOldPostgresSecrets r) w1)))(pg_secret_key r \<mapsto> s)"
    and "fst k \<noteq> Secret \<Longrightarrow> v w' k = v w k"
proof -
  obtain x w1 where g: "run_state (cl_get r (pg_secret_key r)) w = (x, w1)" by force
  note get = api_get [OF api g]
  show "v w (pg_secret_key r) = Some s \<Longrightarrow> v w' = v w"
    using run g get(1,5) by (cases x) (auto simp: reconcilePostgresSecret_def run_fetch split: if_splits)
  have "(e = None \<longrightarrow> v w (pg_secret_key r) = None \<longrightarrow>
      (\<exists>bs s w1. run_state (deleteOldPostgresSecrets r) w1 = (None, snd (run_state (deleteOldPostgresSecrets r) w1)) \<and>
        v w1 = v w \<and> length bs = 12 \<and> stored_as (postgres_secret r cr (EncodeToString bs)) s \<and>
        v w' = (v (snd (run_state (deleteOldPostgresSecrets r) w1)))(pg_secret_key r \<mapsto> s))) \<and>
      (\<forall>k. fst k \<noteq> Secret \<longrightarrow> v w' k = v w k)"
  proof (cases "\<exists>err. x = Inl err \<and> IsNotFound err")
    case False
    then show ?thesis
      using run g get(1,2) by (cases x) (auto simp: reconcilePostgresSecret_def run_fetch split: if_splits)
  next
    case True
    then obtain err where x: "x = Inl err" "IsNotFound err" by blast
    obtain y w2 where rr: "run_state (rand_read r 12) w1 = (y, w2)" by force
    have v2: "v w2 = v w" "\<And>bs. y = Inr bs \<Longrightarrow> length bs = 12"
      using rand [unfolded rand_ok_def, rule_format, OF rr] get(1) by simp_all
    obtain d w3 where dl: "run_state (deleteOldPostgresSecrets r) w2 = (d, w3)" by force
    have fr: "fst k \<noteq> Secret \<longrightarrow> v w3 k = v w k" for k
      using deleteOldPostgresSecrets_run(2) [OF api dl, of k] v2 by simp
    consider (rand) re where "y = Inl re" | (del) bs de where "y = Inr bs" "d = Some de"
      | (ok) bs where "y = Inr bs" "d = None" by (cases y; cases d) auto
    then show ?thesis
    proof cases
      case ok
      obtain ce where c: "run_state (cl_create r (postgres_secret r cr (EncodeToString bs))) w3 = (ce, w')"
        "e = map_option (wrapf ErrCreatePostgresSecret) ce"
        using run g x rr ok dl
        by (auto simp: reconcilePostgresSecret_def GeneratePostgresSecret_def run_fetch try_or_def and_then_def
            run_create_as split: prod.splits)
      note cr' = api_create [OF api c(1)]
      have "v w' k = v w k" if k: "fst k \<noteq> Secret" for k
      proof -
        have "k \<noteq> pg_secret_key r" using k by auto
        then have "v w' k = v w3 k" using cr'(2,3) by (cases ce) (auto simp: postgres_keys)
        then show ?thesis using fr [of k] k by simp
      qed
      moreover have "\<exists>s. stored_as (postgres_secret r cr (EncodeToString bs)) s \<and>
          v w' = (v w3)(pg_secret_key r \<mapsto> s)" if "e = None"
        using cr'(2) c(2) that by (simp add: postgres_keys)
      ultimately show ?thesis using dl ok v2 by (metis snd_conv)
    qed (use run g x rr dl v2 fr in \<open>auto simp: reconcilePostgresSecret_def GeneratePostgresSecret_def
          run_fetch try_or_def and_then_def\<close>)
  qed
  then show "e = None \<Longrightarrow> v w (pg_secret_key r) = None \<Longrightarrow>
      \<exists>bs s w1. run_state (deleteOldPostgresSecrets r) w1 = (None, snd (run_state (deleteOldPostgresSecrets r) w1)) \<and>
        v w1 = v w \<and> length bs = 12 \<and> stored_as (postgres_secret r cr (EncodeToString bs)) s \<and>
        v w' = (v (snd (run_state (deleteOldPostgresSecrets r) w1)))(pg_secret_key r \<mapsto> s)"
    "fst k \<noteq> Secret \<Longrightarrow> v w' k = v w k" by blast+
qed

text \<open>The other four tasks of the phase touch one object each.\<close>

lemma create_missing_frame:
  assumes "api_ok r v" "key_of d = k" "run_state (create_missing r a b k d) w = (e, w')" "k' \<noteq> k"
  shows "v w' k' = v w k'"
  using settlesD(2) [OF settles_create_missing [OF assms(1,2)] assms(3)] assms(4) by blast

lemma postgres_policy_frame:
  assumes "api_ok r v" "run_state (reconcilePostgresNetworkPolicy r cr) w = (e, w')"
    "k \<noteq> (NetworkPolicy, GetNamespace r, PostgresNetworkPolicyName)"
  shows "v w' k = v w k"
proof -
  let ?k = "(NetworkPolicy, GetNamespace r, PostgresNetworkPolicyName)"
  let ?np = "GeneratePostgresNetworkPolicy r cr"
  have kind: "kind_of (k_payload ?np) = NetworkPolicy" using postgres_keys(4) [of r cr] by (simp add: key_of_def)
  obtain x w1 where g: "run_state (cl_get r ?k) w = (x, w1)" by force
  note get = api_get [OF assms(1) g]
  have upd: "v w' k = v w1 k"
    if u: "run_state (update_as r m (ob\<lparr>k_payload := k_payload ?np\<rparr>)) w1 = (e, w')" "key_of ob = ?k" for m ob
  proof -
    obtain ue where c: "run_state (cl_update r (ob\<lparr>k_payload := k_payload ?np\<rparr>)) w1 = (ue, w')"
      using u(1) by (auto simp: run_update_as split: prod.splits)
    have "key_of (ob\<lparr>k_payload := k_payload ?np\<rparr>) = ?k" using u(2) kind by (simp add: key_of_def)
    then show ?thesis using api_update(4) [OF assms(1) c] assms(3) by metis
  qed
  have crt: "v w' k = v w1 k" if c: "run_state (create_as r m ?np) w1 = (e, w')" for m
  proof -
    obtain ce where ce: "run_state (cl_create r ?np) w1 = (ce, w')"
      using c by (auto simp: run_create_as split: prod.splits)
    show ?thesis using api_create(2,3) [OF assms(1) ce] assms(3) by (cases ce) (auto simp: postgres_keys)
  qed
  show ?thesis
    using assms(2) g get(1,3) upd crt
    by (cases x) (auto simp: reconcilePostgresNetworkPolicy_def create_or_update_def run_fetch Let_def split: if_splits)
qed

lemmas pg_task_defs = reconcilePostgresConfigMap_def reconcilePostgresBootstrapSecret_def
  reconcilePostgresServiceAccount_def reconcilePostgresService_def

lemma postgres_create_frames:
  assumes "api_ok r v"
  shows "run_state (reconcilePostgresConfigMap r cr) w = (e, w') \<Longrightarrow> k \<noteq> (ConfigMap, GetNamespace r, PostgresConfigMap) \<Longrightarrow> v w' k = v w k"
    "run_state (reconcilePostgresBootstrapSecret r cr) w = (e, w') \<Longrightarrow> k \<noteq> pg_boot_key r \<Longrightarrow> v w' k = v w k"
    "run_state (reconcilePostgresServiceAccount r cr) w = (e, w') \<Longrightarrow> k \<noteq> (ServiceAccount, GetNamespace r, PostgreServiceAccountName) \<Longrightarrow> v w' k = v w k"
  unfolding pg_task_defs by (erule create_missing_frame [OF assms, rotated], simp_all add: postgres_keys)+

lemma create_missing_new:
  assumes "api_ok r v" "key_of d = k" "run_state (create_missing r a b k d) w = (None, w')" "v w k = None"
  shows "\<exists>s. v w' k = Some s \<and> stored_as d s"
proof -
  obtain x w1 where g: "run_state (cl_get r k) w = (x, w1)" by force
  obtain err where "x = Inl err" "IsNotFound err" "run_state (cl_create r d) w1 = (None, w')"
    using assms(3,4) g api_get(2) [OF assms(1) g]
    by (cases x) (auto simp: create_missing_def run_fetch run_create_as split: if_splits prod.splits)
  then show ?thesis using api_create(2) [OF assms(1)] assms(2) by fastforce
qed

text \<open>
  (C17) The database password is never changed once it exists: whatever the resource phase does,
  succeeds or fails, an existing password secret is kept as it is.
\<close>

theorem postgres_password_kept:
  assumes "api_ok r v" "rand_ok r v" "v w (pg_secret_key r) = Some s"
    "run_state (ReconcilePostgresResources r cr) w = (e, w')"
  shows "v w' (pg_secret_key r) = Some s"
proof (rule run_named_keeps [where P = "\<lambda>w. v w (pg_secret_key r) = Some s",
      OF _ assms(3) assms(4) [unfolded ReconcilePostgresResources_def]])
  fix n t w e w'
  assume task: "(n, t) \<in> set postgres_resource_tasks" and s: "v w (pg_secret_key r) = Some s"
    and run: "run_state (t r cr) w = (e, w')"
  note frames = postgres_create_frames [OF assms(1), of cr w e w' "pg_secret_key r"]
    postgres_policy_frame [OF assms(1), of cr w e w' "pg_secret_key r"]
    reconcilePostgresSecret_run(1) [OF assms(1,2), of cr w e w' s]
  have "t = reconcilePostgresConfigMap \<or> t = reconcilePostgresBootstrapSecret \<or> t = reconcilePostgresSecret \<or>
      t = reconcilePostgresNetworkPolicy \<or> t = reconcilePostgresServiceAccount"
    using task by (auto simp: postgres_resource_tasks_def)
  then have "v w' (pg_secret_key r) = v w (pg_secret_key r)"
    using run s frames pg_secret_keys_differ by (elim disjE) simp_all
  then show "v w' (pg_secret_key r) = Some s" using s by simp
qed

text \<open>
  (C19) On a fresh cluster the resource phase undoes its own work: it creates the bootstrap secret
  and then, before it creates the password secret, deletes every secret with the label of the
  operand, the bootstrap secret among them. After a successful first run the password secret
  with a password of 16 characters is there and the bootstrap secret, which the pod mounts, is
  not.
\<close>

theorem postgres_bootstrap_lost:
  assumes "api_ok r v" "rand_ok r v" "v w (pg_secret_key r) = None" "v w (pg_boot_key r) = None"
    "run_state (ReconcilePostgresResources r cr) w = (None, w')"
  shows "v w' (pg_boot_key r) = None \<and> (\<exists>s p. v w' (pg_secret_key r) = Some s \<and>
    fmlookup (secret_data (k_payload s)) PostgresSecretKeyName = Some p \<and> length p = 16)"
proof -
  note ne = pg_secret_keys_differ pg_secret_keys_differ [symmetric]
  note run = assms(5) [unfolded ReconcilePostgresResources_def postgres_resource_tasks_def]
  obtain w1 where t1: "run_state (reconcilePostgresConfigMap r cr) w = (None, w1)"
    and r1: "run_state (run_named r cr (tl postgres_resource_tasks)) w1 = (None, w')"
    using run_named_Cons [OF run] by (auto simp: postgres_resource_tasks_def)
  obtain w2 where t2: "run_state (reconcilePostgresBootstrapSecret r cr) w1 = (None, w2)"
    and r2: "run_state (run_named r cr (tl (tl postgres_resource_tasks))) w2 = (None, w')"
    using run_named_Cons [OF r1 [unfolded postgres_resource_tasks_def list.sel]] by (auto simp: postgres_resource_tasks_def)
  obtain w3 where t3: "run_state (reconcilePostgresSecret r cr) w2 = (None, w3)"
    and r3: "run_state (run_named r cr (tl (tl (tl postgres_resource_tasks)))) w3 = (None, w')"
    using run_named_Cons [OF r2 [unfolded postgres_resource_tasks_def list.sel]] by (auto simp: postgres_resource_tasks_def)
  have boot2: "\<exists>b. v w2 (pg_boot_key r) = Some b \<and> stored_as (GeneratePostgresBootstrapSecret r cr) b"
    using create_missing_new [OF assms(1) postgres_keys(2) t2 [unfolded reconcilePostgresBootstrapSecret_def]]
      postgres_create_frames(1) [OF assms(1) t1, of "pg_boot_key r"] assms(4) by simp
  then obtain b where b: "v w2 (pg_boot_key r) = Some b" "stored_as (GeneratePostgresBootstrapSecret r cr) b" by blast
  have pw2: "v w2 (pg_secret_key r) = None"
    using postgres_create_frames(1) [OF assms(1) t1, of "pg_secret_key r"]
      postgres_create_frames(2) [OF assms(1) t2, of "pg_secret_key r"] assms(3) ne by simp
  obtain bs s wd wd' where s: "run_state (deleteOldPostgresSecrets r) wd = (None, wd')" "v wd = v w2"
    "length bs = 12" "stored_as (postgres_secret r cr (EncodeToString bs)) s" "v w3 = (v wd')(pg_secret_key r \<mapsto> s)"
    using reconcilePostgresSecret_run(2) [OF assms(1,2) t3 refl pw2] by blast
  have "deleted_as b (v wd' (pg_boot_key r))"
    using deleteOldPostgresSecrets_run(1) [OF assms(1) s(1) refl, of "pg_boot_key r" b] b s(2)
    by (simp add: stored_as_def postgres_keys) (simp add: key_of_def GeneratePostgresBootstrapSecret_def set_controller_def new_meta_def)
  then have boot: "v w3 (pg_boot_key r) = None"
    using b(2) s(5) ne by (simp add: deleted_as_def stored_as_def GeneratePostgresBootstrapSecret_def set_controller_def new_meta_def)
  obtain w4 where t4: "run_state (reconcilePostgresNetworkPolicy r cr) w3 = (None, w4)"
    and r4: "run_state (run_named r cr (tl (tl (tl (tl postgres_resource_tasks))))) w4 = (None, w')"
    using run_named_Cons [OF r3 [unfolded postgres_resource_tasks_def list.sel]] by (auto simp: postgres_resource_tasks_def)
  have t5: "run_state (reconcilePostgresServiceAccount r cr) w4 = (None, w')"
    using run_named_Cons [OF r4 [unfolded postgres_resource_tasks_def list.sel]] by (auto simp: run_named_def)
  have "v w' k = v w3 k" if "fst k = Secret" for k
    using postgres_policy_frame [OF assms(1) t4, of k] postgres_create_frames(3) [OF assms(1) t5, of k] that by (cases k) simp
  then have "v w' (pg_boot_key r) = None" "v w' (pg_secret_key r) = Some s" using boot s(5) by simp_all
  moreover have "fmlookup (secret_data (k_payload s)) PostgresSecretKeyName = Some (EncodeToString bs)"
    using s(4) by (simp add: stored_as_def postgres_secret_def set_controller_def payload_stored_other)
  ultimately show ?thesis using s(3) by (simp add: length_EncodeToString)
qed

section \<open>The Deployment phase\<close>

abbreviation pg_dep_key :: "'w reconciler \<Rightarrow> okey" where
  "pg_dep_key r \<equiv> (Deployment, GetNamespace r, PostgresDeploymentName)"

abbreviation pg_pvc_key :: "'w reconciler \<Rightarrow> okey" where
  "pg_pvc_key r \<equiv> (PersistentVolumeClaim, GetNamespace r, PostgresPVCName)"

lemma postgres_deployment_complete:
  "key_of (postgres_deployment r cr cv) = pg_dep_key r"
  "complete_deployment (dep_of (postgres_deployment r cr cv))"
  "dep_of (postgres_deployment r cr cv) = postgres_spec r cr"
  by (simp_all add: postgres_deployment_def postgres_spec_def complete_deployment_def complete_container_def
      postgres_container_def postgres_volumes_def zero_pod_def supported_volume_def emptydir_volume_def
      secret_volume_def configmap_volume_def GetPostgresCAConfigVolume_def ApplyPodDeploymentConfig_def Let_def)

text \<open>The step keeps the spec current; the version annotation decides only whether it rolls.\<close>

lemma UpdatePostgresDeployment_run:
  assumes api: "api_ok r v" and ob: "key_of ob = pg_dep_key r" "v w (pg_dep_key r) = Some ob"
    "m_deleting (k_meta ob) \<longrightarrow> m_finalizers (k_meta ob) \<noteq> []"
    and run: "run_state (UpdatePostgresDeployment r ob (postgres_deployment r cr cv)) w = (e, w')"
  shows "(e = None \<longrightarrow> (\<exists>s. v w' (pg_dep_key r) = Some s \<and> deployment_current True (postgres_deployment r cr cv) s)) \<and>
    (\<forall>k. k \<noteq> pg_dep_key r \<longrightarrow> v w' k = v w k)"
proof -
  let ?d = "postgres_deployment r cr cv" and ?a = PostgresConfigMapResourceVersionAnnotation
  let ?new = "copy_versions [?a] ?d (set_dep_spec (SetDefaults_Deployment (dep_of ?d)) ob)"
  obtain x w1 where g: "run_state (GetConfigMapResourceVersion r PostgresConfigMap) w = (x, w1)" by force
  have v1: "v w1 = v w" using configmap_version_run [OF api g] by simp
  consider (stop) "w' \<in> {w, w1}" "e \<noteq> None \<or> deployment_current True ?d ob"
    | (roll) "run_state (RestartPostgres r (Some ?new)) w1 = (e, w')"
    using run g by (cases x)
      (auto simp: UpdatePostgresDeployment_def deployment_current_def Let_def split: option.splits if_splits)
  then show ?thesis
  proof cases
    case roll
    have new: "key_of ?new = pg_dep_key r" "dep_of ?new = SetDefaults_Deployment (dep_of ?d)" using ob(1) by simp_all
    have "(e = None \<longrightarrow> (\<exists>s ob' a. v w' (pg_dep_key r) = Some s \<and> stored_as ob' s \<and> fst (key_of ob') = Deployment \<and>
        dep_of ob' = (SetDefaults_Deployment (dep_of ?d))\<lparr>d_tmpl_annotations := a\<rparr>)) \<and> (\<forall>k. k \<noteq> pg_dep_key r \<longrightarrow> v w' k = v w1 k)"
      using restart_named_writes [OF api, of PostgresDeploymentName, unfolded writes_deployment_def, rule_format, of ?new w1 e w']
        roll ob(3) new by (simp add: RestartPostgres_def)
    then show ?thesis
      using stored_dep_of rewritten_spec_equal postgres_deployment_complete(2) v1 unfolding deployment_current_def by metis
  qed (use ob v1 in auto)
qed

lemma ensures_postgres_deployment:
  assumes "api_ok r v"
  shows "ensures v {pg_dep_key r} (\<lambda>f. \<exists>s. f (pg_dep_key r) = Some s \<and>
     deployment_current True (postgres_deployment r cr []) s) (reconcilePostgresDeployment r cr)"
proof -
  let ?G = "\<lambda>f. \<exists>s. f (pg_dep_key r) = Some s \<and> deployment_current True (postgres_deployment r cr []) s"
  have same: "deployment_current True (postgres_deployment r cr cv) = deployment_current True (postgres_deployment r cr [])" for cv
    by (simp add: deployment_current_def postgres_deployment_complete(3) fun_eq_iff)
  have step: "ensures v {pg_dep_key r} ?G (fetch r (pg_dep_key r) (create_as r ErrCreatePostgresDeployment (postgres_deployment r cr cv))
      (\<lambda>e. ret (Some (wrapf ErrGetPostgresDeployment e))) (\<lambda>existing. do {
         e \<leftarrow> UpdatePostgresDeployment r existing (postgres_deployment r cr cv);
         ret (map_option (wrapf ErrUpdatePostgresDeployment) e) }))" for cv
  proof (rule ensures_fetch [OF assms on_keys_object])
    fix w e w'
    assume "run_state (create_as r ErrCreatePostgresDeployment (postgres_deployment r cr cv)) w = (e, w')"
    then obtain ce where c: "run_state (cl_create r (postgres_deployment r cr cv)) w = (ce, w')"
      "e = map_option (wrapf ErrCreatePostgresDeployment) ce" by (auto simp: run_create_as split: prod.splits)
    have "deployment_current True (postgres_deployment r cr cv) s" if "stored_as (postgres_deployment r cr cv) s" for s
      unfolding deployment_current_def
      by (rule stored_spec_equal [OF stored_dep_of [OF that]]) (simp_all add: postgres_deployment_complete(1,2))
    then have "deployment_current True (postgres_deployment r cr []) s" if "stored_as (postgres_deployment r cr cv) s" for s
      using that same [of cv] by simp
    then show "(e = None \<longrightarrow> ?G (v w')) \<and> (\<forall>k'. k' \<notin> {pg_dep_key r} \<longrightarrow> v w' k' = v w k')"
      using api_create(2,3) [OF assms c(1)] c(2) postgres_deployment_complete(1) [of r cr cv] by (cases ce) auto
  next
    fix ob w e w'
    assume ob: "v w (pg_dep_key r) = Some ob" "key_of ob = pg_dep_key r"
      "m_deleting (k_meta ob) \<longrightarrow> m_finalizers (k_meta ob) \<noteq> []"
      and run: "run_state (do { e \<leftarrow> UpdatePostgresDeployment r ob (postgres_deployment r cr cv);
         ret (map_option (wrapf ErrUpdatePostgresDeployment) e) }) w = (e, w')"
    obtain ue where u: "run_state (UpdatePostgresDeployment r ob (postgres_deployment r cr cv)) w = (ue, w')"
      "e = map_option (wrapf ErrUpdatePostgresDeployment) ue" using run by (auto split: prod.splits)
    show "(e = None \<longrightarrow> ?G (v w')) \<and> (\<forall>k'. k' \<notin> {pg_dep_key r} \<longrightarrow> v w' k' = v w k')"
      using UpdatePostgresDeployment_run [OF assms ob(2,1,3) u(1)] u(2) by (simp add: same [of cv])
  qed
  have "(e = None \<longrightarrow> ?G (v w')) \<and> (\<forall>k. k \<notin> {pg_dep_key r} \<longrightarrow> v w' k = v w k)"
    if run: "run_state (reconcilePostgresDeployment r cr) w = (e, w')" for w e w'
  proof -
    obtain x w1 where g: "run_state (GetConfigMapResourceVersion r PostgresConfigMap) w = (x, w1)" by force
    have v1: "v w1 = v w" using configmap_version_run [OF assms g] by simp
    have "run_state (fetch r (pg_dep_key r) (create_as r ErrCreatePostgresDeployment
        (postgres_deployment r cr (case x of Inl e \<Rightarrow> [] | Inr cv \<Rightarrow> cv)))
      (\<lambda>e. ret (Some (wrapf ErrGetPostgresDeployment e))) (\<lambda>existing. do {
         e \<leftarrow> UpdatePostgresDeployment r existing (postgres_deployment r cr (case x of Inl e \<Rightarrow> [] | Inr cv \<Rightarrow> cv));
         ret (map_option (wrapf ErrUpdatePostgresDeployment) e) })) w1 = (e, w')"
      using run g by (simp add: reconcilePostgresDeployment_def GeneratePostgresDeployment_def try_or_def)
    from ensuresD(1,2) [OF step this] v1 show ?thesis by metis
  qed
  then show ?thesis unfolding ensures_def using on_keys_object by blast
qed

text \<open>Reading the storage classes changes nothing, so the claim is the only object of its step.\<close>

lemma GeneratePostgresPVC_run:
  assumes "api_ok r v" "run_state (GeneratePostgresPVC r cr storage) w = (x, w')"
  shows "v w' = v w \<and> (\<forall>pvc. x = Inr pvc \<longrightarrow> key_of pvc = pg_pvc_key r)"
proof -
  obtain y w1 where s: "run_state (storageDefaults r storage) w = (y, w1)" by force
  obtain z w2 where l: "run_state (cl_list r StorageClass [] fmempty) w = (z, w2)" by force
  have "v w1 = v w"
    using s l api_list(1) [OF assms(1) l] by (auto simp: storageDefaults_def Let_def split: if_splits)
  then show ?thesis using assms(2) s
    by (cases y) (auto simp: GeneratePostgresPVC_def key_of_def set_controller_def new_meta_def)
qed

lemma ensures_postgres_pvc:
  assumes "api_ok r v"
  shows "ensures v {pg_pvc_key r} (\<lambda>f. o_Storage (s_OLSConfig (cr_Spec cr)) \<noteq> None \<longrightarrow> f (pg_pvc_key r) \<noteq> None)
     (reconcilePostgresPVC r cr)"
proof (cases "o_Storage (s_OLSConfig (cr_Spec cr))")
  case None
  then show ?thesis by (auto simp: reconcilePostgresPVC_def ensures_def on_keys_def)
next
  case (Some storage)
  have "(e = None \<longrightarrow> v w' (pg_pvc_key r) \<noteq> None) \<and> (\<forall>k. k \<notin> {pg_pvc_key r} \<longrightarrow> v w' k = v w k)"
    if run: "run_state (reconcilePostgresPVC r cr) w = (e, w')" for w e w'
  proof -
    obtain x w1 where g: "run_state (GeneratePostgresPVC r cr storage) w = (x, w1)" by force
    note gen = GeneratePostgresPVC_run [OF assms g]
    show ?thesis
    proof (cases x)
      case (Inr pvc)
      then have "run_state (create_missing r ErrGetPostgresPVC ErrCreatePostgresPVC (pg_pvc_key r) pvc) w1 = (e, w')"
        using run g Some by (simp add: reconcilePostgresPVC_def try_or_def)
      with settlesD(1,2) [OF settles_create_missing [OF assms] this] gen Inr show ?thesis by simp
    qed (use run g gen Some in \<open>auto simp: reconcilePostgresPVC_def try_or_def\<close>)
  qed
  then show ?thesis using Some by (auto simp: ensures_def on_keys_def)
qed

text \<open>
  (C18) The Deployment phase of the database: when it succeeds, the volume claim is there if storage is
  configured, the Deployment runs the generated spec with the Recreate strategy, whatever was
  there before, and the Service exists; nothing but these three objects is ever written.
\<close>

theorem postgres_phase2_converges:
  assumes "api_ok r v" "run_state (ReconcilePostgresDeployment r cr) w = (e, w')"
  shows "(e = None \<longrightarrow>
      (o_Storage (s_OLSConfig (cr_Spec cr)) \<noteq> None \<longrightarrow> v w' (pg_pvc_key r) \<noteq> None) \<and>
      (\<exists>s. v w' (pg_dep_key r) = Some s \<and> deployment_current True (postgres_deployment r cr []) s \<and>
         d_strategy (dep_of s) = \<lparr>st_type = ''Recreate'', st_rolling = None\<rparr>) \<and>
      v w' (Service, GetNamespace r, PostgresServiceName) \<noteq> None) \<and>
    (\<forall>k. k \<notin> {pg_pvc_key r, pg_dep_key r, (Service, GetNamespace r, PostgresServiceName)} \<longrightarrow> v w' k = v w k)"
proof -
  let ?svc = "(Service, GetNamespace r, PostgresServiceName)"
  let ?specs = "[({pg_pvc_key r}, \<lambda>f. o_Storage (s_OLSConfig (cr_Spec cr)) \<noteq> None \<longrightarrow> f (pg_pvc_key r) \<noteq> None),
     ({pg_dep_key r}, \<lambda>f. \<exists>s. f (pg_dep_key r) = Some s \<and> deployment_current True (postgres_deployment r cr []) s),
     ({?svc}, \<lambda>f. f ?svc \<noteq> None)] :: task_spec list"
  have svc: "ensures v {?svc} (\<lambda>f. f ?svc \<noteq> None) (reconcilePostgresService r cr)"
    unfolding reconcilePostgresService_def
    by (rule settles_ensures [OF settles_create_missing [OF assms(1)]]) (simp add: postgres_keys)
  have "ensures v (\<Union> (fst ` set ?specs)) (\<lambda>f. \<forall>(K, G) \<in> set ?specs. G f) (ReconcilePostgresDeployment r cr)"
    unfolding ReconcilePostgresDeployment_def postgres_deployment_tasks_def
    by (rule ensures_RunReconcileTasks)
      (simp only: list_all2_Cons list_all2_Nil prod.case ensures_postgres_pvc [OF assms(1)] ensures_postgres_deployment [OF assms(1)] svc simp_thms,
       simp add: disjoint_specs_def)
  note en = ensuresD(1,2) [OF this assms(2)]
  have "d_strategy (dep_of s) = \<lparr>st_type = ''Recreate'', st_rolling = None\<rparr>"
    if "deployment_current True (postgres_deployment r cr []) s" for s
    using that by (simp add: deployment_current_def postgres_deployment_complete(3) postgres_spec_def
        DeploymentSpecEqual_def SetDefaults_Deployment_def default_strategy_def Let_def split: if_splits)
  with en show ?thesis by auto
qed

section \<open>Sample runs\<close>

text \<open>On the in-memory cluster every task of the resource phase succeeds.\<close>

lemma mem_create_missing:
  "key_of d = k \<Longrightarrow> fst (run_state (create_missing (mem_reconciler op) a b k d) w) = None"
  by (cases "mem_view w k") (simp_all add: create_missing_def run_fetch run_create_as mem_get_def mem_create_def)

lemma mem_rand_ok: "rand_ok (mem_reconciler op) mem_view"
  by (simp add: rand_ok_def)

lemma mem_postgres_resources:
  "fst (run_state (ReconcilePostgresResources (mem_reconciler op) cr) w) = None"
  unfolding ReconcilePostgresResources_def
proof (rule run_named_succeeds)
  let ?r = "mem_reconciler op"
  fix n t w assume "(n, t) \<in> set (postgres_resource_tasks :: mem ReconcileTask list)"
  then consider "t = reconcilePostgresConfigMap" | "t = reconcilePostgresBootstrapSecret" | (s) "t = reconcilePostgresSecret"
    | (p) "t = reconcilePostgresNetworkPolicy" | "t = reconcilePostgresServiceAccount"
    by (auto simp: postgres_resource_tasks_def)
  then show "fst (run_state (t ?r cr) w) = None"
  proof cases
    case s
    obtain w1 where d: "run_state (deleteOldPostgresSecrets ?r) w = (None, w1)"
      by (simp add: deleteOldPostgresSecrets_def try_or_def mem_list_def mem_delete_all_def Let_def)
    show ?thesis
      using deleteOldPostgresSecrets_run(3) [OF mem_reconciler_ok d, of "pg_secret_key ?r"] d
      by (cases "mem_view w (pg_secret_key ?r)")
        (simp_all add: s reconcilePostgresSecret_def GeneratePostgresSecret_def run_fetch mem_get_def try_or_def
          and_then_def run_create_as mem_create_def postgres_keys)
  next
    case p
    let ?k = "(NetworkPolicy, GetNamespace ?r, PostgresNetworkPolicyName)"
    have "kind_of (k_payload (GeneratePostgresNetworkPolicy ?r cr)) = NetworkPolicy"
      "m_namespace (k_meta (GeneratePostgresNetworkPolicy ?r cr)) = GetNamespace ?r"
      "m_name (k_meta (GeneratePostgresNetworkPolicy ?r cr)) = PostgresNetworkPolicyName"
      using postgres_keys(4) [of ?r cr] by (simp_all add: key_of_def)
    then show ?thesis
      using api_get(3,4) [OF mem_reconciler_ok, of op ?k w _ w] 
      by (cases "mem_view w ?k")
        (auto simp: p reconcilePostgresNetworkPolicy_def create_or_update_def run_fetch mem_get_def run_create_as
          run_update_as mem_create_def mem_update_def Let_def key_of_def split: prod.splits)
  qed (simp_all add: pg_task_defs mem_create_missing postgres_keys)
qed

theorem postgres_password_kept_witness:
  defines "r \<equiv> mem_reconciler (no_options ''ns'')"
  defines "m \<equiv> fmupd (pg_secret_key r) (postgres_secret r (blank_cr []) ''pw'') fmempty"
  shows "mem_view (snd (run_state (ReconcilePostgresResources r (blank_cr [])) m)) (pg_secret_key r) =
     Some (postgres_secret r (blank_cr []) ''pw'')"
proof -
  have "mem_view m (pg_secret_key r) = Some (postgres_secret r (blank_cr []) ''pw'')"
    by (simp add: m_def mem_view_def postgres_keys) (simp add: postgres_secret_def set_controller_def new_meta_def)
  then show ?thesis
    using postgres_password_kept [OF mem_reconciler_ok mem_rand_ok, of m] unfolding r_def by (metis prod.collapse)
qed

theorem postgres_bootstrap_lost_witness:
  "mem_view (snd (run_state (ReconcilePostgresResources (mem_reconciler (no_options ''ns'')) (blank_cr [])) fmempty))
     (pg_boot_key (mem_reconciler (no_options ''ns''))) = None"
proof -
  let ?m = "ReconcilePostgresResources (mem_reconciler (no_options ''ns'')) (blank_cr [])"
  have "run_state ?m fmempty = (None, snd (run_state ?m fmempty))"
    using mem_postgres_resources by (metis prod.collapse)
  from postgres_bootstrap_lost [OF mem_reconciler_ok mem_rand_ok _ _ this] show ?thesis by (simp add: mem_view_def)
qed

theorem postgres_phase2_converges_witness:
  "mem_view (snd (run_state (ReconcilePostgresDeployment (mem_reconciler (no_options ''ns'')) (blank_cr [])) fmempty))
     (Secret, ''ns'', ''x'') = None"
proof -
  let ?m = "ReconcilePostgresDeployment (mem_reconciler (no_options ''ns'')) (blank_cr [])"
  have "run_state ?m fmempty = (fst (run_state ?m fmempty), snd (run_state ?m fmempty))" by simp
  from postgres_phase2_converges [OF mem_reconciler_ok this] show ?thesis by (simp add: mem_view_def)
qed

end
