(* ===== verification/Isa_Level.thy ===== *)
theory Isa_Level
  imports Prelude "HOL-Library.Word"
begin

text \<open>
  The ISA level check of the build (\<open>cmd/check-isa-level\<close>): it reads the note section of the
  operator binary, looks for the property that names the needed x86-64 level and fails the build
  when the level is beyond v2. Bytes and the 32-bit sizes read from the file are words, so that
  the padding of a size wraps as it does in the code; offsets are 64-bit in the code and far from
  overflow, and natural numbers here. Opening the ELF file and reading a section are parameters.
\<close>

unbundle bit_operations_syntax

section \<open>Reading the notes\<close>

definition ntGNUPropertyType0 :: "32 word" where
  "ntGNUPropertyType0 = 5"

definition gnuPropertyX86ISA1Needed :: "32 word" where
  "gnuPropertyX86ISA1Needed = 0xc0008002"

definition isaV3 :: "32 word" where
  "isaV3 = push_bit 2 1"

definition isaV4 :: "32 word" where
  "isaV4 = push_bit 3 1"

definition isaBeyondV2 :: "32 word" where
  "isaBeyondV2 = isaV3 OR isaV4"

text \<open>\<open>binary.LittleEndian.Uint32\<close> of the four bytes at an offset, and a slice \<open>data[a:b]\<close>.\<close>

definition Uint32 :: "8 word list \<Rightarrow> nat \<Rightarrow> 32 word" where
  "Uint32 data off = word_of_nat (unat (data ! off) + 256 * unat (data ! (off + 1)) +
     65536 * unat (data ! (off + 2)) + 16777216 * unat (data ! (off + 3)))"

definition slice :: "8 word list \<Rightarrow> nat \<Rightarrow> nat \<Rightarrow> 8 word list" where
  "slice data a b = take (b - a) (drop a data)"

text \<open>The paddings \<open>(n + 3) &^ 3\<close> and \<open>(n + 7) &^ 7\<close>, in 32 bits.\<close>

definition pad4 :: "32 word \<Rightarrow> 32 word" where
  "pad4 n = (n + 3) AND NOT 3"

definition pad8 :: "32 word \<Rightarrow> 32 word" where
  "pad8 n = (n + 7) AND NOT 7"

text \<open>The inner loop over the properties of one note; it never slices out of bounds.\<close>

function find_property :: "8 word list \<Rightarrow> nat \<Rightarrow> 32 word option" where
  "find_property desc descOff =
     (if descOff + 8 \<le> length desc
      then let prType = Uint32 desc descOff; prDatasz = Uint32 desc (descOff + 4); off = descOff + 8 in
        (if off + unat prDatasz > length desc then None
         else if prType = gnuPropertyX86ISA1Needed \<and> prDatasz = 4 then Some (Uint32 desc off)
         else find_property desc (off + unat (pad8 prDatasz)))
      else None)"
  by pat_completeness auto

termination
  by (relation "measure (\<lambda>(desc, descOff). length desc - descOff)") auto

declare find_property.simps [simp del]

text \<open>
  The outer loop over the notes. Slicing beyond the data panics: the bound is checked with the
  padded size of the name, the slice is taken with the size itself.
\<close>

datatype 'a outcome = Panic | Done 'a

definition gnu_name :: "8 word list" where
  "gnu_name = [0x47, 0x4e, 0x55, 0]"

function find_note :: "8 word list \<Rightarrow> nat \<Rightarrow> 32 word option outcome" where
  "find_note data off =
     (if off + 12 \<le> length data
      then let namesz = Uint32 data off; descsz = Uint32 data (off + 4); ntype = Uint32 data (off + 8);
               o1 = off + 12; namePadded = pad4 namesz in
        (if o1 + unat namePadded + unat descsz > length data then Done None
         else if o1 + unat namesz > length data then Panic
         else let name = slice data o1 (o1 + unat namesz); o2 = o1 + unat namePadded;
                  desc = slice data o2 (o2 + unat descsz); o3 = o2 + unat (pad4 descsz) in
           (if ntype \<noteq> ntGNUPropertyType0 then find_note data o3
            else if namesz < 4 \<or> take 4 name \<noteq> gnu_name then find_note data o3
            else (case find_property desc 0 of Some val \<Rightarrow> Done (Some val) | None \<Rightarrow> find_note data o3)))
      else Done None)"
  by pat_completeness auto

termination
  by (relation "measure (\<lambda>(data, off). length data - off)") auto

declare find_note.simps [simp del]

section \<open>The command\<close>

text \<open>A section as \<open>debug/elf\<close> gives it: its name, its type and what reading it returns.\<close>

record elf_section =
  s_Name :: string
  s_Type :: nat
  s_Read :: "goerr + 8 word list"

definition SHT_NOTE :: nat where
  "SHT_NOTE = 7"

definition note_section :: "elf_section list \<Rightarrow> elf_section option" where
  "note_section sections = (case find (\<lambda>s. s_Name s = ''.note.gnu.property'') sections of
      Some s \<Rightarrow> Some s
    | None \<Rightarrow> find (\<lambda>s. s_Type s = SHT_NOTE) sections)"

definition getX86ISA1Needed ::
  "(string \<Rightarrow> goerr + elf_section list) \<Rightarrow> string \<Rightarrow> (goerr + 32 word \<times> bool) outcome" where
  "getX86ISA1Needed elf_open path = (case elf_open path of
      Inl err \<Rightarrow> Done (Inl err)
    | Inr sections \<Rightarrow> (case note_section sections of
        None \<Rightarrow> Done (Inr (0, False))
      | Some s \<Rightarrow> (case s_Read s of
          Inl err \<Rightarrow> Done (Inl err)
        | Inr data \<Rightarrow> (case find_note data 0 of
            Panic \<Rightarrow> Panic
          | Done None \<Rightarrow> Done (Inr (0, False))
          | Done (Some val) \<Rightarrow> Done (Inr (val, True))))))"

definition atMostX86_64_V2 ::
  "(string \<Rightarrow> goerr + elf_section list) \<Rightarrow> string \<Rightarrow> (goerr + bool) outcome" where
  "atMostX86_64_V2 elf_open path = (case getX86ISA1Needed elf_open path of
      Panic \<Rightarrow> Panic
    | Done (Inl err) \<Rightarrow> Done (Inl err)
    | Done (Inr (val, found)) \<Rightarrow> Done (Inr (if found then val AND isaBeyondV2 = 0 else False)))"

text \<open>Lower-case hexadecimal, \<open>%x\<close>.\<close>

definition hex_digit :: "nat \<Rightarrow> char" where
  "hex_digit n = ''0123456789abcdef'' ! (n mod 16)"

fun nat_to_hex :: "nat \<Rightarrow> string" where
  "nat_to_hex n = (if n < 16 then [hex_digit n] else nat_to_hex (n div 16) @ [hex_digit n])"

declare nat_to_hex.simps [simp del]

text \<open>
  \<open>main\<close> with the arguments after the program name. The result is what it prints to the error
  stream and the exit code; a panic exits with 2.
\<close>

definition main_isa :: "(string \<Rightarrow> goerr option) \<Rightarrow> (goerr \<Rightarrow> bool) \<Rightarrow>
    (string \<Rightarrow> goerr + elf_section list) \<Rightarrow> string list \<Rightarrow> string \<times> nat" where
  "main_isa stat isNotExist elf_open args =
     (let path = (case args of [] \<Rightarrow> ''manager'' | a # as \<Rightarrow> a) in
      case stat path of
        Some err \<Rightarrow>
          (if isNotExist err then (''binary not found: '' @ path @ [CHR 0x0A], 2)
           else (''stat '' @ path @ '': '' @ err_msg err @ [CHR 0x0A], 2))
      | None \<Rightarrow> (case atMostX86_64_V2 elf_open path of
          Panic \<Rightarrow> (''panic: runtime error: slice bounds out of range'', 2)
        | Done (Inl err) \<Rightarrow> (''reading ELF '' @ path @ '': '' @ err_msg err @ [CHR 0x0A], 2)
        | Done (Inr ok) \<Rightarrow>
            (if \<not> ok
             then let val = (case getX86ISA1Needed elf_open path of
                      Done (Inr (v, f)) \<Rightarrow> v | Done (Inl e) \<Rightarrow> 0 | Panic \<Rightarrow> 0) in
               (path @ '' requires ISA level beyond x86-64-v2 (GNU_PROPERTY_X86_ISA_1_NEEDED=0x'' @
                  nat_to_hex (unat val) @ '' has v3/v4 bits)'' @ [CHR 0x0A], 1)
             else ([], 0))))"

text \<open>On other platforms the check does nothing.\<close>

definition main_isa_other :: nat where
  "main_isa_other = 0"

section \<open>Padding and words\<close>

lemma u32_less: "unat w < 2 ^ 32" for w :: "32 word"
  using unsigned_less [of w] by simp

lemma and_not_mask: "w AND NOT (mask k) = push_bit k (drop_bit k w)" for w :: "32 word"
  by (rule bit_word_eqI) (auto simp: bit_simps)

lemma unat_and_not_mask: "unat (w AND NOT (mask k)) = unat w div 2 ^ k * 2 ^ k" for w :: "32 word"
proof -
  have "unat w div 2 ^ k * 2 ^ k < 2 ^ 32"
    by (rule le_less_trans [OF div_times_less_eq_dividend u32_less])
  moreover have "unat (push_bit k (drop_bit k w)) = take_bit 32 (push_bit k (drop_bit k (unat w)))"
    using unsigned_push_bit_eq [where 'a = nat, of k "drop_bit k w"] unfolding unat_drop_bit_eq by simp
  ultimately show ?thesis
    unfolding and_not_mask by (simp only: take_bit_eq_mod push_bit_eq_mult drop_bit_eq_div mod_less)
qed

lemma unat_pad:
  "unat (pad4 n) = (unat n + 3) mod 2 ^ 32 div 4 * 4" "unat (pad8 n) = (unat n + 7) mod 2 ^ 32 div 8 * 8"
proof -
  have m: "mask 2 = (3 :: 32 word)" "mask 3 = (7 :: 32 word)" by (simp_all add: mask_eq_exp_minus_1)
  show "unat (pad4 n) = (unat n + 3) mod 2 ^ 32 div 4 * 4"
    using unat_and_not_mask [of "n + 3" 2] by (simp add: pad4_def m unat_word_ariths)
  show "unat (pad8 n) = (unat n + 7) mod 2 ^ 32 div 8 * 8"
    using unat_and_not_mask [of "n + 7" 3] by (simp add: pad8_def m unat_word_ariths)
qed

text \<open>The padded size is below the size exactly for the three largest sizes, where it is zero.\<close>

lemma pad4_wraps: "unat (pad4 n) < unat n \<longleftrightarrow> 2 ^ 32 - 3 \<le> unat n"
proof (cases "unat n + 3 < 2 ^ 32")
  case True
  then show ?thesis using div_mult_mod_eq [of "unat n + 3" 4] mod_less_divisor [of 4 "unat n + 3"]
    by (simp add: unat_pad)
next
  case False
  then have "(unat n + 3) mod 2 ^ 32 = unat n + 3 - 2 ^ 32"
    using u32_less [of n] by (subst le_mod_geq) simp_all
  moreover have "unat n + 3 - 2 ^ 32 < 4" using u32_less [of n] by simp
  ultimately show ?thesis using False by (simp add: unat_pad)
qed

section \<open>When the check panics\<close>

lemma find_note_end: "length data < off + 12 \<Longrightarrow> find_note data off = Done None"
  by (subst find_note.simps) simp

text \<open>One round of the outer loop: it stops with a result, panics, or goes on behind the note.\<close>

lemma find_note_round:
  assumes "off + 12 \<le> length data"
  defines "next \<equiv> off + 12 + unat (pad4 (Uint32 data off)) + unat (pad4 (Uint32 data (off + 4)))"
  shows "find_note data off = Done None \<or> (\<exists>val. find_note data off = Done (Some val)) \<or>
    find_note data off = Panic \<and> length data < off + 12 + unat (Uint32 data off) \<and>
      off + 12 + unat (pad4 (Uint32 data off)) \<le> length data \<or>
    find_note data off = find_note data next"
  unfolding next_def using assms(1)
  by (subst (1 2 3 4) find_note.simps) (simp add: Let_def add.assoc split: option.splits)

text \<open>
  The reader panics only on a note whose name size is one of the three largest 32-bit numbers:
  for all others the padded size, which the bound is checked with, is at least the size.
\<close>

theorem find_note_panics_only:
  assumes "find_note data off = Panic"
  shows "\<exists>i. off \<le> i \<and> i + 12 \<le> length data \<and> 2 ^ 32 - 3 \<le> unat (Uint32 data i)"
  using assms
proof (induction "length data - off" arbitrary: off rule: less_induct)
  case less
  let ?next = "off + 12 + unat (pad4 (Uint32 data off)) + unat (pad4 (Uint32 data (off + 4)))"
  have len: "off + 12 \<le> length data" using less.prems find_note_end [of data off] by (cases "off + 12 \<le> length data") simp_all
  consider "length data < off + 12 + unat (Uint32 data off)" "off + 12 + unat (pad4 (Uint32 data off)) \<le> length data"
    | (go) "find_note data ?next = Panic" using find_note_round [OF len] less.prems by auto
  then show ?case
  proof cases
    case 1
    then have "unat (pad4 (Uint32 data off)) < unat (Uint32 data off)" by linarith
    then show ?thesis using pad4_wraps len by blast
  next
    case go
    have "length data - ?next < length data - off" using len by linarith
    from less.hyps [OF this go] obtain i where "?next \<le> i" "i + 12 \<le> length data"
      "2 ^ 32 - 3 \<le> unat (Uint32 data i)" by blast
    then show ?thesis by (intro exI [of _ i]) simp
  qed
qed

text \<open>
  (C35) It does panic there: a note that starts with such a name size, in a section shorter than 4 GiB,
  with a description that fits, is enough.
\<close>

theorem find_note_panics:
  assumes "2 ^ 32 - 3 \<le> unat (Uint32 data off)" "off + 12 \<le> length data"
    "off + 12 + unat (Uint32 data (off + 4)) \<le> length data" "length data < 2 ^ 32"
  shows "find_note data off = Panic"
proof -
  have "unat (pad4 (Uint32 data off)) = 0"
  proof -
    have "(unat (Uint32 data off) + 3) mod 2 ^ 32 = unat (Uint32 data off) + 3 - 2 ^ 32"
      using u32_less [of "Uint32 data off"] assms(1) by (subst le_mod_geq) simp_all
    moreover have "unat (Uint32 data off) + 3 - 2 ^ 32 < 4" using u32_less [of "Uint32 data off"] by simp
    ultimately show ?thesis by (simp add: unat_pad)
  qed
  then show ?thesis using assms by (subst find_note.simps) (simp add: Let_def)
qed

section \<open>Reading back what was written\<close>

text \<open>
  The format the reader is for: a property is its type, the size of its data and the data, padded
  to 8 bytes; a note is the sizes of its name and description, its type, the name and the
  description with its properties, each padded to 4 bytes.
\<close>

definition le32 :: "32 word \<Rightarrow> 8 word list" where
  "le32 w = map (\<lambda>k. word_of_nat (unat w div 256 ^ k mod 256)) [0, 1, 2, 3]"

definition padding :: "nat \<Rightarrow> nat \<Rightarrow> 8 word list" where
  "padding k n = replicate ((k - n mod k) mod k) 0"

type_synonym gnu_property = "32 word \<times> 8 word list"
type_synonym elf_note = "8 word list \<times> 32 word \<times> gnu_property list"

definition enc_property :: "gnu_property \<Rightarrow> 8 word list" where
  "enc_property = (\<lambda>(t, d). le32 t @ le32 (word_of_nat (length d)) @ d @ padding 8 (length d))"

definition enc_desc :: "gnu_property list \<Rightarrow> 8 word list" where
  "enc_desc ps = concat (map enc_property ps)"

definition enc_note :: "elf_note \<Rightarrow> 8 word list" where
  "enc_note = (\<lambda>(name, t, ps). le32 (word_of_nat (length name)) @ le32 (word_of_nat (length (enc_desc ps))) @
     le32 t @ name @ padding 4 (length name) @ enc_desc ps @ padding 4 (length (enc_desc ps)))"

definition enc_notes :: "elf_note list \<Rightarrow> 8 word list" where
  "enc_notes ns = concat (map enc_note ns)"

text \<open>The value asked for: the first four-byte ISA property of a GNU property note.\<close>

fun property_value :: "gnu_property list \<Rightarrow> 32 word option" where
  "property_value [] = None"
| "property_value ((t, d) # ps) =
     (if t = gnuPropertyX86ISA1Needed \<and> length d = 4 then Some (Uint32 d 0) else property_value ps)"

fun isa_value :: "elf_note list \<Rightarrow> 32 word option" where
  "isa_value [] = None"
| "isa_value ((name, t, ps) # ns) =
     (case (if t = ntGNUPropertyType0 \<and> take 4 name = gnu_name then property_value ps else None) of
        Some v \<Rightarrow> Some v | None \<Rightarrow> isa_value ns)"

lemma length_le32 [simp]: "length (le32 w) = 4"
  by (simp add: le32_def)

lemma Uint32_le32: "off = length pre \<Longrightarrow> Uint32 (pre @ le32 w @ post) off = w"
proof -
  have sum: "n mod 256 + 256 * (n div 256 mod 256) + 65536 * (n div 65536 mod 256) + 16777216 * (n div 16777216 mod 256) = n"
    if "n < 2 ^ 32" for n :: nat
  proof -
    have d: "n div 65536 = n div 256 div 256" "n div 16777216 = n div 256 div 256 div 256" by (simp_all add: div_mult2_eq [symmetric])
    have "n div 256 div 256 div 256 < 256" using that by (simp add: d(2) [symmetric] less_mult_imp_div_less)
    then have "n div 256 div 256 div 256 mod 256 = n div 256 div 256 div 256" by simp
    then show ?thesis
      using div_mult_mod_eq [of n 256] div_mult_mod_eq [of "n div 256" 256] div_mult_mod_eq [of "n div 256 div 256" 256]
      unfolding d by linarith
  qed
  have b: "unat (word_of_nat (m mod 256) :: 8 word) = m mod 256" for m :: nat
    by (simp add: unat_of_nat)
  show "off = length pre \<Longrightarrow> ?thesis"
  proof -
    assume off: "off = length pre"
    let ?d = "pre @ le32 w @ post"
    have "unat (?d ! off) = unat w mod 256" "unat (?d ! (off + 1)) = unat w div 256 mod 256"
      "unat (?d ! (off + 2)) = unat w div 65536 mod 256" "unat (?d ! (off + 3)) = unat w div 16777216 mod 256"
      using off by (simp_all only: le32_def) (simp_all only: list.map nth_append, simp_all add: b)
    then show ?thesis unfolding Uint32_def by (simp only: sum [OF u32_less [of w]]) simp
  qed
qed

lemma pad_up: "0 < k \<Longrightarrow> (n + (k - 1)) div k * k = n + (k - n mod k) mod k" for k n :: nat
proof -
  assume k: "0 < k"
  have "n + (k - 1) = (n mod k + (k - 1)) + n div k * k" using div_mult_mod_eq [of n k] by simp
  then have "(n + (k - 1)) div k = n div k + (n mod k + (k - 1)) div k" using k by (metis add.commute div_mult_self1 less_numeral_extra(3))
  moreover have "(n mod k + (k - 1)) div k = (if n mod k = 0 then 0 else 1)"
    using k mod_less_divisor [OF k, of n] by (auto simp: div_nat_eqI)
  ultimately have "(n + (k - 1)) div k * k = n div k * k + (if n mod k = 0 then 0 else k)" by (simp add: distrib_right)
  moreover have "n div k * k = n - n mod k" by (simp add: minus_mod_eq_div_mult)
  ultimately show ?thesis using mod_less_divisor [OF k, of n] mod_less_eq_dividend [of n k] by (simp only: split: if_splits) simp_all
qed

lemma pad_of_size:
  "n + 3 < 2 ^ 32 \<Longrightarrow> unat (pad4 (word_of_nat n)) = n + length (padding 4 n)"
  "n + 7 < 2 ^ 32 \<Longrightarrow> unat (pad8 (word_of_nat n)) = n + length (padding 8 n)"
proof -
  have u: "unat (word_of_nat n :: 32 word) = n" if "n < 2 ^ 32" using that by (simp add: unat_of_nat)
  have d: "(n + 3) div 4 * 4 = n + (4 - n mod 4) mod 4" "(n + 7) div 8 * 8 = n + (8 - n mod 8) mod 8"
    using pad_up [of 4 n] pad_up [of 8 n] by simp_all
  show "n + 3 < 2 ^ 32 \<Longrightarrow> unat (pad4 (word_of_nat n)) = n + length (padding 4 n)"
    unfolding unat_pad using d(1) u by (simp add: padding_def)
  show "n + 7 < 2 ^ 32 \<Longrightarrow> unat (pad8 (word_of_nat n)) = n + length (padding 8 n)"
    unfolding unat_pad using d(2) u by (simp add: padding_def)
qed

lemma size_word: "n < 2 ^ 32 \<Longrightarrow> unat (word_of_nat n :: 32 word) = n"
  by (simp add: unat_of_nat)

lemma slice_middle: "a = length pre \<Longrightarrow> b = a + length xs \<Longrightarrow> slice (pre @ xs @ post) a b = xs"
  by (simp add: slice_def)

lemma Uint32_prefix: "length xs = 4 \<Longrightarrow> off = length pre \<Longrightarrow> Uint32 (pre @ xs @ post) off = Uint32 xs 0"
  by (simp add: Uint32_def nth_append numeral_2_eq_2)

lemma find_property_enc:
  assumes "\<forall>(t, d) \<in> set ps. length d + 7 < 2 ^ 32"
  shows "find_property (pre @ enc_desc ps) (length pre) = property_value ps"
  using assms
proof (induction ps arbitrary: pre)
  case Nil
  then show ?case by (subst find_property.simps) (simp add: enc_desc_def)
next
  case (Cons p ps)
  obtain t d where p: "p = (t, d)" by force
  let ?data = "pre @ enc_desc (p # ps)"
  let ?pad = "padding 8 (length d)" and ?sz = "word_of_nat (length d) :: 32 word"
  have d: "length d + 7 < 2 ^ 32" using Cons.prems p by auto
  have split: "?data = pre @ le32 t @ le32 ?sz @ d @ ?pad @ enc_desc ps"
    "?data = (pre @ le32 t) @ le32 ?sz @ d @ ?pad @ enc_desc ps"
    "?data = (pre @ le32 t @ le32 ?sz) @ d @ ?pad @ enc_desc ps"
    "?data = (pre @ enc_property p) @ enc_desc ps"
    by (simp_all add: enc_desc_def enc_property_def p)
  have u: "Uint32 ?data (length pre) = t" "Uint32 ?data (length pre + 4) = ?sz"
    using Uint32_le32 [of "length pre" pre t] Uint32_le32 [of "length pre + 4" "pre @ le32 t" ?sz] split(1,2) by simp_all
  have sz: "unat ?sz = length d" "?sz = 4 \<longleftrightarrow> length d = 4"
    using size_word [of "length d"] d by (auto simp: word_unat_eq_iff)
  have next': "length pre + 8 + unat (pad8 ?sz) = length (pre @ enc_property p)"
    using pad_of_size(2) [OF d] by (simp add: enc_property_def p)
  have IH: "find_property ?data (length (pre @ enc_property p)) = property_value ps"
    unfolding split(4) by (rule Cons.IH) (use Cons.prems in auto)
  have val: "Uint32 ?data (length pre + 8) = Uint32 d 0" if "length d = 4"
    using Uint32_prefix [OF that, of "length pre + 8" "pre @ le32 t @ le32 ?sz"] split(3) by simp
  have len: "length pre + 8 + length d \<le> length ?data" unfolding split(1) by simp
  have "find_property ?data (length pre) = (if t = gnuPropertyX86ISA1Needed \<and> length d = 4
      then Some (Uint32 ?data (length pre + 8)) else property_value ps)"
    unfolding find_property.simps [of ?data "length pre"] Let_def u next' IH sz using len by simp
  then show ?case using val unfolding p by auto
qed

text \<open>Notes whose sizes fit the fields.\<close>

definition sizes_fit :: "elf_note \<Rightarrow> bool" where
  "sizes_fit = (\<lambda>(name, t, ps). length name + 3 < 2 ^ 32 \<and> length (enc_desc ps) + 3 < 2 ^ 32 \<and>
     (\<forall>(t, d) \<in> set ps. length d + 7 < 2 ^ 32))"

lemma find_note_enc:
  assumes "\<forall>n \<in> set ns. sizes_fit n"
  shows "find_note (pre @ enc_notes ns) (length pre) = Done (isa_value ns)"
  using assms
proof (induction ns arbitrary: pre)
  case Nil
  then show ?case by (subst find_note.simps) (simp add: enc_notes_def)
next
  case (Cons n ns)
  obtain name t ps where n: "n = (name, t, ps)" by (cases n)
  let ?data = "pre @ enc_notes (n # ns)"
  let ?nsz = "word_of_nat (length name) :: 32 word" and ?dsz = "word_of_nat (length (enc_desc ps)) :: 32 word"
  let ?np = "padding 4 (length name)" and ?dp = "padding 4 (length (enc_desc ps))"
  have fit: "length name + 3 < 2 ^ 32" "length (enc_desc ps) + 3 < 2 ^ 32" "\<forall>(t, d) \<in> set ps. length d + 7 < 2 ^ 32"
    using Cons.prems n by (auto simp: sizes_fit_def)
  have split: "?data = pre @ le32 ?nsz @ le32 ?dsz @ le32 t @ name @ ?np @ enc_desc ps @ ?dp @ enc_notes ns"
    by (simp add: enc_notes_def enc_note_def n)
  have split': "?data = (pre @ enc_note n) @ enc_notes ns" by (simp add: enc_notes_def)
  have u: "Uint32 ?data (length pre) = ?nsz" "Uint32 ?data (length pre + 4) = ?dsz" "Uint32 ?data (length pre + 8) = t"
    using Uint32_le32 [of "length pre" pre ?nsz] Uint32_le32 [of "length pre + 4" "pre @ le32 ?nsz" ?dsz]
      Uint32_le32 [of "length pre + 8" "pre @ le32 ?nsz @ le32 ?dsz" t] unfolding split by simp_all
  have sz: "unat ?nsz = length name" "unat ?dsz = length (enc_desc ps)"
    using fit by (simp_all only: size_word add_lessD1)
  note pads = pad_of_size(1) [OF fit(1)] pad_of_size(1) [OF fit(2)]
  have slices: "slice ?data (length pre + 12) (length pre + 12 + length name) = name"
    "slice ?data (length pre + 12 + (length name + length ?np)) (length pre + 12 + (length name + length ?np) + length (enc_desc ps)) = enc_desc ps"
    using slice_middle [of _ "pre @ le32 ?nsz @ le32 ?dsz @ le32 t" _ name]
      slice_middle [of _ "pre @ le32 ?nsz @ le32 ?dsz @ le32 t @ name @ ?np" _ "enc_desc ps"] unfolding split by (simp_all add: add.assoc)
  have IH: "find_note ?data (length pre + 12 + (length name + length ?np) + (length (enc_desc ps) + length ?dp)) = Done (isa_value ns)"
    using Cons.IH [of "pre @ enc_note n"] Cons.prems unfolding split' by (simp add: enc_note_def n add.assoc)
  have len: "length pre + 12 + (length name + length ?np) + length (enc_desc ps) \<le> length ?data" unfolding split by simp
  have short: "?nsz < 4 \<longleftrightarrow> length name < 4" using sz(1) by (simp add: word_less_nat_alt)
  have gnu: "length name < 4 \<Longrightarrow> take 4 name \<noteq> gnu_name" by (auto simp: gnu_name_def dest: arg_cong [where f = length])
  have props: "find_property (enc_desc ps) 0 = property_value ps"
    using find_property_enc [OF fit(3), of "[]"] by simp
  show ?case
    unfolding find_note.simps [of ?data "length pre"] Let_def u sz pads slices IH props
    using len gnu short by (auto simp: n split: option.splits)
qed

text \<open>
  (C34) The reader finds what a linker wrote: for every list of notes whose sizes fit the format, reading
  the encoded section gives the first ISA property of a GNU property note, or none when there is
  none, and never panics.
\<close>

theorem isa_roundtrip:
  assumes "\<forall>n \<in> set ns. sizes_fit n"
  shows "find_note (enc_notes ns) 0 = Done (isa_value ns)"
  using find_note_enc [OF assms, of "[]"] by simp

theorem isa_roundtrip_witness:
  "find_note (enc_notes [(gnu_name, 1, []), (gnu_name, 5, [(2, [1]), (0xc0008002, [3, 0, 0, 0])])]) 0 = Done (Some 3)"
  by (subst isa_roundtrip)
    (simp_all add: sizes_fit_def enc_desc_def enc_property_def padding_def gnu_name_def ntGNUPropertyType0_def
      gnuPropertyX86ISA1Needed_def Uint32_def)

text \<open>The panic in the smallest section: a header alone, with the largest name size.\<close>

definition bad_note :: "8 word list" where
  "bad_note = [0xff, 0xff, 0xff, 0xff, 0, 0, 0, 0, 5, 0, 0, 0]"

lemma bad_note_size: "unat (Uint32 bad_note 0) = 2 ^ 32 - 1" "Uint32 bad_note 4 = 0"
  by (simp_all add: bad_note_def Uint32_def)

theorem find_note_panics_witness: "find_note bad_note 0 = Panic"
  by (rule find_note_panics) (simp_all add: bad_note_size, simp_all add: bad_note_def)

theorem find_note_panics_only_witness: "2 ^ 32 - 3 \<le> unat (Uint32 bad_note 0)"
proof -
  have "find_note bad_note 0 = Panic"
    by (subst find_note.simps) (simp add: Let_def bad_note_size unat_pad, simp add: bad_note_def)
  from find_note_panics_only [OF this] obtain i where "i + 12 \<le> length bad_note" "2 ^ 32 - 3 \<le> unat (Uint32 bad_note i)" by blast
  then show ?thesis by (simp add: bad_note_def)
qed

section \<open>The verdict\<close>

lemma isaBeyondV2_bits: "val AND isaBeyondV2 = 0 \<longleftrightarrow> \<not> bit val 2 \<and> \<not> bit val 3"
proof -
  have "bit (val AND isaBeyondV2) n \<longleftrightarrow> bit val n \<and> (n = 2 \<or> n = 3)" for n
    unfolding isaBeyondV2_def isaV3_def isaV4_def bit_and_iff bit_or_iff bit_push_bit_iff bit_1_iff
    by (auto dest: bit_imp_le_length)
  then show ?thesis by (metis bit_0_eq bit_word_eqI bot_apply bot_bool_def)
qed

text \<open>
  The check accepts a binary exactly when it can be read and names its ISA level, with neither the
  v3 nor the v4 bit.
\<close>

theorem main_isa_accepts:
  "snd (main_isa stat isNotExist elf_open [path]) = 0 \<longleftrightarrow>
     stat path = None \<and> (\<exists>val. getX86ISA1Needed elf_open path = Done (Inr (val, True)) \<and> \<not> bit val 2 \<and> \<not> bit val 3)"
  by (auto simp: main_isa_def atMostX86_64_V2_def isaBeyondV2_bits split: option.splits outcome.splits sum.splits)

text \<open>
  A binary that names no ISA level is rejected as if it needed one beyond v2: the message claims
  v3 or v4 bits in the value zero.
\<close>

theorem main_isa_missing_rejected:
  assumes "stat path = None" "elf_open path = Inr sections" "note_section sections = None"
  shows "main_isa stat isNotExist elf_open [path] =
    (path @ '' requires ISA level beyond x86-64-v2 (GNU_PROPERTY_X86_ISA_1_NEEDED=0x0 has v3/v4 bits)'' @ [CHR 0x0A], 1)"
  using assms
  by (simp add: main_isa_def atMostX86_64_V2_def getX86ISA1Needed_def nat_to_hex.simps [of 0] hex_digit_def)

theorem main_isa_missing_rejected_witness:
  "snd (main_isa (\<lambda>p. None) (\<lambda>e. False) (\<lambda>p. Inr [\<lparr>s_Name = ''.text'', s_Type = 1, s_Read = Inr []\<rparr>]) [''manager'']) = 1"
proof -
  have "note_section [\<lparr>s_Name = ''.text'', s_Type = 1, s_Read = Inr []\<rparr>] = None"
    by (simp add: note_section_def SHT_NOTE_def)
  then show ?thesis by (subst main_isa_missing_rejected) simp_all
qed

end
