(* ===== verification/Tls_Profile.thy ===== *)
theory Tls_Profile
  imports Utils_Validate
begin

text \<open>
  TLS security profiles (\<open>internal/tls/tls_security_profile.go\<close>): which profile applies, and the
  codes of its minimum version and its ciphers.
\<close>

section \<open>TLS security profiles\<close>

text \<open>
  The table of profiles is the one of the OpenShift API package. The program reads its
  intermediate entry before \<open>main\<close> starts, so that entry is a field of its own.
\<close>

definition APIServerName :: string where
  "APIServerName = ''cluster''"

definition DefaultTLSProfileType :: string where
  "DefaultTLSProfileType = ''Intermediate''"

definition DefaultTLSCiphers :: "tls_library \<Rightarrow> string list" where
  "DefaultTLSCiphers l = tp_Ciphers (tl_default l)"

definition DefaultMinTLSVersion :: "tls_library \<Rightarrow> string" where
  "DefaultMinTLSVersion l = tp_MinTLSVersion (tl_default l)"

definition FetchAPIServerTlsProfile :: "('w, 'x) client_scheme \<Rightarrow> ('w, goerr + TLSSecurityProfile option) io" where
  "FetchAPIServerTlsProfile c = do {
     x \<leftarrow> cl_get c (APIServer, [], APIServerName);
     ret (case x of
        Inl e \<Rightarrow> Inl e
      | Inr ob \<Rightarrow> Inr (case k_payload ob of PAPIServer p \<Rightarrow> p | _ \<Rightarrow> None)) }"

definition TLSCiphers :: "tls_library \<Rightarrow> TLSProfileSpec \<Rightarrow> string list" where
  "TLSCiphers l profile = (if tp_Ciphers profile = [] then DefaultTLSCiphers l else tp_Ciphers profile)"

definition MinTLSVersion :: "tls_library \<Rightarrow> TLSProfileSpec \<Rightarrow> string" where
  "MinTLSVersion l profile =
     (if tp_MinTLSVersion profile = [] then DefaultMinTLSVersion l else tp_MinTLSVersion profile)"

text \<open>An unknown version is looked up again as that of the default profile; \<open>None\<close> is not returning.\<close>

partial_function (option) VersionCode :: "tls_library \<Rightarrow> string \<Rightarrow> 16 word option" where
  "VersionCode l version =
     (if version = ''VersionTLS10'' then Some 0x0301
      else if version = ''VersionTLS11'' then Some 0x0302
      else if version = ''VersionTLS12'' then Some 0x0303
      else if version = ''VersionTLS13'' then Some 0x0304
      else VersionCode l (tp_MinTLSVersion (tl_default l)))"

definition CiphersToCodes :: "(string \<times> 16 word) list" where
  "CiphersToCodes =
     [(''TLS_AES_128_GCM_SHA256'', 0x1301), (''TLS_AES_256_GCM_SHA384'', 0x1302),
      (''TLS_CHACHA20_POLY1305_SHA256'', 0x1303),
      (''ECDHE-ECDSA-AES128-GCM-SHA256'', 0xc02b), (''ECDHE-RSA-AES128-GCM-SHA256'', 0xc02f),
      (''ECDHE-ECDSA-AES256-GCM-SHA384'', 0xc02c), (''ECDHE-RSA-AES256-GCM-SHA384'', 0xc030),
      (''ECDHE-ECDSA-CHACHA20-POLY1305'', 0xcca9), (''ECDHE-RSA-CHACHA20-POLY1305'', 0xcca8),
      (''ECDHE-ECDSA-AES128-SHA256'', 0xc023), (''ECDHE-RSA-AES128-SHA256'', 0xc027),
      (''ECDHE-ECDSA-AES128-SHA'', 0xc009), (''ECDHE-RSA-AES128-SHA'', 0xc013),
      (''ECDHE-ECDSA-AES256-SHA384'', 0xc02c), (''ECDHE-RSA-AES256-SHA384'', 0xc030),
      (''ECDHE-ECDSA-AES256-SHA'', 0xc00a), (''ECDHE-RSA-AES256-SHA'', 0xc014),
      (''AES128-GCM-SHA256'', 0x1301), (''AES256-GCM-SHA384'', 0x1302), (''AES128-SHA256'', 0x1301)]"

definition CipherCode :: "string \<Rightarrow> 16 word" where
  "CipherCode cipher = (case map_of CiphersToCodes cipher of Some code \<Rightarrow> code | None \<Rightarrow> 0)"

fun CipherCodes :: "string list \<Rightarrow> 16 word list \<times> string list" where
  "CipherCodes [] = ([], [])"
| "CipherCodes (cipher # ciphers) = (let (cipherCodes, unsupportedCiphers) = CipherCodes ciphers in
     if CipherCode cipher = 0 then (cipherCodes, cipher # unsupportedCiphers)
     else (CipherCode cipher # cipherCodes, unsupportedCiphers))"

definition GetTLSProfileSpec :: "tls_library \<Rightarrow> TLSSecurityProfile option \<Rightarrow> TLSProfileSpec" where
  "GetTLSProfileSpec l profile = (case profile of
      None \<Rightarrow> tl_default l
    | Some p \<Rightarrow>
        (if sp_Type p = [] then tl_default l
         else if sp_Type p \<noteq> ''Custom''
         then (case tl_profiles l (sp_Type p) of Some tlsConfig \<Rightarrow> tlsConfig | None \<Rightarrow> tl_default l)
         else (case sp_Custom p of Some spec \<Rightarrow> spec | None \<Rightarrow> tl_default l)))"

section \<open>What holds\<close>

definition known_versions :: "string list" where
  "known_versions = [''VersionTLS10'', ''VersionTLS11'', ''VersionTLS12'', ''VersionTLS13'']"

lemma VersionCode_known:
  "version \<in> set known_versions \<Longrightarrow> \<exists>c \<in> {0x0301, 0x0302, 0x0303, 0x0304}. VersionCode l version = Some c"
  by (subst VersionCode.simps) (auto simp: known_versions_def)

lemma VersionCode_unknown:
  "version \<notin> set known_versions \<Longrightarrow> VersionCode l version = VersionCode l (tp_MinTLSVersion (tl_default l))"
  by (subst VersionCode.simps) (simp add: known_versions_def)

lemma VersionCode_returns:
  assumes "VersionCode l version = Some c"
  shows "version \<in> set known_versions \<or> tp_MinTLSVersion (tl_default l) \<in> set known_versions"
  by (rule VersionCode.raw_induct [where P = "\<lambda>l v c. v \<in> set known_versions \<or>
      tp_MinTLSVersion (tl_default l) \<in> set known_versions", OF _ assms])
    (auto simp: known_versions_def split: if_splits)

text \<open>
  (C36) The translation of a TLS version returns exactly when the version, or the minimum version of the
  default profile, is one of the four known ones; then it is the code of one of them. With any
  other default profile an unknown version is looked up forever.
\<close>

theorem VersionCode_terminates_iff:
  "(\<exists>c. VersionCode l version = Some c \<and> c \<in> {0x0301, 0x0302, 0x0303, 0x0304}) \<longleftrightarrow>
     version \<in> set known_versions \<or> tp_MinTLSVersion (tl_default l) \<in> set known_versions"
proof
  assume "version \<in> set known_versions \<or> tp_MinTLSVersion (tl_default l) \<in> set known_versions"
  then show "\<exists>c. VersionCode l version = Some c \<and> c \<in> {0x0301, 0x0302, 0x0303, 0x0304}"
    using VersionCode_known VersionCode_unknown by (cases "version \<in> set known_versions") metis+
qed (use VersionCode_returns in blast)

lemma CipherCodes_filter:
  "CipherCodes cs = (map CipherCode (filter (\<lambda>c. CipherCode c \<noteq> 0) cs), filter (\<lambda>c. CipherCode c = 0) cs)"
  by (induction cs) simp_all

text \<open>Three names stand for suites other than the ones they are translated to.\<close>

lemma CipherCode_substituted:
  "CipherCode ''ECDHE-RSA-AES256-SHA384'' = CipherCode ''ECDHE-RSA-AES256-GCM-SHA384''"
  "CipherCode ''ECDHE-ECDSA-AES256-SHA384'' = CipherCode ''ECDHE-ECDSA-AES256-GCM-SHA384''"
  "CipherCode ''AES128-SHA256'' = CipherCode ''TLS_AES_128_GCM_SHA256''"
  by (simp_all add: CipherCode_def CiphersToCodes_def)

end
