(* ===== verification/Operator_Main.thy ===== *)
theory Operator_Main
  imports Tls_Profile
begin

text \<open>
  The start of the operator: the default images (\<open>internal/relatedimages\<close>) and the parts of \<open>cmd/main.go\<close> that compute something: the images,
  the TLS settings of the metrics server, the namespace and the options of the reconciler.
\<close>

section \<open>Default images\<close>

text \<open>
  \<open>filepath.Dir\<close> and \<open>filepath.Join\<close> of clean paths, as \<open>os.Getwd\<close> returns them; \<open>stat\<close> says
  whether a file exists. The walk ends at a directory that is its own parent.
\<close>

definition Dir :: "string \<Rightarrow> string" where
  "Dir p = (if CHR ''/'' \<notin> set p then ''.''
     else let d = rev (tl (dropWhile (\<lambda>c. c \<noteq> CHR ''/'') (rev p))) in if d = [] then ''/'' else d)"

definition Join :: "string \<Rightarrow> string \<Rightarrow> string" where
  "Join d f = (if d = ''/'' then d @ f else d @ ''/'' @ f)"

definition path_rank :: "string \<Rightarrow> nat" where
  "path_rank p = (if p = ''.'' \<or> p = ''/'' then 0 else Suc (length p))"

lemma Dir_shrinks: "Dir p \<noteq> p \<Longrightarrow> path_rank (Dir p) < path_rank p"
proof -
  assume ne: "Dir p \<noteq> p"
  show ?thesis
  proof (cases "CHR ''/'' \<in> set p")
    case False
    then show ?thesis using ne by (auto simp: Dir_def path_rank_def)
  next
    case True
    let ?x = "dropWhile (\<lambda>c. c \<noteq> CHR ''/'') (rev p)"
    have x: "?x \<noteq> []" "length ?x \<le> length p" using True length_dropWhile_le [of _ "rev p"] by (auto simp: dropWhile_eq_Nil_conv)
    then have "length (tl ?x) < length p" by (cases ?x) auto
    moreover have "p \<noteq> ''/'' \<and> p \<noteq> ''.''" using ne True by (auto simp: Dir_def)
    ultimately show ?thesis using True by (auto simp: Dir_def path_rank_def Let_def)
  qed
qed

function findModuleRoot :: "(string \<Rightarrow> bool) \<Rightarrow> string \<Rightarrow> string" where
  "findModuleRoot stat dir =
     (if stat (Join dir ''go.mod'') then dir
      else if Dir dir = dir then dir else findModuleRoot stat (Dir dir))"
  by pat_completeness auto

termination
  by (relation "measure (\<lambda>(stat, dir). path_rank dir)") (simp_all add: Dir_shrinks)

declare findModuleRoot.simps [simp del]

text \<open>
  The package keeps the map after the first call (\<open>sync.Once\<close>). \<open>unmarshal\<close> is
  \<open>json.Unmarshal\<close> into the list of entries; an entry without name or image is skipped, of
  several with a name the last one counts.
\<close>

record image_files =
  if_env :: string
  if_cwd :: "goerr + string"
  if_stat :: "string \<Rightarrow> bool"
  if_read :: "string \<Rightarrow> goerr + string"
  if_unmarshal :: "string \<Rightarrow> goerr + (string \<times> string) list"

definition images_path :: "image_files \<Rightarrow> string option" where
  "images_path fs = (if if_env fs \<noteq> [] then Some (if_env fs)
     else case if_cwd fs of Inl e \<Rightarrow> None
        | Inr cwd \<Rightarrow> Some (Join (findModuleRoot (if_stat fs) cwd) ''related_images.json''))"

definition read_images :: "image_files \<Rightarrow> gmap" where
  "read_images fs = (case images_path fs of
      None \<Rightarrow> fmempty
    | Some filePath \<Rightarrow> (case if_read fs filePath of
        Inl e \<Rightarrow> fmempty
      | Inr data \<Rightarrow> (case if_unmarshal fs data of
          Inl e \<Rightarrow> fmempty
        | Inr list \<Rightarrow> fold (\<lambda>(name, image) m.
            if name \<noteq> [] \<and> image \<noteq> [] then fmupd name image m else m) list fmempty)))"

definition loadImages :: "image_files \<Rightarrow> (gmap option, gmap) io" where
  "loadImages fs = State (\<lambda>once. case once of
      Some m \<Rightarrow> (m, Some m)
    | None \<Rightarrow> (read_images fs, Some (read_images fs)))"

text \<open>A copy of the map, nil when it is empty.\<close>

definition DefaultImages :: "image_files \<Rightarrow> (gmap option, gmap option) io" where
  "DefaultImages fs = do { m \<leftarrow> loadImages fs; ret (if m = fmempty then None else Some m) }"

definition GetDefaultImage :: "image_files \<Rightarrow> string \<Rightarrow> (gmap option, string) io" where
  "GetDefaultImage fs name = do { m \<leftarrow> loadImages fs; ret (zlookup m name) }"

section \<open>The images and options of the operator\<close>

text \<open>
  The flags of the images default to the images of the file; a flag that is not empty replaces
  the entry of the map of default images itself, which \<open>listImages\<close> reads afterwards.
\<close>

definition imageDefaultOr :: "gmap \<Rightarrow> string \<Rightarrow> string \<Rightarrow> string" where
  "imageDefaultOr m name fallback = (let img = zlookup m name in if img \<noteq> [] then img else fallback)"

definition defaultImages :: "gmap \<Rightarrow> gmap" where
  "defaultImages m = fmap_of_list
     [(''lightspeed-service'', zlookup m ''lightspeed-service-api''),
      (''postgres-image'', zlookup m ''lightspeed-postgresql''),
      (''console-plugin'', zlookup m ''lightspeed-console-plugin''),
      (''agentic-console-plugin'', imageDefaultOr m ''lightspeed-agentic-console-plugin'' []),
      (''alerts-adapter'', imageDefaultOr m ''lightspeed-agentic-alerts-adapter'' []),
      (''agentic-sandbox'', imageDefaultOr m ''lightspeed-agentic-sandbox'' []),
      (''otel-collector'', imageDefaultOr m ''lightspeed-otel-collector'' []),
      (''openshift-mcp-server-image'', zlookup m ''openshift-mcp-server''),
      (''dataverse-exporter-image'', zlookup m ''lightspeed-to-dataverse-exporter''),
      (''rhokp-image'', imageDefaultOr m ''rhokp'' rhokpImageFallback)]"

text \<open>The image flags in the order of the parameters of \<open>overrideImages\<close>, with their map keys.\<close>

definition image_flags :: "(string \<times> string) list" where
  "image_flags =
     [(''service-image'', ''lightspeed-service''), (''console-image'', ''console-plugin''),
      (''agentic-console-image'', ''agentic-console-plugin''), (''alerts-adapter-image'', ''alerts-adapter''),
      (''agentic-sandbox-image'', ''agentic-sandbox''), (''otel-collector-image'', ''otel-collector''),
      (''postgres-image'', ''postgres-image''), (''openshift-mcp-server-image'', ''openshift-mcp-server-image''),
      (''dataverse-exporter-image'', ''dataverse-exporter-image''), (''rhokp-image'', ''rhokp-image'')]"

definition overrideImages :: "gmap \<Rightarrow> (string \<times> string) list \<Rightarrow> gmap" where
  "overrideImages res images = fold (\<lambda>(key, image) m. if image \<noteq> [] then fmupd key image m else m) images res"

text \<open>\<open>given\<close> is what the command line sets; an image flag defaults to the default image.\<close>

definition flag_images :: "gmap \<Rightarrow> (string \<Rightarrow> string option) \<Rightarrow> (string \<times> string) list" where
  "flag_images m given = map (\<lambda>(flag, key). (key,
     case given flag of Some v \<Rightarrow> v | None \<Rightarrow> zlookup (defaultImages m) key)) image_flags"

definition main_images :: "gmap \<Rightarrow> (string \<Rightarrow> string option) \<Rightarrow> gmap" where
  "main_images m given = overrideImages (defaultImages m) (flag_images m given)"

text \<open>\<open>listImages\<close>: the entries as text, sorted.\<close>

definition listImages :: "gmap \<Rightarrow> string list" where
  "listImages images = sort (map (\<lambda>(k, v). k @ ''='' @ v) (sorted_list_of_fmap images))"

definition getWatchNamespace :: "(string \<Rightarrow> string option) \<Rightarrow> string" where
  "getWatchNamespace lookupEnv = (case lookupEnv ''WATCH_NAMESPACE'' of
      None \<Rightarrow> OLSNamespaceDefault | Some ns \<Rightarrow> ns)"

definition main_namespace :: "(string \<Rightarrow> string option) \<Rightarrow> (string \<Rightarrow> string option) \<Rightarrow> string" where
  "main_namespace given lookupEnv = (let namespace = (case given ''namespace'' of Some ns \<Rightarrow> ns | None \<Rightarrow> []) in
     if namespace = [] then getWatchNamespace lookupEnv else namespace)"

text \<open>A failed ROSA detection is logged and leaves the product unset; a failed version stops the operator.\<close>

definition main_options :: "'w reconciler \<Rightarrow> gmap \<Rightarrow> (string \<Rightarrow> string option) \<Rightarrow> (string \<Rightarrow> string option) \<Rightarrow>
    ('w, goerr + options) io" where
  "main_options r m given lookupEnv = (let imagesMap = zlookup (main_images m given) in do {
     ver \<leftarrow> GetOpenshiftVersion r;
     case ver of
       Inl e \<Rightarrow> ret (Inl e)
     | Inr (major, minor) \<Rightarrow> do {
         rosa \<leftarrow> RosaOKPProductEnv r;
         prometheusAvailable \<leftarrow> IsPrometheusOperatorAvailable r;
         ret (Inr \<lparr>OpenShiftMajor = major, OpenshiftMinor = minor,
           LightspeedServiceImage = imagesMap ''lightspeed-service'',
           LightspeedServicePostgresImage = imagesMap ''postgres-image'',
           ConsoleUIImage = imagesMap ''console-plugin'',
           AgenticConsoleUIImage = imagesMap ''agentic-console-plugin'',
           AlertsAdapterImage = imagesMap ''alerts-adapter'',
           AgenticSandboxImage = imagesMap ''agentic-sandbox'',
           OtelCollectorImage = imagesMap ''otel-collector'',
           DataverseExporterImage = imagesMap ''dataverse-exporter-image'',
           OpenShiftMCPServerImage = imagesMap ''openshift-mcp-server-image'',
           RHOOKPImage = imagesMap ''rhokp-image'',
           RosaOKPProductEnv' = (case rosa of Inl e \<Rightarrow> None | Inr env \<Rightarrow> env),
           Namespace = main_namespace given lookupEnv, PrometheusAvailable = prometheusAvailable\<rparr>) } })"

section \<open>TLS of the metrics server\<close>

text \<open>
  The client CA and the TLS profile of the secured metrics server; a missing custom resource
  counts as one without a profile. An error stops the operator.
\<close>

definition metrics_tls_profile :: "tls_library \<Rightarrow> ('w, 'x) client_scheme \<Rightarrow> ('w, goerr + string \<times> TLSProfileSpec) io" where
  "metrics_tls_profile l c = do {
     x \<leftarrow> cl_get c (ConfigMap, ClientCACmNamespace, ClientCACmName);
     case x of
       Inl e \<Rightarrow> ret (Inl e)
     | Inr cm \<Rightarrow> (case fmlookup (cm_data (k_payload cm)) ClientCACertKey of
         None \<Rightarrow> ret (Inl (newerr (''the key '' @ ClientCACertKey @ '' is not found in '' @
           ClientCACmNamespace @ ''/'' @ ClientCACmName @ '' configmap'')))
       | Some metricsClientCA \<Rightarrow> do {
           y \<leftarrow> cl_get c (OLSConfigKind', [], OLSConfigName);
           (if (case y of Inl e \<Rightarrow> \<not> IsNotFound e | Inr ob \<Rightarrow> False)
            then ret (Inl (case y of Inl e \<Rightarrow> e | Inr ob \<Rightarrow> newerr []))
            else (case (case y of Inl e \<Rightarrow> None | Inr ob \<Rightarrow> Option.bind (cr_of ob)
                (\<lambda>cr. o_TLSSecurityProfile (s_OLSConfig (cr_Spec cr)))) of
              Some profile \<Rightarrow> ret (Inr (metricsClientCA, GetTLSProfileSpec l (Some profile)))
            | None \<Rightarrow> do {
                z \<leftarrow> FetchAPIServerTlsProfile c;
                ret (case z of Inl e \<Rightarrow> Inl e
                   | Inr profileAPIServer \<Rightarrow> Inr (metricsClientCA, GetTLSProfileSpec l profileAPIServer)) })) }) }"

record tls_conf =
  tc_ClientCA :: "string option"
  tc_RequireClientCert :: bool
  tc_MinVersion :: "16 word"
  tc_CipherSuites :: "16 word list"

text \<open>The settings applied to the server; \<open>None\<close> is not returning.\<close>

definition metricsTLSSetup :: "tls_library \<Rightarrow> bool \<Rightarrow> string \<Rightarrow> TLSProfileSpec \<Rightarrow> tls_conf \<Rightarrow> tls_conf option" where
  "metricsTLSSetup l secureMetricsServer metricsClientCA profile tlsConf =
     (if \<not> secureMetricsServer then Some tlsConf
      else map_option (\<lambda>v. tlsConf\<lparr>tc_ClientCA := Some metricsClientCA, tc_RequireClientCert := True,
         tc_MinVersion := v, tc_CipherSuites := fst (CipherCodes (TLSCiphers l profile))\<rparr>)
        (VersionCode l (MinTLSVersion l profile)))"

section \<open>What holds\<close>

text \<open>
  The cipher suites of the metrics server never go beyond the table, in the order of the profile;
  but when the profile names only ciphers that are not in the table, the list is empty, which the
  TLS library takes for its own default suites.
\<close>

theorem metrics_ciphers_dropped:
  assumes "\<forall>c \<in> set (TLSCiphers l profile). map_of CiphersToCodes c = None"
    "metricsTLSSetup l True ca profile conf = Some conf'"
  shows "tc_CipherSuites conf' = []"
proof -
  have "CipherCode c = 0" if "c \<in> set (TLSCiphers l profile)" for c
    using assms(1) that by (simp add: CipherCode_def)
  then show ?thesis using assms(2) by (auto simp: metricsTLSSetup_def CipherCodes_filter filter_empty_conv)
qed

text \<open>
  The walk for the module root ends at the nearest directory with a \<open>go.mod\<close>, or at the top.
\<close>

theorem findModuleRoot_nearest:
  "\<exists>n. findModuleRoot stat dir = (Dir ^^ n) dir \<and>
     (\<forall>i < n. \<not> stat (Join ((Dir ^^ i) dir) ''go.mod'')) \<and>
     (stat (Join ((Dir ^^ n) dir) ''go.mod'') \<or> Dir ((Dir ^^ n) dir) = (Dir ^^ n) dir)"
proof (induction stat dir rule: findModuleRoot.induct)
  case (1 stat dir)
  show ?case
  proof (cases "stat (Join dir ''go.mod'') \<or> Dir dir = dir")
    case True
    then show ?thesis by (intro exI [of _ 0]) (subst findModuleRoot.simps, auto)
  next
    case False
    then obtain n where n: "findModuleRoot stat (Dir dir) = (Dir ^^ n) (Dir dir)"
      "\<forall>i < n. \<not> stat (Join ((Dir ^^ i) (Dir dir)) ''go.mod'')"
      "stat (Join ((Dir ^^ n) (Dir dir)) ''go.mod'') \<or> Dir ((Dir ^^ n) (Dir dir)) = (Dir ^^ n) (Dir dir)"
      using 1 by blast
    have step: "(Dir ^^ i) (Dir dir) = (Dir ^^ Suc i) dir" for i by (simp only: funpow_Suc_right comp_def)
    have "\<not> stat (Join ((Dir ^^ i) dir) ''go.mod'')" if "i < Suc n" for i
      using n(2) False that by (cases i) (simp_all only: step [symmetric], auto)
    then show ?thesis using n(1,3) False
      by (intro exI [of _ "Suc n"]) (subst findModuleRoot.simps, simp only: step if_False, simp)
  qed
qed

text \<open>
  Every operand runs the image its flag gives, and where the flag is missing or empty the image of
  the file, or the built-in one.
\<close>

lemma fold_images:
  "distinct (map fst xs) \<Longrightarrow> fmlookup (overrideImages m xs) k =
     (case map_of xs k of Some v \<Rightarrow> (if v \<noteq> [] then Some v else fmlookup m k) | None \<Rightarrow> fmlookup m k)"
proof (induction xs arbitrary: m)
  case (Cons x xs)
  obtain a v where x: "x = (a, v)" by force
  have "map_of xs a = None" using Cons.prems x by (simp add: map_of_eq_None_iff)
  then show ?case using Cons.IH [of "if v \<noteq> [] then fmupd a v m else m"] Cons.prems x
    by (auto simp: overrideImages_def split: option.splits)
qed (simp add: overrideImages_def)

theorem main_images_source:
  assumes "(flag, key) \<in> set image_flags"
  shows "zlookup (main_images m given) key =
    (case given flag of Some v \<Rightarrow> (if v \<noteq> [] then v else zlookup (defaultImages m) key)
     | None \<Rightarrow> zlookup (defaultImages m) key)"
proof -
  have d: "distinct (map fst (flag_images m given))" by (simp add: flag_images_def image_flags_def)
  have "(key, case given flag of Some v \<Rightarrow> v | None \<Rightarrow> zlookup (defaultImages m) key) \<in> set (flag_images m given)"
    using assms by (force simp: flag_images_def)
  then have "map_of (flag_images m given) key = Some (case given flag of Some v \<Rightarrow> v | None \<Rightarrow> zlookup (defaultImages m) key)"
    using d by simp
  then show ?thesis unfolding main_images_def using fold_images [OF d, of "defaultImages m" key]
    by (auto simp: zlookup_def split: option.splits)
qed

text \<open>The images are read once: later calls return the map of the first, whatever the files say.\<close>

lemma loadImages_once:
  "fst (run_state (loadImages fs') (snd (run_state (loadImages fs) s))) = fst (run_state (loadImages fs) s)"
  by (cases s) (simp_all add: loadImages_def)

section \<open>Samples\<close>

theorem metrics_ciphers_dropped_witness:
  "\<exists>conf'. metricsTLSSetup sample_tls True ''ca'' \<lparr>tp_Ciphers = [''DES-CBC3-SHA''], tp_MinTLSVersion = ''VersionTLS13''\<rparr>
      \<lparr>tc_ClientCA = None, tc_RequireClientCert = False, tc_MinVersion = 0, tc_CipherSuites = [1]\<rparr> = Some conf' \<and>
    tc_CipherSuites conf' = []"
proof -
  let ?p = "\<lparr>tp_Ciphers = [''DES-CBC3-SHA''], tp_MinTLSVersion = ''VersionTLS13''\<rparr>"
  let ?c = "\<lparr>tc_ClientCA = None, tc_RequireClientCert = False, tc_MinVersion = 0, tc_CipherSuites = [1]\<rparr> :: tls_conf"
  have "VersionCode sample_tls ''VersionTLS13'' = Some 0x0304" by (subst VersionCode.simps) simp
  then obtain conf' where c: "metricsTLSSetup sample_tls True ''ca'' ?p ?c = Some conf'"
    by (simp add: metricsTLSSetup_def MinTLSVersion_def)
  have "\<forall>c \<in> set (TLSCiphers sample_tls ?p). map_of CiphersToCodes c = None"
    by (simp add: TLSCiphers_def CiphersToCodes_def)
  from metrics_ciphers_dropped [OF this c] c show ?thesis by blast
qed

theorem main_images_source_witness:
  "zlookup (main_images fmempty (\<lambda>f. if f = ''service-image'' then Some ''svc:1'' else None)) ''lightspeed-service'' = ''svc:1''"
  by (subst main_images_source [of "''service-image''"]) (simp_all add: image_flags_def)

theorem findModuleRoot_nearest_witness: "findModuleRoot (\<lambda>f. False) ''/'' = ''/''"
proof -
  have d: "Dir ''/'' = ''/''" by (simp add: Dir_def)
  have "(Dir ^^ n) ''/'' = ''/''" for n by (induction n) (simp_all add: d)
  then show ?thesis using findModuleRoot_nearest [of "\<lambda>f. False" "''/''"] by auto
qed

end
