(* ===== verification/Otel_Collector.thy ===== *)
theory Otel_Collector
  imports Versioned_Deployment Postgres
begin

text \<open>
  The OpenTelemetry collector operand (\<open>internal/controller/otelcollector\<close>): the collector
  configuration, the connection string of the database, the generated objects, both phases and
  the restart. Marshalling the configuration is a parameter.
\<close>

section \<open>The collector configuration\<close>

definition postgresConnectionStringRef :: string where
  "postgresConnectionStringRef = ''${env:'' @ OtelCollectorPostgresConnectionStringEnvVar @ ''}''"

definition otlpTLSEndpoint :: "string \<Rightarrow> doc" where
  "otlpTLSEndpoint endpoint = DMap [(''endpoint'', DStr endpoint),
     (''tls'', DMap [(''cert_file'', DStr OtelCollectorServingCertTLSFile),
       (''key_file'', DStr OtelCollectorServingCertTLSKeyFile)])]"

definition postgresExporterConfig :: doc where
  "postgresExporterConfig = DMap [(''connection_string'', DStr postgresConnectionStringRef),
     (''schema'', DStr ''templogs''), (''logs_table'', DStr ''logs''),
     (''retry_on_failure'', DMap [(''enabled'', DBool True)]),
     (''sending_queue'', DMap [(''enabled'', DBool True), (''num_consumers'', DNum 4),
       (''queue_size'', DNum 1000), (''storage'', DStr ''file_storage'')])]"

definition collectorExtensions :: doc where
  "collectorExtensions = DMap
     [(''health_check'', DMap [(''endpoint'', DStr (''0.0.0.0:'' @ int_to_string OtelCollectorHealthCheckPort))]),
      (''file_storage'', DMap [(''directory'', DStr OtelCollectorFileStorageMountPath),
        (''create_directory'', DBool True),
        (''compaction'', DMap [(''on_start'', DBool True),
          (''directory'', DStr (OtelCollectorFileStorageMountPath @ ''/compaction''))])]),
      (''postgres_admin'', DMap [(''endpoint'', DStr (''0.0.0.0:'' @ int_to_string OtelCollectorAdminPort)),
        (''connection_string'', DStr postgresConnectionStringRef), (''schema'', DStr ''templogs''),
        (''logs_table'', DStr ''logs''), (''tls_cert_file'', DStr OtelCollectorServingCertTLSFile),
        (''tls_key_file'', DStr OtelCollectorServingCertTLSKeyFile)]),
      (OtelCollectorHTTPSMetricsExtension, DMap
        [(''endpoint'', DStr (''0.0.0.0:'' @ int_to_string OtelCollectorMetricsPort)),
         (''upstream'', DStr OtelCollectorMetricsUpstreamURL),
         (''tls_cert_file'', DStr OtelCollectorServingCertTLSFile),
         (''tls_key_file'', DStr OtelCollectorServingCertTLSKeyFile)])]"

definition collectorServiceExtensions :: "string list" where
  "collectorServiceExtensions = [''health_check'', ''file_storage'', ''postgres_admin'', OtelCollectorHTTPSMetricsExtension]"

definition strs :: "string list \<Rightarrow> doc" where
  "strs xs = DList (map DStr xs)"

text \<open>A pipeline; one without processors has no such entry.\<close>

definition pipeline :: "string list \<Rightarrow> string list \<Rightarrow> string list \<Rightarrow> doc" where
  "pipeline receivers processors exporters = DMap ([(''receivers'', strs receivers)] @
     (if processors = [] then [] else [(''processors'', strs processors)]) @ [(''exporters'', strs exporters)])"

definition routing_logs :: doc where
  "routing_logs = DMap [(''default_pipelines'', strs [''logs/unmatched'']),
     (''table'', DList [DMap [(''condition'', DStr (''resource.attributes['' @ [CHR 0x22] @ ''service.name'' @
        [CHR 0x22] @ ''] == '' @ [CHR 0x22] @ OtelSandboxServiceName @ [CHR 0x22])),
        (''pipelines'', strs [''logs/postgres''])]])]"

definition collector_exporters :: "bool \<Rightarrow> string \<Rightarrow> (string \<times> doc) list" where
  "collector_exporters loggingEnabled tracingEndpoint = [(''nop'', DMap [])] @
     (if loggingEnabled then [(''postgres'', postgresExporterConfig)] else []) @
     (if tracingEndpoint \<noteq> [] then [(''otlp/tracing'', DMap
        [(''endpoint'', DStr (''${env:'' @ OtelCollectorTracesBackendEndpointEnvVar @ ''}'')),
         (''tls'', DMap [(''insecure'', DBool False)])])] else [])"

definition collector_connectors :: "bool \<Rightarrow> (string \<times> doc) list" where
  "collector_connectors loggingEnabled = (if loggingEnabled then [(''routing/logs'', routing_logs)] else [])"

definition collector_pipelines :: "bool \<Rightarrow> string \<Rightarrow> (string \<times> doc) list" where
  "collector_pipelines loggingEnabled tracingEndpoint =
     (if loggingEnabled
      then [(''logs'', pipeline [''otlp''] [''batch''] [''routing/logs'']),
            (''logs/postgres'', pipeline [''routing/logs''] [] [''postgres'']),
            (''logs/unmatched'', pipeline [''routing/logs''] [] [''nop''])]
      else [(''logs'', pipeline [''otlp''] [''batch''] [''nop''])]) @
     [(''traces'', if tracingEndpoint \<noteq> [] then pipeline [''otlp''] [''batch''] [''otlp/tracing'']
        else pipeline [''otlp''] [] [''nop''])]"

definition collector_telemetry :: doc where
  "collector_telemetry = DMap [(''logs'', DMap [(''level'', DStr ''info'')]),
     (''metrics'', DMap [(''readers'', DList [DMap [(''pull'', DMap [(''exporter'', DMap [(''prometheus'', DMap
        [(''host'', DStr ''127.0.0.1''), (''port'', DNum (of_int OtelCollectorMetricsInternalPort)),
         (''without_type_suffix'', DBool True), (''without_units'', DBool True)])])])]])])]"

definition collector_config :: "OLSConfig \<Rightarrow> doc" where
  "collector_config cr =
     (let loggingEnabled = BoolDeref (au_Logging (s_Audit (cr_Spec cr))) True;
          tracingEndpoint = au_TracingEndpoint (s_Audit (cr_Spec cr));
          connectors = collector_connectors loggingEnabled in
      DMap ([(''receivers'', DMap [(''otlp'', DMap [(''protocols'', DMap
              [(''grpc'', otlpTLSEndpoint ''0.0.0.0:4317''), (''http'', otlpTLSEndpoint ''0.0.0.0:4318'')])])]),
             (''processors'', DMap [(''batch'', DMap [(''timeout'', DStr ''1s''), (''send_batch_size'', DNum 100)])]),
             (''extensions'', collectorExtensions),
             (''exporters'', DMap (collector_exporters loggingEnabled tracingEndpoint))] @
            (if connectors \<noteq> [] then [(''connectors'', DMap connectors)] else []) @
            [(''service'', DMap [(''extensions'', strs collectorServiceExtensions),
              (''pipelines'', DMap (collector_pipelines loggingEnabled tracingEndpoint)),
              (''telemetry'', collector_telemetry)])]))"

definition buildCollectorConfigYAML :: "'w reconciler \<Rightarrow> OLSConfig \<Rightarrow> goerr + string" where
  "buildCollectorConfigYAML r cr = yaml_marshal r (collector_config cr)"

section \<open>The connection string\<close>

text \<open>
  \<open>url.UserPassword\<close> leaves letters, digits and the characters of the first line below as they
  are and writes every other byte as a percent sign and two hexadecimal digits.
\<close>

definition url_plain :: "char \<Rightarrow> bool" where
  "url_plain c = (c \<in> set (''-_.~$&+,;='' @ ''ABCDEFGHIJKLMNOPQRSTUVWXYZ'' @
     ''abcdefghijklmnopqrstuvwxyz'' @ ''0123456789''))"

definition url_hex :: "nat \<Rightarrow> char" where
  "url_hex n = ''0123456789ABCDEF'' ! n"

definition url_escape :: "string \<Rightarrow> string" where
  "url_escape s = concat (map (\<lambda>c. if url_plain c then [c]
     else [CHR ''%'', url_hex (of_char c div 16), url_hex (of_char c mod 16)]) s)"

definition buildPostgresConnectionString :: "string \<Rightarrow> string \<Rightarrow> string" where
  "buildPostgresConnectionString namespace password =
     ''postgres://'' @ url_escape PostgresDefaultUser @ '':'' @ url_escape password @ ''@'' @
     PostgresServiceName @ ''.'' @ namespace @ ''.svc:'' @ int_to_string PostgresServicePort @ ''/'' @
     PostgresDefaultDbName @ ''?sslmode='' @ PostgresDefaultSSLMode"

text \<open>A missing or empty password is an error.\<close>

definition PostgresConnectionString :: "'w reconciler \<Rightarrow> ('w, goerr + string) io" where
  "PostgresConnectionString r = do {
     x \<leftarrow> cl_get r (Secret, GetNamespace r, PostgresSecretName);
     ret (case x of
        Inl e \<Rightarrow> Inl (wrapf ErrGetPostgresSecret e)
      | Inr postgresSecret \<Rightarrow>
          (let password = zlookup (secret_data (k_payload postgresSecret)) PostgresSecretKeyName in
           if password = []
           then Inl (newerr (ErrGetPostgresSecret @ '': postgres secret '' @ PostgresSecretName @
             '' missing key '' @ [CHR 0x22] @ PostgresSecretKeyName @ [CHR 0x22]))
           else Inr (buildPostgresConnectionString (GetNamespace r) password))) }"

section \<open>Generated objects\<close>

definition otel_config_map :: "'w reconciler \<Rightarrow> OLSConfig \<Rightarrow> string \<Rightarrow> kobject" where
  "otel_config_map r cr configYAML = set_controller cr \<lparr>
     k_meta = new_meta (GetNamespace r) OtelCollectorConfigMapName GenerateOtelCollectorSelectorLabels,
     k_payload = PConfigMap (fmap_of_list [(OtelCollectorConfigMapDataKey, configYAML)]) fmempty\<rparr>"

definition GenerateOtelCollectorConfigMap :: "'w reconciler \<Rightarrow> OLSConfig \<Rightarrow> goerr + kobject" where
  "GenerateOtelCollectorConfigMap r cr = (case buildCollectorConfigYAML r cr of
      Inl e \<Rightarrow> Inl e | Inr configYAML \<Rightarrow> Inr (otel_config_map r cr configYAML))"

definition named_port :: "string \<Rightarrow> int \<Rightarrow> service_port" where
  "named_port n p = \<lparr>sp_name = n, sp_protocol = ''TCP'', sp_port = p, sp_target = n\<rparr>"

definition GenerateOtelCollectorService :: "'w reconciler \<Rightarrow> OLSConfig \<Rightarrow> kobject" where
  "GenerateOtelCollectorService r cr = set_controller cr \<lparr>
     k_meta = (new_meta (GetNamespace r) OtelCollectorServiceName GenerateOtelCollectorSelectorLabels)
       \<lparr>m_annotations := Some (fmap_of_list [(ServingCertSecretAnnotationKey, OtelCollectorCertsSecretName)])\<rparr>,
     k_payload = PService \<lparr>ss_selector = GenerateOtelCollectorSelectorLabels,
       ss_ports = [named_port ''otlp-grpc'' OtelCollectorGRPCPort, named_port ''otlp-http'' OtelCollectorHTTPPort,
         named_port ''admin'' OtelCollectorAdminPort, named_port ''metrics'' OtelCollectorMetricsPort],
       ss_cluster_ip = []\<rparr>\<rparr>"

definition otel_postgres_secret :: "'w reconciler \<Rightarrow> OLSConfig \<Rightarrow> string \<Rightarrow> kobject" where
  "otel_postgres_secret r cr connectionString = set_controller cr \<lparr>
     k_meta = new_meta (GetNamespace r) OtelCollectorPostgresDSNSecretName GenerateOtelCollectorSelectorLabels,
     k_payload = PSecret (fmap_of_list [(OtelCollectorPostgresConnectionStringSecretKey, connectionString)]) ''Opaque''\<rparr>"

definition GenerateOtelCollectorPostgresSecret :: "'w reconciler \<Rightarrow> OLSConfig \<Rightarrow> ('w, goerr + kobject) io" where
  "GenerateOtelCollectorPostgresSecret r cr = do {
     x \<leftarrow> PostgresConnectionString r;
     ret (case x of Inl e \<Rightarrow> Inl e | Inr connectionString \<Rightarrow> Inr (otel_postgres_secret r cr connectionString)) }"

text \<open>Prometheus of the cluster monitoring.\<close>

definition prometheus_peer :: np_peer where
  "prometheus_peer = \<lparr>pe_pods = Some \<lparr>ls_labels = fmempty,
       ls_exprs = [(''app.kubernetes.io/name'', ''In'', [''prometheus'']), (''prometheus'', ''In'', [''k8s''])]\<rparr>,
     pe_namespaces = Some \<lparr>ls_labels = fmap_of_list [(''kubernetes.io/metadata.name'', ClientCACmNamespace)], ls_exprs = []\<rparr>\<rparr>"

definition GenerateOtelCollectorNetworkPolicy :: "'w reconciler \<Rightarrow> OLSConfig \<Rightarrow> kobject" where
  "GenerateOtelCollectorNetworkPolicy r cr = set_controller cr \<lparr>
     k_meta = new_meta (GetNamespace r) OtelCollectorNetworkPolicyName GenerateOtelCollectorSelectorLabels,
     k_payload = PNetworkPolicy \<lparr>np_pods = \<lparr>ls_labels = GenerateOtelCollectorSelectorLabels, ls_exprs = []\<rparr>,
       np_ingress =
         [\<lparr>ru_from = [\<lparr>pe_pods = Some \<lparr>ls_labels = fmempty, ls_exprs = []\<rparr>, pe_namespaces = None\<rparr>],
           ru_ports = [(''TCP'', OtelCollectorGRPCPort), (''TCP'', OtelCollectorAdminPort)]\<rparr>,
          \<lparr>ru_from = [prometheus_peer], ru_ports = [(''TCP'', OtelCollectorMetricsPort)]\<rparr>],
       np_egress = [], np_types = [''Ingress'']\<rparr>\<rparr>"

definition generateOtelCollectorServiceMonitor :: "'w reconciler \<Rightarrow> OLSConfig \<Rightarrow> kobject" where
  "generateOtelCollectorServiceMonitor r cr = set_controller cr \<lparr>
     k_meta = new_meta (GetNamespace r) OtelCollectorServiceMonitorName
       (fmupd ''openshift.io/user-monitoring'' ''false'' (fmupd ''app.kubernetes.io/component'' ''metrics''
         (fmupd ''monitoring.openshift.io/collection-profile'' ''full'' GenerateOtelCollectorSelectorLabels))),
     k_payload = PServiceMonitor \<lparr>sm_endpoints = [\<lparr>se_port = ''metrics'', se_path = OtelCollectorMetricsPath,
         se_interval = ''30s'', se_scheme = ''https'',
         se_ca = ''/etc/prometheus/configmaps/serving-certs-ca-bundle/service-ca.crt'',
         se_cert = [], se_key = [], se_insecure = False,
         se_server_name = OtelCollectorServiceName @ ''.'' @ GetNamespace r @ ''.svc'', se_auth = None\<rparr>],
       sm_job_label = ''app.kubernetes.io/name'', sm_selector = GenerateOtelCollectorSelectorLabels\<rparr>\<rparr>"

definition GenerateOtelCollectorServiceAccount :: "'w reconciler \<Rightarrow> OLSConfig \<Rightarrow> kobject" where
  "GenerateOtelCollectorServiceAccount r cr = GenerateServiceAccount r cr OtelCollectorServiceAccountName"

section \<open>The Deployment\<close>

definition getOtelCollectorResources :: "OLSConfig \<Rightarrow> resources" where
  "getOtelCollectorResources cr = GetResourcesOrDefault
     (cf_Resources (dc_OtelCollector (o_DeploymentConfig (s_OLSConfig (cr_Spec cr)))))
     \<lparr>rs_limits = fmempty,
      rs_requests = fmap_of_list [(''cpu'', 100), (''memory'', 128 * 1024 * 1024 * 1000)], rs_claims = []\<rparr>"

definition otel_volumes :: "volume list" where
  "otel_volumes =
     [(configmap_volume OtelCollectorConfigVolumeName OtelCollectorConfigMapName 0)\<lparr>v_configmap :=
        Some \<lparr>vs_name = OtelCollectorConfigMapName, vs_mode = None, vs_items = []\<rparr>\<rparr>,
      secret_volume OtelCollectorServingCertVolumeName OtelCollectorCertsSecretName VolumeRestrictedMode,
      (emptydir_volume ''file-storage'')\<lparr>v_sizelimit := Some (500 * 1024 * 1024 * 1000)\<rparr>]"

definition otel_env :: "'w reconciler \<Rightarrow> OLSConfig \<Rightarrow> env_var list" where
  "otel_env r cr = GetProxyEnvVars r @
     [\<lparr>ev_name = OtelCollectorPostgresConnectionStringEnvVar, ev_value = [],
       ev_from = Some (SecretKeyRef OtelCollectorPostgresDSNSecretName OtelCollectorPostgresConnectionStringSecretKey None)\<rparr>] @
     (if au_TracingEndpoint (s_Audit (cr_Spec cr)) \<noteq> []
      then [plain_env OtelCollectorTracesBackendEndpointEnvVar (au_TracingEndpoint (s_Audit (cr_Spec cr)))] else [])"

definition health_probe :: "int \<Rightarrow> int \<Rightarrow> probe" where
  "health_probe initial period = \<lparr>pr_handler = HTTPGet ''/'' (int_to_string OtelCollectorHealthCheckPort) ''HTTP'',
     pr_initial = initial, pr_timeout = 0, pr_period = period, pr_success = 0, pr_failure = 0, pr_grace = None\<rparr>"

definition tcp_port :: "string \<Rightarrow> int \<Rightarrow> container_port" where
  "tcp_port n p = \<lparr>cp_name = n, cp_port = p, cp_protocol = ''TCP''\<rparr>"

definition otel_container :: "'w reconciler \<Rightarrow> OLSConfig \<Rightarrow> container" where
  "otel_container r cr = \<lparr>c_name = OtelCollectorContainerName, c_image = OtelCollectorImage (Options r),
     c_ports = [tcp_port ''otlp-grpc'' OtelCollectorGRPCPort, tcp_port ''otlp-http'' OtelCollectorHTTPPort,
       tcp_port ''admin'' OtelCollectorAdminPort, tcp_port ''metrics'' OtelCollectorMetricsPort],
     c_env = otel_env r cr, c_command = [],
     c_args = [''--config='' @ OtelCollectorConfigVolumeMountPath @ ''/'' @ OtelCollectorConfigMapDataKey],
     c_mounts = [mount OtelCollectorConfigVolumeName OtelCollectorConfigVolumeMountPath True,
       mount OtelCollectorServingCertVolumeName OtelCollectorServingCertMountPath True,
       mount ''file-storage'' OtelCollectorFileStorageMountPath False],
     c_resources = getOtelCollectorResources cr, c_secctx = Some RestrictedContainerSecurityContext,
     c_pull = ''Always'', c_liveness = Some (health_probe 10 15), c_readiness = Some (health_probe 5 10),
     c_startup = None, c_lifecycle = None\<rparr>"

definition otel_deployment :: "'w reconciler \<Rightarrow> OLSConfig \<Rightarrow> string \<Rightarrow> kobject" where
  "otel_deployment r cr configMapResourceVersion =
     with_annotations [(OtelCollectorConfigMapResourceVersionAnnotation, configMapResourceVersion)]
       (deployment_object r cr OtelCollectorDeploymentName GenerateOtelCollectorSelectorLabels
         (ApplyPodDeploymentConfig (zero_deployment\<lparr>
           d_selector := Some GenerateOtelCollectorSelectorLabels, d_history := Some 1,
           d_tmpl_labels := GenerateOtelCollectorSelectorLabels,
           d_pod := zero_pod\<lparr>po_automount := Some False, po_service_account := OtelCollectorServiceAccountName,
             po_secctx := Some \<lparr>sc_escalation = None, sc_readonly_fs = None, sc_non_root = Some True,
               sc_seccomp = None, sc_drop = []\<rparr>,
             po_init := [GeneratePostgresWaitInitContainer (LightspeedServicePostgresImage (Options r))],
             po_containers := [otel_container r cr], po_volumes := otel_volumes\<rparr>\<rparr>)
           (dc_OtelCollector (o_DeploymentConfig (s_OLSConfig (cr_Spec cr)))) False))"

definition GenerateOtelCollectorDeployment :: "'w reconciler \<Rightarrow> OLSConfig \<Rightarrow> ('w, goerr + kobject) io" where
  "GenerateOtelCollectorDeployment r cr = do {
     x \<leftarrow> GetConfigMapResourceVersion r OtelCollectorConfigMapName;
     ret (case x of Inl e \<Rightarrow> Inl e | Inr cv \<Rightarrow> Inr (otel_deployment r cr cv)) }"

definition roll_otel :: "'w reconciler \<Rightarrow> kobject \<Rightarrow> ('w, goerr option) io" where
  "roll_otel r dep = do {
     now \<leftarrow> cl_now r;
     update_as r ErrUpdateOtelCollectorDeployment (stamp_template now dep) }"

definition RestartOtelCollector :: "'w reconciler \<Rightarrow> kobject option \<Rightarrow> ('w, goerr option) io" where
  "RestartOtelCollector r given = (case given of
      Some dep \<Rightarrow> roll_otel r dep
    | None \<Rightarrow> try_or (cl_get r (Deployment, GetNamespace r, OtelCollectorDeploymentName))
        (wrapf ErrGetOtelCollectorDeployment) (roll_otel r))"

definition UpdateOtelCollectorDeployment :: "'w reconciler \<Rightarrow> kobject \<Rightarrow> kobject \<Rightarrow> ('w, goerr option) io" where
  "UpdateOtelCollectorDeployment r existing desired =
     (let d = SetDefaults_Deployment (dep_of desired) in
      case DeploymentSpecEqual (dep_of existing) d False of
        None \<Rightarrow> ret (Some nil_panic)
      | Some same \<Rightarrow> do {
          x \<leftarrow> GetConfigMapResourceVersion r OtelCollectorConfigMapName;
          (if same \<and> (case x of Inl e \<Rightarrow> False
              | Inr cv \<Rightarrow> recorded existing OtelCollectorConfigMapResourceVersionAnnotation = cv)
           then ret None
           else RestartOtelCollector r (Some (copy_versions [OtelCollectorConfigMapResourceVersionAnnotation] desired
             (set_dep_spec d existing)))) })"

section \<open>Reconcilers\<close>

definition reconcileOtelCollectorConfigMap :: "'w reconcile_fn" where
  "reconcileOtelCollectorConfigMap r cr = try_or (ret (GenerateOtelCollectorConfigMap r cr))
     (wrapf ErrGenerateOtelCollectorConfigMap) (\<lambda>cm.
       create_or_update r ErrGetOtelCollectorConfigMap ErrCreateOtelCollectorConfigMap
         ErrUpdateOtelCollectorConfigMap (ConfigMap, GetNamespace r, OtelCollectorConfigMapName) cm
         (\<lambda>found. ConfigMapEqual found cm)
         (\<lambda>found. found\<lparr>k_payload := PConfigMap (cm_data (k_payload cm)) (cm_binary (k_payload found)),
            k_meta := (k_meta found)\<lparr>m_labels := m_labels (k_meta cm)\<rparr>\<rparr>))"

definition reconcileOtelCollectorServiceAccount :: "'w reconcile_fn" where
  "reconcileOtelCollectorServiceAccount r cr =
     create_missing r ErrGetOtelCollectorServiceAccount ErrCreateOtelCollectorServiceAccount
       (ServiceAccount, GetNamespace r, OtelCollectorServiceAccountName) (GenerateOtelCollectorServiceAccount r cr)"

definition reconcileOtelCollectorPostgresSecret :: "'w reconcile_fn" where
  "reconcileOtelCollectorPostgresSecret r cr = try_or (GenerateOtelCollectorPostgresSecret r cr)
     (wrapf ErrGenerateOtelCollectorPostgresSecret) (\<lambda>secret.
       create_or_update r ErrGetOtelCollectorPostgresSecret ErrCreateOtelCollectorPostgresSecret
         ErrUpdateOtelCollectorPostgresSecret (Secret, GetNamespace r, OtelCollectorPostgresDSNSecretName) secret
         (\<lambda>found. secret_data (k_payload found) = secret_data (k_payload secret) \<and>
            m_labels (k_meta found) = m_labels (k_meta secret))
         (\<lambda>found. found\<lparr>k_payload := PSecret (secret_data (k_payload secret)) (secret_type (k_payload found)),
            k_meta := (k_meta found)\<lparr>m_labels := m_labels (k_meta secret)\<rparr>\<rparr>))"

definition reconcileOtelCollectorNetworkPolicy :: "'w reconcile_fn" where
  "reconcileOtelCollectorNetworkPolicy r cr =
     reconcile_labelled r ErrGetOtelCollectorNetworkPolicy ErrCreateOtelCollectorNetworkPolicy
       ErrUpdateOtelCollectorNetworkPolicy (NetworkPolicy, GetNamespace r, OtelCollectorNetworkPolicyName)
       (GenerateOtelCollectorNetworkPolicy r cr)"

definition removeLegacyClientConfigMap :: "'w reconcile_fn" where
  "removeLegacyClientConfigMap r cr =
     delete_object r ''failed to get legacy OTEL Collector client ConfigMap''
       ''failed to delete legacy OTEL Collector client ConfigMap''
       (ConfigMap, GetNamespace r, LegacyOtelCollectorClientConfigMapName)"

definition reconcileOtelCollectorService :: "'w reconcile_fn" where
  "reconcileOtelCollectorService r cr = ReconcileConsolePluginService r (GenerateOtelCollectorService r cr)"

definition reconcileOtelCollectorTLSSecret :: "'w reconcile_fn" where
  "reconcileOtelCollectorTLSSecret r cr = WaitForConsolePluginTLSSecret r OtelCollectorCertsSecretName"

definition reconcileOtelCollectorDeployment :: "'w reconcile_fn" where
  "reconcileOtelCollectorDeployment r cr = try_or (GenerateOtelCollectorDeployment r cr)
     (wrapf ErrGenerateOtelCollectorDeployment) (\<lambda>desired.
       fetch r (Deployment, GetNamespace r, OtelCollectorDeploymentName)
         (create_as r ErrCreateOtelCollectorDeployment desired)
         (\<lambda>e. ret (Some (wrapf ErrGetOtelCollectorDeployment e)))
         (\<lambda>existing. do {
            e \<leftarrow> UpdateOtelCollectorDeployment r existing desired;
            ret (map_option (wrapf ErrUpdateOtelCollectorDeployment) e) }))"

definition reconcileOtelCollectorServiceMonitor :: "'w reconcile_fn" where
  "reconcileOtelCollectorServiceMonitor r cr = ReconcileServiceMonitor r (generateOtelCollectorServiceMonitor r cr)"

definition otel_resource_tasks :: "'w ReconcileTask list" where
  "otel_resource_tasks =
     [(''reconcile OTEL Collector ConfigMap'', reconcileOtelCollectorConfigMap),
      (''reconcile OTEL Collector ServiceAccount'', reconcileOtelCollectorServiceAccount),
      (''reconcile OTEL Collector Postgres Secret'', reconcileOtelCollectorPostgresSecret),
      (''reconcile OTEL Collector NetworkPolicy'', reconcileOtelCollectorNetworkPolicy),
      (''remove legacy OTEL Collector client ConfigMap'', removeLegacyClientConfigMap)]"

definition ReconcileOtelCollectorResources :: "'w reconcile_fn" where
  "ReconcileOtelCollectorResources r cr =
     RunReconcileTasks r cr ''reconcileOtelCollectorResources'' otel_resource_tasks True"

definition otel_deployment_tasks :: "'w ReconcileTask list" where
  "otel_deployment_tasks =
     [(''reconcile OTEL Collector Service'', reconcileOtelCollectorService),
      (''reconcile OTEL Collector TLS Certs'', reconcileOtelCollectorTLSSecret),
      (''reconcile OTEL Collector Deployment'', reconcileOtelCollectorDeployment),
      (''reconcile OTEL Collector ServiceMonitor'', reconcileOtelCollectorServiceMonitor)]"

definition ReconcileOtelCollectorDeployment :: "'w reconcile_fn" where
  "ReconcileOtelCollectorDeployment r cr =
     RunReconcileTasks r cr ''reconcileOtelCollectorDeployment'' otel_deployment_tasks False"

section \<open>The configuration is closed\<close>

text \<open>
  What the collector checks when it loads a configuration: a pipeline receives from receivers or
  connectors, exports to exporters or connectors and uses declared processors, a connector
  stands on both sides, its routes name pipelines, and the enabled extensions are declared.
\<close>

fun doc_keys :: "doc option \<Rightarrow> string list" where
  "doc_keys (Some (DMap m)) = map fst m"
| "doc_keys _ = []"

fun doc_entries :: "doc option \<Rightarrow> (string \<times> doc) list" where
  "doc_entries (Some (DMap m)) = m"
| "doc_entries _ = []"

fun doc_strings :: "doc option \<Rightarrow> string list" where
  "doc_strings (Some (DList xs)) = map (\<lambda>x. case x of DStr s \<Rightarrow> s | _ \<Rightarrow> []) xs"
| "doc_strings _ = []"

fun doc_items :: "doc option \<Rightarrow> doc list" where
  "doc_items (Some (DList xs)) = xs"
| "doc_items _ = []"

fun doc_at :: "doc \<Rightarrow> string list \<Rightarrow> doc option" where
  "doc_at d [] = Some d"
| "doc_at d (k # ks) = Option.bind (doc_get d k) (\<lambda>d'. doc_at d' ks)"

definition route_targets :: "doc \<Rightarrow> string list" where
  "route_targets conn = doc_strings (doc_get conn ''default_pipelines'') @
     concat (map (\<lambda>t. doc_strings (doc_get t ''pipelines'')) (doc_items (doc_get conn ''table'')))"

definition config_closed :: "doc \<Rightarrow> bool" where
  "config_closed c =
     (let conns = doc_keys (doc_get c ''connectors'');
          pipes = doc_entries (doc_at c [''service'', ''pipelines'']);
          received = concat (map (\<lambda>(n, p). doc_strings (doc_get p ''receivers'')) pipes);
          exported = concat (map (\<lambda>(n, p). doc_strings (doc_get p ''exporters'')) pipes) in
      distinct (map fst pipes) \<and>
      list_all (\<lambda>(n, p). doc_strings (doc_get p ''receivers'') \<noteq> [] \<and> doc_strings (doc_get p ''exporters'') \<noteq> []) pipes \<and>
      set received \<subseteq> set (doc_keys (doc_get c ''receivers'') @ conns) \<and>
      set exported \<subseteq> set (doc_keys (doc_get c ''exporters'') @ conns) \<and>
      set (concat (map (\<lambda>(n, p). doc_strings (doc_get p ''processors'')) pipes)) \<subseteq> set (doc_keys (doc_get c ''processors'')) \<and>
      set conns \<subseteq> set received \<inter> set exported \<and>
      list_all (\<lambda>(n, k). set (route_targets k) \<subseteq> set (map fst pipes)) (doc_entries (doc_get c ''connectors'')) \<and>
      set (doc_strings (doc_at c [''service'', ''extensions''])) \<subseteq> set (doc_keys (doc_get c ''extensions'')))"

text \<open>
  (C32) The generated configuration is closed for every resource, with audit logging on or off and
  with or without a tracing endpoint, so the collector always loads it.
\<close>

theorem collector_config_closed: "config_closed (collector_config cr)"
  by (cases "BoolDeref (au_Logging (s_Audit (cr_Spec cr))) True"; cases "au_TracingEndpoint (s_Audit (cr_Spec cr)) = []")
    (simp_all add: collector_config_def config_closed_def Let_def collector_connectors_def collector_pipelines_def
      collector_exporters_def pipeline_def strs_def routing_logs_def route_targets_def collectorServiceExtensions_def
      collectorExtensions_def)

section \<open>The connection string is read back\<close>

text \<open>How \<open>url.Parse\<close> reads the user information: the reference the escaping is checked against.\<close>

definition unhex :: "char \<Rightarrow> nat option" where
  "unhex c = map_of (zip ''0123456789ABCDEF'' [0..<16]) c"

fun url_unescape :: "string \<Rightarrow> string option" where
  "url_unescape [] = Some []"
| "url_unescape (c # s) = (if c = CHR ''%'' then
     (case s of a # b # t \<Rightarrow>
        (case (unhex a, unhex b, url_unescape t) of
           (Some i, Some j, Some u) \<Rightarrow> Some (char_of (16 * i + j) # u)
         | _ \<Rightarrow> None)
      | _ \<Rightarrow> None)
     else map_option (Cons c) (url_unescape s))"

definition parse_password :: "string \<Rightarrow> string option" where
  "parse_password dsn = (let info = takeWhile (\<lambda>c. c \<noteq> CHR ''@'') (drop (length ''postgres://'') dsn) in
     url_unescape (drop 1 (dropWhile (\<lambda>c. c \<noteq> CHR '':'') info)))"

lemma unhex_url_hex [simp]: "n < 16 \<Longrightarrow> unhex (url_hex n) = Some n"
proof -
  assume "n < 16"
  then have "n \<in> set [0..<16]" by simp
  moreover have "\<forall>m \<in> set [0..<16]. unhex (url_hex m) = Some m" by code_simp
  ultimately show ?thesis by blast
qed

lemma url_hex_plain: "n < 16 \<Longrightarrow> url_plain (url_hex n)"
proof -
  assume "n < 16"
  then have "n \<in> set [0..<16]" by simp
  moreover have "\<forall>m \<in> set [0..<16]. url_plain (url_hex m)" by code_simp
  ultimately show ?thesis by blast
qed

lemma of_char_nibble: "of_char c div 16 < (16 :: nat)"
  using nat_of_char_less_256 [of c] by (simp add: less_mult_imp_div_less)

lemma url_escape_Cons: "url_escape (c # s) = (if url_plain c then [c]
     else [CHR ''%'', url_hex (of_char c div 16), url_hex (of_char c mod 16)]) @ url_escape s"
  by (simp add: url_escape_def)

lemma url_unescape_escape: "url_unescape (url_escape s) = Some s"
proof (induction s)
  case (Cons c s)
  show ?case
  proof (cases "url_plain c")
    case True
    then have "c \<noteq> CHR ''%''" by (auto simp: url_plain_def)
    then show ?thesis using True Cons by (simp add: url_escape_Cons)
  next
    case False
    then show ?thesis using Cons of_char_nibble [of c] by (simp add: url_escape_Cons)
  qed
qed (simp add: url_escape_def)

lemma url_escape_chars: "c \<in> set (url_escape s) \<Longrightarrow> url_plain c \<or> c = CHR ''%''"
proof (induction s)
  case (Cons a s)
  then show ?case using of_char_nibble [of a] by (auto simp: url_escape_Cons url_hex_plain split: if_splits)
qed (simp add: url_escape_def)

text \<open>
  (C33) The connection string carries the password exactly: read as a URL it gives back the stored
  password, whatever bytes the secret holds, and the password adds no delimiter, so host,
  database and TLS mode are those of the operator.
\<close>

theorem dsn_password_roundtrip:
  "parse_password (buildPostgresConnectionString namespace password) = Some password \<and>
   set ''@:/?#'' \<inter> set (url_escape password) = {}"
proof -
  have plain: "\<not> url_plain c" if "c \<in> set ''@:/?#%''" for c using that by (auto simp: url_plain_def)
  have none: "c \<notin> set (url_escape s)" if "c \<in> set ''@:/?#''" for c s
    using url_escape_chars [of c s] plain [of c] that by auto
  have user: "url_escape PostgresDefaultUser = PostgresDefaultUser" by code_simp
  have nocolon: "CHR '':'' \<notin> set PostgresDefaultUser" "CHR ''@'' \<notin> set PostgresDefaultUser"
    by (simp_all add: PostgresDefaultUser_def)
  have "takeWhile (\<lambda>c. c \<noteq> CHR ''@'') (PostgresDefaultUser @ '':'' @ url_escape password @ ''@'' @ rest) =
      PostgresDefaultUser @ '':'' @ url_escape password" for rest
    using nocolon none [of "CHR ''@''" password]
    by (subst takeWhile_append2, force)+ simp
  moreover have "dropWhile (\<lambda>c. c \<noteq> CHR '':'') (PostgresDefaultUser @ '':'' @ url_escape password) = '':'' @ url_escape password"
    using nocolon by (subst dropWhile_append2) auto
  ultimately have "parse_password (buildPostgresConnectionString namespace password) = url_unescape (url_escape password)"
    by (simp add: parse_password_def buildPostgresConnectionString_def user)
  then show ?thesis using none [of _ password] by (auto simp: url_unescape_escape)
qed

section \<open>The phases\<close>

abbreviation otel_key :: "'w reconciler \<Rightarrow> kind \<Rightarrow> string \<Rightarrow> okey" where
  "otel_key r K n \<equiv> (K, GetNamespace r, n)"

subsection \<open>The resources\<close>

lemma otel_keys:
  "key_of (otel_config_map r cr y) = otel_key r ConfigMap OtelCollectorConfigMapName"
  "key_of (GenerateOtelCollectorServiceAccount r cr) = otel_key r ServiceAccount OtelCollectorServiceAccountName"
  "key_of (otel_postgres_secret r cr c) = otel_key r Secret OtelCollectorPostgresDSNSecretName"
  "key_of (GenerateOtelCollectorNetworkPolicy r cr) = otel_key r NetworkPolicy OtelCollectorNetworkPolicyName"
  "key_of (GenerateOtelCollectorService r cr) = otel_key r Service OtelCollectorServiceName"
  "key_of (generateOtelCollectorServiceMonitor r cr) = otel_key r ServiceMonitor OtelCollectorServiceMonitorName"
  by (simp_all add: otel_config_map_def GenerateOtelCollectorServiceAccount_def GenerateServiceAccount_def
      otel_postgres_secret_def GenerateOtelCollectorNetworkPolicy_def GenerateOtelCollectorService_def
      generateOtelCollectorServiceMonitor_def key_of_def set_controller_def new_meta_def)

definition holds_config :: "'w reconciler \<Rightarrow> OLSConfig \<Rightarrow> (okey \<Rightarrow> kobject option) \<Rightarrow> bool" where
  "holds_config r cr f = (\<exists>y s. yaml_marshal r (collector_config cr) = Inr y \<and>
     f (otel_key r ConfigMap OtelCollectorConfigMapName) = Some s \<and>
     cm_data (k_payload s) = fmap_of_list [(OtelCollectorConfigMapDataKey, y)])"

lemma ensures_otel_config:
  assumes api: "api_ok r v"
  shows "ensures v {otel_key r ConfigMap OtelCollectorConfigMapName} (holds_config r cr)
     (reconcileOtelCollectorConfigMap r cr)"
proof -
  let ?k = "otel_key r ConfigMap OtelCollectorConfigMapName"
  let ?D = "\<lambda>f :: okey \<Rightarrow> kobject option. (case GenerateOtelCollectorConfigMap r cr of Inl e \<Rightarrow> None | Inr cm \<Rightarrow> Some cm)"
  have "ensures v ({?k} \<union> {}) (\<lambda>f. \<exists>d. ?D f = Some d \<and> (\<exists>s. f ?k = Some s \<and> cm_data (k_payload s) = cm_data (k_payload d)))
     (reconcileOtelCollectorConfigMap r cr)"
    unfolding reconcileOtelCollectorConfigMap_def
  proof (rule ensures_generated)
    fix w e w' and d :: kobject
    let ?m = "\<lambda>found. found\<lparr>k_payload := PConfigMap (cm_data (k_payload d)) (cm_binary (k_payload found)),
            k_meta := (k_meta found)\<lparr>m_labels := m_labels (k_meta d)\<rparr>\<rparr>"
    assume d: "?D (v w) = Some d" and run: "run_state (create_or_update r ErrGetOtelCollectorConfigMap
        ErrCreateOtelCollectorConfigMap ErrUpdateOtelCollectorConfigMap ?k d (\<lambda>found. ConfigMapEqual found d) ?m) w = (e, w')"
    have kd: "key_of d = ?k" "kind_of (k_payload d) = ConfigMap"
      using d otel_keys(1) [of r cr]
      by (auto simp: GenerateOtelCollectorConfigMap_def otel_config_map_def set_controller_def split: sum.splits)
    have "ensures v {?k} (\<lambda>f. \<exists>s. f ?k = Some s \<and> cm_data (k_payload s) = cm_data (k_payload d))
        (create_or_update r ErrGetOtelCollectorConfigMap ErrCreateOtelCollectorConfigMap
          ErrUpdateOtelCollectorConfigMap ?k d (\<lambda>found. ConfigMapEqual found d) ?m)"
    proof (rule ensures_create_or_update [OF api kd(1)])
      show "cm_data (k_payload s) = cm_data (k_payload d)" if "stored_as d s" for s
        using stored_plain [OF that] kd(2) by simp
      show "cm_data (k_payload s) = cm_data (k_payload d)" if "stored_as (?m ob) s" for ob s
        using stored_plain [OF that] by simp
    qed (auto simp: keeps_life_def key_of_def ConfigMapEqual_def)
    from ensuresD(1,2) [OF this run] show "(e = None \<longrightarrow> (\<exists>s. v w' ?k = Some s \<and> cm_data (k_payload s) = cm_data (k_payload d))) \<and>
        (\<forall>k. k \<notin> {?k} \<longrightarrow> v w' k = v w k)" by blast
  qed (auto simp: on_keys_object split: sum.splits)
  moreover have "(\<lambda>f. \<exists>d. ?D f = Some d \<and> (\<exists>s. f ?k = Some s \<and> cm_data (k_payload s) = cm_data (k_payload d))) = holds_config r cr"
    by (auto simp: fun_eq_iff holds_config_def GenerateOtelCollectorConfigMap_def buildCollectorConfigYAML_def
        otel_config_map_def set_controller_def split: sum.splits)
  ultimately show ?thesis by simp
qed

text \<open>The connection string of the stored password.\<close>

definition stored_dsn :: "'w reconciler \<Rightarrow> (okey \<Rightarrow> kobject option) \<Rightarrow> string option" where
  "stored_dsn r f = (case f (pg_secret_key r) of None \<Rightarrow> None
     | Some s \<Rightarrow> (let password = zlookup (secret_data (k_payload s)) PostgresSecretKeyName in
         if password = [] then None else Some (buildPostgresConnectionString (GetNamespace r) password)))"

lemma PostgresConnectionString_run:
  assumes "api_ok r v" "run_state (PostgresConnectionString r) w = (x, w')"
  shows "v w' = v w \<and> (\<forall>d. x = Inr d \<longrightarrow> stored_dsn r (v w) = Some d)"
proof -
  obtain g w1 where g: "run_state (cl_get r (pg_secret_key r)) w = (g, w1)" by force
  show ?thesis using assms(2) g api_get(1,2) [OF assms(1) g]
    by (cases g) (auto simp: PostgresConnectionString_def stored_dsn_def Let_def split: if_splits)
qed

definition holds_dsn :: "'w reconciler \<Rightarrow> (okey \<Rightarrow> kobject option) \<Rightarrow> bool" where
  "holds_dsn r f = (\<exists>c s. stored_dsn r f = Some c \<and> f (otel_key r Secret OtelCollectorPostgresDSNSecretName) = Some s \<and>
     secret_data (k_payload s) = fmap_of_list [(OtelCollectorPostgresConnectionStringSecretKey, c)])"

lemma ensures_otel_dsn:
  assumes api: "api_ok r v"
  shows "ensures v {otel_key r Secret OtelCollectorPostgresDSNSecretName, pg_secret_key r} (holds_dsn r)
     (reconcileOtelCollectorPostgresSecret r cr)"
proof -
  let ?k = "otel_key r Secret OtelCollectorPostgresDSNSecretName"
  let ?D = "\<lambda>f. map_option (otel_postgres_secret r cr) (stored_dsn r f)"
  have "ensures v ({?k} \<union> {pg_secret_key r}) (\<lambda>f. \<exists>d. ?D f = Some d \<and> (\<exists>s. f ?k = Some s \<and>
      secret_data (k_payload s) = secret_data (k_payload d))) (reconcileOtelCollectorPostgresSecret r cr)"
    unfolding reconcileOtelCollectorPostgresSecret_def
  proof (rule ensures_generated)
    fix w x w' assume run: "run_state (GenerateOtelCollectorPostgresSecret r cr) w = (x, w')"
    obtain y where y: "run_state (PostgresConnectionString r) w = (y, w')"
      "x = (case y of Inl e \<Rightarrow> Inl e | Inr c \<Rightarrow> Inr (otel_postgres_secret r cr c))"
      using run by (auto simp: GenerateOtelCollectorPostgresSecret_def split: prod.splits)
    show "v w' = v w \<and> (\<forall>d. x = Inr d \<longrightarrow> ?D (v w) = Some d)"
      using PostgresConnectionString_run [OF api y(1)] y(2) by (auto split: sum.splits)
  next
    fix w e w' and d :: kobject
    let ?m = "\<lambda>found. found\<lparr>k_payload := PSecret (secret_data (k_payload d)) (secret_type (k_payload found)),
            k_meta := (k_meta found)\<lparr>m_labels := m_labels (k_meta d)\<rparr>\<rparr>"
    let ?s = "\<lambda>found. secret_data (k_payload found) = secret_data (k_payload d) \<and> m_labels (k_meta found) = m_labels (k_meta d)"
    assume d: "?D (v w) = Some d" and run: "run_state (create_or_update r ErrGetOtelCollectorPostgresSecret
        ErrCreateOtelCollectorPostgresSecret ErrUpdateOtelCollectorPostgresSecret ?k d ?s ?m) w = (e, w')"
    have kd: "key_of d = ?k" "kind_of (k_payload d) = Secret"
      using d otel_keys(3) [of r cr] by (auto simp: otel_postgres_secret_def set_controller_def)
    have "ensures v {?k} (\<lambda>f. \<exists>s. f ?k = Some s \<and> secret_data (k_payload s) = secret_data (k_payload d))
        (create_or_update r ErrGetOtelCollectorPostgresSecret
        ErrCreateOtelCollectorPostgresSecret ErrUpdateOtelCollectorPostgresSecret ?k d ?s ?m)"
    proof (rule ensures_create_or_update [OF api kd(1)])
      show "secret_data (k_payload s) = secret_data (k_payload d)" if "stored_as d s" for s
        using stored_plain [OF that] kd(2) by simp
      show "secret_data (k_payload s) = secret_data (k_payload d)" if "stored_as (?m ob) s" for ob s
        using stored_plain [OF that] by simp
    qed (auto simp: keeps_life_def key_of_def)
    from ensuresD(1,2) [OF this run] show "(e = None \<longrightarrow> (\<exists>s. v w' ?k = Some s \<and> secret_data (k_payload s) = secret_data (k_payload d))) \<and>
        (\<forall>k. k \<notin> {?k} \<longrightarrow> v w' k = v w k)" by blast
  next
    show "{?k} \<inter> {pg_secret_key r} = {}" by (simp add: go_const)
  qed (auto simp: stored_dsn_def on_keys_def)
  moreover have "(\<lambda>f. \<exists>d. ?D f = Some d \<and> (\<exists>s. f ?k = Some s \<and> secret_data (k_payload s) = secret_data (k_payload d))) = holds_dsn r"
    by (auto simp: fun_eq_iff holds_dsn_def otel_postgres_secret_def set_controller_def)
  ultimately show ?thesis by (simp add: insert_commute)
qed

definition otel_resource_specs :: "'w reconciler \<Rightarrow> OLSConfig \<Rightarrow> task_spec list" where
  "otel_resource_specs r cr =
     [({otel_key r ConfigMap OtelCollectorConfigMapName}, holds_config r cr),
      ({otel_key r ServiceAccount OtelCollectorServiceAccountName},
       \<lambda>f. f (otel_key r ServiceAccount OtelCollectorServiceAccountName) \<noteq> None),
      ({otel_key r Secret OtelCollectorPostgresDSNSecretName, pg_secret_key r}, holds_dsn r),
      ({otel_key r NetworkPolicy OtelCollectorNetworkPolicyName},
       \<lambda>f. \<exists>s. f (otel_key r NetworkPolicy OtelCollectorNetworkPolicyName) = Some s \<and>
         labelled_current (GenerateOtelCollectorNetworkPolicy r cr) s),
      ({otel_key r ConfigMap LegacyOtelCollectorClientConfigMapName},
       \<lambda>f. gone (f (otel_key r ConfigMap LegacyOtelCollectorClientConfigMapName)))]"

lemma ensures_otel_resources:
  assumes "api_ok r v"
  shows "ensures v (\<Union> (fst ` set (otel_resource_specs r cr)))
     (\<lambda>f. \<forall>(K, G) \<in> set (otel_resource_specs r cr). G f) (ReconcileOtelCollectorResources r cr)"
proof -
  have "disjoint_specs (otel_resource_specs r cr)"
    by (simp add: disjoint_specs_def otel_resource_specs_def) (simp add: go_const)
  note run = ensures_RunReconcileTasks [OF _ this]
  have "list_all2 (\<lambda>(n, t) (K, G). ensures v K G (t r cr)) otel_resource_tasks (otel_resource_specs r cr)"
    unfolding otel_resource_tasks_def otel_resource_specs_def
    by (simp add: ensures_otel_config [OF assms] ensures_otel_dsn [OF assms] settles_ensures [OF settles_create_missing [OF assms], unfolded not_None_eq]
        settles_ensures [OF settles_labelled [OF assms]] settles_ensures [OF settles_delete_object [OF assms]]
        reconcileOtelCollectorServiceAccount_def reconcileOtelCollectorNetworkPolicy_def removeLegacyClientConfigMap_def otel_keys)
  from run [OF this] show ?thesis by (simp add: ReconcileOtelCollectorResources_def)
qed

text \<open>
  (C30) The resource phase of the collector: when it succeeds, the ConfigMap holds the marshalled
  configuration and the connection secret holds the string built from the database password that
  is stored, so a rotated password reaches the collector with the next reconcile; the account
  and the network policy are there and the ConfigMap of older releases is gone. Whatever
  happens, no other object is written.
\<close>

theorem otel_resources_current:
  assumes "api_ok r v" "run_state (ReconcileOtelCollectorResources r cr) w = (e, w')"
  shows "(e = None \<longrightarrow> holds_config r cr (v w') \<and> holds_dsn r (v w') \<and>
      v w' (otel_key r ServiceAccount OtelCollectorServiceAccountName) \<noteq> None \<and>
      (\<exists>s. v w' (otel_key r NetworkPolicy OtelCollectorNetworkPolicyName) = Some s \<and>
         labelled_current (GenerateOtelCollectorNetworkPolicy r cr) s) \<and>
      gone (v w' (otel_key r ConfigMap LegacyOtelCollectorClientConfigMapName))) \<and>
    (\<forall>k. k \<notin> \<Union> (fst ` set (otel_resource_specs r cr)) \<longrightarrow> v w' k = v w k)"
  using ensuresD(1,2) [OF ensures_otel_resources [OF assms(1)] assms(2)]
  by (auto simp: otel_resource_specs_def)

subsection \<open>The Deployment\<close>

definition otel_desired :: "'w reconciler \<Rightarrow> OLSConfig \<Rightarrow> (okey \<Rightarrow> kobject option) \<Rightarrow> kobject option" where
  "otel_desired r cr f = map_option (otel_deployment r cr) (version_at (otel_key r ConfigMap OtelCollectorConfigMapName) f)"

abbreviation otel_versions :: "string list" where
  "otel_versions \<equiv> [OtelCollectorConfigMapResourceVersionAnnotation]"

lemma otel_deployment_complete:
  "key_of (otel_deployment r cr cv) = otel_key r Deployment OtelCollectorDeploymentName"
  "complete_deployment (dep_of (otel_deployment r cr cv))"
  "recorded (otel_deployment r cr cv) OtelCollectorConfigMapResourceVersionAnnotation = cv"
  by (simp_all add: otel_deployment_def complete_deployment_def complete_container_def zlookup_def
      otel_container_def otel_volumes_def zero_pod_def supported_volume_def emptydir_volume_def health_probe_def
      secret_volume_def configmap_volume_def ApplyPodDeploymentConfig_def Let_def GeneratePostgresWaitInitContainer_def tcp_port_def)

text \<open>
  A Deployment that is up to date is left alone only when the version of the configuration could
  be read again; otherwise it is rolled.
\<close>

lemma UpdateOtelCollectorDeployment_run:
  assumes api: "api_ok r v"
    and ob: "key_of ob = otel_key r Deployment OtelCollectorDeploymentName" "v w (key_of ob) = Some ob"
      "m_deleting (k_meta ob) \<longrightarrow> m_finalizers (k_meta ob) \<noteq> []"
    and cv: "version_at (otel_key r ConfigMap OtelCollectorConfigMapName) (v w) = Some cv"
    and run: "run_state (UpdateOtelCollectorDeployment r ob (otel_deployment r cr cv)) w = (e, w')"
  shows "(e = None \<longrightarrow> (\<exists>s. v w' (key_of ob) = Some s \<and> versioned_current otel_versions (otel_deployment r cr cv) s)) \<and>
    (\<forall>k. k \<noteq> key_of ob \<longrightarrow> v w' k = v w k)"
proof -
  let ?d = "otel_deployment r cr cv"
  obtain x w1 where g: "run_state (GetConfigMapResourceVersion r OtelCollectorConfigMapName) w = (x, w1)" by force
  note ver = configmap_version_run [OF api g]
  consider (stop) "w' \<in> {w, w1}" "e \<noteq> None \<or> versioned_current otel_versions ?d ob"
    | (roll) "run_state (roll_versioned r ErrUpdateOtelCollectorDeployment otel_versions ob ?d) w1 = (e, w')"
    using run g ver cv by (cases x)
      (auto simp: UpdateOtelCollectorDeployment_def RestartOtelCollector_def roll_otel_def roll_versioned_def
        versioned_current_def deployment_current_def same_versions_def otel_deployment_complete(3) Let_def
        split: option.splits if_splits)
  then show ?thesis
  proof cases
    case roll
    have k: "fst (key_of ob) = Deployment" using ob(1) by simp
    from roll_versioned_writes [OF api refl k otel_deployment_complete(2) ob(3) [rule_format] roll] ver
    show ?thesis by (metis (no_types, lifting))
  qed (use ob ver in auto)
qed

lemma ensures_otel_deployment:
  assumes api: "api_ok r v"
  shows "ensures v {otel_key r Deployment OtelCollectorDeploymentName, otel_key r ConfigMap OtelCollectorConfigMapName}
     (\<lambda>f. \<exists>d. otel_desired r cr f = Some d \<and> (\<exists>s. f (otel_key r Deployment OtelCollectorDeploymentName) = Some s \<and>
        versioned_current otel_versions d s)) (reconcileOtelCollectorDeployment r cr)"
proof -
  let ?k = "otel_key r Deployment OtelCollectorDeploymentName" and ?c = "otel_key r ConfigMap OtelCollectorConfigMapName"
  have "ensures v ({?k} \<union> {?c}) (\<lambda>f. \<exists>d. otel_desired r cr f = Some d \<and> (\<exists>s. f ?k = Some s \<and> versioned_current otel_versions d s))
      (reconcileOtelCollectorDeployment r cr)"
    unfolding reconcileOtelCollectorDeployment_def
  proof (rule ensures_generated)
    fix w x w' assume run: "run_state (GenerateOtelCollectorDeployment r cr) w = (x, w')"
    obtain y where y: "run_state (GetConfigMapResourceVersion r OtelCollectorConfigMapName) w = (y, w')"
      "x = (case y of Inl e \<Rightarrow> Inl e | Inr cv \<Rightarrow> Inr (otel_deployment r cr cv))"
      using run by (auto simp: GenerateOtelCollectorDeployment_def split: prod.splits)
    show "v w' = v w \<and> (\<forall>d. x = Inr d \<longrightarrow> otel_desired r cr (v w) = Some d)"
      using configmap_version_run [OF api y(1)] y(2) by (auto simp: otel_desired_def split: sum.splits)
  next
    fix w e w' and d :: kobject
    assume d: "otel_desired r cr (v w) = Some d" and run: "run_state (fetch r ?k (create_as r ErrCreateOtelCollectorDeployment d)
        (\<lambda>e. ret (Some (wrapf ErrGetOtelCollectorDeployment e))) (\<lambda>existing. do {
          e \<leftarrow> UpdateOtelCollectorDeployment r existing d;
          ret (map_option (wrapf ErrUpdateOtelCollectorDeployment) e) })) w = (e, w')"
    obtain cv where cv: "version_at ?c (v w) = Some cv" "d = otel_deployment r cr cv"
      using d by (auto simp: otel_desired_def)
    show "(e = None \<longrightarrow> (\<exists>s. v w' ?k = Some s \<and> versioned_current otel_versions d s)) \<and> (\<forall>k. k \<notin> {?k} \<longrightarrow> v w' k = v w k)"
      using api run
    proof (cases rule: fetch_cases)
      case (missing w1)
      have "versioned_current otel_versions d s" if "stored_as d s" for s
        using stored_dep_of [OF that] otel_deployment_complete(1,2) [of r cr cv] stored_spec_equal recorded_stored [OF that] cv(2)
        by (simp add: versioned_current_def deployment_current_def same_versions_def)
      from ensures_create [OF api _ this missing(3)] missing(1) cv(2) otel_deployment_complete(1) [of r cr cv]
      show ?thesis by simp
    next
      case (found ob w1)
      obtain ue where u: "run_state (UpdateOtelCollectorDeployment r ob (otel_deployment r cr cv)) w1 = (ue, w')"
        "e = map_option (wrapf ErrUpdateOtelCollectorDeployment) ue" using found(5) cv(2) by (auto split: prod.splits)
      show ?thesis
        using UpdateOtelCollectorDeployment_run [OF api found(3) _ found(4) _ u(1)] found(1,2,3) cv u(2) by simp
    qed auto
  qed (auto simp: otel_desired_def version_at_def on_keys_def)
  then show ?thesis by (simp add: insert_commute)
qed

lemma otel_service_complete:
  "own Service r (GenerateOtelCollectorService r cr)" "complete_service (GenerateOtelCollectorService r cr)"
  "own ServiceMonitor r (generateOtelCollectorServiceMonitor r cr)"
  by (simp_all add: GenerateOtelCollectorService_def generateOtelCollectorServiceMonitor_def own_def key_of_def
      complete_service_def set_controller_def new_meta_def nil_map_def named_port_def)

definition otel_deployment_specs :: "'w reconciler \<Rightarrow> OLSConfig \<Rightarrow> task_spec list" where
  "otel_deployment_specs r cr =
     [({otel_key r Service OtelCollectorServiceName}, \<lambda>f. \<exists>s. f (otel_key r Service OtelCollectorServiceName) = Some s \<and>
         service_current (GenerateOtelCollectorService r cr) s),
      ({}, \<lambda>f. True),
      ({otel_key r Deployment OtelCollectorDeploymentName, otel_key r ConfigMap OtelCollectorConfigMapName},
       \<lambda>f. \<exists>d. otel_desired r cr f = Some d \<and> (\<exists>s. f (otel_key r Deployment OtelCollectorDeploymentName) = Some s \<and>
         versioned_current otel_versions d s)),
      ({otel_key r ServiceMonitor OtelCollectorServiceMonitorName}, \<lambda>f. IsPrometheusAvailable r \<longrightarrow>
        (\<exists>s. f (otel_key r ServiceMonitor OtelCollectorServiceMonitorName) = Some s \<and>
          ServiceMonitorEqual s (generateOtelCollectorServiceMonitor r cr)))]"

lemma ensures_otel_phase2:
  assumes "api_ok r v" "runtime_ok r"
  shows "ensures v (\<Union> (fst ` set (otel_deployment_specs r cr)))
     (\<lambda>f. \<forall>(K, G) \<in> set (otel_deployment_specs r cr). G f) (ReconcileOtelCollectorDeployment r cr)"
proof -
  let ?S = "GenerateOtelCollectorService r cr" and ?M = "generateOtelCollectorServiceMonitor r cr"
  have svc: "ensures v {key_of ?S} (\<lambda>f. \<exists>s. f (key_of ?S) = Some s \<and> service_current ?S s) (reconcileOtelCollectorService r cr)"
    unfolding reconcileOtelCollectorService_def
    by (rule settles_ensures [OF plugin_svc.settles_recon [OF assms(1)]]) (simp add: otel_service_complete)
  have mon: "ensures v {key_of ?M} (\<lambda>f. IsPrometheusAvailable r \<longrightarrow> (\<exists>s. f (key_of ?M) = Some s \<and> ServiceMonitorEqual s ?M))
      (reconcileOtelCollectorServiceMonitor r cr)"
    unfolding reconcileOtelCollectorServiceMonitor_def
    by (rule settles_ensures [OF settles_service_monitor [OF assms(1)]]) (simp add: otel_service_complete)
  have tls: "ensures v {} (\<lambda>f. True) (reconcileOtelCollectorTLSSecret r cr)"
    unfolding reconcileOtelCollectorTLSSecret_def by (rule settles_ensures [OF settles_wait_tls [OF assms]])
  have "disjoint_specs (otel_deployment_specs r cr)" by (simp add: disjoint_specs_def otel_deployment_specs_def)
  note run = ensures_RunReconcileTasks [OF _ this]
  have "list_all2 (\<lambda>(n, t) (K, G). ensures v K G (t r cr)) otel_deployment_tasks (otel_deployment_specs r cr)"
    unfolding otel_deployment_tasks_def otel_deployment_specs_def
    using svc tls ensures_otel_deployment [OF assms(1)] mon by (simp add: otel_keys)
  from run [OF this] show ?thesis by (simp add: ReconcileOtelCollectorDeployment_def)
qed

text \<open>
  (C31) The Deployment phase of the collector: when it succeeds, the Service is as generated, the
  Deployment runs the generated spec and records the version of the configuration that is
  stored, so a changed configuration has rolled the pods, and the ServiceMonitor is as
  generated where Prometheus is available. Whatever happens, no other object is written.
\<close>

theorem otel_phase2_current:
  assumes "api_ok r v" "runtime_ok r" "run_state (ReconcileOtelCollectorDeployment r cr) w = (e, w')"
  shows "(e = None \<longrightarrow>
      (\<exists>s. v w' (otel_key r Service OtelCollectorServiceName) = Some s \<and> service_current (GenerateOtelCollectorService r cr) s) \<and>
      (\<exists>cm s. v w' (otel_key r ConfigMap OtelCollectorConfigMapName) = Some cm \<and>
         v w' (otel_key r Deployment OtelCollectorDeploymentName) = Some s \<and>
         deployment_current False (otel_deployment r cr []) s \<and>
         recorded s OtelCollectorConfigMapResourceVersionAnnotation = m_version (k_meta cm)) \<and>
      (IsPrometheusAvailable r \<longrightarrow> (\<exists>s. v w' (otel_key r ServiceMonitor OtelCollectorServiceMonitorName) = Some s \<and>
         ServiceMonitorEqual s (generateOtelCollectorServiceMonitor r cr)))) \<and>
    (\<forall>k. k \<notin> \<Union> (fst ` set (otel_deployment_specs r cr)) \<longrightarrow> v w' k = v w k)"
proof -
  have same: "deployment_current False (otel_deployment r cr cv) = deployment_current False (otel_deployment r cr [])" for cv
    by (simp add: deployment_current_def otel_deployment_def fun_eq_iff)
  note en = ensuresD(1,2) [OF ensures_otel_phase2 [OF assms(1,2)] assms(3)]
  have "\<exists>cm s. f (otel_key r ConfigMap OtelCollectorConfigMapName) = Some cm \<and>
      f (otel_key r Deployment OtelCollectorDeploymentName) = Some s \<and> deployment_current False (otel_deployment r cr []) s \<and>
      recorded s OtelCollectorConfigMapResourceVersionAnnotation = m_version (k_meta cm)"
    if desired: "\<exists>d. otel_desired r cr f = Some d \<and> (\<exists>s. f (otel_key r Deployment OtelCollectorDeploymentName) = Some s \<and>
      versioned_current otel_versions d s)" for f
  proof -
    obtain d s where d: "otel_desired r cr f = Some d" "f (otel_key r Deployment OtelCollectorDeploymentName) = Some s"
      "versioned_current otel_versions d s" using desired by blast
    then obtain cm where cm: "f (otel_key r ConfigMap OtelCollectorConfigMapName) = Some cm"
      "d = otel_deployment r cr (m_version (k_meta cm))" by (auto simp: otel_desired_def version_at_def)
    then show ?thesis
      using d by (simp add: versioned_current_def same_versions_def otel_deployment_complete(3) same [of "m_version (k_meta cm)"])
  qed
  note dep = this
  show ?thesis
  proof (rule conjI [OF impI])
    assume "e = None"
    from en(1) [OF this]
    have "(\<exists>s. v w' (otel_key r Service OtelCollectorServiceName) = Some s \<and> service_current (GenerateOtelCollectorService r cr) s)"
      "\<exists>d. otel_desired r cr (v w') = Some d \<and> (\<exists>s. v w' (otel_key r Deployment OtelCollectorDeploymentName) = Some s \<and>
         versioned_current otel_versions d s)"
      "IsPrometheusAvailable r \<longrightarrow> (\<exists>s. v w' (otel_key r ServiceMonitor OtelCollectorServiceMonitorName) = Some s \<and>
         ServiceMonitorEqual s (generateOtelCollectorServiceMonitor r cr))"
      by (simp_all add: otel_deployment_specs_def)
    with dep show "(\<exists>s. v w' (otel_key r Service OtelCollectorServiceName) = Some s \<and> service_current (GenerateOtelCollectorService r cr) s) \<and>
      (\<exists>cm s. v w' (otel_key r ConfigMap OtelCollectorConfigMapName) = Some cm \<and>
         v w' (otel_key r Deployment OtelCollectorDeploymentName) = Some s \<and>
         deployment_current False (otel_deployment r cr []) s \<and>
         recorded s OtelCollectorConfigMapResourceVersionAnnotation = m_version (k_meta cm)) \<and>
      (IsPrometheusAvailable r \<longrightarrow> (\<exists>s. v w' (otel_key r ServiceMonitor OtelCollectorServiceMonitorName) = Some s \<and>
         ServiceMonitorEqual s (generateOtelCollectorServiceMonitor r cr)))" by blast
  qed (use en(2) in blast)
qed

section \<open>Sample runs\<close>

lemma mem_otel_tasks:
  "fst (run_state (reconcileOtelCollectorConfigMap (mem_reconciler op) cr) w) = None"
  "fst (run_state (reconcileOtelCollectorServiceAccount (mem_reconciler op) cr) w) = None"
  "fst (run_state (reconcileOtelCollectorNetworkPolicy (mem_reconciler op) cr) w) = None"
  "fst (run_state (removeLegacyClientConfigMap (mem_reconciler op) cr) w) = None"
  "stored_dsn (mem_reconciler op) (mem_view w) \<noteq> None \<Longrightarrow>
     fst (run_state (reconcileOtelCollectorPostgresSecret (mem_reconciler op) cr) w) = None"
proof -
  let ?r = "mem_reconciler op"
  show "fst (run_state (reconcileOtelCollectorConfigMap ?r cr) w) = None"
    unfolding reconcileOtelCollectorConfigMap_def try_or_def GenerateOtelCollectorConfigMap_def buildCollectorConfigYAML_def
    by (simp, rule mem_create_or_update [OF otel_keys(1)]) (simp add: key_of_def)
  show "fst (run_state (reconcileOtelCollectorServiceAccount ?r cr) w) = None"
    unfolding reconcileOtelCollectorServiceAccount_def by (rule mem_create_missing) (simp add: otel_keys)
  show "fst (run_state (reconcileOtelCollectorNetworkPolicy ?r cr) w) = None"
    using otel_keys(4) [of ?r cr]
    unfolding reconcileOtelCollectorNetworkPolicy_def reconcile_labelled_def
    by (intro mem_create_or_update) (auto simp: key_of_def)
  show "fst (run_state (removeLegacyClientConfigMap ?r cr) w) = None"
    unfolding removeLegacyClientConfigMap_def by (rule mem_deletes)
  assume "stored_dsn ?r (mem_view w) \<noteq> None"
  then obtain c where "run_state (PostgresConnectionString ?r) w = (Inr c, w)"
    by (cases "mem_view w (pg_secret_key ?r)")
      (auto simp: stored_dsn_def PostgresConnectionString_def mem_get_def Let_def split: if_splits)
  then show "fst (run_state (reconcileOtelCollectorPostgresSecret ?r cr) w) = None"
    unfolding reconcileOtelCollectorPostgresSecret_def try_or_def GenerateOtelCollectorPostgresSecret_def
    by (simp, intro mem_create_or_update) (simp_all add: otel_keys, simp add: key_of_def)
qed

lemma mem_otel_resources:
  assumes "stored_dsn (mem_reconciler op) (mem_view w) \<noteq> None"
  shows "fst (run_state (ReconcileOtelCollectorResources (mem_reconciler op) cr) w) = None"
  unfolding ReconcileOtelCollectorResources_def
proof (rule tasks_succeed [where P = "\<lambda>w. stored_dsn (mem_reconciler op) (mem_view w) \<noteq> None"])
  let ?r = "mem_reconciler op"
  fix n t w assume task: "(n, t) \<in> set (otel_resource_tasks :: mem ReconcileTask list)"
    and dsn: "stored_dsn ?r (mem_view w) \<noteq> None"
  have same: "stored_dsn ?r (mem_view w') \<noteq> None" if "mem_view w' (pg_secret_key ?r) = mem_view w (pg_secret_key ?r)" for w'
    using dsn that by (simp add: stored_dsn_def)
  have keep: "stored_dsn ?r (mem_view (snd (run_state m w))) \<noteq> None" if "ensures mem_view {k} G m" "k \<noteq> pg_secret_key ?r" for k G m
    using ensuresD(2) [OF that(1), of w _ _ "pg_secret_key ?r"] that(2) same by (metis prod.collapse singletonD)
  have k5: "stored_dsn ?r (mem_view (snd (run_state (reconcileOtelCollectorPostgresSecret ?r cr) w))) \<noteq> None"
    using ensuresD(1) [OF ensures_otel_dsn [OF mem_reconciler_ok], of op cr w] mem_otel_tasks(5) [OF dsn, of cr]
    by (metis holds_dsn_def option.distinct(1) prod.collapse)
  have k1: "stored_dsn ?r (mem_view (snd (run_state (reconcileOtelCollectorConfigMap ?r cr) w))) \<noteq> None"
    by (rule keep [OF ensures_otel_config [OF mem_reconciler_ok]]) simp
  have k2: "stored_dsn ?r (mem_view (snd (run_state (reconcileOtelCollectorServiceAccount ?r cr) w))) \<noteq> None"
    unfolding reconcileOtelCollectorServiceAccount_def
    by (rule keep [OF settles_ensures [OF settles_create_missing [OF mem_reconciler_ok otel_keys(2)]]]) simp
  have k3: "stored_dsn ?r (mem_view (snd (run_state (reconcileOtelCollectorNetworkPolicy ?r cr) w))) \<noteq> None"
    unfolding reconcileOtelCollectorNetworkPolicy_def
    by (rule keep [OF settles_ensures [OF settles_labelled [OF mem_reconciler_ok otel_keys(4)]]]) simp_all
  have k4: "stored_dsn ?r (mem_view (snd (run_state (removeLegacyClientConfigMap ?r cr) w))) \<noteq> None"
    unfolding removeLegacyClientConfigMap_def
    by (rule keep [OF settles_ensures [OF settles_delete_object [OF mem_reconciler_ok]]]) simp
  show "fst (run_state (t ?r cr) w) = None \<and> stored_dsn ?r (mem_view (snd (run_state (t ?r cr) w))) \<noteq> None"
    using task mem_otel_tasks(1,2,3,4) mem_otel_tasks(5) [OF dsn] k1 k2 k3 k4 k5
    unfolding otel_resource_tasks_def by auto
qed (rule assms)

theorem otel_resources_current_witness:
  defines "r \<equiv> mem_reconciler (no_options ''ns'')"
  defines "m \<equiv> fmupd (pg_secret_key r) (postgres_secret r (blank_cr []) ''p@ss'') fmempty"
  shows "holds_dsn r (mem_view (snd (run_state (ReconcileOtelCollectorResources r (blank_cr [])) m)))"
proof -
  have "mem_view m (pg_secret_key r) = Some (postgres_secret r (blank_cr []) ''p@ss'')"
    by (simp add: m_def mem_view_def postgres_keys) (simp add: postgres_secret_def set_controller_def new_meta_def)
  then have "stored_dsn r (mem_view m) \<noteq> None"
    by (simp add: stored_dsn_def postgres_secret_def set_controller_def zlookup_def)
  then have "fst (run_state (ReconcileOtelCollectorResources r (blank_cr [])) m) = None"
    unfolding r_def by (rule mem_otel_resources)
  then show ?thesis
    using otel_resources_current [OF mem_reconciler_ok, of "no_options ''ns''" "blank_cr []" m] unfolding r_def
    by (metis prod.collapse)
qed

theorem otel_phase2_current_witness:
  "mem_view (snd (run_state (ReconcileOtelCollectorDeployment (mem_reconciler (no_options ''ns'')) (blank_cr [])) fmempty))
     (Secret, ''ns'', ''x'') = None"
proof -
  let ?m = "ReconcileOtelCollectorDeployment (mem_reconciler (no_options ''ns'')) (blank_cr [])"
  have "run_state ?m fmempty = (fst (run_state ?m fmempty), snd (run_state ?m fmempty))" by simp
  from otel_phase2_current [OF mem_reconciler_ok mem_runtime_ok this] show ?thesis
    by (simp add: mem_view_def otel_deployment_specs_def)
qed

end
