(* ===== verification/Agentic_Integration.thy ===== *)
theory Agentic_Integration
  imports Versioned_Deployment
begin

text \<open>
  The handoff to the agentic operator (\<open>internal/controller/agenticintegration\<close>): the ConfigMap
  with the sandbox settings and the endpoints of the MCP server and the knowledge portal, the
  conditions on creating it for the first time, and the annotation that makes its reader load
  certificates again. The JSON of a pod spec is a parameter.
\<close>

section \<open>The sandbox\<close>

definition OpenShiftMCPServerServiceURL :: "string \<Rightarrow> string" where
  "OpenShiftMCPServerServiceURL namespace = ''https://'' @ OpenShiftMCPServerServiceName @ ''.'' @ namespace @
     ''.svc:'' @ int_to_string OpenShiftMCPServerHTTPSPort @ ''/mcp''"

definition RHOKPServiceURL :: "string \<Rightarrow> string" where
  "RHOKPServiceURL namespace = ''https://'' @ RHOKPServiceName @ ''.'' @ namespace @
     ''.svc:'' @ int_to_string RHOOKPImageHTTPSPort"

definition SandboxModeFromCR :: "OLSConfig \<Rightarrow> string" where
  "SandboxModeFromCR cr = (case s_AgenticOLS (cr_Spec cr) of
      None \<Rightarrow> SandboxModeBarePod
    | Some a \<Rightarrow> (if ag_SandboxMode a = [] then SandboxModeBarePod else ag_SandboxMode a))"

definition agenticSandboxConfigFromCR :: "OLSConfig \<Rightarrow> Config" where
  "agenticSandboxConfigFromCR cr = (case s_AgenticOLS (cr_Spec cr) of
      None \<Rightarrow> \<lparr>cf_Replicas = None, cf_Resources = None, cf_Tolerations = None, cf_NodeSelector = None\<rparr>
    | Some a \<Rightarrow> ag_AgenticSandboxConfig a)"

definition defaultSandboxResources :: resources where
  "defaultSandboxResources = \<lparr>rs_limits = fmempty,
     rs_requests = fmap_of_list [(''cpu'', 500), (''memory'', 128 * 1024 * 1024 * 1000)], rs_claims = []\<rparr>"

definition sandbox_container :: "'w reconciler \<Rightarrow> resources \<Rightarrow> container" where
  "sandbox_container r res = \<lparr>c_name = AgenticSandboxContainerName, c_image = AgenticSandboxImage (Options r),
     c_ports = [], c_env = [], c_command = [], c_args = [],
     c_mounts = [mount sandboxHomeVolumeName sandboxHomeMountPath False,
       mount sandboxSkillsWorkdirVolumeName sandboxSkillsWorkdirMountPath False],
     c_resources = res,
     c_secctx = Some \<lparr>sc_escalation = Some False, sc_readonly_fs = None, sc_non_root = Some True,
       sc_seccomp = Some ''RuntimeDefault'', sc_drop = [''ALL'']\<rparr>,
     c_pull = [], c_liveness = None, c_readiness = None, c_startup = None, c_lifecycle = None\<rparr>"

definition GenerateSandboxPodSpec :: "'w reconciler \<Rightarrow> OLSConfig \<Rightarrow> pod_spec" where
  "GenerateSandboxPodSpec r cr =
     (let cfg = agenticSandboxConfigFromCR cr;
          res = GetResourcesOrDefault (cf_Resources cfg) defaultSandboxResources in
      zero_pod\<lparr>
        po_secctx := Some \<lparr>sc_escalation = None, sc_readonly_fs = None, sc_non_root = Some True,
          sc_seccomp = Some ''RuntimeDefault'', sc_drop = []\<rparr>,
        po_containers := [sandbox_container r res],
        po_volumes := [emptydir_volume sandboxHomeVolumeName, emptydir_volume sandboxSkillsWorkdirVolumeName],
        po_tolerations := (if nil_list (cf_Tolerations cfg) \<noteq> [] then cf_Tolerations cfg else None),
        po_node_selector := (if nil_map (cf_NodeSelector cfg) \<noteq> fmempty then cf_NodeSelector cfg else None)\<rparr>)"

section \<open>The handoff ConfigMap\<close>

definition handoff_data :: "'w reconciler \<Rightarrow> OLSConfig \<Rightarrow> string \<Rightarrow> gmap" where
  "handoff_data r cr podSpecJSON = fmap_of_list (
     [(AgenticConfigurationSandboxModeKey, SandboxModeFromCR cr),
      (AgenticConfigurationSandboxPodSpecKey, podSpecJSON)] @
     (if BoolDeref (o_IntrospectionEnabled (s_OLSConfig (cr_Spec cr))) True
      then [(AgenticConfigurationMCPEndpointKey, OpenShiftMCPServerServiceURL (GetNamespace r)),
            (AgenticConfigurationMCPCASecretKey, AgenticMCPCASecretName)] else []) @
     (if \<not> o_ByokRAGOnly (s_OLSConfig (cr_Spec cr))
      then [(AgenticConfigurationRHOKPEndpointKey, RHOKPServiceURL (GetNamespace r)),
            (AgenticConfigurationRHOKPCASecretKey, AgenticRHOKPCASecretName)] else []))"

definition handoff_map :: "'w reconciler \<Rightarrow> OLSConfig \<Rightarrow> string \<Rightarrow> kobject" where
  "handoff_map r cr podSpecJSON = set_controller cr \<lparr>
     k_meta = new_meta (GetNamespace r) AgenticConfigurationConfigMapName GenerateAgenticIntegrationSelectorLabels,
     k_payload = PConfigMap (handoff_data r cr podSpecJSON) fmempty\<rparr>"

definition GenerateAgenticConfigurationConfigMap :: "'w reconciler \<Rightarrow> OLSConfig \<Rightarrow> goerr + kobject" where
  "GenerateAgenticConfigurationConfigMap r cr = (case json_pod r (GenerateSandboxPodSpec r cr) of
      Inl e \<Rightarrow> Inl (wrapf ErrMarshalAgenticSandboxPodSpec e)
    | Inr podSpecJSON \<Rightarrow> Inr (handoff_map r cr podSpecJSON))"

definition TouchAgenticConfiguration :: "'w reconciler \<Rightarrow> ('w, goerr option) io" where
  "TouchAgenticConfiguration r =
     fetch r (ConfigMap, GetNamespace r, AgenticConfigurationConfigMapName) (ret None)
       (\<lambda>e. ret (Some (wrapf ErrGetAgenticConfigurationConfigMap e)))
       (\<lambda>cm. do {
          now \<leftarrow> cl_now r;
          update_as r ErrTouchAgenticConfigurationConfigMap
            (cm\<lparr>k_meta := set_annotation AgenticConfigurationCertReloadAnnotation now (k_meta cm)\<rparr>) })"

section \<open>The reconciler\<close>

definition requireSecretKey :: "'w reconciler \<Rightarrow> string \<Rightarrow> string \<Rightarrow> string \<Rightarrow> ('w, goerr option) io" where
  "requireSecretKey r namespace name k = do {
     x \<leftarrow> cl_get r (Secret, namespace, name);
     ret (case x of
        Inl e \<Rightarrow> Some (wrapf (''client CA Secret '' @ name) e)
      | Inr secret \<Rightarrow>
          (if zlookup (secret_data (k_payload secret)) k = []
           then Some (newerr (''client CA Secret '' @ name @ '' key '' @ double_quoted k @ '' missing or empty''))
           else None)) }"

text \<open>Without introspection there is nothing to wait for.\<close>

definition handoffCreatePrerequisites :: "'w reconcile_fn" where
  "handoffCreatePrerequisites r cr =
     (if \<not> BoolDeref (o_IntrospectionEnabled (s_OLSConfig (cr_Spec cr))) True then ret None
      else try_or (cl_get r (Service, GetNamespace r, OpenShiftMCPServerServiceName))
        (wrapf (''OpenShift MCP Service '' @ OpenShiftMCPServerServiceName))
        (\<lambda>svc. requireSecretKey r (GetNamespace r) AgenticMCPCASecretName AgenticMCPCASecretDataKey))"

text \<open>The reload annotation of the stored ConfigMap is kept, every other annotation is dropped.\<close>

definition keep_reload :: "kobject \<Rightarrow> kobject \<Rightarrow> kobject" where
  "keep_reload foundCm cm = (case annotation (k_meta foundCm) AgenticConfigurationCertReloadAnnotation of
      None \<Rightarrow> cm
    | Some x \<Rightarrow> cm\<lparr>k_meta := set_annotation AgenticConfigurationCertReloadAnnotation x (k_meta cm)\<rparr>)"

definition reconcileConfigurationConfigMap :: "'w reconcile_fn" where
  "reconcileConfigurationConfigMap r cr = try_or (ret (GenerateAgenticConfigurationConfigMap r cr))
     (wrapf ErrGenerateAgenticConfigurationConfigMap) (\<lambda>gen.
       fetch r (ConfigMap, GetNamespace r, AgenticConfigurationConfigMapName)
         (do {
            readyErr \<leftarrow> handoffCreatePrerequisites r cr;
            case readyErr of
              Some e \<Rightarrow> ret (Some (wrapf ErrAgenticConfigurationPrerequisitesNotReady e))
            | None \<Rightarrow> create_as r ErrCreateAgenticConfigurationConfigMap gen })
         (\<lambda>e. ret (Some (wrapf ErrGetAgenticConfigurationConfigMap e)))
         (\<lambda>foundCm. let cm = keep_reload foundCm gen in
            if ConfigMapEqual foundCm cm \<and> m_labels (k_meta foundCm) = m_labels (k_meta cm) \<and>
               m_annotations (k_meta foundCm) = m_annotations (k_meta cm) \<and>
               m_owners (k_meta foundCm) = m_owners (k_meta cm)
            then ret None
            else update_as r ErrUpdateAgenticConfigurationConfigMap (foundCm\<lparr>
              k_payload := PConfigMap (cm_data (k_payload cm)) (cm_binary (k_payload foundCm)),
              k_meta := (k_meta foundCm)\<lparr>m_labels := m_labels (k_meta cm),
                m_annotations := m_annotations (k_meta cm), m_owners := m_owners (k_meta cm)\<rparr>\<rparr>)))"

definition ReconcileAgenticIntegrationResources :: "'w reconcile_fn" where
  "ReconcileAgenticIntegrationResources r cr =
     RunReconcileTasks r cr ''reconcileAgenticIntegrationResources''
       [(''reconcile agentic configuration ConfigMap'', reconcileConfigurationConfigMap)] True"

section \<open>What is published, and when\<close>

abbreviation handoff_key :: "'w reconciler \<Rightarrow> okey" where
  "handoff_key r \<equiv> (ConfigMap, GetNamespace r, AgenticConfigurationConfigMapName)"

definition introspects :: "OLSConfig \<Rightarrow> bool" where
  "introspects cr = BoolDeref (o_IntrospectionEnabled (s_OLSConfig (cr_Spec cr))) True"

text \<open>The MCP Service is there and so is the CA its clients need.\<close>

definition mcp_reachable :: "'w reconciler \<Rightarrow> (okey \<Rightarrow> kobject option) \<Rightarrow> bool" where
  "mcp_reachable r f = (f (Service, GetNamespace r, OpenShiftMCPServerServiceName) \<noteq> None \<and>
     (\<exists>ca. f (Secret, GetNamespace r, AgenticMCPCASecretName) = Some ca \<and>
        zlookup (secret_data (k_payload ca)) AgenticMCPCASecretDataKey \<noteq> []))"

definition handoff_current :: "'w reconciler \<Rightarrow> OLSConfig \<Rightarrow> kobject \<Rightarrow> bool" where
  "handoff_current r cr s = (\<exists>pod. json_pod r (GenerateSandboxPodSpec r cr) = Inr pod \<and>
     cm_data (k_payload s) = handoff_data r cr pod \<and>
     m_labels (k_meta s) = GenerateAgenticIntegrationSelectorLabels \<and>
     m_owners (k_meta s) = m_owners (k_meta (handoff_map r cr pod)))"

definition reload_mark :: "kobject \<Rightarrow> string option" where
  "reload_mark ob = annotation (k_meta ob) AgenticConfigurationCertReloadAnnotation"

lemma reload_mark_stored: "stored_as ob s \<Longrightarrow> reload_mark s = reload_mark ob"
  by (simp add: reload_mark_def annotation_def stored_as_annotations)

lemma handoff_map_simps [simp]:
  "key_of (handoff_map r cr y) = handoff_key r" "cm_data (k_payload (handoff_map r cr y)) = handoff_data r cr y"
  "m_labels (k_meta (handoff_map r cr y)) = GenerateAgenticIntegrationSelectorLabels"
  "kind_of (k_payload (handoff_map r cr y)) = ConfigMap" "reload_mark (handoff_map r cr y) = None"
  "m_annotations (k_meta (handoff_map r cr y)) = None"
  by (simp_all add: handoff_map_def key_of_def set_controller_def new_meta_def reload_mark_def annotation_def nil_map_def)

lemma keep_reload_simps [simp]:
  "k_payload (keep_reload ob cm) = k_payload cm" "m_labels (k_meta (keep_reload ob cm)) = m_labels (k_meta cm)"
  "m_owners (k_meta (keep_reload ob cm)) = m_owners (k_meta cm)"
  "reload_mark cm = None \<Longrightarrow> reload_mark (keep_reload ob cm) = reload_mark ob"
  by (simp_all add: keep_reload_def set_annotation_def reload_mark_def annotation_def nil_map_def split: option.splits)

lemma handoffCreatePrerequisites_run:
  assumes "api_ok r v" "run_state (handoffCreatePrerequisites r cr) w = (e, w')"
  shows "v w' = v w \<and> (e = None \<and> introspects cr \<longrightarrow> mcp_reachable r (v w))"
proof (cases "introspects cr")
  case True
  obtain x w1 where g: "run_state (cl_get r (Service, GetNamespace r, OpenShiftMCPServerServiceName)) w = (x, w1)" by force
  obtain y w2 where s: "run_state (cl_get r (Secret, GetNamespace r, AgenticMCPCASecretName)) w1 = (y, w2)" by force
  note get = api_get(1,2) [OF assms(1) g] api_get(1,2) [OF assms(1) s]
  show ?thesis
    using assms(2) g s get True
    by (cases x; cases y)
      (auto simp: handoffCreatePrerequisites_def requireSecretKey_def try_or_def introspects_def mcp_reachable_def split: if_splits)
qed (use assms(2) in \<open>simp add: handoffCreatePrerequisites_def introspects_def\<close>)

lemma reconcileConfigurationConfigMap_run:
  assumes api: "api_ok r v" and run: "run_state (reconcileConfigurationConfigMap r cr) w = (e, w')"
  shows "(e = None \<longrightarrow> (\<exists>s. v w' (handoff_key r) = Some s \<and> handoff_current r cr s \<and>
        reload_mark s = Option.bind (v w (handoff_key r)) reload_mark)) \<and>
    (v w (handoff_key r) = None \<and> v w' (handoff_key r) \<noteq> None \<and> introspects cr \<longrightarrow> mcp_reachable r (v w)) \<and>
    (\<forall>k. k \<noteq> handoff_key r \<longrightarrow> v w' k = v w k)"
proof (cases "json_pod r (GenerateSandboxPodSpec r cr)")
  case (Inl err)
  then show ?thesis
    using run by (auto simp: reconcileConfigurationConfigMap_def GenerateAgenticConfigurationConfigMap_def try_or_def)
next
  case (Inr pod)
  let ?k = "handoff_key r" and ?d = "handoff_map r cr pod"
  have cur: "handoff_current r cr s" if "k_payload s = PConfigMap (handoff_data r cr pod) b"
    "m_labels (k_meta s) = GenerateAgenticIntegrationSelectorLabels" "m_owners (k_meta s) = m_owners (k_meta ?d)" for s b
    using that Inr by (simp add: handoff_current_def)
  from api run [unfolded reconcileConfigurationConfigMap_def GenerateAgenticConfigurationConfigMap_def Inr try_or_def, simplified]
  show ?thesis
  proof (cases rule: fetch_cases)
    case (missing w1)
    obtain pe w2 where p: "run_state (handoffCreatePrerequisites r cr) w1 = (pe, w2)" by force
    note pre = handoffCreatePrerequisites_run [OF api p]
    show ?thesis
    proof (cases pe)
      case None
      then have c: "run_state (create_as r ErrCreateAgenticConfigurationConfigMap ?d) w2 = (e, w')"
        using missing(3) p by simp
      have "handoff_current r cr s \<and> reload_mark s = None" if "stored_as ?d s" for s
        using stored_plain [OF that] that reload_mark_stored [OF that] cur [of s fmempty]
        by (simp add: stored_as_def) (simp add: handoff_map_def set_controller_def)
      from ensures_create [OF api _ this c] pre missing(1,2) None show ?thesis by auto
    qed (use missing p pre in auto)
  next
    case (found ob w1)
    let ?m = "keep_reload ob ?d"
    let ?n = "ob\<lparr>k_payload := PConfigMap (handoff_data r cr pod) (cm_binary (k_payload ob)),
       k_meta := (k_meta ob)\<lparr>m_labels := GenerateAgenticIntegrationSelectorLabels,
         m_annotations := m_annotations (k_meta ?m), m_owners := m_owners (k_meta ?d)\<rparr>\<rparr>"
    have mark: "reload_mark x = reload_mark ob" if "m_annotations (k_meta x) = m_annotations (k_meta ?m)" for x
      using that keep_reload_simps(4) [OF handoff_map_simps(5), of ob r cr pod] by (simp add: reload_mark_def annotation_def)
    consider (same) "w' = w1" "e = None" "handoff_current r cr ob"
      | (changed) "run_state (update_as r ErrUpdateAgenticConfigurationConfigMap ?n) w1 = (e, w')"
      using found(5) Inr by (auto simp: Let_def ConfigMapEqual_def handoff_current_def split: if_splits)
    then show ?thesis
    proof cases
      case same
      then show ?thesis using found by simp
    next
      case changed
      have kn: "key_of ?n = key_of ob" using found(3) by (simp add: key_of_def)
      note upd = update_as_found [OF api kn _ _ _ changed, simplified, OF found(4) [rule_format]]
      have "handoff_current r cr s \<and> reload_mark s = reload_mark ob" if "stored_as ?n s" for s
        using stored_plain [OF that] that reload_mark_stored [OF that] cur [of s] mark [of ?n]
        by (simp add: stored_as_def)
      then show ?thesis using upd found(1,2,3) by auto
    qed
  qed (use Inr in auto)
qed

text \<open>
  The update path: an existing ConfigMap waits for nothing, so that only a failing read or write of
  the ConfigMap itself can keep it from being brought up to date.
\<close>

definition handoff_call_failed :: "'w reconciler \<Rightarrow> ('w \<Rightarrow> okey \<Rightarrow> kobject option) \<Rightarrow> 'w \<Rightarrow> bool" where
  "handoff_call_failed r v w = (\<exists>wa wb err. v wa = v w \<and>
     (run_state (cl_get r (handoff_key r)) wa = (Inl err, wb) \<or>
      (\<exists>ob. key_of ob = handoff_key r \<and> run_state (cl_update r ob) wa = (Some err, wb))))"

lemma handoff_update_path:
  assumes api: "api_ok r v" and pod: "json_pod r (GenerateSandboxPodSpec r cr) = Inr pod"
    and stored: "v w (handoff_key r) \<noteq> None" and run: "run_state (reconcileConfigurationConfigMap r cr) w = (e, w')"
  shows "e = None \<or> handoff_call_failed r v w"
proof -
  obtain x w1 where g: "run_state (cl_get r (handoff_key r)) w = (x, w1)" by force
  note get = api_get [OF api g]
  show ?thesis
  proof (cases x)
    case (Inl err)
    then show ?thesis using g unfolding handoff_call_failed_def by blast
  next
    case (Inr ob)
    let ?m = "keep_reload ob (handoff_map r cr pod)"
    let ?n = "ob\<lparr>k_payload := PConfigMap (handoff_data r cr pod) (cm_binary (k_payload ob)),
       k_meta := (k_meta ob)\<lparr>m_labels := GenerateAgenticIntegrationSelectorLabels,
         m_annotations := m_annotations (k_meta ?m), m_owners := m_owners (k_meta (handoff_map r cr pod))\<rparr>\<rparr>"
    have "e = None \<or> run_state (update_as r ErrUpdateAgenticConfigurationConfigMap ?n) w1 = (e, w')"
      using run g Inr pod
      by (auto simp: reconcileConfigurationConfigMap_def GenerateAgenticConfigurationConfigMap_def try_or_def run_fetch
          Let_def split: if_splits)
    moreover have "key_of ?n = handoff_key r" using get(3) [OF Inr] by (simp add: key_of_def)
    moreover have "\<exists>err. run_state (cl_update r ?n) w1 = (Some err, w')"
      if "run_state (update_as r ErrUpdateAgenticConfigurationConfigMap ?n) w1 = (e, w')" "e \<noteq> None"
      using that by (auto simp: run_update_as split: prod.splits)
    ultimately show ?thesis using get(1) unfolding handoff_call_failed_def by blast
  qed
qed

text \<open>The settings and endpoints of the resource, key by key.\<close>

definition handoff_published_as :: "'w reconciler \<Rightarrow> OLSConfig \<Rightarrow> string \<Rightarrow> gmap \<Rightarrow> bool" where
  "handoff_published_as r cr pod d =
     (fmlookup d ''sandbox-mode'' = Some (SandboxModeFromCR cr) \<and> fmlookup d ''sandbox-pod-spec'' = Some pod \<and>
      fmlookup d ''mcp-endpoint'' = (if introspects cr then Some (OpenShiftMCPServerServiceURL (GetNamespace r)) else None) \<and>
      fmlookup d ''mcp-ca-secret'' = (if introspects cr then Some AgenticMCPCASecretName else None) \<and>
      fmlookup d ''rhokp-endpoint'' =
        (if o_ByokRAGOnly (s_OLSConfig (cr_Spec cr)) then None else Some (RHOKPServiceURL (GetNamespace r))) \<and>
      fmlookup d ''rhokp-ca-secret'' =
        (if o_ByokRAGOnly (s_OLSConfig (cr_Spec cr)) then None else Some AgenticRHOKPCASecretName))"

lemma handoff_data_published: "handoff_published_as r cr pod (handoff_data r cr pod)"
proof -
  have keys: "AgenticConfigurationSandboxModeKey = ''sandbox-mode''"
    "AgenticConfigurationSandboxPodSpecKey = ''sandbox-pod-spec''" "AgenticConfigurationMCPEndpointKey = ''mcp-endpoint''"
    "AgenticConfigurationMCPCASecretKey = ''mcp-ca-secret''" "AgenticConfigurationRHOKPEndpointKey = ''rhokp-endpoint''"
    "AgenticConfigurationRHOKPCASecretKey = ''rhokp-ca-secret''" by (simp_all add: go_const)
  show ?thesis unfolding handoff_published_as_def handoff_data_def keys introspects_def [symmetric] fmlookup_of_list
    by (cases "introspects cr"; cases "o_ByokRAGOnly (s_OLSConfig (cr_Spec cr))") simp_all
qed

text \<open>
  (C37) The handoff: after a successful run the ConfigMap holds the sandbox mode, the pod spec and
  the endpoints and CA names of the resource, those of the MCP server exactly with introspection
  on and those of the knowledge portal exactly when it is used, and a reload mark that was on it
  is still there. A ConfigMap that exists is brought up to date whether or not the conditions on
  its first creation hold: with a pod spec that can be written, only a failing read or write of
  the ConfigMap makes the run fail. No other object is ever written.
\<close>

theorem handoff_published:
  assumes "api_ok r v" "run_state (ReconcileAgenticIntegrationResources r cr) w = (e, w')"
  shows "(e = None \<longrightarrow> (\<exists>s pod. v w' (handoff_key r) = Some s \<and> json_pod r (GenerateSandboxPodSpec r cr) = Inr pod \<and>
        handoff_published_as r cr pod (cm_data (k_payload s)) \<and>
        m_labels (k_meta s) = GenerateAgenticIntegrationSelectorLabels \<and>
        reload_mark s = Option.bind (v w (handoff_key r)) reload_mark)) \<and>
    (v w (handoff_key r) \<noteq> None \<and> (\<exists>pod. json_pod r (GenerateSandboxPodSpec r cr) = Inr pod) \<longrightarrow>
       e = None \<or> handoff_call_failed r v w) \<and>
    (\<forall>k. k \<noteq> handoff_key r \<longrightarrow> v w' k = v w k)"
proof -
  obtain e0 where run: "run_state (reconcileConfigurationConfigMap r cr) w = (e0, w')" and e0: "e0 = None \<longleftrightarrow> e = None"
    using assms(2) by (cases "run_state (reconcileConfigurationConfigMap r cr) w")
      (auto simp: ReconcileAgenticIntegrationResources_def RunReconcileTasks_def split: option.splits)
  note c = reconcileConfigurationConfigMap_run [OF assms(1) run]
  have "\<exists>s pod. v w' (handoff_key r) = Some s \<and> json_pod r (GenerateSandboxPodSpec r cr) = Inr pod \<and>
        handoff_published_as r cr pod (cm_data (k_payload s)) \<and>
        m_labels (k_meta s) = GenerateAgenticIntegrationSelectorLabels \<and>
        reload_mark s = Option.bind (v w (handoff_key r)) reload_mark" if "e = None"
    using c that e0 handoff_data_published [of r cr] by (force simp: handoff_current_def)
  then show ?thesis using handoff_update_path [OF assms(1) _ _ run] c e0 by blast
qed

text \<open>A ConfigMap from an earlier version, with a reload mark, before any of its prerequisites is there.\<close>

definition old_handoff :: kobject where
  "old_handoff = \<lparr>k_meta = (new_meta ''ns'' AgenticConfigurationConfigMapName fmempty)\<lparr>m_annotations :=
       Some (fmap_of_list [(AgenticConfigurationCertReloadAnnotation, ''then'')])\<rparr>,
     k_payload = PConfigMap fmempty fmempty\<rparr>"

theorem handoff_published_witness:
  "\<exists>s w'. run_state (ReconcileAgenticIntegrationResources (mem_reconciler (no_options ''ns'')) (blank_cr []))
        (fmupd (handoff_key (mem_reconciler (no_options ''ns''))) old_handoff fmempty) = (None, w') \<and>
     mem_view w' (handoff_key (mem_reconciler (no_options ''ns''))) = Some s \<and> reload_mark s = Some ''then'' \<and>
     fmlookup (cm_data (k_payload s)) ''mcp-ca-secret'' = Some AgenticMCPCASecretName"
proof -
  let ?r = "mem_reconciler (no_options ''ns'')"
  let ?k = "handoff_key ?r"
  let ?w = "fmupd ?k old_handoff fmempty"
  obtain e w' where run: "run_state (ReconcileAgenticIntegrationResources ?r (blank_cr [])) ?w = (e, w')" by force
  have key: "?k = key_of old_handoff" by (simp add: old_handoff_def key_of_def new_meta_def GetNamespace_def no_options_def)
  have old: "mem_view ?w ?k = Some old_handoff" unfolding key by (simp add: mem_view_def) (simp add: old_handoff_def new_meta_def)
  have pod: "\<exists>pod. json_pod ?r (GenerateSandboxPodSpec ?r (blank_cr [])) = Inr pod" by simp
  have "run_state (cl_get ?r ?k) wa \<noteq> (Inl err, wb)" "key_of ob = ?k \<Longrightarrow> run_state (cl_update ?r ob) wa \<noteq> (Some err, wb)"
    if "mem_view wa = mem_view ?w" for wa wb err ob
    using that old by (simp_all add: mem_get_def mem_update_def)
  then have "\<not> handoff_call_failed ?r mem_view ?w" unfolding handoff_call_failed_def by blast
  moreover have "introspects (blank_cr [])" by (simp add: introspects_def blank_cr_def blank_ols_def BoolDeref_def)
  moreover have "reload_mark old_handoff = Some ''then''"
    by (simp add: reload_mark_def annotation_def old_handoff_def nil_map_def)
  ultimately show ?thesis
    using handoff_published [OF mem_reconciler_ok run] run old pod by (auto simp: handoff_published_as_def)
qed

end
