(* ===== verification/App_Config.thy ===== *)
theory App_Config
  imports Agentic_Integration Tls_Profile
begin

text \<open>
  The configuration file of the application server: its structures with their JSON encodings
  (\<open>internal/controller/utils/types.go\<close>) and the code that fills them from the resource and the
  cluster (\<open>internal/controller/appserver/assets.go\<close>).
\<close>

section \<open>The structures of the file\<close>

text \<open>
  The entries of an encoded structure: a field marked \<open>omitempty\<close> has no entry when it is empty,
  zero or a nil pointer.
\<close>

definition str_omit :: "string \<Rightarrow> string \<Rightarrow> (string \<times> doc) list" where
  "str_omit k s = (if s = [] then [] else [(k, DStr s)])"

definition int_omit :: "string \<Rightarrow> int \<Rightarrow> (string \<times> doc) list" where
  "int_omit k n = (if n = 0 then [] else [(k, DNum (of_int n))])"

definition rat_omit :: "string \<Rightarrow> rat \<Rightarrow> (string \<times> doc) list" where
  "rat_omit k q = (if q = 0 then [] else [(k, DNum q)])"

definition list_omit :: "string \<Rightarrow> doc list \<Rightarrow> (string \<times> doc) list" where
  "list_omit k xs = (if xs = [] then [] else [(k, DList xs)])"

definition opt_omit :: "string \<Rightarrow> ('a \<Rightarrow> doc) \<Rightarrow> 'a option \<Rightarrow> (string \<times> doc) list" where
  "opt_omit k enc x = (case x of None \<Rightarrow> [] | Some y \<Rightarrow> [(k, enc y)])"

record FakeProviderConfig =
  fk_URL :: string
  fk_Stream :: bool
  fk_MCPToolCall :: bool
  fk_Response :: string
  fk_Chunks :: int
  fk_Sleep :: rat

definition json_fake :: "FakeProviderConfig \<Rightarrow> doc" where
  "json_fake c = DMap (str_omit ''url'' (fk_URL c) @ [(''stream'', DBool (fk_Stream c)),
     (''mcp_tool_call'', DBool (fk_MCPToolCall c))] @ str_omit ''response'' (fk_Response c) @
     int_omit ''chunks'' (fk_Chunks c) @ rat_omit ''sleep'' (fk_Sleep c))"

record AzureOpenAIConfig =
  az_URL :: string
  az_CredentialsPath :: string
  az_AzureDeploymentName :: string

definition json_azure :: "AzureOpenAIConfig \<Rightarrow> doc" where
  "json_azure c = DMap (str_omit ''url'' (az_URL c) @ [(''credentials_path'', DStr (az_CredentialsPath c))] @
     str_omit ''deployment_name'' (az_AzureDeploymentName c))"

record GoogleVertexConfig =
  gv_Project :: string
  gv_Location :: string

definition json_vertex :: "GoogleVertexConfig \<Rightarrow> doc" where
  "json_vertex c = DMap (str_omit ''project'' (gv_Project c) @ str_omit ''location'' (gv_Location c))"

record ModelParameters =
  mq_MaxTokensForResponse :: int
  mq_ToolBudgetRatio :: rat

definition json_parameters :: "ModelParameters \<Rightarrow> doc" where
  "json_parameters c = DMap (int_omit ''max_tokens_for_response'' (mq_MaxTokensForResponse c) @
     [(''tool_budget_ratio'', DNum (mq_ToolBudgetRatio c))])"

record ModelConfig =
  mc_Name :: string
  mc_URL :: string
  mc_ContextWindowSize :: nat
  mc_Parameters :: ModelParameters

definition json_model :: "ModelConfig \<Rightarrow> doc" where
  "json_model c = DMap ([(''name'', DStr (mc_Name c))] @ str_omit ''url'' (mc_URL c) @
     int_omit ''context_window_size'' (int (mc_ContextWindowSize c)) @
     [(''parameters'', json_parameters (mc_Parameters c))])"

record ProviderConfig =
  pc_Name :: string
  pc_URL :: string
  pc_CredentialsPath :: string
  pc_Models :: "ModelConfig list"
  pc_Type :: string
  pc_WatsonProjectID :: string
  pc_APIVersion :: string
  pc_AzureOpenAIConfig :: "AzureOpenAIConfig option"
  pc_FakeProviderConfig :: "FakeProviderConfig option"
  pc_GoogleVertexConfig :: "GoogleVertexConfig option"
  pc_GoogleVertexAnthropicConfig :: "GoogleVertexConfig option"

definition json_provider :: "ProviderConfig \<Rightarrow> doc" where
  "json_provider c = DMap ([(''name'', DStr (pc_Name c))] @ str_omit ''url'' (pc_URL c) @
     str_omit ''credentials_path'' (pc_CredentialsPath c) @ list_omit ''models'' (map json_model (pc_Models c)) @
     str_omit ''type'' (pc_Type c) @ str_omit ''project_id'' (pc_WatsonProjectID c) @
     str_omit ''api_version'' (pc_APIVersion c) @ opt_omit ''azure_openai_config'' json_azure (pc_AzureOpenAIConfig c) @
     opt_omit ''fake_provider_config'' json_fake (pc_FakeProviderConfig c) @
     opt_omit ''google_vertex_config'' json_vertex (pc_GoogleVertexConfig c) @
     opt_omit ''google_vertex_anthropic_config'' json_vertex (pc_GoogleVertexAnthropicConfig c))"

record PostgresCacheConfig =
  pq_Host :: string
  pq_Port :: int
  pq_User :: string
  pq_DbName :: string
  pq_PasswordPath :: string
  pq_SSLMode :: string
  pq_CACertPath :: string

definition json_postgres :: "PostgresCacheConfig \<Rightarrow> doc" where
  "json_postgres c = DMap (str_omit ''host'' (pq_Host c) @ int_omit ''port'' (pq_Port c) @
     str_omit ''user'' (pq_User c) @ str_omit ''dbname'' (pq_DbName c) @
     str_omit ''password_path'' (pq_PasswordPath c) @ str_omit ''ssl_mode'' (pq_SSLMode c) @
     str_omit ''ca_cert_path'' (pq_CACertPath c))"

record LoggingConfig =
  lg_AppLogLevel :: string
  lg_LibLogLevel :: string
  lg_UvicornLogLevel :: string

definition json_logging :: "LoggingConfig \<Rightarrow> doc" where
  "json_logging c = DMap [(''app_log_level'', DStr (lg_AppLogLevel c)), (''lib_log_level'', DStr (lg_LibLogLevel c)),
     (''uvicorn_log_level'', DStr (lg_UvicornLogLevel c))]"

record ConversationCacheConfig =
  cx_Type :: string
  cx_Postgres :: PostgresCacheConfig

definition json_cache :: "ConversationCacheConfig \<Rightarrow> doc" where
  "json_cache c = DMap [(''type'', DStr (cx_Type c)), (''postgres'', json_postgres (cx_Postgres c))]"

record TLSConfig =
  tc_TLSCertificatePath :: string
  tc_TLSKeyPath :: string

definition json_tls :: "TLSConfig \<Rightarrow> doc" where
  "json_tls c = DMap (str_omit ''tls_certificate_path'' (tc_TLSCertificatePath c) @
     str_omit ''tls_key_path'' (tc_TLSKeyPath c))"

record TLSSecurityProfileConfig =
  ty_ProfileType :: string
  ty_MinTLSVersion :: string
  ty_Ciphers :: "string list"

definition json_tls_profile :: "TLSSecurityProfileConfig \<Rightarrow> doc" where
  "json_tls_profile c = DMap (str_omit ''type'' (ty_ProfileType c) @ str_omit ''minTLSVersion'' (ty_MinTLSVersion c) @
     list_omit ''ciphers'' (map DStr (ty_Ciphers c)))"

record QueryFilters =
  qy_Name :: string
  qy_Pattern :: string
  qy_ReplaceWith :: string

definition json_filter :: "QueryFilters \<Rightarrow> doc" where
  "json_filter c = DMap (str_omit ''name'' (qy_Name c) @ str_omit ''pattern'' (qy_Pattern c) @
     str_omit ''replace_with'' (qy_ReplaceWith c))"

record ReferenceIndex =
  ri_ProductDocsIndexPath :: string
  ri_ProductDocsIndexId :: string
  ri_ProductDocsOrigin :: string

definition json_index :: "ReferenceIndex \<Rightarrow> doc" where
  "json_index c = DMap (str_omit ''product_docs_index_path'' (ri_ProductDocsIndexPath c) @
     str_omit ''product_docs_index_id'' (ri_ProductDocsIndexId c) @
     str_omit ''product_docs_origin'' (ri_ProductDocsOrigin c))"

record ReferenceContent =
  rc_EmbeddingsModelPath :: string
  rc_Indexes :: "ReferenceIndex list"

definition json_reference :: "ReferenceContent \<Rightarrow> doc" where
  "json_reference c = DMap (str_omit ''embeddings_model_path'' (rc_EmbeddingsModelPath c) @
     list_omit ''indexes'' (map json_index (rc_Indexes c)))"

record UserDataCollectionConfig =
  uc_FeedbackDisabled :: bool
  uc_FeedbackStorage :: string
  uc_TranscriptsDisabled :: bool
  uc_TranscriptsStorage :: string

definition json_collection :: "UserDataCollectionConfig \<Rightarrow> doc" where
  "json_collection c = DMap ([(''feedback_disabled'', DBool (uc_FeedbackDisabled c))] @
     str_omit ''feedback_storage'' (uc_FeedbackStorage c) @
     [(''transcripts_disabled'', DBool (uc_TranscriptsDisabled c))] @
     str_omit ''transcripts_storage'' (uc_TranscriptsStorage c))"

record UserDataCollectorConfig =
  ul_DataStorage :: string
  ul_LogLevel :: string

definition json_collector :: "UserDataCollectorConfig \<Rightarrow> doc" where
  "json_collector c = DMap (str_omit ''data_storage'' (ul_DataStorage c) @ str_omit ''log_level'' (ul_LogLevel c))"

text \<open>
  \<open>utils\<close> has types with the names of API types; theirs end in \<open>_file\<close> here.
\<close>

record ProxyConfig_file =
  pf_ProxyURL :: string
  pf_ProxyCACertPath :: string

definition json_proxy :: "ProxyConfig_file \<Rightarrow> doc" where
  "json_proxy c = DMap (str_omit ''proxy_url'' (pf_ProxyURL c) @ str_omit ''proxy_ca_cert_path'' (pf_ProxyCACertPath c))"

record LimiterConfig_file =
  lf_Name :: string
  lf_Type :: string
  lf_InitialQuota :: int
  lf_QuotaIncrease :: int
  lf_Period :: string

definition json_limiter :: "LimiterConfig_file \<Rightarrow> doc" where
  "json_limiter c = DMap [(''name'', DStr (lf_Name c)), (''type'', DStr (lf_Type c)),
     (''initial_quota'', DNum (of_int (lf_InitialQuota c))), (''quota_increase'', DNum (of_int (lf_QuotaIncrease c))),
     (''period'', DStr (lf_Period c))]"

record QuotaHandlersConfig_file =
  qc_Storage :: PostgresCacheConfig
  qc_SchedulerPeriod :: int
  qc_LimitersConfig :: "LimiterConfig_file list"
  qc_EnableTokenHistory :: bool

definition json_quota :: "QuotaHandlersConfig_file \<Rightarrow> doc" where
  "json_quota c = DMap ([(''storage'', json_postgres (qc_Storage c)),
     (''scheduler'', DMap (int_omit ''period'' (qc_SchedulerPeriod c)))] @
     list_omit ''limiters'' (map json_limiter (qc_LimitersConfig c)) @
     (if qc_EnableTokenHistory c then [(''enable_token_history'', DBool True)] else []))"

record ToolFilteringConfig_file =
  tx_Alpha :: rat
  tx_TopK :: int
  tx_Threshold :: rat

definition json_filtering :: "ToolFilteringConfig_file \<Rightarrow> doc" where
  "json_filtering c = DMap (rat_omit ''alpha'' (tx_Alpha c) @ int_omit ''top_k'' (tx_TopK c) @
     rat_omit ''threshold'' (tx_Threshold c))"

record ToolsApprovalConfig_file =
  tv_ApprovalType :: string
  tv_ApprovalTimeout :: int

definition json_approval :: "ToolsApprovalConfig_file \<Rightarrow> doc" where
  "json_approval c = DMap (str_omit ''approval_type'' (tv_ApprovalType c) @
     int_omit ''approval_timeout'' (tv_ApprovalTimeout c))"

record OTELYAMLConfig =
  ot_Endpoint :: string
  ot_TLSMode :: string

definition json_otel :: "OTELYAMLConfig \<Rightarrow> doc" where
  "json_otel c = DMap (str_omit ''endpoint'' (ot_Endpoint c) @ str_omit ''tls_mode'' (ot_TLSMode c))"

record AuditYAMLConfig =
  ay_Logging :: string
  ay_OTEL :: "OTELYAMLConfig option"

definition json_audit :: "AuditYAMLConfig \<Rightarrow> doc" where
  "json_audit c = DMap ([(''logging'', DStr (ay_Logging c))] @ opt_omit ''otel'' json_otel (ay_OTEL c))"

record SolrHybridSettings =
  sh_SolrHTTPBase :: string
  sh_MaxResults :: int
  sh_ChunkFilterQuery :: string
  sh_HybridVectorBoost :: rat
  sh_HybridPoolDocs :: int
  sh_HybridScoreThreshold :: rat
  sh_HybridSolrTimeoutSeconds :: rat

definition json_solr :: "SolrHybridSettings \<Rightarrow> doc" where
  "json_solr c = DMap (str_omit ''solr_http_base'' (sh_SolrHTTPBase c) @ int_omit ''max_results'' (sh_MaxResults c) @
     str_omit ''chunk_filter_query'' (sh_ChunkFilterQuery c) @ rat_omit ''hybrid_vector_boost'' (sh_HybridVectorBoost c) @
     int_omit ''hybrid_pool_docs'' (sh_HybridPoolDocs c) @ rat_omit ''hybrid_score_threshold'' (sh_HybridScoreThreshold c) @
     rat_omit ''hybrid_solr_timeout_s'' (sh_HybridSolrTimeoutSeconds c))"

record MCPServerConfig_file =
  mf_Name :: string
  mf_URL :: string
  mf_Headers :: gmap
  mf_Timeout :: int

text \<open>A map is encoded in the order of its keys.\<close>

definition json_map :: "gmap \<Rightarrow> doc" where
  "json_map m = DMap (map (\<lambda>(k, x). (k, DStr x)) (sorted_list_of_fmap m))"

definition json_mcp :: "MCPServerConfig_file \<Rightarrow> doc" where
  "json_mcp c = DMap ([(''name'', DStr (mf_Name c)), (''url'', DStr (mf_URL c))] @
     (if mf_Headers c = fmempty then [] else [(''headers'', json_map (mf_Headers c))]) @
     int_omit ''timeout'' (mf_Timeout c))"

record OLSConfig_file =
  of_DefaultModel :: string
  of_DefaultProvider :: string
  of_MaxIterations :: int
  of_Logging :: LoggingConfig
  of_ConversationCache :: ConversationCacheConfig
  of_TLSConfig :: TLSConfig
  of_TLSSecurityProfile :: "TLSSecurityProfileConfig option"
  of_QueryFilters :: "QueryFilters list"
  of_ReferenceContent :: "ReferenceContent option"
  of_UserDataCollection :: UserDataCollectionConfig
  of_ExtraCAs :: "string list"
  of_CertificateDirectory :: string
  of_ProxyConfig :: "ProxyConfig_file option"
  of_QuotaHandlersConfig :: "QuotaHandlersConfig_file option"
  of_SystemPromptPath :: string
  of_ToolFiltering :: "ToolFilteringConfig_file option"
  of_ToolsApproval :: "ToolsApprovalConfig_file option"
  of_Audit :: "AuditYAMLConfig option"
  of_SolrHybrid :: "SolrHybridSettings option"

definition json_ols :: "OLSConfig_file \<Rightarrow> doc" where
  "json_ols c = DMap (str_omit ''default_model'' (of_DefaultModel c) @ str_omit ''default_provider'' (of_DefaultProvider c) @
     int_omit ''max_iterations'' (of_MaxIterations c) @
     [(''logging_config'', json_logging (of_Logging c)), (''conversation_cache'', json_cache (of_ConversationCache c)),
      (''tls_config'', json_tls (of_TLSConfig c))] @
     opt_omit ''tlsSecurityProfile'' json_tls_profile (of_TLSSecurityProfile c) @
     list_omit ''query_filters'' (map json_filter (of_QueryFilters c)) @
     opt_omit ''reference_content'' json_reference (of_ReferenceContent c) @
     [(''user_data_collection'', json_collection (of_UserDataCollection c))] @
     list_omit ''extra_ca'' (map DStr (of_ExtraCAs c)) @ str_omit ''certificate_directory'' (of_CertificateDirectory c) @
     opt_omit ''proxy_config'' json_proxy (of_ProxyConfig c) @
     opt_omit ''quota_handlers'' json_quota (of_QuotaHandlersConfig c) @
     str_omit ''system_prompt_path'' (of_SystemPromptPath c) @
     opt_omit ''tool_filtering'' json_filtering (of_ToolFiltering c) @
     opt_omit ''tools_approval'' json_approval (of_ToolsApproval c) @
     opt_omit ''audit'' json_audit (of_Audit c) @ opt_omit ''solr_hybrid'' json_solr (of_SolrHybrid c))"

record AppSrvConfigFile =
  as_LLMProviders :: "ProviderConfig list"
  as_OLSConfig :: OLSConfig_file
  as_UserDataCollectorConfig :: UserDataCollectorConfig
  as_MCPServers :: "MCPServerConfig_file list"

definition json_file :: "AppSrvConfigFile \<Rightarrow> doc" where
  "json_file c = DMap ([(''llm_providers'', DList (map json_provider (as_LLMProviders c))),
     (''ols_config'', json_ols (as_OLSConfig c)),
     (''user_data_collector_config'', json_collector (as_UserDataCollectorConfig c))] @
     list_omit ''mcp_servers'' (map json_mcp (as_MCPServers c)))"

section \<open>Providers\<close>

definition buildModelConfig :: "ModelSpec \<Rightarrow> ModelConfig" where
  "buildModelConfig model = \<lparr>mc_Name = mo_Name model, mc_URL = mo_URL model,
     mc_ContextWindowSize = mo_ContextWindowSize model,
     mc_Parameters = \<lparr>mq_MaxTokensForResponse = mp_MaxTokensForResponse (mo_Parameters model),
       mq_ToolBudgetRatio = (let toolBudgetRatio = mp_ToolBudgetRatio (mo_Parameters model) in
         if toolBudgetRatio = 0 then 1 / 2 else toolBudgetRatio)\<rparr>\<rparr>"

definition emptyProvider :: ProviderConfig where
  "emptyProvider = \<lparr>pc_Name = [], pc_URL = [], pc_CredentialsPath = [], pc_Models = [], pc_Type = [],
     pc_WatsonProjectID = [], pc_APIVersion = [], pc_AzureOpenAIConfig = None, pc_FakeProviderConfig = None,
     pc_GoogleVertexConfig = None, pc_GoogleVertexAnthropicConfig = None\<rparr>"

text \<open>The credentials path of the Vertex providers names the file, that of the others the directory.\<close>

definition credentialPath :: "ProviderSpec \<Rightarrow> string" where
  "credentialPath provider =
     (if p_Type provider = GoogleVertexType \<or> p_Type provider = GoogleVertexAnthropicType
      then path_join [APIKeyMountRoot, p_CredentialsSecretRef provider,
        if p_CredentialKey provider \<noteq> [] then p_CredentialKey provider else DefaultCredentialKey]
      else path_join [APIKeyMountRoot, p_CredentialsSecretRef provider])"

definition vertexConfig :: "VertexConfig \<Rightarrow> GoogleVertexConfig" where
  "vertexConfig c = \<lparr>gv_Project = vx_ProjectID c, gv_Location = vx_Location c\<rparr>"

definition fakeProvider :: "ProviderSpec \<Rightarrow> FakeProviderConfig" where
  "fakeProvider provider = \<lparr>fk_URL = ''http://example.com'', fk_Stream = False,
     fk_MCPToolCall = p_FakeProviderMCPToolCall provider,
     fk_Response = ''This is a preconfigured fake response.'', fk_Chunks = 30, fk_Sleep = 1 / 10\<rparr>"

definition buildProviderConfig :: "ProviderSpec \<Rightarrow> goerr + ProviderConfig" where
  "buildProviderConfig provider =
     (let modelConfigs = map buildModelConfig (p_Models provider);
          base = emptyProvider\<lparr>pc_Name := p_Name provider, pc_Type := p_Type provider, pc_Models := modelConfigs\<rparr>;
          plain = base\<lparr>pc_URL := p_URL provider, pc_CredentialsPath := credentialPath provider\<rparr> in
      if p_Type provider = AzureOpenAIType then
        Inr (base\<lparr>pc_APIVersion := p_APIVersion provider, pc_AzureOpenAIConfig := Some
          \<lparr>az_URL = p_URL provider, az_CredentialsPath = credentialPath provider,
           az_AzureDeploymentName = p_AzureDeploymentName provider\<rparr>\<rparr>)
      else if p_Type provider = GoogleVertexType then
        (case p_GoogleVertexConfig provider of
           Some c \<Rightarrow> Inr (plain\<lparr>pc_GoogleVertexConfig := Some (vertexConfig c)\<rparr>)
         | None \<Rightarrow> Inl (newerr ''googleVertexConfig is required for google_vertex provider''))
      else if p_Type provider = GoogleVertexAnthropicType then
        (case p_GoogleVertexAnthropicConfig provider of
           Some c \<Rightarrow> Inr (plain\<lparr>pc_GoogleVertexAnthropicConfig := Some (vertexConfig c)\<rparr>)
         | None \<Rightarrow> Inl (newerr ''googleVertexAnthropicConfig is required for google_vertex_anthropic provider''))
      else
        (let c = plain\<lparr>pc_WatsonProjectID := p_WatsonProjectID provider\<rparr> in
         Inr (if p_Type provider = FakeProviderType
           then c\<lparr>pc_FakeProviderConfig := Some (fakeProvider provider)\<rparr> else c)))"

fun build_providers :: "ProviderSpec list \<Rightarrow> goerr + ProviderConfig list" where
  "build_providers [] = Inr []"
| "build_providers (p # ps) = (case buildProviderConfig p of
      Inl e \<Rightarrow> Inl e
    | Inr c \<Rightarrow> (case build_providers ps of Inl e \<Rightarrow> Inl e | Inr cs \<Rightarrow> Inr (c # cs)))"

definition buildProviderConfigs :: "OLSConfig \<Rightarrow> goerr + ProviderConfig list" where
  "buildProviderConfigs cr = build_providers (llm_Providers (s_LLMConfig (cr_Spec cr)))"

section \<open>MCP servers\<close>

text \<open>
  The value of a header, or nothing when the header makes its server invalid: a secret without a
  name, or a type the enumeration does not have.
\<close>

definition header_value :: "MCPHeaderValueSource \<Rightarrow> string option" where
  "header_value h =
     (if hv_Type h = MCPHeaderSourceTypeKubernetes then Some KUBERNETES_PLACEHOLDER
      else if hv_Type h = MCPHeaderSourceTypeClient then Some CLIENT_PLACEHOLDER
      else if hv_Type h = MCPHeaderSourceTypeSecret then
        (case hv_SecretRef h of
           None \<Rightarrow> None
         | Some n \<Rightarrow> (if n = [] then None else Some (path_join [MCPHeadersMountRoot, n, MCPSECRETDATAPATH])))
      else None)"

text \<open>The loop over the headers: it stops at the first invalid one.\<close>

fun build_headers :: "MCPHeader list \<Rightarrow> gmap \<Rightarrow> gmap option" where
  "build_headers [] headers = Some headers"
| "build_headers (h # hs) headers = (case header_value (h_ValueFrom h) of
      None \<Rightarrow> None
    | Some x \<Rightarrow> build_headers hs (fmupd (h_Name h) x headers))"

fun user_servers :: "MCPServerConfig list \<Rightarrow> MCPServerConfig_file list" where
  "user_servers [] = []"
| "user_servers (server # ms) = (case build_headers (ms_Headers server) fmempty of
      None \<Rightarrow> user_servers ms
    | Some headers \<Rightarrow> \<lparr>mf_Name = ms_Name server, mf_URL = ms_URL server, mf_Headers = headers,
        mf_Timeout = (if ms_Timeout server > 0 then ms_Timeout server else 0)\<rparr> # user_servers ms)"

definition openshift_server :: "'w reconciler \<Rightarrow> OLSConfig \<Rightarrow> MCPServerConfig_file" where
  "openshift_server r cr = \<lparr>mf_Name = ''openshift'', mf_URL = OpenShiftMCPServerServiceURL (GetNamespace r),
     mf_Headers = fmap_of_list [(K8S_AUTH_HEADER, KUBERNETES_PLACEHOLDER)],
     mf_Timeout = (case o_MCPKubeServerTimeout (s_OLSConfig (cr_Spec cr)) of
        None \<Rightarrow> OpenShiftMCPServerTimeout | Some t \<Rightarrow> (if t \<noteq> 0 then t else OpenShiftMCPServerTimeout))\<rparr>"

definition generateMCPServerConfigs :: "'w reconciler \<Rightarrow> OLSConfig \<Rightarrow> MCPServerConfig_file list" where
  "generateMCPServerConfigs r cr =
     (if BoolDeref (o_IntrospectionEnabled (s_OLSConfig (cr_Spec cr))) True then [openshift_server r cr] else []) @
     (if FeatureGateMCPServer \<in> set (s_FeatureGates (cr_Spec cr)) then user_servers (s_MCPServers (cr_Spec cr)) else [])"

definition buildToolFilteringConfig :: "OLSConfig \<Rightarrow> MCPServerConfig_file list \<Rightarrow> ToolFilteringConfig_file option" where
  "buildToolFilteringConfig cr mcpServers =
     (if FeatureGateToolFiltering \<notin> set (s_FeatureGates (cr_Spec cr)) then None
      else case o_ToolFilteringConfig (s_OLSConfig (cr_Spec cr)) of
        None \<Rightarrow> None
      | Some cfg \<Rightarrow>
          (if mcpServers = [] then None
           else Some \<lparr>tx_Alpha = (if tf_Alpha cfg = 0 then 8 / 10 else tf_Alpha cfg),
             tx_TopK = (if tf_TopK cfg = 0 then 10 else tf_TopK cfg),
             tx_Threshold = (if tf_Threshold cfg = 0 then 1 / 100 else tf_Threshold cfg)\<rparr>))"

section \<open>The main section of the file\<close>

definition SolrHybridVectorBoostDefault :: rat where "SolrHybridVectorBoostDefault = 8"
definition SolrHybridScoreThresholdDefault :: rat where "SolrHybridScoreThresholdDefault = 0"
definition SolrHybridSolrTimeoutSecondsDefault :: rat where "SolrHybridSolrTimeoutSecondsDefault = 60"
definition ApprovalTypeToolAnnotations :: string where "ApprovalTypeToolAnnotations = ''tool_annotations''"

definition postgresCacheConfig :: "'w reconciler \<Rightarrow> PostgresCacheConfig" where
  "postgresCacheConfig r = \<lparr>pq_Host = PostgresServiceName @ ''.'' @ GetNamespace r @ ''.svc'',
     pq_Port = PostgresServicePort, pq_User = PostgresDefaultUser, pq_DbName = PostgresDefaultDbName,
     pq_PasswordPath = path_join [CredentialsMountRoot, PostgresSecretName, OLSComponentPasswordFileName],
     pq_SSLMode = PostgresDefaultSSLMode,
     pq_CACertPath = path_join [OLSAppCertsMountRoot, ''postgres-ca'', ''service-ca.crt'']\<rparr>"

definition buildServiceAuditConfig :: "OLSConfig \<Rightarrow> AuditYAMLConfig" where
  "buildServiceAuditConfig cr = \<lparr>ay_Logging =
     (if BoolDeref (o_AuditEventsEnabled (s_OLSConfig (cr_Spec cr))) True then ''Enabled'' else ''Disabled''),
     ay_OTEL = None\<rparr>"

definition buildSolrHybridSettings :: "string \<Rightarrow> SolrHybridSettings" where
  "buildSolrHybridSettings namespace = \<lparr>sh_SolrHTTPBase = RHOKPServiceURL namespace,
     sh_MaxResults = SolrHybridMaxResultsDefault, sh_ChunkFilterQuery = [],
     sh_HybridVectorBoost = SolrHybridVectorBoostDefault, sh_HybridPoolDocs = SolrHybridPoolDocsDefault,
     sh_HybridScoreThreshold = SolrHybridScoreThresholdDefault,
     sh_HybridSolrTimeoutSeconds = SolrHybridSolrTimeoutSecondsDefault\<rparr>"

definition serviceTLSProfileType :: "string \<Rightarrow> string" where
  "serviceTLSProfileType profileType =
     (if profileType = ''Old'' then ''OldType''
      else if profileType = ''Intermediate'' then ''IntermediateType''
      else if profileType = ''Modern'' then ''ModernType''
      else if profileType = ''Custom'' then ''Custom''
      else ''IntermediateType'')"

definition getQueryFilters :: "OLSConfig \<Rightarrow> QueryFilters list option" where
  "getQueryFilters cr = map_option (map (\<lambda>f. \<lparr>qy_Name = qf_Name f, qy_Pattern = qf_Pattern f,
     qy_ReplaceWith = qf_ReplaceWith f\<rparr>)) (o_QueryFilters (s_OLSConfig (cr_Spec cr)))"

definition cert_error :: "'w reconciler \<Rightarrow> string \<Rightarrow> goerr option" where
  "cert_error r ca = ValidateCertificateFormat (pem_decode r) (x509_parse r) ca"

definition validateCertificateInConfigMap :: "'w reconciler \<Rightarrow> string \<Rightarrow> string \<Rightarrow> ('w, goerr option) io" where
  "validateCertificateInConfigMap r cmName fileName = do {
     x \<leftarrow> cl_get r (ConfigMap, GetNamespace r, cmName);
     ret (case x of
        Inl e \<Rightarrow> Some (wrapf (''failed to get certificate configmap '' @ GetNamespace r @ ''/'' @ cmName) e)
      | Inr cm \<Rightarrow> (case fmlookup (cm_data (k_payload cm)) fileName of
           None \<Rightarrow> Some (newerr (''failed to find certificate '' @ fileName @ '' in configmap '' @ cmName))
         | Some caStr \<Rightarrow> map_option (wrapf (''failed to validate certificate '' @ fileName)) (cert_error r caStr))) }"

text \<open>
  The loop over the data of the ConfigMap visits its keys in the order the runtime gives; the
  first invalid certificate ends it.
\<close>

fun check_certs :: "'w reconciler \<Rightarrow> gmap \<Rightarrow> string list \<Rightarrow> goerr option" where
  "check_certs r d [] = None"
| "check_certs r d (k # ks) = (case cert_error r (zlookup d k) of
      Some e \<Rightarrow> Some (wrapf (''failed to validate additional CA certificate '' @ k) e)
    | None \<Rightarrow> check_certs r d ks)"

definition addAdditionalCAFileNames :: "'w reconciler \<Rightarrow> string \<Rightarrow> string \<Rightarrow> ('w, goerr + string list) io" where
  "addAdditionalCAFileNames r name certDirectory = do {
     x \<leftarrow> cl_get r (ConfigMap, GetNamespace r, name);
     case x of
       Inl e \<Rightarrow> ret (Inl (wrapf (''failed to get additional CA configmap '' @ GetNamespace r @ ''/'' @ name) e))
     | Inr cm \<Rightarrow> do {
         filenames \<leftarrow> walk_map r (sorted_list_of_fset (fmdom (cm_data (k_payload cm))));
         ret (case check_certs r (cm_data (k_payload cm)) filenames of
            Some e \<Rightarrow> Inl e
          | None \<Rightarrow> Inr (map (\<lambda>f. path_join [OLSAppCertsMountRoot, certDirectory, f]) filenames)) } }"

definition proxy_config :: "'w reconciler \<Rightarrow> OLSConfig \<Rightarrow> ('w, goerr + ProxyConfig_file option) io" where
  "proxy_config r cr = (case o_ProxyConfig (s_OLSConfig (cr_Spec cr)) of
      None \<Rightarrow> ret (Inr None)
    | Some pc \<Rightarrow>
        (let cmName = GetProxyCACertConfigMapName (px_ProxyCACertificateRef pc);
             certKey = GetProxyCACertKey (px_ProxyCACertificateRef pc) in
         if cmName = [] then ret (Inr (Some \<lparr>pf_ProxyURL = px_ProxyURL pc, pf_ProxyCACertPath = []\<rparr>))
         else do {
           e \<leftarrow> validateCertificateInConfigMap r cmName certKey;
           ret (case e of
              Some err \<Rightarrow> Inl (wrapf (''failed to validate proxy CA certificate '' @ cmName) err)
            | None \<Rightarrow> Inr (Some \<lparr>pf_ProxyURL = px_ProxyURL pc,
                pf_ProxyCACertPath = path_join [OLSAppCertsMountRoot, ProxyCACertVolumeName, certKey]\<rparr>)) }))"

definition reference_indexes :: "OLSConfig \<Rightarrow> ReferenceIndex list" where
  "reference_indexes cr = map (\<lambda>(i, index). \<lparr>
     ri_ProductDocsIndexPath = path_join [RAGVolumeMountPath, ''rag-'' @ nat_to_string i],
     ri_ProductDocsIndexId = rag_IndexID index, ri_ProductDocsOrigin = rag_Image index\<rparr>)
     (enumerate 0 (o_RAG (s_OLSConfig (cr_Spec cr))))"

text \<open>The profile of the resource, else that of the cluster; a failed read counts as no profile.\<close>

definition tls_profile :: "'w reconciler \<Rightarrow> OLSConfig \<Rightarrow> ('w, TLSSecurityProfile option) io" where
  "tls_profile r cr = (case o_TLSSecurityProfile (s_OLSConfig (cr_Spec cr)) of
      Some p \<Rightarrow> ret (Some p)
    | None \<Rightarrow> do {
        x \<leftarrow> FetchAPIServerTlsProfile r;
        ret (case x of Inl e \<Rightarrow> None | Inr p \<Rightarrow> p) })"

definition profile_config :: "tls_library \<Rightarrow> TLSSecurityProfile option \<Rightarrow> TLSSecurityProfileConfig" where
  "profile_config l tlsProfile =
     (let tlsProfileType = (case tlsProfile of None \<Rightarrow> DefaultTLSProfileType
            | Some p \<Rightarrow> (if sp_Type p \<noteq> [] then sp_Type p else DefaultTLSProfileType));
          tlsProfileSpec = GetTLSProfileSpec l tlsProfile in
      \<lparr>ty_ProfileType = serviceTLSProfileType tlsProfileType, ty_MinTLSVersion = MinTLSVersion l tlsProfileSpec,
       ty_Ciphers = TLSCiphers l tlsProfileSpec\<rparr>)"

definition ols_section :: "'w reconciler \<Rightarrow> OLSConfig \<Rightarrow> bool \<Rightarrow> ProxyConfig_file option \<Rightarrow>
    TLSSecurityProfile option \<Rightarrow> OLSConfig_file" where
  "ols_section r cr dataCollectorEnabled proxyConfig tlsProfile =
     (let ols = s_OLSConfig (cr_Spec cr) in
      \<lparr>of_DefaultModel = o_DefaultModel ols, of_DefaultProvider = o_DefaultProvider ols,
       of_MaxIterations = o_MaxIterations ols,
       of_Logging = \<lparr>lg_AppLogLevel = o_LogLevel ols, lg_LibLogLevel = o_LogLevel ols, lg_UvicornLogLevel = o_LogLevel ols\<rparr>,
       of_ConversationCache = \<lparr>cx_Type = OLSDefaultCacheType, cx_Postgres = postgresCacheConfig r\<rparr>,
       of_TLSConfig = \<lparr>tc_TLSCertificatePath = path_join [OLSAppCertsMountRoot, ''lightspeed-tls'', ''tls.crt''],
         tc_TLSKeyPath = path_join [OLSAppCertsMountRoot, ''lightspeed-tls'', ''tls.key'']\<rparr>,
       of_TLSSecurityProfile = Some (profile_config (tls_lib r) tlsProfile),
       of_QueryFilters = [],
       of_ReferenceContent = (if reference_indexes cr = [] then None else Some
         \<lparr>rc_EmbeddingsModelPath = ''/app-root/embeddings_model'', rc_Indexes = reference_indexes cr\<rparr>),
       of_UserDataCollection = \<lparr>
         uc_FeedbackDisabled = (ud_FeedbackDisabled (o_UserDataCollection ols) \<or> \<not> dataCollectorEnabled),
         uc_FeedbackStorage = ''/app-root/ols-user-data/feedback'',
         uc_TranscriptsDisabled = (ud_TranscriptsDisabled (o_UserDataCollection ols) \<or> \<not> dataCollectorEnabled),
         uc_TranscriptsStorage = ''/app-root/ols-user-data/transcripts''\<rparr>,
       of_ExtraCAs = [], of_CertificateDirectory = [], of_ProxyConfig = proxyConfig,
       of_QuotaHandlersConfig = None, of_SystemPromptPath = [], of_ToolFiltering = None, of_ToolsApproval = None,
       of_Audit = Some (buildServiceAuditConfig cr),
       of_SolrHybrid = (if o_ByokRAGOnly ols then None else Some (buildSolrHybridSettings (GetNamespace r)))\<rparr>)"

definition buildOLSConfig :: "'w reconciler \<Rightarrow> OLSConfig \<Rightarrow> bool \<Rightarrow> ('w, goerr + OLSConfig_file) io" where
  "buildOLSConfig r cr dataCollectorEnabled = do {
     x \<leftarrow> proxy_config r cr;
     case x of
       Inl e \<Rightarrow> ret (Inl e)
     | Inr proxyConfig \<Rightarrow> do {
         tlsProfile \<leftarrow> tls_profile r cr;
         ret (Inr (ols_section r cr dataCollectorEnabled proxyConfig tlsProfile)) } }"

section \<open>The ConfigMap\<close>

text \<open>
  \<open>dataCollectorEnabled\<close>: some user data is collected and the pull secret of the cluster has an entry
  for \<open>cloud.openshift.com\<close>. JSON that is not an object does not fit the map it is read into; a
  secret whose \<open>auths\<close> is missing or not an object fails the type assertion, which panics.
\<close>

definition assertion_panic :: goerr where
  "assertion_panic = newerr ''panic: interface conversion: interface {} is not map[string]interface {}''"

fun has_telemetry :: "doc \<Rightarrow> goerr + bool" where
  "has_telemetry (DMap m) = (case map_of m ''auths'' of
      Some (DMap auths) \<Rightarrow> Inr (map_of auths ''cloud.openshift.com'' \<noteq> None)
    | _ \<Rightarrow> Inl assertion_panic)"
| "has_telemetry DNull = Inl assertion_panic"
| "has_telemetry _ = Inl (newerr ''json: cannot unmarshal into Go value of type map[string]interface {}'')"

definition dataCollectorEnabled :: "'w reconciler \<Rightarrow> OLSConfig \<Rightarrow> ('w, goerr + bool) io" where
  "dataCollectorEnabled r cr =
     (let ud = o_UserDataCollection (s_OLSConfig (cr_Spec cr)) in
      if ud_FeedbackDisabled ud \<and> ud_TranscriptsDisabled ud then ret (Inr False)
      else do {
        x \<leftarrow> cl_get r (Secret, TelemetryPullSecretNamespace, TelemetryPullSecretName);
        ret (case x of
           Inl e \<Rightarrow> (if IsNotFound e then Inr False else Inl e)
         | Inr pullSecret \<Rightarrow>
             (case fmlookup (secret_data (k_payload pullSecret)) ''.dockerconfigjson'' of
                None \<Rightarrow> Inl (newerr ''pull secret does not contain .dockerconfigjson'')
              | Some dockerconfigjson \<Rightarrow>
                  (case json_unmarshal r dockerconfigjson of Inl e \<Rightarrow> Inl e | Inr d \<Rightarrow> has_telemetry d))) })"

definition quota_config :: "'w reconciler \<Rightarrow> OLSConfig \<Rightarrow> QuotaHandlersConfig_file option" where
  "quota_config r cr = map_option (\<lambda>q. \<lparr>qc_Storage = postgresCacheConfig r, qc_SchedulerPeriod = 300,
     qc_LimitersConfig = map (\<lambda>lc. \<lparr>lf_Name = lc_Name lc, lf_Type = lc_Type lc, lf_InitialQuota = lc_InitialQuota lc,
       lf_QuotaIncrease = lc_QuotaIncrease lc, lf_Period = lc_Period lc\<rparr>) (qh_LimitersConfig q),
     qc_EnableTokenHistory = qh_EnableTokenHistory q\<rparr>) (o_QuotaHandlersConfig (s_OLSConfig (cr_Spec cr)))"

definition approval_config :: "OLSConfig \<Rightarrow> ToolsApprovalConfig_file" where
  "approval_config cr = (case o_ToolsApprovalConfig (s_OLSConfig (cr_Spec cr)) of
      None \<Rightarrow> \<lparr>tv_ApprovalType = ApprovalTypeToolAnnotations, tv_ApprovalTimeout = ToolsApprovalDefaultTimeout\<rparr>
    | Some c \<Rightarrow> \<lparr>
        tv_ApprovalType = (if ta_ApprovalType c = [] then ApprovalTypeToolAnnotations else ta_ApprovalType c),
        tv_ApprovalTimeout = (if ta_ApprovalTimeout c = 0 then ToolsApprovalDefaultTimeout else ta_ApprovalTimeout c)\<rparr>)"

text \<open>The trusted certificates: of the cluster, of the operands that are on, of the user.\<close>

definition operand_cas :: "OLSConfig \<Rightarrow> string list" where
  "operand_cas cr = [path_join [OLSAppCertsMountRoot, AppOtelCollectorCACertDir, AppOtelCollectorCACertFile]] @
     (if BoolDeref (o_IntrospectionEnabled (s_OLSConfig (cr_Spec cr))) True
      then [path_join [OLSAppCertsMountRoot, AppOpenShiftMCPServerCACertDir, AppOpenShiftMCPServerCACertFile]] else []) @
     (if \<not> o_ByokRAGOnly (s_OLSConfig (cr_Spec cr))
      then [path_join [OLSAppCertsMountRoot, AppRHOKPCACertDir, AppRHOKPCACertFile]] else [])"

definition extra_cas :: "'w reconciler \<Rightarrow> OLSConfig \<Rightarrow> ('w, goerr + string list) io" where
  "extra_cas r cr = do {
     x \<leftarrow> addAdditionalCAFileNames r ''kube-root-ca.crt'' AppAdditionalCACertDir;
     case x of
       Inl e \<Rightarrow> ret (Inl (wrapf ''failed to generate additional certs from kube-root-ca.crt, additional CA error'' e))
     | Inr rootCAs \<Rightarrow> (case o_AdditionalCAConfigMapRef (s_OLSConfig (cr_Spec cr)) of
          None \<Rightarrow> ret (Inr (rootCAs @ operand_cas cr))
        | Some name \<Rightarrow> do {
            y \<leftarrow> addAdditionalCAFileNames r name UserCACertDir;
            ret (case y of
               Inl e \<Rightarrow> Inl (wrapf ''failed to generate OLS config file, additional CA error'' e)
             | Inr user \<Rightarrow> Inr (rootCAs @ operand_cas cr @ user)) }) }"

definition finish_ols :: "'w reconciler \<Rightarrow> OLSConfig \<Rightarrow> string list \<Rightarrow> OLSConfig_file \<Rightarrow> OLSConfig_file" where
  "finish_ols r cr cas olsConfig = olsConfig\<lparr>of_QuotaHandlersConfig := quota_config r cr, of_ExtraCAs := cas,
     of_CertificateDirectory := path_join [OLSAppCertsMountRoot, CertBundleVolumeName],
     of_QueryFilters := nil_list (getQueryFilters cr),
     of_SystemPromptPath := (if o_QuerySystemPrompt (s_OLSConfig (cr_Spec cr)) \<noteq> []
       then path_join [OLSConfigMountRoot, OLSSystemPromptFileName] else []),
     of_ToolFiltering := buildToolFilteringConfig cr (generateMCPServerConfigs r cr),
     of_ToolsApproval := Some (approval_config cr)\<rparr>"

definition config_file :: "'w reconciler \<Rightarrow> OLSConfig \<Rightarrow> ProviderConfig list \<Rightarrow> bool \<Rightarrow> OLSConfig_file \<Rightarrow> AppSrvConfigFile" where
  "config_file r cr providerConfigs collecting olsConfig = \<lparr>as_LLMProviders = providerConfigs, as_OLSConfig = olsConfig,
     as_UserDataCollectorConfig = (if collecting
       then \<lparr>ul_DataStorage = ''/app-root/ols-user-data'', ul_LogLevel = ds_LogLevel (s_OLSDataCollectorConfig (cr_Spec cr))\<rparr>
       else \<lparr>ul_DataStorage = [], ul_LogLevel = []\<rparr>),
     as_MCPServers = generateMCPServerConfigs r cr\<rparr>"

definition build_file :: "'w reconciler \<Rightarrow> OLSConfig \<Rightarrow> ('w, goerr + AppSrvConfigFile) io" where
  "build_file r cr = (case buildProviderConfigs cr of
      Inl e \<Rightarrow> ret (Inl (wrapf ''failed to build provider configurations'' e))
    | Inr providerConfigs \<Rightarrow> do {
        x \<leftarrow> dataCollectorEnabled r cr;
        case x of
          Inl e \<Rightarrow> ret (Inl (wrapf ''failed to check if data collector is enabled'' e))
        | Inr collecting \<Rightarrow> do {
            y \<leftarrow> buildOLSConfig r cr collecting;
            case y of
              Inl e \<Rightarrow> ret (Inl e)
            | Inr olsConfig \<Rightarrow> do {
                z \<leftarrow> extra_cas r cr;
                ret (case z of
                   Inl e \<Rightarrow> Inl e
                 | Inr cas \<Rightarrow> Inr (config_file r cr providerConfigs collecting (finish_ols r cr cas olsConfig))) } } })"

definition ols_config_map :: "'w reconciler \<Rightarrow> OLSConfig \<Rightarrow> string \<Rightarrow> kobject" where
  "ols_config_map r cr configFile = set_controller cr \<lparr>
     k_meta = new_meta (GetNamespace r) OLSConfigCmName GenerateAppServerSelectorLabels,
     k_payload = PConfigMap (fmap_of_list ([(OLSConfigFilename, configFile)] @
       (if o_QuerySystemPrompt (s_OLSConfig (cr_Spec cr)) \<noteq> []
        then [(OLSSystemPromptFileName, o_QuerySystemPrompt (s_OLSConfig (cr_Spec cr)))] else []))) fmempty\<rparr>"

definition GenerateOLSConfigMap :: "'w reconciler \<Rightarrow> OLSConfig \<Rightarrow> ('w, goerr + kobject) io" where
  "GenerateOLSConfigMap r cr = do {
     x \<leftarrow> build_file r cr;
     ret (case x of
        Inl e \<Rightarrow> Inl e
      | Inr file \<Rightarrow> (case yaml_marshal r (json_file file) of
           Inl e \<Rightarrow> Inl (Errorf (''failed to generate OLS config file '' @ err_msg e) [e])
         | Inr configFile \<Rightarrow> Inr (ols_config_map r cr configFile))) }"

section \<open>What the file contains\<close>

text \<open>The reference: a provider is complete when it has the settings its type needs.\<close>

definition provider_complete :: "ProviderSpec \<Rightarrow> bool" where
  "provider_complete p =
     ((p_Type p = GoogleVertexType \<longrightarrow> p_GoogleVertexConfig p \<noteq> None) \<and>
      (p_Type p = GoogleVertexAnthropicType \<longrightarrow> p_GoogleVertexAnthropicConfig p \<noteq> None))"

text \<open>Where the entry says its credentials are.\<close>

definition provider_credentials :: "ProviderConfig \<Rightarrow> string" where
  "provider_credentials c = (case pc_AzureOpenAIConfig c of
      Some a \<Rightarrow> az_CredentialsPath a | None \<Rightarrow> pc_CredentialsPath c)"

definition describes :: "ProviderSpec \<Rightarrow> ProviderConfig \<Rightarrow> bool" where
  "describes p c = (pc_Name c = p_Name p \<and> pc_Type c = p_Type p \<and> pc_Models c = map buildModelConfig (p_Models p) \<and>
     provider_credentials c = credentialPath p \<and>
     (pc_FakeProviderConfig c \<noteq> None \<longleftrightarrow> p_Type p = FakeProviderType))"

lemma buildProviderConfig_describes:
  "buildProviderConfig p = Inr c \<Longrightarrow> describes p c"
  by (auto simp: buildProviderConfig_def describes_def provider_credentials_def emptyProvider_def Let_def
      AzureOpenAIType_def GoogleVertexType_def GoogleVertexAnthropicType_def FakeProviderType_def split: if_splits option.splits)

lemma buildProviderConfig_complete:
  "(\<exists>c. buildProviderConfig p = Inr c) \<longleftrightarrow> provider_complete p"
  by (auto simp: buildProviderConfig_def provider_complete_def Let_def
      AzureOpenAIType_def GoogleVertexType_def GoogleVertexAnthropicType_def split: option.splits)

lemma build_providers_described:
  "((\<exists>cs. build_providers ps = Inr cs) \<longleftrightarrow> list_all provider_complete ps) \<and>
   (case build_providers ps of Inl e \<Rightarrow> True | Inr cs \<Rightarrow> list_all2 describes ps cs)"
proof (induction ps)
  case (Cons p ps)
  show ?case
  proof (cases "buildProviderConfig p")
    case (Inl e)
    then show ?thesis using buildProviderConfig_complete [of p] by simp
  next
    case (Inr c)
    then show ?thesis
      using Cons buildProviderConfig_complete [of p] buildProviderConfig_describes [OF Inr] by (auto split: sum.splits)
  qed
qed simp

lemma buildProviderConfigs_described:
  "buildProviderConfigs cr = Inr cs \<Longrightarrow> list_all2 describes (llm_Providers (s_LLMConfig (cr_Spec cr))) cs"
  using build_providers_described [of "llm_Providers (s_LLMConfig (cr_Spec cr))"] by (simp add: buildProviderConfigs_def)

text \<open>
  (C38) The providers of the file: building them succeeds exactly when every provider has the settings
  of its type, and then the file has one entry per provider, in order, with its name, type,
  models and the path its credentials are mounted at.
\<close>

theorem buildProviderConfigs_spec:
  "((\<exists>cs. buildProviderConfigs cr = Inr cs) \<longleftrightarrow> list_all provider_complete (llm_Providers (s_LLMConfig (cr_Spec cr)))) \<and>
   (case buildProviderConfigs cr of Inl e \<Rightarrow> True
    | Inr cs \<Rightarrow> list_all2 describes (llm_Providers (s_LLMConfig (cr_Spec cr))) cs)"
  unfolding buildProviderConfigs_def by (rule build_providers_described)

text \<open>The reference for the user's MCP servers: those with valid headers only, a later header wins.\<close>

definition valid_server :: "MCPServerConfig \<Rightarrow> bool" where
  "valid_server m = list_all (\<lambda>h. header_value (h_ValueFrom h) \<noteq> None) (ms_Headers m)"

definition server_entry :: "MCPServerConfig \<Rightarrow> MCPServerConfig_file" where
  "server_entry m = \<lparr>mf_Name = ms_Name m, mf_URL = ms_URL m,
     mf_Headers = fmap_of_list (rev (map (\<lambda>h. (h_Name h, the (header_value (h_ValueFrom h)))) (ms_Headers m))),
     mf_Timeout = max 0 (ms_Timeout m)\<rparr>"

lemma build_headers_spec:
  "build_headers hs acc = (if list_all (\<lambda>h. header_value (h_ValueFrom h) \<noteq> None) hs
     then Some (acc ++\<^sub>f fmap_of_list (rev (map (\<lambda>h. (h_Name h, the (header_value (h_ValueFrom h)))) hs))) else None)"
proof (induction hs arbitrary: acc)
  case (Cons h hs)
  have "fmupd (h_Name h) x acc ++\<^sub>f m = acc ++\<^sub>f (fmap_of_list [(h_Name h, x)] ++\<^sub>f m)" for x and m :: gmap
    by (rule fmap_ext) (simp add: fmap_of_list.rep_eq)
  then show ?case using Cons by (auto simp: fmap_of_list_app split: option.splits)
qed simp

lemma user_servers_spec: "user_servers ms = map server_entry (filter valid_server ms)"
proof (induction ms)
  case (Cons m ms)
  then show ?case
    by (cases "valid_server m") (simp_all add: build_headers_spec valid_server_def server_entry_def max_def)
qed simp

text \<open>
  (C39) The MCP servers of the file: the OpenShift server when introspection is on, then, when the
  feature is on, exactly the servers of the resource all of whose headers are valid, in order;
  one invalid header drops its server and no other.
\<close>

theorem generateMCPServerConfigs_spec:
  "generateMCPServerConfigs r cr =
     (if introspects cr then [openshift_server r cr] else []) @
     (if FeatureGateMCPServer \<in> set (s_FeatureGates (cr_Spec cr))
      then map server_entry (filter valid_server (s_MCPServers (cr_Spec cr))) else [])"
  by (simp add: generateMCPServerConfigs_def user_servers_spec introspects_def)

end
