(* ===== verification/App_Deployment.thy ===== *)
theory App_Deployment
  imports App_Config Postgres
begin

text \<open>
  The Deployment of the application server (\<open>internal/controller/appserver/deployment.go\<close>,
  \<open>rag.go\<close>): volumes and mounts, containers, the annotations that record what the pods were
  started with, the client CA secrets (\<open>assets.go\<close>), and the restart.
\<close>

section \<open>Retrieval images\<close>

definition generateRAGVolume :: volume where
  "generateRAGVolume = emptydir_volume RAGVolumeName"

definition GenerateRAGInitContainers :: "OLSConfig \<Rightarrow> container list" where
  "GenerateRAGInitContainers cr = map (\<lambda>(idx, rag).
     (let ragName = ''rag-'' @ nat_to_string idx; target = path_join [RAGVolumeMountPath, ragName] in
      \<lparr>c_name = ragName, c_image = rag_Image rag, c_ports = [], c_env = [],
       c_command = [''sh'', ''-c'', ''mkdir -p '' @ target @ '' && cp -a '' @ rag_IndexPath rag @ ''/. '' @ target],
       c_args = [], c_mounts = [mount RAGVolumeName RAGVolumeMountPath False],
       c_resources = \<lparr>rs_limits = fmempty, rs_requests = fmempty, rs_claims = []\<rparr>, c_secctx = None,
       c_pull = ''Always'', c_liveness = None, c_readiness = None, c_startup = None, c_lifecycle = None\<rparr>))
     (enumerate 0 (o_RAG (s_OLSConfig (cr_Spec cr))))"

definition generateRAGVolumeMount :: volume_mount where
  "generateRAGVolumeMount = mount RAGVolumeName RAGVolumeMountPath False"

text \<open>\<open>ImageTrigger\<close> and \<open>ImageTriggerFrom\<close>, encoded.\<close>

definition image_triggers :: "'w reconciler \<Rightarrow> OLSConfig \<Rightarrow> doc" where
  "image_triggers r cr = DList (map (\<lambda>(idx, rag). DMap
     [(''from'', DMap [(''kind'', DStr ''ImageStreamTag''),
        (''name'', DStr (ImageStreamNameFor (sha1_hex r) (rag_Image rag) @ '':latest''))]),
      (''fieldPath'', DStr (''spec.template.spec.initContainers[?(@.name=='' @ double_quoted (''rag-'' @ nat_to_string idx) @
         '')].image''))])
     (enumerate 0 (o_RAG (s_OLSConfig (cr_Spec cr)))))"

definition generateImageStreamTriggers :: "'w reconciler \<Rightarrow> OLSConfig \<Rightarrow> goerr + string" where
  "generateImageStreamTriggers r cr = (case json_marshal r (image_triggers r cr) of
      Inl e \<Rightarrow> Inl (wrapf ''marshal image triggers'' e) | Inr s \<Rightarrow> Inr s)"

definition rag_doc :: "OLSConfig \<Rightarrow> doc" where
  "rag_doc cr = DList (map (\<lambda>rag. DMap (str_omit ''indexPath'' (rag_IndexPath rag) @ str_omit ''indexID'' (rag_IndexID rag) @
     [(''image'', DStr (rag_Image rag))])) (o_RAG (s_OLSConfig (cr_Spec cr))))"

text \<open>A marshalling error is ignored and leaves no bytes to hash.\<close>

definition ragSpecHash :: "'w reconciler \<Rightarrow> OLSConfig \<Rightarrow> string" where
  "ragSpecHash r cr = (if o_RAG (s_OLSConfig (cr_Spec cr)) = [] then []
     else sha256_hex r (case json_marshal r (rag_doc cr) of Inl e \<Rightarrow> [] | Inr d \<Rightarrow> d))"

section \<open>Volumes and mounts\<close>

definition getOLSServerResources :: "OLSConfig \<Rightarrow> resources" where
  "getOLSServerResources cr = GetResourcesOrDefault
     (cf_Resources (dc_APIContainer (o_DeploymentConfig (s_OLSConfig (cr_Spec cr)))))
     \<lparr>rs_limits = fmempty,
      rs_requests = fmap_of_list [(''cpu'', 500), (''memory'', 1024 * 1024 * 1024 * 1000)], rs_claims = []\<rparr>"

definition getOLSDataCollectorResources :: "OLSConfig \<Rightarrow> resources" where
  "getOLSDataCollectorResources cr = GetResourcesOrDefault
     (cc_Resources (dc_DataCollectorContainer (o_DeploymentConfig (s_OLSConfig (cr_Spec cr)))))
     \<lparr>rs_limits = fmempty,
      rs_requests = fmap_of_list [(''cpu'', 50), (''memory'', 64 * 1024 * 1024 * 1000)], rs_claims = []\<rparr>"

definition appServerEnv :: "'w reconciler \<Rightarrow> OLSConfig \<Rightarrow> env_var list" where
  "appServerEnv r cr = GetProxyEnvVars r @
     [plain_env ''OLS_CONFIG_FILE'' (path_join [OLSConfigMountRoot, OLSConfigFilename]),
      plain_env OTELExporterOTLPCertificateEnvVar
        (path_join [OLSAppCertsMountRoot, AppOtelCollectorCACertDir, AppOtelCollectorCACertFile]),
      plain_env ''SSL_CERT_FILE'' (path_join [OLSAppCertsMountRoot, CertBundleVolumeName, ''ols.pem''])] @
     (if o_ByokRAGOnly (s_OLSConfig (cr_Spec cr)) then []
      else [plain_env OCPClusterVersionEnvVar (OpenShiftMajor (Options r) @ ''.'' @ OpenshiftMinor (Options r))] @
        (case RosaOKPProductEnv' (Options r) of None \<Rightarrow> [] | Some e \<Rightarrow> [e]))"

text \<open>A volume with its mount, as the code adds them in pairs.\<close>

type_synonym mounted = "volume list \<times> volume_mount list"

definition add_mounted :: "volume \<Rightarrow> volume_mount \<Rightarrow> (mounted, goerr option) io" where
  "add_mounted x m = do { (vs, ms) \<leftarrow> State_Monad.get; State_Monad.set (vs @ [x], ms @ [m]); ret None }"

definition collected :: "(mounted, goerr option) io \<Rightarrow> mounted" where
  "collected m = snd (run_state m ([], []))"

definition llm_mounted :: "OLSConfig \<Rightarrow> mounted" where
  "llm_mounted cr = collected (ForEachExternalSecret cr (\<lambda>name source.
     if \<not> HasPrefix source ''llm-provider-'' then ret None
     else add_mounted (secret_volume (''secret-'' @ name) name VolumeDefaultMode)
       (mount (''secret-'' @ name) (path_join [APIKeyMountRoot, name]) True)))"

definition header_mounted :: "OLSConfig \<Rightarrow> mounted" where
  "header_mounted cr = collected (ForEachExternalSecret cr (\<lambda>name source.
     if \<not> HasPrefix source ''mcp-'' then ret None
     else add_mounted (secret_volume (''header-'' @ name) name VolumeDefaultMode)
       (mount (''header-'' @ name) (path_join [MCPHeadersMountRoot, name]) True)))"

definition ca_mounted :: "OLSConfig \<Rightarrow> mounted" where
  "ca_mounted cr = collected (ForEachExternalConfigMap cr (\<lambda>name source.
     if source = ''additional-ca''
     then add_mounted (configmap_volume AdditionalCAVolumeName name VolumeDefaultMode)
       (mount AdditionalCAVolumeName (path_join [OLSAppCertsMountRoot, UserCACertDir]) True)
     else if source = ''proxy-ca''
     then (let certKey = GetProxyCACertKey (case o_ProxyConfig (s_OLSConfig (cr_Spec cr)) of
              None \<Rightarrow> None | Some pc \<Rightarrow> px_ProxyCACertificateRef pc) in
       add_mounted ((configmap_volume ProxyCACertVolumeName name VolumeDefaultMode)\<lparr>v_configmap :=
           Some \<lparr>vs_name = name, vs_mode = Some VolumeDefaultMode, vs_items = [(certKey, certKey)]\<rparr>\<rparr>)
         (mount ProxyCACertVolumeName (path_join [OLSAppCertsMountRoot, ProxyCACertVolumeName]) True))
     else ret None))"

text \<open>One file of a client CA secret, under the name the application expects.\<close>

definition client_ca_volume :: "string \<Rightarrow> string \<Rightarrow> string \<Rightarrow> string \<Rightarrow> volume" where
  "client_ca_volume name secret k file = (secret_volume name secret VolumeDefaultMode)\<lparr>v_secret :=
     Some \<lparr>vs_name = secret, vs_mode = Some VolumeDefaultMode, vs_items = [(k, file)]\<rparr>\<rparr>"

definition user_tls :: "OLSConfig \<Rightarrow> bool" where
  "user_tls cr = (case o_TLSConfig (s_OLSConfig (cr_Spec cr)) of None \<Rightarrow> False | Some n \<Rightarrow> n \<noteq> [])"

definition app_tls_secret :: "OLSConfig \<Rightarrow> string" where
  "app_tls_secret cr = (case o_TLSConfig (s_OLSConfig (cr_Spec cr)) of
      None \<Rightarrow> OLSCertsSecretName | Some n \<Rightarrow> (if n \<noteq> [] then n else OLSCertsSecretName))"

definition OLSConfigVolumeName :: string where [go_const]: "OLSConfigVolumeName = ''cm-olsconfig''"
definition OLSUserDataVolumeName :: string where [go_const]: "OLSUserDataVolumeName = ''ols-user-data''"

definition app_volumes :: "OLSConfig \<Rightarrow> bool \<Rightarrow> volume list" where
  "app_volumes cr collecting =
     (let ols = s_OLSConfig (cr_Spec cr) in
      fst (llm_mounted cr) @
      [secret_volume (''secret-'' @ PostgresSecretName) PostgresSecretName VolumeDefaultMode,
       secret_volume ''secret-lightspeed-tls'' (app_tls_secret cr) VolumeDefaultMode,
       configmap_volume OLSConfigVolumeName OLSConfigCmName VolumeDefaultMode] @
      (if collecting then [emptydir_volume OLSUserDataVolumeName,
         configmap_volume ExporterConfigVolumeName ExporterConfigCmName VolumeDefaultMode] else []) @
      [configmap_volume OpenShiftCAVolumeName ''kube-root-ca.crt'' VolumeDefaultMode, emptydir_volume CertBundleVolumeName] @
      fst (ca_mounted cr) @
      (if o_RAG ols \<noteq> [] then [generateRAGVolume] else []) @
      [GetPostgresCAConfigVolume,
       client_ca_volume AppOtelCollectorCACertVolumeName AgenticOtelCASecretName AgenticOtelCASecretDataKey AppOtelCollectorCACertFile] @
      (if BoolDeref (o_IntrospectionEnabled ols) True
       then [client_ca_volume AppOpenShiftMCPServerCACertVolumeName AgenticMCPCASecretName AgenticMCPCASecretDataKey
         AppOpenShiftMCPServerCACertFile] else []) @
      (if \<not> o_ByokRAGOnly ols
       then [client_ca_volume AppRHOKPCACertVolumeName AgenticRHOKPCASecretName AgenticRHOKPCASecretDataKey AppRHOKPCACertFile]
       else []) @
      [emptydir_volume TmpVolumeName] @ fst (header_mounted cr))"

definition app_mounts :: "OLSConfig \<Rightarrow> bool \<Rightarrow> volume_mount list" where
  "app_mounts cr collecting =
     (let ols = s_OLSConfig (cr_Spec cr) in
      snd (llm_mounted cr) @
      [mount (''secret-'' @ PostgresSecretName) (path_join [CredentialsMountRoot, PostgresSecretName]) True,
       mount ''secret-lightspeed-tls'' (path_join [OLSAppCertsMountRoot, ''lightspeed-tls'']) True,
       mount OLSConfigVolumeName OLSConfigMountRoot True] @
      (if collecting then [mount OLSUserDataVolumeName OLSUserDataMountPath False,
         mount ExporterConfigVolumeName ExporterConfigMountPath True] else []) @
      [mount OpenShiftCAVolumeName (path_join [OLSAppCertsMountRoot, AppAdditionalCACertDir]) True,
       mount CertBundleVolumeName (path_join [OLSAppCertsMountRoot, CertBundleVolumeName]) False] @
      snd (ca_mounted cr) @
      (if o_RAG ols \<noteq> [] then [generateRAGVolumeMount] else []) @
      [GetPostgresCAVolumeMount (path_join [OLSAppCertsMountRoot, ''postgres-ca'']),
       mount AppOtelCollectorCACertVolumeName (path_join [OLSAppCertsMountRoot, AppOtelCollectorCACertDir]) True] @
      (if BoolDeref (o_IntrospectionEnabled ols) True
       then [mount AppOpenShiftMCPServerCACertVolumeName (path_join [OLSAppCertsMountRoot, AppOpenShiftMCPServerCACertDir]) True]
       else []) @
      (if \<not> o_ByokRAGOnly ols
       then [mount AppRHOKPCACertVolumeName (path_join [OLSAppCertsMountRoot, AppRHOKPCACertDir]) True] else []) @
      [mount TmpVolumeName TmpVolumeMountPath False] @ snd (header_mounted cr))"

section \<open>Containers and the Deployment\<close>

definition app_probe :: "string \<Rightarrow> int \<Rightarrow> probe" where
  "app_probe path failures = \<lparr>pr_handler = HTTPGet path ''https'' ''HTTPS'', pr_initial = 30, pr_timeout = 30,
     pr_period = 30, pr_success = 0, pr_failure = failures, pr_grace = None\<rparr>"

definition api_container :: "'w reconciler \<Rightarrow> OLSConfig \<Rightarrow> bool \<Rightarrow> container" where
  "api_container r cr collecting = \<lparr>c_name = ''lightspeed-service-api'', c_image = LightspeedServiceImage (Options r),
     c_ports = [\<lparr>cp_name = ''https'', cp_port = OLSAppServerContainerPort, cp_protocol = ''TCP''\<rparr>],
     c_env = appServerEnv r cr, c_command = [], c_args = [], c_mounts = app_mounts cr collecting,
     c_resources = getOLSServerResources cr, c_secctx = Some RestrictedContainerSecurityContext,
     c_pull = ''Always'', c_liveness = Some (app_probe ''/liveness'' 3), c_readiness = Some (app_probe ''/readiness'' 15),
     c_startup = None, c_lifecycle = None\<rparr>"

definition LogLevelInfo :: string where [go_const]: "LogLevelInfo = ''INFO''"

definition exporter_container :: "'w reconciler \<Rightarrow> OLSConfig \<Rightarrow> container" where
  "exporter_container r cr =
     (let logLevel = ds_LogLevel (s_OLSDataCollectorConfig (cr_Spec cr)) in
      \<lparr>c_name = ''lightspeed-to-dataverse-exporter'', c_image = DataverseExporterImage (Options r),
       c_ports = [], c_env = [], c_command = [],
       c_args = [''--mode'', ''openshift'', ''--config'', path_join [ExporterConfigMountPath, ExporterConfigFilename],
         ''--log-level'', if logLevel = [] then LogLevelInfo else logLevel, ''--data-dir'', OLSUserDataMountPath],
       c_mounts = app_mounts cr True, c_resources = getOLSDataCollectorResources cr,
       c_secctx = Some RestrictedContainerSecurityContext, c_pull = ''Always'', c_liveness = None, c_readiness = None,
       c_startup = None, c_lifecycle = None\<rparr>)"

definition app_spec :: "'w reconciler \<Rightarrow> OLSConfig \<Rightarrow> bool \<Rightarrow> deployment_spec" where
  "app_spec r cr collecting =
     (let ols = s_OLSConfig (cr_Spec cr);
          spec = ApplyPodDeploymentConfig (zero_deployment\<lparr>
            d_selector := Some GenerateAppServerSelectorLabels, d_history := Some 1,
            d_tmpl_labels := GenerateAppServerSelectorLabels,
            d_pod := zero_pod\<lparr>
              po_containers := [api_container r cr collecting] @ (if collecting then [exporter_container r cr] else []),
              po_init := [GeneratePostgresWaitInitContainer (LightspeedServicePostgresImage (Options r))] @
                GenerateRAGInitContainers cr,
              po_volumes := app_volumes cr collecting, po_service_account := OLSAppServerServiceAccountName\<rparr>\<rparr>)
            (dc_APIContainer (o_DeploymentConfig ols)) True in
      if o_RAG ols \<noteq> [] then spec\<lparr>d_pod := (d_pod spec)\<lparr>po_pull_secrets := nil_list (o_ImagePullSecrets ols)\<rparr>\<rparr> else spec)"

definition app_deployment :: "'w reconciler \<Rightarrow> OLSConfig \<Rightarrow> bool \<Rightarrow> (string \<times> string) list \<Rightarrow> kobject" where
  "app_deployment r cr collecting annotations = with_annotations annotations
     (deployment_object r cr OLSAppServerDeploymentName GenerateAppServerSelectorLabels (app_spec r cr collecting))"

text \<open>A version or hash that cannot be found is recorded as empty, any other failure is an error.\<close>

definition or_missing :: "string \<Rightarrow> goerr + string \<Rightarrow> goerr + string" where
  "or_missing msg x = (case x of
      Inr s \<Rightarrow> Inr s | Inl e \<Rightarrow> (if IsNotFound e then Inr [] else Inl (wrapf msg e)))"

definition GenerateOLSDeployment :: "'w reconciler \<Rightarrow> OLSConfig \<Rightarrow> ('w, goerr + kobject) io" where
  "GenerateOLSDeployment r cr = do {
     x \<leftarrow> dataCollectorEnabled r cr;
     case x of
       Inl e \<Rightarrow> ret (Inl e)
     | Inr collecting \<Rightarrow> do {
         y \<leftarrow> GetConfigMapResourceVersion r OLSConfigCmName;
         case or_missing ''failed to get ConfigMap resource version'' y of
           Inl e \<Rightarrow> ret (Inl e)
         | Inr configMapResourceVersion \<Rightarrow> do {
             z \<leftarrow> GetProxyCACertHash r cr;
             ret (case or_missing ''failed to get Proxy CA certificate hash'' z of
                Inl e \<Rightarrow> Inl e
              | Inr proxyCACMResourceVersion \<Rightarrow>
                  (let annotations = [(OLSConfigMapResourceVersionAnnotation, configMapResourceVersion),
                         (RAGSpecHashAnnotation, ragSpecHash r cr),
                         (ProxyCACertHashAnnotation, proxyCACMResourceVersion)] in
                   if o_RAG (s_OLSConfig (cr_Spec cr)) = [] then Inr (app_deployment r cr collecting annotations)
                   else case generateImageStreamTriggers r cr of
                     Inl e \<Rightarrow> Inl e
                   | Inr triggers \<Rightarrow> Inr (app_deployment r cr collecting
                       (annotations @ [(OLSAppServerImageStreamTriggerAnnotation, triggers)])))) } } }"

section \<open>Client CA secrets\<close>

record clientCAConfig =
  ca_SecretName :: string
  ca_DataKey :: string
  ca_Enabled :: "OLSConfig \<Rightarrow> bool"
  ca_ErrSource :: string
  ca_ErrCreate :: string
  ca_ErrGet :: string
  ca_ErrUpdate :: string
  ca_ErrDelete :: string

definition clientCASecrets :: "clientCAConfig list" where
  "clientCASecrets =
     [\<lparr>ca_SecretName = AgenticOtelCASecretName, ca_DataKey = AgenticOtelCASecretDataKey, ca_Enabled = (\<lambda>_. True),
       ca_ErrSource = ErrGetAgenticOtelCASourceConfigMap, ca_ErrCreate = ErrCreateAgenticOtelCASecret,
       ca_ErrGet = ErrGetAgenticOtelCASecret, ca_ErrUpdate = ErrUpdateAgenticOtelCASecret,
       ca_ErrDelete = ErrDeleteAgenticOtelCASecret\<rparr>,
      \<lparr>ca_SecretName = AgenticMCPCASecretName, ca_DataKey = AgenticMCPCASecretDataKey,
       ca_Enabled = (\<lambda>cr. BoolDeref (o_IntrospectionEnabled (s_OLSConfig (cr_Spec cr))) True),
       ca_ErrSource = ErrAgenticMCPCANotReady, ca_ErrCreate = ErrCreateAgenticMCPCASecret,
       ca_ErrGet = ErrGetAgenticMCPCASecret, ca_ErrUpdate = ErrUpdateAgenticMCPCASecret,
       ca_ErrDelete = ErrDeleteAgenticMCPCASecret\<rparr>,
      \<lparr>ca_SecretName = AgenticRHOKPCASecretName, ca_DataKey = AgenticRHOKPCASecretDataKey,
       ca_Enabled = (\<lambda>cr. \<not> o_ByokRAGOnly (s_OLSConfig (cr_Spec cr))),
       ca_ErrSource = ErrGetAgenticRHOKPCASourceConfigMap, ca_ErrCreate = ErrCreateAgenticRHOKPCASecret,
       ca_ErrGet = ErrGetAgenticRHOKPCASecret, ca_ErrUpdate = ErrUpdateAgenticRHOKPCASecret,
       ca_ErrDelete = ErrDeleteAgenticRHOKPCASecret\<rparr>]"

definition client_ca_secret :: "'w reconciler \<Rightarrow> OLSConfig \<Rightarrow> clientCAConfig \<Rightarrow> string \<Rightarrow> kobject" where
  "client_ca_secret r cr cfg caPEM = set_controller cr \<lparr>
     k_meta = new_meta (GetNamespace r) (ca_SecretName cfg) GenerateAppServerSelectorLabels,
     k_payload = PSecret (fmap_of_list [(ca_DataKey cfg, caPEM)]) ''Opaque''\<rparr>"

definition generateClientCA :: "'w reconciler \<Rightarrow> OLSConfig \<Rightarrow> clientCAConfig \<Rightarrow> ('w, goerr + kobject option) io" where
  "generateClientCA r cr cfg =
     (if \<not> ca_Enabled cfg cr then ret (Inr None)
      else do {
        x \<leftarrow> cl_get r (ConfigMap, GetNamespace r, OLSCAConfigMap);
        ret (case x of
           Inl e \<Rightarrow> Inl (wrapf (ca_ErrSource cfg) e)
         | Inr caCM \<Rightarrow>
             (let caPEM = zlookup (cm_data (k_payload caCM)) AppOtelCollectorCACertFile in
              if caPEM = []
              then Inl (newerr (ca_ErrSource cfg @ '': key '' @ double_quoted AppOtelCollectorCACertFile @
                '' missing or empty in ConfigMap '' @ OLSCAConfigMap))
              else Inr (Some (client_ca_secret r cr cfg caPEM)))) })"

definition deleteClientCA :: "'w reconciler \<Rightarrow> clientCAConfig \<Rightarrow> ('w, goerr option) io" where
  "deleteClientCA r cfg = delete_object r (ca_ErrGet cfg) (ca_ErrDelete cfg) (Secret, GetNamespace r, ca_SecretName cfg)"

definition reconcileClientCASecret :: "'w reconciler \<Rightarrow> kobject \<Rightarrow> string \<Rightarrow> string \<Rightarrow> string \<Rightarrow> ('w, goerr option) io" where
  "reconcileClientCASecret r desired errCreate errGet errUpdate =
     create_or_update r errGet errCreate errUpdate (Secret, GetNamespace r, m_name (k_meta desired)) desired
       (\<lambda>found. secret_data (k_payload found) = secret_data (k_payload desired) \<and>
          m_labels (k_meta found) = m_labels (k_meta desired) \<and> m_owners (k_meta found) = m_owners (k_meta desired))
       (\<lambda>found. found\<lparr>k_payload := k_payload desired, k_meta := (k_meta found)\<lparr>
          m_labels := m_labels (k_meta desired), m_owners := m_owners (k_meta desired)\<rparr>\<rparr>)"

definition refresh_client_ca :: "'w reconciler \<Rightarrow> OLSConfig \<Rightarrow> clientCAConfig \<Rightarrow> ('w, goerr option) io" where
  "refresh_client_ca r cr cfg = try_or (generateClientCA r cr cfg) id (\<lambda>secret. case secret of
      None \<Rightarrow> deleteClientCA r cfg
    | Some desired \<Rightarrow> reconcileClientCASecret r desired (ca_ErrCreate cfg) (ca_ErrGet cfg) (ca_ErrUpdate cfg))"

definition RefreshClientCASecrets :: "'w reconcile_fn" where
  "RefreshClientCASecrets r cr = for_each (refresh_client_ca r cr) clientCASecrets"

section \<open>Restart and update\<close>

text \<open>The caller's spec and annotations replace those of the Deployment that is read again.\<close>

definition take_over :: "kobject option \<Rightarrow> kobject \<Rightarrow> kobject" where
  "take_over given dep = (case given of
      None \<Rightarrow> dep
    | Some d \<Rightarrow> (set_dep_spec (dep_of d) dep)\<lparr>k_meta := (k_meta dep)\<lparr>m_annotations := m_annotations (k_meta d)\<rparr>\<rparr>)"

definition roll_app :: "'w reconciler \<Rightarrow> kobject option \<Rightarrow> ('w, goerr option) io" where
  "roll_app r given = try_or (cl_get r (Deployment, GetNamespace r, OLSAppServerDeploymentName)) id (\<lambda>dep. do {
     now \<leftarrow> cl_now r;
     cl_update r (stamp_template now (take_over given dep)) })"

definition RestartAppServer :: "'w reconciler \<Rightarrow> kobject option \<Rightarrow> ('w, goerr option) io" where
  "RestartAppServer r given =
     try_or (cl_get r (OLSConfigKind', [], OLSConfigName)) (wrapf ErrGetOLSConfigForAppServerClientCARefresh) (\<lambda>ob.
       (case cr_of ob of
          None \<Rightarrow> ret (Some (newerr ''object is not an OLSConfig''))
        | Some cr \<Rightarrow> and_then (RefreshClientCASecrets r cr) (roll_app r given)))"

definition updateOLSDeployment :: "'w reconciler \<Rightarrow> OLSConfig \<Rightarrow> kobject \<Rightarrow> kobject \<Rightarrow> ('w, goerr option) io" where
  "updateOLSDeployment r cr existing desired =
     (let d = SetDefaults_Deployment (dep_of desired) in
      case DeploymentSpecEqual (dep_of existing) d False of
        None \<Rightarrow> ret (Some nil_panic)
      | Some same \<Rightarrow> do {
          x \<leftarrow> GetConfigMapResourceVersion r OLSConfigCmName;
          y \<leftarrow> GetProxyCACertHash r cr;
          (let currentProxyCACMHash = (case y of Inl e \<Rightarrow> [] | Inr h \<Rightarrow> h);
               unchanged = (same \<and>
                 (case x of Inl e \<Rightarrow> False | Inr cv \<Rightarrow> recorded existing OLSConfigMapResourceVersionAnnotation = cv) \<and>
                 (case y of
                    Inl e \<Rightarrow> IsNotFound e \<and> recorded existing ProxyCACertHashAnnotation = []
                  | Inr h \<Rightarrow> recorded existing ProxyCACertHashAnnotation = h) \<and>
                 recorded existing RAGSpecHashAnnotation = ragSpecHash r cr);
               moved = copy_versions [OLSConfigMapResourceVersionAnnotation] desired (set_dep_spec d existing) in
           if unchanged then ret None
           else RestartAppServer r (Some (moved\<lparr>k_meta := set_annotation ProxyCACertHashAnnotation currentProxyCACMHash
             (set_annotation RAGSpecHashAnnotation (ragSpecHash r cr) (k_meta moved))\<rparr>))) })"

section \<open>What is mounted\<close>

text \<open>A callback that adds a pair for some of the references collects these pairs in order.\<close>

lemma run_add_mounted [simp]: "run_state (add_mounted x m) (vs, ms) = (None, (vs @ [x], ms @ [m]))"
  by (simp add: add_mounted_def)

lemma collect_pairs:
  "run_state (for_each (\<lambda>(n, src). if \<not> p src then ret None else add_mounted (vol n) (mnt n)) xs) (vs, ms) =
    (None, (vs @ map (\<lambda>(n, src). vol n) (filter (p \<circ> snd) xs), ms @ map (\<lambda>(n, src). mnt n) (filter (p \<circ> snd) xs)))"
proof (induction xs arbitrary: vs ms)
  case (Cons x xs)
  obtain n src where x: "x = (n, src)" by force
  show ?case using Cons.IH by (simp add: x for_each_Cons)
qed simp

definition llm_secrets :: "OLSConfig \<Rightarrow> string list" where
  "llm_secrets cr = [p_CredentialsSecretRef p. p \<leftarrow> llm_Providers (s_LLMConfig (cr_Spec cr)), p_CredentialsSecretRef p \<noteq> []]"

definition header_secrets :: "OLSConfig \<Rightarrow> string list" where
  "header_secrets cr = [n. m \<leftarrow> s_MCPServers (cr_Spec cr), h \<leftarrow> ms_Headers m,
     hv_Type (h_ValueFrom h) = MCPHeaderSourceTypeSecret,
     n \<leftarrow> (case hv_SecretRef (h_ValueFrom h) of None \<Rightarrow> [] | Some n \<Rightarrow> [n]), n \<noteq> []]"

lemma sources_differ [simp]:
  "HasPrefix (''llm-provider-'' @ s) ''llm-provider-''" "\<not> HasPrefix ''tls'' ''llm-provider-''"
  "\<not> HasPrefix (''mcp-'' @ s) ''llm-provider-''" "HasPrefix (''mcp-'' @ s) ''mcp-''"
  "\<not> HasPrefix ''tls'' ''mcp-''" "\<not> HasPrefix (''llm-provider-'' @ s) ''mcp-''"
  by (simp_all add: HasPrefix_def)

lemma filter_sources:
  assumes "\<forall>x \<in> set as. p (snd x)" "\<forall>x \<in> set bs. \<not> p (snd x)"
  shows "filter (p \<circ> snd) (as @ bs) = as" "filter (p \<circ> snd) (bs @ as) = as"
  using assms by (auto simp: filter_False filter_True)

lemma secrets_by_source:
  "map fst (filter ((\<lambda>src. HasPrefix src ''llm-provider-'') \<circ> snd) (external_secrets cr)) = llm_secrets cr"
  "map fst (filter ((\<lambda>src. HasPrefix src ''mcp-'') \<circ> snd) (external_secrets cr)) = header_secrets cr"
proof -
  show "map fst (filter ((\<lambda>src. HasPrefix src ''llm-provider-'') \<circ> snd) (external_secrets cr)) = llm_secrets cr"
    unfolding external_secrets_def
    by (subst filter_sources(1), force simp: HasPrefix_def, force simp: HasPrefix_def split: option.splits)
      (simp add: llm_secrets_def map_concat comp_def if_distrib [where f = "map _"] cong: if_cong)
  show "map fst (filter ((\<lambda>src. HasPrefix src ''mcp-'') \<circ> snd) (external_secrets cr)) = header_secrets cr"
    unfolding external_secrets_def append_assoc [symmetric]
    by (subst filter_sources(2), force simp: HasPrefix_def, force simp: HasPrefix_def split: option.splits)
      (simp add: header_secrets_def map_concat comp_def if_distrib [where f = "map _"] cong: if_cong)
qed

lemma mounted_pairs:
  "llm_mounted cr = (map (\<lambda>n. secret_volume (''secret-'' @ n) n VolumeDefaultMode) (llm_secrets cr),
     map (\<lambda>n. mount (''secret-'' @ n) (path_join [APIKeyMountRoot, n]) True) (llm_secrets cr))"
  "header_mounted cr = (map (\<lambda>n. secret_volume (''header-'' @ n) n VolumeDefaultMode) (header_secrets cr),
     map (\<lambda>n. mount (''header-'' @ n) (path_join [MCPHeadersMountRoot, n]) True) (header_secrets cr))"
proof -
  have "map (\<lambda>(n, src). f n) xs = map f (map fst xs)" for f :: "string \<Rightarrow> 'a" and xs :: "(string \<times> string) list"
    by (simp add: split_def comp_def)
  note fsts = this
  show "llm_mounted cr = (map (\<lambda>n. secret_volume (''secret-'' @ n) n VolumeDefaultMode) (llm_secrets cr),
     map (\<lambda>n. mount (''secret-'' @ n) (path_join [APIKeyMountRoot, n]) True) (llm_secrets cr))"
    unfolding llm_mounted_def collected_def for_external_secrets
    using collect_pairs [of "\<lambda>src. HasPrefix src ''llm-provider-''"
        "\<lambda>n. secret_volume (''secret-'' @ n) n VolumeDefaultMode"
        "\<lambda>n. mount (''secret-'' @ n) (path_join [APIKeyMountRoot, n]) True" "external_secrets cr" "[]" "[]"]
    by (simp only: fsts secrets_by_source snd_conv append.simps)
  show "header_mounted cr = (map (\<lambda>n. secret_volume (''header-'' @ n) n VolumeDefaultMode) (header_secrets cr),
     map (\<lambda>n. mount (''header-'' @ n) (path_join [MCPHeadersMountRoot, n]) True) (header_secrets cr))"
    unfolding header_mounted_def collected_def for_external_secrets
    using collect_pairs [of "\<lambda>src. HasPrefix src ''mcp-''"
        "\<lambda>n. secret_volume (''header-'' @ n) n VolumeDefaultMode"
        "\<lambda>n. mount (''header-'' @ n) (path_join [MCPHeadersMountRoot, n]) True" "external_secrets cr" "[]" "[]"]
    by (simp only: fsts secrets_by_source snd_conv append.simps)
qed

lemma ca_pairs:
  "map v_name (fst (ca_mounted cr)) =
     (case o_AdditionalCAConfigMapRef (s_OLSConfig (cr_Spec cr)) of None \<Rightarrow> []
      | Some n \<Rightarrow> (if n \<noteq> [] then [AdditionalCAVolumeName] else [])) @
     (case o_ProxyConfig (s_OLSConfig (cr_Spec cr)) of None \<Rightarrow> []
      | Some pc \<Rightarrow> (if GetProxyCACertConfigMapName (px_ProxyCACertificateRef pc) \<noteq> [] then [ProxyCACertVolumeName] else []))"
  "map vm_name (snd (ca_mounted cr)) = map v_name (fst (ca_mounted cr))"
  "\<forall>x \<in> set (fst (ca_mounted cr)). supported_volume x"
  unfolding ca_mounted_def collected_def for_external_configmaps external_configmaps_def
  by (auto simp: Let_def configmap_volume_def mount_def supported_volume_def split: option.splits)

section \<open>What the configuration file names is mounted\<close>

text \<open>
  A directory of the API container with a volume behind it; the file in it that holds one entry of a
  Secret or ConfigMap, under the entry's own name unless the volume projects it to another; and the
  directory that holds all entries of a Secret.
\<close>

definition mounted_at :: "deployment_spec \<Rightarrow> string list \<Rightarrow> (volume \<Rightarrow> bool) \<Rightarrow> bool" where
  "mounted_at s dir P = (\<exists>c \<in> set (po_containers (d_pod s)). \<exists>m \<in> set (c_mounts c). \<exists>x \<in> set (po_volumes (d_pod s)).
     c_name c = ''lightspeed-service-api'' \<and> vm_path m = path_join dir \<and> vm_subpath m = [] \<and> v_name x = vm_name m \<and> P x)"

definition holds_entry :: "vol_file_source option \<Rightarrow> string \<Rightarrow> string \<Rightarrow> string \<Rightarrow> bool" where
  "holds_entry src name k f = (\<exists>items. src = Some \<lparr>vs_name = name, vs_mode = Some VolumeDefaultMode, vs_items = items\<rparr> \<and>
     (if items = [] then f = k else (k, f) \<in> set items))"

definition secret_file :: "deployment_spec \<Rightarrow> string \<Rightarrow> string \<Rightarrow> string \<Rightarrow> bool" where
  "secret_file s path name k =
     (\<exists>dir f. path = path_join (dir @ [f]) \<and> mounted_at s dir (\<lambda>x. holds_entry (v_secret x) name k f))"

definition configmap_file :: "deployment_spec \<Rightarrow> string \<Rightarrow> string \<Rightarrow> string \<Rightarrow> bool" where
  "configmap_file s path name k =
     (\<exists>dir f. path = path_join (dir @ [f]) \<and> mounted_at s dir (\<lambda>x. holds_entry (v_configmap x) name k f))"

definition secret_directory :: "deployment_spec \<Rightarrow> string \<Rightarrow> string \<Rightarrow> bool" where
  "secret_directory s path name = (\<exists>dir. path = path_join dir \<and> mounted_at s dir (\<lambda>x.
     v_secret x = Some \<lparr>vs_name = name, vs_mode = Some VolumeDefaultMode, vs_items = []\<rparr>))"

text \<open>What the parts of the file need: the Vertex providers read one file, the others a directory.\<close>

definition provider_mounted :: "deployment_spec \<Rightarrow> ProviderSpec \<Rightarrow> string \<Rightarrow> bool" where
  "provider_mounted s p path =
     (if p_Type p \<in> {GoogleVertexType, GoogleVertexAnthropicType}
      then secret_file s path (p_CredentialsSecretRef p)
        (if p_CredentialKey p \<noteq> [] then p_CredentialKey p else DefaultCredentialKey)
      else secret_directory s path (p_CredentialsSecretRef p))"

definition database_mounted :: "deployment_spec \<Rightarrow> PostgresCacheConfig \<Rightarrow> bool" where
  "database_mounted s q \<longleftrightarrow> secret_file s (pq_PasswordPath q) PostgresSecretName OLSComponentPasswordFileName \<and>
     configmap_file s (pq_CACertPath q) OLSCAConfigMap ''service-ca.crt''"

definition proxy_mounted :: "deployment_spec \<Rightarrow> OLSConfig \<Rightarrow> ProxyConfig_file \<Rightarrow> bool" where
  "proxy_mounted s cr c \<longleftrightarrow> (pf_ProxyCACertPath c \<noteq> [] \<longrightarrow>
     (\<exists>pc. o_ProxyConfig (s_OLSConfig (cr_Spec cr)) = Some pc \<and> configmap_file s (pf_ProxyCACertPath c)
        (GetProxyCACertConfigMapName (px_ProxyCACertificateRef pc)) (GetProxyCACertKey (px_ProxyCACertificateRef pc))))"

text \<open>
  A trusted certificate: the CA of an operand that is on, which the operator keeps in a secret of its
  own, the CA of the cluster, or one of the user's.
\<close>

definition trusted_mounted :: "deployment_spec \<Rightarrow> OLSConfig \<Rightarrow> string \<Rightarrow> bool" where
  "trusted_mounted s cr path \<longleftrightarrow>
     (\<exists>c \<in> set clientCASecrets. ca_Enabled c cr \<and> secret_file s path (ca_SecretName c) (ca_DataKey c)) \<or>
     (\<exists>k. configmap_file s path ''kube-root-ca.crt'' k) \<or>
     (\<exists>n k. o_AdditionalCAConfigMapRef (s_OLSConfig (cr_Spec cr)) = Some n \<and> configmap_file s path n k)"

lemmas mounted_defs = mount_def secret_volume_def configmap_volume_def client_ca_volume_def
  GetPostgresCAConfigVolume_def GetPostgresCAVolumeMount_def

lemma mounted_atI:
  assumes "m \<in> set (app_mounts cr collecting)" "x \<in> set (app_volumes cr collecting)"
    "vm_path m = path_join dir" "vm_subpath m = []" "v_name x = vm_name m" "P x"
  shows "mounted_at (app_spec r cr collecting) dir P"
  unfolding mounted_at_def
  using assms by (intro bexI [of _ "api_container r cr collecting"] bexI [of _ m] bexI [of _ x])
    (simp_all add: app_spec_def api_container_def Let_def)

lemma holds_entryI [intro]:
  "src = Some \<lparr>vs_name = name, vs_mode = Some VolumeDefaultMode, vs_items = []\<rparr> \<Longrightarrow> holds_entry src name k k"
  "src = Some \<lparr>vs_name = name, vs_mode = Some VolumeDefaultMode, vs_items = [(k, f)]\<rparr> \<Longrightarrow> holds_entry src name k f"
  by (simp_all add: holds_entry_def)

lemma mounted_fileI:
  assumes "m \<in> set (app_mounts cr collecting)" "x \<in> set (app_volumes cr collecting)"
    "vm_path m = path_join [a, b]" "vm_subpath m = []" "v_name x = vm_name m"
  shows "holds_entry (v_secret x) name k f \<Longrightarrow> secret_file (app_spec r cr collecting) (path_join [a, b, f]) name k"
    "holds_entry (v_configmap x) name k f \<Longrightarrow> configmap_file (app_spec r cr collecting) (path_join [a, b, f]) name k"
  unfolding secret_file_def configmap_file_def
  by (rule exI [of _ "[a, b]"], rule exI [of _ f], simp add: mounted_atI [OF assms])+

lemma referenced_secrets_mounted:
  "n \<in> set (llm_secrets cr) \<Longrightarrow> secret_file (app_spec r cr collecting) (path_join [APIKeyMountRoot, n, k]) n k"
  "n \<in> set (llm_secrets cr) \<Longrightarrow> secret_directory (app_spec r cr collecting) (path_join [APIKeyMountRoot, n]) n"
  "n \<in> set (header_secrets cr) \<Longrightarrow> secret_file (app_spec r cr collecting) (path_join [MCPHeadersMountRoot, n, k]) n k"
proof -
  let ?m = "mount (''secret-'' @ n) (path_join [APIKeyMountRoot, n]) True"
  let ?x = "secret_volume (''secret-'' @ n) n VolumeDefaultMode"
  {
    assume "n \<in> set (llm_secrets cr)"
    then have mx: "?m \<in> set (app_mounts cr collecting)" "?x \<in> set (app_volumes cr collecting)"
      by (simp_all add: app_mounts_def app_volumes_def mounted_pairs Let_def)
    show "secret_file (app_spec r cr collecting) (path_join [APIKeyMountRoot, n, k]) n k"
      by (rule mounted_fileI(1) [OF mx]) (auto simp: mounted_defs)
    show "secret_directory (app_spec r cr collecting) (path_join [APIKeyMountRoot, n]) n"
      unfolding secret_directory_def
      by (intro exI [of _ "[APIKeyMountRoot, n]"] conjI refl mounted_atI [OF mx]) (simp_all add: mounted_defs)
  }
  assume "n \<in> set (header_secrets cr)"
  then show "secret_file (app_spec r cr collecting) (path_join [MCPHeadersMountRoot, n, k]) n k"
    by (intro mounted_fileI(1) [where m = "mount (''header-'' @ n) (path_join [MCPHeadersMountRoot, n]) True" and
          x = "secret_volume (''header-'' @ n) n VolumeDefaultMode"])
      (auto simp: app_mounts_def app_volumes_def mounted_pairs Let_def mounted_defs)
qed

text \<open>The operator's own secrets: database password, serving certificate, client CAs; the CA of the database and of the cluster.\<close>

lemma own_secrets_mounted:
  "secret_file (app_spec r cr collecting) (path_join [CredentialsMountRoot, PostgresSecretName, k]) PostgresSecretName k"
  "secret_file (app_spec r cr collecting) (path_join [OLSAppCertsMountRoot, ''lightspeed-tls'', k]) (app_tls_secret cr) k"
  "configmap_file (app_spec r cr collecting) (path_join [OLSAppCertsMountRoot, ''postgres-ca'', k]) OLSCAConfigMap k"
  "configmap_file (app_spec r cr collecting) (path_join [OLSAppCertsMountRoot, AppAdditionalCACertDir, k]) ''kube-root-ca.crt'' k"
proof -
  show "secret_file (app_spec r cr collecting) (path_join [CredentialsMountRoot, PostgresSecretName, k]) PostgresSecretName k"
    by (rule mounted_fileI(1) [where m = "mount (''secret-'' @ PostgresSecretName) (path_join [CredentialsMountRoot, PostgresSecretName]) True"
          and x = "secret_volume (''secret-'' @ PostgresSecretName) PostgresSecretName VolumeDefaultMode"])
      (auto simp: app_mounts_def app_volumes_def Let_def mounted_defs)
  show "secret_file (app_spec r cr collecting) (path_join [OLSAppCertsMountRoot, ''lightspeed-tls'', k]) (app_tls_secret cr) k"
    by (rule mounted_fileI(1) [where m = "mount ''secret-lightspeed-tls'' (path_join [OLSAppCertsMountRoot, ''lightspeed-tls'']) True"
          and x = "secret_volume ''secret-lightspeed-tls'' (app_tls_secret cr) VolumeDefaultMode"])
      (auto simp: app_mounts_def app_volumes_def Let_def mounted_defs)
  show "configmap_file (app_spec r cr collecting) (path_join [OLSAppCertsMountRoot, ''postgres-ca'', k]) OLSCAConfigMap k"
    by (rule mounted_fileI(2) [where m = "GetPostgresCAVolumeMount (path_join [OLSAppCertsMountRoot, ''postgres-ca''])"
          and x = GetPostgresCAConfigVolume])
      (auto simp: app_mounts_def app_volumes_def Let_def mounted_defs)
  show "configmap_file (app_spec r cr collecting) (path_join [OLSAppCertsMountRoot, AppAdditionalCACertDir, k]) ''kube-root-ca.crt'' k"
    by (rule mounted_fileI(2) [where m = "mount OpenShiftCAVolumeName (path_join [OLSAppCertsMountRoot, AppAdditionalCACertDir]) True"
          and x = "configmap_volume OpenShiftCAVolumeName ''kube-root-ca.crt'' VolumeDefaultMode"])
      (auto simp: app_mounts_def app_volumes_def Let_def mounted_defs)
qed

lemma client_cas_mounted:
  "secret_file (app_spec r cr collecting) (path_join [OLSAppCertsMountRoot, AppOtelCollectorCACertDir, AppOtelCollectorCACertFile])
     AgenticOtelCASecretName AgenticOtelCASecretDataKey"
  "BoolDeref (o_IntrospectionEnabled (s_OLSConfig (cr_Spec cr))) True \<Longrightarrow>
     secret_file (app_spec r cr collecting)
       (path_join [OLSAppCertsMountRoot, AppOpenShiftMCPServerCACertDir, AppOpenShiftMCPServerCACertFile])
       AgenticMCPCASecretName AgenticMCPCASecretDataKey"
  "\<not> o_ByokRAGOnly (s_OLSConfig (cr_Spec cr)) \<Longrightarrow>
     secret_file (app_spec r cr collecting) (path_join [OLSAppCertsMountRoot, AppRHOKPCACertDir, AppRHOKPCACertFile])
       AgenticRHOKPCASecretName AgenticRHOKPCASecretDataKey"
proof -
  have mounted: "secret_file (app_spec r cr collecting) (path_join [OLSAppCertsMountRoot, dir, f]) name k"
    if "mount vol (path_join [OLSAppCertsMountRoot, dir]) True \<in> set (app_mounts cr collecting)"
      "client_ca_volume vol name k f \<in> set (app_volumes cr collecting)" for vol dir f name k
    by (rule mounted_fileI(1) [OF that]) (auto simp: mounted_defs)
  show "secret_file (app_spec r cr collecting) (path_join [OLSAppCertsMountRoot, AppOtelCollectorCACertDir, AppOtelCollectorCACertFile])
     AgenticOtelCASecretName AgenticOtelCASecretDataKey"
    by (rule mounted [where vol = AppOtelCollectorCACertVolumeName]) (simp_all add: app_mounts_def app_volumes_def Let_def)
  show "BoolDeref (o_IntrospectionEnabled (s_OLSConfig (cr_Spec cr))) True \<Longrightarrow>
     secret_file (app_spec r cr collecting)
       (path_join [OLSAppCertsMountRoot, AppOpenShiftMCPServerCACertDir, AppOpenShiftMCPServerCACertFile])
       AgenticMCPCASecretName AgenticMCPCASecretDataKey"
    by (rule mounted [where vol = AppOpenShiftMCPServerCACertVolumeName]) (simp_all add: app_mounts_def app_volumes_def Let_def)
  show "\<not> o_ByokRAGOnly (s_OLSConfig (cr_Spec cr)) \<Longrightarrow>
     secret_file (app_spec r cr collecting) (path_join [OLSAppCertsMountRoot, AppRHOKPCACertDir, AppRHOKPCACertFile])
       AgenticRHOKPCASecretName AgenticRHOKPCASecretDataKey"
    by (rule mounted [where vol = AppRHOKPCACertVolumeName]) (simp_all add: app_mounts_def app_volumes_def Let_def)
qed

lemma user_configmaps_mounted:
  "o_AdditionalCAConfigMapRef (s_OLSConfig (cr_Spec cr)) = Some n \<Longrightarrow> n \<noteq> [] \<Longrightarrow>
     configmap_file (app_spec r cr collecting) (path_join [OLSAppCertsMountRoot, UserCACertDir, k]) n k"
  "o_ProxyConfig (s_OLSConfig (cr_Spec cr)) = Some pc \<Longrightarrow> GetProxyCACertConfigMapName (px_ProxyCACertificateRef pc) \<noteq> [] \<Longrightarrow>
     configmap_file (app_spec r cr collecting)
       (path_join [OLSAppCertsMountRoot, ProxyCACertVolumeName, GetProxyCACertKey (px_ProxyCACertificateRef pc)])
       (GetProxyCACertConfigMapName (px_ProxyCACertificateRef pc)) (GetProxyCACertKey (px_ProxyCACertificateRef pc))"
proof -
  show "configmap_file (app_spec r cr collecting) (path_join [OLSAppCertsMountRoot, UserCACertDir, k]) n k"
    if n: "o_AdditionalCAConfigMapRef (s_OLSConfig (cr_Spec cr)) = Some n" "n \<noteq> []"
  proof -
    have "mount AdditionalCAVolumeName (path_join [OLSAppCertsMountRoot, UserCACertDir]) True \<in> set (snd (ca_mounted cr))"
      "configmap_volume AdditionalCAVolumeName n VolumeDefaultMode \<in> set (fst (ca_mounted cr))"
      unfolding ca_mounted_def collected_def for_external_configmaps external_configmaps_def
      using n by (auto simp: Let_def split: option.splits)
    then show ?thesis
      by (intro mounted_fileI(2) [where m = "mount AdditionalCAVolumeName (path_join [OLSAppCertsMountRoot, UserCACertDir]) True"
            and x = "configmap_volume AdditionalCAVolumeName n VolumeDefaultMode"])
        (auto simp: app_mounts_def app_volumes_def Let_def mounted_defs)
  qed
  let ?n = "GetProxyCACertConfigMapName (px_ProxyCACertificateRef pc)" and ?k = "GetProxyCACertKey (px_ProxyCACertificateRef pc)"
  show "configmap_file (app_spec r cr collecting) (path_join [OLSAppCertsMountRoot, ProxyCACertVolumeName, ?k]) ?n ?k"
    if pc: "o_ProxyConfig (s_OLSConfig (cr_Spec cr)) = Some pc" "?n \<noteq> []"
  proof -
    let ?x = "(configmap_volume ProxyCACertVolumeName ?n VolumeDefaultMode)\<lparr>v_configmap :=
      Some \<lparr>vs_name = ?n, vs_mode = Some VolumeDefaultMode, vs_items = [(?k, ?k)]\<rparr>\<rparr>"
    have "mount ProxyCACertVolumeName (path_join [OLSAppCertsMountRoot, ProxyCACertVolumeName]) True \<in> set (snd (ca_mounted cr))"
      "?x \<in> set (fst (ca_mounted cr))"
      unfolding ca_mounted_def collected_def for_external_configmaps external_configmaps_def
      using pc by (auto simp: Let_def split: option.splits)
    then show ?thesis
      by (intro mounted_fileI(2) [where m = "mount ProxyCACertVolumeName (path_join [OLSAppCertsMountRoot, ProxyCACertVolumeName]) True"
            and x = ?x])
        (auto simp: app_mounts_def app_volumes_def Let_def mounted_defs)
  qed
qed

text \<open>What a successful run has put together, whatever the calls in between returned.\<close>

lemma built_cas:
  assumes "run_state (addAdditionalCAFileNames r name dir) w = (Inr cas, w')" "x \<in> set cas"
  shows "\<exists>k. x = path_join [OLSAppCertsMountRoot, dir, k]"
  using assms by (auto simp: addAdditionalCAFileNames_def split: sum.splits option.splits prod.splits)

definition built_ca :: "OLSConfig \<Rightarrow> string \<Rightarrow> bool" where
  "built_ca cr x \<longleftrightarrow> x \<in> set (operand_cas cr) \<or> (\<exists>k. x = path_join [OLSAppCertsMountRoot, AppAdditionalCACertDir, k]) \<or>
     (o_AdditionalCAConfigMapRef (s_OLSConfig (cr_Spec cr)) \<noteq> None \<and> (\<exists>k. x = path_join [OLSAppCertsMountRoot, UserCACertDir, k]))"

lemma extra_cas_built:
  assumes "run_state (extra_cas r cr) w = (Inr cas, w')"
  shows "set (operand_cas cr) \<subseteq> set cas" "\<forall>x \<in> set cas. built_ca cr x"
  using assms unfolding extra_cas_def built_ca_def
  by (auto split: sum.splits option.splits prod.splits) (metis built_cas)+

definition built_proxy :: "OLSConfig \<Rightarrow> ProxyConfig_file option \<Rightarrow> bool" where
  "built_proxy cr px \<longleftrightarrow> (\<forall>c. px = Some c \<longrightarrow> pf_ProxyCACertPath c \<noteq> [] \<longrightarrow>
     (\<exists>pc. o_ProxyConfig (s_OLSConfig (cr_Spec cr)) = Some pc \<and> GetProxyCACertConfigMapName (px_ProxyCACertificateRef pc) \<noteq> [] \<and>
        pf_ProxyCACertPath c = path_join [OLSAppCertsMountRoot, ProxyCACertVolumeName, GetProxyCACertKey (px_ProxyCACertificateRef pc)]))"

lemma proxy_config_built:
  "run_state (proxy_config r cr) w = (Inr px, w') \<Longrightarrow> built_proxy cr px"
  unfolding proxy_config_def built_proxy_def
  by (auto simp: Let_def split: option.splits if_splits prod.splits)

lemma build_file_built:
  assumes "run_state (build_file r cr) w = (Inr f, w')"
  obtains ps c px tls cas where "buildProviderConfigs cr = Inr ps" "built_proxy cr px"
    "set (operand_cas cr) \<subseteq> set cas" "\<forall>x \<in> set cas. built_ca cr x"
    "f = config_file r cr ps c (finish_ols r cr cas (ols_section r cr c px tls))"
proof -
  obtain ps c w1 px w2 tls w3 cas where ps: "buildProviderConfigs cr = Inr ps"
      and px: "run_state (proxy_config r cr) w1 = (Inr px, w2)" and cas: "run_state (extra_cas r cr) w3 = (Inr cas, w')"
      and f: "f = config_file r cr ps c (finish_ols r cr cas (ols_section r cr c px tls))"
    using assms unfolding build_file_def buildOLSConfig_def by (auto split: sum.splits prod.splits)
  show thesis by (rule that [OF ps proxy_config_built [OF px] extra_cas_built [OF cas] f])
qed

lemma trusted_built:
  assumes "built_ca cr x" "o_AdditionalCAConfigMapRef (s_OLSConfig (cr_Spec cr)) \<noteq> Some []"
  shows "trusted_mounted (app_spec r cr collecting) cr x"
proof -
  consider "x \<in> set (operand_cas cr)" | k where "x = path_join [OLSAppCertsMountRoot, AppAdditionalCACertDir, k]"
    | n k where "o_AdditionalCAConfigMapRef (s_OLSConfig (cr_Spec cr)) = Some n" "n \<noteq> []"
      "x = path_join [OLSAppCertsMountRoot, UserCACertDir, k]"
    using assms unfolding built_ca_def by auto
  then show ?thesis
  proof cases
    case 1
    then have "\<exists>c \<in> set clientCASecrets. ca_Enabled c cr \<and> secret_file (app_spec r cr collecting) x (ca_SecretName c) (ca_DataKey c)"
      using client_cas_mounted [where r = r and cr = cr and collecting = collecting]
      by (auto simp: operand_cas_def clientCASecrets_def split: if_splits)
    then show ?thesis unfolding trusted_mounted_def ..
  next
    case 2
    then show ?thesis using own_secrets_mounted(4) unfolding trusted_mounted_def by blast
  next
    case 3
    then show ?thesis using user_configmaps_mounted(1) unfolding trusted_mounted_def by blast
  qed
qed

lemma operand_cas_trusted:
  assumes "c \<in> set clientCASecrets" "ca_Enabled c cr"
  shows "\<exists>x \<in> set (operand_cas cr). secret_file (app_spec r cr collecting) x (ca_SecretName c) (ca_DataKey c)"
  using assms client_cas_mounted [where r = r and cr = cr and collecting = collecting] unfolding operand_cas_def clientCASecrets_def by auto

lemma header_value_secret:
  assumes "m \<in> set (s_MCPServers (cr_Spec cr))" "h \<in> set (ms_Headers m)" "header_value (h_ValueFrom h) = Some x"
    "x \<noteq> KUBERNETES_PLACEHOLDER" "x \<noteq> CLIENT_PLACEHOLDER"
  shows "\<exists>n \<in> set (header_secrets cr). x = path_join [MCPHeadersMountRoot, n, MCPSECRETDATAPATH]"
proof -
  obtain n where n: "hv_Type (h_ValueFrom h) = MCPHeaderSourceTypeSecret" "hv_SecretRef (h_ValueFrom h) = Some n" "n \<noteq> []"
      "x = path_join [MCPHeadersMountRoot, n, MCPSECRETDATAPATH]"
    using assms(3-5) by (auto simp: header_value_def split: option.splits if_splits)
  then have "n \<in> set (header_secrets cr)"
    using assms(1,2) unfolding header_secrets_def by (auto intro!: bexI [of _ m] bexI [of _ h])
  with n show ?thesis by blast
qed

lemma served_headers:
  assumes "c \<in> set (generateMCPServerConfigs r cr)" "fmlookup (mf_Headers c) k = Some x"
    "x \<noteq> KUBERNETES_PLACEHOLDER" "x \<noteq> CLIENT_PLACEHOLDER"
  shows "\<exists>n \<in> set (header_secrets cr). x = path_join [MCPHeadersMountRoot, n, MCPSECRETDATAPATH]"
proof -
  obtain m where m: "m \<in> set (s_MCPServers (cr_Spec cr))" "valid_server m" "c = server_entry m"
    using assms by (auto simp: generateMCPServerConfigs_def user_servers_spec openshift_server_def fmap_of_list.rep_eq
        split: if_splits)
  then obtain h where "h \<in> set (ms_Headers m)" "header_value (h_ValueFrom h) = Some x"
    using assms(2) by (auto simp: server_entry_def valid_server_def list_all_iff fmap_of_list.rep_eq dest!: map_of_SomeD)
  with m(1) assms(3,4) show ?thesis by (intro header_value_secret)
qed

lemma providers_mounted:
  assumes "list_all2 describes ps cs" "\<forall>p \<in> set ps. p_CredentialsSecretRef p \<noteq> [] \<longrightarrow> p_CredentialsSecretRef p \<in> set (llm_secrets cr)"
  shows "list_all2 (\<lambda>p c. p_CredentialsSecretRef p \<noteq> [] \<longrightarrow>
    provider_mounted (app_spec r cr collecting) p (provider_credentials c)) ps cs"
  using assms
proof (induction rule: list_all2_induct)
  case (Cons p ps c cs)
  then show ?case
    by (auto simp: describes_def provider_mounted_def credentialPath_def intro: referenced_secrets_mounted)
qed simp

text \<open>
  (C29) Every secret and certificate the configuration file points into is mounted in the API container
  where the file says. Whatever file is built: a provider's credentials path is the directory of
  its secret, for the Vertex providers the file of its credential key; a header value is a
  placeholder or the file of the header's secret; the database password, the serving certificate
  and its key are files of the secrets that hold them, the CA of the database and of the proxy
  files of their ConfigMaps; every trusted certificate is the CA of an operand that is on, from the
  secret the operator keeps it in, or a file of the cluster's or the user's ConfigMap, and every
  operand that is on has its CA among them.
\<close>

theorem config_secrets_mounted:
  assumes "run_state (build_file r cr) w = (Inr f, w')"
    and "o_AdditionalCAConfigMapRef (s_OLSConfig (cr_Spec cr)) \<noteq> Some []"
  shows "let s = app_spec r cr collecting; ols = as_OLSConfig f in
    list_all2 (\<lambda>p c. p_CredentialsSecretRef p \<noteq> [] \<longrightarrow> provider_mounted s p (provider_credentials c))
      (llm_Providers (s_LLMConfig (cr_Spec cr))) (as_LLMProviders f) \<and>
    (\<forall>c \<in> set (as_MCPServers f). \<forall>k x. fmlookup (mf_Headers c) k = Some x \<longrightarrow>
       x = KUBERNETES_PLACEHOLDER \<or> x = CLIENT_PLACEHOLDER \<or>
       (\<exists>n \<in> set (header_secrets cr). secret_file s x n MCPSECRETDATAPATH)) \<and>
    database_mounted s (cx_Postgres (of_ConversationCache ols)) \<and>
    (\<forall>q. of_QuotaHandlersConfig ols = Some q \<longrightarrow> database_mounted s (qc_Storage q)) \<and>
    secret_file s (tc_TLSCertificatePath (of_TLSConfig ols)) (app_tls_secret cr) ''tls.crt'' \<and>
    secret_file s (tc_TLSKeyPath (of_TLSConfig ols)) (app_tls_secret cr) ''tls.key'' \<and>
    (\<forall>c. of_ProxyConfig ols = Some c \<longrightarrow> proxy_mounted s cr c) \<and>
    (\<forall>x \<in> set (of_ExtraCAs ols). trusted_mounted s cr x) \<and>
    (\<forall>c \<in> set clientCASecrets. ca_Enabled c cr \<longrightarrow>
       (\<exists>x \<in> set (of_ExtraCAs ols). secret_file s x (ca_SecretName c) (ca_DataKey c)))"
proof -
  obtain ps c px tls cas where ps: "buildProviderConfigs cr = Inr ps" and px: "built_proxy cr px"
    and cas: "set (operand_cas cr) \<subseteq> set cas" "\<forall>x \<in> set cas. built_ca cr x"
    and f: "f = config_file r cr ps c (finish_ols r cr cas (ols_section r cr c px tls))"
    by (rule build_file_built [OF assms(1)])
  have fields: "as_LLMProviders f = ps" "as_MCPServers f = generateMCPServerConfigs r cr"
    "cx_Postgres (of_ConversationCache (as_OLSConfig f)) = postgresCacheConfig r"
    "of_QuotaHandlersConfig (as_OLSConfig f) = quota_config r cr" "of_ProxyConfig (as_OLSConfig f) = px"
    "tc_TLSCertificatePath (of_TLSConfig (as_OLSConfig f)) = path_join [OLSAppCertsMountRoot, ''lightspeed-tls'', ''tls.crt'']"
    "tc_TLSKeyPath (of_TLSConfig (as_OLSConfig f)) = path_join [OLSAppCertsMountRoot, ''lightspeed-tls'', ''tls.key'']"
    "of_ExtraCAs (as_OLSConfig f) = cas"
    by (simp_all add: f config_file_def finish_ols_def ols_section_def Let_def)
  let ?s = "app_spec r cr collecting"
  have providers: "list_all2 (\<lambda>p c. p_CredentialsSecretRef p \<noteq> [] \<longrightarrow> provider_mounted ?s p (provider_credentials c))
      (llm_Providers (s_LLMConfig (cr_Spec cr))) ps"
    using buildProviderConfigs_described [OF ps] by (rule providers_mounted) (auto simp: llm_secrets_def)
  have headers: "\<forall>c \<in> set (generateMCPServerConfigs r cr). \<forall>k x. fmlookup (mf_Headers c) k = Some x \<longrightarrow>
      x = KUBERNETES_PLACEHOLDER \<or> x = CLIENT_PLACEHOLDER \<or> (\<exists>n \<in> set (header_secrets cr). secret_file ?s x n MCPSECRETDATAPATH)"
    using served_headers referenced_secrets_mounted(3) by blast
  have database: "database_mounted ?s (postgresCacheConfig r)"
    unfolding database_mounted_def by (simp add: postgresCacheConfig_def own_secrets_mounted)
  have quota: "\<forall>q. quota_config r cr = Some q \<longrightarrow> database_mounted ?s (qc_Storage q)"
    using database by (auto simp: quota_config_def)
  have proxy: "\<forall>c. px = Some c \<longrightarrow> proxy_mounted ?s cr c"
    using px unfolding built_proxy_def proxy_mounted_def by (metis user_configmaps_mounted(2))
  have trusted: "\<forall>x \<in> set cas. trusted_mounted ?s cr x" using cas(2) trusted_built [OF _ assms(2)] by blast
  have operands: "\<forall>c \<in> set clientCASecrets. ca_Enabled c cr \<longrightarrow>
      (\<exists>x \<in> set cas. secret_file ?s x (ca_SecretName c) (ca_DataKey c))"
    using cas(1) operand_cas_trusted by blast
  show ?thesis unfolding Let_def fields
    by (intro conjI providers headers database quota proxy trusted operands own_secrets_mounted)
qed

definition sample_provider :: "string \<Rightarrow> string \<Rightarrow> ProviderSpec" where
  "sample_provider name secret = \<lparr>p_Name = name, p_URL = [], p_CredentialsSecretRef = secret, p_Models = [],
     p_Type = ''openai'', p_AzureDeploymentName = [], p_APIVersion = [], p_WatsonProjectID = [],
     p_GoogleVertexConfig = None, p_GoogleVertexAnthropicConfig = None, p_FakeProviderMCPToolCall = False,
     p_TLSSecurityProfile = None, p_CredentialKey = []\<rparr>"

text \<open>
  A run that builds the file: the CA of the cluster is there, introspection and the
  documentation search are on, and a Vertex provider has its own credential key.
\<close>

definition vertex_cr :: OLSConfig where
  "vertex_cr = blank_cr [sample_provider ''a'' ''key'', (sample_provider ''b'' ''google'')\<lparr>p_Type := GoogleVertexType,
     p_GoogleVertexConfig := Some \<lparr>vx_ProjectID = ''p'', vx_Location = ''l''\<rparr>, p_CredentialKey := ''sa.json''\<rparr>]"

definition root_ca :: "string \<Rightarrow> kobject" where
  "root_ca ns = \<lparr>k_meta = new_meta ns ''kube-root-ca.crt'' fmempty,
     k_payload = PConfigMap (fmap_of_list [(''ca.crt'', ''PEM'')]) fmempty\<rparr>"

definition app_cluster :: mem where
  "app_cluster = fmap_of_list [((ConfigMap, ''ols'', ''kube-root-ca.crt''), root_ca ''ols'')]"

theorem config_secrets_mounted_witness:
  "\<exists>f w'. run_state (build_file (mem_reconciler (no_options ''ols'')) vertex_cr) app_cluster = (Inr f, w') \<and>
     (let s = app_spec (mem_reconciler (no_options ''ols'')) vertex_cr False in
      list_all2 (\<lambda>p c. provider_mounted s p (provider_credentials c))
        (llm_Providers (s_LLMConfig (cr_Spec vertex_cr))) (as_LLMProviders f) \<and>
      database_mounted s (cx_Postgres (of_ConversationCache (as_OLSConfig f))) \<and>
      (\<forall>c \<in> set clientCASecrets. \<exists>x \<in> set (of_ExtraCAs (as_OLSConfig f)). secret_file s x (ca_SecretName c) (ca_DataKey c)))"
proof -
  let ?r = "mem_reconciler (no_options ''ols'')"
  have one: "sorted_list_of_fset {|k|} = [k]" for k :: string by (simp add: sorted_list_of_fset.rep_eq)
  have views: "mem_view app_cluster (ConfigMap, ''ols'', ''kube-root-ca.crt'') = Some (root_ca ''ols'')"
    "mem_view app_cluster (APIServer, [], APIServerName) = None"
    "mem_view app_cluster (Secret, TelemetryPullSecretNamespace, TelemetryPullSecretName) = None"
    by (simp_all add: app_cluster_def mem_view_def root_ca_def key_of_def new_meta_def)
  have "\<exists>f w'. run_state (build_file ?r vertex_cr) app_cluster = (Inr f, w')"
    by (auto simp: views one zlookup_def build_file_def buildOLSConfig_def extra_cas_def addAdditionalCAFileNames_def
        proxy_config_def tls_profile_def buildProviderConfigs_def buildProviderConfig_def sample_provider_def vertex_cr_def
        blank_cr_def blank_ols_def dataCollectorEnabled_def mem_get_def GetNamespace_def no_options_def root_ca_def
        cert_error_def ValidateCertificateFormat_def FetchAPIServerTlsProfile_def GoogleVertexType_def AzureOpenAIType_def GoogleVertexAnthropicType_def Let_def)
  then obtain f w' where run: "run_state (build_file ?r vertex_cr) app_cluster = (Inr f, w')" by blast
  have on: "\<forall>c \<in> set clientCASecrets. ca_Enabled c vertex_cr"
    by (simp add: clientCASecrets_def vertex_cr_def blank_cr_def blank_ols_def BoolDeref_def)
  have "o_AdditionalCAConfigMapRef (s_OLSConfig (cr_Spec vertex_cr)) \<noteq> Some []"
    by (simp add: vertex_cr_def blank_cr_def blank_ols_def)
  note mounted = config_secrets_mounted [OF run this, of False, unfolded Let_def]
  have "\<forall>p \<in> set (llm_Providers (s_LLMConfig (cr_Spec vertex_cr))). p_CredentialsSecretRef p \<noteq> []"
    by (simp add: vertex_cr_def blank_cr_def sample_provider_def)
  then show ?thesis using run mounted on unfolding Let_def
    by (intro exI conjI) (auto elim!: list.rel_mono_strong)
qed

section \<open>Volume names\<close>

text \<open>The names that do not come from secrets the resource names.\<close>

definition fixed_names :: "OLSConfig \<Rightarrow> bool \<Rightarrow> string list" where
  "fixed_names cr collecting =
     [''secret-'' @ PostgresSecretName, ''secret-lightspeed-tls'', OLSConfigVolumeName] @
     (if collecting then [OLSUserDataVolumeName, ExporterConfigVolumeName] else []) @
     [OpenShiftCAVolumeName, CertBundleVolumeName] @ map v_name (fst (ca_mounted cr)) @
     (if o_RAG (s_OLSConfig (cr_Spec cr)) \<noteq> [] then [RAGVolumeName] else []) @
     [PostgresCAVolume, AppOtelCollectorCACertVolumeName] @
     (if BoolDeref (o_IntrospectionEnabled (s_OLSConfig (cr_Spec cr))) True then [AppOpenShiftMCPServerCACertVolumeName] else []) @
     (if \<not> o_ByokRAGOnly (s_OLSConfig (cr_Spec cr)) then [AppRHOKPCACertVolumeName] else []) @ [TmpVolumeName]"

lemma distinct_fixed: "distinct (fixed_names cr collecting)"
  unfolding fixed_names_def ca_pairs(1)
  by (cases "o_AdditionalCAConfigMapRef (s_OLSConfig (cr_Spec cr))"; cases "o_ProxyConfig (s_OLSConfig (cr_Spec cr))")
    (simp_all add: go_const)

definition all_fixed_names :: "string list" where
  "all_fixed_names = [''secret-'' @ PostgresSecretName, ''secret-lightspeed-tls'', OLSConfigVolumeName, OLSUserDataVolumeName,
     ExporterConfigVolumeName, OpenShiftCAVolumeName, CertBundleVolumeName, AdditionalCAVolumeName, ProxyCACertVolumeName,
     RAGVolumeName, PostgresCAVolume, AppOtelCollectorCACertVolumeName, AppOpenShiftMCPServerCACertVolumeName,
     AppRHOKPCACertVolumeName, TmpVolumeName]"

lemma fixed_names_all: "set (fixed_names cr collecting) \<subseteq> set all_fixed_names"
  unfolding fixed_names_def ca_pairs(1) all_fixed_names_def
  by (intro subsetI) (auto split: option.splits if_splits)

lemma fixed_names_check:
  "list_all (\<lambda>n. prefix ''secret-'' n \<longrightarrow> n = ''secret-'' @ PostgresSecretName \<or> n = ''secret-lightspeed-tls'') all_fixed_names"
  "list_all (\<lambda>n. \<not> prefix ''header-'' n) all_fixed_names"
  by code_simp+

lemma fixed_prefixes:
  "n \<in> set (fixed_names cr collecting) \<Longrightarrow> prefix ''secret-'' n \<Longrightarrow> n = ''secret-'' @ PostgresSecretName \<or> n = ''secret-lightspeed-tls''"
  "n \<in> set (fixed_names cr collecting) \<Longrightarrow> \<not> prefix ''header-'' n"
  using fixed_names_all [of cr collecting] fixed_names_check unfolding list_all_iff by blast+

lemma volume_names:
  "mset (map v_name (app_volumes cr collecting)) =
     mset (map (\<lambda>n. ''secret-'' @ n) (llm_secrets cr) @ fixed_names cr collecting @ map (\<lambda>n. ''header-'' @ n) (header_secrets cr))"
  unfolding app_volumes_def fixed_names_def mounted_pairs
  by (simp add: Let_def secret_volume_def configmap_volume_def emptydir_volume_def client_ca_volume_def
      generateRAGVolume_def GetPostgresCAConfigVolume_def comp_def)

lemma distinct_around:
  assumes "distinct f" "set s \<inter> set h = {}" "set f \<inter> set h = {}"
  shows "distinct (s @ f @ h) \<longleftrightarrow> distinct s \<and> distinct h \<and> set s \<inter> set f = {}"
  using assms by auto

text \<open>
  (C40) The API server refuses a pod with two volumes of one name. The generated Deployment has none
  exactly when no two providers name the same secret, no two MCP headers do, and no provider
  names the operator's database secret or a secret called \<open>lightspeed-tls\<close>.
\<close>

theorem app_volume_names_distinct:
  "distinct (map v_name (app_volumes cr collecting)) \<longleftrightarrow>
     distinct (llm_secrets cr) \<and> distinct (header_secrets cr) \<and>
     PostgresSecretName \<notin> set (llm_secrets cr) \<and> ''lightspeed-tls'' \<notin> set (llm_secrets cr)"
proof -
  let ?s = "map (\<lambda>n. ''secret-'' @ n) (llm_secrets cr)" and ?h = "map (\<lambda>n. ''header-'' @ n) (header_secrets cr)"
  let ?f = "fixed_names cr collecting"
  have d: "distinct (map ((@) pre) xs) = distinct xs" for pre :: string and xs by (simp add: distinct_map inj_on_def)
  have sh: "set ?s \<inter> set ?h = {}" by auto
  have fh: "set ?f \<inter> set ?h = {}" using fixed_prefixes(2) by fastforce
  have tls: "''secret-lightspeed-tls'' = ''secret-'' @ ''lightspeed-tls''" by simp
  have "''secret-'' @ n \<in> set ?f \<longleftrightarrow> n = PostgresSecretName \<or> n = ''lightspeed-tls''" for n
  proof
    assume "''secret-'' @ n \<in> set ?f"
    from fixed_prefixes(1) [OF this] show "n = PostgresSecretName \<or> n = ''lightspeed-tls''"
      unfolding tls by (metis same_append_eq prefixI)
  qed (auto simp: fixed_names_def)
  then have sf: "set ?s \<inter> set ?f = {} \<longleftrightarrow> PostgresSecretName \<notin> set (llm_secrets cr) \<and> ''lightspeed-tls'' \<notin> set (llm_secrets cr)"
    by (auto simp del: append.simps)
  have "distinct (map v_name (app_volumes cr collecting)) \<longleftrightarrow> distinct (?s @ ?f @ ?h)"
    using volume_names [of cr collecting] by (metis mset_eq_imp_distinct_iff)
  also have "\<dots> \<longleftrightarrow> distinct ?s \<and> distinct ?h \<and> set ?s \<inter> set ?f = {}"
    by (rule distinct_around [OF distinct_fixed sh fh])
  finally show ?thesis by (simp only: d sf)
qed

section \<open>The client CA secrets\<close>

abbreviation app_key :: "'w reconciler \<Rightarrow> kind \<Rightarrow> string \<Rightarrow> okey" where
  "app_key r K n \<equiv> (K, GetNamespace r, n)"

definition stored_ca :: "'w reconciler \<Rightarrow> (okey \<Rightarrow> kobject option) \<Rightarrow> string option" where
  "stored_ca r f = (case f (app_key r ConfigMap OLSCAConfigMap) of None \<Rightarrow> None
     | Some caCM \<Rightarrow> (let caPEM = zlookup (cm_data (k_payload caCM)) AppOtelCollectorCACertFile in
         if caPEM = [] then None else Some caPEM))"

text \<open>A consumer that is enabled finds the cluster's CA under its key, the secret of a disabled one is gone.\<close>

definition holds_client_ca :: "'w reconciler \<Rightarrow> OLSConfig \<Rightarrow> clientCAConfig \<Rightarrow> (okey \<Rightarrow> kobject option) \<Rightarrow> bool" where
  "holds_client_ca r cr cfg f =
     (if ca_Enabled cfg cr
      then \<exists>caPEM s. stored_ca r f = Some caPEM \<and> f (app_key r Secret (ca_SecretName cfg)) = Some s \<and>
        secret_data (k_payload s) = fmap_of_list [(ca_DataKey cfg, caPEM)]
      else gone (f (app_key r Secret (ca_SecretName cfg))))"

lemma refresh_client_ca_run:
  assumes api: "api_ok r v" and run: "run_state (refresh_client_ca r cr cfg) w = (e, w')"
  shows "(e = None \<longrightarrow> holds_client_ca r cr cfg (v w')) \<and>
    (\<forall>k. k \<noteq> app_key r Secret (ca_SecretName cfg) \<longrightarrow> v w' k = v w k)"
proof (cases "ca_Enabled cfg cr")
  case False
  then have "run_state (deleteClientCA r cfg) w = (e, w')"
    using run by (simp add: refresh_client_ca_def generateClientCA_def try_or_def)
  from settlesD(1,2) [OF settles_delete_object [OF api] this [unfolded deleteClientCA_def]] False
  show ?thesis by (auto simp: holds_client_ca_def)
next
  case True
  let ?k = "app_key r Secret (ca_SecretName cfg)"
  obtain x w1 where g: "run_state (cl_get r (app_key r ConfigMap OLSCAConfigMap)) w = (x, w1)" by force
  note get = api_get(1,2) [OF api g]
  show ?thesis
  proof (cases "\<exists>caPEM. stored_ca r (v w) = Some caPEM \<and>
      run_state (reconcileClientCASecret r (client_ca_secret r cr cfg caPEM) (ca_ErrCreate cfg) (ca_ErrGet cfg) (ca_ErrUpdate cfg)) w1 = (e, w')")
    case False
    then have "e \<noteq> None \<and> w' = w1" using run g get True
      by (cases x) (auto simp: refresh_client_ca_def generateClientCA_def stored_ca_def try_or_def Let_def split: if_splits)
    then show ?thesis using get(1) by auto
  next
    case ca: True
    then obtain caPEM where caPEM: "stored_ca r (v w) = Some caPEM"
      and rec: "run_state (reconcileClientCASecret r (client_ca_secret r cr cfg caPEM) (ca_ErrCreate cfg) (ca_ErrGet cfg) (ca_ErrUpdate cfg)) w1 = (e, w')"
      by blast
    let ?d = "client_ca_secret r cr cfg caPEM"
    have d: "key_of ?d = ?k" "m_name (k_meta ?d) = ca_SecretName cfg" "k_payload ?d = PSecret (fmap_of_list [(ca_DataKey cfg, caPEM)]) ''Opaque''"
      by (simp_all add: client_ca_secret_def key_of_def set_controller_def new_meta_def)
    have "ensures v {?k} (\<lambda>f. \<exists>s. f ?k = Some s \<and> secret_data (k_payload s) = fmap_of_list [(ca_DataKey cfg, caPEM)])
        (reconcileClientCASecret r ?d (ca_ErrCreate cfg) (ca_ErrGet cfg) (ca_ErrUpdate cfg))"
      unfolding reconcileClientCASecret_def d(2)
    proof (rule ensures_create_or_update [OF api d(1)])
      show "secret_data (k_payload s) = fmap_of_list [(ca_DataKey cfg, caPEM)]" if "stored_as ?d s" for s
        using stored_plain [OF that] d(3) by simp
      show "secret_data (k_payload s) = fmap_of_list [(ca_DataKey cfg, caPEM)]"
        if "stored_as (ob\<lparr>k_payload := k_payload ?d, k_meta := (k_meta ob)\<lparr>m_labels := m_labels (k_meta ?d),
          m_owners := m_owners (k_meta ?d)\<rparr>\<rparr>) s" for ob s
        using stored_plain [OF that] d(3) by simp
    qed (auto simp: keeps_life_def key_of_def d(3))
    note en = ensuresD(1,2) [OF this rec]
    moreover have "stored_ca r (v w') = stored_ca r (v w)" using en(2) get(1) by (simp add: stored_ca_def)
    ultimately show ?thesis using True caPEM get(1) by (simp add: holds_client_ca_def)
  qed
qed

text \<open>A loop whose steps each establish what they own, over what none of them writes.\<close>

lemma for_each_establishes:
  assumes step: "\<And>x w e w'. x \<in> set xs \<Longrightarrow> run_state (m x) w = (e, w') \<Longrightarrow>
      (e = None \<longrightarrow> H x (v w')) \<and> (\<forall>k. k \<noteq> key x \<longrightarrow> v w' k = v w k)"
    and dep: "\<And>x. x \<in> set xs \<Longrightarrow> on_keys (insert (key x) R) (H x)"
    and keys: "distinct (map key xs)" "key ` set xs \<inter> R = {}"
    and run: "run_state (for_each m xs) w = (e, w')"
  shows "(e = None \<longrightarrow> (\<forall>x \<in> set xs. H x (v w'))) \<and> (\<forall>k. k \<notin> key ` set xs \<longrightarrow> v w' k = v w k)"
  using assms
proof (induction xs arbitrary: w e w')
  case (Cons x xs)
  obtain e1 w1 where x: "run_state (m x) w = (e1, w1)" by force
  note first = Cons.prems(1) [OF list.set_intros(1) x]
  show ?case
  proof (cases e1)
    case (Some err)
    then show ?thesis using first x Cons.prems(5) by (auto simp: for_each_Cons and_then_def)
  next
    case None
    then have rest: "run_state (for_each m xs) w1 = (e, w')"
      using x Cons.prems(5) by (simp add: for_each_Cons and_then_def)
    have ih: "(e = None \<longrightarrow> (\<forall>x \<in> set xs. H x (v w'))) \<and> (\<forall>k. k \<notin> key ` set xs \<longrightarrow> v w' k = v w1 k)"
      by (rule Cons.IH [OF Cons.prems(1,2) _ _ rest]) (use Cons.prems(3,4) in auto)
    have "key x \<notin> key ` set xs" "R \<inter> key ` set xs = {}" using Cons.prems(3,4) by auto
    then have "\<forall>k \<in> insert (key x) R. v w' k = v w1 k" using ih by blast
    then have "H x (v w')"
      using first None Cons.prems(2) [OF list.set_intros(1)] unfolding on_keys_def by blast
    then show ?thesis using first ih by auto
  qed
qed simp

lemma client_ca_keys:
  "distinct (map (\<lambda>cfg. app_key r Secret (ca_SecretName cfg)) clientCASecrets)"
  by (simp add: clientCASecrets_def) (simp add: go_const)

lemma holds_client_ca_keys:
  "on_keys (insert (app_key r Secret (ca_SecretName cfg)) {app_key r ConfigMap OLSCAConfigMap}) (holds_client_ca r cr cfg)"
  by (auto simp: on_keys_def holds_client_ca_def stored_ca_def)

lemma RefreshClientCASecrets_run:
  assumes "api_ok r v" "run_state (RefreshClientCASecrets r cr) w = (e, w')"
  shows "(e = None \<longrightarrow> (\<forall>cfg \<in> set clientCASecrets. holds_client_ca r cr cfg (v w'))) \<and>
    (\<forall>k. k \<notin> (\<lambda>cfg. app_key r Secret (ca_SecretName cfg)) ` set clientCASecrets \<longrightarrow> v w' k = v w k)"
  by (rule for_each_establishes [where R = "{app_key r ConfigMap OLSCAConfigMap}",
        OF refresh_client_ca_run [OF assms(1)] holds_client_ca_keys client_ca_keys])
    (use assms(2) in \<open>auto simp: RefreshClientCASecrets_def\<close>)

section \<open>Restarting\<close>

lemma app_deployment_complete:
  "key_of (app_deployment r cr c l) = app_key r Deployment OLSAppServerDeploymentName"
  "complete_deployment (dep_of (app_deployment r cr c l))"
  "dep_of (app_deployment r cr c l) = app_spec r cr c"
proof -
  show "key_of (app_deployment r cr c l) = app_key r Deployment OLSAppServerDeploymentName"
    "dep_of (app_deployment r cr c l) = app_spec r cr c" by (simp_all add: app_deployment_def)
  have "\<forall>x \<in> set (app_volumes cr c). supported_volume x"
    unfolding app_volumes_def mounted_pairs Let_def using ca_pairs(3) [of cr]
    by (auto simp: supported_volume_def secret_volume_def configmap_volume_def emptydir_volume_def client_ca_volume_def
        generateRAGVolume_def GetPostgresCAConfigVolume_def)
  then show "complete_deployment (dep_of (app_deployment r cr c l))"
    by (auto simp: app_deployment_def app_spec_def complete_deployment_def complete_container_def zero_pod_def
        api_container_def exporter_container_def GenerateRAGInitContainers_def GeneratePostgresWaitInitContainer_def
        ApplyPodDeploymentConfig_def Let_def)
qed

lemma take_over_simps [simp]:
  "key_of (take_over g dep) = key_of dep" "m_deleting (k_meta (take_over g dep)) = m_deleting (k_meta dep)"
  "m_finalizers (k_meta (take_over g dep)) = m_finalizers (k_meta dep)"
proof -
  have "kind_of (k_payload (set_dep_spec x dep)) = kind_of (k_payload dep)" for x
    using set_dep_spec_simps(2) [of x dep] by (simp add: key_of_def)
  then show "key_of (take_over g dep) = key_of dep" by (cases g) (simp_all add: take_over_def key_of_def)
qed (cases g; simp add: take_over_def)+

text \<open>The pods are rolled with a new stamp, and with the caller's spec and annotations if it gives them.\<close>

lemma roll_app_run:
  assumes api: "api_ok r v" and run: "run_state (roll_app r given) w = (e, w')"
  shows "(e = None \<longrightarrow> (\<exists>dep s now. v w (app_key r Deployment OLSAppServerDeploymentName) = Some dep \<and>
      key_of dep = app_key r Deployment OLSAppServerDeploymentName \<and> v w' (app_key r Deployment OLSAppServerDeploymentName) = Some s \<and> stored_as (stamp_template now (take_over given dep)) s \<and>
      clock_reading r v {} w now)) \<and>
    (\<forall>k. k \<noteq> app_key r Deployment OLSAppServerDeploymentName \<longrightarrow> v w' k = v w k) \<and> (e \<noteq> None \<longrightarrow> v w' = v w)"
proof -
  let ?k = "app_key r Deployment OLSAppServerDeploymentName"
  obtain x w1 where g: "run_state (cl_get r ?k) w = (x, w1)" by force
  note get = api_get [OF api g]
  show ?thesis
  proof (cases x)
    case (Inl err)
    then show ?thesis using run g get(1) by (auto simp: roll_app_def try_or_def)
  next
    case (Inr dep)
    obtain now w2 where t: "run_state (cl_now r) w1 = (now, w2)" by force
    let ?ob = "stamp_template now (take_over given dep)"
    have u: "run_state (cl_update r ?ob) w2 = (e, w')" using run g t Inr by (simp add: roll_app_def try_or_def)
    have ob: "key_of ?ob = ?k" "m_deleting (k_meta ?ob) = m_deleting (k_meta dep)"
      "m_finalizers (k_meta ?ob) = m_finalizers (k_meta dep)"
      using get(3) [OF Inr] by simp_all
    have same: "v w2 = v w" using get(1) api_now [OF api t] by simp
    have frame: "\<forall>k. k \<noteq> ?k \<longrightarrow> v w' k = v w k" using api_update(4) [OF api u] same ob(1) by auto
    have "\<not> (m_deleting (k_meta ?ob) \<and> m_finalizers (k_meta ?ob) = [])" using get(4) [OF Inr] ob(2,3) by metis
    moreover have "clock_reading r v {} w now" using t by (rule clock_readingI) (simp add: get(1))
    ultimately show ?thesis using api_update(1) [OF api u] api_update(3) [OF api u] get(2,3) [OF Inr] frame same ob(1)
      by (metis fun_upd_same)
  qed
qed

definition stored_cr :: "(okey \<Rightarrow> kobject option) \<Rightarrow> OLSConfig option" where
  "stored_cr f = Option.bind (f (OLSConfigKind', [], OLSConfigName)) cr_of"

lemma RestartAppServer_cases:
  assumes api: "api_ok r v" and run: "run_state (RestartAppServer r given) w = (e, w')"
  obtains (unread) "e \<noteq> None" "v w' = v w"
  | (refused) cr w1 where "stored_cr (v w) = Some cr" "e \<noteq> None"
      "run_state (RefreshClientCASecrets r cr) w1 = (e, w')" "v w1 = v w"
  | (rolled) cr w1 w2 where "stored_cr (v w) = Some cr" "v w1 = v w"
      "run_state (RefreshClientCASecrets r cr) w1 = (None, w2)" "run_state (roll_app r given) w2 = (e, w')"
proof -
  obtain x w1 where g: "run_state (cl_get r (OLSConfigKind', [], OLSConfigName)) w = (x, w1)" by force
  note get = api_get(1,2) [OF api g]
  show thesis
  proof (cases "\<exists>cr. stored_cr (v w) = Some cr \<and> run_state (and_then (RefreshClientCASecrets r cr) (roll_app r given)) w1 = (e, w')")
    case False
    then have "e \<noteq> None \<and> w' = w1" using run g get
      by (cases x) (auto simp: RestartAppServer_def try_or_def stored_cr_def split: option.splits)
    then show thesis using unread get(1) by blast
  next
    case True
    then obtain cr where cr: "stored_cr (v w) = Some cr"
      and rest: "run_state (and_then (RefreshClientCASecrets r cr) (roll_app r given)) w1 = (e, w')" by blast
    obtain e1 w2 where c: "run_state (RefreshClientCASecrets r cr) w1 = (e1, w2)" by force
    show thesis
    proof (cases e1)
      case None
      then show thesis using rolled [OF cr get(1)] c rest by (simp add: and_then_def)
    next
      case (Some err)
      then show thesis using refused [OF cr] c rest get(1) by (auto simp: and_then_def)
    qed
  qed
qed

abbreviation app_dep_key :: "'w reconciler \<Rightarrow> okey" where
  "app_dep_key r \<equiv> app_key r Deployment OLSAppServerDeploymentName"

definition ca_keys :: "'w reconciler \<Rightarrow> okey set" where
  "ca_keys r = (\<lambda>cfg. app_key r Secret (ca_SecretName cfg)) ` set clientCASecrets"

definition client_cas_current :: "'w reconciler \<Rightarrow> OLSConfig \<Rightarrow> (okey \<Rightarrow> kobject option) \<Rightarrow> bool" where
  "client_cas_current r cr f = (\<forall>cfg \<in> set clientCASecrets. holds_client_ca r cr cfg f)"

lemma ca_keys_secrets: "k \<in> ca_keys r \<Longrightarrow> fst k = Secret" by (auto simp: ca_keys_def)

lemma client_cas_current_cong:
  assumes "\<forall>k \<in> ca_keys r. f k = g k" "f (app_key r ConfigMap OLSCAConfigMap) = g (app_key r ConfigMap OLSCAConfigMap)"
  shows "client_cas_current r cr f = client_cas_current r cr g"
  using assms by (auto simp: client_cas_current_def holds_client_ca_def stored_ca_def ca_keys_def)

lemma RestartAppServer_run:
  assumes api: "api_ok r v" and run: "run_state (RestartAppServer r given) w = (e, w')"
  shows "(e = None \<longrightarrow> (\<exists>cr dep s now. stored_cr (v w) = Some cr \<and> client_cas_current r cr (v w') \<and>
      v w (app_dep_key r) = Some dep \<and> key_of dep = app_dep_key r \<and>
      v w' (app_dep_key r) = Some s \<and> stored_as (stamp_template now (take_over given dep)) s \<and>
      clock_reading r v (ca_keys r) w now)) \<and>
    (v w' (app_dep_key r) \<noteq> v w (app_dep_key r) \<longrightarrow> (\<exists>cr. stored_cr (v w) = Some cr \<and> client_cas_current r cr (v w'))) \<and>
    (\<forall>k. k \<notin> insert (app_dep_key r) (ca_keys r) \<longrightarrow> v w' k = v w k)"
  using api run
proof (cases rule: RestartAppServer_cases)
  case unread
  then show ?thesis by auto
next
  case (refused cr w1)
  then show ?thesis using RefreshClientCASecrets_run [OF api refused(3)] ca_keys_secrets [of "app_dep_key r" r]
    by (auto simp: ca_keys_def)
next
  case (rolled cr w1 w2)
  have ca: "client_cas_current r cr (v w2)" "\<forall>k. k \<notin> ca_keys r \<longrightarrow> v w2 k = v w k"
    using RefreshClientCASecrets_run [OF api rolled(3)] rolled(2) by (auto simp: client_cas_current_def ca_keys_def)
  note roll = roll_app_run [OF api rolled(4)]
  have apart: "k \<noteq> app_dep_key r" if "k \<in> ca_keys r" for k using ca_keys_secrets [OF that] by auto
  have "\<forall>k \<in> ca_keys r. v w' k = v w2 k" "v w' (app_key r ConfigMap OLSCAConfigMap) = v w2 (app_key r ConfigMap OLSCAConfigMap)"
    using roll apart by auto
  then have "client_cas_current r cr (v w')" using ca(1) client_cas_current_cong by blast
  moreover have "v w2 (app_dep_key r) = v w (app_dep_key r)" using ca(2) apart by blast
  moreover have "\<forall>k. k \<notin> insert (app_dep_key r) (ca_keys r) \<longrightarrow> v w' k = v w k" using roll ca(2) by simp
  moreover have "clock_reading r v {} w2 now \<Longrightarrow> clock_reading r v (ca_keys r) w now" for now
    using ca(2) unfolding clock_reading_def by (metis (no_types, lifting) empty_iff)
  moreover note roll rolled(1)
  ultimately show ?thesis by (metis (no_types, lifting))
qed

lemma stamped_template:
  assumes "stored_as (stamp_template now ob) s" "fst (key_of ob) = Deployment"
  shows "fmlookup (nil_map (d_tmpl_annotations (dep_of s))) ForceReloadAnnotationKey = Some now"
proof -
  have "deployment_stored (dep_of (stamp_template now ob)) (dep_of s)" using stored_dep_of [OF assms(1)] assms(2) by simp
  then show ?thesis using assms(2) by (simp add: deployment_stored_def stamp_template_def nil_map_def)
qed

section \<open>The Deployment follows configuration, retrieval images and proxy CA\<close>

text \<open>What the generators read, as functions of the stored objects.\<close>

definition collecting_at :: "'w reconciler \<Rightarrow> OLSConfig \<Rightarrow> (okey \<Rightarrow> kobject option) \<Rightarrow> bool option" where
  "collecting_at r cr f =
     (let ud = o_UserDataCollection (s_OLSConfig (cr_Spec cr)) in
      if ud_FeedbackDisabled ud \<and> ud_TranscriptsDisabled ud then Some False
      else case f (Secret, TelemetryPullSecretNamespace, TelemetryPullSecretName) of
        None \<Rightarrow> Some False
      | Some pullSecret \<Rightarrow> (case fmlookup (secret_data (k_payload pullSecret)) ''.dockerconfigjson'' of
          None \<Rightarrow> None
        | Some j \<Rightarrow> (case json_unmarshal r j of Inl e \<Rightarrow> None
            | Inr d \<Rightarrow> (case has_telemetry d of Inl e \<Rightarrow> None | Inr b \<Rightarrow> Some b))))"

definition config_version_at :: "'w reconciler \<Rightarrow> (okey \<Rightarrow> kobject option) \<Rightarrow> string" where
  "config_version_at r f = (case version_at (app_key r ConfigMap OLSConfigCmName) f of None \<Rightarrow> [] | Some x \<Rightarrow> x)"

definition proxy_hash_at :: "'w reconciler \<Rightarrow> OLSConfig \<Rightarrow> (okey \<Rightarrow> kobject option) \<Rightarrow> string option" where
  "proxy_hash_at r cr f = (case o_ProxyConfig (s_OLSConfig (cr_Spec cr)) of
      None \<Rightarrow> Some []
    | Some pc \<Rightarrow> (let cmName = GetProxyCACertConfigMapName (px_ProxyCACertificateRef pc) in
        if cmName = [] then Some []
        else case f (app_key r ConfigMap cmName) of
          None \<Rightarrow> Some []
        | Some cm \<Rightarrow> map_option (sha256_hex r)
            (fmlookup (cm_data (k_payload cm)) (GetProxyCACertKey (px_ProxyCACertificateRef pc)))))"

lemma dataCollectorEnabled_run:
  assumes "api_ok r v" "run_state (dataCollectorEnabled r cr) w = (x, w')"
  shows "v w' = v w \<and> (\<forall>c. x = Inr c \<longrightarrow> collecting_at r cr (v w) = Some c)"
proof -
  obtain g w1 where g: "run_state (cl_get r (Secret, TelemetryPullSecretNamespace, TelemetryPullSecretName)) w = (g, w1)" by force
  show ?thesis using assms(2) g api_get(1,2,5) [OF assms(1) g]
    by (cases g) (auto simp: dataCollectorEnabled_def collecting_at_def Let_def split: if_splits option.splits sum.splits)
qed

lemma config_version_run:
  assumes "api_ok r v" "run_state (GetConfigMapResourceVersion r OLSConfigCmName) w = (x, w')"
  shows "v w' = v w" "or_missing msg x = Inr y \<Longrightarrow> config_version_at r (v w) = y"
    "x = Inr y \<Longrightarrow> config_version_at r (v w) = y"
proof -
  obtain g w1 where g: "run_state (cl_get r (app_key r ConfigMap OLSConfigCmName)) w = (g, w1)" by force
  note get = api_get(1,2,5) [OF assms(1) g]
  show "v w' = v w" "or_missing msg x = Inr y \<Longrightarrow> config_version_at r (v w) = y" "x = Inr y \<Longrightarrow> config_version_at r (v w) = y"
    using assms(2) g get
    by (cases g; auto simp: GetConfigMapResourceVersion_def config_version_at_def version_at_def or_missing_def split: if_splits)+
qed

lemma proxy_hash_run:
  assumes "api_ok r v" "run_state (GetProxyCACertHash r cr) w = (x, w')"
  shows "v w' = v w \<and> (\<forall>h. x = Inr h \<longrightarrow> proxy_hash_at r cr (v w) = Some h) \<and>
    (\<forall>e. x = Inl e \<longrightarrow> IsNotFound e \<longrightarrow> proxy_hash_at r cr (v w) = Some [])"
proof (cases "o_ProxyConfig (s_OLSConfig (cr_Spec cr))")
  case (Some pc)
  let ?n = "GetProxyCACertConfigMapName (px_ProxyCACertificateRef pc)"
  obtain g w1 where g: "run_state (cl_get r (app_key r ConfigMap ?n)) w = (g, w1)" by force
  show ?thesis using assms(2) g api_get(1,2,5) [OF assms(1) g] Some
    by (cases g) (auto simp: GetProxyCACertHash_def proxy_hash_at_def Let_def split: if_splits option.splits)
qed (use assms(2) in \<open>auto simp: GetProxyCACertHash_def proxy_hash_at_def\<close>)

text \<open>A generated Deployment carries what was read.\<close>

definition app_generated :: "'w reconciler \<Rightarrow> OLSConfig \<Rightarrow> (okey \<Rightarrow> kobject option) \<Rightarrow> kobject \<Rightarrow> bool" where
  "app_generated r cr f d = (\<exists>c l. collecting_at r cr f = Some c \<and> d = app_deployment r cr c l \<and>
     recorded d OLSConfigMapResourceVersionAnnotation = config_version_at r f \<and>
     recorded d RAGSpecHashAnnotation = ragSpecHash r cr \<and>
     proxy_hash_at r cr f = Some (recorded d ProxyCACertHashAnnotation))"

lemma recorded_app_deployment: "recorded (app_deployment r cr c l) k = zlookup (fmap_of_list l) k"
  by (simp add: app_deployment_def)

lemma GenerateOLSDeployment_run:
  assumes "api_ok r v" "run_state (GenerateOLSDeployment r cr) w = (x, w')"
  shows "v w' = v w \<and> (\<forall>d. x = Inr d \<longrightarrow> app_generated r cr (v w) d)"
proof -
  obtain c w1 where c: "run_state (dataCollectorEnabled r cr) w = (c, w1)" by force
  obtain y w2 where y: "run_state (GetConfigMapResourceVersion r OLSConfigCmName) w1 = (y, w2)" by force
  obtain z w3 where z: "run_state (GetProxyCACertHash r cr) w2 = (z, w3)" by force
  note runs = dataCollectorEnabled_run [OF assms(1) c] config_version_run(1,2) [OF assms(1) y] proxy_hash_run [OF assms(1) z]
  have hash: "proxy_hash_at r cr (v w) = Some h" if "or_missing m z = Inr h" for m h
    using that runs by (auto simp: or_missing_def split: sum.splits if_splits)
  have keys: "OLSConfigMapResourceVersionAnnotation \<noteq> RAGSpecHashAnnotation" "OLSConfigMapResourceVersionAnnotation \<noteq> ProxyCACertHashAnnotation"
    "RAGSpecHashAnnotation \<noteq> ProxyCACertHashAnnotation" by (simp_all add: go_const)
  have gen: "app_generated r cr (v w) (app_deployment r cr k ([(OLSConfigMapResourceVersionAnnotation, cv),
      (RAGSpecHashAnnotation, ragSpecHash r cr), (ProxyCACertHashAnnotation, h)] @ more))"
    if "c = Inr k" "or_missing m y = Inr cv" "or_missing m' z = Inr h" for k cv h m m' more
    using that runs hash keys unfolding app_generated_def by (intro exI conjI) (auto simp: recorded_app_deployment zlookup_def)
  show ?thesis using assms(2) c y z runs gen [where more = "[]"] gen
    by (auto simp: GenerateOLSDeployment_def Let_def split: sum.splits if_splits)
qed

text \<open>
  The recorded proxy hash may be empty: when the second read of the proxy CA fails the pods are
  rolled and the hash is written empty, to be filled in by the next reconcile.
\<close>

definition app_current :: "'w reconciler \<Rightarrow> OLSConfig \<Rightarrow> (okey \<Rightarrow> kobject option) \<Rightarrow> bool" where
  "app_current r cr f = (\<exists>c s h. collecting_at r cr f = Some c \<and> proxy_hash_at r cr f = Some h \<and>
     f (app_dep_key r) = Some s \<and> deployment_current False (app_deployment r cr c []) s \<and>
     recorded s OLSConfigMapResourceVersionAnnotation = config_version_at r f \<and>
     recorded s RAGSpecHashAnnotation = ragSpecHash r cr \<and> recorded s ProxyCACertHashAnnotation \<in> {[], h})"

lemma app_deployment_annotations: "deployment_current ci (app_deployment r cr c l) = deployment_current ci (app_deployment r cr c [])"
  by (simp add: deployment_current_def app_deployment_complete fun_eq_iff)

lemma app_reads_secret:
  assumes "\<forall>k. k \<notin> insert (app_dep_key r) (ca_keys r) \<longrightarrow> f k = g k"
    and "(Secret, TelemetryPullSecretNamespace, TelemetryPullSecretName) \<notin> ca_keys r"
  shows "collecting_at r cr f = collecting_at r cr g" "proxy_hash_at r cr f = proxy_hash_at r cr g"
    "config_version_at r f = config_version_at r g"
proof -
  have cm: "f (app_key r ConfigMap n) = g (app_key r ConfigMap n)" for n using assms(1) ca_keys_secrets by fastforce
  have "f (Secret, TelemetryPullSecretNamespace, TelemetryPullSecretName) = g (Secret, TelemetryPullSecretNamespace, TelemetryPullSecretName)"
    using assms by auto
  then show "collecting_at r cr f = collecting_at r cr g" by (simp only: collecting_at_def)
  show "proxy_hash_at r cr f = proxy_hash_at r cr g" by (simp add: proxy_hash_at_def Let_def cm cong: option.case_cong if_cong)
  show "config_version_at r f = config_version_at r g" by (simp add: config_version_at_def version_at_def cm)
qed

lemma pull_secret_apart: "(Secret, TelemetryPullSecretNamespace, TelemetryPullSecretName) \<notin> ca_keys r"
  by (simp add: ca_keys_def clientCASecrets_def go_const)

text \<open>What a roll with the caller's spec and annotations stores.\<close>

lemma rolled_current:
  assumes s: "stored_as (stamp_template now (take_over (Some m) ob)) s" and ob: "key_of ob = app_dep_key r"
    and m: "dep_of m = SetDefaults_Deployment (app_spec r cr c)"
  shows "deployment_current False (app_deployment r cr c []) s" "recorded s = recorded m"
proof -
  let ?t = "take_over (Some m) ob"
  have dep: "dep_of ?t = dep_of m" using dep_of_set [of ob "dep_of m"] ob
    by (simp add: take_over_def dep_of_def)
  have "deployment_stored (dep_of (stamp_template now ?t)) (dep_of s)" using stored_dep_of [OF s] ob by simp
  then have "deployment_stored ((SetDefaults_Deployment (app_spec r cr c))\<lparr>d_tmpl_annotations :=
      Some (fmupd ForceReloadAnnotationKey now (nil_map (d_tmpl_annotations (dep_of m))))\<rparr>) (dep_of s)"
    using dep m ob by (simp add: stamp_template_def)
  from rewritten_spec_equal [OF this] show "deployment_current False (app_deployment r cr c []) s"
    using app_deployment_complete(2) [of r cr c "[]"] by (simp add: deployment_current_def app_deployment_complete(3))
  have "recorded ?t = recorded m" by (simp add: take_over_def recorded_def fun_eq_iff)
  then show "recorded s = recorded m" using recorded_stored [OF s] by simp
qed

lemma updateOLSDeployment_run:
  assumes api: "api_ok r v" and gen: "app_generated r cr (v w) d"
    and ob: "key_of ob = app_dep_key r" "v w (app_dep_key r) = Some ob"
    and run: "run_state (updateOLSDeployment r cr ob d) w = (e, w')"
  shows "(e = None \<longrightarrow> app_current r cr (v w')) \<and>
    (stored_cr (v w) = Some cr \<longrightarrow> client_cas_current r cr (v w) \<longrightarrow> e = None \<longrightarrow> client_cas_current r cr (v w')) \<and>
    (\<forall>k. k \<notin> insert (app_dep_key r) (ca_keys r) \<longrightarrow> v w' k = v w k)"
proof -
  obtain c l where c: "collecting_at r cr (v w) = Some c" "d = app_deployment r cr c l"
    and rec: "recorded d OLSConfigMapResourceVersionAnnotation = config_version_at r (v w)"
      "recorded d RAGSpecHashAnnotation = ragSpecHash r cr" "proxy_hash_at r cr (v w) = Some (recorded d ProxyCACertHashAnnotation)"
    using gen by (auto simp: app_generated_def)
  let ?d = "SetDefaults_Deployment (app_spec r cr c)"
  have dep: "dep_of d = app_spec r cr c" by (simp add: c(2) app_deployment_complete(3))
  obtain x w1 where x: "run_state (GetConfigMapResourceVersion r OLSConfigCmName) w = (x, w1)" by force
  obtain y w2 where y: "run_state (GetProxyCACertHash r cr) w1 = (y, w2)" by force
  note cv = config_version_run(1,3) [OF api x] and ph = proxy_hash_run [OF api y]
  define h where "h = (case y of Inl e \<Rightarrow> [] | Inr h \<Rightarrow> h)"
  define m0 where "m0 = copy_versions [OLSConfigMapResourceVersionAnnotation] d (set_dep_spec ?d ob)"
  define m where "m = m0\<lparr>k_meta := set_annotation ProxyCACertHashAnnotation h
    (set_annotation RAGSpecHashAnnotation (ragSpecHash r cr) (k_meta m0))\<rparr>"
  have keys: "OLSConfigMapResourceVersionAnnotation \<noteq> RAGSpecHashAnnotation" "OLSConfigMapResourceVersionAnnotation \<noteq> ProxyCACertHashAnnotation"
    "RAGSpecHashAnnotation \<noteq> ProxyCACertHashAnnotation" by (simp_all add: go_const)
  have "recorded m k = (if k = ProxyCACertHashAnnotation then h else if k = RAGSpecHashAnnotation then ragSpecHash r cr else recorded m0 k)" for k
    by (simp add: recorded_annotation m_def)
  moreover have "recorded m0 OLSConfigMapResourceVersionAnnotation = config_version_at r (v w)" by (simp add: m0_def rec(1))
  ultimately have m: "recorded m OLSConfigMapResourceVersionAnnotation = config_version_at r (v w)"
    "recorded m RAGSpecHashAnnotation = ragSpecHash r cr" "recorded m ProxyCACertHashAnnotation = h"
    using keys by simp_all
  have "dep_of m = dep_of m0" by (simp add: m_def dep_of_def)
  then have md: "dep_of m = ?d" using ob(1) by (simp add: m0_def)
  have h: "h \<in> {[], recorded d ProxyCACertHashAnnotation}" using ph cv(1) rec(3) by (auto simp: h_def split: sum.splits)
  consider (stop) "e \<noteq> None" "v w' = v w" | (keep) "e = None" "v w' = v w" "DeploymentSpecEqual (dep_of ob) ?d False = Some True"
      "\<exists>y. x = Inr y \<and> recorded ob OLSConfigMapResourceVersionAnnotation = y"
      "recorded ob ProxyCACertHashAnnotation = h" "recorded ob RAGSpecHashAnnotation = ragSpecHash r cr"
    | (roll) "run_state (RestartAppServer r (Some m)) w2 = (e, w')"
  proof (cases "DeploymentSpecEqual (dep_of ob) ?d False")
    case None
    then show thesis using stop run by (auto simp: updateOLSDeployment_def dep Let_def)
  next
    case (Some same)
    show thesis
    proof (cases "same \<and> (\<exists>cv. x = Inr cv \<and> recorded ob OLSConfigMapResourceVersionAnnotation = cv) \<and>
        (case y of Inl e \<Rightarrow> IsNotFound e | Inr _ \<Rightarrow> True) \<and> recorded ob ProxyCACertHashAnnotation = h \<and>
        recorded ob RAGSpecHashAnnotation = ragSpecHash r cr")
      case True
      then have "e = None \<and> w' = w2" using run Some x y
        by (auto simp: updateOLSDeployment_def dep Let_def h_def split: sum.splits)
      then show thesis using True keep Some cv(1) ph by auto
    next
      case False
      then have "run_state (RestartAppServer r (Some m)) w2 = (e, w')" using run Some x y
        by (auto simp: updateOLSDeployment_def dep Let_def m_def m0_def h_def split: sum.splits if_splits)
      then show thesis by (rule roll)
    qed
  qed
  then show ?thesis
  proof cases
    case keep
    then have "app_current r cr (v w')"
      using c rec ob cv h unfolding app_current_def
      by (intro exI [of _ c] exI [of _ ob] exI [of _ "recorded d ProxyCACertHashAnnotation"])
        (auto simp: deployment_current_def app_deployment_complete(3))
    then show ?thesis using keep(2) by simp
  next
    case roll
    have same: "v w2 = v w" using cv(1) ph by simp
    note re = RestartAppServer_run [OF api roll, unfolded same]
    have frame: "\<forall>k. k \<notin> insert (app_dep_key r) (ca_keys r) \<longrightarrow> v w' k = v w k" using re by blast
    note reads = app_reads_secret [OF frame pull_secret_apart]
    have "app_current r cr (v w')" if ok: "e = None"
    proof -
      obtain s now where s: "v w' (app_dep_key r) = Some s" "stored_as (stamp_template now (take_over (Some m) ob)) s"
        using re ok ob(2) by auto
      note rolled = rolled_current [OF s(2) ob(1) md]
      show ?thesis unfolding app_current_def reads using c(1) rec(3) s(1) rolled m(1,2,3) h
        by (intro exI [of _ c] exI [of _ s] exI [of _ "recorded d ProxyCACertHashAnnotation"]) simp
    qed
    then show ?thesis using re frame by auto
  qed auto
qed

end
