(* ===== verification/App_Server.thy ===== *)
theory App_Server
  imports App_Deployment
begin

text \<open>
  The reconcilers of the application server (\<open>internal/controller/appserver/reconciler.go\<close>) and the
  generators of \<open>assets.go\<close> they use: account and cluster role, ConfigMaps, Service and its
  certificate, metrics, network policy, and the image streams of the retrieval images.
\<close>

section \<open>Generated objects\<close>

definition GenerateServiceAccount_app :: "'w reconciler \<Rightarrow> OLSConfig \<Rightarrow> kobject" where
  "GenerateServiceAccount_app r cr = GenerateServiceAccount r cr OLSAppServerServiceAccountName"

definition GenerateSARClusterRole :: "'w reconciler \<Rightarrow> OLSConfig \<Rightarrow> kobject" where
  "GenerateSARClusterRole r cr = set_controller cr \<lparr>
     k_meta = new_meta [] OLSAppServerSARRoleName fmempty,
     k_payload = PClusterRole
       [\<lparr>rr_groups = [''authorization.k8s.io''], rr_resources = [''subjectaccessreviews''], rr_names = [], rr_verbs = [''create'']\<rparr>,
        \<lparr>rr_groups = [''authentication.k8s.io''], rr_resources = [''tokenreviews''], rr_names = [], rr_verbs = [''create'']\<rparr>,
        \<lparr>rr_groups = [''config.openshift.io''], rr_resources = [''clusterversions''], rr_names = [], rr_verbs = [''get'', ''list'']\<rparr>,
        \<lparr>rr_groups = [[]], rr_resources = [''secrets''], rr_names = [''pull-secret''], rr_verbs = [''get'']\<rparr>]\<rparr>"

definition generateSARClusterRoleBinding :: "'w reconciler \<Rightarrow> OLSConfig \<Rightarrow> kobject" where
  "generateSARClusterRoleBinding r cr = set_controller cr \<lparr>
     k_meta = new_meta [] OLSAppServerSARRoleBindingName fmempty,
     k_payload = PClusterRoleBinding
       [\<lparr>su_kind = ''ServiceAccount'', su_name = OLSAppServerServiceAccountName, su_namespace = GetNamespace r\<rparr>]
       (''ClusterRole'', OLSAppServerSARRoleName)\<rparr>"

definition exporter_service_id :: "OLSConfig \<Rightarrow> string" where
  "exporter_service_id cr = (if fmlookup (m_labels (cr_Meta cr)) RHOSOLightspeedOwnerIDLabel \<noteq> None
     then ServiceIDRHOSO else ServiceIDOLS)"

definition exporter_config :: "OLSConfig \<Rightarrow> string" where
  "exporter_config cr = join_lines
    [''service_id: '' @ double_quoted (exporter_service_id cr),
     ''ingress_server_url: '' @ double_quoted ''https://console.redhat.com/api/ingress/v1/upload'',
     ''allowed_subdirs:'',
     '' - feedback'',
     '' - transcripts'',
     '' - config_status'',
     ''# Collection settings'',
     ''collection_interval: 300'',
     ''cleanup_after_send: true'',
     ''ingress_connection_timeout: 30'']"

definition generateExporterConfigMap :: "'w reconciler \<Rightarrow> OLSConfig \<Rightarrow> kobject" where
  "generateExporterConfigMap r cr = set_controller cr \<lparr>
     k_meta = new_meta (GetNamespace r) ExporterConfigCmName GenerateAppServerSelectorLabels,
     k_payload = PConfigMap (fmap_of_list [(ExporterConfigFilename, exporter_config cr)]) fmempty\<rparr>"

definition GenerateService_app :: "'w reconciler \<Rightarrow> OLSConfig \<Rightarrow> kobject" where
  "GenerateService_app r cr = set_controller cr \<lparr>
     k_meta = (new_meta (GetNamespace r) OLSAppServerServiceName GenerateAppServerSelectorLabels)\<lparr>m_annotations :=
       Some (if user_tls cr then fmempty else fmap_of_list [(ServingCertSecretAnnotationKey, OLSCertsSecretName)])\<rparr>,
     k_payload = PService \<lparr>ss_selector = GenerateAppServerSelectorLabels,
       ss_ports = [\<lparr>sp_name = ''https'', sp_protocol = ''TCP'', sp_port = OLSAppServerServicePort, sp_target = ''https''\<rparr>],
       ss_cluster_ip = []\<rparr>\<rparr>"

definition generateServiceMonitor_app :: "'w reconciler \<Rightarrow> OLSConfig \<Rightarrow> kobject" where
  "generateServiceMonitor_app r cr = set_controller cr \<lparr>
     k_meta = new_meta (GetNamespace r) AppServerServiceMonitorName
       (fmupd ''openshift.io/user-monitoring'' ''false''
         (fmupd ''app.kubernetes.io/component'' ''metrics''
           (fmupd ''monitoring.openshift.io/collection-profile'' ''full'' GenerateAppServerSelectorLabels))),
     k_payload = PServiceMonitor \<lparr>sm_endpoints = [\<lparr>se_port = ''https'', se_path = AppServerMetricsPath, se_interval = ''30s'',
         se_scheme = ''https'', se_ca = ''/etc/prometheus/configmaps/serving-certs-ca-bundle/service-ca.crt'',
         se_cert = ''/etc/prometheus/secrets/metrics-client-certs/tls.crt'',
         se_key = ''/etc/prometheus/secrets/metrics-client-certs/tls.key'', se_insecure = False,
         se_server_name = OLSAppServerServiceName @ ''.'' @ GetNamespace r @ ''.svc'',
         se_auth = Some (''Bearer'', MetricsReaderServiceAccountTokenSecretName, ''token'')\<rparr>],
       sm_job_label = ''app.kubernetes.io/name'', sm_selector = GenerateAppServerSelectorLabels\<rparr>\<rparr>"

definition calls_rule :: "char \<Rightarrow> string \<times> string \<times> gmap" where
  "calls_rule d = (''ols:rest_api_query_calls_total:'' @ [d] @ ''xx'',
     ''sum by(status_code) (ols_rest_api_calls_total{path='' @ double_quoted ''/v1/streaming_query'' @ '',status_code=~'' @
       double_quoted ([d] @ ''..'') @ ''})'',
     fmap_of_list [(''status_code'', [d] @ ''xx'')])"

definition GeneratePrometheusRule :: "'w reconciler \<Rightarrow> OLSConfig \<Rightarrow> kobject" where
  "GeneratePrometheusRule r cr = set_controller cr \<lparr>
     k_meta = new_meta (GetNamespace r) AppServerPrometheusRuleName
       (fmupd ''app.kubernetes.io/component'' ''metrics'' GenerateAppServerSelectorLabels),
     k_payload = PPrometheusRule [\<lparr>gr_name = ''ols.operations.rules'',
       gr_rules = [calls_rule (CHR ''2''), calls_rule (CHR ''4''), calls_rule (CHR ''5''),
         (''ols:provider_model_configuration'', ''max by (provider,model) (ols_provider_model_configuration)'', fmempty)]\<rparr>]\<rparr>"

definition app_ingress :: "label_selector option \<Rightarrow> (string \<times> string) list \<Rightarrow> np_rule" where
  "app_ingress pods namespaces = \<lparr>ru_from = [\<lparr>pe_pods = pods,
       pe_namespaces = Some \<lparr>ls_labels = fmap_of_list namespaces, ls_exprs = []\<rparr>\<rparr>],
     ru_ports = [(''TCP'', OLSAppServerContainerPort)]\<rparr>"

definition GenerateAppServerNetworkPolicy :: "'w reconciler \<Rightarrow> OLSConfig \<Rightarrow> kobject" where
  "GenerateAppServerNetworkPolicy r cr = set_controller cr \<lparr>
     k_meta = new_meta (GetNamespace r) OLSAppServerNetworkPolicyName GenerateAppServerSelectorLabels,
     k_payload = PNetworkPolicy \<lparr>np_pods = \<lparr>ls_labels = GenerateAppServerSelectorLabels, ls_exprs = []\<rparr>,
       np_ingress =
        [app_ingress (Some \<lparr>ls_labels = fmempty, ls_exprs = [(''app.kubernetes.io/name'', ''In'', [''prometheus'']),
           (''prometheus'', ''In'', [''k8s''])]\<rparr>) [(''kubernetes.io/metadata.name'', ClientCACmNamespace)],
         app_ingress (Some \<lparr>ls_labels = fmap_of_list [(''app'', ''console'')], ls_exprs = []\<rparr>)
           [(''kubernetes.io/metadata.name'', ''openshift-console'')],
         app_ingress None [(''network.openshift.io/policy-group'', ''ingress'')]],
       np_egress = [], np_types = [''Ingress'']\<rparr>\<rparr>"

definition SecretTypeServiceAccountToken :: string where
  "SecretTypeServiceAccountToken = ''kubernetes.io/service-account-token''"

definition GenerateMetricsReaderSecret :: "'w reconciler \<Rightarrow> OLSConfig \<Rightarrow> kobject" where
  "GenerateMetricsReaderSecret r cr = set_controller cr \<lparr>
     k_meta = (new_meta (GetNamespace r) MetricsReaderServiceAccountTokenSecretName (fmap_of_list
       [(''app.kubernetes.io/name'', ''service-account-token''), (''app.kubernetes.io/component'', ''metrics''),
        (''app.kubernetes.io/part-of'', ''lightspeed-operator'')]))\<lparr>m_annotations :=
       Some (fmap_of_list [(''kubernetes.io/service-account.name'', MetricsReaderServiceAccountName)])\<rparr>,
     k_payload = PSecret fmempty SecretTypeServiceAccountToken\<rparr>"

section \<open>Reconcilers\<close>

definition reconcileOLSConfigMap :: "'w reconcile_fn" where
  "reconcileOLSConfigMap r cr = try_or (GenerateOLSConfigMap r cr) (wrapf ErrGenerateAPIConfigmap) (\<lambda>cm.
     create_or_update r ErrGetAPIConfigmap ErrCreateAPIConfigmap ErrUpdateAPIConfigmap
       (ConfigMap, GetNamespace r, OLSConfigCmName) cm (\<lambda>found. ConfigMapEqual found cm)
       (\<lambda>found. found\<lparr>k_payload := PConfigMap (cm_data (k_payload cm)) (cm_binary (k_payload found)),
          k_meta := (k_meta found)\<lparr>m_annotations := m_annotations (k_meta cm)\<rparr>\<rparr>))"

text \<open>Any error of the read counts as a missing ConfigMap, and an existing one is never updated.\<close>

definition reconcileExporterConfigMap :: "'w reconcile_fn" where
  "reconcileExporterConfigMap r cr =
     try_or (dataCollectorEnabled r cr) (wrapf ''failed to check if data collector is enabled'') (\<lambda>enabled. do {
       found \<leftarrow> cl_get r (ConfigMap, GetNamespace r, ExporterConfigCmName);
       case found of
         Inl e \<Rightarrow> (if enabled then create_as r ''failed to create exporter configmap'' (generateExporterConfigMap r cr)
           else ret None)
       | Inr foundCm \<Rightarrow> (if enabled then ret None
           else do { e \<leftarrow> cl_delete r (key_of foundCm); ret (map_option (wrapf ''failed to delete exporter configmap'') e) }) })"

definition reconcileServiceAccount_app :: "'w reconcile_fn" where
  "reconcileServiceAccount_app r cr = create_missing r ErrGetAPIServiceAccount ErrCreateAPIServiceAccount
     (ServiceAccount, GetNamespace r, OLSAppServerServiceAccountName) (GenerateServiceAccount_app r cr)"

definition reconcileSARRole :: "'w reconcile_fn" where
  "reconcileSARRole r cr = create_missing r ErrGetSARClusterRole ErrCreateSARClusterRole
     (ClusterRole, [], OLSAppServerSARRoleName) (GenerateSARClusterRole r cr)"

definition reconcileSARRoleBinding :: "'w reconcile_fn" where
  "reconcileSARRoleBinding r cr = create_missing r ErrGetSARClusterRoleBinding ErrCreateSARClusterRoleBinding
     (ClusterRoleBinding, [], OLSAppServerSARRoleBindingName) (generateSARClusterRoleBinding r cr)"

definition reconcileDeployment_app :: "'w reconcile_fn" where
  "reconcileDeployment_app r cr = try_or (GenerateOLSDeployment r cr) (wrapf ErrGenerateAPIDeployment) (\<lambda>desired.
     fetch r (Deployment, GetNamespace r, OLSAppServerDeploymentName)
       (create_as r ErrCreateAPIDeployment desired) (\<lambda>e. ret (Some (wrapf ErrGetAPIDeployment e)))
       (\<lambda>existing. do {
          e \<leftarrow> updateOLSDeployment r cr existing desired;
          ret (map_option (wrapf ErrUpdateAPIDeployment) e) }))"

text \<open>The found Service is replaced by the generated one when it differs.\<close>

definition service_unchanged :: "OLSConfig \<Rightarrow> kobject \<Rightarrow> kobject \<Rightarrow> bool" where
  "service_unchanged cr service found = (ServiceEqual found service \<and> m_annotations (k_meta found) \<noteq> None \<and>
     (user_tls cr \<or> recorded found ServingCertSecretAnnotationKey = recorded service ServingCertSecretAnnotationKey))"

definition reconcileService_app :: "'w reconcile_fn" where
  "reconcileService_app r cr =
     (let service = GenerateService_app r cr in
      create_or_update r ErrGetAPIService ErrCreateAPIService ErrUpdateAPIService
        (Service, GetNamespace r, OLSAppServerServiceName) service (service_unchanged cr service) (\<lambda>found. service))"

definition reconcileMetricsReaderSecret :: "'w reconcile_fn" where
  "reconcileMetricsReaderSecret r cr =
     (if localDev r then ret None
      else create_or_update r ErrGetMetricsReaderSecret ErrCreateMetricsReaderSecret ErrUpdateMetricsReaderSecret
        (Secret, GetNamespace r, MetricsReaderServiceAccountTokenSecretName) (GenerateMetricsReaderSecret r cr)
        (\<lambda>found. secret_type (k_payload found) = SecretTypeServiceAccountToken \<and>
           recorded found ''kubernetes.io/service-account.name'' = MetricsReaderServiceAccountName)
        (\<lambda>found. found\<lparr>k_payload := PSecret (secret_data (k_payload found)) SecretTypeServiceAccountToken,
           k_meta := set_annotation ''kubernetes.io/service-account.name'' MetricsReaderServiceAccountName (k_meta found)\<rparr>))"

definition reconcileServiceMonitor_app :: "'w reconcile_fn" where
  "reconcileServiceMonitor_app r cr = ReconcileServiceMonitor r (generateServiceMonitor_app r cr)"

definition reconcilePrometheusRule :: "'w reconcile_fn" where
  "reconcilePrometheusRule r cr =
     (if \<not> IsPrometheusAvailable r then ret None
      else (let rule = GeneratePrometheusRule r cr in
        create_or_update r ErrGetPrometheusRule ErrCreatePrometheusRule ErrUpdatePrometheusRule
          (PrometheusRule, GetNamespace r, AppServerPrometheusRuleName) rule
          (\<lambda>found. PrometheusRuleEqual found rule) (\<lambda>found. found\<lparr>k_payload := k_payload rule\<rparr>)))"

text \<open>
  \<open>GetSecretContent\<close> fills the caller's secret before it looks for the fields; the condition of the
  wait keeps it, and the secret of the last try is written back as it was read.
\<close>

definition tls_secret_ready :: "'w reconciler \<Rightarrow> string \<Rightarrow> 'w poll_cond" where
  "tls_secret_ready r secretName = (\<lambda>(lastErr, foundSecret). do {
     x \<leftarrow> cl_get r (Secret, GetNamespace r, secretName);
     (let not_ready = (\<lambda>found err. (Inr False, (Some (wrapf (''secret: '' @ secretName @
            '' does not have expected tls.key or tls.crt. error'') err), found))) in
      ret (case x of
         Inl e \<Rightarrow> not_ready foundSecret (wrapf (''secret not found: '' @ secretName @ ''. error'') e)
       | Inr s \<Rightarrow> (case pick_fields (secret_data (k_payload s)) [''tls.key'', ''tls.crt''] fmempty of
           Inl err \<Rightarrow> not_ready (Some s) err
         | Inr m \<Rightarrow> (Inr True, (lastErr, Some s))))) })"

definition zero_secret :: kobject where
  "zero_secret = \<lparr>k_meta = new_meta [] [] fmempty, k_payload = PSecret fmempty []\<rparr>"

definition ReconcileTLSSecret :: "'w reconcile_fn" where
  "ReconcileTLSSecret r cr = do {
     (e, lastErr, foundSecret) \<leftarrow> PollUntilTimeout r 1 60 (tls_secret_ready r (app_tls_secret cr));
     case e of
       Some err \<Rightarrow> ret (Some (Errorf (ErrGetTLSSecret @ '' -'' @ OLSCertsSecretName @ '' - wait err '' @ err_msg err @
         ''; last error: '' @ (case lastErr of None \<Rightarrow> ''%!w(<nil>)'' | Some l \<Rightarrow> err_msg l))
         (err # (case lastErr of None \<Rightarrow> [] | Some l \<Rightarrow> [l]))))
     | None \<Rightarrow> (let secret = (case foundSecret of None \<Rightarrow> zero_secret | Some s \<Rightarrow> s) in
         update_as r (''failed to update secret:'' @ m_name (k_meta secret) @ ''. error'') secret) }"

definition reconcileAppServerNetworkPolicy :: "'w reconcile_fn" where
  "reconcileAppServerNetworkPolicy r cr =
     (let np = GenerateAppServerNetworkPolicy r cr in
      create_or_update r ErrGetAppServerNetworkPolicy ErrCreateAppServerNetworkPolicy ErrUpdateAppServerNetworkPolicy
        (NetworkPolicy, GetNamespace r, OLSAppServerNetworkPolicyName) np
        (\<lambda>found. NetworkPolicyEqual found np) (\<lambda>found. found\<lparr>k_payload := k_payload np\<rparr>))"

section \<open>Image streams\<close>

definition uniqueStrings :: "string list \<Rightarrow> string list" where
  "uniqueStrings xs = rev (fold (\<lambda>s out. if s \<in> set out then out else s # out) xs [])"

definition image_stream :: "'w reconciler \<Rightarrow> OLSConfig \<Rightarrow> string \<Rightarrow> kobject" where
  "image_stream r cr img = set_controller cr \<lparr>
     k_meta = new_meta (GetNamespace r) (ImageStreamNameFor (sha1_hex r) img) GenerateAppServerSelectorLabels,
     k_payload = PImageStream [\<lparr>tg_name = ''latest'', tg_from = (''DockerImage'', img), tg_scheduled = True, tg_policy = ''Source''\<rparr>]\<rparr>"

definition desired_streams :: "'w reconciler \<Rightarrow> OLSConfig \<Rightarrow> (string, kobject) fmap" where
  "desired_streams r cr = fold (\<lambda>img. fmupd (ImageStreamNameFor (sha1_hex r) img) (image_stream r cr img))
     (uniqueStrings (map rag_Image (o_RAG (s_OLSConfig (cr_Spec cr))))) fmempty"

definition update_stream :: "kobject \<Rightarrow> kobject \<Rightarrow> kobject" where
  "update_stream want got = got\<lparr>k_payload := k_payload want,
     k_meta := (k_meta got)\<lparr>m_labels := m_labels (k_meta want), m_owners := m_owners (k_meta want)\<rparr>\<rparr>"

definition write_stream :: "'w reconciler \<Rightarrow> string \<Rightarrow> kobject \<Rightarrow> ('w, goerr option) io" where
  "write_stream r name want =
     create_or_update r (''get ImageStream '' @ double_quoted name) (''create ImageStream '' @ double_quoted name)
       (''update ImageStream '' @ double_quoted name) (ImageStream, GetNamespace r, name) want
       (ImageStreamEqual want) (update_stream want)"

definition delete_stream :: "'w reconciler \<Rightarrow> (string, kobject) fmap \<Rightarrow> kobject \<Rightarrow> ('w, goerr option) io" where
  "delete_stream r desired is =
     (if fmlookup desired (m_name (k_meta is)) \<noteq> None then ret None
      else do {
        e \<leftarrow> cl_delete r (key_of is);
        ret (case e of None \<Rightarrow> None | Some err \<Rightarrow> (if IsNotFound err then None
          else Some (wrapf (''delete ImageStream '' @ double_quoted (m_name (k_meta is))) err))) })"

definition reconcileImageStreams :: "'w reconcile_fn" where
  "reconcileImageStreams r cr =
     (let desired = desired_streams r cr in
      try_or (cl_list r ImageStream (GetNamespace r) GenerateAppServerSelectorLabels) (wrapf ''list ImageStreams'') (\<lambda>existing. do {
        names \<leftarrow> walk_map r (sorted_list_of_fset (fmdom desired));
        and_then (for_each (\<lambda>name. write_stream r name (the (fmlookup desired name))) names)
          (for_each (delete_stream r desired) existing) }))"

section \<open>The phases\<close>

definition app_resource_tasks :: "'w ReconcileTask list" where
  "app_resource_tasks =
     [(''reconcile ServiceAccount'', reconcileServiceAccount_app),
      (''reconcile SARRole'', reconcileSARRole),
      (''reconcile SARRoleBinding'', reconcileSARRoleBinding),
      (''reconcile OLSConfigMap'', reconcileOLSConfigMap),
      (''reconcile Additional CA ConfigMap'', ReconcileOLSAdditionalCAConfigMap),
      (''reconcile Metrics Reader Secret'', reconcileMetricsReaderSecret),
      (''reconcile App NetworkPolicy'', reconcileAppServerNetworkPolicy),
      (''reconcile Proxy CA ConfigMap'', ReconcileProxyCAConfigMap),
      (''reconcile ImageStreams'', reconcileImageStreams)]"

definition ReconcileAppServerResources :: "'w reconcile_fn" where
  "ReconcileAppServerResources r cr = run_named r cr app_resource_tasks"

definition app_deployment_tasks :: "'w ReconcileTask list" where
  "app_deployment_tasks =
     [(''reconcile client CA Secrets'', RefreshClientCASecrets),
      (''reconcile Exporter ConfigMap'', reconcileExporterConfigMap),
      (''reconcile App Deployment'', reconcileDeployment_app),
      (''reconcile App Service'', reconcileService_app),
      (''reconcile App TLS Certs'', ReconcileTLSSecret),
      (''reconcile App ServiceMonitor'', reconcileServiceMonitor_app),
      (''reconcile App PrometheusRule'', reconcilePrometheusRule)]"

definition named_task :: "'w reconciler \<Rightarrow> OLSConfig \<Rightarrow> 'w ReconcileTask \<Rightarrow> ('w, goerr option) io" where
  "named_task r cr = (\<lambda>(name, task). do {
     e \<leftarrow> task r cr;
     ret (map_option (wrapf (''failed to '' @ name)) e) })"

definition ReconcileAppServerDeployment :: "'w reconcile_fn" where
  "ReconcileAppServerDeployment r cr = for_each (named_task r cr) app_deployment_tasks"

definition ReconcileAppServer :: "'w reconcile_fn" where
  "ReconcileAppServer r cr = and_then (ReconcileAppServerResources r cr) (ReconcileAppServerDeployment r cr)"

section \<open>What the configuration is made of\<close>

text \<open>A walk over a Go map visits every key once, in any order, and changes nothing.\<close>

definition walk_ok :: "'w reconciler \<Rightarrow> ('w \<Rightarrow> okey \<Rightarrow> kobject option) \<Rightarrow> bool" where
  "walk_ok r v = (\<forall>xs w ys w'. run_state (walk_map r xs) w = (ys, w') \<longrightarrow> v w' = v w \<and> mset ys = mset xs)"

text \<open>
  The reference for the configuration file, over the stored objects: the trusted files of a
  ConfigMap, all of them valid certificates; the proxy with its certificate; the TLS profile of the
  resource, else that of the cluster or, when that cannot be read, none.
\<close>

definition cas_at :: "'w reconciler \<Rightarrow> (okey \<Rightarrow> kobject option) \<Rightarrow> string \<Rightarrow> string \<Rightarrow> string list \<Rightarrow> bool" where
  "cas_at r f name dir cas = (\<exists>cm ks. f (app_key r ConfigMap name) = Some cm \<and>
     mset ks = mset (sorted_list_of_fset (fmdom (cm_data (k_payload cm)))) \<and>
     check_certs r (cm_data (k_payload cm)) ks = None \<and> cas = map (\<lambda>k. path_join [OLSAppCertsMountRoot, dir, k]) ks)"

definition user_cas_at :: "'w reconciler \<Rightarrow> OLSConfig \<Rightarrow> (okey \<Rightarrow> kobject option) \<Rightarrow> string list \<Rightarrow> bool" where
  "user_cas_at r cr f cas = (case o_AdditionalCAConfigMapRef (s_OLSConfig (cr_Spec cr)) of
      None \<Rightarrow> cas = [] | Some name \<Rightarrow> cas_at r f name UserCACertDir cas)"

definition proxy_at :: "'w reconciler \<Rightarrow> OLSConfig \<Rightarrow> (okey \<Rightarrow> kobject option) \<Rightarrow> ProxyConfig_file option \<Rightarrow> bool" where
  "proxy_at r cr f px = (case o_ProxyConfig (s_OLSConfig (cr_Spec cr)) of
      None \<Rightarrow> px = None
    | Some pc \<Rightarrow> (let cmName = GetProxyCACertConfigMapName (px_ProxyCACertificateRef pc);
          certKey = GetProxyCACertKey (px_ProxyCACertificateRef pc) in
        if cmName = [] then px = Some \<lparr>pf_ProxyURL = px_ProxyURL pc, pf_ProxyCACertPath = []\<rparr>
        else (\<exists>cm ca. f (app_key r ConfigMap cmName) = Some cm \<and> fmlookup (cm_data (k_payload cm)) certKey = Some ca \<and>
          cert_error r ca = None \<and> px = Some \<lparr>pf_ProxyURL = px_ProxyURL pc,
            pf_ProxyCACertPath = path_join [OLSAppCertsMountRoot, ProxyCACertVolumeName, certKey]\<rparr>)))"

definition tls_at :: "OLSConfig \<Rightarrow> (okey \<Rightarrow> kobject option) \<Rightarrow> TLSSecurityProfile option \<Rightarrow> bool" where
  "tls_at cr f p = (case o_TLSSecurityProfile (s_OLSConfig (cr_Spec cr)) of
      Some q \<Rightarrow> p = Some q
    | None \<Rightarrow> p = None \<or> (\<exists>ob. f (APIServer, [], APIServerName) = Some ob \<and> k_payload ob = PAPIServer p))"

definition file_at :: "'w reconciler \<Rightarrow> OLSConfig \<Rightarrow> (okey \<Rightarrow> kobject option) \<Rightarrow> AppSrvConfigFile \<Rightarrow> bool" where
  "file_at r cr f file = (\<exists>providers collecting px tls root user. buildProviderConfigs cr = Inr providers \<and>
     collecting_at r cr f = Some collecting \<and> proxy_at r cr f px \<and> tls_at cr f tls \<and>
     cas_at r f ''kube-root-ca.crt'' AppAdditionalCACertDir root \<and> user_cas_at r cr f user \<and>
     file = config_file r cr providers collecting
       (finish_ols r cr (root @ operand_cas cr @ user) (ols_section r cr collecting px tls)))"

definition config_reads :: "'w reconciler \<Rightarrow> OLSConfig \<Rightarrow> okey set" where
  "config_reads r cr = {(Secret, TelemetryPullSecretNamespace, TelemetryPullSecretName), (APIServer, [], APIServerName),
     app_key r ConfigMap ''kube-root-ca.crt''} \<union>
     (\<lambda>n. app_key r ConfigMap n) ` (set_option (o_AdditionalCAConfigMapRef (s_OLSConfig (cr_Spec cr))) \<union>
       {GetProxyCACertConfigMapName (px_ProxyCACertificateRef pc) | pc. o_ProxyConfig (s_OLSConfig (cr_Spec cr)) = Some pc})"

lemma file_at_reads:
  assumes "\<forall>k \<in> config_reads r cr. f k = g k"
  shows "file_at r cr f = file_at r cr g"
proof -
  have pull: "f (Secret, TelemetryPullSecretNamespace, TelemetryPullSecretName) = g (Secret, TelemetryPullSecretNamespace, TelemetryPullSecretName)"
    and api: "f (APIServer, [], APIServerName) = g (APIServer, [], APIServerName)"
    and root: "f (app_key r ConfigMap ''kube-root-ca.crt'') = g (app_key r ConfigMap ''kube-root-ca.crt'')"
    using assms by (simp_all add: config_reads_def)
  have user: "f (app_key r ConfigMap n) = g (app_key r ConfigMap n)" if "o_AdditionalCAConfigMapRef (s_OLSConfig (cr_Spec cr)) = Some n" for n
    using assms that by (auto simp: config_reads_def)
  have proxy: "f (app_key r ConfigMap (GetProxyCACertConfigMapName (px_ProxyCACertificateRef pc))) =
      g (app_key r ConfigMap (GetProxyCACertConfigMapName (px_ProxyCACertificateRef pc)))"
    if "o_ProxyConfig (s_OLSConfig (cr_Spec cr)) = Some pc" for pc
    using assms that by (auto simp: config_reads_def)
  have "collecting_at r cr f = collecting_at r cr g" by (simp only: collecting_at_def pull)
  moreover have "tls_at cr f = tls_at cr g" by (simp only: tls_at_def [abs_def] api)
  moreover have "cas_at r f ''kube-root-ca.crt'' = cas_at r g ''kube-root-ca.crt''" by (simp add: cas_at_def root fun_eq_iff)
  moreover have "user_cas_at r cr f = user_cas_at r cr g"
    by (cases "o_AdditionalCAConfigMapRef (s_OLSConfig (cr_Spec cr))") (simp_all add: user_cas_at_def cas_at_def user fun_eq_iff)
  moreover have "proxy_at r cr f = proxy_at r cr g"
    by (cases "o_ProxyConfig (s_OLSConfig (cr_Spec cr))") (simp_all add: proxy_at_def proxy Let_def fun_eq_iff)
  ultimately show ?thesis by (simp add: file_at_def fun_eq_iff)
qed

lemma addAdditionalCAFileNames_run:
  assumes api: "api_ok r v" and walk: "walk_ok r v" and run: "run_state (addAdditionalCAFileNames r name dir) w = (x, w')"
  shows "v w' = v w \<and> (\<forall>cas. x = Inr cas \<longrightarrow> cas_at r (v w) name dir cas)"
proof -
  obtain g w1 where g: "run_state (cl_get r (app_key r ConfigMap name)) w = (g, w1)" by force
  note get = api_get(1,2) [OF api g]
  show ?thesis
  proof (cases g)
    case (Inl e)
    then show ?thesis using run g get by (auto simp: addAdditionalCAFileNames_def)
  next
    case (Inr cm)
    obtain ks w2 where ks: "run_state (walk_map r (sorted_list_of_fset (fmdom (cm_data (k_payload cm))))) w1 = (ks, w2)" by force
    have "v w2 = v w1 \<and> mset ks = mset (sorted_list_of_fset (fmdom (cm_data (k_payload cm))))"
      using walk ks unfolding walk_ok_def by blast
    then show ?thesis using run g ks get Inr
      by (auto simp: addAdditionalCAFileNames_def cas_at_def split: option.splits)
  qed
qed

lemma proxy_config_run:
  assumes api: "api_ok r v" and run: "run_state (proxy_config r cr) w = (x, w')"
  shows "v w' = v w \<and> (\<forall>px. x = Inr px \<longrightarrow> proxy_at r cr (v w) px)"
proof (cases "o_ProxyConfig (s_OLSConfig (cr_Spec cr))")
  case (Some pc)
  obtain g w1 where g: "run_state (cl_get r (app_key r ConfigMap (GetProxyCACertConfigMapName (px_ProxyCACertificateRef pc)))) w = (g, w1)"
    by force
  show ?thesis using run g api_get(1,2) [OF api g] Some
    by (cases g) (auto simp: proxy_config_def proxy_at_def validateCertificateInConfigMap_def Let_def
        split: if_splits option.splits)
qed (use run in \<open>auto simp: proxy_config_def proxy_at_def\<close>)

lemma tls_profile_run:
  assumes api: "api_ok r v" and run: "run_state (tls_profile r cr) w = (p, w')"
  shows "v w' = v w \<and> tls_at cr (v w) p"
proof (cases "o_TLSSecurityProfile (s_OLSConfig (cr_Spec cr))")
  case None
  obtain g w1 where g: "run_state (cl_get r (APIServer, [], APIServerName)) w = (g, w1)" by force
  show ?thesis using run g api_get(1,2) [OF api g] None
    by (cases g) (auto simp: tls_profile_def tls_at_def FetchAPIServerTlsProfile_def split: payload.splits)
qed (use run in \<open>auto simp: tls_profile_def tls_at_def split: option.splits\<close>)

lemma build_file_run:
  assumes api: "api_ok r v" and walk: "walk_ok r v" and run: "run_state (build_file r cr) w = (x, w')"
  shows "v w' = v w \<and> (\<forall>file. x = Inr file \<longrightarrow> file_at r cr (v w) file)"
proof (cases "buildProviderConfigs cr")
  case (Inl e)
  then show ?thesis using run by (auto simp: build_file_def)
next
  case (Inr ps)
  obtain c w1 where c: "run_state (dataCollectorEnabled r cr) w = (c, w1)" by force
  obtain px w2 where px: "run_state (proxy_config r cr) w1 = (px, w2)" by force
  obtain p w3 where p: "run_state (tls_profile r cr) w2 = (p, w3)" by force
  obtain root w4 where root: "run_state (addAdditionalCAFileNames r ''kube-root-ca.crt'' AppAdditionalCACertDir) w3 = (root, w4)" by force
  note runs = dataCollectorEnabled_run [OF api c] proxy_config_run [OF api px] tls_profile_run [OF api p]
    addAdditionalCAFileNames_run [OF api walk root]
  show ?thesis
  proof (cases "o_AdditionalCAConfigMapRef (s_OLSConfig (cr_Spec cr))")
    case None
    then show ?thesis using run Inr c px p root runs
      by (auto simp: build_file_def buildOLSConfig_def extra_cas_def file_at_def user_cas_at_def split: sum.splits)
  next
    case (Some n)
    obtain user w5 where user: "run_state (addAdditionalCAFileNames r n UserCACertDir) w4 = (user, w5)" by force
    show ?thesis using run Inr c px p root runs Some user addAdditionalCAFileNames_run [OF api walk user]
      by (auto simp: build_file_def buildOLSConfig_def extra_cas_def file_at_def user_cas_at_def split: sum.splits)
  qed
qed

section \<open>The resources\<close>

subsection \<open>The ConfigMap of the configuration file\<close>

abbreviation app_config_key :: "'w reconciler \<Rightarrow> okey" where
  "app_config_key r \<equiv> app_key r ConfigMap OLSConfigCmName"

definition holds_file :: "'w reconciler \<Rightarrow> OLSConfig \<Rightarrow> (okey \<Rightarrow> kobject option) \<Rightarrow> bool" where
  "holds_file r cr f = (\<exists>file y s. file_at r cr f file \<and> yaml_marshal r (json_file file) = Inr y \<and>
     f (app_config_key r) = Some s \<and> cm_data (k_payload s) = cm_data (k_payload (ols_config_map r cr y)))"

lemma GenerateOLSConfigMap_run:
  assumes "api_ok r v" "walk_ok r v" "run_state (GenerateOLSConfigMap r cr) w = (x, w')"
  shows "v w' = v w \<and> (\<forall>cm. x = Inr cm \<longrightarrow> (\<exists>file y. file_at r cr (v w) file \<and>
    yaml_marshal r (json_file file) = Inr y \<and> cm = ols_config_map r cr y))"
proof -
  obtain b w1 where b: "run_state (build_file r cr) w = (b, w1)" by force
  show ?thesis using assms(3) b build_file_run [OF assms(1,2) b]
    by (auto simp: GenerateOLSConfigMap_def split: sum.splits)
qed

lemma reconcileOLSConfigMap_run:
  assumes api: "api_ok r v" and walk: "walk_ok r v" and apart: "app_config_key r \<notin> config_reads r cr"
    and run: "run_state (reconcileOLSConfigMap r cr) w = (e, w')"
  shows "e = None \<Longrightarrow> holds_file r cr (v w')" "k \<noteq> app_config_key r \<Longrightarrow> v w' k = v w k"
proof -
  let ?k = "app_config_key r"
  obtain x w1 where x: "run_state (GenerateOLSConfigMap r cr) w = (x, w1)" by force
  note gen = GenerateOLSConfigMap_run [OF api walk x]
  have "(e = None \<longrightarrow> holds_file r cr (v w')) \<and> (\<forall>k. k \<noteq> ?k \<longrightarrow> v w' k = v w k)"
  proof (cases x)
    case (Inl err)
    then show ?thesis using run x gen by (auto simp: reconcileOLSConfigMap_def try_or_def)
  next
    case (Inr cm)
    then obtain fl y where y: "file_at r cr (v w) fl" "yaml_marshal r (json_file fl) = Inr y" "cm = ols_config_map r cr y"
      using gen by blast
    let ?m = "\<lambda>found. found\<lparr>k_payload := PConfigMap (cm_data (k_payload cm)) (cm_binary (k_payload found)),
        k_meta := (k_meta found)\<lparr>m_annotations := m_annotations (k_meta cm)\<rparr>\<rparr>"
    let ?step = "create_or_update r ErrGetAPIConfigmap ErrCreateAPIConfigmap ErrUpdateAPIConfigmap ?k cm
        (\<lambda>found. ConfigMapEqual found cm) ?m"
    have step: "run_state ?step w1 = (e, w')" using run x Inr by (simp add: reconcileOLSConfigMap_def try_or_def)
    have cm: "key_of cm = ?k" "kind_of (k_payload cm) = ConfigMap"
      by (simp_all add: y(3) ols_config_map_def key_of_def set_controller_def new_meta_def)
    have "ensures v {?k} (\<lambda>f. \<exists>s. f ?k = Some s \<and> cm_data (k_payload s) = cm_data (k_payload cm)) ?step"
    proof (rule ensures_create_or_update [OF api cm(1)])
      show "cm_data (k_payload s) = cm_data (k_payload cm)" if "stored_as cm s" for s
        using stored_plain [OF that] cm(2) by simp
      show "cm_data (k_payload s) = cm_data (k_payload cm)" if "stored_as (?m ob) s" for ob s
        using stored_plain [OF that] by simp
    qed (auto simp: keeps_life_def key_of_def ConfigMapEqual_def)
    note en = ensuresD(1,2) [OF this step]
    have frame: "\<forall>k. k \<noteq> ?k \<longrightarrow> v w' k = v w k" using en(2) gen by simp
    then have "\<forall>k \<in> config_reads r cr. v w' k = v w k" using apart by metis
    then have "file_at r cr (v w') fl" using y(1) file_at_reads [of r cr "v w'" "v w"] by simp
    then have "holds_file r cr (v w')" if "e = None"
      using en(1) [OF that] y(2) unfolding holds_file_def y(3) by blast
    with frame show ?thesis by blast
  qed
  then show "e = None \<Longrightarrow> holds_file r cr (v w')" "k \<noteq> ?k \<Longrightarrow> v w' k = v w k" by blast+
qed

lemma holds_file_keys: "on_keys (insert (app_config_key r) (config_reads r cr)) (holds_file r cr)"
  unfolding on_keys_def
proof (intro allI impI)
  fix f g :: "okey \<Rightarrow> kobject option" assume "\<forall>k \<in> insert (app_config_key r) (config_reads r cr). f k = g k"
  then show "holds_file r cr f = holds_file r cr g" using file_at_reads [of r cr f g] by (simp add: holds_file_def)
qed

lemma ensures_app_config:
  assumes "api_ok r v" "walk_ok r v" "app_config_key r \<notin> config_reads r cr"
  shows "ensures v (insert (app_config_key r) (config_reads r cr)) (holds_file r cr) (reconcileOLSConfigMap r cr)"
  unfolding ensures_def using holds_file_keys reconcileOLSConfigMap_run [OF assms] by blast

subsection \<open>Metrics, network policy and rules\<close>

lemma ensures_spec_only:
  assumes api: "api_ok r v" and d: "key_of d = k" "kind_of (k_payload d) \<notin> {Deployment, Service, OLSConfigKind'}"
    and same: "\<And>s. same s \<Longrightarrow> spec_current d s"
  shows "ensures v {k} (\<lambda>f. \<exists>s. f k = Some s \<and> spec_current d s)
    (create_or_update r eg ec eu k d same (\<lambda>found. found\<lparr>k_payload := k_payload d\<rparr>))"
proof (rule ensures_create_or_update [OF api d(1)])
  show "spec_current d s" if "stored_as d s" for s
    using stored_plain [OF that] d(2) by (simp add: spec_current_def)
  show "spec_current d s" if "stored_as (ob\<lparr>k_payload := k_payload d\<rparr>) s" for ob s
    using stored_plain [OF that] d(2) by (simp add: spec_current_def)
  show "key_of (ob\<lparr>k_payload := k_payload d\<rparr>) = k" if "key_of ob = k" for ob
    using that d(1) by (auto simp: key_of_def)
qed (auto simp: keeps_life_def same)

definition metrics_secret_ok :: "kobject \<Rightarrow> bool" where
  "metrics_secret_ok s = (secret_type (k_payload s) = SecretTypeServiceAccountToken \<and>
     recorded s ''kubernetes.io/service-account.name'' = MetricsReaderServiceAccountName)"

lemma ensures_metrics_secret:
  assumes api: "api_ok r v"
  shows "ensures v {app_key r Secret MetricsReaderServiceAccountTokenSecretName}
    (\<lambda>f. localDev r \<or> (\<exists>s. f (app_key r Secret MetricsReaderServiceAccountTokenSecretName) = Some s \<and> metrics_secret_ok s))
    (reconcileMetricsReaderSecret r cr)"
proof (cases "localDev r")
  case True
  then show ?thesis by (simp add: reconcileMetricsReaderSecret_def ensures_def on_keys_def)
next
  case False
  let ?k = "app_key r Secret MetricsReaderServiceAccountTokenSecretName" and ?d = "GenerateMetricsReaderSecret r cr"
  let ?m = "\<lambda>found. found\<lparr>k_payload := PSecret (secret_data (k_payload found)) SecretTypeServiceAccountToken,
     k_meta := set_annotation ''kubernetes.io/service-account.name'' MetricsReaderServiceAccountName (k_meta found)\<rparr>"
  have d: "key_of ?d = ?k" "kind_of (k_payload ?d) = Secret" "metrics_secret_ok ?d"
    by (simp_all add: GenerateMetricsReaderSecret_def key_of_def set_controller_def new_meta_def metrics_secret_ok_def
        recorded_def nil_map_def zlookup_def)
  have m: "metrics_secret_ok (?m ob)" for ob by (simp add: metrics_secret_ok_def recorded_annotation)
  have ok: "metrics_secret_ok s" if "stored_as ob s" "metrics_secret_ok ob" "kind_of (k_payload ob) = Secret" for ob s
    using stored_plain [OF that(1)] recorded_stored [OF that(1)] that(2,3) by (simp add: metrics_secret_ok_def)
  have "ensures v {?k} (\<lambda>f. \<exists>s. f ?k = Some s \<and> metrics_secret_ok s) (reconcileMetricsReaderSecret r cr)"
    unfolding reconcileMetricsReaderSecret_def metrics_secret_ok_def [symmetric] using False
    by (simp, intro ensures_create_or_update [OF api d(1)])
      (auto simp: keeps_life_def key_of_def set_annotation_def intro: ok [OF _ d(3,2)] ok [OF _ m])
  then show ?thesis using False by simp
qed

subsection \<open>Image streams\<close>

lemma for_each_keeps:
  assumes "\<And>x w e w'. x \<in> set xs \<Longrightarrow> run_state (m x) w = (e, w') \<Longrightarrow> P w \<Longrightarrow> P w'"
    "run_state (for_each m xs) w = (e, w')" "P w"
  shows "P w'"
  using assms
proof (induction xs arbitrary: w)
  case (Cons x xs)
  obtain e1 w1 where x: "run_state (m x) w = (e1, w1)" by force
  have "P w1" using Cons.prems(1) [OF _ x] Cons.prems(3) by simp
  moreover have "P w'" if "run_state (for_each m xs) w1 = (e, w')" "P w1"
    by (rule Cons.IH [OF _ that]) (rule Cons.prems(1), simp_all)
  ultimately show ?case using Cons.prems(2) x by (cases e1) auto
qed simp

text \<open>What every step of a loop establishes for its element and keeps for the others holds for all at the end.\<close>

lemma for_each_all:
  assumes "\<And>x w w'. x \<in> set xs \<Longrightarrow> run_state (m x) w = (None, w') \<Longrightarrow> P x w'"
    "\<And>x y w e w'. x \<in> set xs \<Longrightarrow> run_state (m x) w = (e, w') \<Longrightarrow> P y w \<Longrightarrow> P y w'"
    "run_state (for_each m xs) w = (None, w')" "y \<in> set xs"
  shows "P y w'"
  using assms
proof (induction xs arbitrary: w)
  case (Cons x xs)
  obtain e1 w1 where x: "run_state (m x) w = (e1, w1)" by force
  with Cons.prems(3) have none: "e1 = None" and rest: "run_state (for_each m xs) w1 = (None, w')"
    by (cases e1; simp)+
  show ?case
  proof (cases "y \<in> set xs")
    case True
    show ?thesis by (rule Cons.IH [OF _ _ rest True]) (auto intro: Cons.prems(1,2))
  next
    case False
    then have "P y w1" using Cons.prems(1) [of x w w1] Cons.prems(4) x none by simp
    then show ?thesis by (rule for_each_keeps [OF _ rest, rotated]) (auto intro: Cons.prems(2))
  qed
qed simp

definition stream_keys :: "'w reconciler \<Rightarrow> okey set" where
  "stream_keys r = {k. fst k = ImageStream \<and> (GetNamespace r = [] \<or> fst (snd k) = GetNamespace r)}"

definition streams_current :: "'w reconciler \<Rightarrow> OLSConfig \<Rightarrow> (okey \<Rightarrow> kobject option) \<Rightarrow> bool" where
  "streams_current r cr f =
     ((\<forall>name want. fmlookup (desired_streams r cr) name = Some want \<longrightarrow>
         (\<exists>s. f (app_key r ImageStream name) = Some s \<and> ImageStreamEqual want s)) \<and>
      (\<forall>s. f (key_of s) = Some s \<and> selected ImageStream (GetNamespace r) GenerateAppServerSelectorLabels s \<longrightarrow>
         fmlookup (desired_streams r cr) (m_name (k_meta s)) \<noteq> None \<or> m_deleting (k_meta s)))"

lemma selected_key: "selected ImageStream (GetNamespace r) sel s \<Longrightarrow> key_of s \<in> stream_keys r"
  by (auto simp: selected_def stream_keys_def key_of_def)

lemma streams_current_keys: "on_keys (stream_keys r) (streams_current r cr)"
  unfolding on_keys_def
proof (intro allI impI)
  fix f g :: "okey \<Rightarrow> kobject option" assume same: "\<forall>k \<in> stream_keys r. f k = g k"
  have "f (app_key r ImageStream name) = g (app_key r ImageStream name)" for name
    using same by (simp add: stream_keys_def)
  moreover have "(f (key_of s) = Some s \<and> selected ImageStream (GetNamespace r) GenerateAppServerSelectorLabels s) =
      (g (key_of s) = Some s \<and> selected ImageStream (GetNamespace r) GenerateAppServerSelectorLabels s)" for s
    using same selected_key [of r GenerateAppServerSelectorLabels s] by auto
  ultimately show "streams_current r cr f = streams_current r cr g" by (simp only: streams_current_def)
qed

lemma desired_streams_lookup:
  assumes "fmlookup (desired_streams r cr) name = Some want"
  shows "key_of want = app_key r ImageStream name \<and> kind_of (k_payload want) = ImageStream"
proof -
  have "\<exists>img. name = ImageStreamNameFor (sha1_hex r) img \<and> want = image_stream r cr img"
    if "fmlookup (fold (\<lambda>img. fmupd (ImageStreamNameFor (sha1_hex r) img) (image_stream r cr img)) imgs fmempty) name = Some want"
    for imgs
    using that by (induction imgs rule: rev_induct) (auto split: if_splits)
  from this [OF assms [unfolded desired_streams_def]] show ?thesis
    by (auto simp: image_stream_def key_of_def set_controller_def new_meta_def)
qed

lemma write_stream_run:
  assumes "api_ok r v" "fmlookup (desired_streams r cr) name = Some want"
    "run_state (write_stream r name want) w = (e, w')"
  shows "(e = None \<longrightarrow> (\<exists>s. v w' (app_key r ImageStream name) = Some s \<and> ImageStreamEqual want s)) \<and>
    (\<forall>k. k \<noteq> app_key r ImageStream name \<longrightarrow> v w' k = v w k)"
proof -
  note want = desired_streams_lookup [OF assms(2)]
  have "ensures v {app_key r ImageStream name} (\<lambda>f. \<exists>s. f (app_key r ImageStream name) = Some s \<and> ImageStreamEqual want s)
      (write_stream r name want)"
    unfolding write_stream_def
  proof (rule ensures_create_or_update [OF assms(1)])
    show "ImageStreamEqual want s" if "stored_as want s" for s
      using stored_plain [OF that] that want by (simp add: ImageStreamEqual_def stored_as_def)
    show "ImageStreamEqual want s" if "stored_as (update_stream want ob) s" for ob s
      using stored_plain [OF that] that want by (simp add: ImageStreamEqual_def stored_as_def update_stream_def)
    show "key_of (update_stream want ob) = app_key r ImageStream name" if "key_of ob = app_key r ImageStream name" for ob
      using that want by (auto simp: key_of_def update_stream_def)
  qed (use want in \<open>auto simp: keeps_life_def update_stream_def\<close>)
  from ensuresD(1,2) [OF this assms(3)] show ?thesis by simp
qed

lemma delete_stream_run:
  assumes "api_ok r v" "run_state (delete_stream r desired ob) w = (e, w')"
  shows "\<forall>k. k \<noteq> key_of ob \<or> fmlookup desired (m_name (k_meta ob)) \<noteq> None \<longrightarrow> v w' k = v w k"
    "e = None \<Longrightarrow> fmlookup desired (m_name (k_meta ob)) \<noteq> None \<or> gone (v w' (key_of ob))"
    "gone (v w k) \<Longrightarrow> gone (v w' k)"
proof -
  obtain d w1 where d: "run_state (cl_delete r (key_of ob)) w = (d, w1)" by force
  note del = api_delete [OF assms(1) d]
  show "\<forall>k. k \<noteq> key_of ob \<or> fmlookup desired (m_name (k_meta ob)) \<noteq> None \<longrightarrow> v w' k = v w k"
    using assms(2) d del(4) by (auto simp: delete_stream_def split: if_splits)
  show "e = None \<Longrightarrow> fmlookup desired (m_name (k_meta ob)) \<noteq> None \<or> gone (v w' (key_of ob))"
    using assms(2) d del(1-3) gone_deleted_as
    by (cases d) (auto simp: delete_stream_def gone_def split: if_splits option.splits)
  show "gone (v w k) \<Longrightarrow> gone (v w' k)"
    using assms(2) d del(1,2) gone_deleted_as
    by (cases d; cases "fmlookup desired (m_name (k_meta ob)) = None") (auto simp: delete_stream_def)
qed

lemma delete_streams_run:
  assumes api: "api_ok r v" and run: "run_state (for_each (delete_stream r desired) obs) w = (e, w')"
  shows "(\<And>ob. ob \<in> set obs \<Longrightarrow> k = key_of ob \<Longrightarrow> fmlookup desired (m_name (k_meta ob)) \<noteq> None) \<Longrightarrow> v w' k = v w k"
    "e = None \<Longrightarrow> ob \<in> set obs \<Longrightarrow> fmlookup desired (m_name (k_meta ob)) \<noteq> None \<or> gone (v w' (key_of ob))"
proof -
  show "v w' k = v w k" if k: "\<And>ob. ob \<in> set obs \<Longrightarrow> k = key_of ob \<Longrightarrow> fmlookup desired (m_name (k_meta ob)) \<noteq> None"
  proof (rule for_each_keeps [OF _ run, where P = "\<lambda>x. v x k = v w k"])
    fix ob wa e w' assume "ob \<in> set obs" "run_state (delete_stream r desired ob) wa = (e, w')" "v wa k = v w k"
    then show "v w' k = v w k" using delete_stream_run(1) [OF api] k by metis
  qed simp
  show "fmlookup desired (m_name (k_meta ob)) \<noteq> None \<or> gone (v w' (key_of ob))" if "e = None" "ob \<in> set obs"
    by (rule for_each_all [where P = "\<lambda>ob w. fmlookup desired (m_name (k_meta ob)) \<noteq> None \<or> gone (v w (key_of ob))",
        OF _ _ run [unfolded that(1)] that(2)])
      (use delete_stream_run(2,3) [OF api] in blast)+
qed

lemma write_streams_run:
  assumes api: "api_ok r v" and names: "mset names = mset (sorted_list_of_fset (fmdom (desired_streams r cr)))"
    and run: "run_state (for_each (\<lambda>name. write_stream r name (the (fmlookup (desired_streams r cr) name))) names) w = (e, w')"
  shows "(e = None \<longrightarrow> (\<forall>name want. fmlookup (desired_streams r cr) name = Some want \<longrightarrow>
      (\<exists>s. v w' (app_key r ImageStream name) = Some s \<and> ImageStreamEqual want s)))"
    "(\<And>name. fmlookup (desired_streams r cr) name \<noteq> None \<Longrightarrow> k \<noteq> app_key r ImageStream name) \<Longrightarrow> v w' k = v w k"
proof -
  let ?D = "desired_streams r cr"
  have "set names = fset (fmdom ?D)" using mset_eq_setD [OF names] by simp
  then have set: "name \<in> set names \<longleftrightarrow> fmlookup ?D name \<noteq> None" for name by (simp add: fmlookup_dom_iff)
  have "distinct names" using mset_eq_imp_distinct_iff [OF names] by (simp add: sorted_list_of_fset.rep_eq)
  then have keys: "distinct (map (app_key r ImageStream) names)" by (simp add: distinct_map inj_on_def)
  have all: "(e = None \<longrightarrow> (\<forall>n \<in> set names. \<exists>s. v w' (app_key r ImageStream n) = Some s \<and> ImageStreamEqual (the (fmlookup ?D n)) s)) \<and>
      (\<forall>k. k \<notin> app_key r ImageStream ` set names \<longrightarrow> v w' k = v w k)"
  proof (rule for_each_establishes [where R = "{}", OF _ _ keys _ run])
    fix n w e w' assume n: "n \<in> set names" and "run_state (write_stream r n (the (fmlookup ?D n))) w = (e, w')"
    then show "(e = None \<longrightarrow> (\<exists>s. v w' (app_key r ImageStream n) = Some s \<and> ImageStreamEqual (the (fmlookup ?D n)) s)) \<and>
        (\<forall>k. k \<noteq> app_key r ImageStream n \<longrightarrow> v w' k = v w k)"
      using write_stream_run [OF api, of cr n] set [of n] by auto
  qed (simp_all add: on_keys_object)
  show "e = None \<longrightarrow> (\<forall>name want. fmlookup ?D name = Some want \<longrightarrow>
      (\<exists>s. v w' (app_key r ImageStream name) = Some s \<and> ImageStreamEqual want s))"
    using all set by (metis option.distinct(1) option.sel)
  show "v w' k = v w k" if "\<And>name. fmlookup ?D name \<noteq> None \<Longrightarrow> k \<noteq> app_key r ImageStream name"
    using all set that by blast
qed

lemma ensures_streams:
  assumes api: "api_ok r v" and walk: "walk_ok r v"
  shows "ensures v (stream_keys r) (streams_current r cr) (reconcileImageStreams r cr)"
proof -
  let ?D = "desired_streams r cr" and ?sel = "selected ImageStream (GetNamespace r) GenerateAppServerSelectorLabels"
  have "(e = None \<longrightarrow> streams_current r cr (v w')) \<and> (\<forall>k. k \<notin> stream_keys r \<longrightarrow> v w' k = v w k)"
    if run: "run_state (reconcileImageStreams r cr) w = (e, w')" for w e w'
  proof -
    obtain l w1 where l: "run_state (cl_list r ImageStream (GetNamespace r) GenerateAppServerSelectorLabels) w = (l, w1)" by force
    note ls = api_list [OF api l]
    show ?thesis
    proof (cases l)
      case (Inl err)
      then show ?thesis using run l ls(1) by (auto simp: reconcileImageStreams_def try_or_def Let_def)
    next
      case (Inr obs)
      obtain names w2 where n: "run_state (walk_map r (sorted_list_of_fset (fmdom ?D))) w1 = (names, w2)" by force
      then have names: "mset names = mset (sorted_list_of_fset (fmdom ?D))" "v w2 = v w"
        using walk ls(1) unfolding walk_ok_def by auto
      obtain e1 w3 where p1: "run_state (for_each (\<lambda>name. write_stream r name (the (fmlookup ?D name))) names) w2 = (e1, w3)" by force
      note wr = write_streams_run [OF api names(1) p1]
      have frame1: "v w3 k = v w k" if "k \<notin> stream_keys r" for k
      proof -
        have "v w3 k = v w2 k" by (rule wr(2)) (use that in \<open>auto simp: stream_keys_def\<close>)
        then show ?thesis using names(2) by simp
      qed
      show ?thesis
      proof (cases e1)
        case (Some err)
        then show ?thesis using run l Inr n p1 frame1 by (auto simp: reconcileImageStreams_def try_or_def Let_def and_then_def)
      next
        case None
        then have p2: "run_state (for_each (delete_stream r ?D) obs) w3 = (e, w')"
          using run l Inr n p1 by (auto simp: reconcileImageStreams_def try_or_def Let_def and_then_def)
        note dl = delete_streams_run [OF api p2]
        have mem: "ob \<in> set obs \<longleftrightarrow> ?sel ob \<and> v w (key_of ob) = Some ob" for ob using ls(2) [OF Inr] .
        have "v w' k = v w k" if "k \<notin> stream_keys r" for k
          using dl(1) [of k] frame1 [OF that] that selected_key mem by auto
        moreover have "streams_current r cr (v w')" if ok: "e = None"
          unfolding streams_current_def
        proof (intro conjI allI impI)
          fix name want assume want: "fmlookup ?D name = Some want"
          have "v w' (app_key r ImageStream name) = v w3 (app_key r ImageStream name)"
            by (rule dl(1)) (use want in \<open>auto simp: key_of_def\<close>)
          then show "\<exists>s. v w' (app_key r ImageStream name) = Some s \<and> ImageStreamEqual want s"
            using wr(1) None want by simp
        next
          fix s assume s: "v w' (key_of s) = Some s \<and> ?sel s"
          show "fmlookup ?D (m_name (k_meta s)) \<noteq> None \<or> m_deleting (k_meta s)"
          proof (rule ccontr)
            assume c: "\<not> ?thesis"
            then have "v w3 (key_of s) = v w2 (key_of s)" by (intro wr(2)) (auto simp: key_of_def)
            then have w3: "v w3 (key_of s) = v w (key_of s)" using names(2) by simp
            show False
            proof (cases "\<exists>ob \<in> set obs. key_of ob = key_of s")
              case True
              then obtain ob where ob: "ob \<in> set obs" "key_of ob = key_of s" by blast
              then have "m_name (k_meta ob) = m_name (k_meta s)" by (simp add: key_of_def)
              then show False using dl(2) [OF ok ob(1)] ob(2) c s by (simp add: gone_def)
            next
              case False
              then have "v w' (key_of s) = v w (key_of s)" using dl(1) [of "key_of s"] w3 by force
              then show False using False s mem by auto
            qed
          qed
        qed
        ultimately show ?thesis by blast
      qed
    qed
  qed
  with streams_current_keys show ?thesis unfolding ensures_def by blast
qed

section \<open>The resource phase\<close>

lemma ensures_same:
  assumes "ensures v K G m"
    "\<And>w. snd (run_state n w) = snd (run_state m w) \<and> (fst (run_state n w) = None \<longleftrightarrow> fst (run_state m w) = None)"
  shows "ensures v K G n"
  using assms unfolding ensures_def by (metis fst_conv prod.collapse snd_conv)

lemma ensures_run_named:
  assumes "list_all2 (\<lambda>(n, t) (K, G). ensures v K G (t r cr)) ts specs" "disjoint_specs specs"
  shows "ensures v (\<Union> (fst ` set specs)) (\<lambda>f. \<forall>(K, G) \<in> set specs. G f) (run_named r cr ts)"
proof (rule ensures_same [OF ensures_run_all [OF assms]])
  fix w
  obtain es w' where e: "run_through (map (\<lambda>(n, t). t r cr) ts) w = (es, w')" by force
  let ?m = "do { es \<leftarrow> run_all r cr ts; ret (if es \<noteq> [] then Some (errors_join es) else None) }"
  show "snd (run_state (run_named r cr ts) w) = snd (run_state ?m w) \<and>
      (fst (run_state (run_named r cr ts) w) = None \<longleftrightarrow> fst (run_state ?m w) = None)"
    using same_failures [of ts es]
    by (simp only: run_named_def run_state_bind run_all_through failed_names_run_all e Let_def
        prod.case run_state_return) (simp only: fst_conv snd_conv, auto simp del: concat_eq_Nil_conv)
qed

text \<open>The two tasks that only look for the user's ConfigMaps.\<close>

lemma ensures_reads:
  assumes "api_ok r v"
  shows "ensures v {} (\<lambda>f. True) (ReconcileOLSAdditionalCAConfigMap r cr)"
    "ensures v {} (\<lambda>f. True) (ReconcileProxyCAConfigMap r cr)"
proof -
  have "v w' = v w" if "run_state (ReconcileOLSAdditionalCAConfigMap r cr) w = (e, w')" for w e w'
    using that api_get(1) [OF assms]
    by (cases "o_AdditionalCAConfigMapRef (s_OLSConfig (cr_Spec cr))")
      (auto simp: ReconcileOLSAdditionalCAConfigMap_def split: prod.splits)
  then show "ensures v {} (\<lambda>f. True) (ReconcileOLSAdditionalCAConfigMap r cr)"
    by (simp add: ensures_def on_keys_def)
  have "v w' = v w" if "run_state (ReconcileProxyCAConfigMap r cr) w = (e, w')" for w e w'
    using that api_get(1) [OF assms]
    by (cases "o_ProxyConfig (s_OLSConfig (cr_Spec cr))")
      (auto simp: ReconcileProxyCAConfigMap_def Let_def split: prod.splits if_splits)
  then show "ensures v {} (\<lambda>f. True) (ReconcileProxyCAConfigMap r cr)"
    by (simp add: ensures_def on_keys_def)
qed

definition app_resource_specs :: "'w reconciler \<Rightarrow> OLSConfig \<Rightarrow> task_spec list" where
  "app_resource_specs r cr =
     [({app_key r ServiceAccount OLSAppServerServiceAccountName},
         \<lambda>f. f (app_key r ServiceAccount OLSAppServerServiceAccountName) \<noteq> None),
      ({(ClusterRole, [], OLSAppServerSARRoleName)}, \<lambda>f. f (ClusterRole, [], OLSAppServerSARRoleName) \<noteq> None),
      ({(ClusterRoleBinding, [], OLSAppServerSARRoleBindingName)},
         \<lambda>f. f (ClusterRoleBinding, [], OLSAppServerSARRoleBindingName) \<noteq> None),
      (insert (app_config_key r) (config_reads r cr), holds_file r cr),
      ({}, \<lambda>f. True),
      ({app_key r Secret MetricsReaderServiceAccountTokenSecretName},
         \<lambda>f. localDev r \<or> (\<exists>s. f (app_key r Secret MetricsReaderServiceAccountTokenSecretName) = Some s \<and> metrics_secret_ok s)),
      ({app_key r NetworkPolicy OLSAppServerNetworkPolicyName},
         \<lambda>f. \<exists>s. f (app_key r NetworkPolicy OLSAppServerNetworkPolicyName) = Some s \<and>
           spec_current (GenerateAppServerNetworkPolicy r cr) s),
      ({}, \<lambda>f. True),
      (stream_keys r, streams_current r cr)]"

lemma app_object_keys:
  "key_of (GenerateServiceAccount_app r cr) = app_key r ServiceAccount OLSAppServerServiceAccountName"
  "key_of (GenerateSARClusterRole r cr) = (ClusterRole, [], OLSAppServerSARRoleName)"
  "key_of (generateSARClusterRoleBinding r cr) = (ClusterRoleBinding, [], OLSAppServerSARRoleBindingName)"
  "key_of (GenerateAppServerNetworkPolicy r cr) = app_key r NetworkPolicy OLSAppServerNetworkPolicyName"
  by (simp_all add: GenerateServiceAccount_app_def GenerateServiceAccount_def GenerateSARClusterRole_def
      generateSARClusterRoleBinding_def GenerateAppServerNetworkPolicy_def key_of_def set_controller_def new_meta_def)

lemma ensures_app_policy:
  assumes "api_ok r v"
  shows "ensures v {app_key r NetworkPolicy OLSAppServerNetworkPolicyName}
    (\<lambda>f. \<exists>s. f (app_key r NetworkPolicy OLSAppServerNetworkPolicyName) = Some s \<and>
       spec_current (GenerateAppServerNetworkPolicy r cr) s) (reconcileAppServerNetworkPolicy r cr)"
  unfolding reconcileAppServerNetworkPolicy_def Let_def
  by (rule ensures_spec_only [OF assms app_object_keys(4)])
    (simp_all add: GenerateAppServerNetworkPolicy_def NetworkPolicyEqual_def labels_and_spec_equal_def spec_current_def)

lemma ensures_app_accounts:
  assumes "api_ok r v"
  shows "ensures v {app_key r ServiceAccount OLSAppServerServiceAccountName}
      (\<lambda>f. f (app_key r ServiceAccount OLSAppServerServiceAccountName) \<noteq> None) (reconcileServiceAccount_app r cr)"
    "ensures v {(ClusterRole, [], OLSAppServerSARRoleName)} (\<lambda>f. f (ClusterRole, [], OLSAppServerSARRoleName) \<noteq> None)
      (reconcileSARRole r cr)"
    "ensures v {(ClusterRoleBinding, [], OLSAppServerSARRoleBindingName)}
      (\<lambda>f. f (ClusterRoleBinding, [], OLSAppServerSARRoleBindingName) \<noteq> None) (reconcileSARRoleBinding r cr)"
  unfolding reconcileServiceAccount_app_def reconcileSARRole_def reconcileSARRoleBinding_def
  by (intro settles_ensures settles_create_missing assms app_object_keys)+

lemma ensures_app_resources:
  assumes api: "api_ok r v" and walk: "walk_ok r v" and apart: "app_config_key r \<notin> config_reads r cr"
  shows "ensures v (\<Union> (fst ` set (app_resource_specs r cr))) (\<lambda>f. \<forall>(K, G) \<in> set (app_resource_specs r cr). G f)
    (ReconcileAppServerResources r cr)"
  unfolding ReconcileAppServerResources_def
proof (rule ensures_run_named)
  show "list_all2 (\<lambda>(n, t) (K, G). ensures v K G (t r cr)) app_resource_tasks (app_resource_specs r cr)"
    unfolding app_resource_tasks_def app_resource_specs_def
    using ensures_app_config [OF assms] ensures_reads [OF api] ensures_metrics_secret [OF api] ensures_streams [OF api walk]
      ensures_app_policy [OF api] ensures_app_accounts [OF api]
    by (simp only: list_all2_Cons list_all2_Nil prod.case simp_thms)
  show "disjoint_specs (app_resource_specs r cr)"
    by (auto simp: disjoint_specs_def app_resource_specs_def config_reads_def stream_keys_def
        MetricsReaderServiceAccountTokenSecretName_def TelemetryPullSecretName_def)
qed

definition app_resource_keys :: "'w reconciler \<Rightarrow> okey set" where
  "app_resource_keys r = {app_key r ServiceAccount OLSAppServerServiceAccountName, (ClusterRole, [], OLSAppServerSARRoleName),
     (ClusterRoleBinding, [], OLSAppServerSARRoleBindingName), app_config_key r,
     app_key r Secret MetricsReaderServiceAccountTokenSecretName, app_key r NetworkPolicy OLSAppServerNetworkPolicyName} \<union>
     stream_keys r"

lemma app_resource_task_frame:
  assumes api: "api_ok r v" and walk: "walk_ok r v" and apart: "app_config_key r \<notin> config_reads r cr"
    and task: "(n, t) \<in> set app_resource_tasks" and run: "run_state (t r cr) w = (e, w')" and k: "k \<notin> app_resource_keys r"
  shows "v w' k = v w k"
proof -
  have keys: "k \<notin> {app_key r ServiceAccount OLSAppServerServiceAccountName}" "k \<notin> {(ClusterRole, [], OLSAppServerSARRoleName)}"
    "k \<notin> {(ClusterRoleBinding, [], OLSAppServerSARRoleBindingName)}" "k \<noteq> app_config_key r"
    "k \<notin> {app_key r Secret MetricsReaderServiceAccountTokenSecretName}"
    "k \<notin> {app_key r NetworkPolicy OLSAppServerNetworkPolicyName}" "k \<notin> stream_keys r" "k \<notin> {}"
    using k by (simp_all add: app_resource_keys_def)
  consider "t = reconcileServiceAccount_app" | "t = reconcileSARRole" | "t = reconcileSARRoleBinding" | "t = reconcileOLSConfigMap"
    | "t = ReconcileOLSAdditionalCAConfigMap" | "t = reconcileMetricsReaderSecret" | "t = reconcileAppServerNetworkPolicy"
    | "t = ReconcileProxyCAConfigMap" | "t = reconcileImageStreams"
    using task by (auto simp: app_resource_tasks_def)
  then show ?thesis
    by cases (use run keys in \<open>blast dest: ensuresD(2) [OF ensures_app_accounts(1) [OF api]] ensuresD(2) [OF ensures_app_accounts(2) [OF api]]
      ensuresD(2) [OF ensures_app_accounts(3) [OF api]] reconcileOLSConfigMap_run(2) [OF api walk apart]
      ensuresD(2) [OF ensures_reads(1) [OF api]] ensuresD(2) [OF ensures_metrics_secret [OF api]]
      ensuresD(2) [OF ensures_app_policy [OF api]] ensuresD(2) [OF ensures_reads(2) [OF api]]
      ensuresD(2) [OF ensures_streams [OF api walk]]\<close>)+
qed

lemma app_resources_facts:
  assumes "api_ok r v" "walk_ok r v" "app_config_key r \<notin> config_reads r cr"
    "run_state (ReconcileAppServerResources r cr) w = (e, w')"
  shows "(e = None \<longrightarrow> v w' (app_key r ServiceAccount OLSAppServerServiceAccountName) \<noteq> None \<and>
      v w' (ClusterRole, [], OLSAppServerSARRoleName) \<noteq> None \<and>
      v w' (ClusterRoleBinding, [], OLSAppServerSARRoleBindingName) \<noteq> None \<and> holds_file r cr (v w') \<and>
      (localDev r \<or> (\<exists>s. v w' (app_key r Secret MetricsReaderServiceAccountTokenSecretName) = Some s \<and> metrics_secret_ok s)) \<and>
      (\<exists>s. v w' (app_key r NetworkPolicy OLSAppServerNetworkPolicyName) = Some s \<and>
         spec_current (GenerateAppServerNetworkPolicy r cr) s) \<and>
      streams_current r cr (v w')) \<and>
    (\<forall>k. k \<notin> app_resource_keys r \<longrightarrow> v w' k = v w k)"
proof
  show "\<forall>k. k \<notin> app_resource_keys r \<longrightarrow> v w' k = v w k"
  proof (rule run_named_keeps [where P = "\<lambda>x. \<forall>k. k \<notin> app_resource_keys r \<longrightarrow> v x k = v w k"])
    show "run_state (run_named r cr app_resource_tasks) w = (e, w')"
      using assms(4) by (simp add: ReconcileAppServerResources_def)
    fix n t wa ea wb assume "(n, t) \<in> set app_resource_tasks" "run_state (t r cr) wa = (ea, wb)"
      "\<forall>k. k \<notin> app_resource_keys r \<longrightarrow> v wa k = v w k"
    then show "\<forall>k. k \<notin> app_resource_keys r \<longrightarrow> v wb k = v w k"
      using app_resource_task_frame [OF assms(1-3)] by metis
  qed simp
qed (use ensuresD(1) [OF ensures_app_resources [OF assms(1-3)] assms(4)] in \<open>simp add: app_resource_specs_def\<close>)


subsection \<open>A sample run\<close>

lemma named_succeed:
  assumes "\<And>n t w. (n, t) \<in> set ts \<Longrightarrow> P w \<Longrightarrow> fst (run_state (t r cr) w) = None \<and> P (snd (run_state (t r cr) w))" "P w"
  shows "fst (run_state (run_named r cr ts) w) = None"
proof -
  have "fst (run_state (failed_names r cr ts) w) = []" using assms
  proof (induction ts arbitrary: w)
    case (Cons nt ts)
    obtain n t where nt: "nt = (n, t)" by force
    obtain e w1 where t: "run_state (t r cr) w = (e, w1)" by force
    have "e = None" "P w1" using Cons.prems(1) [of n t w] Cons.prems(2) nt t by simp_all
    moreover have "fst (run_state (failed_names r cr ts) w1) = []"
      by (rule Cons.IH) (use Cons.prems(1) \<open>P w1\<close> in auto)
    ultimately show ?case using t nt by (auto split: prod.splits)
  qed simp
  then show ?thesis by (auto simp: run_named_def split: prod.splits)
qed

lemma mem_walk_ok: "walk_ok (mem_reconciler op) mem_view"
  by (simp add: walk_ok_def)

abbreviation app_sample :: "mem reconciler" where
  "app_sample \<equiv> mem_reconciler (no_options ''ols'')"

lemma app_cluster_view:
  "mem_view app_cluster k = (if k = (ConfigMap, ''ols'', ''kube-root-ca.crt'') then Some (root_ca ''ols'') else None)"
  by (auto simp: mem_view_def app_cluster_def root_ca_def key_of_def new_meta_def)

text \<open>A resource without providers, proxy, certificates and retrieval images.\<close>

definition plain_cr :: "OLSConfig \<Rightarrow> bool" where
  "plain_cr cr = (llm_Providers (s_LLMConfig (cr_Spec cr)) = [] \<and> o_ProxyConfig (s_OLSConfig (cr_Spec cr)) = None \<and>
     o_AdditionalCAConfigMapRef (s_OLSConfig (cr_Spec cr)) = None \<and> o_RAG (s_OLSConfig (cr_Spec cr)) = [] \<and>
     o_TLSSecurityProfile (s_OLSConfig (cr_Spec cr)) = None)"

definition app_ready :: "OLSConfig \<Rightarrow> mem \<Rightarrow> bool" where
  "app_ready cr w = (mem_view w (ConfigMap, ''ols'', ''kube-root-ca.crt'') = Some (root_ca ''ols'') \<and>
     mem_view w (APIServer, [], APIServerName) = None \<and>
     (let ud = o_UserDataCollection (s_OLSConfig (cr_Spec cr)) in ud_FeedbackDisabled ud \<and> ud_TranscriptsDisabled ud \<or>
        mem_view w (Secret, TelemetryPullSecretNamespace, TelemetryPullSecretName) = None))"

lemma app_sample_apart: "plain_cr cr \<Longrightarrow> app_config_key app_sample \<notin> config_reads app_sample cr"
  by (simp add: config_reads_def plain_cr_def OLSConfigCmName_def)

lemma app_sample_outside:
  "(ConfigMap, ''ols'', ''kube-root-ca.crt'') \<notin> app_resource_keys app_sample"
  "(Secret, TelemetryPullSecretNamespace, TelemetryPullSecretName) \<notin> app_resource_keys app_sample"
  "(APIServer, [], APIServerName) \<notin> app_resource_keys app_sample"
  by (simp_all add: app_resource_keys_def stream_keys_def OLSConfigCmName_def TelemetryPullSecretName_def
      MetricsReaderServiceAccountTokenSecretName_def)

lemma mem_app_config:
  assumes cr: "plain_cr cr" and ready: "app_ready cr w"
  shows "fst (run_state (reconcileOLSConfigMap app_sample cr) w) = None"
proof -
  have ns: "GetNamespace app_sample = ''ols''" by (simp add: GetNamespace_def no_options_def)
  obtain x w1 where x: "run_state (GenerateOLSConfigMap app_sample cr) w = (x, w1)" by force
  have one: "sorted_list_of_fset {|k|} = [k]" for k :: string by (simp add: sorted_list_of_fset.rep_eq)
  have collect: "run_state (dataCollectorEnabled app_sample cr) w = (Inr False, w)"
    using ready by (auto simp: dataCollectorEnabled_def app_ready_def mem_get_def Let_def)
  have "\<exists>cm. x = Inr cm"
    using x ready cr collect
    by (auto simp: one zlookup_def GenerateOLSConfigMap_def build_file_def buildOLSConfig_def extra_cas_def addAdditionalCAFileNames_def
        proxy_config_def tls_profile_def buildProviderConfigs_def plain_cr_def app_ready_def
        mem_get_def ns root_ca_def cert_error_def ValidateCertificateFormat_def FetchAPIServerTlsProfile_def split: sum.splits)
  then obtain cm where cm: "x = Inr cm" ..
  obtain y where "cm = ols_config_map app_sample cr y"
    using GenerateOLSConfigMap_run [OF mem_reconciler_ok mem_walk_ok x] cm by blast
  then have "key_of cm = app_config_key app_sample" by (simp add: ols_config_map_def key_of_def set_controller_def new_meta_def)
  then show ?thesis using x cm unfolding reconcileOLSConfigMap_def try_or_def
    by (simp, intro mem_create_or_update) (auto simp: key_of_def)
qed

lemma mem_streams_none:
  assumes "o_RAG (s_OLSConfig (cr_Spec cr)) = []"
  shows "fst (run_state (reconcileImageStreams (mem_reconciler op) cr) w) = None"
proof -
  have "desired_streams (mem_reconciler op) cr = fmempty" using assms by (simp add: desired_streams_def uniqueStrings_def)
  moreover have "fst (run_state (for_each (delete_stream (mem_reconciler op) fmempty) obs) w) = None" for obs
  proof (induction obs arbitrary: w)
    case (Cons ob obs)
    have "fst (run_state (delete_stream (mem_reconciler op) fmempty ob) w) = None"
      by (auto simp: delete_stream_def mem_delete_def split: option.splits prod.splits)
    then show ?case using Cons.IH by (auto split: prod.splits option.splits)
  qed simp
  ultimately show ?thesis
    by (auto simp: reconcileImageStreams_def try_or_def Let_def mem_list_def and_then_def sorted_list_of_fset.rep_eq split: prod.splits)
qed

lemma mem_app_resources:
  assumes cr: "plain_cr cr" and ready: "app_ready cr w"
  shows "fst (run_state (ReconcileAppServerResources app_sample cr) w) = None"
  unfolding ReconcileAppServerResources_def
proof (rule named_succeed [where P = "app_ready cr", OF _ ready])
  fix n t w assume task: "(n, t) \<in> set (app_resource_tasks :: mem ReconcileTask list)" and P: "app_ready cr w"
  have "fst (run_state (t app_sample cr) w) = None"
  proof -
    consider "t = reconcileServiceAccount_app" | "t = reconcileSARRole" | "t = reconcileSARRoleBinding" | "t = reconcileOLSConfigMap"
      | "t = ReconcileOLSAdditionalCAConfigMap" | "t = reconcileMetricsReaderSecret" | "t = reconcileAppServerNetworkPolicy"
      | "t = ReconcileProxyCAConfigMap" | "t = reconcileImageStreams"
      using task by (auto simp: app_resource_tasks_def)
    then show ?thesis
    proof cases
      case 6
      have "key_of (GenerateMetricsReaderSecret app_sample cr) = app_key app_sample Secret MetricsReaderServiceAccountTokenSecretName"
        by (simp add: GenerateMetricsReaderSecret_def key_of_def set_controller_def new_meta_def)
      then show ?thesis unfolding 6 reconcileMetricsReaderSecret_def
        by (simp, intro mem_create_or_update) (auto simp: key_of_def set_annotation_def)
    next
      case 7
      have "kind_of (k_payload (GenerateAppServerNetworkPolicy app_sample cr)) = NetworkPolicy"
        by (simp add: GenerateAppServerNetworkPolicy_def)
      then show ?thesis unfolding 7 reconcileAppServerNetworkPolicy_def Let_def
        by (intro mem_create_or_update app_object_keys) (auto simp: key_of_def)
    qed (use mem_app_config [OF cr P] cr in \<open>simp_all add: reconcileServiceAccount_app_def reconcileSARRole_def reconcileSARRoleBinding_def
        mem_create_missing app_object_keys ReconcileOLSAdditionalCAConfigMap_def ReconcileProxyCAConfigMap_def mem_streams_none plain_cr_def\<close>)
  qed
  moreover have "mem_view (snd (run_state (t app_sample cr) w)) k = mem_view w k" if "k \<notin> app_resource_keys app_sample" for k
    using app_resource_task_frame [OF mem_reconciler_ok mem_walk_ok app_sample_apart [OF cr] task _ that] by (metis prod.collapse)
  ultimately show "fst (run_state (t app_sample cr) w) = None \<and> app_ready cr (snd (run_state (t app_sample cr) w))"
    using P app_sample_outside by (simp add: app_ready_def)
qed

lemma app_cluster_ready: "plain_cr (blank_cr [])" "app_ready (blank_cr []) app_cluster"
  by (simp_all add: plain_cr_def app_ready_def blank_cr_def blank_ols_def app_cluster_view)


section \<open>The Deployment phase\<close>

subsection \<open>Service and certificate\<close>

definition app_service_current :: "'w reconciler \<Rightarrow> OLSConfig \<Rightarrow> kobject \<Rightarrow> bool" where
  "app_service_current r cr s = (ServiceEqual s (GenerateService_app r cr) \<and>
     (user_tls cr \<or> recorded s ServingCertSecretAnnotationKey = OLSCertsSecretName))"

lemma GenerateService_app_simps:
  "key_of (GenerateService_app r cr) = app_key r Service OLSAppServerServiceName"
  "\<not> m_deleting (k_meta (GenerateService_app r cr))"
  "\<not> user_tls cr \<Longrightarrow> recorded (GenerateService_app r cr) ServingCertSecretAnnotationKey = OLSCertsSecretName"
  by (simp_all add: GenerateService_app_def key_of_def set_controller_def new_meta_def recorded_def nil_map_def zlookup_def)

lemma app_service_stored:
  assumes "stored_as (GenerateService_app r cr) s"
  shows "app_service_current r cr s"
proof -
  let ?sp = "\<lparr>ss_selector = GenerateAppServerSelectorLabels,
       ss_ports = [\<lparr>sp_name = ''https'', sp_protocol = ''TCP'', sp_port = OLSAppServerServicePort, sp_target = ''https''\<rparr>],
       ss_cluster_ip = []\<rparr>"
  have sp: "k_payload (GenerateService_app r cr) = PService ?sp" by (simp add: GenerateService_app_def)
  then obtain sq where sq: "k_payload s = PService sq" "service_stored ?sp sq"
    using stored_as_payload [OF assms] by auto
  then have "ss_ports sq = ss_ports ?sp" "ss_selector sq = ss_selector ?sp"
    using service_ports_stored [of "ss_ports ?sp"] by (auto simp: service_stored_def)
  then have "ServiceEqual s (GenerateService_app r cr)"
    using sp sq(1) stored_as_labels [OF assms] by (simp add: ServiceEqual_def ports_equal_def list_all_iff)
  then show ?thesis using recorded_stored [OF assms] GenerateService_app_simps(3) by (auto simp: app_service_current_def)
qed

lemma ensures_app_service:
  assumes api: "api_ok r v"
  shows "ensures v {app_key r Service OLSAppServerServiceName}
    (\<lambda>f. \<exists>s. f (app_key r Service OLSAppServerServiceName) = Some s \<and> app_service_current r cr s) (reconcileService_app r cr)"
  unfolding reconcileService_app_def Let_def create_or_update_def
proof (rule ensures_fetch [OF api on_keys_object])
  let ?d = "GenerateService_app r cr" and ?k = "app_key r Service OLSAppServerServiceName"
  fix w e w' assume "run_state (create_as r ErrCreateAPIService ?d) w = (e, w')"
  from ensures_create [OF api GenerateService_app_simps(1) _ this, of "app_service_current r cr"] app_service_stored
  show "(e = None \<longrightarrow> (\<exists>s. v w' ?k = Some s \<and> app_service_current r cr s)) \<and> (\<forall>k'. k' \<notin> {?k} \<longrightarrow> v w' k' = v w k')" by blast
next
  let ?d = "GenerateService_app r cr" and ?k = "app_key r Service OLSAppServerServiceName"
  fix ob w e w' assume ob: "v w ?k = Some ob"
    and run: "run_state (if service_unchanged cr ?d ob then ret None else update_as r ErrUpdateAPIService ?d) w = (e, w')"
  show "(e = None \<longrightarrow> (\<exists>s. v w' ?k = Some s \<and> app_service_current r cr s)) \<and> (\<forall>k'. k' \<notin> {?k} \<longrightarrow> v w' k' = v w k')"
  proof (cases "service_unchanged cr ?d ob")
    case True
    then show ?thesis using run ob GenerateService_app_simps(3) [of cr r]
      by (cases "user_tls cr") (auto simp: service_unchanged_def app_service_current_def)
  next
    case False
    obtain ue where u: "run_state (cl_update r ?d) w = (ue, w')" "e = map_option (wrapf ErrUpdateAPIService) ue"
      using run False by (auto simp: run_update_as split: prod.splits)
    note up = api_update(1,4) [OF api u(1), unfolded GenerateService_app_simps(1)]
    have "\<exists>s. v w' ?k = Some s \<and> app_service_current r cr s" if "e = None"
      using up(1) u(2) that GenerateService_app_simps(2) app_service_stored by fastforce
    then show ?thesis using up(2) by simp
  qed
qed

abbreviation app_tls_key :: "'w reconciler \<Rightarrow> OLSConfig \<Rightarrow> okey" where
  "app_tls_key r cr \<equiv> app_key r Secret (app_tls_secret cr)"

definition tls_ready :: "kobject \<Rightarrow> bool" where
  "tls_ready s = (fmlookup (secret_data (k_payload s)) ''tls.key'' \<noteq> None \<and> fmlookup (secret_data (k_payload s)) ''tls.crt'' \<noteq> None)"

definition captured_ready :: "okey \<Rightarrow> (okey \<Rightarrow> kobject option) \<Rightarrow> captured \<Rightarrow> bool" where
  "captured_ready k f l = (\<exists>s. snd l = Some s \<and> f k = Some s \<and> key_of s = k \<and>
     (m_deleting (k_meta s) \<longrightarrow> m_finalizers (k_meta s) \<noteq> []) \<and> tls_ready s)"

lemma tls_secret_ready_run:
  assumes "api_ok r v" "run_state (tls_secret_ready r n l) w = ((x, l'), w')"
  shows "v w' = v w \<and> (x = Inr True \<longrightarrow> captured_ready (app_key r Secret n) (v w) l')"
proof -
  obtain y w1 where g: "run_state (cl_get r (app_key r Secret n)) w = (y, w1)" by force
  obtain le fs where l: "l = (le, fs)" by force
  show ?thesis using assms(2) g api_get(1-4) [OF assms(1) g] l
    by (cases y) (auto simp: tls_secret_ready_def captured_ready_def tls_ready_def Let_def split: sum.splits option.splits)
qed

lemma ensures_app_tls:
  assumes api: "api_ok r v" and rt: "runtime_ok r"
  shows "ensures v {app_tls_key r cr} (\<lambda>f. \<exists>s. f (app_tls_key r cr) = Some s \<and> tls_ready s) (ReconcileTLSSecret r cr)"
proof -
  let ?n = "app_tls_secret cr"
  have "(e = None \<longrightarrow> (\<exists>s. v w' (app_tls_key r cr) = Some s \<and> tls_ready s)) \<and> (\<forall>k. k \<notin> {app_tls_key r cr} \<longrightarrow> v w' k = v w k)"
    if run: "run_state (ReconcileTLSSecret r cr) w = (e, w')" for w e w'
  proof -
    obtain pe le fs w1 where p: "run_state (PollUntilTimeout r 1 60 (tls_secret_ready r ?n)) w = ((pe, (le, fs)), w1)"
      by (metis surj_pair)
    then obtain k where "run_state (poll_steps (Suc k) (tls_secret_ready r ?n) (None, None)) w = ((pe, (le, fs)), w1)"
      using rt unfolding runtime_ok_def poll_ok_def by metis
    from poll_steps_check [where v = v and P = "captured_ready (app_tls_key r cr)", OF _ this]
      tls_secret_ready_run [OF api, of ?n]
    have w1: "v w1 = v w" "pe = None \<longrightarrow> captured_ready (app_tls_key r cr) (v w) (le, fs)" by blast+
    show ?thesis
    proof (cases pe)
      case (Some err)
      then show ?thesis using run p w1 by (auto simp: ReconcileTLSSecret_def)
    next
      case None
      then obtain s where s: "fs = Some s" "key_of s = app_key r Secret ?n" "m_deleting (k_meta s) \<longrightarrow> m_finalizers (k_meta s) \<noteq> []" "tls_ready s"
        using w1 by (auto simp: captured_ready_def)
      then have "\<exists>msg. run_state (update_as r msg s) w1 = (e, w')" using run p None by (auto simp: ReconcileTLSSecret_def Let_def)
      then obtain msg where u: "run_state (update_as r msg s) w1 = (e, w')" ..
      have kind: "kind_of (k_payload s) = Secret" using s(2) by (simp add: key_of_def)
      have "tls_ready t" if "stored_as s t" for t using stored_plain [OF that] kind s(4) by (simp add: tls_ready_def)
      then show ?thesis using update_as_found(1,2) [OF api refl refl refl _ u] s(2,3) w1 by auto
    qed
  qed
  then show ?thesis unfolding ensures_def using on_keys_object by blast
qed

subsection \<open>Metrics\<close>

lemma ensures_app_monitor:
  assumes "api_ok r v"
  shows "ensures v {app_key r ServiceMonitor AppServerServiceMonitorName}
    (\<lambda>f. IsPrometheusAvailable r \<longrightarrow> (\<exists>s. f (app_key r ServiceMonitor AppServerServiceMonitorName) = Some s \<and>
      ServiceMonitorEqual s (generateServiceMonitor_app r cr))) (reconcileServiceMonitor_app r cr)"
proof -
  let ?d = "generateServiceMonitor_app r cr"
  have d: "own ServiceMonitor r ?d" "key_of ?d = app_key r ServiceMonitor AppServerServiceMonitorName"
    by (simp_all add: generateServiceMonitor_app_def own_def key_of_def set_controller_def new_meta_def)
  show ?thesis unfolding reconcileServiceMonitor_app_def
    using settles_ensures [OF settles_service_monitor [OF assms d(1)]] by (simp only: d(2))
qed

lemma ensures_app_rule:
  assumes api: "api_ok r v"
  shows "ensures v {app_key r PrometheusRule AppServerPrometheusRuleName}
    (\<lambda>f. IsPrometheusAvailable r \<longrightarrow> (\<exists>s. f (app_key r PrometheusRule AppServerPrometheusRuleName) = Some s \<and>
      spec_current (GeneratePrometheusRule r cr) s)) (reconcilePrometheusRule r cr)"
proof (cases "IsPrometheusAvailable r")
  case True
  have d: "key_of (GeneratePrometheusRule r cr) = app_key r PrometheusRule AppServerPrometheusRuleName"
    "kind_of (k_payload (GeneratePrometheusRule r cr)) = PrometheusRule"
    by (simp_all add: GeneratePrometheusRule_def key_of_def set_controller_def new_meta_def)
  have "ensures v {app_key r PrometheusRule AppServerPrometheusRuleName}
      (\<lambda>f. \<exists>s. f (app_key r PrometheusRule AppServerPrometheusRuleName) = Some s \<and> spec_current (GeneratePrometheusRule r cr) s)
      (reconcilePrometheusRule r cr)"
    unfolding reconcilePrometheusRule_def Let_def using True
    by (simp, intro ensures_spec_only [OF api d(1)]) (simp_all add: d(2) PrometheusRuleEqual_def labels_and_spec_equal_def spec_current_def)
  then show ?thesis using True by simp
qed (simp add: reconcilePrometheusRule_def ensures_def on_keys_def)

subsection \<open>Client CA, exporter and Deployment\<close>

text \<open>
  The exporter's ConfigMap exists when data is collected. (Any failed read counts as a missing
  ConfigMap, so nothing is promised about its removal.)
\<close>

abbreviation exporter_key :: "'w reconciler \<Rightarrow> okey" where
  "exporter_key r \<equiv> app_key r ConfigMap ExporterConfigCmName"

lemma reconcileExporterConfigMap_run:
  assumes api: "api_ok r v" and run: "run_state (reconcileExporterConfigMap r cr) w = (e, w')"
  shows "(e = None \<longrightarrow> collecting_at r cr (v w) = Some True \<longrightarrow> v w' (exporter_key r) \<noteq> None) \<and>
    (\<forall>k. k \<noteq> exporter_key r \<longrightarrow> v w' k = v w k)"
proof -
  obtain c w1 where c: "run_state (dataCollectorEnabled r cr) w = (c, w1)" by force
  obtain g w2 where g: "run_state (cl_get r (exporter_key r)) w1 = (g, w2)" by force
  note cr = dataCollectorEnabled_run [OF api c] and get = api_get(1,2,3) [OF api g]
  obtain d w3 where d: "run_state (cl_delete r (exporter_key r)) w2 = (d, w3)" by force
  obtain n w4 where n: "run_state (cl_create r (generateExporterConfigMap r cr)) w2 = (n, w4)" by force
  have key: "key_of (generateExporterConfigMap r cr) = exporter_key r"
    by (simp add: generateExporterConfigMap_def key_of_def set_controller_def new_meta_def)
  consider "v w' = v w" "e \<noteq> None \<or> collecting_at r cr (v w) \<noteq> Some True \<or> v w (exporter_key r) \<noteq> None"
    | "w' = w4" "e = None \<longrightarrow> n = None" | "w' = w3" "collecting_at r cr (v w) \<noteq> Some True"
    using run c g d n cr get
    by (cases c; cases g) (auto simp: reconcileExporterConfigMap_def try_or_def run_create_as split: if_splits)
  then show ?thesis
  proof cases
    case 2
    have "v w2 = v w" using cr get(1) by simp
    then show ?thesis using api_create(2,3) [OF api n] key 2 by (cases n) auto
  qed (use cr get(1) api_delete(4) [OF api d] in auto)
qed

lemma reconcileDeployment_app_run:
  assumes api: "api_ok r v" and run: "run_state (reconcileDeployment_app r cr) w = (e, w')"
  shows "(e = None \<longrightarrow> app_current r cr (v w')) \<and>
    (stored_cr (v w) = Some cr \<longrightarrow> client_cas_current r cr (v w) \<longrightarrow> e = None \<longrightarrow> client_cas_current r cr (v w')) \<and>
    (\<forall>k. k \<notin> insert (app_dep_key r) (ca_keys r) \<longrightarrow> v w' k = v w k)"
proof -
  obtain x w1 where x: "run_state (GenerateOLSDeployment r cr) w = (x, w1)" by force
  note gen = GenerateOLSDeployment_run [OF api x]
  show ?thesis
  proof (cases x)
    case (Inl err)
    then show ?thesis using run x gen by (auto simp: reconcileDeployment_app_def try_or_def)
  next
    case (Inr d)
    then have d: "app_generated r cr (v w) d" using gen by blast
    obtain g w2 where g: "run_state (cl_get r (app_dep_key r)) w1 = (g, w2)" by force
    note get = api_get(1,2,3,5) [OF api g]
    have w2: "v w2 = v w" using gen get(1) by simp
    consider (fail) "e \<noteq> None" "w' = w2" | (create) "run_state (create_as r ErrCreateAPIDeployment d) w2 = (e, w')"
      | (found) ob ue where "g = Inr ob" "run_state (updateOLSDeployment r cr ob d) w2 = (ue, w')" "e = None \<longleftrightarrow> ue = None"
      using run x Inr g
      by (cases g) (auto simp: reconcileDeployment_app_def try_or_def run_fetch split: if_splits prod.splits)
    then show ?thesis
    proof cases
      case found
      then show ?thesis using updateOLSDeployment_run [OF api _ _ _ found(2)] d w2 get(2,3) [OF found(1)] gen by simp
    next
      case create
      obtain ce where c: "run_state (cl_create r d) w2 = (ce, w')" "e = None \<longleftrightarrow> ce = None"
        using create by (auto simp: run_create_as split: prod.splits)
      obtain c l where dl: "collecting_at r cr (v w) = Some c" "d = app_deployment r cr c l"
        "recorded d OLSConfigMapResourceVersionAnnotation = config_version_at r (v w)"
        "recorded d RAGSpecHashAnnotation = ragSpecHash r cr" "proxy_hash_at r cr (v w) = Some (recorded d ProxyCACertHashAnnotation)"
        using d by (auto simp: app_generated_def)
      note dep = app_deployment_complete [of r cr c l]
      have frame: "\<forall>k. k \<noteq> app_dep_key r \<longrightarrow> v w' k = v w k"
        using api_create(2,3) [OF api c(1)] w2 dep(1) dl(2) by (cases ce) auto
      then have "\<forall>k. k \<notin> insert (app_dep_key r) (ca_keys r) \<longrightarrow> v w' k = v w k" by blast
      note reads = app_reads_secret [OF this pull_secret_apart]
      have "app_current r cr (v w')" if ok: "e = None"
      proof -
        obtain s where s: "stored_as d s" "v w' (app_dep_key r) = Some s"
          using api_create(2) [OF api c(1)] c(2) ok dep(1) dl(2) by auto
        have "deployment_current False d s"
          using stored_spec_equal [OF stored_dep_of [OF s(1)]] dep dl(2) by (simp add: deployment_current_def)
        then have "deployment_current False (app_deployment r cr c []) s" using app_deployment_annotations dl(2) by metis
        then show ?thesis unfolding app_current_def reads using dl s recorded_stored [OF s(1)]
          by (intro exI [of _ c] exI [of _ s] exI [of _ "recorded d ProxyCACertHashAnnotation"]) simp
      qed
      moreover have "client_cas_current r cr (v w') = client_cas_current r cr (v w)"
        by (rule client_cas_current_cong) (use frame ca_keys_secrets in fastforce)+
      ultimately show ?thesis using frame by simp
    qed (use w2 in auto)
  qed
qed

subsection \<open>The phase as a whole\<close>

abbreviation pull_secret_key :: okey where
  "pull_secret_key \<equiv> (Secret, TelemetryPullSecretNamespace, TelemetryPullSecretName)"

lemma app_current_cong:
  assumes "\<forall>n. f (app_key r ConfigMap n) = g (app_key r ConfigMap n)" "f pull_secret_key = g pull_secret_key"
    "f (app_dep_key r) = g (app_dep_key r)"
  shows "collecting_at r cr f = collecting_at r cr g" "app_current r cr f = app_current r cr g"
proof -
  show c: "collecting_at r cr f = collecting_at r cr g" using assms(2) by (simp only: collecting_at_def)
  have "proxy_hash_at r cr f = proxy_hash_at r cr g"
    using assms(1) by (simp add: proxy_hash_at_def Let_def cong: option.case_cong if_cong)
  moreover have "config_version_at r f = config_version_at r g"
    using assms(1) by (simp add: config_version_at_def version_at_def)
  ultimately show "app_current r cr f = app_current r cr g" using c assms(3) by (simp only: app_current_def)
qed

definition app_outer_specs :: "'w reconciler \<Rightarrow> OLSConfig \<Rightarrow> task_spec list" where
  "app_outer_specs r cr =
     [({app_key r Service OLSAppServerServiceName},
         \<lambda>f. \<exists>s. f (app_key r Service OLSAppServerServiceName) = Some s \<and> app_service_current r cr s),
      ({app_tls_key r cr}, \<lambda>f. \<exists>s. f (app_tls_key r cr) = Some s \<and> tls_ready s),
      ({app_key r ServiceMonitor AppServerServiceMonitorName},
         \<lambda>f. IsPrometheusAvailable r \<longrightarrow> (\<exists>s. f (app_key r ServiceMonitor AppServerServiceMonitorName) = Some s \<and>
           ServiceMonitorEqual s (generateServiceMonitor_app r cr))),
      ({app_key r PrometheusRule AppServerPrometheusRuleName},
         \<lambda>f. IsPrometheusAvailable r \<longrightarrow> (\<exists>s. f (app_key r PrometheusRule AppServerPrometheusRuleName) = Some s \<and>
           spec_current (GeneratePrometheusRule r cr) s))]"

lemma ensures_app_outer:
  assumes "api_ok r v" "runtime_ok r"
  shows "ensures v (\<Union> (fst ` set (app_outer_specs r cr))) (\<lambda>f. \<forall>(K, G) \<in> set (app_outer_specs r cr). G f)
    (for_each (named_task r cr) (drop 3 app_deployment_tasks))"
  unfolding named_task_def
proof (rule ensures_fail_fast)
  show "list_all2 (\<lambda>(n, t) (K, G). ensures v K G (t r cr)) (drop 3 app_deployment_tasks) (app_outer_specs r cr)"
    using ensures_app_service [OF assms(1)] ensures_app_tls [OF assms] ensures_app_monitor [OF assms(1)] ensures_app_rule [OF assms(1)]
    by (simp add: app_deployment_tasks_def app_outer_specs_def)
  show "disjoint_specs (app_outer_specs r cr)" by (simp add: disjoint_specs_def app_outer_specs_def)
qed

definition app_phase2_keys :: "'w reconciler \<Rightarrow> OLSConfig \<Rightarrow> okey set" where
  "app_phase2_keys r cr = ca_keys r \<union> {exporter_key r, app_dep_key r, app_key r Service OLSAppServerServiceName, app_tls_key r cr,
     app_key r ServiceMonitor AppServerServiceMonitorName, app_key r PrometheusRule AppServerPrometheusRuleName}"

lemma app_deployment_task_frame:
  assumes api: "api_ok r v" "runtime_ok r"
    and task: "(n, t) \<in> set app_deployment_tasks" and run: "run_state (t r cr) w = (e, w')" and k: "k \<notin> app_phase2_keys r cr"
  shows "v w' k = v w k"
proof -
  have keys: "k \<notin> ca_keys r" "k \<noteq> exporter_key r" "k \<notin> insert (app_dep_key r) (ca_keys r)" "k \<notin> {app_key r Service OLSAppServerServiceName}"
    "k \<notin> {app_tls_key r cr}" "k \<notin> {app_key r ServiceMonitor AppServerServiceMonitorName}" "k \<notin> {app_key r PrometheusRule AppServerPrometheusRuleName}"
    using k by (simp_all add: app_phase2_keys_def)
  consider "t = RefreshClientCASecrets" | "t = reconcileExporterConfigMap" | "t = reconcileDeployment_app" | "t = reconcileService_app"
    | "t = ReconcileTLSSecret" | "t = reconcileServiceMonitor_app" | "t = reconcilePrometheusRule"
    using task by (auto simp: app_deployment_tasks_def)
  then show ?thesis
    by cases (use run keys in \<open>blast dest: RefreshClientCASecrets_run [OF api(1), folded ca_keys_def]
      reconcileExporterConfigMap_run [OF api(1)] reconcileDeployment_app_run [OF api(1)] ensuresD(2) [OF ensures_app_service [OF api(1)]]
      ensuresD(2) [OF ensures_app_tls [OF api]] ensuresD(2) [OF ensures_app_monitor [OF api(1)]] ensuresD(2) [OF ensures_app_rule [OF api(1)]]\<close>)+
qed

lemma for_each_None:
  assumes "run_state (for_each m (x # xs)) w = (None, w')"
  obtains w1 where "run_state (m x) w = (None, w1)" "run_state (for_each m xs) w1 = (None, w')"
proof -
  obtain e w1 where "run_state (m x) w = (e, w1)" by force
  then show thesis using assms that by (cases e) auto
qed

lemma named_task_None: "run_state (named_task r cr (n, t)) w = (None, w') \<longleftrightarrow> run_state (t r cr) w = (None, w')"
  by (auto simp: named_task_def split: prod.splits)

lemma app_core_run:
  assumes api: "api_ok r v" and cr: "stored_cr (v w) = Some cr"
    and a: "run_state (RefreshClientCASecrets r cr) w = (None, w1)"
    and b: "run_state (reconcileExporterConfigMap r cr) w1 = (None, w2)"
    and c: "run_state (reconcileDeployment_app r cr) w2 = (None, w3)"
  shows "client_cas_current r cr (v w3) \<and> app_current r cr (v w3) \<and>
    (collecting_at r cr (v w3) = Some True \<longrightarrow> v w3 (exporter_key r) \<noteq> None)"
proof -
  have A: "client_cas_current r cr (v w1)" "\<forall>k. k \<notin> ca_keys r \<longrightarrow> v w1 k = v w k"
    using RefreshClientCASecrets_run [OF api a] by (simp_all add: client_cas_current_def ca_keys_def)
  note B = reconcileExporterConfigMap_run [OF api b] and C = reconcileDeployment_app_run [OF api c]
  have off: "k \<notin> ca_keys r" if "fst k \<noteq> Secret" for k using that ca_keys_secrets by metis
  have "v w2 (OLSConfigKind', [], OLSConfigName) = v w (OLSConfigKind', [], OLSConfigName)" using A(2) B off by simp
  then have "stored_cr (v w2) = Some cr" using cr by (simp add: stored_cr_def)
  moreover have "client_cas_current r cr (v w2) = client_cas_current r cr (v w1)"
  proof (rule client_cas_current_cong)
    show "\<forall>k \<in> ca_keys r. v w2 k = v w1 k" using B ca_keys_secrets by fastforce
    show "v w2 (app_key r ConfigMap OLSCAConfigMap) = v w1 (app_key r ConfigMap OLSCAConfigMap)" using B by (simp add: go_const)
  qed
  ultimately have "client_cas_current r cr (v w3)" using A(1) C by blast
  moreover have "collecting_at r cr (v w3) = collecting_at r cr (v w1)"
  proof -
    have "v w3 pull_secret_key = v w2 pull_secret_key" using C pull_secret_apart [of r] by auto
    moreover have "v w2 pull_secret_key = v w1 pull_secret_key" using B by simp
    ultimately show ?thesis by (simp only: collecting_at_def)
  qed
  moreover have "v w3 (exporter_key r) = v w2 (exporter_key r)" using C off by simp
  ultimately show ?thesis using B C by auto
qed

lemma app_phase2_facts:
  assumes api: "api_ok r v" "runtime_ok r" and cr: "stored_cr (v w) = Some cr"
    and apart: "app_tls_key r cr \<notin> insert pull_secret_key (ca_keys r)"
    and run: "run_state (ReconcileAppServerDeployment r cr) w = (e, w')"
  shows "(e = None \<longrightarrow> client_cas_current r cr (v w') \<and> app_current r cr (v w') \<and>
      (collecting_at r cr (v w') = Some True \<longrightarrow> v w' (exporter_key r) \<noteq> None) \<and>
      (\<exists>s. v w' (app_key r Service OLSAppServerServiceName) = Some s \<and> app_service_current r cr s) \<and>
      (\<exists>s. v w' (app_tls_key r cr) = Some s \<and> tls_ready s) \<and>
      (IsPrometheusAvailable r \<longrightarrow>
        (\<exists>s. v w' (app_key r ServiceMonitor AppServerServiceMonitorName) = Some s \<and>
           ServiceMonitorEqual s (generateServiceMonitor_app r cr)) \<and>
        (\<exists>s. v w' (app_key r PrometheusRule AppServerPrometheusRuleName) = Some s \<and>
           spec_current (GeneratePrometheusRule r cr) s))) \<and>
    (\<forall>k. k \<notin> app_phase2_keys r cr \<longrightarrow> v w' k = v w k)"
proof (rule conjI)
  have for_all: "run_state (for_each (named_task r cr) app_deployment_tasks) w = (e, w')"
    using run by (simp add: ReconcileAppServerDeployment_def)
  show "\<forall>k. k \<notin> app_phase2_keys r cr \<longrightarrow> v w' k = v w k"
  proof (rule for_each_keeps [OF _ for_all, where P = "\<lambda>x. \<forall>k. k \<notin> app_phase2_keys r cr \<longrightarrow> v x k = v w k"])
    fix nt wa ea wb assume nt: "nt \<in> set app_deployment_tasks" "run_state (named_task r cr nt) wa = (ea, wb)"
      "\<forall>k. k \<notin> app_phase2_keys r cr \<longrightarrow> v wa k = v w k"
    obtain n t where "nt = (n, t)" by force
    moreover from this obtain te where "run_state (t r cr) wa = (te, wb)" using nt(2) by (auto simp: named_task_def split: prod.splits)
    ultimately show "\<forall>k. k \<notin> app_phase2_keys r cr \<longrightarrow> v wb k = v w k"
      using app_deployment_task_frame [OF api] nt(1,3) by metis
  qed simp
next
  have tasks: "app_deployment_tasks = (''reconcile client CA Secrets'', RefreshClientCASecrets) #
      (''reconcile Exporter ConfigMap'', reconcileExporterConfigMap) # (''reconcile App Deployment'', reconcileDeployment_app) #
      drop 3 (app_deployment_tasks :: 'a ReconcileTask list)" by (simp add: app_deployment_tasks_def)
  {
    assume "e = None"
    with run have "run_state (for_each (named_task r cr) ((''reconcile client CA Secrets'', RefreshClientCASecrets) #
        (''reconcile Exporter ConfigMap'', reconcileExporterConfigMap) # (''reconcile App Deployment'', reconcileDeployment_app) #
        drop 3 app_deployment_tasks)) w = (None, w')"
      by (simp only: ReconcileAppServerDeployment_def tasks [symmetric])
    from for_each_None [OF this] obtain w1 where a: "run_state (RefreshClientCASecrets r cr) w = (None, w1)"
      and "run_state (for_each (named_task r cr) ((''reconcile Exporter ConfigMap'', reconcileExporterConfigMap) #
        (''reconcile App Deployment'', reconcileDeployment_app) # drop 3 app_deployment_tasks)) w1 = (None, w')"
      unfolding named_task_None by blast
    from for_each_None [OF this(2)] obtain w2 where b: "run_state (reconcileExporterConfigMap r cr) w1 = (None, w2)"
      and "run_state (for_each (named_task r cr) ((''reconcile App Deployment'', reconcileDeployment_app) #
        drop 3 app_deployment_tasks)) w2 = (None, w')" unfolding named_task_None by blast
    from for_each_None [OF this(2)] obtain w3 where c: "run_state (reconcileDeployment_app r cr) w2 = (None, w3)"
      and d: "run_state (for_each (named_task r cr) (drop 3 app_deployment_tasks)) w3 = (None, w')"
      unfolding named_task_None by blast
    note core = app_core_run [OF api(1) cr a b c] and outer = ensuresD(1,2) [OF ensures_app_outer [OF api] d]
    have same: "v w' k = v w3 k" if "fst k \<notin> {Service, Secret, ServiceMonitor, PrometheusRule} \<or> k \<in> insert pull_secret_key (ca_keys r)" for k
    proof (rule outer(2))
      show "k \<notin> \<Union> (fst ` set (app_outer_specs r cr))"
        using that apart ca_keys_secrets [of k r] by (auto simp: app_outer_specs_def)
    qed
    have "client_cas_current r cr (v w') = client_cas_current r cr (v w3)"
      by (rule client_cas_current_cong) (simp_all add: same)
    moreover have "collecting_at r cr (v w') = collecting_at r cr (v w3)" "app_current r cr (v w') = app_current r cr (v w3)"
      by (rule app_current_cong; simp add: same)+
    moreover have "v w' (exporter_key r) = v w3 (exporter_key r)" by (rule same) simp
    ultimately have "client_cas_current r cr (v w') \<and> app_current r cr (v w') \<and>
      (collecting_at r cr (v w') = Some True \<longrightarrow> v w' (exporter_key r) \<noteq> None)" using core by simp
    note this outer(1) [OF refl]
  }
  then show "e = None \<longrightarrow> client_cas_current r cr (v w') \<and> app_current r cr (v w') \<and>
      (collecting_at r cr (v w') = Some True \<longrightarrow> v w' (exporter_key r) \<noteq> None) \<and>
      (\<exists>s. v w' (app_key r Service OLSAppServerServiceName) = Some s \<and> app_service_current r cr s) \<and>
      (\<exists>s. v w' (app_tls_key r cr) = Some s \<and> tls_ready s) \<and>
      (IsPrometheusAvailable r \<longrightarrow>
        (\<exists>s. v w' (app_key r ServiceMonitor AppServerServiceMonitorName) = Some s \<and>
           ServiceMonitorEqual s (generateServiceMonitor_app r cr)) \<and>
        (\<exists>s. v w' (app_key r PrometheusRule AppServerPrometheusRuleName) = Some s \<and>
           spec_current (GeneratePrometheusRule r cr) s))"
    by (simp add: app_outer_specs_def)
qed

lemma app_phase2_run:
  assumes "api_ok r v" "runtime_ok r" "stored_cr (v w) = Some cr" "app_tls_key r cr \<notin> insert pull_secret_key (ca_keys r)"
    "run_state (ReconcileAppServerDeployment r cr) w = (None, w')"
  shows "app_current r cr (v w')" "k \<notin> app_phase2_keys r cr \<Longrightarrow> v w' k = v w k"
  using app_phase2_facts [OF assms] by blast+


subsection \<open>Sample runs\<close>

definition live_objects :: "kobject list" where
  "live_objects =
     [obj_of_cr (blank_cr []),
      \<lparr>k_meta = new_meta ''ols'' OLSCAConfigMap fmempty,
       k_payload = PConfigMap (fmap_of_list [(AppOtelCollectorCACertFile, ''PEM'')]) fmempty\<rparr>,
      \<lparr>k_meta = new_meta ''ols'' OLSCertsSecretName fmempty,
       k_payload = PSecret (fmap_of_list [(''tls.key'', ''key''), (''tls.crt'', ''crt'')]) ''kubernetes.io/tls''\<rparr>]"

definition live_cluster :: mem where
  "live_cluster = fmap_of_list (map (\<lambda>ob. (key_of ob, ob)) live_objects)"

lemma live_view:
  "mem_view live_cluster (OLSConfigKind', [], OLSConfigName) = Some (obj_of_cr (blank_cr []))"
  "stored_cr (mem_view live_cluster) = Some (blank_cr [])"
  "stored_ca app_sample (mem_view live_cluster) = Some ''PEM''"
  "mem_view live_cluster pull_secret_key = None" "mem_view live_cluster (app_dep_key app_sample) = None"
  "mem_view live_cluster (exporter_key app_sample) = None"
  "\<exists>s. mem_view live_cluster (app_tls_key app_sample (blank_cr [])) = Some s \<and> tls_ready s"
proof -
  have ns: "GetNamespace app_sample = ''ols''" by (simp add: GetNamespace_def no_options_def)
  show cr: "mem_view live_cluster (OLSConfigKind', [], OLSConfigName) = Some (obj_of_cr (blank_cr []))"
    by (simp add: mem_view_def live_cluster_def live_objects_def key_of_def obj_of_cr_def blank_cr_def new_meta_def OLSConfigName_def)
  show "stored_cr (mem_view live_cluster) = Some (blank_cr [])" using cr by (simp add: stored_cr_def)
  show "stored_ca app_sample (mem_view live_cluster) = Some ''PEM''"
    by (simp add: stored_ca_def ns mem_view_def live_cluster_def live_objects_def key_of_def obj_of_cr_def new_meta_def zlookup_def Let_def)
  show "mem_view live_cluster pull_secret_key = None" "mem_view live_cluster (app_dep_key app_sample) = None"
    "mem_view live_cluster (exporter_key app_sample) = None"
    by (simp_all add: ns mem_view_def live_cluster_def live_objects_def key_of_def obj_of_cr_def new_meta_def go_const)
  show "\<exists>s. mem_view live_cluster (app_tls_key app_sample (blank_cr [])) = Some s \<and> tls_ready s"
    by (simp add: ns mem_view_def live_cluster_def live_objects_def key_of_def obj_of_cr_def new_meta_def tls_ready_def
        app_tls_secret_def blank_cr_def blank_ols_def)
qed

lemma mem_refresh:
  assumes "stored_ca (mem_reconciler op) (mem_view w) \<noteq> None"
  shows "fst (run_state (RefreshClientCASecrets (mem_reconciler op) cr) w) = None"
proof -
  let ?r = "mem_reconciler op"
  have step: "fst (run_state (refresh_client_ca ?r cr cfg) w) = None" if ca: "stored_ca ?r (mem_view w) \<noteq> None" for cfg w
  proof (cases "ca_Enabled cfg cr")
    case False
    then show ?thesis by (simp add: refresh_client_ca_def generateClientCA_def try_or_def deleteClientCA_def mem_deletes)
  next
    case True
    have key: "key_of (client_ca_secret ?r cr cfg pem) = app_key ?r Secret (m_name (k_meta (client_ca_secret ?r cr cfg pem)))" for pem
      by (simp add: client_ca_secret_def key_of_def set_controller_def new_meta_def)
    have "fst (run_state (reconcileClientCASecret ?r (client_ca_secret ?r cr cfg pem) a b c) w) = None" for pem a b c
      unfolding reconcileClientCASecret_def
      by (rule mem_create_or_update [OF key]) (simp add: key_of_def client_ca_secret_def)
    then show ?thesis using True ca
      by (auto simp: refresh_client_ca_def generateClientCA_def try_or_def stored_ca_def mem_get_def Let_def split: option.splits if_splits)
  qed
  have "fst (run_state (for_each (refresh_client_ca ?r cr) cfgs) w) = None" if "stored_ca ?r (mem_view w) \<noteq> None" for cfgs w
    using that
  proof (induction cfgs arbitrary: w)
    case (Cons cfg cfgs)
    obtain w1 where w1: "run_state (refresh_client_ca ?r cr cfg) w = (None, w1)" using step [OF Cons.prems] by (metis prod.collapse)
    have "mem_view w1 (app_key ?r ConfigMap OLSCAConfigMap) = mem_view w (app_key ?r ConfigMap OLSCAConfigMap)"
      using refresh_client_ca_run [OF mem_reconciler_ok w1] by auto
    then have "stored_ca ?r (mem_view w1) \<noteq> None" using Cons.prems by (simp add: stored_ca_def)
    then show ?case using Cons.IH w1 by simp
  qed simp
  then show ?thesis using assms by (simp add: RefreshClientCASecrets_def)
qed

lemma mem_app_deployment:
  assumes "mem_view w pull_secret_key = None" "mem_view w (app_dep_key app_sample) = None"
  shows "fst (run_state (reconcileDeployment_app app_sample (blank_cr [])) w) = None"
proof -
  obtain x w1 where x: "run_state (GenerateOLSDeployment app_sample (blank_cr [])) w = (x, w1)" by force
  have "w1 = w \<and> (\<exists>d. x = Inr d)" using x assms
    by (cases "mem_view w (app_config_key app_sample)")
      (auto simp: GenerateOLSDeployment_def dataCollectorEnabled_def mem_get_def GetConfigMapResourceVersion_def or_missing_def
        GetProxyCACertHash_def blank_cr_def blank_ols_def Let_def)
  then obtain d where d: "w1 = w" "x = Inr d" by blast
  have "key_of d = app_dep_key app_sample"
    using GenerateOLSDeployment_run [OF mem_reconciler_ok x] d(2) by (auto simp: app_generated_def app_deployment_complete)
  then show ?thesis using x d assms(2)
    by (simp add: reconcileDeployment_app_def try_or_def run_fetch mem_get_def run_create_as mem_create_def)
qed

lemma mem_app_outer:
  assumes tls: "mem_view w (app_tls_key app_sample cr) = Some s" "tls_ready s"
  shows "fst (run_state (for_each (named_task app_sample cr) (drop 3 app_deployment_tasks)) w) = None"
proof -
  let ?r = "app_sample"
  have "fst (run_state (reconcileService_app ?r cr) w) = None"
    unfolding reconcileService_app_def Let_def
    by (rule mem_create_or_update) (simp_all add: GenerateService_app_simps)
  then obtain w1 where w1: "run_state (reconcileService_app ?r cr) w = (None, w1)" by (metis prod.collapse)
  have "mem_view w1 (app_tls_key ?r cr) = mem_view w (app_tls_key ?r cr)"
    using ensuresD(2) [OF ensures_app_service [OF mem_reconciler_ok] w1] by simp
  then have s1: "mem_view w1 (app_tls_key ?r cr) = Some s" using tls(1) by simp
  then have look: "fmlookup w1 (key_of s) \<noteq> None" "key_of s = app_tls_key ?r cr" using mem_view_key [OF s1] by auto
  have "run_state (PollUntilTimeout ?r 1 60 (tls_secret_ready ?r (app_tls_secret cr))) w1 = ((None, (None, Some s)), w1)"
    using s1 tls(2) by (auto simp: numeral_3_eq_3 tls_secret_ready_def mem_get_def tls_ready_def Let_def)
  moreover have "fst (run_state (update_as ?r msg s) w1) = None" for msg
    using s1 look by (auto simp: run_update_as mem_update_def split: prod.splits option.splits)
  ultimately have "fst (run_state (ReconcileTLSSecret ?r cr) w1) = None" by (simp add: ReconcileTLSSecret_def Let_def)
  then obtain w2 where w2: "run_state (ReconcileTLSSecret ?r cr) w1 = (None, w2)" by (metis prod.collapse)
  have none: "\<not> IsPrometheusAvailable ?r" by (simp add: IsPrometheusAvailable_def no_options_def)
  have "run_state (reconcileServiceMonitor_app ?r cr) w2 = (None, w2)" "run_state (reconcilePrometheusRule ?r cr) w2 = (None, w2)"
    using none by (simp_all add: reconcileServiceMonitor_app_def ReconcileServiceMonitor_def reconcilePrometheusRule_def)
  then show ?thesis by (simp add: app_deployment_tasks_def named_task_def w1 w2)
qed

lemma live_sample_apart: "app_tls_key app_sample (blank_cr []) \<notin> insert pull_secret_key (ca_keys app_sample)"
  by (simp add: ca_keys_def clientCASecrets_def app_tls_secret_def blank_cr_def blank_ols_def go_const)

lemma mem_app_phase2: "fst (run_state (ReconcileAppServerDeployment app_sample (blank_cr [])) live_cluster) = None"
proof -
  let ?r = app_sample and ?cr = "blank_cr []"
  obtain w1 where w1: "run_state (RefreshClientCASecrets ?r ?cr) live_cluster = (None, w1)"
    using mem_refresh [of "no_options ''ols''" live_cluster ?cr] live_view(3) by (metis option.distinct(1) prod.collapse)
  have v1: "mem_view w1 k = mem_view live_cluster k" if "k \<notin> ca_keys ?r" for k
    using RefreshClientCASecrets_run [OF mem_reconciler_ok w1, folded ca_keys_def] that by blast
  have off: "k \<notin> ca_keys ?r" if "fst k \<noteq> Secret" for k using that ca_keys_secrets by metis
  have v1': "mem_view w1 pull_secret_key = None" "mem_view w1 (app_dep_key ?r) = None" "mem_view w1 (exporter_key ?r) = None"
    using v1 [OF pull_secret_apart] v1 [OF off] live_view(4-6) by simp_all
  have w2: "run_state (reconcileExporterConfigMap ?r ?cr) w1 = (None, w1)"
    using v1' by (simp add: reconcileExporterConfigMap_def dataCollectorEnabled_def try_or_def mem_get_def blank_cr_def blank_ols_def Let_def)
  obtain w3 where w3: "run_state (reconcileDeployment_app ?r ?cr) w1 = (None, w3)"
    using mem_app_deployment [OF v1'(1,2)] by (metis prod.collapse)
  have "mem_view w3 (app_tls_key ?r ?cr) = mem_view live_cluster (app_tls_key ?r ?cr)"
    using reconcileDeployment_app_run [OF mem_reconciler_ok w3] v1 live_sample_apart by auto
  then obtain s where "mem_view w3 (app_tls_key ?r ?cr) = Some s" "tls_ready s" using live_view(7) by auto
  from mem_app_outer [OF this] show ?thesis
    by (simp add: ReconcileAppServerDeployment_def app_deployment_tasks_def named_task_def w1 w2 w3)
qed


section \<open>Restarts\<close>

text \<open>
  (C13) A restart of the application server fails closed: the Deployment is written only after the
  client CA secrets have been brought up to date with the cluster's CA for the resource that is
  stored, and when that fails it is left as it was. A restart that succeeds has put the time that
  the clock showed after the secrets were written on the pod template, and has left the rest of
  the specification as it was, or as the caller gave it.
\<close>

theorem restart_fails_closed:
  assumes "api_ok r v" "run_state (RestartAppServer r given) w = (e, w')"
  shows "(v w' (app_dep_key r) \<noteq> v w (app_dep_key r) \<or> e = None \<longrightarrow>
      (\<exists>cr. stored_cr (v w) = Some cr \<and> (\<forall>cfg \<in> set clientCASecrets. holds_client_ca r cr cfg (v w')))) \<and>
    (e = None \<longrightarrow> (\<exists>dep s now. v w (app_dep_key r) = Some dep \<and> v w' (app_dep_key r) = Some s \<and>
      stored_as (stamp_template now (take_over given dep)) s \<and> clock_reading r v (ca_keys r) w now \<and>
      fmlookup (nil_map (d_tmpl_annotations (dep_of s))) ForceReloadAnnotationKey = Some now))"
proof -
  note run = RestartAppServer_run [OF assms]
  have "\<exists>dep s now. v w (app_dep_key r) = Some dep \<and> v w' (app_dep_key r) = Some s \<and>
      stored_as (stamp_template now (take_over given dep)) s \<and> clock_reading r v (ca_keys r) w now \<and>
      fmlookup (nil_map (d_tmpl_annotations (dep_of s))) ForceReloadAnnotationKey = Some now" if ok: "e = None"
  proof -
    obtain dep s now where s: "key_of dep = app_dep_key r" "v w (app_dep_key r) = Some dep" "v w' (app_dep_key r) = Some s"
      "stored_as (stamp_template now (take_over given dep)) s" "clock_reading r v (ca_keys r) w now" using run ok by blast
    with stamped_template [OF s(4)] show ?thesis by auto
  qed
  then show ?thesis using run unfolding client_cas_current_def by blast
qed

lemma mem_restart:
  assumes "stored_cr (mem_view w) = Some cr" "stored_ca (mem_reconciler op) (mem_view w) \<noteq> None"
    "mem_view w (app_dep_key (mem_reconciler op)) \<noteq> None"
  shows "fst (run_state (RestartAppServer (mem_reconciler op) None) w) = None"
proof -
  let ?r = "mem_reconciler op"
  obtain ob where ob: "mem_view w (OLSConfigKind', [], OLSConfigName) = Some ob" "cr_of ob = Some cr"
    using assms(1) by (auto simp: stored_cr_def bind_eq_Some_conv)
  obtain w1 where w1: "run_state (RefreshClientCASecrets ?r cr) w = (None, w1)"
    using mem_refresh [OF assms(2)] by (metis prod.collapse)
  have "app_dep_key ?r \<notin> ca_keys ?r" using ca_keys_secrets by fastforce
  then obtain dep where dep: "mem_view w1 (app_dep_key ?r) = Some dep"
    using RefreshClientCASecrets_run [OF mem_reconciler_ok w1, folded ca_keys_def] assms(3) by auto
  have key: "fmlookup w1 (app_dep_key ?r) = Some dep" "key_of dep = app_dep_key ?r" using mem_view_key [OF dep] by auto
  have "key_of (stamp_template now (take_over None dep)) = app_dep_key ?r" for now using key(2) by simp
  then have "fst (run_state (roll_app ?r None) w1) = None"
    using dep key by (auto simp: roll_app_def try_or_def mem_get_def mem_update_def split: option.splits prod.splits)
  then show ?thesis using ob w1
    by (simp add: RestartAppServer_def try_or_def mem_get_def and_then_def)
qed

theorem restart_fails_closed_witness:
  "\<exists>w w' cr. run_state (RestartAppServer app_sample None) w = (None, w') \<and> stored_cr (mem_view w) = Some cr \<and>
     (\<forall>cfg \<in> set clientCASecrets. holds_client_ca app_sample cr cfg (mem_view w'))"
proof -
  obtain w where run: "run_state (ReconcileAppServerDeployment app_sample (blank_cr [])) live_cluster = (None, w)"
    using mem_app_phase2 by (metis prod.collapse)
  note phase = app_phase2_run [OF mem_reconciler_ok mem_runtime_ok live_view(2) live_sample_apart run]
  have keys: "(OLSConfigKind', [], OLSConfigName) \<notin> app_phase2_keys app_sample (blank_cr [])"
    "app_key app_sample ConfigMap OLSCAConfigMap \<notin> app_phase2_keys app_sample (blank_cr [])"
    using ca_keys_secrets [of "(OLSConfigKind', [], OLSConfigName)" app_sample]
      ca_keys_secrets [of "app_key app_sample ConfigMap OLSCAConfigMap" app_sample] by (auto simp: app_phase2_keys_def go_const)
  have "stored_cr (mem_view w) = Some (blank_cr [])" "stored_ca app_sample (mem_view w) \<noteq> None"
    using phase(2) [OF keys(1)] phase(2) [OF keys(2)] live_view(1-3) by (simp_all add: stored_cr_def stored_ca_def)
  moreover have "mem_view w (app_dep_key app_sample) \<noteq> None" using phase(1) by (auto simp: app_current_def)
  ultimately obtain w' where "run_state (RestartAppServer app_sample None) w = (None, w')"
    using mem_restart by (metis prod.collapse)
  with restart_fails_closed [OF mem_reconciler_ok this] show ?thesis by auto
qed

end
