(* ===== verification/Spec2Isabelle.thy ===== *)
theory Spec2Isabelle
  imports Controller Ocp_Mcp Rhokp Postgres Isa_Level Operator_Main Otel_Collector Agentic_Integration App_Server
begin

text \<open>
  A verification library for the OpenShift Lightspeed operator (\<open>internal/controller\<close>, \<open>cmd/main.go\<close>,
  \<open>api/v1alpha1\<close>).

  \<^bold>\<open>The program.\<close> The operator watches one custom resource, \<open>OLSConfig\<close> named \<open>cluster\<close>, and keeps a
  set of operands in the cluster: the console plugin, the agentic console plugin, the alerts
  adapter, the application server, Postgres, the OpenShift MCP server, RHOKP and the OTEL collector.
  \<open>Reconcile\<close> (\<open>olsconfig_controller.go\<close>) fetches the resource, handles its finalizer, reconciles the
  operator's own objects, validates and annotates the secrets and config maps the resource refers
  to, runs phase 1 (independent resources of all operands, continuing on error) and phase 2
  (Deployments, health, status). Beside it, event handlers on secrets and config maps restart the
  Deployments that use them.

  \<^bold>\<open>How it is modelled.\<close> Stateful code is a function in the state monad \<open>('w, 'a) io\<close> over an abstract
  world \<open>'w\<close>; errors are values of the datatype \<open>goerr\<close>, a \<open>(T, error)\<close> result is \<open>goerr + T\<close> and an
  \<open>error\<close> result \<open>goerr option\<close>. The API server is not part of the repository: its operations (\<open>Get\<close>,
  \<open>Create\<close>, \<open>Update\<close>, \<open>Delete\<close>, \<open>List\<close>, status update, clock) are fields of the record \<open>client\<close>, and
  the operator's reconciler extends it with the options, the environment and the polling and
  retry functions of the libraries. What is relied on is the named hypothesis \<open>api_ok r v\<close>, where \<open>v\<close>
  is the view of the world as a map from keys to stored objects: a read changes nothing and returns
  the stored object or an error; a write changes only its own object, and only when it reports
  success; the server may fill defaults and keep status. Every call may fail at any time. Between two
  calls of one operation no other client writes; conflicts are error results. \<open>runtime_ok\<close> says that
  conflict retry repeats its closure a finite number of times and that polling does too. The store
  \<open>mem_client\<close> satisfies all laws and is used by the witnesses. Logging has no counterpart.

  \<^bold>\<open>Parameters.\<close> Other code outside the repository is a field of the reconciler record as well: the YAML and
  JSON encoders, the digests, the random bytes of the database password, the certificate parser,
  the tables of the TLS library and the order in which Go walks over a map. \<open>walk_ok\<close> (every key once,
  nothing written) and \<open>rand_ok\<close> (as many bytes as asked for) are the hypotheses about them.

  \<^bold>\<open>The theories.\<close>
  \<^item> \<open>Prelude\<close>: Go strings and errors, the monad and its lemmas. \<open>Kube\<close>, \<open>Api_Types\<close>: Kubernetes data and
    the custom resource, one record per struct with the fields the code reads. \<open>Cluster\<close>: objects,
    client, laws, the in-memory store. \<open>Constants\<close>: the string and number constants that are used.
  \<^item> \<open>Reconcile_Core\<close>: the create-or-update pattern, the contracts \<open>settles\<close> and \<open>ensures\<close> (what holds
    after success, which keys may change, that nothing is written when all is current) and the locale
    \<open>object_reconciler\<close>, interpreted in \<open>Console_Plugin\<close> for each reconciler.
  \<^item> \<open>Utils_Equality\<close>: the comparisons that decide updates and the Deployment defaults, over the locales
    \<open>keyed_compare\<close> and \<open>keyed_equal\<close>; a stored Deployment compares equal to the defaulted desired one.
  \<^item> \<open>Utils_Validate\<close>: credential and TLS validation, the iterators over external references (refining
    the list of references), image stream names.
  \<^item> \<open>Reconcile_Tasks\<close>: \<open>RunReconcileTasks\<close>, \<open>RunDeleteTasks\<close> and the composition of contracts over task lists.
  \<^item> \<open>Console_Plugin\<close>, \<open>Console_UI\<close>, \<open>Agentic_Console\<close>, \<open>Alerts_Adapter\<close>: the reconcilers and the operands
    built on them; convergence, removal, activation in the Console resource.
  \<^item> \<open>Versioned_Deployment\<close>: Deployments that record the versions of what they mount and are rolled when
    these change. \<open>Ocp_Mcp\<close>, \<open>Rhokp\<close>: the two operands built on it; convergence and rotation.
  \<^item> \<open>Postgres\<close>: the database; its password survives, its Deployment phase converges.
  \<^item> \<open>Otel_Collector\<close>: the collector, its configuration document and the connection string, which reads
    back to the password.
  \<^item> \<open>Agentic_Integration\<close>: the handoff ConfigMap and its prerequisites.
  \<^item> \<open>App_Config\<close>, \<open>App_Deployment\<close>, \<open>App_Server\<close>: the application server: the configuration file and its
    encoders; Deployment, client CA secrets, restart; all reconcilers, image streams and both phases.
  \<^item> \<open>Operator_Assets\<close>: the operator's ServiceMonitor and NetworkPolicy.
  \<^item> \<open>Status\<close>: status writes with conflict retry, health check, pod diagnostics.
  \<^item> \<open>Watch\<close>: annotation, watch predicates, event handlers, restart table, start-up configuration.
  \<^item> \<open>Finalizer\<close>: finalizer, owned resources, removal of the resource.
  \<^item> \<open>Controller\<close>: the two phases and \<open>Reconcile\<close>, over the operand entry points \<open>operands\<close>.
  \<^item> \<open>Tls_Profile\<close>, \<open>Operator_Main\<close>: TLS profiles, related images and what \<open>cmd/main.go\<close> computes before the
    manager starts. \<open>Isa_Level\<close>: the check of the binary's ELF notes, with 32-bit sizes.
  \<^item> This theory: the entry points of the modelled operands as \<open>operator_operands\<close> and what the first
    phase of the whole operator establishes.

  \<^bold>\<open>Bounds.\<close> No function needs fuel: every loop runs over a finite list or, in \<open>Isa_Level\<close>, over a shrinking
  byte sequence, and the retry and polling loops are library functions whose laws bound them by some
  number of attempts. The one recursion that may not end (\<open>VersionCode\<close>) is a partial function whose
  domain is characterised.

  \<^bold>\<open>Not modelled.\<close> The command line client (glue over a command framework), generated deep copies and
  scheme registration, logging, test support, and of \<open>cmd/main.go\<close> the start of the manager and of its
  caches, which only calls libraries. Other clients that write between two calls of one reconcile
  appear only as errors of these calls.
\<close>

section \<open>The operator with its operands\<close>

definition operator_operands :: "'w operands" where
  "operator_operands = \<lparr>
     console_Resources = ReconcileConsoleUIResources, console_Deployment = ReconcileConsoleUIDeploymentAndPlugin,
     console_Remove = RemoveConsoleUI, console_Restart = RestartConsoleUI,
     agenticconsole_Resources = ReconcileAgenticConsoleUIResources,
     agenticconsole_Deployment = ReconcileAgenticConsoleUIDeploymentAndPlugin,
     agenticconsole_Remove = RemoveAgenticConsole, agenticconsole_Restart = RestartAgenticConsoleUI,
     alertsadapter_Resources = ReconcileAlertsAdapterResources, alertsadapter_Deployment = ReconcileAlertsAdapterDeployment,
     alertsadapter_Remove = RemoveAlertsAdapter, alertsadapter_Restart = RestartAlertsAdapter,
     ocpmcp_Resources = ReconcileResources_mcp, ocpmcp_Deployment = ReconcileDeployment_mcp,
     ocpmcp_Remove = Remove_mcp, ocpmcp_Restart = Restart_mcp,
     rhokp_Resources = ReconcileResources_okp, rhokp_Deployment = ReconcileDeployment_okp,
     rhokp_Remove = Remove_okp, rhokp_Restart = Restart_okp,
     postgres_Resources = ReconcilePostgresResources, postgres_Deployment = ReconcilePostgresDeployment,
     postgres_Restart = RestartPostgres,
     otelcollector_Resources = ReconcileOtelCollectorResources, otelcollector_Deployment = ReconcileOtelCollectorDeployment,
     otelcollector_Restart = RestartOtelCollector,
     appserver_Resources = ReconcileAppServerResources, appserver_Deployment = ReconcileAppServerDeployment,
     appserver_Restart = RestartAppServer,
     agenticintegration_Resources = ReconcileAgenticIntegrationResources,
     agenticintegration_Touch = TouchAgenticConfiguration\<rparr>"

text \<open>
  The application server is the last step of the first phase and the collector the one before it,
  so what they establish holds when the phase ends.
\<close>

lemma gather_resource_last:
  "\<exists>pre fails w1. run_state (gather_resource_steps ops r cr) w =
     ((pre @ (if OtelCollectorImage (Options r) \<noteq> []
        then [resource_step ''OTEL Collector resources'' (otelcollector_Resources ops r)] else []) @
       [resource_step ''application server resources'' (appserver_Resources ops r)], fails), w1)"
  by (simp add: gather_resource_steps_def split: prod.splits)

lemma phase1_last_steps:
  assumes run: "run_state (reconcileIndependentResources c r cr) w = (None, w')"
  shows "\<exists>w1 w2. run_state (appserver_Resources (ct_operands c) r cr) w2 = (None, w') \<and>
     (OtelCollectorImage (Options r) \<noteq> [] \<longrightarrow> run_state (otelcollector_Resources (ct_operands c) r cr) w1 = (None, w2))"
proof -
  obtain pre fails w1 where g: "run_state (gather_resource_steps (ct_operands c) r cr) w =
     ((pre @ (if OtelCollectorImage (Options r) \<noteq> []
        then [resource_step ''OTEL Collector resources'' (otelcollector_Resources (ct_operands c) r)] else []) @
       [resource_step ''application server resources'' (appserver_Resources (ct_operands c) r)], fails), w1)"
    using gather_resource_last [of "ct_operands c" r cr w] by (elim exE)
  let ?last = "(if OtelCollectorImage (Options r) \<noteq> []
        then [resource_step ''OTEL Collector resources'' (otelcollector_Resources (ct_operands c) r)] else []) @
       [resource_step ''application server resources'' (appserver_Resources (ct_operands c) r)]"
  obtain es1 w2 where pre: "run_through (map (\<lambda>s. rs_Fn s cr) pre) w1 = (es1, w2)" by force
  obtain es2 w3 where last: "run_through (map (\<lambda>s. rs_Fn s cr) ?last) w2 = (es2, w3)" by force
  have "run_through (map (\<lambda>s. rs_Fn s cr) (pre @ ?last)) w1 = (es1 @ es2, w3)"
    using pre last by (simp add: run_through_append del: append_assoc)
  from phase1_run [OF g this run] have "\<forall>x \<in> set es2. x = None" "w' = w3" by auto
  then show ?thesis using last
    by (cases "OtelCollectorImage (Options r) = []") (auto simp: resource_step_def split: prod.splits)+
qed

lemma otel_apart: "k \<in> \<Union> (fst ` set (otel_resource_specs r cr)) \<Longrightarrow> k \<notin> app_resource_keys r"
  by (auto simp: otel_resource_specs_def app_resource_keys_def stream_keys_def) (simp_all add: go_const)

text \<open>
  (C3) The first phase of the whole operator. When it succeeds, the configuration file of the
  application server is the one built from the objects that are stored at the end of the phase, its
  image streams, account and policy are current and, with the collector enabled, the
  collector's configuration is current and its connection string holds the database password that
  is stored at the end, although the database, the collector and the application server are
  reconciled one after the other.
\<close>

theorem operator_phase1_current:
  assumes "api_ok r v" "walk_ok r v" "app_config_key r \<notin> config_reads r cr" "ct_operands c = operator_operands"
    "run_state (reconcileIndependentResources c r cr) w = (None, w')"
  shows "holds_file r cr (v w') \<and> streams_current r cr (v w') \<and>
    v w' (app_key r ServiceAccount OLSAppServerServiceAccountName) \<noteq> None \<and>
    (\<exists>s. v w' (app_key r NetworkPolicy OLSAppServerNetworkPolicyName) = Some s \<and>
       spec_current (GenerateAppServerNetworkPolicy r cr) s) \<and>
    (OtelCollectorImage (Options r) \<noteq> [] \<longrightarrow> holds_config r cr (v w') \<and> holds_dsn r (v w'))"
proof -
  obtain w1 w2 where app: "run_state (ReconcileAppServerResources r cr) w2 = (None, w')"
    and otel: "OtelCollectorImage (Options r) \<noteq> [] \<longrightarrow> run_state (ReconcileOtelCollectorResources r cr) w1 = (None, w2)"
    using phase1_last_steps [OF assms(5)] unfolding assms(4) by (auto simp: operator_operands_def)
  note facts = app_resources_facts [OF assms(1-3) app]
  have "holds_config r cr (v w') \<and> holds_dsn r (v w')" if "OtelCollectorImage (Options r) \<noteq> []"
  proof -
    note run = otel [rule_format, OF that]
    note en = ensuresD(1,3) [OF ensures_otel_resources [OF assms(1)] run]
    have "\<forall>k \<in> \<Union> (fst ` set (otel_resource_specs r cr)). v w2 k = v w' k"
    proof
      fix k assume "k \<in> \<Union> (fst ` set (otel_resource_specs r cr))"
      then show "v w2 k = v w' k" using conjunct2 [OF facts, rule_format] otel_apart [of k r cr] by simp
    qed
    from en(2) [unfolded on_keys_def, rule_format, OF this [rule_format]] en(1)
    have "\<forall>(K, G) \<in> set (otel_resource_specs r cr). G (v w')" by simp
    then show ?thesis by (simp add: otel_resource_specs_def)
  qed
  then show ?thesis using facts by blast
qed

subsection \<open>A sample run\<close>

definition operator_cr :: OLSConfig where
  "operator_cr = (blank_cr [])\<lparr>cr_Spec := (cr_Spec (blank_cr []))\<lparr>s_OLSConfig := blank_ols\<lparr>
     o_IntrospectionEnabled := Some False, o_ByokRAGOnly := True,
     o_UserDataCollection := \<lparr>ud_FeedbackDisabled = True, ud_TranscriptsDisabled = True\<rparr>\<rparr>\<rparr>\<rparr>"

definition operator_control :: "'w control" where
  "operator_control = \<lparr>ct_operands = operator_operands, ct_retry = attempts 4, map_range = (\<lambda>l. l), map_range_again = (\<lambda>l. l)\<rparr>"

lemma operator_cr_plain: "plain_cr operator_cr" "app_ready operator_cr app_cluster"
  by (simp_all add: plain_cr_def app_ready_def operator_cr_def blank_cr_def blank_ols_def app_cluster_view)

lemma app_ready_keeps:
  assumes "app_ready operator_cr w" "mem_view w' (ConfigMap, ''ols'', ''kube-root-ca.crt'') = mem_view w (ConfigMap, ''ols'', ''kube-root-ca.crt'')"
    "mem_view w' (APIServer, [], APIServerName) = mem_view w (APIServer, [], APIServerName)"
  shows "app_ready operator_cr w'"
  using assms by (simp add: app_ready_def operator_cr_def)

lemma console_task_keys:
  "own ConfigMap r (GenerateConsoleUIConfigMap r cr)" "own NetworkPolicy r (GenerateConsoleUINetworkPolicy r cr)"
  "own ServiceAccount r (GenerateConsoleUIServiceAccount r cr)"
  "key_of (GenerateConsoleUIConfigMap r cr) = (ConfigMap, GetNamespace r, ConsoleUIConfigMapName)"
  by (simp_all add: own_def key_of_def set_controller_def new_meta_def GenerateConsoleUIConfigMap_def GenerateConsolePluginNginxConfigMap_def GenerateConsoleUINetworkPolicy_def
      GenerateConsolePluginNetworkPolicy_def GenerateConsoleUIServiceAccount_def GenerateServiceAccount_def)

lemma console_resources_frame:
  assumes api: "api_ok r v" and run: "run_state (ReconcileConsoleUIResources r cr) w = (e, w')"
    and k: "k \<notin> {key_of (GenerateConsoleUIConfigMap r cr), key_of (GenerateConsoleUINetworkPolicy r cr), key_of (GenerateConsoleUIServiceAccount r cr)}"
  shows "v w' k = v w k"
proof -
  let ?cm = "GenerateConsoleUIConfigMap r cr" and ?np = "GenerateConsoleUINetworkPolicy r cr" and ?sa = "GenerateConsoleUIServiceAccount r cr"
  have key: "key_of ?np = own_key NetworkPolicy r ?np" using console_task_keys(2) [of r cr] by (simp add: own_def)
  have "ensures v {key_of ?np} (\<lambda>f. \<exists>s. f (key_of ?np) = Some s \<and> True) (reconcileConsoleNetworkPolicy r cr)"
    unfolding reconcileConsoleNetworkPolicy_def ReconcileConsolePluginNetworkPolicy_def key
    by (rule ensures_create_or_update [OF api key])
      (use ownD [OF console_task_keys(2)] key in \<open>auto simp: keeps_life_def key_of_def\<close>)
  moreover note settles_ensures [OF plugin_cm.settles_recon [OF api console_task_keys(1)], of cr]
    settles_ensures [OF plugin_sa.settles_recon [OF api console_task_keys(3)], of cr]
  ultimately have all: "list_all2 (\<lambda>(n, t) (K, G). ensures v K G (t r cr))
      [(''reconcile Console Plugin ConfigMap'', reconcileConsoleUIConfigMap),
       (''reconcile Console Plugin NetworkPolicy'', reconcileConsoleNetworkPolicy),
       (''reconcile Console Plugin Service Account'', reconcileConsoleUIServiceAccount)]
      [({key_of ?cm}, \<lambda>f. \<exists>s. f (key_of ?cm) = Some s \<and> cm_data (k_payload s) = cm_data (k_payload ?cm)),
       ({key_of ?np}, \<lambda>f. \<exists>s. f (key_of ?np) = Some s \<and> True), ({key_of ?sa}, \<lambda>f. \<exists>s. f (key_of ?sa) = Some s \<and> True)]"
    by (simp add: reconcileConsoleUIConfigMap_def reconcileConsoleUIServiceAccount_def)
  have disj: "disjoint_specs [({key_of ?cm}, \<lambda>f. \<exists>s. f (key_of ?cm) = Some s \<and> cm_data (k_payload s) = cm_data (k_payload ?cm)),
       ({key_of ?np}, \<lambda>f. \<exists>s. f (key_of ?np) = Some s \<and> True), ({key_of ?sa}, \<lambda>f. \<exists>s. f (key_of ?sa) = Some s \<and> True)]"
    using console_task_keys(1-3) [of r cr] by (auto simp: disjoint_specs_def own_def)
  show ?thesis
    by (rule ensuresD(2) [OF ensures_RunReconcileTasks [OF all disj] run [unfolded ReconcileConsoleUIResources_def]]) (use k in simp)
qed

lemma postgres_resources_frame:
  assumes api: "api_ok r v" "rand_ok r v" and run: "run_state (ReconcilePostgresResources r cr) w = (e, w')"
    and k: "fst k \<noteq> Secret" "k \<notin> {(ConfigMap, GetNamespace r, PostgresConfigMap), (NetworkPolicy, GetNamespace r, PostgresNetworkPolicyName),
      (ServiceAccount, GetNamespace r, PostgreServiceAccountName)}"
  shows "v w' k = v w k"
proof (rule run_named_keeps [where P = "\<lambda>x. v x k = v w k", OF _ refl run [unfolded ReconcilePostgresResources_def]])
  fix n t wa ea wb
  assume task: "(n, t) \<in> set postgres_resource_tasks" and s: "v wa k = v w k" and run: "run_state (t r cr) wa = (ea, wb)"
  have "k \<noteq> pg_boot_key r" using k(1) by auto
  then have "v wb k = v wa k"
    using task run k postgres_create_frames [OF api(1), of cr wa ea wb k] postgres_policy_frame [OF api(1), of cr wa ea wb k]
      reconcilePostgresSecret_run(3) [OF api, of cr wa ea wb k]
    by (auto simp: postgres_resource_tasks_def)
  then show "v wb k = v w k" using s by simp
qed

lemma mem_console_resources: "fst (run_state (ReconcileConsoleUIResources (mem_reconciler op) cr) w) = None"
  unfolding ReconcileConsoleUIResources_def
proof (rule tasks_succeed [where P = "\<lambda>w. True"])
  let ?r = "mem_reconciler op"
  let ?cm = "GenerateConsoleUIConfigMap ?r cr" and ?np = "GenerateConsoleUINetworkPolicy ?r cr"
    and ?sa = "GenerateConsoleUIServiceAccount ?r cr"
  have keys: "key_of ?cm = own_key ConfigMap ?r ?cm" "key_of ?np = own_key NetworkPolicy ?r ?np" "key_of ?sa = own_key ServiceAccount ?r ?sa"
    using console_task_keys(1-3) [of ?r cr] by (simp_all add: own_def)
  have kinds: "kind_of (k_payload ?cm) = ConfigMap" "kind_of (k_payload ?np) = NetworkPolicy"
    using console_task_keys(1,2) ownD by blast+
  have cm: "fst (run_state (reconcileConsoleUIConfigMap ?r cr) w) = None" for w
    unfolding reconcileConsoleUIConfigMap_def ReconcileConsolePluginConfigMap_def
    by (rule mem_create_or_update [OF keys(1)]) (simp add: key_of_def)
  have np: "fst (run_state (reconcileConsoleNetworkPolicy ?r cr) w) = None" for w
    unfolding reconcileConsoleNetworkPolicy_def ReconcileConsolePluginNetworkPolicy_def
    by (rule mem_create_or_update [OF keys(2)]) (use kinds in \<open>simp add: key_of_def\<close>)
  have sa: "fst (run_state (reconcileConsoleUIServiceAccount ?r cr) w) = None" for w
    using mem_create_missing [OF keys(3)]
    by (simp add: reconcileConsoleUIServiceAccount_def ReconcileConsolePluginServiceAccount_def create_missing_def)
  fix n w and t :: "mem reconcile_fn"
  assume "(n, t) \<in> set [(''reconcile Console Plugin ConfigMap'', reconcileConsoleUIConfigMap),
      (''reconcile Console Plugin NetworkPolicy'', reconcileConsoleNetworkPolicy),
      (''reconcile Console Plugin Service Account'', reconcileConsoleUIServiceAccount)]"
  then show "fst (run_state (t ?r cr) w) = None \<and> True" using cm np sa by auto
qed simp

lemma gather_operator_cr:
  "run_state (gather_resource_steps ops app_sample operator_cr) w =
     (([resource_step ''console UI resources'' (console_Resources ops app_sample),
        resource_step ''postgres resources'' (postgres_Resources ops app_sample),
        resource_step ''application server resources'' (appserver_Resources ops app_sample)], []), w)"
  by (simp add: gather_resource_steps_def optional_resources_def introspection_def byok_only_def wasComponentEnabled_def
      operator_cr_def blank_cr_def blank_ols_def BoolDeref_def no_options_def)

theorem operator_phase1_current_witness:
  "\<exists>w'. run_state (reconcileIndependentResources operator_control app_sample operator_cr) app_cluster = (None, w') \<and>
     holds_file app_sample operator_cr (mem_view w') \<and> streams_current app_sample operator_cr (mem_view w')"
proof -
  let ?r = app_sample and ?cr = operator_cr
  let ?root = "(ConfigMap, ''ols'', ''kube-root-ca.crt'')" and ?api = "(APIServer, [], APIServerName)"
  obtain w1 where w1: "run_state (ReconcileConsoleUIResources ?r ?cr) app_cluster = (None, w1)"
    using mem_console_resources by (metis prod.collapse)
  obtain w2 where w2: "run_state (ReconcilePostgresResources ?r ?cr) w1 = (None, w2)"
    using mem_postgres_resources by (metis prod.collapse)
  have v1: "mem_view w1 k = mem_view app_cluster k" if "k \<in> {?root, ?api}" for k
    by (rule console_resources_frame [OF mem_reconciler_ok w1])
      (use that console_task_keys(2,3) [of ?r ?cr] in \<open>auto simp: console_task_keys(4) own_def ConsoleUIConfigMapName_def\<close>)
  have v2: "mem_view w2 k = mem_view w1 k" if "k \<in> {?root, ?api}" for k
    by (rule postgres_resources_frame [OF mem_reconciler_ok mem_rand_ok w2]) (use that in \<open>auto simp: PostgresConfigMap_def\<close>)
  have "app_ready ?cr w2" by (rule app_ready_keeps [OF operator_cr_plain(2)]) (simp_all add: v1 v2)
  then obtain w3 where w3: "run_state (ReconcileAppServerResources ?r ?cr) w2 = (None, w3)"
    using mem_app_resources [OF operator_cr_plain(1)] by (metis prod.collapse)
  have ops: "ct_operands operator_control = operator_operands" by (simp add: operator_control_def)
  obtain e w' where run: "run_state (reconcileIndependentResources operator_control ?r ?cr) app_cluster = (e, w')" by force
  note phase1_run [of operator_control, unfolded ops, OF gather_operator_cr _ run]
  then have "e = None" by (simp add: resource_step_def operator_operands_def w1 w2 w3)
  with run operator_phase1_current [OF mem_reconciler_ok mem_walk_ok app_sample_apart [OF operator_cr_plain(1)] ops, of app_cluster w']
  show ?thesis by auto
qed

end
